(* ===== verification/Prelude.thy ===== *)
theory Prelude
  imports
    Main
    "HOL-Library.AList"
    "HOL-Library.Char_ord"
    "HOL-Library.List_Lexorder"
    "HOL-Library.Product_Lexorder"
    "HOL-Library.Word"
begin

text \<open>
  Shared vocabulary of the development: results of fallible code, Python dictionaries as
  association lists in insertion order, Python strings, UUIDs and the supply that stands for
  \<open>uuid4()\<close>, and UTC instants. Every other theory imports this one.

  Conventions.
  \<^item> A raised exception is \<open>Inl e\<close>, a returned value \<open>Inr v\<close>.
  \<^item> A Python \<open>dict\<close> is an association list: \<open>d[k] = v\<close> is \<^const>\<open>AList.update\<close>, which
    replaces in place or appends at the end, exactly the insertion order Python keeps.
  \<^item> A Python \<open>str\<close> is a \<open>string\<close> whose characters are the code points below 256. Where larger
    code points matter (UTF-8, server-sent events, request paths, image instructions) a text is
    the list of code points of \<open>Utf8\<close> instead.
  \<^item> A timezone-aware \<open>datetime\<close> after \<open>require_utc\<close> is an integer number of microseconds.
\<close>

named_theorems result_simps "evaluation of fallible computations"
named_theorems dict_simps "laws of insertion-ordered dictionaries"

section \<open>Fallible results\<close>

definition bind_result :: "'e + 'a \<Rightarrow> ('a \<Rightarrow> 'e + 'b) \<Rightarrow> 'e + 'b" where
  "bind_result r f = (case r of Inl e \<Rightarrow> Inl e | Inr x \<Rightarrow> f x)"

lemma bind_result_Inl [simp, result_simps]: "bind_result (Inl e) f = Inl e"
  by (simp add: bind_result_def)

lemma bind_result_Inr [simp, result_simps]: "bind_result (Inr x) f = f x"
  by (simp add: bind_result_def)

lemma bind_result_eq_Inr [result_simps]:
  "bind_result r f = Inr y \<longleftrightarrow> (\<exists>x. r = Inr x \<and> f x = Inr y)"
  by (cases r) simp_all

lemma if_Inl_eq_Inr [result_simps]:
  "(if b then Inl e else r) = Inr y \<longleftrightarrow> \<not> b \<and> r = Inr y"
  by simp

lemma case_option_Inl_eq_Inr [result_simps]:
  "(case x of None \<Rightarrow> Inl e | Some a \<Rightarrow> f a) = Inr y \<longleftrightarrow> (\<exists>a. x = Some a \<and> f a = Inr y)"
  by (cases x) simp_all

section \<open>Dictionaries\<close>

type_synonym ('k, 'v) dict = "('k \<times> 'v) list"

abbreviation dict_get :: "('k, 'v) dict \<Rightarrow> 'k \<Rightarrow> 'v option" where
  "dict_get \<equiv> map_of"

abbreviation dict_put :: "('k, 'v) dict \<Rightarrow> 'k \<Rightarrow> 'v \<Rightarrow> ('k, 'v) dict" where
  "dict_put d k v \<equiv> AList.update k v d"

abbreviation dict_values :: "('k, 'v) dict \<Rightarrow> 'v list" where
  "dict_values d \<equiv> map snd d"

abbreviation dict_keys :: "('k, 'v) dict \<Rightarrow> 'k list" where
  "dict_keys d \<equiv> map fst d"

lemma dict_get_put [dict_simps]:
  "dict_get (dict_put d k v) j = (if j = k then Some v else dict_get d j)"
  by (simp add: update_conv)

lemma dict_keys_put [dict_simps]:
  "fst ` set (dict_put d k v) = insert k (fst ` set d)"
  by (induction d) auto

lemma dict_values_put_subset:
  "set (dict_values (dict_put d k v)) \<subseteq> insert v (set (dict_values d))"
  by (induction d) auto

lemma dict_value_in_put: "v \<in> set (dict_values (dict_put d k v))"
  by (induction d) auto

lemma dict_get_in_values: "dict_get d k = Some v \<Longrightarrow> v \<in> set (dict_values d)"
  by (metis map_of_SomeD list.set_map image_eqI snd_conv)

lemma dict_values_get:
  "distinct (dict_keys d) \<Longrightarrow> v \<in> set (dict_values d) \<Longrightarrow> \<exists>k. dict_get d k = Some v"
  by (metis (no_types, opaque_lifting) imageE list.set_map map_of_eq_Some_iff prod.collapse)

text \<open>
  Replacing a value under a key that is present keeps the order of the keys; under a new key it
  appends. This is what makes \<open>for x in d.values()\<close> deterministic.
\<close>

lemma dict_put_present [dict_simps]:
  "k \<in> fst ` set d \<Longrightarrow> dict_keys (dict_put d k v) = dict_keys d"
  by (induction d) auto

lemma dict_put_absent [dict_simps]:
  "k \<notin> fst ` set d \<Longrightarrow> dict_put d k v = d @ [(k, v)]"
  by (induction d) auto

lemma dict_get_Some_key: "dict_get d k = Some v \<Longrightarrow> k \<in> fst ` set d"
  by (metis map_of_eq_None_iff option.distinct(1))

subsection \<open>The keyed-store interface\<close>

text \<open>
  What the aggregate relies on of its tables: a lookup after a store sees exactly the stored value
  and no other key changes. Tables of entities are keyed by the entity's own identifier, and every
  writer of the aggregate keeps them so; the interface proves that once.
\<close>

locale keyed_store =
  fixes lookup :: "'t \<Rightarrow> 'k \<Rightarrow> 'v option"
    and store :: "'t \<Rightarrow> 'k \<Rightarrow> 'v \<Rightarrow> 't"
    and key_of :: "'v \<Rightarrow> 'k"
  assumes lookup_store: "lookup (store t k v) j = (if j = k then Some v else lookup t j)"
begin

definition keyed :: "'t \<Rightarrow> bool" where
  "keyed t \<longleftrightarrow> (\<forall>k v. lookup t k = Some v \<longrightarrow> key_of v = k)"

lemma keyed_store_own: "keyed t \<Longrightarrow> keyed (store t (key_of v) v)"
  by (simp add: keyed_def lookup_store)

lemma keyed_lookup: "keyed t \<Longrightarrow> lookup t k = Some v \<Longrightarrow> key_of v = k"
  by (simp add: keyed_def)

lemma store_frame: "j \<noteq> k \<Longrightarrow> lookup (store t k v) j = lookup t j"
  by (simp add: lookup_store)

end

section \<open>Universally unique identifiers\<close>

text \<open>
  A \<open>UUID\<close> is its 128-bit integer: equality and ordering are those of the integer, and
  \<open>str(uuid)\<close> is the lower-case hexadecimal form with hyphens.
\<close>

datatype uuid = Uuid (uuid_int: "128 word")

instantiation uuid :: linorder
begin

definition less_eq_uuid :: "uuid \<Rightarrow> uuid \<Rightarrow> bool" where
  "less_eq_uuid a b \<longleftrightarrow> uuid_int a \<le> uuid_int b"

definition less_uuid :: "uuid \<Rightarrow> uuid \<Rightarrow> bool" where
  "less_uuid a b \<longleftrightarrow> uuid_int a < uuid_int b"

instance
  by standard (auto simp: less_eq_uuid_def less_uuid_def uuid.expand)

end

text \<open>
  \<open>uuid4()\<close> is random: a run of the code sees some sequence of identifiers, which is the argument
  \<open>u\<close> of every operation that creates one. The \<open>i\<close>-th call of the operation returns \<open>u i\<close>.
\<close>

type_synonym uuid_supply = "nat \<Rightarrow> uuid"

definition drop_supply :: "nat \<Rightarrow> uuid_supply \<Rightarrow> uuid_supply" where
  "drop_supply n u = (\<lambda>i. u (n + i))"

lemma drop_supply_0 [simp]: "drop_supply 0 u = u"
  by (simp add: drop_supply_def)

lemma drop_supply_drop [simp]: "drop_supply m (drop_supply n u) = drop_supply (n + m) u"
  by (simp add: drop_supply_def add.assoc)

section \<open>Instants\<close>

type_synonym datetime = int

section \<open>Python strings\<close>

text \<open>\<open>str.isspace\<close> of one code point below 256.\<close>

definition py_isspace :: "char \<Rightarrow> bool" where
  "py_isspace c = (let n = (of_char c :: nat) in
     (9 \<le> n \<and> n \<le> 13) \<or> (28 \<le> n \<and> n \<le> 32) \<or> n = 133 \<or> n = 160)"

definition py_strip :: "string \<Rightarrow> string" where
  "py_strip s = rev (dropWhile py_isspace (rev (dropWhile py_isspace s)))"

lemma py_strip_no_leading_space: "py_strip s \<noteq> [] \<Longrightarrow> \<not> py_isspace (last (py_strip s))"
  unfolding py_strip_def
  by (metis hd_dropWhile last_rev rev_is_Nil_conv dropWhile_eq_Nil_conv)

text \<open>\<open>str.split()\<close> without arguments: the maximal runs of non-space characters.\<close>

fun py_split_acc :: "string \<Rightarrow> string \<Rightarrow> string list" where
  "py_split_acc acc [] = (if acc = [] then [] else [rev acc])"
| "py_split_acc acc (c # cs) =
     (if py_isspace c then (if acc = [] then py_split_acc [] cs else rev acc # py_split_acc [] cs)
      else py_split_acc (c # acc) cs)"

definition py_split :: "string \<Rightarrow> string list" where
  "py_split s = py_split_acc [] s"

text \<open>\<open>sep.join(xs)\<close>.\<close>

fun py_join :: "string \<Rightarrow> string list \<Rightarrow> string" where
  "py_join sep [] = []"
| "py_join sep [x] = x"
| "py_join sep (x # xs) = x @ sep @ py_join sep xs"

definition digit_char :: "nat \<Rightarrow> char" where
  "digit_char n = char_of (48 + n)"

fun nat_str :: "nat \<Rightarrow> string" where
  "nat_str n = (if n < 10 then [digit_char n] else nat_str (n div 10) @ [digit_char (n mod 10)])"

declare nat_str.simps [simp del]

definition int_str :: "int \<Rightarrow> string" where
  "int_str i = (if i < 0 then ''-'' @ nat_str (nat (- i)) else nat_str (nat i))"

definition hex_char :: "nat \<Rightarrow> char" where
  "hex_char n = (if n < 10 then char_of (48 + n) else char_of (87 + n))"

fun hex_digits :: "nat \<Rightarrow> nat \<Rightarrow> string" where
  "hex_digits 0 n = []"
| "hex_digits (Suc k) n = hex_digits k (n div 16) @ [hex_char (n mod 16)]"

definition uuid_str :: "uuid \<Rightarrow> string" where
  "uuid_str x = (let h = hex_digits 32 (unat (uuid_int x)) in
     take 8 h @ ''-'' @ take 4 (drop 8 h) @ ''-'' @ take 4 (drop 12 h) @ ''-''
       @ take 4 (drop 16 h) @ ''-'' @ drop 20 h)"

text \<open>\<open>repr(s)\<close> of a string: the quote is a double one only when the text has a single one and no
  double one; control and other non-printable code points are escaped.\<close>

definition py_printable :: "char \<Rightarrow> bool" where
  "py_printable c = (let n = (of_char c :: nat) in
     32 \<le> n \<and> n \<noteq> 127 \<and> \<not> (128 \<le> n \<and> n \<le> 160) \<and> n \<noteq> 173)"

definition repr_char :: "char \<Rightarrow> char \<Rightarrow> string" where
  "repr_char q c =
     (if c = q \<or> c = CHR 0x5C then [CHR 0x5C, c]
      else if c = CHR 0x0A then [CHR 0x5C, CHR ''n'']
      else if c = CHR 0x0D then [CHR 0x5C, CHR ''r'']
      else if c = CHR 0x09 then [CHR 0x5C, CHR ''t'']
      else if py_printable c then [c]
      else [CHR 0x5C, CHR ''x''] @ hex_digits 2 (of_char c))"

definition py_repr_str :: "string \<Rightarrow> string" where
  "py_repr_str s =
     (let q = (if CHR 0x27 \<in> set s \<and> CHR 0x22 \<notin> set s then CHR 0x22 else CHR 0x27)
      in [q] @ concat (map (repr_char q) s) @ [q])"

section \<open>JSON values\<close>

text \<open>
  Values of type \<open>Any\<close> that came from JSON. A number with a fractional part or exponent is kept as
  the text Python prints for it; no operation of the model computes with one.
\<close>

datatype json =
    JNull
  | JBool bool
  | JInt int
  | JFloat string
  | JStr string
  | JArr "json list"
  | JObj "(string \<times> json) list"

text \<open>\<open>bool(value)\<close>.\<close>

fun py_truthy :: "json \<Rightarrow> bool" where
  "py_truthy JNull = False"
| "py_truthy (JBool b) = b"
| "py_truthy (JInt i) = (i \<noteq> 0)"
| "py_truthy (JFloat s) = (s \<noteq> ''0.0'' \<and> s \<noteq> ''-0.0'')"
| "py_truthy (JStr s) = (s \<noteq> [])"
| "py_truthy (JArr xs) = (xs \<noteq> [])"
| "py_truthy (JObj d) = (d \<noteq> [])"

text \<open>\<open>repr(value)\<close>, and \<open>str(value)\<close> which differs only on strings.\<close>

fun py_repr :: "json \<Rightarrow> string" where
  "py_repr JNull = ''None''"
| "py_repr (JBool b) = (if b then ''True'' else ''False'')"
| "py_repr (JInt i) = int_str i"
| "py_repr (JFloat s) = s"
| "py_repr (JStr s) = py_repr_str s"
| "py_repr (JArr xs) = ''['' @ py_join '', '' (map py_repr xs) @ '']''"
| "py_repr (JObj d) =
     [CHR 0x7B] @ py_join '', '' (map (\<lambda>(k, v). py_repr_str k @ '': '' @ py_repr v) d) @ [CHR 0x7D]"

definition py_str :: "json \<Rightarrow> string" where
  "py_str v = (case v of JStr s \<Rightarrow> s | _ \<Rightarrow> py_repr v)"

text \<open>\<open>d.get(a) or d.get(b) or \<dots>\<close>: the first truthy value of the keys, else the last one read.\<close>

fun get_or :: "(string \<times> json) list \<Rightarrow> string list \<Rightarrow> json" where
  "get_or d [] = JNull"
| "get_or d [k] = (case dict_get d k of None \<Rightarrow> JNull | Some v \<Rightarrow> v)"
| "get_or d (k # ks) =
     (case dict_get d k of
        Some v \<Rightarrow> if py_truthy v then v else get_or d ks
      | None \<Rightarrow> get_or d ks)"

section \<open>Lists\<close>

lemma find_None_iff_all: "List.find P xs = None \<longleftrightarrow> (\<forall>x \<in> set xs. \<not> P x)"
  by (auto simp: find_None_iff)

lemma find_SomeD: "List.find P xs = Some x \<Longrightarrow> x \<in> set xs \<and> P x"
  by (metis find_Some_iff nth_mem)

lemma filter_empty_iff: "filter P xs = [] \<longleftrightarrow> (\<forall>x \<in> set xs. \<not> P x)"
  by (simp add: filter_empty_conv)

end
