(* ===== verification/Machines.thy ===== *)
theory Machines
  imports Prelude
begin

text \<open>
  Labelled transition systems: runs of a step relation whose labels are what a step emits, and the
  interfaces the development states its system properties through. A component provides a step
  relation and the one-step laws; the interface gives the property for every run.
\<close>

section \<open>Runs\<close>

inductive run :: "('s \<Rightarrow> 'l \<Rightarrow> 's \<Rightarrow> bool) \<Rightarrow> 's \<Rightarrow> 'l list \<Rightarrow> 's \<Rightarrow> bool"
  for step :: "'s \<Rightarrow> 'l \<Rightarrow> 's \<Rightarrow> bool" where
  run_nil: "run step s [] s"
| run_cons: "step s l t \<Longrightarrow> run step t ls w \<Longrightarrow> run step s (l # ls) w"

inductive_simps run_nil_iff [simp]: "run step s [] t"
inductive_simps run_cons_iff: "run step s (l # ls) t"

lemma run_append:
  "run step s ls t \<Longrightarrow> run step t ls' w \<Longrightarrow> run step s (ls @ ls') w"
  by (induction rule: run.induct) (auto intro: run.intros)

lemma run_single: "step s l t \<Longrightarrow> run step s [l] t"
  by (auto intro: run.intros)

section \<open>Inductive invariants\<close>

locale invariant_system =
  fixes init :: "'s \<Rightarrow> bool"
    and step :: "'s \<Rightarrow> 'l \<Rightarrow> 's \<Rightarrow> bool"
    and inv :: "'s \<Rightarrow> bool"
  assumes inv_init: "init s \<Longrightarrow> inv s"
    and inv_step: "inv s \<Longrightarrow> step s l t \<Longrightarrow> inv t"
begin

lemma inv_run: "run step s ls t \<Longrightarrow> inv s \<Longrightarrow> inv t"
  by (induction rule: run.induct) (auto intro: inv_step)

lemma inv_reachable: "init s \<Longrightarrow> run step s ls t \<Longrightarrow> inv t"
  using inv_init inv_run by blast

end

section \<open>Logs numbered without a gap\<close>

locale numbered_log = invariant_system init step inv
  for init :: "'s \<Rightarrow> bool" and step :: "'s \<Rightarrow> 'e list \<Rightarrow> 's \<Rightarrow> bool" and inv :: "'s \<Rightarrow> bool" +
  fixes number :: "'e \<Rightarrow> int"
    and next_number :: "'s \<Rightarrow> int"
  assumes step_numbers: "inv s \<Longrightarrow> step s es t \<Longrightarrow>
      map number es = [next_number s..next_number t - 1] \<and> next_number s \<le> next_number t"
begin

lemma run_numbers:
  "run step s ess t \<Longrightarrow> inv s \<Longrightarrow>
     map number (concat ess) = [next_number s..next_number t - 1] \<and> next_number s \<le> next_number t"
proof (induction rule: run.induct)
  case (run_nil s)
  then show ?case by simp
next
  case (run_cons s es t ess w)
  have st: "map number es = [next_number s..next_number t - 1]" "next_number s \<le> next_number t"
    using step_numbers run_cons.prems run_cons.hyps(1) by blast+
  have tw: "map number (concat ess) = [next_number t..next_number w - 1]" "next_number t \<le> next_number w"
    using run_cons.IH inv_step run_cons.prems run_cons.hyps(1) by blast+
  have "[next_number s..next_number t - 1] @ [next_number t..next_number w - 1]
      = [next_number s..next_number w - 1]"
    using st(2) tw(2) upto_split2 [of "next_number s" "next_number t - 1" "next_number w - 1"]
    by (cases "next_number s = next_number t") auto
  with st tw show ?case by simp
qed

lemma numbers_distinct: "run step s ess t \<Longrightarrow> inv s \<Longrightarrow> distinct (map number (concat ess))"
  using run_numbers by simp

end

section \<open>Logs that determine the abstract state\<close>

locale event_sourced = invariant_system init step inv
  for init :: "'s \<Rightarrow> bool" and step :: "'s \<Rightarrow> 'e list \<Rightarrow> 's \<Rightarrow> bool" and inv :: "'s \<Rightarrow> bool" +
  fixes abs :: "'s \<Rightarrow> 'a"
    and replay_log :: "'a \<Rightarrow> 'e list \<Rightarrow> 'a option"
  assumes replay_nil: "replay_log a [] = Some a"
    and replay_split: "replay_log a (es @ es') =
      (case replay_log a es of None \<Rightarrow> None | Some b \<Rightarrow> replay_log b es')"
    and replay_step: "inv s \<Longrightarrow> step s es t \<Longrightarrow> replay_log (abs s) es = Some (abs t)"
begin

lemma replay_run:
  "run step s ess t \<Longrightarrow> inv s \<Longrightarrow> replay_log (abs s) (concat ess) = Some (abs t)"
  by (induction rule: run.induct) (simp_all add: replay_nil replay_split replay_step inv_step)

text \<open>Two runs from the same state with the same log end in the same abstract state.\<close>

lemma log_determines:
  "run step s ess t \<Longrightarrow> run step s ess' t' \<Longrightarrow> inv s \<Longrightarrow> concat ess = concat ess' \<Longrightarrow> abs t = abs t'"
  using replay_run by (metis option.inject)

end

section \<open>Facts that once true stay true\<close>

locale permanence = invariant_system init step inv
  for init :: "'s \<Rightarrow> bool" and step :: "'s \<Rightarrow> 'l \<Rightarrow> 's \<Rightarrow> bool" and inv :: "'s \<Rightarrow> bool" +
  fixes kept :: "'s \<Rightarrow> 's \<Rightarrow> bool"
  assumes kept_refl: "kept s s"
    and kept_trans: "kept s t \<Longrightarrow> kept t w \<Longrightarrow> kept s w"
    and kept_step: "inv s \<Longrightarrow> step s l t \<Longrightarrow> kept s t"
begin

lemma kept_run: "run step s ls t \<Longrightarrow> inv s \<Longrightarrow> kept s t"
  by (induction rule: run.induct) (blast intro: kept_refl kept_trans kept_step inv_step)+

end

end
