(* ===== verification/Enums.thy ===== *)
theory Enums
  imports Prelude
begin

text \<open>
  The wire-stable enumerations of \<open>tth-types/src/tth_types/enums.py\<close>, one datatype per
  \<open>StrEnum\<close>, constructors named after the members. Where the code prints a member in a message,
  \<open>\<dots>_value\<close> gives its wire string.
\<close>

datatype (plugins only: code size) harness_kind =
  GROK | CURSOR | CODEX | CLAUDE | OPENCODE | PRIME_AGENT | MUSE

fun harness_kind_value :: "harness_kind \<Rightarrow> string" where
  "harness_kind_value GROK = ''grok''"
| "harness_kind_value CURSOR = ''cursor''"
| "harness_kind_value CODEX = ''codex''"
| "harness_kind_value CLAUDE = ''claude''"
| "harness_kind_value OPENCODE = ''opencode''"
| "harness_kind_value PRIME_AGENT = ''prime_agent''"
| "harness_kind_value MUSE = ''muse''"

datatype (plugins only: code size) conversation_status =
  CONV_IDLE | CONV_RUNNING | CONV_WAITING | CONV_BACKGROUND_ACTIVE | CONV_ARCHIVED

datatype (plugins only: code size) turn_status =
    TURN_QUEUED | TURN_RUNNING | TURN_WAITING | TURN_COMPLETED | TURN_INTERRUPTED
  | TURN_FAILED | TURN_OUTCOME_UNKNOWN

fun turn_status_value :: "turn_status \<Rightarrow> string" where
  "turn_status_value TURN_QUEUED = ''queued''"
| "turn_status_value TURN_RUNNING = ''running''"
| "turn_status_value TURN_WAITING = ''waiting''"
| "turn_status_value TURN_COMPLETED = ''completed''"
| "turn_status_value TURN_INTERRUPTED = ''interrupted''"
| "turn_status_value TURN_FAILED = ''failed''"
| "turn_status_value TURN_OUTCOME_UNKNOWN = ''outcome_unknown''"

datatype (plugins only: code size) command_status =
    CMD_ACCEPTED | CMD_CLAIMED | CMD_DELIVERY_STARTED | CMD_DELIVERED | CMD_SETTLED
  | CMD_COALESCED | CMD_OUTCOME_UNKNOWN

datatype (plugins only: code size) command_kind =
    SUBMIT_TURN | STEER | EDIT_QUEUED | CANCEL_QUEUED | INTERRUPT | ANSWER_INTERACTION
  | SWITCH_HARNESS

fun command_kind_value :: "command_kind \<Rightarrow> string" where
  "command_kind_value SUBMIT_TURN = ''submit_turn''"
| "command_kind_value STEER = ''steer''"
| "command_kind_value EDIT_QUEUED = ''edit_queued''"
| "command_kind_value CANCEL_QUEUED = ''cancel_queued''"
| "command_kind_value INTERRUPT = ''interrupt''"
| "command_kind_value ANSWER_INTERACTION = ''answer_interaction''"
| "command_kind_value SWITCH_HARNESS = ''switch_harness''"

datatype (plugins only: code size) interaction_kind = APPROVAL | STRUCTURED_QUESTION

datatype (plugins only: code size) interaction_status =
  INT_PENDING | INT_DRAFT | INT_SUBMITTED | INT_RESOLVED | INT_CANCELLED

datatype (plugins only: code size) approval_decision = ALLOW_ONCE | ALLOW_SESSION | DENY | CANCEL

fun approval_decision_value :: "approval_decision \<Rightarrow> string" where
  "approval_decision_value ALLOW_ONCE = ''allow_once''"
| "approval_decision_value ALLOW_SESSION = ''allow_session''"
| "approval_decision_value DENY = ''deny''"
| "approval_decision_value CANCEL = ''cancel''"

datatype (plugins only: code size) approval_rule_decision = RULE_ALLOW | RULE_DENY

datatype (plugins only: code size) approval_rule_scope_kind =
  SCOPE_CONVERSATION | SCOPE_HARNESS_INSTANCE | SCOPE_EXECUTABLE | SCOPE_USER
  | SCOPE_PRINCIPAL_GLOBAL

datatype (plugins only: code size) message_role = ROLE_USER | ROLE_ASSISTANT | ROLE_SYSTEM

fun message_role_value :: "message_role \<Rightarrow> string" where
  "message_role_value ROLE_USER = ''user''"
| "message_role_value ROLE_ASSISTANT = ''assistant''"
| "message_role_value ROLE_SYSTEM = ''system''"

datatype (plugins only: code size) activity_status = ACT_RUNNING | ACT_COMPLETED | ACT_FAILED

datatype (plugins only: code size) process_status =
  PROC_STARTING | PROC_RUNNING | PROC_EXITED | PROC_FAILED | PROC_TERMINATED | PROC_ORPHANED

datatype (plugins only: code size) recovery_action =
    RA_NO_ACTION | RA_RECLAIM | RA_OUTCOME_UNKNOWN | RA_NATIVE_RESUME | RA_REATTACH
  | RA_HANDOFF_FALLBACK | RA_INVARIANT_FAILURE

datatype (plugins only: code size) recovery_reason_code =
    RR_WORKER_LOST | RR_DELIVERY_AMBIGUOUS | RR_TURN_LOST_ON_RESTART | RR_SESSION_REATTACHED
  | RR_RESUME_UNSUPPORTED | RR_RESUME_REJECTED | RR_PROVIDER_INCOMPATIBLE
  | RR_EXECUTABLE_CHANGED | RR_UNCHANGED_LAUNCH | RR_RECOVERY_FALLBACK | RR_INVARIANT_FAILURE
  | RR_LEGACY_UNKNOWN | RR_NO_ACTION

datatype (plugins only: code size) observed_delivery_phase =
    PHASE_ACCEPTED | PHASE_CLAIMED | PHASE_DELIVERY_STARTED | PHASE_DELIVERED | PHASE_SETTLED
  | PHASE_COALESCED | PHASE_OUTCOME_UNKNOWN | PHASE_NONE

datatype (plugins only: code size) file_operation = OP_READ | OP_CREATE | OP_MODIFY | OP_DELETE

datatype (plugins only: code size) tool_outcome = OUT_SUCCESS | OUT_FAILURE | OUT_CANCELLED | OUT_UNKNOWN

fun tool_outcome_value :: "tool_outcome \<Rightarrow> string" where
  "tool_outcome_value OUT_SUCCESS = ''success''"
| "tool_outcome_value OUT_FAILURE = ''failure''"
| "tool_outcome_value OUT_CANCELLED = ''cancelled''"
| "tool_outcome_value OUT_UNKNOWN = ''unknown''"

datatype (plugins only: code size) error_code =
    SANDBOX_POLICY_REQUIRED | SANDBOX_POLICY_DENIED | CREDENTIAL_PROXY_UNSUPPORTED
  | PERSISTENCE_REQUIRED | CONVERSATION_BUSY | MODE_CHANGE_WHILE_ACTIVE
  | UNSUPPORTED_NATIVE_EVENT | PROTOCOL_ERROR | PROVIDER_INCOMPATIBLE
  | WORKING_DIRECTORY_NOT_FOUND | WORKSPACE_ROOT_NOT_FOUND | INVALID_EXECUTABLE
  | EXECUTABLE_OWNER_MISMATCH | RUNTIME_TIMEOUT | RUNTIME_START_FAILED | INVALID_STATE
  | INTERACTION_ALREADY_RESOLVED | QUEUED_PROMPT_NOT_EDITABLE | UNKNOWN_HARNESS_KIND
  | DUPLICATE_REGISTRATION | HARNESS_NOT_REGISTERED | SANDBOX_PREPARING | SANDBOX_UNAVAILABLE
  | SANDBOX_PATH_NOT_MOUNTED | WORKSPACE_SETUP_FAILED | NO_ACTIVE_TURN | NO_QUEUED_PROMPT
  | IDEMPOTENCY_CONFLICT | HARNESS_IN_USE | OPTIMISTIC_CONFLICT | STALE_OWNER
  | WORKER_LEASE_UNAVAILABLE | WORKER_UNAVAILABLE | INVALID_CURSOR | INVALID_SEARCH_QUERY
  | NOT_FOUND

end
