(* ===== verification/Errors.thy ===== *)
theory Errors
  imports Enums
begin

text \<open>
  Exceptions of the modelled code and the public error messages of
  \<open>tth-types/src/tth_types/errors.py\<close>: the fixed message tables, the vocabulary of failure reasons
  and the version-mismatch message, whose parts must match a safe pattern before they are shown.
\<close>

section \<open>Exceptions\<close>

text \<open>
  \<open>DomainError\<close> carries its code, message and details. \<open>ValueError\<close> is raised by the validators,
  \<open>IntegrityError\<close> by the database when a unique or foreign key is violated.
\<close>

datatype (plugins only: code size) exn =
    DomainError (exn_code: error_code) (exn_message: string) (exn_details: "(string, json) dict")
  | ValueError string
  | IntegrityError string
  | LookupError string

type_synonym 'a result = "exn + 'a"

abbreviation raise_domain :: "error_code \<Rightarrow> string \<Rightarrow> 'a result" where
  "raise_domain code msg \<equiv> Inl (DomainError code msg [])"

section \<open>Public messages\<close>

fun public_messages :: "error_code \<Rightarrow> string" where
  "public_messages SANDBOX_POLICY_REQUIRED = ''Select a project sandbox policy before starting a harness.''"
| "public_messages SANDBOX_POLICY_DENIED = ''The project sandbox policy does not permit this operation.''"
| "public_messages CREDENTIAL_PROXY_UNSUPPORTED = ''This provider login cannot be proxied safely. Configure a supported host login; credentials will not be copied into the sandbox.''"
| "public_messages PERSISTENCE_REQUIRED = ''persistence required''"
| "public_messages CONVERSATION_BUSY = ''conversation busy''"
| "public_messages MODE_CHANGE_WHILE_ACTIVE = ''mode change while active''"
| "public_messages UNSUPPORTED_NATIVE_EVENT = ''unsupported native event''"
| "public_messages PROTOCOL_ERROR = ''protocol error''"
| "public_messages PROVIDER_INCOMPATIBLE = ''provider incompatible''"
| "public_messages WORKING_DIRECTORY_NOT_FOUND = ''working directory not found''"
| "public_messages WORKSPACE_ROOT_NOT_FOUND = ''workspace root not found''"
| "public_messages INVALID_EXECUTABLE = ''invalid executable''"
| "public_messages EXECUTABLE_OWNER_MISMATCH = ''executable owner mismatch''"
| "public_messages RUNTIME_TIMEOUT = ''runtime timeout''"
| "public_messages RUNTIME_START_FAILED = ''harness runtime failed to start; check TalkToHarnesses server logs''"
| "public_messages INVALID_STATE = ''invalid state''"
| "public_messages INTERACTION_ALREADY_RESOLVED = ''interaction already resolved''"
| "public_messages QUEUED_PROMPT_NOT_EDITABLE = ''queued prompt not editable''"
| "public_messages UNKNOWN_HARNESS_KIND = ''unknown harness kind''"
| "public_messages DUPLICATE_REGISTRATION = ''duplicate registration''"
| "public_messages HARNESS_NOT_REGISTERED = ''harness not registered''"
| "public_messages SANDBOX_PREPARING = ''harness sandbox is being prepared; retry shortly''"
| "public_messages SANDBOX_UNAVAILABLE = ''harness sandbox unavailable''"
| "public_messages SANDBOX_PATH_NOT_MOUNTED = ''path is not mounted into the harness sandbox; working directories and workspace roots must live under a mounted host root''"
| "public_messages WORKSPACE_SETUP_FAILED = ''workspace setup (.tth/setup.sh) failed''"
| "public_messages NO_ACTIVE_TURN = ''no active turn''"
| "public_messages NO_QUEUED_PROMPT = ''no queued prompt''"
| "public_messages IDEMPOTENCY_CONFLICT = ''idempotency conflict''"
| "public_messages HARNESS_IN_USE = ''harness in use''"
| "public_messages OPTIMISTIC_CONFLICT = ''optimistic conflict''"
| "public_messages STALE_OWNER = ''stale owner''"
| "public_messages WORKER_LEASE_UNAVAILABLE = ''worker lease unavailable''"
| "public_messages WORKER_UNAVAILABLE = ''command worker unavailable''"
| "public_messages INVALID_CURSOR = ''invalid cursor''"
| "public_messages INVALID_SEARCH_QUERY = ''invalid search query''"
| "public_messages NOT_FOUND = ''not found''"

definition sandbox_unavailable_reasons :: "(string, string) dict" where
  "sandbox_unavailable_reasons = [
     (''docker_unavailable'', ''Docker is not reachable on the TalkToHarnesses host''),
     (''image_build_failed'', ''sandbox image build failed; check TalkToHarnesses server logs''),
     (''custom_image_build_failed'',
      ''the sandbox policy's image instructions failed to build; check TalkToHarnesses server logs''),
     (''build_context_missing'',
      ''sandbox image is missing and no build context is available; build it with deploy/build-splits.sh''),
     (''auth_file_missing'',
      ''provider credential file for this harness was not found on the TalkToHarnesses host''),
     (''health_timeout'', ''sandbox container did not become healthy''),
     (''port_conflict'', ''sandbox port is already in use on the TalkToHarnesses host''),
     (''container_start_failed'',
      ''sandbox container failed to start; check TalkToHarnesses server logs''),
     (''network_pool_exhausted'',
      ''sandbox could not start: Docker has no free network address ranges; remove idle sandboxes or widen Docker's default-address-pools'')]"

definition workspace_setup_reasons :: "(string, string) dict" where
  "workspace_setup_reasons = [
     (''exit_status'', ''workspace setup script (.tth/setup.sh) exited with an error''),
     (''timeout'', ''workspace setup script (.tth/setup.sh) timed out''),
     (''lock_timeout'',
      ''workspace setup is already running for this working directory; retry shortly''),
     (''runner_error'',
      ''workspace setup could not be executed in the sandbox; check TalkToHarnesses server logs'')]"

definition is_ascii_alnum :: "char \<Rightarrow> bool" where
  "is_ascii_alnum c = (let n = (of_char c :: nat) in
     (48 \<le> n \<and> n \<le> 57) \<or> (65 \<le> n \<and> n \<le> 90) \<or> (97 \<le> n \<and> n \<le> 122))"

definition is_safe_version_char :: "char \<Rightarrow> bool" where
  "is_safe_version_char c \<longleftrightarrow> is_ascii_alnum c \<or> c \<in> set '' .()_[]-''"

text \<open>The pattern \<open>_SAFE_VERSION_VALUE\<close>: one alphanumeric, then at most 127 safe characters.\<close>

definition safe_version_value :: "string \<Rightarrow> bool" where
  "safe_version_value s = (case s of
     [] \<Rightarrow> False
   | c # cs \<Rightarrow> is_ascii_alnum c \<and> list_all is_safe_version_char cs \<and> length cs \<le> 127)"

definition reason_message ::
  "(string, string) dict \<Rightarrow> (string, json) dict option \<Rightarrow> string option" where
  "reason_message table details = (case details of
     None \<Rightarrow> None
   | Some d \<Rightarrow> (case dict_get d ''reason'' of
        Some (JStr reason) \<Rightarrow> dict_get table reason
      | _ \<Rightarrow> None))"

text \<open>The loop over \<open>supported_versions\<close>: \<open>None\<close> as soon as an item is not a safe string.\<close>

fun safe_versions :: "json list \<Rightarrow> string list option" where
  "safe_versions [] = Some []"
| "safe_versions (JStr s # rest) =
     (if safe_version_value s then map_option (Cons s) (safe_versions rest) else None)"
| "safe_versions (_ # rest) = None"

definition version_mismatch_message :: "(string, json) dict option \<Rightarrow> string option" where
  "version_mismatch_message details = (case details of
     None \<Rightarrow> None
   | Some d \<Rightarrow>
      (case (dict_get d ''provider'', dict_get d ''installed_version'') of
         (Some (JStr provider), Some (JStr installed)) \<Rightarrow>
           (case dict_get d ''supported_versions'' of
              Some (JArr supported) \<Rightarrow>
                (case safe_versions supported of
                   None \<Rightarrow> None
                 | Some versions \<Rightarrow>
                     if \<not> safe_version_value provider \<or> \<not> safe_version_value installed then None
                     else Some (provider @ '' version '' @ installed
                            @ '' is incompatible; supported versions: '' @ py_join '', '' versions))
            | _ \<Rightarrow> None)
       | _ \<Rightarrow> None))"

definition authentication_failure :: "(string, json) dict option \<Rightarrow> bool" where
  "authentication_failure details = (case details of
     None \<Rightarrow> False
   | Some d \<Rightarrow> dict_get d ''reason'' = Some (JStr ''authentication_required'')
            \<or> dict_get d ''reason'' = Some (JStr ''authentication_failed''))"

definition public_message :: "error_code \<Rightarrow> (string, json) dict option \<Rightarrow> string" where
  "public_message code details =
     (if code = PROVIDER_INCOMPATIBLE \<and> authentication_failure details then
        ''harness authentication failed; refresh the provider credentials on the TTH host''
      else if code = PROVIDER_INCOMPATIBLE \<and> version_mismatch_message details \<noteq> None then
        the (version_mismatch_message details)
      else if code = SANDBOX_UNAVAILABLE
              \<and> reason_message sandbox_unavailable_reasons details \<noteq> None then
        the (reason_message sandbox_unavailable_reasons details)
      else if code = WORKSPACE_SETUP_FAILED
              \<and> reason_message workspace_setup_reasons details \<noteq> None then
        the (reason_message workspace_setup_reasons details)
      else public_messages code)"

section \<open>Nothing but vetted text reaches a public message\<close>

text \<open>Printable ASCII: no control character, no escape sequence, nothing beyond ASCII.\<close>

definition printable_ascii :: "char \<Rightarrow> bool" where
  "printable_ascii c = (let n = (of_char c :: nat) in 32 \<le> n \<and> n \<le> 126)"

lemma safe_version_char_printable: "is_safe_version_char c \<Longrightarrow> printable_ascii c"
  by (auto simp: is_safe_version_char_def is_ascii_alnum_def printable_ascii_def Let_def)

lemma safe_version_value_printable: "safe_version_value s \<Longrightarrow> list_all printable_ascii s"
  by (cases s)
    (auto simp: safe_version_value_def list_all_iff safe_version_char_printable
      is_safe_version_char_def)

lemma safe_version_value_length: "safe_version_value s \<Longrightarrow> length s \<le> 128"
  by (cases s) (auto simp: safe_version_value_def)

lemma safe_versions_safe: "safe_versions xs = Some vs \<Longrightarrow> list_all safe_version_value vs"
  by (induction xs arbitrary: vs rule: safe_versions.induct) (auto split: if_splits)

lemma py_join_all:
  "list_all P sep \<Longrightarrow> list_all (list_all P) xs \<Longrightarrow> list_all P (py_join sep xs)"
  by (induction sep xs rule: py_join.induct) auto

lemma public_messages_printable: "list_all printable_ascii (public_messages code)"
  by (cases code) (simp_all add: printable_ascii_def)

lemma sandbox_reasons_printable: "list_all (list_all printable_ascii) (dict_values sandbox_unavailable_reasons)"
  by (simp add: sandbox_unavailable_reasons_def printable_ascii_def)

lemma workspace_reasons_printable: "list_all (list_all printable_ascii) (dict_values workspace_setup_reasons)"
  by (simp add: workspace_setup_reasons_def printable_ascii_def)

lemma reason_message_in_table:
  "reason_message table details = Some m \<Longrightarrow> m \<in> set (dict_values table)"
  by (auto simp: reason_message_def split: option.splits json.splits dest: map_of_SomeD)
    (metis image_eqI map_of_SomeD snd_conv)

lemma version_mismatch_printable:
  assumes "version_mismatch_message details = Some m"
  shows "list_all printable_ascii m"
proof -
  from assms obtain provider installed versions supported where
    safe: "safe_version_value provider" "safe_version_value installed"
      "safe_versions supported = Some versions"
    and m: "m = provider @ '' version '' @ installed
                  @ '' is incompatible; supported versions: '' @ py_join '', '' versions"
    by (auto simp: version_mismatch_message_def
        split: option.splits json.splits prod.splits if_splits)
  have "list_all (list_all printable_ascii) versions"
    using safe_versions_safe [OF safe(3)] by (auto simp: list_all_iff dest: safe_version_value_printable [unfolded list_all_iff])
  then have "list_all printable_ascii (py_join '', '' versions)"
    by (intro py_join_all) (simp_all add: printable_ascii_def)
  then show ?thesis
    using safe m by (simp add: safe_version_value_printable) (simp add: printable_ascii_def)
qed

lemma list_all_if:
  "(c \<Longrightarrow> list_all P a) \<Longrightarrow> (\<not> c \<Longrightarrow> list_all P b) \<Longrightarrow> list_all P (if c then a else b)"
  by simp

text \<open>whatever an adapter puts in the details of an error, the public message is printable ASCII:
  a reason selects a fixed text and is never echoed, and the parts of a version mismatch are echoed
  only when they match the safe pattern.\<close>

theorem public_message_printable: "list_all printable_ascii (public_message code details)"
proof -
  have reason: "list_all printable_ascii (the (reason_message table details))"
    if "list_all (list_all printable_ascii) (dict_values table)" "reason_message table details \<noteq> None"
    for table
    using that reason_message_in_table [of table details] unfolding list_all_iff
    by (metis option.exhaust_sel)
  have version: "list_all printable_ascii (the (version_mismatch_message details))"
    if "version_mismatch_message details \<noteq> None"
    using that version_mismatch_printable [of details] by (cases "version_mismatch_message details") simp_all
  have "list_all printable_ascii
      ''harness authentication failed; refresh the provider credentials on the TTH host''"
    by (simp add: printable_ascii_def)
  then show ?thesis
    unfolding public_message_def
    by (intro list_all_if reason version sandbox_reasons_printable workspace_reasons_printable
        public_messages_printable) blast+
qed

end
