(* ===== verification/Wire_Models.thy ===== *)
theory Wire_Models
  imports Errors
begin

text \<open>
  The harness-facing wire models of \<open>tth-types/src/tth_types/harness.py\<close> and the parts of
  \<open>tth-types/src/tth_types/sandbox.py\<close> they use: configurations, probed capabilities, launch
  snapshots, approval requests, structured questions and their answers. A field \<open>f\<close> of a class
  is the record field \<open>f\<close> with a short prefix for the class, because record fields share one name
  space.
\<close>

section \<open>Sandbox policy references and the command guard\<close>

record sandbox_policy_ref =
  spr_id :: uuid
  spr_revision :: int

datatype (plugins only: code size) command_guard_coverage =
  GUARD_PRE_EXECUTION | GUARD_APPROVAL_ONLY | GUARD_UNAVAILABLE

definition command_guard_coverage_of ::
  "harness_kind \<Rightarrow> bool \<Rightarrow> sandbox_policy_ref option \<Rightarrow> command_guard_coverage" where
  "command_guard_coverage_of kind yolo policy =
     (case policy of
        None \<Rightarrow> GUARD_UNAVAILABLE
      | Some _ \<Rightarrow>
          if kind = CLAUDE then GUARD_PRE_EXECUTION
          else if yolo then GUARD_UNAVAILABLE else GUARD_APPROVAL_ONLY)"

section \<open>Configuration and capabilities\<close>

record harness_effort_info =
  hei_id :: string
  hei_label :: "string option"

record harness_model_info =
  hmi_id :: string
  hmi_label :: "string option"
  hmi_efforts :: "harness_effort_info list option"

record harness_mode_info =
  hmo_id :: string
  hmo_label :: "string option"

record harness_mcp_header =
  mch_name :: string
  mch_value :: string

record harness_mcp_server =
  mcs_name :: string
  mcs_url :: string
  mcs_headers :: "harness_mcp_header list"

record harness_configuration =
  cfg_kind :: harness_kind
  cfg_model :: "string option"
  cfg_mode :: "string option"
  cfg_effort :: "string option"
  cfg_yolo :: bool
  cfg_sandbox_policy :: "sandbox_policy_ref option"
  cfg_working_directory :: string
  cfg_workspace_roots :: "string list"
  cfg_mcp_servers :: "harness_mcp_server list"

text \<open>The field validator of \<open>mcp_servers\<close>: server names are unique.\<close>

definition require_unique_mcp_names :: "harness_mcp_server list \<Rightarrow> harness_mcp_server list result" where
  "require_unique_mcp_names value =
     (let names = map mcs_name value in
      if card (set names) \<noteq> length names then Inl (ValueError ''mcp server names must be unique'')
      else Inr value)"

record harness_capabilities =
  caps_kind :: harness_kind
  caps_command_guard :: command_guard_coverage
  caps_version :: string
  caps_supports_steer :: bool
  caps_supports_resume :: bool
  caps_supports_interrupt :: bool
  caps_supports_multi_interaction :: bool
  caps_supports_nested_activity :: bool
  caps_supports_mcp_servers :: bool
  caps_models :: "harness_model_info list"
  caps_modes :: "harness_mode_info list"
  caps_efforts :: "harness_effort_info list"

datatype (plugins only: code size) advisory_status =
  ADV_VERIFIED | ADV_BEHIND_VERIFIED | ADV_AHEAD_OF_VERIFIED | ADV_UNKNOWN

record version_advisory =
  adv_status :: advisory_status
  adv_probed_version :: string
  adv_floor_version :: string
  adv_latest_verified :: "string option"

record launch_snapshot =
  launch_resolved_executable :: "string option"
  launch_sandbox_policy :: "sandbox_policy_ref option"
  launch_harness_version :: string
  launch_working_directory :: string
  launch_workspace_roots :: "string list"
  launch_model :: "string option"
  launch_mode :: "string option"
  launch_effort :: "string option"
  launch_adapter_version :: string
  launch_capabilities :: harness_capabilities

record plan_item =
  plan_item_id :: string
  plan_item_title :: string
  plan_item_status :: "string option"
  plan_item_detail :: "string option"

section \<open>MCP support\<close>

definition require_mcp_servers_supported ::
  "harness_configuration \<Rightarrow> harness_capabilities \<Rightarrow> unit result" where
  "require_mcp_servers_supported config capabilities =
     (if cfg_mcp_servers config = [] \<or> caps_supports_mcp_servers capabilities then Inr ()
      else Inl (DomainError PROVIDER_INCOMPATIBLE
        (harness_kind_value (caps_kind capabilities)
           @ '' does not support configured MCP servers; remove mcp_servers from the harness configuration'')
        [(''kind'', JStr (harness_kind_value (cfg_kind config))),
         (''mcp_servers'', JArr (map (\<lambda>s. JStr (mcs_name s)) (cfg_mcp_servers config)))]))"

section \<open>Interaction requests and answers\<close>

datatype (plugins only: code size) approval_action =
    CommandApprovalAction "string list"
  | FileApprovalAction string file_operation
  | NetworkApprovalAction

record approval_request_payload =
  arp_tool_name :: "string option"
  arp_command_args :: "string list option"
  arp_path :: "string option"
  arp_operation :: "file_operation option"
  arp_summary :: "string option"
  arp_action :: "approval_action option"
  arp_available_decisions :: "approval_decision list"

record canonical_question_option =
  cqo_label :: string
  cqo_value :: string
  cqo_description :: "string option"

record canonical_question =
  cq_id :: string
  cq_question :: string
  cq_options :: "canonical_question_option list"
  cq_multi_select :: bool
  cq_header :: "string option"
  cq_allow_other :: bool
  cq_is_secret :: bool

datatype (plugins only: code size) interaction_request_payload =
    ApprovalRequest approval_request_payload
  | StructuredQuestion "canonical_question list"

record interaction_answer =
  ans_interaction_id :: uuid
  ans_decision :: "approval_decision option"
  ans_answers :: "(string, json) dict option"
  ans_is_draft :: bool
  ans_submitted_at :: "datetime option"

end
