(* ===== verification/Events.thy ===== *)
theory Events
  imports Wire_Models
begin

text \<open>
  The canonical event vocabulary of \<open>tth-types/src/tth_types/events.py\<close>. The discriminated union
  \<open>EventPayload\<close> is one datatype per section of the source file, joined by \<open>event_payload\<close>; each
  constructor is the payload class of the same name and takes its fields in the order of the class.
\<close>

section \<open>Session, process and harness payloads\<close>

datatype (plugins only: code size) workspace_setup_status =
  SETUP_SUCCEEDED | SETUP_FAILED | SETUP_TIMED_OUT

datatype (plugins only: code size) session_payload =
    SessionStarted uuid "string option" harness_kind "string option" "string option" "string option"
  | SessionResumed uuid "string option" harness_kind
  | SessionReaped uuid "string option"
  | SessionRotated uuid "string option"
  | SessionClosed uuid "string option"
  | SessionFailed "uuid option" string string
  | WorkspaceSetupStarted uuid string string string
  | WorkspaceSetupCompleted uuid string workspace_setup_status "int option" "int option" string
  | ProcessStderrTruncated uuid int
  | ProcessHealth uuid bool "string option"
  | ProcessExited uuid "int option"
  | ProcessForcedTermination uuid "string option"
  | HarnessSwitched uuid uuid harness_configuration
  | HarnessSwitchFailed uuid string "string option"

section \<open>Turn lifecycle payloads\<close>

datatype (plugins only: code size) turn_payload =
    TurnQueued uuid uuid string bool
  | TurnStarted uuid "uuid option"
  | TurnSteering uuid uuid string
  | TurnWaiting uuid "uuid option"
  | TurnCompleted uuid "string option" bool
  | TurnInterrupted uuid "string option"
  | TurnCancelled uuid
  | TurnFailed uuid string string
  | TurnOutcomeUnknown uuid "uuid option" "string option" "string option"

section \<open>Message, reasoning and plan payloads\<close>

datatype (plugins only: code size) message_payload =
    AssistantMessageStarted uuid uuid
  | AssistantMessageDelta uuid uuid int string
  | AssistantMessageCompleted uuid uuid string
  | ReasoningStarted uuid uuid
  | ReasoningDelta uuid uuid string
  | ReasoningCompleted uuid uuid string
  | PlanCreated uuid uuid "plan_item list"
  | PlanUpdated uuid uuid "plan_item list"

section \<open>Tool, in-turn command and file payloads\<close>

datatype (plugins only: code size) output_stream = STDOUT | STDERR

datatype (plugins only: code size) tool_payload =
    ToolRequested uuid uuid string "(string, json) dict"
  | ToolStarted uuid uuid string
  | ToolOutputDelta uuid uuid int string
  | ToolCompleted uuid uuid string tool_outcome "int option" string
  | ToolFailed uuid uuid string string
  | CommandRequested uuid uuid "string list"
  | CommandOutput uuid uuid output_stream string
  | CommandExited uuid uuid int
  | FileChangeProposed uuid uuid string file_operation "string option"
  | FileChangeApplied uuid uuid string file_operation

section \<open>Interaction, activity, usage and provider payloads\<close>

datatype (plugins only: code size) notice_payload =
    ConversationTitleUpdated string
  | ConversationMetadataChanged "datetime option" "datetime option" "datetime option" "datetime option"
  | RetentionExemptionChanged bool
  | TranscriptImported int int int
  | InteractionRequested uuid uuid interaction_kind interaction_request_payload
  | InteractionDraftUpdated uuid "(string, json) dict"
  | InteractionResolved uuid uuid "approval_decision option" "(string, json) dict option" bool
  | ActivityStarted uuid uuid "uuid option" "string option"
  | ActivityCompleted uuid uuid activity_status "string option"
  | UsageUpdated "uuid option" "int option" "int option" "int option" "int option"
  | CostUpdated "uuid option" string "string option"
  | ProviderWarning string "string option"
  | ProviderIncompatible harness_kind "string option" "string list" string
  | ProtocolError string string "string option"

datatype (plugins only: code size) event_payload =
    SessionEvent session_payload
  | TurnEvent turn_payload
  | MessageEvent message_payload
  | ToolEvent tool_payload
  | NoticeEvent notice_payload

section \<open>The wire type of a payload\<close>

fun session_payload_type :: "session_payload \<Rightarrow> string" where
  "session_payload_type (SessionStarted _ _ _ _ _ _) = ''session_started''"
| "session_payload_type (SessionResumed _ _ _) = ''session_resumed''"
| "session_payload_type (SessionReaped _ _) = ''session_reaped''"
| "session_payload_type (SessionRotated _ _) = ''session_rotated''"
| "session_payload_type (SessionClosed _ _) = ''session_closed''"
| "session_payload_type (SessionFailed _ _ _) = ''session_failed''"
| "session_payload_type (WorkspaceSetupStarted _ _ _ _) = ''workspace_setup_started''"
| "session_payload_type (WorkspaceSetupCompleted _ _ _ _ _ _) = ''workspace_setup_completed''"
| "session_payload_type (ProcessStderrTruncated _ _) = ''process_stderr_truncated''"
| "session_payload_type (ProcessHealth _ _ _) = ''process_health''"
| "session_payload_type (ProcessExited _ _) = ''process_exited''"
| "session_payload_type (ProcessForcedTermination _ _) = ''process_forced_termination''"
| "session_payload_type (HarnessSwitched _ _ _) = ''harness_switched''"
| "session_payload_type (HarnessSwitchFailed _ _ _) = ''harness_switch_failed''"

fun turn_payload_type :: "turn_payload \<Rightarrow> string" where
  "turn_payload_type (TurnQueued _ _ _ _) = ''turn_queued''"
| "turn_payload_type (TurnStarted _ _) = ''turn_started''"
| "turn_payload_type (TurnSteering _ _ _) = ''turn_steering''"
| "turn_payload_type (TurnWaiting _ _) = ''turn_waiting''"
| "turn_payload_type (TurnCompleted _ _ _) = ''turn_completed''"
| "turn_payload_type (TurnInterrupted _ _) = ''turn_interrupted''"
| "turn_payload_type (TurnCancelled _) = ''turn_cancelled''"
| "turn_payload_type (TurnFailed _ _ _) = ''turn_failed''"
| "turn_payload_type (TurnOutcomeUnknown _ _ _ _) = ''turn_outcome_unknown''"

fun message_payload_type :: "message_payload \<Rightarrow> string" where
  "message_payload_type (AssistantMessageStarted _ _) = ''assistant_message_started''"
| "message_payload_type (AssistantMessageDelta _ _ _ _) = ''assistant_message_delta''"
| "message_payload_type (AssistantMessageCompleted _ _ _) = ''assistant_message_completed''"
| "message_payload_type (ReasoningStarted _ _) = ''reasoning_started''"
| "message_payload_type (ReasoningDelta _ _ _) = ''reasoning_delta''"
| "message_payload_type (ReasoningCompleted _ _ _) = ''reasoning_completed''"
| "message_payload_type (PlanCreated _ _ _) = ''plan_created''"
| "message_payload_type (PlanUpdated _ _ _) = ''plan_updated''"

fun tool_payload_type :: "tool_payload \<Rightarrow> string" where
  "tool_payload_type (ToolRequested _ _ _ _) = ''tool_requested''"
| "tool_payload_type (ToolStarted _ _ _) = ''tool_started''"
| "tool_payload_type (ToolOutputDelta _ _ _ _) = ''tool_output_delta''"
| "tool_payload_type (ToolCompleted _ _ _ _ _ _) = ''tool_completed''"
| "tool_payload_type (ToolFailed _ _ _ _) = ''tool_failed''"
| "tool_payload_type (CommandRequested _ _ _) = ''command_requested''"
| "tool_payload_type (CommandOutput _ _ _ _) = ''command_output''"
| "tool_payload_type (CommandExited _ _ _) = ''command_exited''"
| "tool_payload_type (FileChangeProposed _ _ _ _ _) = ''file_change_proposed''"
| "tool_payload_type (FileChangeApplied _ _ _ _) = ''file_change_applied''"

fun notice_payload_type :: "notice_payload \<Rightarrow> string" where
  "notice_payload_type (ConversationTitleUpdated _) = ''conversation_title_updated''"
| "notice_payload_type (ConversationMetadataChanged _ _ _ _) = ''conversation_metadata_changed''"
| "notice_payload_type (RetentionExemptionChanged _) = ''retention_exemption_changed''"
| "notice_payload_type (TranscriptImported _ _ _) = ''transcript_imported''"
| "notice_payload_type (InteractionRequested _ _ _ _) = ''interaction_requested''"
| "notice_payload_type (InteractionDraftUpdated _ _) = ''interaction_draft_updated''"
| "notice_payload_type (InteractionResolved _ _ _ _ _) = ''interaction_resolved''"
| "notice_payload_type (ActivityStarted _ _ _ _) = ''activity_started''"
| "notice_payload_type (ActivityCompleted _ _ _ _) = ''activity_completed''"
| "notice_payload_type (UsageUpdated _ _ _ _ _) = ''usage_updated''"
| "notice_payload_type (CostUpdated _ _ _) = ''cost_updated''"
| "notice_payload_type (ProviderWarning _ _) = ''provider_warning''"
| "notice_payload_type (ProviderIncompatible _ _ _ _) = ''provider_incompatible''"
| "notice_payload_type (ProtocolError _ _ _) = ''protocol_error''"

fun payload_type :: "event_payload \<Rightarrow> string" where
  "payload_type (SessionEvent p) = session_payload_type p"
| "payload_type (TurnEvent p) = turn_payload_type p"
| "payload_type (MessageEvent p) = message_payload_type p"
| "payload_type (ToolEvent p) = tool_payload_type p"
| "payload_type (NoticeEvent p) = notice_payload_type p"

section \<open>The event envelope\<close>

record conversation_event =
  ev_event_id :: uuid
  ev_conversation_id :: uuid
  ev_sequence :: int
  ev_timestamp :: datetime
  ev_type :: string
  ev_payload :: event_payload

text \<open>The constraints of the envelope model: \<open>sequence \<ge> 1\<close> and \<open>type == payload.type\<close>.\<close>

definition valid_envelope :: "conversation_event \<Rightarrow> bool" where
  "valid_envelope e \<longleftrightarrow> 1 \<le> ev_sequence e \<and> ev_type e = payload_type (ev_payload e)"

section \<open>The turn an event belongs to\<close>

text \<open>
  \<open>getattr(payload, "turn_id", None)\<close>, else \<open>parent_turn_id\<close>: the two attributes together, per
  payload class. Usage and cost payloads have an optional \<open>turn_id\<close>.
\<close>

fun turn_payload_turn_id :: "turn_payload \<Rightarrow> uuid" where
  "turn_payload_turn_id (TurnQueued t _ _ _) = t"
| "turn_payload_turn_id (TurnStarted t _) = t"
| "turn_payload_turn_id (TurnSteering t _ _) = t"
| "turn_payload_turn_id (TurnWaiting t _) = t"
| "turn_payload_turn_id (TurnCompleted t _ _) = t"
| "turn_payload_turn_id (TurnInterrupted t _) = t"
| "turn_payload_turn_id (TurnCancelled t) = t"
| "turn_payload_turn_id (TurnFailed t _ _) = t"
| "turn_payload_turn_id (TurnOutcomeUnknown t _ _ _) = t"

fun message_payload_turn_id :: "message_payload \<Rightarrow> uuid" where
  "message_payload_turn_id (AssistantMessageStarted t _) = t"
| "message_payload_turn_id (AssistantMessageDelta t _ _ _) = t"
| "message_payload_turn_id (AssistantMessageCompleted t _ _) = t"
| "message_payload_turn_id (ReasoningStarted t _) = t"
| "message_payload_turn_id (ReasoningDelta t _ _) = t"
| "message_payload_turn_id (ReasoningCompleted t _ _) = t"
| "message_payload_turn_id (PlanCreated t _ _) = t"
| "message_payload_turn_id (PlanUpdated t _ _) = t"

fun tool_payload_turn_id :: "tool_payload \<Rightarrow> uuid" where
  "tool_payload_turn_id (ToolRequested t _ _ _) = t"
| "tool_payload_turn_id (ToolStarted t _ _) = t"
| "tool_payload_turn_id (ToolOutputDelta t _ _ _) = t"
| "tool_payload_turn_id (ToolCompleted t _ _ _ _ _) = t"
| "tool_payload_turn_id (ToolFailed t _ _ _) = t"
| "tool_payload_turn_id (CommandRequested t _ _) = t"
| "tool_payload_turn_id (CommandOutput t _ _ _) = t"
| "tool_payload_turn_id (CommandExited t _ _) = t"
| "tool_payload_turn_id (FileChangeProposed t _ _ _ _) = t"
| "tool_payload_turn_id (FileChangeApplied t _ _ _) = t"

fun notice_payload_turn_id :: "notice_payload \<Rightarrow> uuid option" where
  "notice_payload_turn_id (InteractionRequested t _ _ _) = Some t"
| "notice_payload_turn_id (InteractionResolved _ t _ _ _) = Some t"
| "notice_payload_turn_id (ActivityStarted _ t _ _) = Some t"
| "notice_payload_turn_id (ActivityCompleted _ t _ _) = Some t"
| "notice_payload_turn_id (UsageUpdated t _ _ _ _) = t"
| "notice_payload_turn_id (CostUpdated t _ _) = t"
| "notice_payload_turn_id _ = None"

fun payload_turn_id :: "event_payload \<Rightarrow> uuid option" where
  "payload_turn_id (SessionEvent _) = None"
| "payload_turn_id (TurnEvent p) = Some (turn_payload_turn_id p)"
| "payload_turn_id (MessageEvent p) = Some (message_payload_turn_id p)"
| "payload_turn_id (ToolEvent p) = Some (tool_payload_turn_id p)"
| "payload_turn_id (NoticeEvent p) = notice_payload_turn_id p"

text \<open>\<open>getattr(payload, "interaction_id", None)\<close>.\<close>

fun payload_interaction_id :: "event_payload \<Rightarrow> uuid option" where
  "payload_interaction_id (TurnEvent (TurnWaiting _ i)) = i"
| "payload_interaction_id (NoticeEvent (InteractionRequested _ i _ _)) = Some i"
| "payload_interaction_id (NoticeEvent (InteractionDraftUpdated i _)) = Some i"
| "payload_interaction_id (NoticeEvent (InteractionResolved i _ _ _ _)) = Some i"
| "payload_interaction_id _ = None"

definition event_turn_id ::
  "conversation_event \<Rightarrow> (uuid, uuid) dict option \<Rightarrow> uuid option" where
  "event_turn_id event interaction_turn_ids =
     (case payload_turn_id (ev_payload event) of
        Some t \<Rightarrow> Some t
      | None \<Rightarrow>
          (case (payload_interaction_id (ev_payload event), interaction_turn_ids) of
             (Some i, Some m) \<Rightarrow> dict_get m i
           | _ \<Rightarrow> None))"

end
