(* ===== verification/Domain_Models.thy ===== *)
theory Domain_Models
  imports Events
begin

text \<open>
  The frozen domain entities of \<open>src/talktoharnesses/domain/models.py\<close>: conversations and their
  harness bindings, turns, commands with their payloads, pending interactions, approval rules and
  background activities. The classes are frozen, so an update is always a copy and the HOL record
  update is \<open>model_copy(update=\<dots>)\<close>.
\<close>

section \<open>Conversations and bindings\<close>

record conversation =
  conv_id :: uuid
  conv_owner_id :: string
  conv_status :: conversation_status
  conv_title_manual :: "string option"
  conv_title_native :: "string option"
  conv_title_derived :: "string option"
  conv_pinned_at :: "datetime option"
  conv_archived_at :: "datetime option"
  conv_snoozed_until :: "datetime option"
  conv_deleted_at :: "datetime option"
  conv_retention_exempt :: bool
  conv_version :: int
  conv_next_event_sequence :: int
  conv_active_turn_id :: "uuid option"
  conv_current_binding_id :: "uuid option"
  conv_created_at :: datetime
  conv_updated_at :: datetime

definition truthy_text :: "string option \<Rightarrow> bool" where
  "truthy_text t = (case t of None \<Rightarrow> False | Some s \<Rightarrow> s \<noteq> [])"

definition display_title :: "conversation \<Rightarrow> string" where
  "display_title c =
     (if truthy_text (conv_title_native c) then the (conv_title_native c)
      else if truthy_text (conv_title_manual c) then the (conv_title_manual c)
      else if truthy_text (conv_title_derived c) then the (conv_title_derived c)
      else ''Untitled conversation'')"

record binding =
  bind_id :: uuid
  bind_conversation_id :: uuid
  bind_kind :: harness_kind
  bind_configuration :: harness_configuration
  bind_harness_instance_id :: "uuid option"
  bind_native_session_id :: "string option"
  bind_launch_snapshot :: "launch_snapshot option"
  bind_requires_session_recreation :: bool
  bind_is_active :: bool
  bind_created_at :: datetime
  bind_closed_at :: "datetime option"

section \<open>Turns\<close>

record turn =
  turn_id :: uuid
  turn_conversation_id :: uuid
  turn_status :: turn_status
  turn_user_message_id :: "uuid option"
  turn_command_id :: "uuid option"
  turn_terminal_reason :: "string option"
  turn_created_at :: datetime
  turn_started_at :: "datetime option"
  turn_completed_at :: "datetime option"

section \<open>Commands\<close>

datatype (plugins only: code size) command_payload =
    SubmitTurnPayload string "string option"
  | SteerPayload string
  | EditQueuedPayload string
  | CancelQueuedPayload
  | InterruptPayload
  | AnswerInteractionPayload uuid
  | SwitchHarnessPayload harness_configuration "uuid option"

fun payload_kind :: "command_payload \<Rightarrow> command_kind" where
  "payload_kind (SubmitTurnPayload _ _) = SUBMIT_TURN"
| "payload_kind (SteerPayload _) = STEER"
| "payload_kind (EditQueuedPayload _) = EDIT_QUEUED"
| "payload_kind CancelQueuedPayload = CANCEL_QUEUED"
| "payload_kind InterruptPayload = INTERRUPT"
| "payload_kind (AnswerInteractionPayload _) = ANSWER_INTERACTION"
| "payload_kind (SwitchHarnessPayload _ _) = SWITCH_HARNESS"

record command =
  cmd_id :: uuid
  cmd_conversation_id :: uuid
  cmd_kind :: command_kind
  cmd_status :: command_status
  cmd_idempotency_key :: string
  cmd_target_turn_id :: "uuid option"
  cmd_coalesced_into_command_id :: "uuid option"
  cmd_worker_id :: "string option"
  cmd_lease_expires_at :: "datetime option"
  cmd_attempts :: int
  cmd_delivery_started_at :: "datetime option"
  cmd_delivered_at :: "datetime option"
  cmd_settled_at :: "datetime option"
  cmd_native_session_id :: "string option"
  cmd_recovery_attempt_id :: "uuid option"
  cmd_payload :: command_payload
  cmd_created_at :: datetime

text \<open>The model validator \<open>_kind_matches_payload\<close>.\<close>

definition kind_matches_payload :: "command \<Rightarrow> bool" where
  "kind_matches_payload c \<longleftrightarrow> cmd_kind c = payload_kind (cmd_payload c)"

text \<open>
  The constructor call \<open>Command(id=\<dots>, conversation_id=\<dots>, kind=\<dots>, status=ACCEPTED, \<dots>)\<close> of an
  accepted command: the remaining fields take the defaults of the class.
\<close>

definition accepted_command ::
  "uuid \<Rightarrow> uuid \<Rightarrow> command_payload \<Rightarrow> string \<Rightarrow> uuid option \<Rightarrow> datetime \<Rightarrow> command" where
  "accepted_command i conversation payload key target created =
     \<lparr>cmd_id = i, cmd_conversation_id = conversation, cmd_kind = payload_kind payload,
      cmd_status = CMD_ACCEPTED, cmd_idempotency_key = key, cmd_target_turn_id = target,
      cmd_coalesced_into_command_id = None, cmd_worker_id = None, cmd_lease_expires_at = None,
      cmd_attempts = 0, cmd_delivery_started_at = None, cmd_delivered_at = None,
      cmd_settled_at = None, cmd_native_session_id = None, cmd_recovery_attempt_id = None,
      cmd_payload = payload, cmd_created_at = created\<rparr>"

section \<open>Interactions and activities\<close>

record pending_interaction =
  inter_id :: uuid
  inter_conversation_id :: uuid
  inter_turn_id :: uuid
  inter_kind :: interaction_kind
  inter_status :: interaction_status
  inter_request :: interaction_request_payload
  inter_draft :: "(string, json) dict option"
  inter_created_at :: datetime

record background_activity =
  act_id :: uuid
  act_conversation_id :: uuid
  act_parent_turn_id :: uuid
  act_parent_activity_id :: "uuid option"
  act_status :: activity_status
  act_title :: "string option"
  act_summary :: "string option"
  act_created_at :: datetime
  act_completed_at :: "datetime option"

record split_stream_cursor =
  ssc_binding_id :: uuid
  ssc_session_id :: uuid
  ssc_frame_id :: int

section \<open>Approval rules\<close>

datatype (plugins only: code size) approval_rule_scope =
    ConversationRuleScope uuid
  | HarnessInstanceRuleScope uuid
  | ExecutableRuleScope string
  | UserRuleScope string
  | PrincipalGlobalRuleScope

datatype (plugins only: code size) approval_matcher =
    ExactArgvMatcher "string list"
  | ExactPathMatcher string file_operation
  | RecursiveDirectoryMatcher string file_operation
  | BlanketNetworkMatcher

record approval_rule =
  rule_id :: uuid
  rule_principal_id :: string
  rule_decision :: approval_rule_decision
  rule_scope :: approval_rule_scope
  rule_matcher :: approval_matcher
  rule_created_at :: datetime
  rule_updated_at :: datetime

section \<open>The binding fields a conversation detail publishes\<close>

record binding_projection =
  bp_harness_kind :: "harness_kind option"
  bp_harness_id :: "uuid option"
  bp_model :: "string option"
  bp_mode :: "string option"
  bp_effort :: "string option"
  bp_yolo :: "bool option"
  bp_sandbox_policy :: "sandbox_policy_ref option"
  bp_command_guard :: command_guard_coverage

text \<open>No binding spreads an empty dict, so every field keeps the default of \<open>ConversationDetail\<close>.\<close>

definition project_binding :: "binding option \<Rightarrow> binding_projection" where
  "project_binding b = (case b of
     None \<Rightarrow> \<lparr>bp_harness_kind = None, bp_harness_id = None, bp_model = None, bp_mode = None,
              bp_effort = None, bp_yolo = None, bp_sandbox_policy = None,
              bp_command_guard = GUARD_UNAVAILABLE\<rparr>
   | Some b \<Rightarrow>
       \<lparr>bp_harness_kind = Some (bind_kind b), bp_harness_id = bind_harness_instance_id b,
        bp_model = cfg_model (bind_configuration b), bp_mode = cfg_mode (bind_configuration b),
        bp_effort = cfg_effort (bind_configuration b),
        bp_yolo = Some (cfg_yolo (bind_configuration b)),
        bp_sandbox_policy = cfg_sandbox_policy (bind_configuration b),
        bp_command_guard = command_guard_coverage_of (bind_kind b)
          (cfg_yolo (bind_configuration b)) (cfg_sandbox_policy (bind_configuration b))\<rparr>)"

end
