(* ===== verification/Questions.thy ===== *)
theory Questions
  imports Domain_Models
begin

text \<open>
  Structured questions (\<open>src/talktoharnesses/domain/questions.py\<close>): the normalization of the
  questions a provider sends and the validation of the answers a user gives. The lemmas show that
  accepted questions have unique identifiers and unique option values, and that an accepted answer
  set covers exactly the asked questions with admissible values.
\<close>

section \<open>Normalizing questions\<close>

text \<open>One option object: its label, value and description, or \<open>None\<close> for a value of another type.\<close>

definition option_parts :: "json \<Rightarrow> (string \<times> string \<times> string) option" where
  "option_parts obj = (case obj of
     JStr s \<Rightarrow> (let label = py_strip s in Some (label, label, []))
   | JObj d \<Rightarrow>
       (let text = (\<lambda>v. if py_truthy v then py_str v else []);
            label = py_strip (text (get_or d [''label'', ''value'']));
            value = py_strip (let v = get_or d [''value''] in if py_truthy v then py_str v else label);
            description = py_strip (text (get_or d [''description'']))
        in Some (label, value, description))
   | _ \<Rightarrow> None)"

text \<open>The inner loop over the options, with the set of values seen so far.\<close>

fun canonical_options ::
  "string \<Rightarrow> string list \<Rightarrow> json list \<Rightarrow> canonical_question_option list result" where
  "canonical_options qid seen [] = Inr []"
| "canonical_options qid seen (obj # rest) =
     (case option_parts obj of
        None \<Rightarrow> canonical_options qid seen rest
      | Some (label, value, description) \<Rightarrow>
          if label = [] \<or> value = [] then canonical_options qid seen rest
          else if value \<in> set seen then
            raise_domain PROTOCOL_ERROR
              (''structured question '' @ py_repr_str qid @ '' has duplicate option values'')
          else bind_result (canonical_options qid (value # seen) rest) (\<lambda>options.
            Inr (\<lparr>cqo_label = label, cqo_value = value,
                  cqo_description = (if description = [] then None else Some description)\<rparr>
                 # options)))"

definition raw_options :: "(string, json) dict \<Rightarrow> json list" where
  "raw_options raw = (case dict_get raw ''options'' of Some (JArr xs) \<Rightarrow> xs | _ \<Rightarrow> [])"

definition question_id :: "nat \<Rightarrow> (string, json) dict \<Rightarrow> string" where
  "question_id index raw =
     (let v = get_or raw [''id''] in
      py_strip (if py_truthy v then py_str v else ''question-'' @ nat_str (index + 1)))"

definition question_prompt :: "(string, json) dict \<Rightarrow> string" where
  "question_prompt raw =
     (let v = get_or raw [''question'', ''prompt'', ''title'', ''header''] in
      py_strip (if py_truthy v then py_str v else []))"

fun canonical_questions_from ::
  "nat \<Rightarrow> string list \<Rightarrow> (string, json) dict list \<Rightarrow> canonical_question list result" where
  "canonical_questions_from index seen [] = Inr []"
| "canonical_questions_from index seen (raw # rest) =
     (let qid = question_id index raw; prompt = question_prompt raw in
      if qid = [] \<or> prompt = [] \<or> qid \<in> set seen then
        raise_domain PROTOCOL_ERROR ''structured question requires a unique id and nonblank prompt''
      else bind_result (canonical_options qid [] (raw_options raw)) (\<lambda>options.
        let h = get_or raw [''header''];
            header = py_strip (if py_truthy h then py_str h else []);
            question =
              \<lparr>cq_id = qid, cq_question = prompt, cq_options = options,
               cq_multi_select = py_truthy (get_or raw [''multiSelect'', ''multi_select'']),
               cq_header = (if header = [] then None else Some header),
               cq_allow_other = py_truthy (get_or raw [''allowOther'', ''allow_other'', ''isOther'']),
               cq_is_secret = py_truthy (get_or raw [''isSecret'', ''is_secret''])\<rparr>
        in bind_result (canonical_questions_from (Suc index) (qid # seen) rest) (\<lambda>qs.
             Inr (question # qs))))"

definition canonical_questions :: "(string, json) dict list \<Rightarrow> canonical_question list result" where
  "canonical_questions questions =
     bind_result (canonical_questions_from 0 [] questions) (\<lambda>normalized.
       if normalized = [] then
         raise_domain PROTOCOL_ERROR ''structured question list is empty''
       else Inr normalized)"

section \<open>Validating answers\<close>

definition selected_values :: "json option \<Rightarrow> string list" where
  "selected_values raw = (case raw of
     Some (JStr s) \<Rightarrow> (if py_strip s \<noteq> [] then [py_strip s] else [])
   | Some (JArr items) \<Rightarrow> filter (\<lambda>s. s \<noteq> []) (map (\<lambda>item. py_strip (py_str item)) items)
   | _ \<Rightarrow> [])"

definition check_selection :: "canonical_question \<Rightarrow> string list \<Rightarrow> string list result" where
  "check_selection q selected =
     (let name = ''structured question '' @ py_repr_str (cq_id q);
          option_values = map cqo_value (cq_options q) in
      if selected = [] then raise_domain INVALID_STATE (name @ '' requires an answer'')
      else if \<not> cq_multi_select q \<and> length selected \<noteq> 1 then
        raise_domain INVALID_STATE (name @ '' accepts one answer'')
      else if option_values \<noteq> [] \<and> \<not> cq_allow_other q \<and> \<not> set selected \<subseteq> set option_values then
        raise_domain INVALID_STATE (name @ '' received an invalid option'')
      else Inr selected)"

fun canonical_answers_from ::
  "(string, json) dict \<Rightarrow> canonical_question list \<Rightarrow> (string, string list) dict
     \<Rightarrow> (string, string list) dict result" where
  "canonical_answers_from values [] normalized = Inr normalized"
| "canonical_answers_from values (q # qs) normalized =
     bind_result (check_selection q (selected_values (dict_get values (cq_id q)))) (\<lambda>selected.
       canonical_answers_from values qs (dict_put normalized (cq_id q) selected))"

definition canonical_answer_values ::
  "interaction_answer \<Rightarrow> canonical_question list \<Rightarrow> (string, string list) dict result" where
  "canonical_answer_values answer questions =
     (case ans_answers answer of
        None \<Rightarrow> raise_domain INVALID_STATE ''structured question requires keyed answers''
      | Some values \<Rightarrow>
          if set (dict_keys values) \<noteq> set (map cq_id questions) then
            raise_domain INVALID_STATE
              ''structured question answers must match the pending question ids''
          else canonical_answers_from values questions [])"

section \<open>Accepted questions\<close>

text \<open>What a consumer of accepted questions may rely on.\<close>

definition well_formed_question :: "canonical_question \<Rightarrow> bool" where
  "well_formed_question q \<longleftrightarrow>
     cq_id q \<noteq> [] \<and> cq_question q \<noteq> [] \<and> distinct (map cqo_value (cq_options q)) \<and>
     (\<forall>opt \<in> set (cq_options q). cqo_label opt \<noteq> [] \<and> cqo_value opt \<noteq> [])"

lemma canonical_options_sound:
  "canonical_options qid seen objs = Inr options \<Longrightarrow>
     distinct (map cqo_value options) \<and> set (map cqo_value options) \<inter> set seen = {} \<and>
     (\<forall>opt \<in> set options. cqo_label opt \<noteq> [] \<and> cqo_value opt \<noteq> [])"
proof (induction qid seen objs arbitrary: options rule: canonical_options.induct)
  case (1 qid seen)
  then show ?case by simp
next
  case (2 qid seen obj rest)
  show ?case
  proof (cases "option_parts obj")
    case None
    with 2 show ?thesis by simp
  next
    case (Some parts)
    obtain lbl val descr where parts: "parts = (lbl, val, descr)"
      by (cases parts)
    show ?thesis
    proof (cases "lbl = [] \<or> val = []")
      case True
      with 2 Some parts show ?thesis by auto
    next
      case False
      then have fresh: "val \<notin> set seen"
        using "2.prems" Some parts by (auto split: if_splits)
      obtain more where more: "canonical_options qid (val # seen) rest = Inr more"
        and opts: "options = \<lparr>cqo_label = lbl, cqo_value = val,
             cqo_description = (if descr = [] then None else Some descr)\<rparr> # more"
        using "2.prems" Some parts False fresh by (auto simp: bind_result_eq_Inr)
      have "distinct (map cqo_value more) \<and> set (map cqo_value more) \<inter> set (val # seen) = {} \<and>
        (\<forall>opt \<in> set more. cqo_label opt \<noteq> [] \<and> cqo_value opt \<noteq> [])"
        using "2.IH"(3) Some parts False fresh more by blast
      with False opts fresh show ?thesis by auto
    qed
  qed
qed

lemma canonical_questions_from_sound:
  "canonical_questions_from index seen raws = Inr qs \<Longrightarrow>
     distinct (map cq_id qs) \<and> set (map cq_id qs) \<inter> set seen = {} \<and>
     (\<forall>q \<in> set qs. well_formed_question q) \<and> length qs = length raws"
proof (induction raws arbitrary: index seen qs)
  case Nil
  then show ?case by simp
next
  case (Cons raw rest)
  from Cons.prems obtain options q more where
    guards: "question_id index raw \<noteq> []" "question_prompt raw \<noteq> []"
      "question_id index raw \<notin> set seen"
    and options: "canonical_options (question_id index raw) [] (raw_options raw) = Inr options"
    and more: "canonical_questions_from (Suc index) (question_id index raw # seen) rest = Inr more"
    and q: "cq_id q = question_id index raw" "cq_question q = question_prompt raw"
      "cq_options q = options"
    and qs: "qs = q # more"
    by (fastforce simp: Let_def bind_result_eq_Inr split: if_splits)
  from canonical_options_sound [OF options] guards q have "well_formed_question q"
    by (simp add: well_formed_question_def)
  with Cons.IH [OF more] guards q qs show ?case by auto
qed

section \<open>Accepted answers\<close>

definition admissible_selection :: "canonical_question \<Rightarrow> string list \<Rightarrow> bool" where
  "admissible_selection q selected \<longleftrightarrow>
     selected \<noteq> [] \<and> (cq_multi_select q \<or> length selected = 1) \<and>
     (cq_options q = [] \<or> cq_allow_other q
        \<or> set selected \<subseteq> set (map cqo_value (cq_options q)))"

lemma check_selection_Inr:
  "check_selection q selected = Inr s \<longleftrightarrow> s = selected \<and> admissible_selection q selected"
  by (auto simp: check_selection_def admissible_selection_def Let_def)

lemma canonical_answers_from_keys:
  "canonical_answers_from values qs acc = Inr out \<Longrightarrow>
     fst ` set out = fst ` set acc \<union> cq_id ` set qs"
proof (induction qs arbitrary: acc)
  case Nil
  then show ?case by simp
next
  case (Cons q qs)
  from Cons.prems obtain sel where
    "canonical_answers_from values qs (dict_put acc (cq_id q) sel) = Inr out"
    by (auto simp: bind_result_eq_Inr)
  from Cons.IH [OF this] show ?case
    by (simp add: dict_keys_put)
qed

lemma canonical_answers_from_other:
  "canonical_answers_from values qs acc = Inr out \<Longrightarrow> k \<notin> set (map cq_id qs) \<Longrightarrow>
     dict_get out k = dict_get acc k"
  by (induction qs arbitrary: acc) (auto simp: bind_result_eq_Inr dict_get_put)

lemma canonical_answers_from_value:
  assumes "canonical_answers_from values qs acc = Inr out" and "distinct (map cq_id qs)"
    and "q \<in> set qs"
  shows "dict_get out (cq_id q) = Some (selected_values (dict_get values (cq_id q)))
         \<and> admissible_selection q (selected_values (dict_get values (cq_id q)))"
  using assms
proof (induction qs arbitrary: acc)
  case Nil
  then show ?case by simp
next
  case (Cons p ps)
  let ?sel = "selected_values (dict_get values (cq_id p))"
  from Cons.prems(1) have adm: "admissible_selection p ?sel"
    and rest: "canonical_answers_from values ps (dict_put acc (cq_id p) ?sel) = Inr out"
    by (auto simp: bind_result_eq_Inr check_selection_Inr)
  show ?case
  proof (cases "q = p")
    case True
    with adm Cons.prems(2) canonical_answers_from_other [OF rest, of "cq_id p"] show ?thesis
      by (simp add: dict_get_put)
  next
    case False
    with Cons.IH [OF rest] Cons.prems show ?thesis by simp
  qed
qed

text \<open>accepted questions are one per raw question, have distinct nonblank identifiers, nonblank
  prompts, and options with distinct nonblank values: an answer value names one option.\<close>

theorem accepted_questions_well_formed:
  assumes "canonical_questions raws = Inr qs"
  shows "qs \<noteq> [] \<and> length qs = length raws \<and> distinct (map cq_id qs) \<and> (\<forall>q \<in> set qs. well_formed_question q)"
  using assms canonical_questions_from_sound [of 0 "[]" raws qs]
  by (auto simp: canonical_questions_def bind_result_eq_Inr split: if_splits)

definition demo_questions :: "(string, json) dict list" where
  "demo_questions = [[(''question'', JStr '' Which one? ''), (''options'', JArr [JStr ''a'', JStr '' b ''])]]"

theorem accepted_questions_well_formed_witness:
  "\<exists>qs. canonical_questions demo_questions = Inr qs \<and> map cq_id qs = [''question-1'']
    \<and> (\<forall>q \<in> set qs. well_formed_question q)"
proof -
  have "case canonical_questions demo_questions of Inl _ \<Rightarrow> False | Inr qs \<Rightarrow> map cq_id qs = [''question-1'']"
    by code_simp
  then show ?thesis
    using accepted_questions_well_formed [of demo_questions] by (auto split: sum.splits)
qed

text \<open>an accepted answer set answers exactly the asked questions, each with the stripped values the
  user gave, at least one, exactly one unless the question takes several, and only offered options
  unless the question has none or takes others.\<close>

theorem accepted_answers_admissible:
  assumes "canonical_answer_values answer questions = Inr out" and "distinct (map cq_id questions)"
  shows "fst ` set out = cq_id ` set questions
    \<and> (\<forall>q \<in> set questions. \<exists>selected. dict_get out (cq_id q) = Some selected \<and> admissible_selection q selected
         \<and> selected = selected_values (dict_get (the (ans_answers answer)) (cq_id q)))"
proof -
  obtain given where given: "ans_answers answer = Some given"
    and out: "canonical_answers_from given questions [] = Inr out"
    using assms(1) by (auto simp: canonical_answer_values_def split: option.splits if_splits)
  show ?thesis
    using canonical_answers_from_keys [OF out] canonical_answers_from_value [OF out assms(2)]
    by (simp add: given)
qed

definition demo_answers :: interaction_answer where
  "demo_answers = \<lparr>ans_interaction_id = Uuid 1, ans_decision = None,
     ans_answers = Some [(''question-1'', JStr '' b '')], ans_is_draft = True, ans_submitted_at = None\<rparr>"

theorem accepted_answers_admissible_witness:
  "\<exists>qs out. canonical_questions demo_questions = Inr qs \<and> canonical_answer_values demo_answers qs = Inr out
    \<and> dict_get out ''question-1'' = Some [''b'']"
proof -
  define qs where "qs = (case canonical_questions demo_questions of Inr qs \<Rightarrow> qs | Inl _ \<Rightarrow> [])"
  define out where "out = (case canonical_answer_values demo_answers qs of Inr d \<Rightarrow> d | Inl _ \<Rightarrow> [])"
  have ok: "canonical_questions demo_questions = Inr qs" "canonical_answer_values demo_answers qs = Inr out"
    "map cq_id qs = [''question-1'']"
    unfolding out_def qs_def by code_simp+
  moreover from accepted_answers_admissible [OF ok(2)] ok(3)
  have "\<forall>q \<in> set qs. dict_get out (cq_id q)
      = Some (selected_values (dict_get (the (ans_answers demo_answers)) (cq_id q)))"
    by simp
  moreover from ok(3) have "\<exists>q \<in> set qs. cq_id q = ''question-1''"
    by (cases qs) auto
  moreover have "selected_values (dict_get (the (ans_answers demo_answers)) ''question-1'') = [''b'']"
    by code_simp
  ultimately show ?thesis by metis
qed

end
