(* ===== verification/Conversation_State.thy ===== *)
theory Conversation_State
  imports Questions
begin

text \<open>
  The conversation aggregate of \<open>src/talktoharnesses/domain/transitions.py\<close>: its state, the result
  of a transition, the numbering of committed events (\<open>append_events\<close>), the derived execution
  status (\<open>_recompute_status\<close>) and the predicates that say when a runtime may be closed. The frame
  lemmas at the end state what each of these leaves alone; the transition theories rest on them.
\<close>

named_theorems state_defs "definitions of the aggregate's building blocks"

section \<open>The aggregate\<close>

record conversation_state =
  st_conversation :: conversation
  st_binding :: "binding option"
  st_active_turn :: "turn option"
  st_queued_turn :: "turn option"
  st_queued_user_text :: "string option"
  st_commands :: "(uuid, command) dict"
  st_interactions :: "(uuid, pending_interaction) dict"
  st_answers :: "(uuid, interaction_answer) dict"
  st_activities :: "(uuid, background_activity) dict"
  st_capabilities :: "harness_capabilities option"
  st_idle_reap_eligible :: bool
  st_seen_native_ids :: "string set"
  st_seen_stream_offsets :: "string set"
  st_split_stream :: "split_stream_cursor option"

record transition_result =
  tr_state :: conversation_state
  tr_events :: "conversation_event list"
  tr_command :: "command option"

definition result_of ::
  "conversation_state \<times> conversation_event list \<Rightarrow> command option \<Rightarrow> transition_result" where
  "result_of p c = \<lparr>tr_state = fst p, tr_events = snd p, tr_command = c\<rparr>"

text \<open>\<open>_replace_conversation\<close> and \<open>_with_commands\<close>.\<close>

definition replace_conversation ::
  "(conversation \<Rightarrow> conversation) \<Rightarrow> conversation_state \<Rightarrow> conversation_state" where
  "replace_conversation f st = st\<lparr>st_conversation := f (st_conversation st)\<rparr>"

definition with_commands ::
  "conversation_state \<Rightarrow> (uuid, command) dict \<Rightarrow> conversation_state" where
  "with_commands st commands = st\<lparr>st_commands := commands\<rparr>"

section \<open>Appending events\<close>

text \<open>The loop of \<open>append_events\<close>: one fresh event id and the next sequence number per payload.\<close>

fun make_events ::
  "uuid_supply \<Rightarrow> uuid \<Rightarrow> int \<Rightarrow> datetime \<Rightarrow> event_payload list \<Rightarrow> conversation_event list" where
  "make_events u cid sequence ts [] = []"
| "make_events u cid sequence ts (p # ps) =
     \<lparr>ev_event_id = u 0, ev_conversation_id = cid, ev_sequence = sequence, ev_timestamp = ts,
      ev_type = payload_type p, ev_payload = p\<rparr>
     # make_events (drop_supply 1 u) cid (sequence + 1) ts ps"

definition append_events ::
  "uuid_supply \<Rightarrow> conversation_state \<Rightarrow> datetime \<Rightarrow> event_payload list
     \<Rightarrow> conversation_state \<times> conversation_event list" where
  "append_events u st now payloads =
     (if payloads = [] then (st, [])
      else
        let sequence = conv_next_event_sequence (st_conversation st);
            events = make_events u (conv_id (st_conversation st)) sequence now payloads
        in (replace_conversation (\<lambda>c. c\<lparr>
              conv_next_event_sequence := sequence + int (length payloads),
              conv_updated_at := now,
              conv_version := conv_version c + 1\<rparr>) st,
            events))"

section \<open>Derived status\<close>

definition running_activities :: "conversation_state \<Rightarrow> background_activity list" where
  "running_activities st = filter (\<lambda>a. act_status a = ACT_RUNNING) (dict_values (st_activities st))"

definition switch_in_flight :: "conversation_state \<Rightarrow> bool" where
  "switch_in_flight st \<longleftrightarrow>
     list_ex (\<lambda>command. cmd_kind command = SWITCH_HARNESS \<and>
         cmd_status command \<in> {CMD_ACCEPTED, CMD_CLAIMED, CMD_DELIVERY_STARTED, CMD_DELIVERED})
       (dict_values (st_commands st))"

definition runtime_idle :: "conversation_state \<Rightarrow> bool" where
  "runtime_idle st \<longleftrightarrow> st_idle_reap_eligible st \<and> \<not> switch_in_flight st"

text \<open>The status and the reap flag \<open>_recompute_status\<close> computes for a conversation not archived.\<close>

definition derived_status :: "conversation_state \<Rightarrow> conversation_status \<times> bool" where
  "derived_status st =
     (case st_active_turn st of
        Some t \<Rightarrow> (if turn_status t = TURN_WAITING then CONV_WAITING else CONV_RUNNING, False)
      | None \<Rightarrow>
          if running_activities st \<noteq> [] then (CONV_BACKGROUND_ACTIVE, False)
          else if st_queued_turn st \<noteq> None then (CONV_IDLE, False)
          else (CONV_IDLE, True))"

definition recompute_status :: "conversation_state \<Rightarrow> datetime \<Rightarrow> conversation_state" where
  "recompute_status st now =
     (if conv_status (st_conversation st) = CONV_ARCHIVED then st
      else
        let (status, reap) = derived_status st in
        st\<lparr>st_conversation := (st_conversation st)\<lparr>conv_status := status, conv_updated_at := now\<rparr>,
           st_idle_reap_eligible := reap\<rparr>)"

section \<open>Lookups\<close>

definition find_command_by_idempotency :: "conversation_state \<Rightarrow> string \<Rightarrow> command option" where
  "find_command_by_idempotency st key =
     List.find (\<lambda>command. cmd_idempotency_key command = key) (dict_values (st_commands st))"

definition open_interactions :: "conversation_state \<Rightarrow> pending_interaction list" where
  "open_interactions st =
     filter (\<lambda>i. inter_status i \<in> {INT_PENDING, INT_DRAFT}) (dict_values (st_interactions st))"

definition turn_running_or_waiting :: "turn option \<Rightarrow> bool" where
  "turn_running_or_waiting t =
     (case t of None \<Rightarrow> False | Some t \<Rightarrow> turn_status t \<in> {TURN_RUNNING, TURN_WAITING})"

definition supports_steer :: "conversation_state \<Rightarrow> bool" where
  "supports_steer st = (case st_capabilities st of None \<Rightarrow> False | Some c \<Rightarrow> caps_supports_steer c)"

section \<open>Numbering\<close>

lemma make_events_length [simp]: "length (make_events u cid n ts ps) = length ps"
  by (induction u cid n ts ps rule: make_events.induct) simp_all

lemma make_events_sequence:
  "map ev_sequence (make_events u cid n ts ps) = [n..n + int (length ps) - 1]"
proof (induction u cid n ts ps rule: make_events.induct)
  case (1 u cid sequence ts)
  then show ?case by simp
next
  case (2 u cid sequence ts p ps)
  then show ?case
    by (subst upto_rec1) (simp_all add: algebra_simps)
qed

lemma make_events_payload: "map ev_payload (make_events u cid n ts ps) = ps"
  by (induction u cid n ts ps rule: make_events.induct) simp_all

lemma make_events_envelope:
  "1 \<le> n \<Longrightarrow> e \<in> set (make_events u cid n ts ps) \<Longrightarrow>
     valid_envelope e \<and> ev_conversation_id e = cid \<and> ev_timestamp e = ts"
  by (induction u cid n ts ps rule: make_events.induct) (auto simp: valid_envelope_def)

lemma make_events_ids: "map ev_event_id (make_events u cid n ts ps) = map u [0..<length ps]"
proof (induction u cid n ts ps rule: make_events.induct)
  case (1 u cid sequence ts)
  then show ?case by simp
next
  case (2 u cid sequence ts p ps)
  have "[0..<length (p # ps)] = 0 # map Suc [0..<length ps]"
    by (simp add: map_Suc_upt upt_conv_Cons del: upt_Suc)
  then show ?case
    using 2 by (simp add: drop_supply_def del: upt_Suc)
qed

section \<open>Frame lemmas\<close>

lemma append_events_Nil [simp]: "append_events u st now [] = (st, [])"
  by (simp add: append_events_def)

lemma append_events_events:
  "snd (append_events u st now ps) =
     make_events u (conv_id (st_conversation st)) (conv_next_event_sequence (st_conversation st)) now ps"
  by (simp add: append_events_def Let_def)

lemma append_events_state:
  "ps \<noteq> [] \<Longrightarrow>
   fst (append_events u st now ps) = st\<lparr>st_conversation := (st_conversation st)\<lparr>
     conv_next_event_sequence := conv_next_event_sequence (st_conversation st) + int (length ps),
     conv_updated_at := now,
     conv_version := conv_version (st_conversation st) + 1\<rparr>\<rparr>"
  by (simp add: append_events_def Let_def replace_conversation_def)

lemma recompute_status_frame [simp]:
  "st_binding (recompute_status st now) = st_binding st"
  "st_active_turn (recompute_status st now) = st_active_turn st"
  "st_queued_turn (recompute_status st now) = st_queued_turn st"
  "st_queued_user_text (recompute_status st now) = st_queued_user_text st"
  "st_commands (recompute_status st now) = st_commands st"
  "st_interactions (recompute_status st now) = st_interactions st"
  "st_answers (recompute_status st now) = st_answers st"
  "st_activities (recompute_status st now) = st_activities st"
  "st_capabilities (recompute_status st now) = st_capabilities st"
  "st_seen_native_ids (recompute_status st now) = st_seen_native_ids st"
  "st_seen_stream_offsets (recompute_status st now) = st_seen_stream_offsets st"
  "st_split_stream (recompute_status st now) = st_split_stream st"
  by (simp_all add: recompute_status_def split: prod.splits)

lemma recompute_status_conversation [simp]:
  "conv_id (st_conversation (recompute_status st now)) = conv_id (st_conversation st)"
  "conv_owner_id (st_conversation (recompute_status st now)) = conv_owner_id (st_conversation st)"
  "conv_version (st_conversation (recompute_status st now)) = conv_version (st_conversation st)"
  "conv_next_event_sequence (st_conversation (recompute_status st now))
     = conv_next_event_sequence (st_conversation st)"
  "conv_active_turn_id (st_conversation (recompute_status st now))
     = conv_active_turn_id (st_conversation st)"
  "conv_current_binding_id (st_conversation (recompute_status st now))
     = conv_current_binding_id (st_conversation st)"
  "conv_deleted_at (st_conversation (recompute_status st now))
     = conv_deleted_at (st_conversation st)"
  "conv_archived_at (st_conversation (recompute_status st now))
     = conv_archived_at (st_conversation st)"
  by (simp_all add: recompute_status_def split: prod.splits)

text \<open>The derived status looks only at the turns and the activities.\<close>

lemma derived_status_cong:
  "st_active_turn s = st_active_turn t \<Longrightarrow> st_queued_turn s = st_queued_turn t \<Longrightarrow>
     st_activities s = st_activities t \<Longrightarrow> derived_status s = derived_status t"
  by (simp add: derived_status_def running_activities_def split: option.split)

definition status_consistent :: "conversation_state \<Rightarrow> bool" where
  "status_consistent st \<longleftrightarrow>
     conv_status (st_conversation st) = CONV_ARCHIVED \<or>
     (conv_status (st_conversation st), st_idle_reap_eligible st) = derived_status st"

lemma recompute_status_consistent: "status_consistent (recompute_status st now)"
proof -
  have "derived_status (recompute_status st now) = derived_status st"
    by (rule derived_status_cong) simp_all
  then show ?thesis
    by (auto simp: status_consistent_def recompute_status_def split: prod.splits)
qed

text \<open>A consistent aggregate that may be reaped has no work left.\<close>

lemma status_consistent_reap:
  assumes "status_consistent st" and "conv_status (st_conversation st) \<noteq> CONV_ARCHIVED"
    and "st_idle_reap_eligible st"
  shows "st_active_turn st = None \<and> st_queued_turn st = None \<and> running_activities st = []"
  using assms by (auto simp: status_consistent_def derived_status_def split: option.splits if_splits)

lemmas state_defs' = result_of_def replace_conversation_def with_commands_def

end
