(* ===== verification/Interaction_Transitions.thy ===== *)
theory Interaction_Transitions
  imports Conversation_State
begin

text \<open>
  The interaction half of \<open>src/talktoharnesses/domain/transitions.py\<close>: a turn that needs an answer
  waits on open interactions (\<open>request_interaction\<close>), drafts can be edited, the first submitted
  answer wins (\<open>submit_interaction_answer\<close>), and the end of a turn cancels what is still open
  (\<open>cancel_interaction\<close>, \<open>cancel_open_interactions\<close>).
\<close>

section \<open>Answer validation\<close>

definition answers_json :: "(string, string list) dict \<Rightarrow> (string, json) dict" where
  "answers_json d = map (\<lambda>(k, vs). (k, JArr (map JStr vs))) d"

definition validate_interaction_answer ::
  "pending_interaction \<Rightarrow> interaction_answer \<Rightarrow> interaction_answer result" where
  "validate_interaction_answer interaction answer =
     (case inter_kind interaction of
        APPROVAL \<Rightarrow>
          if ans_answers answer \<noteq> None then
            raise_domain INVALID_STATE ''approval interaction cannot include structured answers''
          else (case ans_decision answer of
            None \<Rightarrow> raise_domain INVALID_STATE ''approval interaction requires a decision''
          | Some decision \<Rightarrow>
              (case inter_request interaction of
                 StructuredQuestion _ \<Rightarrow>
                   raise_domain INVALID_STATE ''approval request payload mismatch''
               | ApprovalRequest request \<Rightarrow>
                   if decision \<notin> set (arp_available_decisions request) then
                     raise_domain INVALID_STATE
                       (''decision '' @ approval_decision_value decision
                          @ '' not available for this interaction'')
                   else Inr answer))
      | STRUCTURED_QUESTION \<Rightarrow>
          if ans_decision answer \<noteq> None then
            raise_domain INVALID_STATE ''structured question cannot include an approval decision''
          else if ans_answers answer = None then
            raise_domain INVALID_STATE ''structured question requires answers''
          else (case inter_request interaction of
             ApprovalRequest _ \<Rightarrow>
               raise_domain INVALID_STATE ''structured question payload mismatch''
           | StructuredQuestion questions \<Rightarrow>
               bind_result (canonical_answer_values answer questions) (\<lambda>values.
                 Inr (answer\<lparr>ans_answers := Some (answers_json values)\<rparr>))))"

section \<open>Resuming the turn\<close>

definition maybe_resume_after_interactions ::
  "conversation_state \<Rightarrow> datetime \<Rightarrow> conversation_state" where
  "maybe_resume_after_interactions st now =
     (case st_active_turn st of
        None \<Rightarrow> st
      | Some turn \<Rightarrow>
          if turn_status turn \<noteq> TURN_WAITING then st
          else if open_interactions st \<noteq> [] then st
          else st\<lparr>st_active_turn := Some (turn\<lparr>turn_status := TURN_RUNNING\<rparr>),
                  st_conversation := (st_conversation st)\<lparr>
                    conv_status := CONV_RUNNING, conv_updated_at := now\<rparr>\<rparr>)"

section \<open>Requesting\<close>

text \<open>
  \<open>_request_bytes\<close> compares the JSON dumps of two requests of the same model; the dump names every
  field, so equal bytes mean equal requests and the comparison is equality of the payloads.
\<close>

definition request_interaction ::
  "uuid_supply \<Rightarrow> conversation_state \<Rightarrow> pending_interaction \<Rightarrow> datetime \<Rightarrow> transition_result result" where
  "request_interaction u st interaction now =
     (case st_active_turn st of
        None \<Rightarrow> raise_domain NO_ACTIVE_TURN ''interaction requires an active turn''
      | Some active \<Rightarrow>
          if inter_conversation_id interaction \<noteq> conv_id (st_conversation st) then
            raise_domain INVALID_STATE ''interaction belongs to another conversation''
          else if inter_turn_id interaction \<noteq> turn_id active then
            raise_domain INVALID_STATE ''interaction belongs to another turn''
          else (case dict_get (st_interactions st) (inter_id interaction) of
             Some existing \<Rightarrow>
               if inter_kind existing = inter_kind interaction
                  \<and> inter_turn_id existing = inter_turn_id interaction
                  \<and> inter_request existing = inter_request interaction
               then Inr (result_of (st, []) None)
               else raise_domain INVALID_STATE
                 (''interaction '' @ uuid_str (inter_id interaction)
                    @ '' already exists with different data'')
           | None \<Rightarrow>
               (let pending = interaction\<lparr>inter_status := INT_PENDING\<rparr>;
                    new_state = st\<lparr>
                      st_interactions := dict_put (st_interactions st) (inter_id pending) pending,
                      st_active_turn := Some (active\<lparr>turn_status := TURN_WAITING\<rparr>),
                      st_conversation := (st_conversation st)\<lparr>
                        conv_status := CONV_WAITING, conv_updated_at := now\<rparr>,
                      st_idle_reap_eligible := False\<rparr>
                in Inr (result_of (append_events u new_state now
                     [NoticeEvent (InteractionRequested (inter_turn_id pending) (inter_id pending)
                        (inter_kind pending) (inter_request pending)),
                      TurnEvent (TurnWaiting (turn_id active) (Some (inter_id pending)))]) None))))"

section \<open>Drafting\<close>

definition update_interaction_draft ::
  "uuid_supply \<Rightarrow> conversation_state \<Rightarrow> uuid \<Rightarrow> (string, json) dict \<Rightarrow> datetime
     \<Rightarrow> transition_result result" where
  "update_interaction_draft u st interaction_id draft now =
     (case dict_get (st_interactions st) interaction_id of
        None \<Rightarrow> raise_domain INVALID_STATE (''unknown interaction '' @ uuid_str interaction_id)
      | Some interaction \<Rightarrow>
          if inter_status interaction \<notin> {INT_PENDING, INT_DRAFT} then
            raise_domain INTERACTION_ALREADY_RESOLVED
              ''cannot edit a submitted, resolved, or cancelled interaction''
          else
            let updated = interaction\<lparr>inter_status := INT_DRAFT, inter_draft := Some draft\<rparr>;
                new_state = st\<lparr>st_interactions :=
                  dict_put (st_interactions st) interaction_id updated\<rparr>
            in Inr (result_of (append_events u new_state now
                 [NoticeEvent (InteractionDraftUpdated interaction_id draft)]) None))"

section \<open>Submitting an answer\<close>

definition answered :: "conversation_state \<Rightarrow> uuid \<Rightarrow> bool" where
  "answered st interaction_id =
     (case dict_get (st_answers st) interaction_id of None \<Rightarrow> False | Some a \<Rightarrow> \<not> ans_is_draft a)"

definition submit_interaction_answer ::
  "uuid_supply \<Rightarrow> conversation_state \<Rightarrow> interaction_answer \<Rightarrow> datetime \<Rightarrow> bool
     \<Rightarrow> transition_result result" where
  "submit_interaction_answer u st answer now automatic =
     (let interaction_id = ans_interaction_id answer in
      case dict_get (st_interactions st) interaction_id of
        None \<Rightarrow> raise_domain INVALID_STATE (''unknown interaction '' @ uuid_str interaction_id)
      | Some interaction \<Rightarrow>
          if answered st interaction_id then Inr (result_of (st, []) None)
          else if inter_status interaction \<in> {INT_RESOLVED, INT_SUBMITTED, INT_CANCELLED} then
            (if answered st interaction_id then Inr (result_of (st, []) None)
             else raise_domain INTERACTION_ALREADY_RESOLVED ''interaction already resolved'')
          else bind_result (validate_interaction_answer interaction answer) (\<lambda>valid.
            let submitted = valid\<lparr>ans_is_draft := False, ans_submitted_at := Some now\<rparr>;
                new_state = st\<lparr>
                  st_answers := dict_put (st_answers st) interaction_id submitted,
                  st_interactions := dict_put (st_interactions st) interaction_id
                    (interaction\<lparr>inter_status := INT_RESOLVED\<rparr>)\<rparr>
            in Inr (result_of (append_events u (maybe_resume_after_interactions new_state now) now
                 [NoticeEvent (InteractionResolved interaction_id (inter_turn_id interaction)
                    (ans_decision submitted) (ans_answers submitted) automatic)]) None)))"

section \<open>Cancelling\<close>

text \<open>Cancelling is total: an interaction that is unknown or no longer open is left alone.\<close>

definition cancel_interaction ::
  "uuid_supply \<Rightarrow> conversation_state \<Rightarrow> uuid \<Rightarrow> datetime
     \<Rightarrow> conversation_state \<times> conversation_event list" where
  "cancel_interaction u st interaction_id now =
     (case dict_get (st_interactions st) interaction_id of
        None \<Rightarrow> (st, [])
      | Some interaction \<Rightarrow>
          if inter_status interaction \<notin> {INT_PENDING, INT_DRAFT} then (st, [])
          else
            let new_state = st\<lparr>
                  st_interactions := dict_put (st_interactions st) interaction_id
                    (interaction\<lparr>inter_status := INT_CANCELLED\<rparr>),
                  st_answers := dict_put (st_answers st) interaction_id
                    \<lparr>ans_interaction_id = interaction_id, ans_decision = Some CANCEL,
                     ans_answers = None, ans_is_draft = False, ans_submitted_at = Some now\<rparr>\<rparr>
            in append_events u (maybe_resume_after_interactions new_state now) now
                 [NoticeEvent (InteractionResolved interaction_id (inter_turn_id interaction)
                    (Some CANCEL) None False)])"

text \<open>The loop of \<open>cancel_open_interactions\<close> over the sorted list.\<close>

fun cancel_each ::
  "uuid_supply \<Rightarrow> conversation_state \<Rightarrow> uuid list \<Rightarrow> datetime
     \<Rightarrow> conversation_state \<times> conversation_event list" where
  "cancel_each u st [] now = (st, [])"
| "cancel_each u st (i # rest) now =
     (let (current, events) = cancel_interaction u st i now;
          (final, more) = cancel_each (drop_supply (length events) u) current rest now
      in (final, events @ more))"

definition cancel_open_interactions ::
  "uuid_supply \<Rightarrow> conversation_state \<Rightarrow> datetime \<Rightarrow> conversation_state \<times> conversation_event list" where
  "cancel_open_interactions u st now =
     (let open_items = open_interactions st in
      if open_items = [] then (st, [])
      else cancel_each u st
        (map inter_id (sort_key (\<lambda>i. (inter_created_at i, inter_id i)) open_items)) now)"

section \<open>Frame lemmas\<close>

lemma maybe_resume_frame [simp]:
  "st_binding (maybe_resume_after_interactions st now) = st_binding st"
  "st_queued_turn (maybe_resume_after_interactions st now) = st_queued_turn st"
  "st_queued_user_text (maybe_resume_after_interactions st now) = st_queued_user_text st"
  "st_commands (maybe_resume_after_interactions st now) = st_commands st"
  "st_interactions (maybe_resume_after_interactions st now) = st_interactions st"
  "st_answers (maybe_resume_after_interactions st now) = st_answers st"
  "st_activities (maybe_resume_after_interactions st now) = st_activities st"
  "st_capabilities (maybe_resume_after_interactions st now) = st_capabilities st"
  "st_idle_reap_eligible (maybe_resume_after_interactions st now) = st_idle_reap_eligible st"
  by (simp_all add: maybe_resume_after_interactions_def split: option.splits)

lemma maybe_resume_conversation [simp]:
  "conv_id (st_conversation (maybe_resume_after_interactions st now)) = conv_id (st_conversation st)"
  "conv_version (st_conversation (maybe_resume_after_interactions st now))
     = conv_version (st_conversation st)"
  "conv_next_event_sequence (st_conversation (maybe_resume_after_interactions st now))
     = conv_next_event_sequence (st_conversation st)"
  "conv_active_turn_id (st_conversation (maybe_resume_after_interactions st now))
     = conv_active_turn_id (st_conversation st)"
  "conv_current_binding_id (st_conversation (maybe_resume_after_interactions st now))
     = conv_current_binding_id (st_conversation st)"
  "conv_deleted_at (st_conversation (maybe_resume_after_interactions st now))
     = conv_deleted_at (st_conversation st)"
  by (simp_all add: maybe_resume_after_interactions_def split: option.splits)

end
