(* ===== verification/Conversation_Invariant.thy ===== *)
theory Conversation_Invariant
  imports Interaction_Transitions
begin

text \<open>
  What every transition of the conversation aggregate keeps. \<open>wf_state\<close> is the well-formedness
  invariant of the aggregate, \<open>project\<close> its abstraction to the turn lifecycle and \<open>replay\<close> the
  abstract machine that reads the committed events: an event log is sound when replaying it moves
  the abstraction exactly as the transition moved the aggregate. \<open>sound_step\<close> bundles the invariant,
  the numbering, the replay and the two permanence laws (idempotency keys and submitted answers);
  it composes, so the transitions that loop are handled by induction.
\<close>

named_theorems frame_simps "fields of the aggregate that an operation leaves alone"

section \<open>Frames\<close>

lemma append_events_frame [simp]:
  "st_binding (fst (append_events u st now ps)) = st_binding st"
  "st_active_turn (fst (append_events u st now ps)) = st_active_turn st"
  "st_queued_turn (fst (append_events u st now ps)) = st_queued_turn st"
  "st_queued_user_text (fst (append_events u st now ps)) = st_queued_user_text st"
  "st_commands (fst (append_events u st now ps)) = st_commands st"
  "st_interactions (fst (append_events u st now ps)) = st_interactions st"
  "st_answers (fst (append_events u st now ps)) = st_answers st"
  "st_activities (fst (append_events u st now ps)) = st_activities st"
  "st_capabilities (fst (append_events u st now ps)) = st_capabilities st"
  "st_idle_reap_eligible (fst (append_events u st now ps)) = st_idle_reap_eligible st"
  "conv_id (st_conversation (fst (append_events u st now ps))) = conv_id (st_conversation st)"
  "conv_status (st_conversation (fst (append_events u st now ps))) = conv_status (st_conversation st)"
  "conv_active_turn_id (st_conversation (fst (append_events u st now ps)))
     = conv_active_turn_id (st_conversation st)"
  "conv_current_binding_id (st_conversation (fst (append_events u st now ps)))
     = conv_current_binding_id (st_conversation st)"
  "conv_deleted_at (st_conversation (fst (append_events u st now ps)))
     = conv_deleted_at (st_conversation st)"
  "conv_next_event_sequence (st_conversation (fst (append_events u st now ps)))
     = conv_next_event_sequence (st_conversation st) + int (length ps)"
  by (simp_all add: append_events_def Let_def replace_conversation_def)

section \<open>The well-formedness invariant\<close>

text \<open>The tables of the aggregate are keyed stores, each under the identifier of its own entity.\<close>

interpretation commands: keyed_store "dict_get" "\<lambda>d k v. dict_put d k v" cmd_id
  by unfold_locales (simp add: dict_get_put)

interpretation interactions: keyed_store "dict_get" "\<lambda>d k v. dict_put d k v" inter_id
  by unfold_locales (simp add: dict_get_put)

interpretation answers: keyed_store "dict_get" "\<lambda>d k v. dict_put d k v" ans_interaction_id
  by unfold_locales (simp add: dict_get_put)

interpretation activities: keyed_store "dict_get" "\<lambda>d k v. dict_put d k v" act_id
  by unfold_locales (simp add: dict_get_put)

definition wf_tables :: "conversation_state \<Rightarrow> bool" where
  "wf_tables st \<longleftrightarrow>
     commands.keyed (st_commands st) \<and> distinct (dict_keys (st_commands st)) \<and>
     interactions.keyed (st_interactions st) \<and> distinct (dict_keys (st_interactions st)) \<and>
     answers.keyed (st_answers st) \<and> distinct (dict_keys (st_answers st)) \<and>
     activities.keyed (st_activities st) \<and> distinct (dict_keys (st_activities st))"

text \<open>A command carries the payload of its kind, and no two commands share an idempotency key.\<close>

definition wf_commands :: "(uuid, command) dict \<Rightarrow> bool" where
  "wf_commands d \<longleftrightarrow>
     (\<forall>k c. dict_get d k = Some c \<longrightarrow> kind_matches_payload c) \<and>
     (\<forall>j k c c'. dict_get d j = Some c \<longrightarrow> dict_get d k = Some c' \<longrightarrow>
        cmd_idempotency_key c = cmd_idempotency_key c' \<longrightarrow> j = k)"

text \<open>
  The active turn is running or waiting, the conversation names it, an archived conversation has
  none; the queued turn is queued and has its text, and is not the active one.
\<close>

definition wf_turns :: "conversation_state \<Rightarrow> bool" where
  "wf_turns st \<longleftrightarrow>
     conv_active_turn_id (st_conversation st) = map_option turn_id (st_active_turn st) \<and>
     (\<forall>t. st_active_turn st = Some t \<longrightarrow>
        turn_status t \<in> {TURN_RUNNING, TURN_WAITING}
        \<and> conv_status (st_conversation st) \<noteq> CONV_ARCHIVED) \<and>
     (\<forall>t. st_queued_turn st = Some t \<longrightarrow> turn_status t = TURN_QUEUED) \<and>
     (st_queued_turn st = None \<longleftrightarrow> st_queued_user_text st = None) \<and>
     (\<forall>t q. st_active_turn st = Some t \<longrightarrow> st_queued_turn st = Some q \<longrightarrow> turn_id q \<noteq> turn_id t)"

definition inter_open :: "pending_interaction \<Rightarrow> bool" where
  "inter_open i \<longleftrightarrow> inter_status i \<in> {INT_PENDING, INT_DRAFT}"

definition open_ids :: "(uuid, pending_interaction) dict \<Rightarrow> uuid set" where
  "open_ids d = fst ` set (filter (\<lambda>p. inter_open (snd p)) d)"

text \<open>
  Open interactions belong to the active turn, which waits exactly while there is one; an
  interaction has a submitted answer exactly when it is resolved or cancelled.
\<close>

definition wf_interactions :: "conversation_state \<Rightarrow> bool" where
  "wf_interactions st \<longleftrightarrow>
     (\<forall>k x. dict_get (st_interactions st) k = Some x \<longrightarrow>
        inter_status x \<noteq> INT_SUBMITTED \<and>
        (inter_open x \<longrightarrow> map_option turn_id (st_active_turn st) = Some (inter_turn_id x))) \<and>
     (\<forall>t. st_active_turn st = Some t \<longrightarrow>
        (turn_status t = TURN_WAITING \<longleftrightarrow> open_ids (st_interactions st) \<noteq> {})) \<and>
     (\<forall>k. answered st k \<longleftrightarrow>
        (\<exists>x. dict_get (st_interactions st) k = Some x \<and> \<not> inter_open x))"

definition wf_binding :: "conversation_state \<Rightarrow> bool" where
  "wf_binding st \<longleftrightarrow>
     conv_current_binding_id (st_conversation st) = map_option bind_id (st_binding st)"

definition wf_state :: "conversation_state \<Rightarrow> bool" where
  "wf_state st \<longleftrightarrow>
     wf_tables st \<and> wf_commands (st_commands st) \<and> wf_turns st \<and> wf_interactions st
     \<and> wf_binding st \<and> status_consistent st
     \<and> 1 \<le> conv_next_event_sequence (st_conversation st)"

section \<open>The turn lifecycle that the event log describes\<close>

record lifecycle =
  lc_queued :: "(uuid \<times> string) option"
  lc_active :: "uuid option"
  lc_open :: "uuid set"

definition project :: "conversation_state \<Rightarrow> lifecycle" where
  "project st = \<lparr>
     lc_queued = (case (st_queued_turn st, st_queued_user_text st) of
        (Some t, Some text) \<Rightarrow> Some (turn_id t, text) | _ \<Rightarrow> None),
     lc_active = map_option turn_id (st_active_turn st),
     lc_open = open_ids (st_interactions st)\<rparr>"

text \<open>A terminal event of turn \<open>t\<close>: only when \<open>t\<close> is active and nothing is left open.\<close>

definition end_turn :: "lifecycle \<Rightarrow> uuid \<Rightarrow> lifecycle option" where
  "end_turn l t =
     (if lc_active l = Some t \<and> lc_open l = {} then Some (l\<lparr>lc_active := None\<rparr>) else None)"

definition drop_queued :: "lifecycle \<Rightarrow> uuid \<Rightarrow> lifecycle option" where
  "drop_queued l t =
     (case lc_queued l of
        Some (q, _) \<Rightarrow> if q = t then Some (l\<lparr>lc_queued := None\<rparr>) else None
      | None \<Rightarrow> None)"

fun replay_turn :: "lifecycle \<Rightarrow> turn_payload \<Rightarrow> lifecycle option" where
  "replay_turn l (TurnQueued t _ text _) =
     (if lc_active l = Some t \<or> (case lc_queued l of Some (q, _) \<Rightarrow> q \<noteq> t | None \<Rightarrow> False) then None
      else Some (l\<lparr>lc_queued := Some (t, text)\<rparr>))"
| "replay_turn l (TurnStarted t _) =
     (case lc_active l of
        Some _ \<Rightarrow> None
      | None \<Rightarrow> map_option (\<lambda>l'. l'\<lparr>lc_active := Some t\<rparr>) (drop_queued l t))"
| "replay_turn l (TurnSteering t _ _) = (if lc_active l = Some t then Some l else None)"
| "replay_turn l (TurnWaiting t _) =
     (if lc_active l = Some t \<and> lc_open l \<noteq> {} then Some l else None)"
| "replay_turn l (TurnCompleted t _ _) = end_turn l t"
| "replay_turn l (TurnInterrupted t _) = end_turn l t"
| "replay_turn l (TurnCancelled t) = drop_queued l t"
| "replay_turn l (TurnFailed t _ _) =
     (case drop_queued l t of Some l' \<Rightarrow> Some l' | None \<Rightarrow> end_turn l t)"
| "replay_turn l (TurnOutcomeUnknown t _ _ _) = end_turn l t"

fun replay_notice :: "lifecycle \<Rightarrow> notice_payload \<Rightarrow> lifecycle option" where
  "replay_notice l (InteractionRequested t i _ _) =
     (if lc_active l = Some t \<and> i \<notin> lc_open l then Some (l\<lparr>lc_open := insert i (lc_open l)\<rparr>)
      else None)"
| "replay_notice l (InteractionDraftUpdated i _) = (if i \<in> lc_open l then Some l else None)"
| "replay_notice l (InteractionResolved i t _ _ _) =
     (if lc_active l = Some t \<and> i \<in> lc_open l then Some (l\<lparr>lc_open := lc_open l - {i}\<rparr>) else None)"
| "replay_notice l _ = Some l"

fun replay_event :: "lifecycle \<Rightarrow> event_payload \<Rightarrow> lifecycle option" where
  "replay_event l (TurnEvent p) = replay_turn l p"
| "replay_event l (NoticeEvent p) = replay_notice l p"
| "replay_event l _ = Some l"

fun replay :: "lifecycle \<Rightarrow> conversation_event list \<Rightarrow> lifecycle option" where
  "replay l [] = Some l"
| "replay l (e # es) =
     (case replay_event l (ev_payload e) of None \<Rightarrow> None | Some l' \<Rightarrow> replay l' es)"

lemma replay_append:
  "replay l (es @ es') = (case replay l es of None \<Rightarrow> None | Some l' \<Rightarrow> replay l' es')"
  by (induction l es rule: replay.induct) (auto split: option.split)

section \<open>Numbering\<close>

text \<open>The events of a step continue the numbering of the conversation without a gap.\<close>

definition numbered ::
  "conversation_state \<Rightarrow> conversation_event list \<Rightarrow> conversation_state \<Rightarrow> bool" where
  "numbered st es st' \<longleftrightarrow>
     map ev_sequence es = [conv_next_event_sequence (st_conversation st)
                           .. conv_next_event_sequence (st_conversation st') - 1] \<and>
     conv_next_event_sequence (st_conversation st')
       = conv_next_event_sequence (st_conversation st) + int (length es) \<and>
     (\<forall>e \<in> set es. valid_envelope e \<and> ev_conversation_id e = conv_id (st_conversation st)) \<and>
     conv_id (st_conversation st') = conv_id (st_conversation st)"

lemma upto_append:
  "[a..a + int m - 1] @ [a + int m..a + int m + int n - 1] = [a..a + int m + int n - 1]"
  using upto_split2 [of a "a + int m - 1" "a + int m + int n - 1"] by (cases "m = 0") auto

lemma numbered_trans:
  assumes "numbered s es s1" and "numbered s1 es' s2"
  shows "numbered s (es @ es') s2"
  using assms by (auto simp: numbered_def upto_append)

lemma numbered_append:
  assumes "1 \<le> conv_next_event_sequence (st_conversation st)"
    and "conv_next_event_sequence (st_conversation s) = conv_next_event_sequence (st_conversation st)"
    and "conv_id (st_conversation s) = conv_id (st_conversation st)"
  shows "numbered st (snd (append_events u s now ps)) (fst (append_events u s now ps))"
  using assms make_events_envelope [OF assms(1)]
  by (simp add: numbered_def append_events_events make_events_sequence)

section \<open>Permanence\<close>

text \<open>Commands are never forgotten and keep their idempotency key; a submitted answer is final.\<close>

definition commands_kept :: "(uuid, command) dict \<Rightarrow> (uuid, command) dict \<Rightarrow> bool" where
  "commands_kept d d' \<longleftrightarrow>
     (\<forall>k c. dict_get d k = Some c \<longrightarrow>
        (\<exists>c'. dict_get d' k = Some c' \<and> cmd_idempotency_key c' = cmd_idempotency_key c))"

definition answers_kept :: "(uuid, interaction_answer) dict \<Rightarrow> (uuid, interaction_answer) dict \<Rightarrow> bool" where
  "answers_kept d d' \<longleftrightarrow>
     (\<forall>k a. dict_get d k = Some a \<longrightarrow> \<not> ans_is_draft a \<longrightarrow> dict_get d' k = Some a)"

lemma commands_kept_refl [simp]: "commands_kept d d"
  by (simp add: commands_kept_def)

lemma commands_kept_trans: "commands_kept d d1 \<Longrightarrow> commands_kept d1 d2 \<Longrightarrow> commands_kept d d2"
  unfolding commands_kept_def by metis

lemma answers_kept_refl [simp]: "answers_kept d d"
  by (simp add: answers_kept_def)

lemma answers_kept_trans: "answers_kept d d1 \<Longrightarrow> answers_kept d1 d2 \<Longrightarrow> answers_kept d d2"
  by (simp add: answers_kept_def)

lemma commands_kept_put:
  "(\<And>c'. dict_get d k = Some c' \<Longrightarrow> cmd_idempotency_key c' = cmd_idempotency_key c) \<Longrightarrow>
     commands_kept d (dict_put d k c)"
  by (simp add: commands_kept_def dict_get_put)

section \<open>Sound steps\<close>

definition sound_step ::
  "conversation_state \<Rightarrow> conversation_event list \<Rightarrow> conversation_state \<Rightarrow> bool" where
  "sound_step st es st' \<longleftrightarrow>
     wf_state st' \<and> numbered st es st' \<and> replay (project st) es = Some (project st') \<and>
     commands_kept (st_commands st) (st_commands st') \<and>
     answers_kept (st_answers st) (st_answers st')"

lemma sound_step_refl: "wf_state st \<Longrightarrow> sound_step st [] st"
  by (simp add: sound_step_def numbered_def)

lemma sound_step_trans:
  "sound_step s es s1 \<Longrightarrow> sound_step s1 es' s2 \<Longrightarrow> sound_step s (es @ es') s2"
  unfolding sound_step_def
  by (auto simp: replay_append intro: numbered_trans commands_kept_trans answers_kept_trans)

section \<open>Invariants of the building blocks\<close>

lemma wf_tables_cong:
  "st_commands s = st_commands t \<Longrightarrow> st_interactions s = st_interactions t \<Longrightarrow>
     st_answers s = st_answers t \<Longrightarrow> st_activities s = st_activities t \<Longrightarrow>
     wf_tables s = wf_tables t"
  by (simp add: wf_tables_def)

lemma wf_turns_cong:
  "conv_active_turn_id (st_conversation s) = conv_active_turn_id (st_conversation t) \<Longrightarrow>
     st_active_turn s = st_active_turn t \<Longrightarrow> st_queued_turn s = st_queued_turn t \<Longrightarrow>
     st_queued_user_text s = st_queued_user_text t \<Longrightarrow>
     conv_status (st_conversation s) = conv_status (st_conversation t) \<or> st_active_turn s = None \<Longrightarrow>
     wf_turns s = wf_turns t"
  by (auto simp: wf_turns_def)

lemma answered_cong: "st_answers s = st_answers t \<Longrightarrow> answered s = answered t"
  by (simp add: answered_def fun_eq_iff)

lemma wf_interactions_cong:
  "st_active_turn s = st_active_turn t \<Longrightarrow> st_interactions s = st_interactions t \<Longrightarrow>
     st_answers s = st_answers t \<Longrightarrow> wf_interactions s = wf_interactions t"
  by (simp add: wf_interactions_def answered_cong [of s t])

lemma wf_binding_cong:
  "conv_current_binding_id (st_conversation s) = conv_current_binding_id (st_conversation t) \<Longrightarrow>
     map_option bind_id (st_binding s) = map_option bind_id (st_binding t) \<Longrightarrow>
     wf_binding s = wf_binding t"
  by (simp add: wf_binding_def)

lemma status_consistent_cong:
  "conv_status (st_conversation s) = conv_status (st_conversation t) \<Longrightarrow>
     st_idle_reap_eligible s = st_idle_reap_eligible t \<Longrightarrow>
     st_active_turn s = st_active_turn t \<Longrightarrow> st_queued_turn s = st_queued_turn t \<Longrightarrow>
     st_activities s = st_activities t \<Longrightarrow> status_consistent s = status_consistent t"
  by (simp add: status_consistent_def derived_status_cong [of s t])

lemma project_cong:
  "st_active_turn s = st_active_turn t \<Longrightarrow> st_queued_turn s = st_queued_turn t \<Longrightarrow>
     st_queued_user_text s = st_queued_user_text t \<Longrightarrow> st_interactions s = st_interactions t \<Longrightarrow>
     project s = project t"
  by (simp add: project_def)

lemma wf_append [simp]:
  "wf_tables (fst (append_events u st now ps)) = wf_tables st"
  "wf_turns (fst (append_events u st now ps)) = wf_turns st"
  "wf_interactions (fst (append_events u st now ps)) = wf_interactions st"
  "wf_binding (fst (append_events u st now ps)) = wf_binding st"
  "status_consistent (fst (append_events u st now ps)) = status_consistent st"
  "project (fst (append_events u st now ps)) = project st"
  by (rule wf_tables_cong wf_turns_cong wf_interactions_cong wf_binding_cong status_consistent_cong
      project_cong; simp)+

lemma recompute_not_archived:
  "conv_status (st_conversation st) \<noteq> CONV_ARCHIVED \<Longrightarrow>
     conv_status (st_conversation (recompute_status st now)) \<noteq> CONV_ARCHIVED"
  by (auto simp: recompute_status_def derived_status_def split: prod.splits option.splits if_splits)

lemma wf_recompute [simp]:
  "wf_tables (recompute_status st now) = wf_tables st"
  "wf_interactions (recompute_status st now) = wf_interactions st"
  "wf_binding (recompute_status st now) = wf_binding st"
  "status_consistent (recompute_status st now)"
  "project (recompute_status st now) = project st"
  by (rule wf_tables_cong wf_interactions_cong wf_binding_cong project_cong
      recompute_status_consistent; simp)+

lemma wf_turns_recompute [simp]: "wf_turns st \<Longrightarrow> wf_turns (recompute_status st now)"
  using recompute_not_archived [of st now] by (auto simp: wf_turns_def)

text \<open>
  The two shapes of a transition that appends events: with and without the status recomputed. What
  remains to show of an operation is the invariant of the aggregate it hands to \<open>append_events\<close>.
\<close>

definition core_step :: "conversation_state \<Rightarrow> event_payload list \<Rightarrow> conversation_state \<Rightarrow> bool" where
  "core_step st ps s \<longleftrightarrow>
     wf_tables s \<and> wf_commands (st_commands s) \<and> wf_turns s \<and> wf_interactions s \<and> wf_binding s \<and>
     conv_next_event_sequence (st_conversation s) = conv_next_event_sequence (st_conversation st) \<and>
     conv_id (st_conversation s) = conv_id (st_conversation st) \<and>
     commands_kept (st_commands st) (st_commands s) \<and> answers_kept (st_answers st) (st_answers s) \<and>
     (\<forall>es. map ev_payload es = ps \<longrightarrow> replay (project st) es = Some (project s))"

lemma sound_step_append:
  assumes "wf_state st" and "core_step st ps s" and "status_consistent s"
  shows "sound_step st (snd (append_events u s now ps)) (fst (append_events u s now ps))"
  using assms numbered_append [of st s u now ps]
  by (simp add: sound_step_def core_step_def wf_state_def append_events_events make_events_payload)

lemma sound_step_append_recompute:
  assumes "wf_state st" and "core_step st ps s"
  shows "sound_step st (snd (append_events u s now ps))
           (recompute_status (fst (append_events u s now ps)) now)"
proof -
  have "numbered st (snd (append_events u s now ps))
          (recompute_status (fst (append_events u s now ps)) now)"
    using assms numbered_append [of st s u now ps]
    by (simp add: numbered_def core_step_def wf_state_def)
  with assms show ?thesis
    by (simp add: sound_step_def core_step_def wf_state_def append_events_events make_events_payload)
qed

lemma replay_one:
  "(\<forall>es. map ev_payload es = [p] \<longrightarrow> replay l es = Some l') \<longleftrightarrow> replay_event l p = Some l'"
proof
  let ?e = "\<lparr>ev_event_id = Uuid 0, ev_conversation_id = Uuid 0, ev_sequence = 1, ev_timestamp = 0,
             ev_type = payload_type p, ev_payload = p\<rparr>"
  assume a: "\<forall>es. map ev_payload es = [p] \<longrightarrow> replay l es = Some l'"
  from a [rule_format, of "[?e]"] show "replay_event l p = Some l'"
    by (auto split: option.splits)
qed (auto simp: map_eq_Cons_conv)

lemma replay_two:
  "replay_event l p = Some l1 \<Longrightarrow> replay_event l1 q = Some l2 \<Longrightarrow>
     map ev_payload es = [p, q] \<Longrightarrow> replay l es = Some l2"
  by (auto simp: map_eq_Cons_conv)

end
