(* ===== verification/Turn_Transitions.thy ===== *)
theory Turn_Transitions
  imports Interaction_Transitions
begin

text \<open>
  The turn half of \<open>src/talktoharnesses/domain/transitions.py\<close>: prompts are queued or steered
  (\<open>submit_turn\<close>, \<open>apply_steer\<close>, \<open>_queue_prompt\<close>), the queued prompt is edited, cancelled or started,
  and an active turn ends in one of four terminal states. Background activities, which outlive
  turns, are here too.
\<close>

section \<open>Queueing a prompt\<close>

text \<open>
  The first branch creates a queued turn, the second appends the prompt to the queued text and marks
  a later command as coalesced into the command of the queued turn. The argument \<open>coalesce\<close> of the
  source is not read by its body.
\<close>

definition queue_prompt ::
  "uuid_supply \<Rightarrow> conversation_state \<Rightarrow> string \<Rightarrow> command \<Rightarrow> datetime \<Rightarrow> transition_result" where
  "queue_prompt u st prompt command now =
     (let (turn, text, coalesced, cmd, u') =
        (case st_queued_turn st of
           None \<Rightarrow>
             (\<lparr>turn_id = u 0, turn_conversation_id = conv_id (st_conversation st),
               turn_status = TURN_QUEUED, turn_user_message_id = None,
               turn_command_id = Some (cmd_id command), turn_terminal_reason = None,
               turn_created_at = now, turn_started_at = None, turn_completed_at = None\<rparr>,
              prompt, False, command, drop_supply 1 u)
         | Some turn \<Rightarrow>
             (let existing = (case st_queued_user_text st of None \<Rightarrow> [] | Some t \<Rightarrow> t);
                  text = (if existing \<noteq> [] then existing @ [CHR 0x0A] @ prompt else prompt);
                  cmd = (if turn_command_id turn \<noteq> None
                            \<and> turn_command_id turn \<noteq> Some (cmd_id command)
                         then command\<lparr>cmd_status := CMD_COALESCED,
                                cmd_coalesced_into_command_id := turn_command_id turn,
                                cmd_target_turn_id := Some (turn_id turn)\<rparr>
                         else command\<lparr>cmd_target_turn_id := Some (turn_id turn)\<rparr>)
              in (turn, text, True, cmd, u)));
        cmd = cmd\<lparr>cmd_target_turn_id := Some (turn_id turn)\<rparr>;
        new_state = st\<lparr>st_queued_turn := Some turn, st_queued_user_text := Some text,
                       st_commands := dict_put (st_commands st) (cmd_id cmd) cmd\<rparr>;
        executable_command_id =
          (case turn_command_id turn of Some c \<Rightarrow> c | None \<Rightarrow> cmd_id cmd);
        event_command_id =
          (if cmd_status cmd = CMD_COALESCED then executable_command_id else cmd_id cmd);
        (appended, events) = append_events u' new_state now
          [TurnEvent (TurnQueued (turn_id turn) event_command_id text coalesced)]
      in \<lparr>tr_state = recompute_status appended now, tr_events = events, tr_command = Some cmd\<rparr>)"

section \<open>Steering\<close>

text \<open>
  \<open>apply_steer\<close> after the command is known: steer the active turn, or fall back to the queue when
  there is none, when the harness cannot steer, or when the native steer failed.
\<close>

definition steer_with_command ::
  "uuid_supply \<Rightarrow> conversation_state \<Rightarrow> string \<Rightarrow> datetime \<Rightarrow> command \<Rightarrow> bool \<Rightarrow> transition_result" where
  "steer_with_command u st prompt now command steer_succeeded =
     (case st_active_turn st of
        None \<Rightarrow> queue_prompt u st prompt command now
      | Some active \<Rightarrow>
          if turn_status active \<notin> {TURN_RUNNING, TURN_WAITING} then
            queue_prompt u st prompt command now
          else if \<not> supports_steer st \<or> \<not> steer_succeeded then
            queue_prompt u st prompt
              (command\<lparr>cmd_kind := SUBMIT_TURN, cmd_payload := SubmitTurnPayload prompt None\<rparr>) now
          else
            let cmd = command\<lparr>cmd_kind := STEER, cmd_target_turn_id := Some (turn_id active),
                        cmd_payload := SteerPayload prompt\<rparr>;
                new_state = with_commands st (dict_put (st_commands st) (cmd_id cmd) cmd)
            in result_of (append_events u new_state now
                 [TurnEvent (TurnSteering (turn_id active) (cmd_id cmd) prompt)]) (Some cmd))"

definition apply_steer ::
  "uuid_supply \<Rightarrow> conversation_state \<Rightarrow> string \<Rightarrow> string \<Rightarrow> datetime \<Rightarrow> command option \<Rightarrow> bool
     \<Rightarrow> transition_result" where
  "apply_steer u st prompt idempotency_key now command steer_succeeded =
     (case command of
        Some c \<Rightarrow> steer_with_command u st prompt now c steer_succeeded
      | None \<Rightarrow>
          (case find_command_by_idempotency st idempotency_key of
             Some existing \<Rightarrow> result_of (st, []) (Some existing)
           | None \<Rightarrow>
               let c = accepted_command (u 0) (conv_id (st_conversation st)) (SteerPayload prompt)
                         idempotency_key (map_option turn_id (st_active_turn st)) now
               in steer_with_command (drop_supply 1 u)
                    (with_commands st (dict_put (st_commands st) (cmd_id c) c))
                    prompt now c steer_succeeded))"

section \<open>Submitting\<close>

definition submit_turn ::
  "uuid_supply \<Rightarrow> conversation_state \<Rightarrow> string \<Rightarrow> string \<Rightarrow> datetime \<Rightarrow> string option
     \<Rightarrow> uuid option \<Rightarrow> transition_result" where
  "submit_turn u st prompt idempotency_key now model command_id =
     (case find_command_by_idempotency st idempotency_key of
        Some existing \<Rightarrow> result_of (st, []) (Some existing)
      | None \<Rightarrow>
          (let (cid, u') = (case command_id of Some c \<Rightarrow> (c, u) | None \<Rightarrow> (u 0, drop_supply 1 u));
               command = accepted_command cid (conv_id (st_conversation st))
                 (SubmitTurnPayload prompt model) idempotency_key None now;
               st' = with_commands st (dict_put (st_commands st) (cmd_id command) command)
           in if turn_running_or_waiting (st_active_turn st') then
                (if supports_steer st' then
                   apply_steer u' st' prompt idempotency_key now (Some command) True
                 else queue_prompt u' st' prompt command now)
              else if conv_status (st_conversation st') = CONV_BACKGROUND_ACTIVE then
                (if supports_steer st' \<and> st_active_turn st' \<noteq> None then
                   apply_steer u' st' prompt idempotency_key now (Some command) True
                 else queue_prompt u' st' prompt command now)
              else queue_prompt u' st' prompt command now))"

section \<open>The queued prompt\<close>

definition edit_queued_prompt ::
  "uuid_supply \<Rightarrow> conversation_state \<Rightarrow> string \<Rightarrow> datetime \<Rightarrow> transition_result result" where
  "edit_queued_prompt u st prompt now =
     (case (st_queued_turn st, st_queued_user_text st) of
        (Some turn, Some _) \<Rightarrow>
          if turn_status turn \<noteq> TURN_QUEUED then
            raise_domain QUEUED_PROMPT_NOT_EDITABLE ''queued prompt is not editable''
          else
            let (command_id, u') =
                  (case turn_command_id turn of Some c \<Rightarrow> (c, u) | None \<Rightarrow> (u 0, drop_supply 1 u))
            in Inr (result_of (append_events u' (st\<lparr>st_queued_user_text := Some prompt\<rparr>) now
                 [TurnEvent (TurnQueued (turn_id turn) command_id prompt False)]) None)
      | _ \<Rightarrow> raise_domain NO_QUEUED_PROMPT ''no queued prompt to edit'')"

text \<open>
  The update of the turn's command that the turn-ending transitions share: the command named by the
  turn, when the table has it, is replaced under its own id.
\<close>

definition update_turn_command ::
  "(uuid, command) dict \<Rightarrow> turn \<Rightarrow> (command \<Rightarrow> command) \<Rightarrow> (uuid, command) dict" where
  "update_turn_command commands turn f =
     (case turn_command_id turn of
        None \<Rightarrow> commands
      | Some c \<Rightarrow>
          (case dict_get commands c of
             None \<Rightarrow> commands
           | Some cmd \<Rightarrow> dict_put commands (cmd_id cmd) (f cmd)))"

definition settle_command :: "datetime \<Rightarrow> command \<Rightarrow> command" where
  "settle_command ts cmd = cmd\<lparr>cmd_status := CMD_SETTLED, cmd_settled_at := Some ts\<rparr>"

definition cancel_queued_prompt ::
  "uuid_supply \<Rightarrow> conversation_state \<Rightarrow> datetime \<Rightarrow> transition_result result" where
  "cancel_queued_prompt u st now =
     (case st_queued_turn st of
        None \<Rightarrow> raise_domain NO_QUEUED_PROMPT ''no queued prompt to cancel''
      | Some turn \<Rightarrow>
          if turn_status turn \<noteq> TURN_QUEUED then
            raise_domain QUEUED_PROMPT_NOT_EDITABLE ''queued prompt cannot be cancelled''
          else
            let new_state = st\<lparr>st_queued_turn := None, st_queued_user_text := None,
                  st_commands := update_turn_command (st_commands st) turn (settle_command now)\<rparr>;
                (appended, events) = append_events u new_state now
                  [TurnEvent (TurnCancelled (turn_id turn))]
            in Inr (result_of (recompute_status appended now, events) None))"

section \<open>Starting\<close>

definition start_turn ::
  "uuid_supply \<Rightarrow> conversation_state \<Rightarrow> datetime \<Rightarrow> transition_result result" where
  "start_turn u st now =
     (if turn_running_or_waiting (st_active_turn st) then
        raise_domain CONVERSATION_BUSY ''conversation already has an active turn''
      else case st_queued_turn st of
        None \<Rightarrow> raise_domain NO_QUEUED_PROMPT ''no queued turn to start''
      | Some queued \<Rightarrow>
          let turn = queued\<lparr>turn_status := TURN_RUNNING, turn_started_at := Some now\<rparr>;
              commands = update_turn_command (st_commands st) turn (\<lambda>cmd. cmd\<lparr>
                cmd_status := CMD_DELIVERY_STARTED, cmd_delivery_started_at := Some now,
                cmd_target_turn_id := Some (turn_id turn)\<rparr>);
              new_state = st\<lparr>st_active_turn := Some turn, st_queued_turn := None,
                st_queued_user_text := None, st_commands := commands,
                st_conversation := (st_conversation st)\<lparr>conv_active_turn_id := Some (turn_id turn),
                  conv_status := CONV_RUNNING, conv_updated_at := now\<rparr>,
                st_idle_reap_eligible := False\<rparr>
          in Inr (result_of (append_events u new_state now
               [TurnEvent (TurnStarted (turn_id turn) (turn_command_id turn))]) None))"

section \<open>Ending the active turn\<close>

text \<open>
  The common tail of \<open>complete_turn\<close>, \<open>interrupt_turn\<close>, \<open>fail_turn\<close> (of the active turn) and
  \<open>mark_outcome_unknown\<close>: cancel the open interactions, close the turn, update its command, clear
  the active turn, append the terminal event after the cancellations and recompute the status.
  The closed copy of the turn leaves the aggregate with it, so only its identifiers reach the event;
  \<open>on_command\<close> is the update of its command.
\<close>

definition end_active_turn ::
  "uuid_supply \<Rightarrow> conversation_state \<Rightarrow> datetime \<Rightarrow> (command \<Rightarrow> command) \<Rightarrow> (turn \<Rightarrow> turn_payload)
     \<Rightarrow> transition_result" where
  "end_active_turn u st now on_command terminal =
     (let (cancelled, prefix) = cancel_open_interactions u st now in
      case st_active_turn cancelled of
        None \<Rightarrow> result_of (cancelled, prefix) None
      | Some turn \<Rightarrow>
          let new_state = cancelled\<lparr>st_active_turn := None,
                st_commands := update_turn_command (st_commands cancelled) turn on_command,
                st_conversation := (st_conversation cancelled)\<lparr>
                  conv_active_turn_id := None, conv_updated_at := now\<rparr>\<rparr>;
              (appended, events) = append_events (drop_supply (length prefix) u) new_state now
                [TurnEvent (terminal turn)]
          in result_of (recompute_status appended now, prefix @ events) None)"

definition complete_turn ::
  "uuid_supply \<Rightarrow> conversation_state \<Rightarrow> datetime \<Rightarrow> string option \<Rightarrow> bool \<Rightarrow> transition_result result" where
  "complete_turn u st now terminal_reason has_assistant_message =
     (case st_active_turn st of
        None \<Rightarrow> raise_domain NO_ACTIVE_TURN ''no active turn to complete''
      | Some active \<Rightarrow>
          if turn_status active \<notin> {TURN_RUNNING, TURN_WAITING} then
            raise_domain INVALID_STATE
              (''cannot complete turn in status '' @ turn_status_value (turn_status active))
          else Inr (end_active_turn u st now (settle_command now)
            (\<lambda>turn. TurnCompleted (turn_id turn) terminal_reason has_assistant_message)))"

definition interrupt_turn ::
  "uuid_supply \<Rightarrow> conversation_state \<Rightarrow> datetime \<Rightarrow> string option \<Rightarrow> transition_result result" where
  "interrupt_turn u st now reason =
     (case st_active_turn st of
        None \<Rightarrow> raise_domain NO_ACTIVE_TURN ''no active turn to interrupt''
      | Some active \<Rightarrow>
          if turn_status active \<notin> {TURN_RUNNING, TURN_WAITING} then
            raise_domain INVALID_STATE
              (''cannot interrupt turn in status '' @ turn_status_value (turn_status active))
          else Inr (end_active_turn u st now (settle_command now)
            (\<lambda>turn. TurnInterrupted (turn_id turn) reason)))"

definition fail_turn ::
  "uuid_supply \<Rightarrow> conversation_state \<Rightarrow> datetime \<Rightarrow> string \<Rightarrow> string \<Rightarrow> uuid option
     \<Rightarrow> transition_result result" where
  "fail_turn u st now error_code message tid =
     (case st_queued_turn st of
        Some queued \<Rightarrow>
          if Some (turn_id queued) = tid then
            (let new_state = st\<lparr>st_queued_turn := None, st_queued_user_text := None,
                   st_commands := update_turn_command (st_commands st) queued (settle_command now)\<rparr>;
                 (appended, events) = append_events u new_state now
                   [TurnEvent (TurnFailed (turn_id queued) error_code message)]
             in Inr (result_of (recompute_status appended now, events) None))
          else (case st_active_turn st of
            None \<Rightarrow> raise_domain NO_ACTIVE_TURN ''no matching turn to fail''
          | Some active \<Rightarrow>
              if tid \<noteq> None \<and> tid \<noteq> Some (turn_id active) then
                raise_domain NO_ACTIVE_TURN ''no matching turn to fail''
              else Inr (end_active_turn u st now (settle_command now)
                (\<lambda>turn. TurnFailed (turn_id turn) error_code message)))
      | None \<Rightarrow> (case st_active_turn st of
            None \<Rightarrow> raise_domain NO_ACTIVE_TURN ''no matching turn to fail''
          | Some active \<Rightarrow>
              if tid \<noteq> None \<and> tid \<noteq> Some (turn_id active) then
                raise_domain NO_ACTIVE_TURN ''no matching turn to fail''
              else Inr (end_active_turn u st now (settle_command now)
                (\<lambda>turn. TurnFailed (turn_id turn) error_code message))))"

definition mark_outcome_unknown ::
  "uuid_supply \<Rightarrow> conversation_state \<Rightarrow> datetime \<Rightarrow> string option \<Rightarrow> string option
     \<Rightarrow> transition_result result" where
  "mark_outcome_unknown u st now delivery_phase message =
     (case st_active_turn st of
        None \<Rightarrow> raise_domain NO_ACTIVE_TURN ''no active turn for outcome_unknown''
      | Some active \<Rightarrow>
          Inr (end_active_turn u st now
            (\<lambda>cmd. cmd\<lparr>cmd_status := CMD_OUTCOME_UNKNOWN\<rparr>)
            (\<lambda>turn. TurnOutcomeUnknown (turn_id turn) (turn_command_id turn) delivery_phase message)))"

section \<open>Background activities\<close>

definition register_activity ::
  "uuid_supply \<Rightarrow> conversation_state \<Rightarrow> uuid \<Rightarrow> datetime \<Rightarrow> string option \<Rightarrow> uuid option
     \<Rightarrow> uuid option \<Rightarrow> transition_result" where
  "register_activity u st parent_turn_id now title parent_activity_id activity_id =
     (let (aid, u') = (case activity_id of Some a \<Rightarrow> (a, u) | None \<Rightarrow> (u 0, drop_supply 1 u));
          activity = \<lparr>act_id = aid, act_conversation_id = conv_id (st_conversation st),
            act_parent_turn_id = parent_turn_id, act_parent_activity_id = parent_activity_id,
            act_status = ACT_RUNNING, act_title = title, act_summary = None,
            act_created_at = now, act_completed_at = None\<rparr>;
          new_state = st\<lparr>st_activities := dict_put (st_activities st) aid activity,
                         st_idle_reap_eligible := False\<rparr>;
          (appended, events) = append_events u' new_state now
            [NoticeEvent (ActivityStarted aid parent_turn_id parent_activity_id title)]
      in result_of (recompute_status appended now, events) None)"

definition complete_activity ::
  "uuid_supply \<Rightarrow> conversation_state \<Rightarrow> uuid \<Rightarrow> datetime \<Rightarrow> activity_status \<Rightarrow> string option
     \<Rightarrow> transition_result result" where
  "complete_activity u st activity_id now status summary =
     (case dict_get (st_activities st) activity_id of
        None \<Rightarrow> raise_domain INVALID_STATE (''unknown activity '' @ uuid_str activity_id)
      | Some existing \<Rightarrow>
          if status = ACT_RUNNING then
            raise_domain INVALID_STATE ''activity completion status cannot be running''
          else
            let activity = existing\<lparr>act_status := status, act_completed_at := Some now,
                  act_summary := summary\<rparr>;
                new_state = st\<lparr>st_activities := dict_put (st_activities st) activity_id activity\<rparr>;
                (appended, events) = append_events u new_state now
                  [NoticeEvent (ActivityCompleted activity_id (act_parent_turn_id activity)
                     status summary)]
            in Inr (result_of (recompute_status appended now, events) None))"

fun fail_each_activity ::
  "uuid_supply \<Rightarrow> conversation_state \<Rightarrow> uuid list \<Rightarrow> datetime \<Rightarrow> string
     \<Rightarrow> (conversation_state \<times> conversation_event list) result" where
  "fail_each_activity u st [] now summary = Inr (st, [])"
| "fail_each_activity u st (a # rest) now summary =
     bind_result (complete_activity u st a now ACT_FAILED (Some summary)) (\<lambda>r.
       bind_result (fail_each_activity (drop_supply (length (tr_events r)) u) (tr_state r)
                      rest now summary) (\<lambda>(final, more).
         Inr (final, tr_events r @ more)))"

definition fail_running_activities ::
  "uuid_supply \<Rightarrow> conversation_state \<Rightarrow> datetime \<Rightarrow> string \<Rightarrow> transition_result result" where
  "fail_running_activities u st now summary =
     bind_result (fail_each_activity u st (map act_id (running_activities st)) now summary)
       (\<lambda>p. Inr (result_of p None))"

end
