(* ===== verification/Metadata_Transitions.thy ===== *)
theory Metadata_Transitions
  imports Conversation_State
begin

text \<open>
  The metadata half of \<open>src/talktoharnesses/domain/transitions.py\<close>: archive, pin, snooze, soft
  delete and the retention exemption. Every operation refuses a deleted conversation first, then,
  where losing work is possible, a busy one.
\<close>

section \<open>Guards and the shared tail\<close>

definition metadata_busy :: "conversation_state \<Rightarrow> bool" where
  "metadata_busy st \<longleftrightarrow>
     (case st_active_turn st of
        Some t \<Rightarrow> turn_status t \<in> {TURN_RUNNING, TURN_WAITING, TURN_QUEUED}
      | None \<Rightarrow> False)
     \<or> st_queued_turn st \<noteq> None \<or> running_activities st \<noteq> []"

definition metadata_event :: "conversation \<Rightarrow> event_payload" where
  "metadata_event c = NoticeEvent (ConversationMetadataChanged (conv_archived_at c)
     (conv_pinned_at c) (conv_snoozed_until c) (conv_deleted_at c))"

definition apply_metadata ::
  "uuid_supply \<Rightarrow> conversation_state \<Rightarrow> datetime \<Rightarrow> (conversation \<Rightarrow> conversation)
     \<Rightarrow> transition_result" where
  "apply_metadata u st now changes =
     (let new_state = replace_conversation (\<lambda>c. (changes c)\<lparr>conv_updated_at := now\<rparr>) st
      in result_of (append_events u new_state now
           [metadata_event (st_conversation new_state)]) None)"

definition require_not_deleted ::
  "conversation_state \<Rightarrow> transition_result result \<Rightarrow> transition_result result" where
  "require_not_deleted st r =
     (if conv_deleted_at (st_conversation st) \<noteq> None then
        raise_domain NOT_FOUND ''conversation not found''
      else r)"

section \<open>Operations\<close>

definition archive_conversation ::
  "uuid_supply \<Rightarrow> conversation_state \<Rightarrow> datetime \<Rightarrow> transition_result result" where
  "archive_conversation u st now = require_not_deleted st
     (if metadata_busy st then raise_domain CONVERSATION_BUSY ''conversation is busy''
      else Inr (apply_metadata u st now
        (\<lambda>c. c\<lparr>conv_archived_at := Some now, conv_status := CONV_ARCHIVED\<rparr>)))"

definition unarchive_conversation ::
  "uuid_supply \<Rightarrow> conversation_state \<Rightarrow> datetime \<Rightarrow> transition_result result" where
  "unarchive_conversation u st now = require_not_deleted st
     (let new_state =
        (if conv_status (st_conversation st) = CONV_ARCHIVED then
           recompute_status (replace_conversation
             (\<lambda>c. c\<lparr>conv_archived_at := None, conv_status := CONV_IDLE\<rparr>) st) now
         else replace_conversation (\<lambda>c. c\<lparr>conv_archived_at := None\<rparr>) st);
          new_state = replace_conversation (\<lambda>c. c\<lparr>conv_updated_at := now\<rparr>) new_state
      in Inr (result_of (append_events u new_state now
           [metadata_event (st_conversation new_state)]) None))"

definition pin_conversation ::
  "uuid_supply \<Rightarrow> conversation_state \<Rightarrow> datetime \<Rightarrow> transition_result result" where
  "pin_conversation u st now = require_not_deleted st
     (Inr (apply_metadata u st now (\<lambda>c. c\<lparr>conv_pinned_at := Some now\<rparr>)))"

definition unpin_conversation ::
  "uuid_supply \<Rightarrow> conversation_state \<Rightarrow> datetime \<Rightarrow> transition_result result" where
  "unpin_conversation u st now = require_not_deleted st
     (Inr (apply_metadata u st now (\<lambda>c. c\<lparr>conv_pinned_at := None\<rparr>)))"

definition snooze_conversation ::
  "uuid_supply \<Rightarrow> conversation_state \<Rightarrow> datetime \<Rightarrow> datetime \<Rightarrow> transition_result result" where
  "snooze_conversation u st now until = require_not_deleted st
     (Inr (apply_metadata u st now (\<lambda>c. c\<lparr>conv_snoozed_until := Some until\<rparr>)))"

definition unsnooze_conversation ::
  "uuid_supply \<Rightarrow> conversation_state \<Rightarrow> datetime \<Rightarrow> transition_result result" where
  "unsnooze_conversation u st now = require_not_deleted st
     (Inr (apply_metadata u st now (\<lambda>c. c\<lparr>conv_snoozed_until := None\<rparr>)))"

definition soft_delete_conversation ::
  "uuid_supply \<Rightarrow> conversation_state \<Rightarrow> datetime \<Rightarrow> transition_result result" where
  "soft_delete_conversation u st now = require_not_deleted st
     (if metadata_busy st \<or> switch_in_flight st then
        raise_domain CONVERSATION_BUSY ''conversation is busy''
      else Inr (apply_metadata u st now (\<lambda>c. c\<lparr>conv_deleted_at := Some now\<rparr>)))"

definition set_retention_exemption ::
  "uuid_supply \<Rightarrow> conversation_state \<Rightarrow> datetime \<Rightarrow> bool \<Rightarrow> transition_result result" where
  "set_retention_exemption u st now exempt = require_not_deleted st
     (let new_state = replace_conversation
        (\<lambda>c. c\<lparr>conv_retention_exempt := exempt, conv_updated_at := now\<rparr>) st
      in Inr (result_of (append_events u new_state now
           [NoticeEvent (RetentionExemptionChanged exempt)]) None))"

lemmas metadata_defs = archive_conversation_def unarchive_conversation_def pin_conversation_def
  unpin_conversation_def snooze_conversation_def unsnooze_conversation_def
  soft_delete_conversation_def set_retention_exemption_def require_not_deleted_def
  apply_metadata_def

end
