(* ===== verification/Session_Transitions.thy ===== *)
theory Session_Transitions
  imports Conversation_State
begin

text \<open>
  The session half of \<open>src/talktoharnesses/domain/transitions.py\<close>: the binding of a conversation to
  a harness, its native session and its launch snapshot, mode changes, harness switches, native
  titles, replay deduplication and the factory of an idle aggregate.
\<close>

section \<open>Sessions\<close>

text \<open>Appending the one event of a session operation, with no command.\<close>

definition emit_event ::
  "uuid_supply \<Rightarrow> conversation_state \<Rightarrow> datetime \<Rightarrow> event_payload \<Rightarrow> transition_result" where
  "emit_event u st now payload = result_of (append_events u st now [payload]) None"

definition change_mode ::
  "conversation_state \<Rightarrow> string \<Rightarrow> datetime \<Rightarrow> transition_result result" where
  "change_mode st mode now =
     (if turn_running_or_waiting (st_active_turn st) then
        raise_domain MODE_CHANGE_WHILE_ACTIVE ''cannot change mode while a turn is active''
      else case st_binding st of
        None \<Rightarrow> raise_domain INVALID_STATE ''no active binding to change mode''
      | Some b \<Rightarrow>
          let config = (bind_configuration b)\<lparr>cfg_mode := Some mode\<rparr>
          in Inr (result_of (st\<lparr>st_binding := Some (b\<lparr>bind_configuration := config\<rparr>),
               st_conversation := (st_conversation st)\<lparr>conv_updated_at := now\<rparr>\<rparr>, []) None))"

text \<open>The binding after a session started or resumed.\<close>

definition record_session ::
  "binding \<Rightarrow> string option \<Rightarrow> launch_snapshot \<Rightarrow> binding" where
  "record_session b native_session_id launch =
     b\<lparr>bind_native_session_id := native_session_id, bind_launch_snapshot := Some launch,
       bind_requires_session_recreation := False\<rparr>"

definition start_session ::
  "uuid_supply \<Rightarrow> conversation_state \<Rightarrow> datetime \<Rightarrow> string option \<Rightarrow> launch_snapshot
     \<Rightarrow> transition_result result" where
  "start_session u st now native_session_id launch =
     (case st_binding st of
        None \<Rightarrow> raise_domain INVALID_STATE ''no binding for session start''
      | Some b \<Rightarrow>
          Inr (emit_event u (st\<lparr>st_binding := Some (record_session b native_session_id launch)\<rparr>) now
            (SessionEvent (SessionStarted (bind_id b) native_session_id (bind_kind b)
               (launch_model launch) (launch_mode launch) (launch_effort launch)))))"

definition resume_session ::
  "uuid_supply \<Rightarrow> conversation_state \<Rightarrow> datetime \<Rightarrow> string \<Rightarrow> launch_snapshot
     \<Rightarrow> transition_result result" where
  "resume_session u st now native_session_id launch =
     (case st_binding st of
        None \<Rightarrow> raise_domain INVALID_STATE ''no binding for session resume''
      | Some b \<Rightarrow>
          Inr (emit_event u
            (st\<lparr>st_binding := Some (record_session b (Some native_session_id) launch)\<rparr>) now
            (SessionEvent (SessionResumed (bind_id b) (Some native_session_id) (bind_kind b)))))"

definition close_session ::
  "uuid_supply \<Rightarrow> conversation_state \<Rightarrow> datetime \<Rightarrow> string option \<Rightarrow> transition_result result" where
  "close_session u st now reason =
     (case st_binding st of
        None \<Rightarrow> raise_domain INVALID_STATE ''no binding to close''
      | Some b \<Rightarrow> Inr (emit_event u st now (SessionEvent (SessionClosed (bind_id b) reason))))"

definition fail_session ::
  "uuid_supply \<Rightarrow> conversation_state \<Rightarrow> datetime \<Rightarrow> string \<Rightarrow> string \<Rightarrow> transition_result result" where
  "fail_session u st now error_code message =
     (case st_binding st of
        None \<Rightarrow> raise_domain INVALID_STATE ''no binding for session failure''
      | Some b \<Rightarrow>
          Inr (emit_event u st now
            (SessionEvent (SessionFailed (Some (bind_id b)) error_code message))))"

definition reap_session ::
  "uuid_supply \<Rightarrow> conversation_state \<Rightarrow> datetime \<Rightarrow> string option \<Rightarrow> transition_result result" where
  "reap_session u st now reason =
     (if \<not> st_idle_reap_eligible st then
        raise_domain INVALID_STATE ''session is not eligible for idle reaping''
      else case st_binding st of
        None \<Rightarrow> raise_domain INVALID_STATE ''no binding to reap''
      | Some b \<Rightarrow> Inr (emit_event u st now (SessionEvent (SessionReaped (bind_id b) reason))))"

definition rotate_session ::
  "uuid_supply \<Rightarrow> conversation_state \<Rightarrow> datetime \<Rightarrow> string option \<Rightarrow> transition_result result" where
  "rotate_session u st now reason =
     (case st_binding st of
        None \<Rightarrow> raise_domain INVALID_STATE ''no binding to rotate''
      | Some b \<Rightarrow>
          if st_active_turn st \<noteq> None then
            raise_domain CONVERSATION_BUSY ''cannot rotate while turn is active''
          else
            let new_state = st\<lparr>
                  st_binding := Some (b\<lparr>bind_native_session_id := None,
                                        bind_requires_session_recreation := True\<rparr>),
                  st_seen_native_ids := {}, st_seen_stream_offsets := {}\<rparr>
            in Inr (emit_event u new_state now (SessionEvent (SessionRotated (bind_id b) reason))))"

definition mark_requires_recreation ::
  "conversation_state \<Rightarrow> datetime \<Rightarrow> transition_result result" where
  "mark_requires_recreation st now =
     (case st_binding st of
        None \<Rightarrow> raise_domain INVALID_STATE ''no binding to mark''
      | Some b \<Rightarrow>
          Inr (result_of (st\<lparr>
            st_binding := Some (b\<lparr>bind_requires_session_recreation := True\<rparr>),
            st_conversation := (st_conversation st)\<lparr>conv_updated_at := now\<rparr>\<rparr>, []) None))"

section \<open>Switching the harness\<close>

text \<open>The closed copy of the previous binding reaches the event by its identifier only.\<close>

definition commit_switch ::
  "uuid_supply \<Rightarrow> conversation_state \<Rightarrow> binding \<Rightarrow> datetime \<Rightarrow> transition_result result" where
  "commit_switch u st new_binding now =
     (if st_active_turn st \<noteq> None then
        raise_domain CONVERSATION_BUSY ''cannot switch while turn is active''
      else case st_binding st of
        None \<Rightarrow> raise_domain INVALID_STATE ''no current binding to switch from''
      | Some current \<Rightarrow>
          let previous = current\<lparr>bind_is_active := False, bind_closed_at := Some now\<rparr>;
              active = new_binding\<lparr>bind_is_active := True\<rparr>;
              new_state = st\<lparr>st_binding := Some active,
                st_conversation := (st_conversation st)\<lparr>
                  conv_current_binding_id := Some (bind_id active), conv_updated_at := now\<rparr>\<rparr>
          in Inr (emit_event u new_state now
               (SessionEvent (HarnessSwitched (bind_id previous) (bind_id active)
                  (bind_configuration active)))))"

definition fail_switch ::
  "uuid_supply \<Rightarrow> conversation_state \<Rightarrow> datetime \<Rightarrow> string \<Rightarrow> string option
     \<Rightarrow> transition_result result" where
  "fail_switch u st now message error_code =
     (case st_binding st of
        None \<Rightarrow> raise_domain INVALID_STATE ''no binding for switch failure''
      | Some b \<Rightarrow>
          Inr (emit_event u st now
            (SessionEvent (HarnessSwitchFailed (bind_id b) message error_code))))"

section \<open>Titles, replay deduplication and the factory\<close>

definition apply_native_title ::
  "uuid_supply \<Rightarrow> conversation_state \<Rightarrow> string \<Rightarrow> datetime \<Rightarrow> transition_result" where
  "apply_native_title u st title_native now =
     emit_event u (st\<lparr>st_conversation := (st_conversation st)\<lparr>
         conv_title_native := Some title_native, conv_updated_at := now\<rparr>\<rparr>) now
       (NoticeEvent (ConversationTitleUpdated title_native))"

definition remember_native_ids ::
  "conversation_state \<Rightarrow> string list \<Rightarrow> string list \<Rightarrow> conversation_state" where
  "remember_native_ids st native_ids stream_offsets =
     (if native_ids = [] \<and> stream_offsets = [] then st
      else st\<lparr>st_seen_native_ids := st_seen_native_ids st \<union> set native_ids,
              st_seen_stream_offsets := st_seen_stream_offsets st \<union> set stream_offsets\<rparr>)"

definition new_conversation_state ::
  "uuid_supply \<Rightarrow> string \<Rightarrow> datetime \<Rightarrow> binding option \<Rightarrow> harness_capabilities option
     \<Rightarrow> uuid option \<Rightarrow> conversation_state" where
  "new_conversation_state u owner_id now b capabilities conversation_id =
     \<lparr>st_conversation = \<lparr>
        conv_id = (case conversation_id of Some c \<Rightarrow> c | None \<Rightarrow> u 0),
        conv_owner_id = owner_id, conv_status = CONV_IDLE, conv_title_manual = None,
        conv_title_native = None, conv_title_derived = None, conv_pinned_at = None,
        conv_archived_at = None, conv_snoozed_until = None, conv_deleted_at = None,
        conv_retention_exempt = False, conv_version = 0, conv_next_event_sequence = 1,
        conv_active_turn_id = None, conv_current_binding_id = map_option bind_id b,
        conv_created_at = now, conv_updated_at = now\<rparr>,
      st_binding = b, st_active_turn = None, st_queued_turn = None, st_queued_user_text = None,
      st_commands = [], st_interactions = [], st_answers = [], st_activities = [],
      st_capabilities = capabilities, st_idle_reap_eligible = True, st_seen_native_ids = {},
      st_seen_stream_offsets = {}, st_split_stream = None\<rparr>"

lemmas session_defs = change_mode_def start_session_def resume_session_def close_session_def
  fail_session_def reap_session_def rotate_session_def mark_requires_recreation_def
  commit_switch_def fail_switch_def apply_native_title_def emit_event_def record_session_def

end
