(* ===== verification/Conversation_Steps.thy ===== *)
theory Conversation_Steps
  imports Conversation_Invariant Turn_Transitions Metadata_Transitions Session_Transitions
begin

text \<open>
  Every operation of \<open>src/talktoharnesses/domain/transitions.py\<close> is a sound step of the aggregate:
  it keeps the well-formedness invariant, numbers its events without a gap, emits events that replay
  to the abstraction of its result, keeps idempotency keys and submitted answers.
\<close>

section \<open>Tables\<close>

lemma open_ids_iff:
  "distinct (dict_keys d) \<Longrightarrow> k \<in> open_ids d \<longleftrightarrow> (\<exists>x. dict_get d k = Some x \<and> inter_open x)"
  by (force simp: open_ids_def)

lemma open_ids_put:
  assumes "distinct (dict_keys d)"
  shows "open_ids (dict_put d k v) = (if inter_open v then insert k (open_ids d) else open_ids d - {k})"
  using assms by (auto simp: set_eq_iff open_ids_iff distinct_update dict_get_put)

lemma open_interactions_empty: "open_interactions st = [] \<longleftrightarrow> open_ids (st_interactions st) = {}"
  by (auto simp: open_interactions_def open_ids_def inter_open_def filter_empty_conv)

lemma wf_commands_put:
  assumes "wf_commands d" and "kind_matches_payload c"
    and "\<And>j c'. dict_get d j = Some c' \<Longrightarrow> cmd_idempotency_key c' = cmd_idempotency_key c \<Longrightarrow> j = k"
  shows "wf_commands (dict_put d k c)"
  using assms(1,2) assms(3) assms(3)[OF _ sym] unfolding wf_commands_def dict_get_put
  by (auto split: if_splits)

text \<open>An update of a command that keeps its identity.\<close>

definition keeps_identity :: "(command \<Rightarrow> command) \<Rightarrow> bool" where
  "keeps_identity f \<longleftrightarrow> (\<forall>c. cmd_id (f c) = cmd_id c \<and> cmd_kind (f c) = cmd_kind c
     \<and> cmd_payload (f c) = cmd_payload c \<and> cmd_idempotency_key (f c) = cmd_idempotency_key c)"

lemma update_turn_command_wf:
  assumes "keeps_identity f" and "wf_commands d" and "commands.keyed d" and "distinct (dict_keys d)"
  shows "wf_commands (update_turn_command d t f) \<and> commands.keyed (update_turn_command d t f)
     \<and> distinct (dict_keys (update_turn_command d t f)) \<and> commands_kept d (update_turn_command d t f)"
proof -
  have *: "wf_commands (dict_put d (cmd_id c) (f c)) \<and> commands.keyed (dict_put d (cmd_id c) (f c))
      \<and> commands_kept d (dict_put d (cmd_id c) (f c))" if "dict_get d k = Some c" for k c
  proof -
    have k: "cmd_id c = k"
      using assms(3) that by (rule commands.keyed_lookup)
    have "wf_commands (dict_put d (cmd_id c) (f c))"
      using assms(1,2) that k
      by (intro wf_commands_put) (auto simp: keeps_identity_def kind_matches_payload_def wf_commands_def)
    moreover have "commands.keyed (dict_put d (cmd_id c) (f c))"
      using commands.keyed_store_own [OF assms(3), of "f c"] assms(1) by (simp add: keeps_identity_def)
    moreover have "commands_kept d (dict_put d (cmd_id c) (f c))"
      using assms(1) that k by (intro commands_kept_put) (auto simp: keeps_identity_def)
    ultimately show ?thesis by blast
  qed
  show ?thesis
    using assms * by (auto simp: update_turn_command_def distinct_update split: option.splits)
qed

section \<open>Steps that leave turns, tables and interactions alone\<close>

lemma core_same:
  assumes "wf_state st"
    and "st_commands s = st_commands st" "st_interactions s = st_interactions st"
    and "st_answers s = st_answers st" "st_activities s = st_activities st"
    and "st_active_turn s = st_active_turn st" "st_queued_turn s = st_queued_turn st"
    and "st_queued_user_text s = st_queued_user_text st"
    and "conv_active_turn_id (st_conversation s) = conv_active_turn_id (st_conversation st)"
    and "conv_status (st_conversation s) = conv_status (st_conversation st) \<or> st_active_turn st = None"
    and "conv_next_event_sequence (st_conversation s) = conv_next_event_sequence (st_conversation st)"
    and "conv_id (st_conversation s) = conv_id (st_conversation st)"
    and "wf_binding s" and "replay_event (project st) p = Some (project st)"
  shows "core_step st [p] s"
proof -
  have "wf_tables s" "wf_interactions s" "wf_turns s" "project s = project st"
    using assms wf_tables_cong [of s st] wf_interactions_cong [of s st] wf_turns_cong [of s st]
      project_cong [of s st] by (auto simp: wf_state_def)
  with assms show ?thesis
    by (simp add: core_step_def replay_one wf_state_def)
qed

lemma core_conversation:
  assumes "wf_state st"
    and "conv_active_turn_id c = conv_active_turn_id (st_conversation st)"
    and "conv_status c = conv_status (st_conversation st) \<or> st_active_turn st = None"
    and "conv_next_event_sequence c = conv_next_event_sequence (st_conversation st)"
    and "conv_id c = conv_id (st_conversation st)"
    and "conv_current_binding_id c = conv_current_binding_id (st_conversation st)"
    and "replay_event (project st) p = Some (project st)"
  shows "core_step st [p] (st\<lparr>st_conversation := c\<rparr>)"
  by (rule core_same) (use assms in \<open>simp_all add: wf_binding_def wf_state_def\<close>)

lemma archived_consistent:
  "conv_status (st_conversation s) = CONV_ARCHIVED \<Longrightarrow> status_consistent s"
  by (simp add: status_consistent_def)

lemma consistent_conversation:
  "conv_status c = conv_status (st_conversation st) \<Longrightarrow>
     status_consistent (st\<lparr>st_conversation := c\<rparr>) = status_consistent st"
  by (rule status_consistent_cong) simp_all

section \<open>Metadata\<close>

lemma sound_apply_metadata:
  assumes "wf_state st"
    and "\<And>c. conv_active_turn_id (f c) = conv_active_turn_id c \<and> conv_id (f c) = conv_id c
       \<and> conv_next_event_sequence (f c) = conv_next_event_sequence c
       \<and> conv_current_binding_id (f c) = conv_current_binding_id c"
    and "(\<forall>c. conv_status (f c) = conv_status c)
       \<or> (\<forall>c. conv_status (f c) = CONV_ARCHIVED) \<and> st_active_turn st = None"
  shows "sound_step st (tr_events (apply_metadata u st now f)) (tr_state (apply_metadata u st now f))"
proof -
  let ?c = "(f (st_conversation st))\<lparr>conv_updated_at := now\<rparr>"
  let ?s = "st\<lparr>st_conversation := ?c\<rparr>"
  have "core_step st [metadata_event ?c] ?s"
    by (rule core_conversation [OF assms(1)]) (use assms in \<open>auto simp: metadata_event_def\<close>)
  moreover have "status_consistent ?s"
  proof (cases "\<forall>c. conv_status (f c) = conv_status c")
    case True
    then show ?thesis
      using assms(1) status_consistent_cong [of ?s st] by (simp add: wf_state_def)
  next
    case False
    with assms(3) show ?thesis by (intro archived_consistent) auto
  qed
  ultimately show ?thesis
    using sound_step_append [OF assms(1)]
    by (simp add: apply_metadata_def result_of_def replace_conversation_def Let_def)
qed

lemma require_not_deleted_Inr [result_simps]:
  "require_not_deleted st r = Inr x \<longleftrightarrow> conv_deleted_at (st_conversation st) = None \<and> r = Inr x"
  by (simp add: require_not_deleted_def)

lemma metadata_busy_active: "wf_state st \<Longrightarrow> \<not> metadata_busy st \<Longrightarrow> st_active_turn st = None"
  by (auto simp: metadata_busy_def wf_state_def wf_turns_def split: option.splits)

text \<open>The operations that are one guarded \<open>apply_metadata\<close>.\<close>

lemma sound_metadata:
  assumes "wf_state st"
    and "archive_conversation u st now = Inr r \<or> pin_conversation u st now = Inr r
       \<or> unpin_conversation u st now = Inr r \<or> snooze_conversation u st now until = Inr r
       \<or> unsnooze_conversation u st now = Inr r \<or> soft_delete_conversation u st now = Inr r"
  shows "sound_step st (tr_events r) (tr_state r)"
  using assms
  by (auto simp: archive_conversation_def pin_conversation_def unpin_conversation_def
      snooze_conversation_def unsnooze_conversation_def soft_delete_conversation_def result_simps
      metadata_busy_active intro!: sound_apply_metadata split: if_splits)

text \<open>A step that appends one event to an aggregate that differs from the old one harmlessly.\<close>

lemma sound_emit:
  assumes "wf_state st" and "core_step st [p] s" and "status_consistent s"
  shows "sound_step st (tr_events (emit_event u s now p)) (tr_state (emit_event u s now p))"
  using sound_step_append [OF assms, of u now] by (simp add: emit_event_def result_of_def)

lemma sound_set_retention_exemption:
  assumes "wf_state st" and "set_retention_exemption u st now exempt = Inr r"
  shows "sound_step st (tr_events r) (tr_state r)"
proof -
  let ?c = "(st_conversation st)\<lparr>conv_retention_exempt := exempt, conv_updated_at := now\<rparr>"
  let ?s = "st\<lparr>st_conversation := ?c\<rparr>"
  have "core_step st [NoticeEvent (RetentionExemptionChanged exempt)] ?s"
    by (rule core_conversation) (use assms in simp_all)
  moreover have "status_consistent ?s"
    using assms(1) status_consistent_cong [of ?s st] by (simp add: wf_state_def)
  ultimately show ?thesis
    using sound_step_append [OF assms(1)] assms(2)
    by (auto simp: set_retention_exemption_def result_simps replace_conversation_def result_of_def Let_def)
qed

lemma sound_unarchive:
  assumes "wf_state st" and "unarchive_conversation u st now = Inr r"
  shows "sound_step st (tr_events r) (tr_state r)"
proof -
  let ?bump = "replace_conversation (\<lambda>c. c\<lparr>conv_updated_at := now\<rparr>)"
  define a where "a = recompute_status (replace_conversation
      (\<lambda>c. c\<lparr>conv_archived_at := None, conv_status := CONV_IDLE\<rparr>) st) now"
  define b where "b = replace_conversation (\<lambda>c. c\<lparr>conv_archived_at := None\<rparr>) st"
  define s where "s = ?bump (if conv_status (st_conversation st) = CONV_ARCHIVED then a else b)"
  have active: "st_active_turn st = None" if "conv_status (st_conversation st) = CONV_ARCHIVED"
    using that assms(1) by (cases "st_active_turn st") (auto simp: wf_state_def wf_turns_def)
  have bump: "status_consistent (?bump x) = status_consistent x" for x
    by (rule status_consistent_cong) (simp_all add: replace_conversation_def)
  have "status_consistent a"
    by (simp add: a_def)
  moreover have "status_consistent b"
    using assms(1) status_consistent_cong [of b st]
    by (simp add: wf_state_def b_def replace_conversation_def)
  ultimately have "status_consistent s"
    by (simp add: s_def bump)
  moreover have "core_step st [metadata_event (st_conversation s)] s"
    by (rule core_same)
      (use assms(1) active in \<open>auto simp: s_def a_def b_def replace_conversation_def wf_binding_def
         wf_state_def metadata_event_def\<close>)
  moreover have "r = result_of (append_events u s now [metadata_event (st_conversation s)]) None"
    using assms(2) by (auto simp: unarchive_conversation_def result_simps s_def a_def b_def Let_def)
  ultimately show ?thesis
    using sound_step_append [OF assms(1)] by (simp add: result_of_def)
qed

section \<open>Sessions\<close>

lemma core_binding:
  assumes "wf_state st" and "map_option bind_id b = map_option bind_id (st_binding st)"
    and "replay_event (project st) p = Some (project st)"
  shows "core_step st [p] (st\<lparr>st_binding := b\<rparr>)"
  by (rule core_same) (use assms in \<open>simp_all add: wf_binding_def wf_state_def\<close>)

lemma consistent_binding [simp]: "status_consistent (st\<lparr>st_binding := b\<rparr>) = status_consistent st"
  by (rule status_consistent_cong) simp_all

lemma consistent_seen [simp]:
  "status_consistent (st\<lparr>st_seen_native_ids := x\<rparr>) = status_consistent st"
  "status_consistent (st\<lparr>st_seen_stream_offsets := x\<rparr>) = status_consistent st"
  by (rule status_consistent_cong; simp)+

lemma seen_frame:
  fixes s x y
  defines "s' \<equiv> s\<lparr>st_seen_native_ids := x, st_seen_stream_offsets := y\<rparr>"
  shows "wf_tables s' = wf_tables s" and "wf_turns s' = wf_turns s"
    and "wf_interactions s' = wf_interactions s" and "wf_binding s' = wf_binding s"
    and "status_consistent s' = status_consistent s" and "project s' = project s"
  unfolding s'_def
  by (rule wf_tables_cong wf_turns_cong wf_interactions_cong wf_binding_cong
      status_consistent_cong project_cong; simp)+

lemma core_seen:
  "core_step st ps s \<Longrightarrow>
     core_step st ps (s\<lparr>st_seen_native_ids := x, st_seen_stream_offsets := y\<rparr>)"
  by (simp add: core_step_def seen_frame)

lemma wf_state_status: "wf_state st \<Longrightarrow> status_consistent st"
  by (simp add: wf_state_def)

lemma core_unchanged:
  "wf_state st \<Longrightarrow> replay_event (project st) p = Some (project st) \<Longrightarrow> core_step st [p] st"
  by (rule core_same) (simp_all add: wf_state_def)

lemma sound_session:
  assumes "wf_state st"
    and "start_session u st now native launch = Inr r \<or> resume_session u st now native' launch = Inr r
       \<or> close_session u st now reason = Inr r \<or> fail_session u st now code message = Inr r
       \<or> reap_session u st now reason = Inr r \<or> rotate_session u st now reason = Inr r
       \<or> fail_switch u st now message code' = Inr r"
  shows "sound_step st (tr_events r) (tr_state r)"
  using assms
  by (auto simp: start_session_def resume_session_def close_session_def fail_session_def
      reap_session_def rotate_session_def fail_switch_def record_session_def result_simps
      wf_state_status intro!: sound_emit core_binding core_seen core_unchanged split: if_splits)

text \<open>The operations that emit no event and change the binding only.\<close>

lemma sound_silent_binding:
  assumes "wf_state st" and "map_option bind_id b = map_option bind_id (st_binding st)"
  shows "sound_step st [] (st\<lparr>st_binding := b, st_conversation := (st_conversation st)\<lparr>conv_updated_at := now\<rparr>\<rparr>)"
    (is "sound_step st [] ?s")
proof -
  have "wf_tables ?s = wf_tables st" "wf_turns ?s = wf_turns st"
    "wf_interactions ?s = wf_interactions st" "project ?s = project st"
    "status_consistent ?s = status_consistent st"
    by (rule wf_tables_cong wf_turns_cong wf_interactions_cong project_cong status_consistent_cong;
        simp)+
  with assms show ?thesis
    by (simp add: sound_step_def wf_state_def numbered_def wf_binding_def)
qed

lemma sound_change_mode:
  "wf_state st \<Longrightarrow> change_mode st mode now = Inr r \<Longrightarrow> sound_step st (tr_events r) (tr_state r)"
  by (auto simp: change_mode_def result_simps result_of_def intro!: sound_silent_binding
      split: if_splits)

lemma sound_mark_requires_recreation:
  "wf_state st \<Longrightarrow> mark_requires_recreation st now = Inr r \<Longrightarrow>
     sound_step st (tr_events r) (tr_state r)"
  by (auto simp: mark_requires_recreation_def result_simps result_of_def
      intro!: sound_silent_binding)

lemma sound_commit_switch:
  assumes "wf_state st" and "commit_switch u st b now = Inr r"
  shows "sound_step st (tr_events r) (tr_state r)"
proof -
  let ?a = "b\<lparr>bind_is_active := True\<rparr>"
  let ?s = "st\<lparr>st_binding := Some ?a, st_conversation := (st_conversation st)\<lparr>
    conv_current_binding_id := Some (bind_id ?a), conv_updated_at := now\<rparr>\<rparr>"
  have "core_step st [SessionEvent (HarnessSwitched i (bind_id ?a) (bind_configuration ?a))] ?s" for i
    by (rule core_same) (use assms(1) in \<open>simp_all add: wf_binding_def\<close>)
  moreover have "status_consistent ?s = status_consistent st"
    by (rule status_consistent_cong) simp_all
  ultimately show ?thesis
    using assms by (auto simp: commit_switch_def result_simps wf_state_status
        intro!: sound_emit split: if_splits)
qed

lemma sound_apply_native_title:
  assumes "wf_state st"
  shows "sound_step st (tr_events (apply_native_title u st t now)) (tr_state (apply_native_title u st t now))"
  unfolding apply_native_title_def
  by (rule sound_emit [OF assms core_conversation [OF assms]])
    (use assms in \<open>simp_all add: wf_state_status consistent_conversation\<close>)

lemma sound_remember_native_ids:
  assumes "wf_state st"
  shows "sound_step st [] (remember_native_ids st ids offsets)"
proof -
  have "sound_step st [] (st\<lparr>st_seen_native_ids := x, st_seen_stream_offsets := y\<rparr>)" for x y
    using assms by (simp add: sound_step_def wf_state_def numbered_def seen_frame)
  with assms show ?thesis
    by (simp add: remember_native_ids_def sound_step_refl)
qed

end
