(* ===== verification/Interaction_Steps.thy ===== *)
theory Interaction_Steps
  imports Conversation_Steps
begin

text \<open>
  The interaction operations are sound steps. Requesting, drafting, answering and cancelling all
  store one interaction of the active turn and set the turn's status from what is left open
  (\<open>core_interaction\<close>); cancelling every open interaction is a chain of such steps.
\<close>

section \<open>Storing one interaction of the active turn\<close>

text \<open>The aggregate \<open>s\<close> is \<open>st\<close> with interaction \<open>v\<close> stored under \<open>k\<close> and the turn \<open>t\<close> adjusted.\<close>

definition stores_interaction ::
  "conversation_state \<Rightarrow> turn \<Rightarrow> uuid \<Rightarrow> pending_interaction \<Rightarrow> conversation_state \<Rightarrow> bool" where
  "stores_interaction st t k v s \<longleftrightarrow>
     st_active_turn st = Some t \<and>
     st_interactions s = dict_put (st_interactions st) k v \<and> inter_id v = k \<and>
     inter_turn_id v = turn_id t \<and> inter_status v \<noteq> INT_SUBMITTED \<and>
     st_active_turn s = Some (t\<lparr>turn_status :=
       if open_ids (st_interactions s) = {} then TURN_RUNNING else TURN_WAITING\<rparr>) \<and>
     st_commands s = st_commands st \<and> st_activities s = st_activities st \<and>
     st_queued_turn s = st_queued_turn st \<and> st_queued_user_text s = st_queued_user_text st \<and>
     st_binding s = st_binding st \<and> \<not> st_idle_reap_eligible s \<and>
     conv_id (st_conversation s) = conv_id (st_conversation st) \<and>
     conv_next_event_sequence (st_conversation s) = conv_next_event_sequence (st_conversation st) \<and>
     conv_active_turn_id (st_conversation s) = conv_active_turn_id (st_conversation st) \<and>
     conv_current_binding_id (st_conversation s) = conv_current_binding_id (st_conversation st) \<and>
     conv_status (st_conversation s)
       = (if open_ids (st_interactions s) = {} then CONV_RUNNING else CONV_WAITING) \<and>
     \<not> answered st k \<and>
     (if inter_open v then st_answers s = st_answers st
      else \<exists>a. st_answers s = dict_put (st_answers st) k a \<and> ans_interaction_id a = k
             \<and> \<not> ans_is_draft a)"

lemma answered_put:
  "st_answers s = dict_put (st_answers st) k a \<Longrightarrow> \<not> ans_is_draft a \<Longrightarrow>
     answered s j \<longleftrightarrow> j = k \<or> answered st j"
  by (simp add: answered_def dict_get_put)

lemma stores_interaction_answers:
  assumes "stores_interaction st t k v s"
  shows "answered s j \<longleftrightarrow> (if j = k then \<not> inter_open v else answered st j)"
    and "answers_kept (st_answers st) (st_answers s)"
proof -
  show "answered s j \<longleftrightarrow> (if j = k then \<not> inter_open v else answered st j)"
    using assms answered_cong [of s st]
    by (auto simp: stores_interaction_def answered_put split: if_splits)
  show "answers_kept (st_answers st) (st_answers s)"
    using assms
    by (auto simp: stores_interaction_def answers_kept_def answered_def dict_get_put
        split: if_splits option.splits)
qed

lemma stores_interaction_wf:
  assumes wf: "wf_state st" and s: "stores_interaction st t k v s"
  shows "wf_interactions s"
proof -
  have keys: "distinct (dict_keys (st_interactions st))"
    using wf by (simp add: wf_state_def wf_tables_def)
  have old: "inter_status x \<noteq> INT_SUBMITTED \<and> (inter_open x \<longrightarrow> inter_turn_id x = turn_id t)"
    if "dict_get (st_interactions st) j = Some x" for j x
    using wf s that by (auto simp: wf_state_def wf_interactions_def stores_interaction_def)
  have "answered s j \<longleftrightarrow> (\<exists>x. dict_get (st_interactions s) j = Some x \<and> \<not> inter_open x)" for j
    using wf s stores_interaction_answers(1) [OF s, of j]
    by (auto simp: wf_state_def wf_interactions_def stores_interaction_def dict_get_put)
  then show ?thesis
    using s old by (auto simp: wf_interactions_def stores_interaction_def dict_get_put)
qed

lemma core_interaction:
  assumes wf: "wf_state st" and s: "stores_interaction st t k v s"
    and replay: "\<And>es. map ev_payload es = ps \<Longrightarrow> replay (project st) es =
       Some ((project st)\<lparr>lc_open := if inter_open v then insert k (lc_open (project st))
                                   else lc_open (project st) - {k}\<rparr>)"
  shows "core_step st ps s \<and> status_consistent s"
proof -
  have answer_keyed: "answers.keyed (dict_put d j a)"
    if "answers.keyed d" "ans_interaction_id a = j" for d j a
    using answers.keyed_store_own [OF that(1), of a] that(2) by simp
  have "wf_tables s"
    using wf s interactions.keyed_store_own [of "st_interactions st" v] answer_keyed
    by (auto simp: wf_state_def wf_tables_def stores_interaction_def distinct_update split: if_splits)
  moreover have "wf_turns s" "wf_binding s" "wf_commands (st_commands s)"
    using wf s by (auto simp: wf_state_def wf_turns_def wf_binding_def stores_interaction_def)
  moreover have "status_consistent s"
    using s by (simp add: status_consistent_def derived_status_def stores_interaction_def)
  moreover have "distinct (dict_keys (st_interactions st))"
    using wf by (simp add: wf_state_def wf_tables_def)
  then have "project s = (project st)\<lparr>lc_open := if inter_open v then insert k (lc_open (project st))
                                   else lc_open (project st) - {k}\<rparr>"
    using s by (simp add: project_def stores_interaction_def open_ids_put)
  moreover have "answers_kept (st_answers st) (st_answers s)"
    using s by (rule stores_interaction_answers)
  ultimately show ?thesis
    using s replay stores_interaction_wf [OF wf s] by (simp add: core_step_def stores_interaction_def)
qed

lemma sound_interaction:
  assumes "wf_state st" and "stores_interaction st t k v s"
    and "\<And>es. map ev_payload es = ps \<Longrightarrow> replay (project st) es =
       Some ((project st)\<lparr>lc_open := if inter_open v then insert k (lc_open (project st))
                                   else lc_open (project st) - {k}\<rparr>)"
    and "r = result_of (append_events u s now ps) c"
  shows "sound_step st (tr_events r) (tr_state r)"
  using core_interaction [OF assms(1-3)] sound_step_append [OF assms(1), of ps s u now] assms(4)
  by (simp add: result_of_def)

section \<open>What the invariant says of an open interaction\<close>

lemma open_interaction:
  assumes "wf_state st" and "dict_get (st_interactions st) k = Some x" and "inter_open x"
  obtains t where "st_active_turn st = Some t" and "turn_status t = TURN_WAITING"
    and "turn_id t = inter_turn_id x" and "inter_id x = k" and "\<not> answered st k"
    and "k \<in> open_ids (st_interactions st)" and "\<not> st_idle_reap_eligible st"
    and "conv_status (st_conversation st) = CONV_WAITING" and "open_ids (st_interactions st) \<noteq> {}"
proof -
  have parts: "wf_interactions st" "wf_tables st" "wf_turns st" "status_consistent st"
    using assms(1) by (simp_all add: wf_state_def)
  have i: "k \<in> open_ids (st_interactions st)"
    using assms(2,3) parts(2) by (auto simp: open_ids_iff wf_tables_def)
  obtain t where t: "st_active_turn st = Some t" "turn_id t = inter_turn_id x"
    using assms(2,3) parts(1) unfolding wf_interactions_def by (metis map_option_eq_Some)
  moreover have "turn_status t = TURN_WAITING"
    using parts(1) t(1) i unfolding wf_interactions_def by blast
  moreover have "inter_id x = k"
    using parts(2) assms(2) by (auto simp: wf_tables_def interactions.keyed_def)
  moreover have "\<not> answered st k"
    using parts(1) assms(2,3) unfolding wf_interactions_def by auto
  moreover have "\<not> st_idle_reap_eligible st \<and> conv_status (st_conversation st) = CONV_WAITING"
    using parts(3,4) t(1) \<open>turn_status t = TURN_WAITING\<close>
    by (simp add: status_consistent_def derived_status_def wf_turns_def)
  ultimately show thesis
    using that i by blast
qed

text \<open>Closing an open interaction resumes the turn exactly when nothing else is open.\<close>

lemma close_interaction:
  assumes wf: "wf_state st" and x: "dict_get (st_interactions st) k = Some x" "inter_open x"
    and v: "v = x\<lparr>inter_status := c\<rparr>" "c \<in> {INT_RESOLVED, INT_CANCELLED}"
    and a: "ans_interaction_id a = k" "\<not> ans_is_draft a"
    and t: "st_active_turn st = Some t"
  shows "stores_interaction st t k v (maybe_resume_after_interactions
     (st\<lparr>st_interactions := dict_put (st_interactions st) k v,
         st_answers := dict_put (st_answers st) k a\<rparr>) now)"
proof -
  obtain t' where t': "st_active_turn st = Some t'" "turn_status t' = TURN_WAITING"
    "turn_id t' = inter_turn_id x" "inter_id x = k" "\<not> answered st k"
    "\<not> st_idle_reap_eligible st" "conv_status (st_conversation st) = CONV_WAITING"
    using open_interaction [OF wf x] by metis
  have "\<not> inter_open v"
    using v by (auto simp: inter_open_def)
  with t' v a t show ?thesis
    by (auto simp: stores_interaction_def maybe_resume_after_interactions_def
        open_interactions_empty)
qed

section \<open>The interaction operations\<close>

lemma project_active: "st_active_turn st = Some t \<Longrightarrow> lc_active (project st) = Some (turn_id t)"
  by (simp add: project_def)

lemma project_open [simp]: "lc_open (project st) = open_ids (st_interactions st)"
  by (simp add: project_def)

lemma sound_request_interaction:
  assumes wf: "wf_state st" and r: "request_interaction u st i now = Inr r"
  shows "sound_step st (tr_events r) (tr_state r)"
proof (cases "dict_get (st_interactions st) (inter_id i)")
  case (Some x)
  with r have "r = result_of (st, []) None"
    by (auto simp: request_interaction_def result_simps split: if_splits)
  with wf show ?thesis
    by (simp add: result_of_def sound_step_refl)
next
  case None
  obtain t where t: "st_active_turn st = Some t" and i: "inter_turn_id i = turn_id t"
    using r None by (auto simp: request_interaction_def result_simps split: option.splits if_splits)
  let ?v = "i\<lparr>inter_status := INT_PENDING\<rparr>"
  let ?s = "st\<lparr>st_interactions := dict_put (st_interactions st) (inter_id i) ?v,
    st_active_turn := Some (t\<lparr>turn_status := TURN_WAITING\<rparr>),
    st_conversation := (st_conversation st)\<lparr>conv_status := CONV_WAITING, conv_updated_at := now\<rparr>,
    st_idle_reap_eligible := False\<rparr>"
  let ?ps = "[NoticeEvent (InteractionRequested (inter_turn_id i) (inter_id i) (inter_kind i)
       (inter_request i)), TurnEvent (TurnWaiting (turn_id t) (Some (inter_id i)))]"
  have keys: "distinct (dict_keys (st_interactions st))"
    using wf by (simp add: wf_state_def wf_tables_def)
  have "inter_open ?v"
    by (simp add: inter_open_def)
  moreover have "\<not> answered st (inter_id i)"
    using wf None unfolding wf_state_def wf_interactions_def by auto
  ultimately have "stores_interaction st t (inter_id i) ?v ?s"
    using t i keys by (simp add: stores_interaction_def open_ids_put)
  moreover have "replay (project st) es =
      Some ((project st)\<lparr>lc_open := insert (inter_id i) (lc_open (project st))\<rparr>)"
    if "map ev_payload es = ?ps" for es
    using None keys i that
    by (intro replay_two) (auto simp: project_active [OF t] open_ids_iff)
  moreover have "r = result_of (append_events u ?s now ?ps) None"
    using r None t by (auto simp: request_interaction_def result_simps Let_def split: if_splits)
  ultimately show ?thesis
    using \<open>inter_open ?v\<close> by (intro sound_interaction [OF wf]) auto
qed

lemma sound_update_interaction_draft:
  assumes wf: "wf_state st" and r: "update_interaction_draft u st k draft now = Inr r"
  shows "sound_step st (tr_events r) (tr_state r)"
proof -
  obtain x where x: "dict_get (st_interactions st) k = Some x" "inter_open x"
    using r by (auto simp: update_interaction_draft_def inter_open_def result_simps split: if_splits)
  obtain t where t: "st_active_turn st = Some t" "turn_status t = TURN_WAITING"
    "turn_id t = inter_turn_id x" "inter_id x = k" "\<not> answered st k"
    "\<not> st_idle_reap_eligible st" "conv_status (st_conversation st) = CONV_WAITING"
    "k \<in> open_ids (st_interactions st)"
    using open_interaction [OF wf x] by metis
  let ?v = "x\<lparr>inter_status := INT_DRAFT, inter_draft := Some draft\<rparr>"
  let ?s = "st\<lparr>st_interactions := dict_put (st_interactions st) k ?v\<rparr>"
  have "distinct (dict_keys (st_interactions st))"
    using wf by (simp add: wf_state_def wf_tables_def)
  then have "stores_interaction st t k ?v ?s"
    using t by (simp add: stores_interaction_def open_ids_put inter_open_def)
  moreover have "replay (project st) es = Some ((project st)\<lparr>lc_open := insert k (lc_open (project st))\<rparr>)"
    if "map ev_payload es = [NoticeEvent (InteractionDraftUpdated k draft)]" for es
    using that t(8) by (auto simp: map_eq_Cons_conv insert_absorb)
  moreover have "r = result_of (append_events u ?s now [NoticeEvent (InteractionDraftUpdated k draft)]) None"
    using r x by (auto simp: update_interaction_draft_def result_simps Let_def split: if_splits)
  ultimately show ?thesis
    by (intro sound_interaction [OF wf]) (auto simp: inter_open_def)
qed

text \<open>The common step of answering and cancelling.\<close>

lemma sound_close_interaction:
  assumes wf: "wf_state st" and x: "dict_get (st_interactions st) k = Some x" "inter_open x"
    and v: "c \<in> {INT_RESOLVED, INT_CANCELLED}"
    and a: "ans_interaction_id a = k" "\<not> ans_is_draft a"
    and s: "s = maybe_resume_after_interactions
      (st\<lparr>st_interactions := dict_put (st_interactions st) k (x\<lparr>inter_status := c\<rparr>),
          st_answers := dict_put (st_answers st) k a\<rparr>) now"
    and r: "r = append_events u s now
      [NoticeEvent (InteractionResolved k (inter_turn_id x) d ans automatic)]"
  shows "sound_step st (snd r) (fst r)"
    and "open_ids (st_interactions (fst r)) = open_ids (st_interactions st) - {k}"
    and "map_option (\<lambda>t. t\<lparr>turn_status := TURN_RUNNING\<rparr>) (st_active_turn (fst r))
       = map_option (\<lambda>t. t\<lparr>turn_status := TURN_RUNNING\<rparr>) (st_active_turn st)"
proof -
  obtain t where t: "st_active_turn st = Some t" "turn_id t = inter_turn_id x"
    "k \<in> open_ids (st_interactions st)"
    using open_interaction [OF wf x] by metis
  let ?v = "x\<lparr>inter_status := c\<rparr>"
  have st: "stores_interaction st t k ?v s"
    unfolding s using close_interaction [OF wf x refl v a t(1)] .
  have closed: "\<not> inter_open ?v"
    using v by (auto simp: inter_open_def)
  have "replay (project st) es = Some ((project st)\<lparr>lc_open := lc_open (project st) - {k}\<rparr>)"
    if "map ev_payload es = [NoticeEvent (InteractionResolved k (inter_turn_id x) d ans automatic)]"
    for es
    using that t by (auto simp: map_eq_Cons_conv project_active)
  then show "sound_step st (snd r) (fst r)"
    using sound_interaction [OF wf st _ refl, of _ u now None] closed
    by (simp add: r result_of_def)
  have "distinct (dict_keys (st_interactions st))"
    using wf by (simp add: wf_state_def wf_tables_def)
  then show "open_ids (st_interactions (fst r)) = open_ids (st_interactions st) - {k}"
    using st closed by (simp add: r stores_interaction_def open_ids_put)
  show "map_option (\<lambda>t. t\<lparr>turn_status := TURN_RUNNING\<rparr>) (st_active_turn (fst r))
       = map_option (\<lambda>t. t\<lparr>turn_status := TURN_RUNNING\<rparr>) (st_active_turn st)"
    using st by (simp add: r stores_interaction_def)
qed

lemma validate_interaction_answer_id:
  "validate_interaction_answer i a = Inr b \<Longrightarrow> ans_interaction_id b = ans_interaction_id a"
  by (cases "inter_request i") (auto simp: validate_interaction_answer_def result_simps
      split: interaction_kind.splits if_splits option.splits)

lemma swap_answer_update:
  "st\<lparr>st_answers := a, st_interactions := i\<rparr> = st\<lparr>st_interactions := i, st_answers := a\<rparr>"
  by simp

lemma sound_submit_interaction_answer:
  assumes wf: "wf_state st" and r: "submit_interaction_answer u st answer now automatic = Inr r"
  shows "sound_step st (tr_events r) (tr_state r)"
proof (cases "r = result_of (st, []) None")
  case True
  with wf show ?thesis
    by (simp add: result_of_def sound_step_refl)
next
  case False
  define k where "k = ans_interaction_id answer"
  obtain x where x: "dict_get (st_interactions st) k = Some x" "inter_open x"
    using r False unfolding k_def
    by (cases "dict_get (st_interactions st) (ans_interaction_id answer)")
      (auto simp: submit_interaction_answer_def inter_open_def Let_def result_simps
        split: if_splits intro: interaction_status.exhaust)
  obtain b where b: "validate_interaction_answer x answer = Inr b"
    and r': "r = result_of (append_events u (maybe_resume_after_interactions
        (st\<lparr>st_interactions := dict_put (st_interactions st) k (x\<lparr>inter_status := INT_RESOLVED\<rparr>),
            st_answers := dict_put (st_answers st) k (b\<lparr>ans_is_draft := False, ans_submitted_at := Some now\<rparr>)\<rparr>)
        now) now [NoticeEvent (InteractionResolved k (inter_turn_id x) (ans_decision b)
          (ans_answers b) automatic)]) None"
    using r False x unfolding k_def
    by (auto simp: submit_interaction_answer_def Let_def result_simps swap_answer_update
        inter_open_def split: if_splits)
  show ?thesis
    unfolding r' result_of_def
    by (simp, rule sound_close_interaction(1) [OF wf x _ _ _ refl refl])
      (use validate_interaction_answer_id [OF b] in \<open>auto simp: k_def\<close>)
qed

section \<open>Cancelling\<close>

text \<open>What cancelling leaves of the aggregate: everything but interactions, answers and the turn's
  status.\<close>

definition cancels_only :: "conversation_state \<Rightarrow> conversation_state \<Rightarrow> bool" where
  "cancels_only st s \<longleftrightarrow>
     st_queued_turn s = st_queued_turn st \<and> st_queued_user_text s = st_queued_user_text st \<and>
     st_commands s = st_commands st \<and> st_activities s = st_activities st \<and>
     st_binding s = st_binding st \<and>
     map_option (\<lambda>t. t\<lparr>turn_status := TURN_RUNNING\<rparr>) (st_active_turn s)
       = map_option (\<lambda>t. t\<lparr>turn_status := TURN_RUNNING\<rparr>) (st_active_turn st)"

lemma cancels_only_refl [simp]: "cancels_only st st"
  by (simp add: cancels_only_def)

lemma cancels_only_trans: "cancels_only s t \<Longrightarrow> cancels_only t w \<Longrightarrow> cancels_only s w"
  by (simp add: cancels_only_def)

lemma cancels_only_active:
  assumes "cancels_only st s" and "st_active_turn st = Some t"
  obtains t' where "st_active_turn s = Some t'" and "turn_id t' = turn_id t"
    and "turn_command_id t' = turn_command_id t"
proof -
  obtain t' where t': "st_active_turn s = Some t'"
    and "t'\<lparr>turn_status := TURN_RUNNING\<rparr> = t\<lparr>turn_status := TURN_RUNNING\<rparr>"
    using assms by (auto simp: cancels_only_def)
  then have "turn_id t' = turn_id t \<and> turn_command_id t' = turn_command_id t"
    by (cases t; cases t') simp
  with that t' show thesis by blast
qed

lemma sound_cancel_interaction:
  fixes u k now
  assumes wf: "wf_state st"
  defines "r \<equiv> cancel_interaction u st k now"
  shows "sound_step st (snd r) (fst r)"
    and "open_ids (st_interactions (fst r)) = open_ids (st_interactions st) - {k}"
    and "cancels_only st (fst r)"
proof -
  have keys: "distinct (dict_keys (st_interactions st))"
    using wf by (simp add: wf_state_def wf_tables_def)
  show "sound_step st (snd r) (fst r)"
    and "open_ids (st_interactions (fst r)) = open_ids (st_interactions st) - {k}"
    and "cancels_only st (fst r)"
  proof (atomize (full), cases "\<exists>x. dict_get (st_interactions st) k = Some x \<and> inter_open x")
    case False
    then have "r = (st, [])" and "k \<notin> open_ids (st_interactions st)"
      using keys by (auto simp: r_def cancel_interaction_def inter_open_def open_ids_iff
          split: option.splits)
    then show "sound_step st (snd r) (fst r) \<and>
        open_ids (st_interactions (fst r)) = open_ids (st_interactions st) - {k} \<and>
        cancels_only st (fst r)"
      using wf by (simp add: sound_step_refl)
  next
    case True
    then obtain x where x: "dict_get (st_interactions st) k = Some x" "inter_open x" by blast
    let ?a = "\<lparr>ans_interaction_id = k, ans_decision = Some CANCEL, ans_answers = None,
               ans_is_draft = False, ans_submitted_at = Some now\<rparr>"
    have r: "r = append_events u (maybe_resume_after_interactions
        (st\<lparr>st_interactions := dict_put (st_interactions st) k (x\<lparr>inter_status := INT_CANCELLED\<rparr>),
            st_answers := dict_put (st_answers st) k ?a\<rparr>) now) now
        [NoticeEvent (InteractionResolved k (inter_turn_id x) (Some CANCEL) None False)]"
      using x unfolding r_def by (auto simp: cancel_interaction_def inter_open_def)
    show "sound_step st (snd r) (fst r) \<and>
        open_ids (st_interactions (fst r)) = open_ids (st_interactions st) - {k} \<and>
        cancels_only st (fst r)"
      using sound_close_interaction [OF wf x _ _ _ refl r] by (simp add: cancels_only_def r)
  qed
qed

lemma sound_cancel_each:
  assumes "wf_state st"
  shows "sound_step st (snd (cancel_each u st ks now)) (fst (cancel_each u st ks now))
    \<and> open_ids (st_interactions (fst (cancel_each u st ks now)))
       = open_ids (st_interactions st) - set ks
    \<and> cancels_only st (fst (cancel_each u st ks now))"
  using assms
proof (induction u st ks now rule: cancel_each.induct)
  case (1 u st now)
  then show ?case by (simp add: sound_step_refl)
next
  case (2 u st k rest now)
  define a where "a = cancel_interaction u st k now"
  define b where "b = cancel_each (drop_supply (length (snd a)) u) (fst a) rest now"
  have a: "sound_step st (snd a) (fst a)" "cancels_only st (fst a)"
    "open_ids (st_interactions (fst a)) = open_ids (st_interactions st) - {k}"
    using sound_cancel_interaction [OF "2.prems"] by (simp_all add: a_def)
  then have "wf_state (fst a)"
    by (simp add: sound_step_def)
  then have "sound_step (fst a) (snd b) (fst b) \<and> cancels_only (fst a) (fst b)
      \<and> open_ids (st_interactions (fst b)) = open_ids (st_interactions (fst a)) - set rest"
    using "2.IH" unfolding a_def b_def by (metis prod.collapse)
  moreover have "cancel_each u st (k # rest) now = (fst b, snd a @ snd b)"
    by (simp add: a_def b_def case_prod_unfold Let_def)
  ultimately show ?case
    using a by (auto intro: sound_step_trans cancels_only_trans)
qed

lemma open_ids_sorted:
  assumes "wf_state st"
  shows "set (map inter_id (sort_key (\<lambda>i. (inter_created_at i, inter_id i)) (open_interactions st)))
     = open_ids (st_interactions st)"
proof -
  have "interactions.keyed (st_interactions st)" "distinct (dict_keys (st_interactions st))"
    using assms by (simp_all add: wf_state_def wf_tables_def)
  then have "inter_id (snd p) = fst p" if "p \<in> set (st_interactions st)" for p
    using that by (auto simp: interactions.keyed_def map_of_eq_Some_iff)
  then show ?thesis
    by (force simp: open_interactions_def open_ids_def inter_open_def)
qed

lemma sound_cancel_open_interactions:
  assumes "wf_state st"
  shows "sound_step st (snd (cancel_open_interactions u st now)) (fst (cancel_open_interactions u st now))
    \<and> open_ids (st_interactions (fst (cancel_open_interactions u st now))) = {}
    \<and> cancels_only st (fst (cancel_open_interactions u st now))"
  using sound_cancel_each [OF assms, of u _ now] open_ids_sorted [OF assms] assms
  by (auto simp: cancel_open_interactions_def Let_def open_interactions_empty sound_step_refl)

end
