(* ===== verification/Turn_Steps.thy ===== *)
theory Turn_Steps
  imports Interaction_Steps
begin

text \<open>
  The turn and activity operations are sound steps: queueing and steering, editing, cancelling and
  starting the queued prompt, the four ways an active turn ends, and background activities.
\<close>

section \<open>Commands\<close>

text \<open>The command may be stored: it replaces one with its idempotency key, or brings a new key.\<close>

definition storable :: "(uuid, command) dict \<Rightarrow> command \<Rightarrow> bool" where
  "storable d c \<longleftrightarrow> kind_matches_payload c \<and>
     (case dict_get d (cmd_id c) of
        Some c' \<Rightarrow> cmd_idempotency_key c' = cmd_idempotency_key c
      | None \<Rightarrow> (\<forall>k c'. dict_get d k = Some c' \<longrightarrow> cmd_idempotency_key c' \<noteq> cmd_idempotency_key c))"

definition wf_command_table :: "(uuid, command) dict \<Rightarrow> bool" where
  "wf_command_table d \<longleftrightarrow> wf_commands d \<and> commands.keyed d \<and> distinct (dict_keys d)"

lemma store_command:
  assumes "wf_command_table d" and "storable d c"
  shows "wf_command_table (dict_put d (cmd_id c) c) \<and> commands_kept d (dict_put d (cmd_id c) c)"
proof -
  have "wf_commands (dict_put d (cmd_id c) c)"
    using assms by (intro wf_commands_put)
      (auto simp: wf_command_table_def storable_def wf_commands_def split: option.splits)
  moreover have "commands_kept d (dict_put d (cmd_id c) c)"
    using assms(2) by (intro commands_kept_put) (auto simp: storable_def)
  ultimately show ?thesis
    using assms(1) commands.keyed_store_own by (auto simp: wf_command_table_def distinct_update)
qed

lemma storable_after_put:
  assumes "kind_matches_payload c'" and "cmd_id c' = cmd_id c"
    and "cmd_idempotency_key c' = cmd_idempotency_key c"
  shows "storable (dict_put d (cmd_id c) c) c'"
  using assms by (simp add: storable_def dict_get_put)

lemma storable_same:
  assumes "storable d c" and "cmd_id c' = cmd_id c"
    and "cmd_idempotency_key c' = cmd_idempotency_key c" and "kind_matches_payload c'"
  shows "storable d c'"
  using assms unfolding storable_def by (cases "dict_get d (cmd_id c)") simp_all

lemma find_command_None:
  "find_command_by_idempotency st key = None \<Longrightarrow> dict_get (st_commands st) k = Some c \<Longrightarrow>
     cmd_idempotency_key c \<noteq> key"
  unfolding find_command_by_idempotency_def find_None_iff_all by (metis dict_get_in_values)

lemma wf_state_command_table: "wf_state st \<Longrightarrow> wf_command_table (st_commands st)"
  by (simp add: wf_state_def wf_tables_def wf_command_table_def)

lemma turn_command_table:
  "wf_command_table d \<Longrightarrow> keeps_identity f \<Longrightarrow>
     wf_command_table (update_turn_command d t f) \<and> commands_kept d (update_turn_command d t f)"
  by (simp add: wf_command_table_def update_turn_command_wf)

lemma settle_keeps_identity: "keeps_identity (settle_command now)"
  by (simp add: keeps_identity_def settle_command_def)

section \<open>Steps that change turns and commands\<close>

text \<open>Everything but the turns, the commands and the status is as before.\<close>

definition moves_turns :: "conversation_state \<Rightarrow> conversation_state \<Rightarrow> bool" where
  "moves_turns st s \<longleftrightarrow>
     st_interactions s = st_interactions st \<and> st_answers s = st_answers st \<and>
     st_activities s = st_activities st \<and> st_binding s = st_binding st \<and>
     conv_id (st_conversation s) = conv_id (st_conversation st) \<and>
     conv_next_event_sequence (st_conversation s) = conv_next_event_sequence (st_conversation st) \<and>
     conv_current_binding_id (st_conversation s) = conv_current_binding_id (st_conversation st) \<and>
     wf_command_table (st_commands s) \<and> commands_kept (st_commands st) (st_commands s)"

lemma core_moves_turns:
  assumes "wf_state st" and "moves_turns st s" and "wf_turns s" and "wf_interactions s"
    and "replay_event (project st) p = Some (project s)"
  shows "core_step st [p] s"
  using assms
  by (simp add: core_step_def moves_turns_def wf_state_def wf_tables_def wf_command_table_def
      wf_binding_def replay_one)

text \<open>The queue changes and the active turn does not.\<close>

lemma core_queue:
  assumes "wf_state st" and "moves_turns st s"
    and "st_active_turn s = st_active_turn st"
    and "st_conversation s = st_conversation st"
    and "\<And>q. st_queued_turn s = Some q \<Longrightarrow> turn_status q = TURN_QUEUED"
    and "st_queued_turn s = None \<longleftrightarrow> st_queued_user_text s = None"
    and "\<And>q t. st_queued_turn s = Some q \<Longrightarrow> st_active_turn st = Some t \<Longrightarrow> turn_id q \<noteq> turn_id t"
    and "replay_event (project st) p = Some (project s)"
  shows "core_step st [p] s"
proof (rule core_moves_turns [OF assms(1,2)])
  show "wf_interactions s"
    using assms wf_interactions_cong [of s st] by (simp add: wf_state_def moves_turns_def)
  show "wf_turns s"
    using assms by (auto simp: wf_turns_def wf_state_def)
qed (rule assms)

section \<open>Queueing and steering\<close>

definition fresh_turn_id :: "uuid_supply \<Rightarrow> conversation_state \<Rightarrow> bool" where
  "fresh_turn_id u st \<longleftrightarrow> (\<forall>t n. st_active_turn st = Some t \<longrightarrow> u n \<noteq> turn_id t)"

lemma fresh_turn_id_drop: "fresh_turn_id u st \<Longrightarrow> fresh_turn_id (drop_supply n u) st"
  by (simp add: fresh_turn_id_def drop_supply_def)

lemma sound_queue_prompt:
  fixes now prompt
  assumes wf: "wf_state st" and c: "storable (st_commands st) c" and u: "fresh_turn_id u st"
  defines "r \<equiv> queue_prompt u st prompt c now"
  shows "sound_step st (tr_events r) (tr_state r)"
proof -
  have queued: "sound_step st (snd (append_events u' s now [TurnEvent (TurnQueued tid i body b)]))
      (recompute_status (fst (append_events u' s now [TurnEvent (TurnQueued tid i body b)])) now)"
    if s: "s = st\<lparr>st_queued_turn := Some q, st_queued_user_text := Some body,
                st_commands := dict_put (st_commands st) k c'\<rparr>" "k = cmd_id c'" "tid = turn_id q"
      and c': "storable (st_commands st) c'"
      and q: "turn_status q = TURN_QUEUED" "\<And>t. st_active_turn st = Some t \<Longrightarrow> turn_id q \<noteq> turn_id t"
        "\<And>q'. st_queued_turn st = Some q' \<Longrightarrow> turn_id q' = turn_id q"
    for s q c' k tid body i b u'
  proof -
    have "moves_turns st s"
      using store_command [OF wf_state_command_table [OF wf] c'] by (simp add: moves_turns_def s)
    moreover have "replay_event (project st) (TurnEvent (TurnQueued (turn_id q) i body b)) = Some (project s)"
    proof -
      have "lc_active (project st) \<noteq> Some (turn_id q)"
        using q(2) by (auto simp: project_def)
      moreover have "x = turn_id q" if "lc_queued (project st) = Some (x, y)" for x y
        using q(3) that by (auto simp: project_def split: option.splits)
      moreover have "project s = (project st)\<lparr>lc_queued := Some (turn_id q, body)\<rparr>"
        by (simp add: project_def s)
      ultimately show ?thesis
        by (auto split: option.splits)
    qed
    ultimately have "core_step st [TurnEvent (TurnQueued (turn_id q) i body b)] s"
      using q by (intro core_queue [OF wf]) (auto simp: s)
    then show ?thesis
      unfolding s(3) by (rule sound_step_append_recompute [OF wf])
  qed
  have store: "storable (st_commands st) (c\<lparr>cmd_target_turn_id := x\<rparr>)"
    "storable (st_commands st) (c\<lparr>cmd_status := z, cmd_coalesced_into_command_id := y,
        cmd_target_turn_id := x\<rparr>)" for x y z
    by (rule storable_same [OF c]; use c in \<open>simp add: storable_def kind_matches_payload_def\<close>)+
  show ?thesis
  proof (cases "st_queued_turn st")
    case None
    then show ?thesis
      using u store unfolding r_def queue_prompt_def
      by (auto simp: case_prod_unfold Let_def fresh_turn_id_def intro!: queued)
  next
    case (Some q)
    then have "turn_status q = TURN_QUEUED" "\<And>t. st_active_turn st = Some t \<Longrightarrow> turn_id q \<noteq> turn_id t"
      using wf by (auto simp: wf_state_def wf_turns_def)
    with Some show ?thesis
      using store unfolding r_def queue_prompt_def
      by (auto simp: case_prod_unfold Let_def split: option.split intro!: queued)
  qed
qed

lemma sound_steer_with_command:
  fixes now prompt ok
  assumes wf: "wf_state st" and c: "storable (st_commands st) c" and u: "fresh_turn_id u st"
  defines "r \<equiv> steer_with_command u st prompt now c ok"
  shows "sound_step st (tr_events r) (tr_state r)"
proof -
  let ?fallback = "c\<lparr>cmd_kind := SUBMIT_TURN, cmd_payload := SubmitTurnPayload prompt None\<rparr>"
  have "storable (st_commands st) ?fallback"
    by (rule storable_same [OF c]) (simp_all add: kind_matches_payload_def)
  note queue = sound_queue_prompt [OF wf c u] sound_queue_prompt [OF wf this u]
  show ?thesis
  proof (cases "\<exists>t. st_active_turn st = Some t \<and> turn_status t \<in> {TURN_RUNNING, TURN_WAITING}
      \<and> supports_steer st \<and> ok")
    case False
    then show ?thesis
      using queue by (auto simp: r_def steer_with_command_def split: option.splits)
  next
    case True
    then obtain t where t: "st_active_turn st = Some t" by blast
    let ?c = "c\<lparr>cmd_kind := STEER, cmd_target_turn_id := Some (turn_id t), cmd_payload := SteerPayload prompt\<rparr>"
    let ?s = "st\<lparr>st_commands := dict_put (st_commands st) (cmd_id ?c) ?c\<rparr>"
    have c': "storable (st_commands st) ?c"
      by (rule storable_same [OF c]) (simp_all add: kind_matches_payload_def)
    have "moves_turns st ?s"
      using store_command [OF wf_state_command_table [OF wf] c'] by (simp add: moves_turns_def)
    then have "core_step st [TurnEvent (TurnSteering (turn_id t) (cmd_id ?c) prompt)] ?s"
      using wf t by (intro core_queue) (auto simp: wf_state_def wf_turns_def project_def)
    moreover have "status_consistent ?s"
      using wf status_consistent_cong [of ?s st] by (simp add: wf_state_def)
    moreover have "r = result_of (append_events u ?s now
        [TurnEvent (TurnSteering (turn_id t) (cmd_id ?c) prompt)]) (Some ?c)"
      using True t by (auto simp: r_def steer_with_command_def with_commands_def Let_def)
    ultimately show ?thesis
      using sound_step_append [OF wf] by (simp add: result_of_def)
  qed
qed

text \<open>Accepting a command stores it and emits nothing.\<close>

lemma sound_accept:
  assumes wf: "wf_state st" and c: "storable (st_commands st) c"
  shows "sound_step st [] (with_commands st (dict_put (st_commands st) (cmd_id c) c))"
proof -
  let ?s = "st\<lparr>st_commands := dict_put (st_commands st) (cmd_id c) c\<rparr>"
  have "wf_command_table (st_commands ?s) \<and> commands_kept (st_commands st) (st_commands ?s)"
    using store_command [OF wf_state_command_table [OF wf] c] by simp
  moreover have "wf_turns ?s = wf_turns st" "wf_interactions ?s = wf_interactions st"
    "wf_binding ?s = wf_binding st" "status_consistent ?s = status_consistent st"
    "project ?s = project st"
    by (rule wf_turns_cong wf_interactions_cong wf_binding_cong status_consistent_cong
        project_cong; simp)+
  ultimately show ?thesis
    using wf by (simp add: with_commands_def sound_step_def numbered_def wf_state_def wf_tables_def
        wf_command_table_def)
qed

lemma accepted_storable:
  assumes "find_command_by_idempotency st key = None" and "dict_get (st_commands st) i = None"
  shows "storable (st_commands st) (accepted_command i conversation p key target now)"
  using assms find_command_None [OF assms(1)]
  by (simp add: storable_def accepted_command_def kind_matches_payload_def)

text \<open>The identifiers a run draws are new: neither the active turn nor a command has one.\<close>

definition fresh_supply :: "uuid_supply \<Rightarrow> conversation_state \<Rightarrow> bool" where
  "fresh_supply u st \<longleftrightarrow> fresh_turn_id u st \<and> (\<forall>n. dict_get (st_commands st) (u n) = None)"

lemma sound_accept_then:
  assumes wf: "wf_state st" and c: "storable (st_commands st) c" and u: "fresh_turn_id u st"
    and s: "s = with_commands st (dict_put (st_commands st) (cmd_id c) c)"
    and r: "r = queue_prompt u s prompt c now \<or> r = steer_with_command u s prompt now c ok"
  shows "sound_step st (tr_events r) (tr_state r)"
proof -
  have accept: "sound_step st [] s"
    unfolding s by (rule sound_accept [OF wf c])
  then have "wf_state s"
    by (simp add: sound_step_def)
  moreover have "storable (st_commands s) c"
    using c by (simp add: s with_commands_def storable_def dict_get_put)
  moreover have "fresh_turn_id u s"
    using u by (simp add: s with_commands_def fresh_turn_id_def)
  ultimately have "sound_step s (tr_events r) (tr_state r)"
    using r sound_queue_prompt sound_steer_with_command by blast
  with accept show ?thesis
    using sound_step_trans by fastforce
qed

lemma sound_apply_steer:
  assumes wf: "wf_state st" and u: "fresh_supply u st"
    and c: "\<And>c. command = Some c \<Longrightarrow> storable (st_commands st) c"
  shows "sound_step st (tr_events (apply_steer u st prompt key now command ok))
           (tr_state (apply_steer u st prompt key now command ok))"
proof (cases command)
  case (Some c)
  then show ?thesis
    using sound_steer_with_command [OF wf c] u by (simp add: apply_steer_def fresh_supply_def)
next
  case None
  show ?thesis
  proof (cases "find_command_by_idempotency st key")
    case (Some e)
    with None wf show ?thesis
      by (simp add: apply_steer_def result_of_def sound_step_refl)
  next
    case fresh: None
    let ?c = "accepted_command (u 0) (conv_id (st_conversation st)) (SteerPayload prompt) key
                (map_option turn_id (st_active_turn st)) now"
    have "storable (st_commands st) ?c"
      using u by (intro accepted_storable [OF fresh]) (simp add: fresh_supply_def)
    moreover have "fresh_turn_id (drop_supply 1 u) st"
      using u by (simp add: fresh_supply_def fresh_turn_id_drop)
    moreover have "apply_steer u st prompt key now command ok = steer_with_command (drop_supply 1 u)
        (with_commands st (dict_put (st_commands st) (cmd_id ?c) ?c)) prompt now ?c ok"
      by (simp add: apply_steer_def None fresh Let_def)
    ultimately show ?thesis
      using sound_accept_then [OF wf _ _ refl disjI2 [OF refl]] by simp
  qed
qed

text \<open>\<open>submit_turn\<close> accepts its command and then queues or steers.\<close>

lemma submit_turn_cases:
  fixes u command_id prompt model now
  assumes "find_command_by_idempotency st key = None"
  defines "i \<equiv> (case command_id of Some c \<Rightarrow> c | None \<Rightarrow> u 0)"
    and "u' \<equiv> (case command_id of Some c \<Rightarrow> u | None \<Rightarrow> drop_supply 1 u)"
  defines "c \<equiv> accepted_command i (conv_id (st_conversation st)) (SubmitTurnPayload prompt model)
                key None now"
  defines "s \<equiv> with_commands st (dict_put (st_commands st) (cmd_id c) c)"
  shows "submit_turn u st prompt key now model command_id = queue_prompt u' s prompt c now \<or>
     submit_turn u st prompt key now model command_id = steer_with_command u' s prompt now c True"
  using assms(1)
  by (cases command_id) (simp_all add: submit_turn_def apply_steer_def i_def u'_def c_def s_def Let_def)

lemma sound_submit_turn:
  assumes wf: "wf_state st" and u: "fresh_supply u st"
    and i: "\<And>i. command_id = Some i \<Longrightarrow> dict_get (st_commands st) i = None"
  shows "sound_step st (tr_events (submit_turn u st prompt key now model command_id))
           (tr_state (submit_turn u st prompt key now model command_id))"
proof (cases "find_command_by_idempotency st key")
  case (Some e)
  with wf show ?thesis
    by (simp add: submit_turn_def result_of_def sound_step_refl)
next
  case None
  let ?i = "case command_id of Some c \<Rightarrow> c | None \<Rightarrow> u 0"
  let ?u = "case command_id of Some c \<Rightarrow> u | None \<Rightarrow> drop_supply 1 u"
  let ?c = "accepted_command ?i (conv_id (st_conversation st)) (SubmitTurnPayload prompt model)
              key None now"
  have "storable (st_commands st) ?c"
    using u i by (intro accepted_storable [OF None]) (simp add: fresh_supply_def split: option.split)
  moreover have "fresh_turn_id ?u st"
    using u by (simp add: fresh_supply_def fresh_turn_id_drop split: option.split)
  ultimately show ?thesis
    using submit_turn_cases [OF None] by (intro sound_accept_then [OF wf _ _ refl])
qed

section \<open>The queued prompt and the start of a turn\<close>

lemma sound_edit_queued_prompt:
  assumes wf: "wf_state st" and r: "edit_queued_prompt u st prompt now = Inr r"
  shows "sound_step st (tr_events r) (tr_state r)"
proof -
  obtain q old u' i where q: "st_queued_turn st = Some q" "st_queued_user_text st = Some old"
    and r': "r = result_of (append_events u' (st\<lparr>st_queued_user_text := Some prompt\<rparr>) now
      [TurnEvent (TurnQueued (turn_id q) i prompt False)]) None"
    using r by (auto simp: edit_queued_prompt_def case_prod_unfold Let_def split: option.splits if_splits)
  let ?s = "st\<lparr>st_queued_user_text := Some prompt\<rparr>"
  have "moves_turns st ?s"
    using wf by (simp add: moves_turns_def wf_state_command_table)
  moreover have "turn_status q = TURN_QUEUED" "\<And>t. st_active_turn st = Some t \<Longrightarrow> turn_id q \<noteq> turn_id t"
    using wf q by (auto simp: wf_state_def wf_turns_def)
  ultimately have "core_step st [TurnEvent (TurnQueued (turn_id q) i prompt False)] ?s"
    using q by (intro core_queue [OF wf]) (auto simp: project_def)
  moreover have "status_consistent ?s"
    using wf status_consistent_cong [of ?s st] by (simp add: wf_state_def)
  ultimately show ?thesis
    using sound_step_append [OF wf] by (simp add: r' result_of_def)
qed

text \<open>Dropping the queued turn, by cancelling it or by failing it before it started.\<close>

lemma sound_drop_queued:
  assumes wf: "wf_state st" and q: "st_queued_turn st = Some q"
    and s: "s = st\<lparr>st_queued_turn := None, st_queued_user_text := None,
                 st_commands := update_turn_command (st_commands st) q (settle_command now)\<rparr>"
    and p: "p = TurnCancelled (turn_id q) \<or> p = TurnFailed (turn_id q) code message"
  shows "sound_step st (snd (append_events u s now [TurnEvent p]))
           (recompute_status (fst (append_events u s now [TurnEvent p])) now)"
proof -
  obtain body where "st_queued_user_text st = Some body"
    using wf q by (auto simp: wf_state_def wf_turns_def)
  moreover have "moves_turns st s"
    using turn_command_table [OF wf_state_command_table [OF wf] settle_keeps_identity]
    by (simp add: moves_turns_def s)
  ultimately have "core_step st [TurnEvent p] s"
    using q p by (intro core_queue [OF wf]) (auto simp: s project_def drop_queued_def)
  then show ?thesis
    by (rule sound_step_append_recompute [OF wf])
qed

lemma sound_cancel_queued_prompt:
  "wf_state st \<Longrightarrow> cancel_queued_prompt u st now = Inr r \<Longrightarrow> sound_step st (tr_events r) (tr_state r)"
  by (auto simp: cancel_queued_prompt_def result_simps case_prod_unfold Let_def result_of_def
      intro: sound_drop_queued split: if_splits)

lemma sound_start_turn:
  assumes wf: "wf_state st" and r: "start_turn u st now = Inr r"
  shows "sound_step st (tr_events r) (tr_state r)"
proof -
  obtain q where q: "st_queued_turn st = Some q" and idle: "\<not> turn_running_or_waiting (st_active_turn st)"
    using r by (auto simp: start_turn_def result_simps split: if_splits)
  then have none: "st_active_turn st = None"
    using wf by (auto simp: turn_running_or_waiting_def wf_state_def wf_turns_def split: option.splits)
  obtain body where body: "st_queued_user_text st = Some body"
    using wf q by (auto simp: wf_state_def wf_turns_def)
  let ?t = "q\<lparr>turn_status := TURN_RUNNING, turn_started_at := Some now\<rparr>"
  let ?f = "\<lambda>cmd. cmd\<lparr>cmd_status := CMD_DELIVERY_STARTED, cmd_delivery_started_at := Some now,
      cmd_target_turn_id := Some (turn_id q)\<rparr>"
  let ?s = "st\<lparr>st_active_turn := Some ?t, st_queued_turn := None, st_queued_user_text := None,
      st_commands := update_turn_command (st_commands st) ?t ?f,
      st_conversation := (st_conversation st)\<lparr>conv_active_turn_id := Some (turn_id q),
        conv_status := CONV_RUNNING, conv_updated_at := now\<rparr>,
      st_idle_reap_eligible := False\<rparr>"
  have "keeps_identity ?f"
    by (simp add: keeps_identity_def)
  then have "moves_turns st ?s"
    using turn_command_table [OF wf_state_command_table [OF wf]] by (simp add: moves_turns_def)
  moreover have i: "wf_interactions st" "open_ids (st_interactions st) = {}"
  proof -
    show "wf_interactions st" using wf by (simp add: wf_state_def)
    have "distinct (dict_keys (st_interactions st))"
      using wf by (simp add: wf_state_def wf_tables_def)
    then show "open_ids (st_interactions st) = {}"
      using \<open>wf_interactions st\<close> none open_ids_iff [of "st_interactions st"]
      by (auto simp: wf_interactions_def)
  qed
  moreover have "wf_interactions ?s"
  proof -
    have "\<not> inter_open x" if "dict_get (st_interactions st) k = Some x" for k x
      using i(1) none that by (auto simp: wf_interactions_def)
    then show ?thesis
      using i by (simp add: wf_interactions_def answered_def)
  qed
  moreover have "wf_turns ?s"
    by (simp add: wf_turns_def)
  ultimately have "core_step st [TurnEvent (TurnStarted (turn_id q) (turn_command_id q))] ?s"
    using q body none by (intro core_moves_turns [OF wf]) (auto simp: project_def drop_queued_def)
  moreover have "status_consistent ?s"
    by (simp add: status_consistent_def derived_status_def)
  moreover have "r = result_of (append_events u ?s now
      [TurnEvent (TurnStarted (turn_id q) (turn_command_id q))]) None"
    using r q idle by (auto simp: start_turn_def Let_def)
  ultimately show ?thesis
    using sound_step_append [OF wf] by (simp add: result_of_def)
qed

section \<open>The end of the active turn\<close>

text \<open>The terminal payloads of a turn: each ends the lifecycle of the active turn.\<close>

definition ends_turn :: "turn_payload \<Rightarrow> uuid \<Rightarrow> bool" where
  "ends_turn p t \<longleftrightarrow> (\<forall>l. (\<forall>q y. lc_queued l = Some (q, y) \<longrightarrow> q \<noteq> t) \<longrightarrow>
     replay_turn l p = end_turn l t)"

lemma ends_turn_payloads:
  "ends_turn (TurnCompleted t a b) t" "ends_turn (TurnInterrupted t a) t"
  "ends_turn (TurnFailed t code message) t" "ends_turn (TurnOutcomeUnknown t i a d) t"
  by (auto simp: ends_turn_def drop_queued_def split: option.split)

lemma sound_end_active_turn:
  fixes u now
  assumes wf: "wf_state st" and t: "st_active_turn st = Some t"
    and f: "keeps_identity f"
    and p: "\<And>t'. ends_turn (terminal t') (turn_id t')"
  defines "r \<equiv> end_active_turn u st now f terminal"
  shows "sound_step st (tr_events r) (tr_state r)"
proof -
  define c where "c = cancel_open_interactions u st now"
  have c: "sound_step st (snd c) (fst c)" "open_ids (st_interactions (fst c)) = {}"
    "cancels_only st (fst c)"
    using sound_cancel_open_interactions [OF wf, of u now] by (simp_all add: c_def)
  then have wfc: "wf_state (fst c)"
    by (simp add: sound_step_def)
  obtain t' where t': "st_active_turn (fst c) = Some t'" "turn_id t' = turn_id t"
    using cancels_only_active [OF c(3) t] by blast
  let ?s = "(fst c)\<lparr>st_active_turn := None,
      st_commands := update_turn_command (st_commands (fst c)) t' f,
      st_conversation := (st_conversation (fst c))\<lparr>conv_active_turn_id := None, conv_updated_at := now\<rparr>\<rparr>"
  let ?a = "append_events (drop_supply (length (snd c)) u) ?s now [TurnEvent (terminal t')]"
  have "moves_turns (fst c) ?s"
    using turn_command_table [OF wf_state_command_table [OF wfc] f] by (simp add: moves_turns_def)
  moreover have "wf_turns ?s"
    using wfc by (simp add: wf_state_def wf_turns_def)
  moreover have "wf_interactions ?s"
  proof -
    have "distinct (dict_keys (st_interactions (fst c)))"
      using wfc by (simp add: wf_state_def wf_tables_def)
    then have "\<not> inter_open x" if "dict_get (st_interactions (fst c)) k = Some x" for k x
      using c(2) that open_ids_iff [of "st_interactions (fst c)" k] by auto
    then show ?thesis
      using wfc by (simp add: wf_state_def wf_interactions_def answered_def)
  qed
  moreover have "replay_event (project (fst c)) (TurnEvent (terminal t')) = Some (project ?s)"
  proof -
    have "\<forall>q y. lc_queued (project (fst c)) = Some (q, y) \<longrightarrow> q \<noteq> turn_id t'"
      using wfc t' by (auto simp: project_def wf_state_def wf_turns_def split: option.splits)
    then have "replay_turn (project (fst c)) (terminal t') = end_turn (project (fst c)) (turn_id t')"
      using p by (simp add: ends_turn_def)
    then show ?thesis
      using t' c(2) by (simp add: end_turn_def project_def)
  qed
  ultimately have "sound_step (fst c) (snd ?a) (recompute_status (fst ?a) now)"
    by (intro sound_step_append_recompute [OF wfc] core_moves_turns [OF wfc])
  moreover have "r = result_of (recompute_status (fst ?a) now, snd c @ snd ?a) None"
    using t' unfolding r_def c_def by (simp add: end_active_turn_def case_prod_unfold Let_def)
  ultimately show ?thesis
    using sound_step_trans [OF c(1)] by (simp add: result_of_def)
qed

lemma unknown_keeps_identity: "keeps_identity (\<lambda>cmd. cmd\<lparr>cmd_status := CMD_OUTCOME_UNKNOWN\<rparr>)"
  by (simp add: keeps_identity_def)

lemmas end_rules = sound_end_active_turn settle_keeps_identity unknown_keeps_identity
  ends_turn_payloads

lemma sound_turn_end:
  assumes "wf_state st"
    and "complete_turn u st now reason has_message = Inr r \<or> interrupt_turn u st now reason = Inr r
       \<or> mark_outcome_unknown u st now phase reason = Inr r"
  shows "sound_step st (tr_events r) (tr_state r)"
  using assms
  by (auto simp: complete_turn_def interrupt_turn_def mark_outcome_unknown_def result_simps
      intro!: end_rules split: if_splits)

lemma sound_fail_turn:
  assumes "wf_state st" and "fail_turn u st now code message tid = Inr r"
  shows "sound_step st (tr_events r) (tr_state r)"
  using assms
  by (auto simp: fail_turn_def result_simps case_prod_unfold Let_def result_of_def
      intro!: end_rules intro: sound_drop_queued split: option.splits if_splits)

section \<open>Background activities\<close>

lemma core_activity:
  assumes wf: "wf_state st" and a: "act_id a = k"
    and s: "s = st\<lparr>st_activities := dict_put (st_activities st) k a, st_idle_reap_eligible := b\<rparr>"
    and p: "p = ActivityStarted k t parent title \<or> p = ActivityCompleted k t status summary"
  shows "core_step st [NoticeEvent p] s"
proof -
  have "wf_tables s"
    using wf a activities.keyed_store_own [of "st_activities st" a]
    by (auto simp: s wf_state_def wf_tables_def distinct_update)
  moreover have "wf_turns s = wf_turns st" "wf_interactions s = wf_interactions st"
    "wf_binding s = wf_binding st" "project s = project st"
    by (rule wf_turns_cong wf_interactions_cong wf_binding_cong project_cong; simp add: s)+
  ultimately show ?thesis
    using wf p by (auto simp: core_step_def s wf_state_def replay_one)
qed

lemma sound_register_activity:
  fixes u now title t parent aid
  assumes wf: "wf_state st"
  defines "r \<equiv> register_activity u st t now title parent aid"
  shows "sound_step st (tr_events r) (tr_state r)"
proof -
  define i where "i = (case aid of Some a \<Rightarrow> a | None \<Rightarrow> u 0)"
  define u' where "u' = (case aid of Some a \<Rightarrow> u | None \<Rightarrow> drop_supply 1 u)"
  let ?a = "\<lparr>act_id = i, act_conversation_id = conv_id (st_conversation st),
    act_parent_turn_id = t, act_parent_activity_id = parent, act_status = ACT_RUNNING,
    act_title = title, act_summary = None, act_created_at = now, act_completed_at = None\<rparr>"
  let ?s = "st\<lparr>st_activities := dict_put (st_activities st) i ?a, st_idle_reap_eligible := False\<rparr>"
  let ?e = "append_events u' ?s now [NoticeEvent (ActivityStarted i t parent title)]"
  have "core_step st [NoticeEvent (ActivityStarted i t parent title)] ?s"
    by (rule core_activity [OF wf, of ?a i]) simp_all
  then have "sound_step st (snd ?e) (recompute_status (fst ?e) now)"
    by (rule sound_step_append_recompute [OF wf])
  moreover have "r = result_of (recompute_status (fst ?e) now, snd ?e) None"
    unfolding r_def i_def u'_def
    by (cases aid) (simp_all add: register_activity_def case_prod_unfold Let_def)
  ultimately show ?thesis
    by (simp add: result_of_def)
qed

lemma sound_complete_activity:
  assumes wf: "wf_state st" and r: "complete_activity u st k now status summary = Inr r"
  shows "sound_step st (tr_events r) (tr_state r)"
proof -
  obtain x where x: "dict_get (st_activities st) k = Some x"
    using r by (auto simp: complete_activity_def result_simps)
  then have "act_id x = k"
    using wf by (auto simp: wf_state_def wf_tables_def activities.keyed_def)
  let ?x = "x\<lparr>act_status := status, act_completed_at := Some now, act_summary := summary\<rparr>"
  let ?s = "st\<lparr>st_activities := dict_put (st_activities st) k ?x\<rparr>"
  let ?p = "ActivityCompleted k (act_parent_turn_id x) status summary"
  have "core_step st [NoticeEvent ?p] ?s"
    by (rule core_activity [OF wf, of ?x k _ "st_idle_reap_eligible st"])
      (use \<open>act_id x = k\<close> in simp_all)
  then show ?thesis
    using r x sound_step_append_recompute [OF wf]
    by (auto simp: complete_activity_def result_of_def case_prod_unfold Let_def split: if_splits)
qed

lemma sound_step_wf: "sound_step st es s \<Longrightarrow> wf_state s"
  by (simp add: sound_step_def)

lemma sound_fail_each_activity:
  "wf_state st \<Longrightarrow> fail_each_activity u st ks now summary = Inr (s, es) \<Longrightarrow> sound_step st es s"
proof (induction u st ks now summary arbitrary: s es rule: fail_each_activity.induct)
  case (1 u st now summary)
  then show ?case by (simp add: sound_step_refl)
next
  case (2 u st k rest now summary)
  obtain r s' es' where r: "complete_activity u st k now ACT_FAILED (Some summary) = Inr r"
    and rest: "fail_each_activity (drop_supply (length (tr_events r)) u) (tr_state r) rest now summary
      = Inr (s', es')" and "s = s'" "es = tr_events r @ es'"
    using "2.prems"(2) by (auto simp: bind_result_eq_Inr)
  moreover have "sound_step st (tr_events r) (tr_state r)"
    by (rule sound_complete_activity [OF "2.prems"(1) r])
  ultimately show ?case
    using "2.IH" [OF _ rest] sound_step_wf sound_step_trans by blast
qed

lemma sound_fail_running_activities:
  "wf_state st \<Longrightarrow> fail_running_activities u st now summary = Inr r \<Longrightarrow>
     sound_step st (tr_events r) (tr_state r)"
  by (auto simp: fail_running_activities_def bind_result_eq_Inr result_of_def
      intro: sound_fail_each_activity)

end
