(* ===== verification/Turn_Ends.thy ===== *)
theory Turn_Ends
  imports Turn_Steps
begin

text \<open>
  What the end of the active turn emits and leaves: the cancellation of every open interaction in the
  order of creation, then the terminal event (\<open>cancel_open_interactions\<close> and the turn-ending
  transitions of \<open>src/talktoharnesses/domain/transitions.py\<close>).
\<close>

section \<open>Cancelling in order\<close>

definition cancel_payload :: "pending_interaction \<Rightarrow> event_payload" where
  "cancel_payload i = NoticeEvent (InteractionResolved (inter_id i) (inter_turn_id i) (Some CANCEL) None False)"

lemma cancel_interaction_open:
  assumes "dict_get (st_interactions st) (inter_id i) = Some i" and "inter_open i"
  shows "map ev_payload (snd (cancel_interaction u st (inter_id i) now)) = [cancel_payload i]"
    and "st_interactions (fst (cancel_interaction u st (inter_id i) now))
       = dict_put (st_interactions st) (inter_id i) (i\<lparr>inter_status := INT_CANCELLED\<rparr>)"
  using assms by (simp_all add: cancel_interaction_def inter_open_def append_events_events
      make_events_payload cancel_payload_def Let_def)

lemma cancel_each_payloads:
  assumes "distinct (map inter_id is)"
    and "\<And>i. i \<in> set is \<Longrightarrow> dict_get (st_interactions st) (inter_id i) = Some i \<and> inter_open i"
  shows "map ev_payload (snd (cancel_each u st (map inter_id is) now)) = map cancel_payload is"
  using assms
proof (induction "is" arbitrary: u st)
  case Nil
  then show ?case by simp
next
  case (Cons i rest)
  define a where "a = cancel_interaction u st (inter_id i) now"
  have i: "map ev_payload (snd a) = [cancel_payload i]"
    and a: "st_interactions (fst a)
       = dict_put (st_interactions st) (inter_id i) (i\<lparr>inter_status := INT_CANCELLED\<rparr>)"
    using cancel_interaction_open [of st i u now] Cons.prems(2) by (auto simp: a_def)
  have "dict_get (st_interactions (fst a)) (inter_id j) = Some j \<and> inter_open j"
    if "j \<in> set rest" for j
  proof -
    have "inter_id j \<noteq> inter_id i"
      using that Cons.prems(1) by (metis distinct.simps(2) image_eqI list.set_map list.simps(9))
    then show ?thesis
      using Cons.prems(2) [of j] that by (simp add: a dict_get_put)
  qed
  with Cons.prems(1) have "map ev_payload (snd (cancel_each (drop_supply (length (snd a)) u) (fst a)
      (map inter_id rest) now)) = map cancel_payload rest"
    by (intro Cons.IH) simp_all
  then show ?case
    using i by (simp add: a_def [symmetric] case_prod_unfold Let_def)
qed

definition open_in_order :: "conversation_state \<Rightarrow> pending_interaction list" where
  "open_in_order st = sort_key (\<lambda>i. (inter_created_at i, inter_id i)) (open_interactions st)"

lemma open_in_order_facts:
  assumes "wf_state st"
  shows "distinct (map inter_id (open_in_order st))"
    and "\<And>i. i \<in> set (open_in_order st) \<Longrightarrow>
       dict_get (st_interactions st) (inter_id i) = Some i \<and> inter_open i"
proof -
  let ?d = "st_interactions st"
  have keyed: "interactions.keyed ?d" and keys: "distinct (dict_keys ?d)"
    using assms by (simp_all add: wf_state_def wf_tables_def)
  then have own: "inter_id (snd p) = fst p" if "p \<in> set ?d" for p
    using that by (auto simp: interactions.keyed_def map_of_eq_Some_iff)
  then have "map inter_id (dict_values ?d) = dict_keys ?d"
    by (simp add: comp_def)
  then have "distinct (map inter_id (open_interactions st))"
    using keys by (metis distinct_map_filter open_interactions_def)
  then show "distinct (map inter_id (open_in_order st))"
    by (simp add: open_in_order_def distinct_map)
  fix i
  assume "i \<in> set (open_in_order st)"
  then have "i \<in> set (dict_values ?d)" "inter_open i"
    by (auto simp: open_in_order_def open_interactions_def inter_open_def)
  then show "dict_get ?d (inter_id i) = Some i \<and> inter_open i"
    using keyed dict_values_get [OF keys] unfolding interactions.keyed_def by metis
qed

lemma cancel_open_payloads:
  assumes "wf_state st"
  shows "map ev_payload (snd (cancel_open_interactions u st now)) = map cancel_payload (open_in_order st)"
proof (cases "open_interactions st = []")
  case True
  then show ?thesis by (simp add: cancel_open_interactions_def open_in_order_def)
next
  case False
  then show ?thesis
    using cancel_each_payloads [OF open_in_order_facts [OF assms]]
    by (simp add: cancel_open_interactions_def open_in_order_def)
qed

section \<open>The effect of ending a turn\<close>

lemma end_active_turn_effect:
  fixes u st now f terminal
  assumes wf: "wf_state st" and t: "st_active_turn st = Some t"
    and terminal: "\<And>t'. turn_id t' = turn_id t \<Longrightarrow> turn_command_id t' = turn_command_id t \<Longrightarrow>
       terminal t' = terminal t"
  defines "r \<equiv> end_active_turn u st now f terminal"
  shows "map ev_payload (tr_events r) = map cancel_payload (open_in_order st) @ [TurnEvent (terminal t)]"
    and "st_active_turn (tr_state r) = None" and "open_ids (st_interactions (tr_state r)) = {}"
    and "st_queued_turn (tr_state r) = st_queued_turn st"
    and "st_commands (tr_state r) = update_turn_command (st_commands st) t f"
proof -
  define c where "c = cancel_open_interactions u st now"
  have c: "open_ids (st_interactions (fst c)) = {}" "cancels_only st (fst c)"
    using sound_cancel_open_interactions [OF wf, of u now] by (simp_all add: c_def)
  obtain t' where t': "st_active_turn (fst c) = Some t'" "turn_id t' = turn_id t"
    "turn_command_id t' = turn_command_id t"
    using cancels_only_active [OF c(2) t] by blast
  have payloads: "map ev_payload (snd c) = map cancel_payload (open_in_order st)"
    unfolding c_def by (rule cancel_open_payloads [OF wf])
  let ?s = "(fst c)\<lparr>st_active_turn := None,
      st_commands := update_turn_command (st_commands (fst c)) t' f,
      st_conversation := (st_conversation (fst c))\<lparr>conv_active_turn_id := None, conv_updated_at := now\<rparr>\<rparr>"
  let ?a = "append_events (drop_supply (length (snd c)) u) ?s now [TurnEvent (terminal t')]"
  have r: "r = result_of (recompute_status (fst ?a) now, snd c @ snd ?a) None"
    using t' unfolding r_def c_def by (simp add: end_active_turn_def case_prod_unfold Let_def)
  have "update_turn_command (st_commands (fst c)) t' f = update_turn_command (st_commands st) t f"
    using c(2) t'(3) by (simp add: cancels_only_def update_turn_command_def)
  with r payloads terminal [OF t'(2,3)] c
  show "map ev_payload (tr_events r) = map cancel_payload (open_in_order st) @ [TurnEvent (terminal t)]"
    and "st_active_turn (tr_state r) = None" and "open_ids (st_interactions (tr_state r)) = {}"
    and "st_queued_turn (tr_state r) = st_queued_turn st"
    and "st_commands (tr_state r) = update_turn_command (st_commands st) t f"
    by (simp_all add: result_of_def append_events_events make_events_payload cancels_only_def)
qed

lemma update_turn_command_get:
  assumes "wf_state st" and "turn_command_id t = Some i" and "dict_get (st_commands st) i = Some c"
  shows "dict_get (update_turn_command (st_commands st) t f) i = Some (f c)"
proof -
  have "cmd_id c = i"
    using assms by (auto simp: wf_state_def wf_tables_def commands.keyed_def)
  with assms show ?thesis
    by (simp add: update_turn_command_def dict_get_put)
qed

end
