(* ===== verification/Conversation_Machine.thy ===== *)
theory Conversation_Machine
  imports Machines Turn_Ends
begin

text \<open>
  The conversation as a state machine. \<open>conversation_op\<close> is one constructor per public transition of
  \<open>src/talktoharnesses/domain/transitions.py\<close>, \<open>apply_op\<close> runs it, and \<open>conversation_step\<close> is the
  relation of the steps that do not raise: the application persists the result of a transition and
  drops a transition that raised, so a raise is no step. The interfaces of \<open>Machines\<close> are interpreted
  on it; the properties of the conversation rest on them.
\<close>

section \<open>Operations\<close>

datatype (plugins only: code) conversation_op =
    SubmitTurn string string "string option" "uuid option"
  | ApplySteer string string "command option" bool
  | EditQueuedPrompt string
  | CancelQueuedPrompt
  | StartTurn
  | CompleteTurn "string option" bool
  | InterruptTurn "string option"
  | FailTurn string string "uuid option"
  | MarkOutcomeUnknown "string option" "string option"
  | RegisterActivity uuid "string option" "uuid option" "uuid option"
  | CompleteActivity uuid activity_status "string option"
  | FailRunningActivities string
  | RequestInteraction pending_interaction
  | UpdateInteractionDraft uuid "(string, json) dict"
  | SubmitInteractionAnswer interaction_answer bool
  | CancelInteraction uuid
  | CancelOpenInteractions
  | ArchiveConversation
  | UnarchiveConversation
  | PinConversation
  | UnpinConversation
  | SnoozeConversation datetime
  | UnsnoozeConversation
  | SoftDeleteConversation
  | SetRetentionExemption bool
  | ChangeMode string
  | StartSession "string option" launch_snapshot
  | ResumeSession string launch_snapshot
  | CloseSession "string option"
  | FailSession string string
  | ReapSession "string option"
  | RotateSession "string option"
  | MarkRequiresRecreation
  | CommitSwitch binding
  | FailSwitch string "string option"
  | ApplyNativeTitle string
  | RememberNativeIds "string list" "string list"

primrec apply_op ::
  "uuid_supply \<Rightarrow> conversation_state \<Rightarrow> datetime \<Rightarrow> conversation_op \<Rightarrow> transition_result result" where
  "apply_op u st now (SubmitTurn prompt key model command_id) =
     Inr (submit_turn u st prompt key now model command_id)"
| "apply_op u st now (ApplySteer prompt key command ok) =
     Inr (apply_steer u st prompt key now command ok)"
| "apply_op u st now (EditQueuedPrompt prompt) = edit_queued_prompt u st prompt now"
| "apply_op u st now CancelQueuedPrompt = cancel_queued_prompt u st now"
| "apply_op u st now StartTurn = start_turn u st now"
| "apply_op u st now (CompleteTurn reason has_message) = complete_turn u st now reason has_message"
| "apply_op u st now (InterruptTurn reason) = interrupt_turn u st now reason"
| "apply_op u st now (FailTurn code message tid) = fail_turn u st now code message tid"
| "apply_op u st now (MarkOutcomeUnknown phase message) = mark_outcome_unknown u st now phase message"
| "apply_op u st now (RegisterActivity parent title parent_activity i) =
     Inr (register_activity u st parent now title parent_activity i)"
| "apply_op u st now (CompleteActivity i status summary) =
     complete_activity u st i now status summary"
| "apply_op u st now (FailRunningActivities summary) = fail_running_activities u st now summary"
| "apply_op u st now (RequestInteraction i) = request_interaction u st i now"
| "apply_op u st now (UpdateInteractionDraft i draft) = update_interaction_draft u st i draft now"
| "apply_op u st now (SubmitInteractionAnswer answer automatic) =
     submit_interaction_answer u st answer now automatic"
| "apply_op u st now (CancelInteraction i) = Inr (result_of (cancel_interaction u st i now) None)"
| "apply_op u st now CancelOpenInteractions = Inr (result_of (cancel_open_interactions u st now) None)"
| "apply_op u st now ArchiveConversation = archive_conversation u st now"
| "apply_op u st now UnarchiveConversation = unarchive_conversation u st now"
| "apply_op u st now PinConversation = pin_conversation u st now"
| "apply_op u st now UnpinConversation = unpin_conversation u st now"
| "apply_op u st now (SnoozeConversation until) = snooze_conversation u st now until"
| "apply_op u st now UnsnoozeConversation = unsnooze_conversation u st now"
| "apply_op u st now SoftDeleteConversation = soft_delete_conversation u st now"
| "apply_op u st now (SetRetentionExemption exempt) = set_retention_exemption u st now exempt"
| "apply_op u st now (ChangeMode mode) = change_mode st mode now"
| "apply_op u st now (StartSession native launch) = start_session u st now native launch"
| "apply_op u st now (ResumeSession native launch) = resume_session u st now native launch"
| "apply_op u st now (CloseSession reason) = close_session u st now reason"
| "apply_op u st now (FailSession code message) = fail_session u st now code message"
| "apply_op u st now (ReapSession reason) = reap_session u st now reason"
| "apply_op u st now (RotateSession reason) = rotate_session u st now reason"
| "apply_op u st now MarkRequiresRecreation = mark_requires_recreation st now"
| "apply_op u st now (CommitSwitch b) = commit_switch u st b now"
| "apply_op u st now (FailSwitch message code) = fail_switch u st now message code"
| "apply_op u st now (ApplyNativeTitle title) = Inr (apply_native_title u st title now)"
| "apply_op u st now (RememberNativeIds ids offsets) =
     Inr (result_of (remember_native_ids st ids offsets, []) None)"

text \<open>
  What callers guarantee: identifiers drawn with \<open>uuid4()\<close> are new, a command identifier chosen by
  the caller is new, and a command handed to \<open>apply_steer\<close> is one of the table or has a new key.
\<close>

definition admissible :: "uuid_supply \<Rightarrow> conversation_state \<Rightarrow> conversation_op \<Rightarrow> bool" where
  "admissible u st op \<longleftrightarrow> fresh_supply u st \<and>
     (case op of
        SubmitTurn _ _ _ (Some i) \<Rightarrow> dict_get (st_commands st) i = None
      | ApplySteer _ _ (Some c) _ \<Rightarrow> storable (st_commands st) c
      | _ \<Rightarrow> True)"

section \<open>The machine\<close>

inductive conversation_step ::
  "conversation_state \<Rightarrow> conversation_event list \<Rightarrow> conversation_state \<Rightarrow> bool" where
  conversation_step_op: "admissible u st op \<Longrightarrow> apply_op u st now op = Inr r \<Longrightarrow>
     conversation_step st (tr_events r) (tr_state r)"

inductive_cases conversation_step_elim: "conversation_step st es st'"

definition initial_conversation :: "conversation_state \<Rightarrow> bool" where
  "initial_conversation st \<longleftrightarrow>
     (\<exists>u owner now b caps i. st = new_conversation_state u owner now b caps i)"

text \<open>Every operation is a sound step.\<close>

lemma sound_op:
  assumes wf: "wf_state st" and u: "admissible u st op" and r: "apply_op u st now op = Inr r"
  shows "sound_step st (tr_events r) (tr_state r)"
proof (cases op)
  case (SubmitTurn prompt key model i)
  with u have "fresh_supply u st" "\<And>j. i = Some j \<Longrightarrow> dict_get (st_commands st) j = None"
    by (auto simp: admissible_def)
  with SubmitTurn show ?thesis
    using sound_submit_turn [OF wf] r by auto
next
  case (ApplySteer prompt key c ok)
  with u have "fresh_supply u st" "\<And>j. c = Some j \<Longrightarrow> storable (st_commands st) j"
    by (auto simp: admissible_def)
  with ApplySteer show ?thesis
    using sound_apply_steer [OF wf] r by auto
qed (use r wf in \<open>auto simp: result_of_def intro: sound_edit_queued_prompt sound_cancel_queued_prompt
      sound_start_turn sound_turn_end sound_fail_turn sound_register_activity sound_complete_activity
      sound_fail_running_activities sound_request_interaction sound_update_interaction_draft
      sound_submit_interaction_answer sound_cancel_interaction(1)
      sound_cancel_open_interactions [THEN conjunct1] sound_metadata sound_unarchive
      sound_set_retention_exemption sound_change_mode sound_session sound_mark_requires_recreation
      sound_commit_switch sound_apply_native_title sound_remember_native_ids\<close>)

lemma sound_conversation_step:
  "wf_state st \<Longrightarrow> conversation_step st es st' \<Longrightarrow> sound_step st es st'"
  by (auto elim!: conversation_step_elim intro: sound_op)

lemma wf_initial:
  assumes "initial_conversation st"
  shows "wf_state st"
proof -
  obtain u owner now b caps i where "st = new_conversation_state u owner now b caps i"
    using assms by (auto simp: initial_conversation_def)
  then show ?thesis
    by (simp add: new_conversation_state_def wf_state_def wf_tables_def wf_commands_def wf_turns_def
        wf_interactions_def wf_binding_def status_consistent_def derived_status_def answered_def
        running_activities_def commands.keyed_def interactions.keyed_def answers.keyed_def
        activities.keyed_def)
qed

section \<open>The interfaces\<close>

interpretation conversation: invariant_system initial_conversation conversation_step wf_state
  by unfold_locales (auto intro: wf_initial sound_step_wf sound_conversation_step)

interpretation conversation_log: numbered_log initial_conversation conversation_step wf_state
  ev_sequence "\<lambda>st. conv_next_event_sequence (st_conversation st)"
  by unfold_locales (use sound_conversation_step in \<open>auto simp: sound_step_def numbered_def\<close>)

interpretation conversation_source: event_sourced initial_conversation conversation_step wf_state
  project replay
  by unfold_locales
    (use sound_conversation_step in \<open>auto simp: sound_step_def replay_append\<close>)

interpretation command_permanence: permanence initial_conversation conversation_step wf_state
  "\<lambda>s t. commands_kept (st_commands s) (st_commands t)"
  by unfold_locales
    (use sound_conversation_step in \<open>auto simp: sound_step_def intro: commands_kept_trans\<close>)

interpretation answer_permanence: permanence initial_conversation conversation_step wf_state
  "\<lambda>s t. answers_kept (st_answers s) (st_answers t)"
  by unfold_locales
    (use sound_conversation_step in \<open>auto simp: sound_step_def intro: answers_kept_trans\<close>)

end
