(* ===== verification/Conversation_Scripts.thy ===== *)
theory Conversation_Scripts
  imports Conversation_Machine
begin

text \<open>
  Concrete runs of the conversation machine. A script is a list of operations with the instant and
  the one identifier each draws; \<open>run_script\<close> executes it, and a script that executes is a run of
  \<open>conversation_step\<close>. The scripts below are the concrete inputs of the witnesses.
\<close>

definition admissible_with :: "uuid \<Rightarrow> conversation_state \<Rightarrow> conversation_op \<Rightarrow> bool" where
  "admissible_with k st op \<longleftrightarrow>
     map_option turn_id (st_active_turn st) \<noteq> Some k \<and> dict_get (st_commands st) k = None \<and>
     (case op of
        SubmitTurn _ _ _ (Some i) \<Rightarrow> dict_get (st_commands st) i = None
      | ApplySteer _ _ (Some _) _ \<Rightarrow> False
      | _ \<Rightarrow> True)"

fun run_script ::
  "(uuid \<times> datetime \<times> conversation_op) list \<Rightarrow> conversation_state
     \<Rightarrow> (conversation_event list list \<times> conversation_state) option" where
  "run_script [] st = Some ([], st)"
| "run_script ((k, now, op) # rest) st =
     (if \<not> admissible_with k st op then None
      else case apply_op (\<lambda>_. k) st now op of
        Inl _ \<Rightarrow> None
      | Inr r \<Rightarrow> map_option (\<lambda>(ess, s). (tr_events r # ess, s)) (run_script rest (tr_state r)))"

lemma admissible_with: "admissible_with k st op \<Longrightarrow> admissible (\<lambda>_. k) st op"
  by (auto simp: admissible_with_def admissible_def fresh_supply_def fresh_turn_id_def
      split: conversation_op.splits option.splits)

lemma run_script_sound: "run_script ops st = Some (ess, s) \<Longrightarrow> run conversation_step st ess s"
proof (induction ops st arbitrary: ess s rule: run_script.induct)
  case (1 st)
  then show ?case by simp
next
  case (2 k now op rest st)
  from "2.prems" obtain r ess' where a: "admissible_with k st op"
    and r: "apply_op (\<lambda>_. k) st now op = Inr r"
    and rest: "run_script rest (tr_state r) = Some (ess', s)" and "ess = tr_events r # ess'"
    by (auto split: if_splits sum.splits)
  moreover have "conversation_step st (tr_events r) (tr_state r)"
    using admissible_with [OF a] r by (rule conversation_step_op)
  ultimately show ?case
    using "2.IH" [OF _ r rest] by (auto intro: run_cons)
qed

section \<open>A conversation with two prompts, an approval and an activity\<close>

definition demo_start :: conversation_state where
  "demo_start = new_conversation_state (\<lambda>_. Uuid 1) ''owner'' 100 None None None"

definition demo_approval :: pending_interaction where
  "demo_approval = \<lparr>inter_id = Uuid 20, inter_conversation_id = Uuid 1, inter_turn_id = Uuid 11,
     inter_kind = APPROVAL, inter_status = INT_PENDING,
     inter_request = ApprovalRequest \<lparr>arp_tool_name = Some ''shell'',
       arp_command_args = Some [''ls''], arp_path = None, arp_operation = None,
       arp_summary = Some ''run ls'', arp_action = None,
       arp_available_decisions = [ALLOW_ONCE, DENY]\<rparr>,
     inter_draft = None, inter_created_at = 104\<rparr>"

definition demo_answer :: interaction_answer where
  "demo_answer = \<lparr>ans_interaction_id = Uuid 20, ans_decision = Some ALLOW_ONCE, ans_answers = None,
     ans_is_draft = True, ans_submitted_at = None\<rparr>"

text \<open>The first prompt runs and waits on the approval; the second is queued behind it.\<close>

definition demo_opening :: "(uuid \<times> datetime \<times> conversation_op) list" where
  "demo_opening = [(Uuid 11, 101, SubmitTurn ''build it'' ''k1'' None None),
     (Uuid 12, 102, StartTurn),
     (Uuid 13, 103, SubmitTurn ''then test'' ''k2'' None None),
     (Uuid 14, 104, RequestInteraction demo_approval)]"

text \<open>The approval is answered, the turn leaves an activity behind and completes.\<close>

definition demo_closing :: "(uuid \<times> datetime \<times> conversation_op) list" where
  "demo_closing = [(Uuid 15, 105, SubmitInteractionAnswer demo_answer False),
     (Uuid 16, 106, RegisterActivity (Uuid 11) (Some ''watch'') None None),
     (Uuid 17, 107, CompleteTurn (Some ''done'') True)]"

definition script_state ::
  "(uuid \<times> datetime \<times> conversation_op) list \<Rightarrow> conversation_state \<Rightarrow> conversation_state" where
  "script_state ops st = snd (the (run_script ops st))"

definition script_log ::
  "(uuid \<times> datetime \<times> conversation_op) list \<Rightarrow> conversation_state \<Rightarrow> conversation_event list list" where
  "script_log ops st = fst (the (run_script ops st))"

lemma script_run:
  "run_script ops st \<noteq> None \<Longrightarrow> run conversation_step st (script_log ops st) (script_state ops st)"
  by (auto simp: script_log_def script_state_def intro: run_script_sound)

definition demo_waiting :: conversation_state where
  "demo_waiting = script_state demo_opening demo_start"

definition demo_final :: conversation_state where
  "demo_final = script_state demo_closing demo_waiting"

lemma demo_start_initial: "initial_conversation demo_start"
  unfolding initial_conversation_def demo_start_def by blast

lemma demo_opening_run: "run conversation_step demo_start (script_log demo_opening demo_start) demo_waiting"
  unfolding demo_waiting_def by (rule script_run) code_simp

lemma demo_closing_run: "run conversation_step demo_waiting (script_log demo_closing demo_waiting) demo_final"
  unfolding demo_final_def by (rule script_run) code_simp

lemma demo_run:
  "run conversation_step demo_start
     (script_log demo_opening demo_start @ script_log demo_closing demo_waiting) demo_final"
  by (rule run_append [OF demo_opening_run demo_closing_run])

section \<open>A conversation bound to a harness\<close>

definition demo_binding :: binding where
  "demo_binding = \<lparr>bind_id = Uuid 2, bind_conversation_id = Uuid 1, bind_kind = CODEX,
     bind_configuration = \<lparr>cfg_kind = CODEX, cfg_model = Some ''m'', cfg_mode = None,
       cfg_effort = None, cfg_yolo = False, cfg_sandbox_policy = None,
       cfg_working_directory = ''/work'', cfg_workspace_roots = [''/work''], cfg_mcp_servers = []\<rparr>,
     bind_harness_instance_id = None, bind_native_session_id = Some ''native'',
     bind_launch_snapshot = None, bind_requires_session_recreation = False, bind_is_active = True,
     bind_created_at = 100, bind_closed_at = None\<rparr>"

definition demo_bound :: conversation_state where
  "demo_bound = new_conversation_state (\<lambda>_. Uuid 1) ''owner'' 100 (Some demo_binding) None None"

lemma demo_bound_initial: "initial_conversation demo_bound"
  unfolding initial_conversation_def demo_bound_def by blast

end
