(* ===== verification/Conversation_Properties.thy ===== *)
theory Conversation_Properties
  imports Conversation_Scripts
begin

text \<open>
  Properties of the conversation aggregate over every run from a new conversation: the numbering and
  the replay of its event log, the invariant, idempotent submission, final answers, the end of a
  turn, and what may be reaped or deleted.
\<close>

section \<open>The event log\<close>

lemma run_envelopes:
  "run conversation_step st ess s \<Longrightarrow> wf_state st \<Longrightarrow>
     \<forall>e \<in> set (concat ess). valid_envelope e \<and> ev_conversation_id e = conv_id (st_conversation st)"
proof (induction rule: run.induct)
  case (run_nil s)
  then show ?case by simp
next
  case (run_cons s es t ess w)
  have "sound_step s es t"
    using sound_conversation_step run_cons.prems run_cons.hyps(1) by blast
  with run_cons.IH show ?case
    by (auto simp: sound_step_def numbered_def)
qed

lemma initial_sequence:
  "initial_conversation st \<Longrightarrow> conv_next_event_sequence (st_conversation st) = 1"
  by (auto simp: initial_conversation_def new_conversation_state_def)

text \<open>C3: the events a conversation emits, whatever the run, are numbered 1, 2, 3, ... without a gap
  or a repetition, each one is a valid envelope (positive number, type of its payload) and belongs to
  the conversation.\<close>

theorem event_log_contiguous:
  assumes "initial_conversation st" and "run conversation_step st ess s"
  shows "map ev_sequence (concat ess) = [1..conv_next_event_sequence (st_conversation s) - 1]
    \<and> (\<forall>e \<in> set (concat ess). valid_envelope e \<and> ev_conversation_id e = conv_id (st_conversation st))"
  using conversation_log.run_numbers [OF assms(2) wf_initial [OF assms(1)]]
    run_envelopes [OF assms(2) wf_initial [OF assms(1)]] initial_sequence [OF assms(1)] by simp

theorem event_log_contiguous_witness:
  "map ev_sequence (concat (script_log demo_opening demo_start)) = [1, 2, 3, 4, 5]"
proof -
  have "conv_next_event_sequence (st_conversation demo_waiting) = 6" by code_simp
  with event_log_contiguous [OF demo_start_initial demo_opening_run] show ?thesis
    by (simp add: upto_rec1)
qed

section \<open>The invariant\<close>

text \<open>C2: every reachable conversation is well formed. Its tables are keyed by their entities'
  identifiers, its commands have distinct idempotency keys and payloads of their kind, it names its
  active turn and its current binding, the active turn is running or waiting and waits exactly while
  one of its interactions is open, an interaction is answered exactly when it is closed, a queued
  turn has its text, and the status and the reap flag are those of the turns and the activities.\<close>

theorem conversation_well_formed:
  assumes "initial_conversation st" and "run conversation_step st ess s"
  shows "wf_state s"
  by (rule conversation.inv_reachable [OF assms])

theorem conversation_well_formed_witness:
  "wf_state demo_final \<and> st_active_turn demo_final = None"
proof -
  have "st_active_turn demo_final = None" by code_simp
  with conversation_well_formed [OF demo_start_initial demo_run] show ?thesis by simp
qed

section \<open>Replaying the log\<close>

lemma initial_project:
  "initial_conversation st \<Longrightarrow> project st = \<lparr>lc_queued = None, lc_active = None, lc_open = {}\<rparr>"
  by (auto simp: initial_conversation_def new_conversation_state_def project_def open_ids_def)

text \<open>C1: the log alone determines the turn lifecycle. Reading the events of a run with the abstract
  machine never gets stuck (a turn starts only from the queue and alone, interactions open and close
  within the active turn, a turn ends only when nothing is open) and yields exactly the queued
  prompt, the active turn and the open interactions of the aggregate.\<close>

theorem event_log_determines_lifecycle:
  assumes "initial_conversation st" and "run conversation_step st ess s"
  shows "replay \<lparr>lc_queued = None, lc_active = None, lc_open = {}\<rparr> (concat ess) = Some (project s)"
  using conversation_source.replay_run [OF assms(2) wf_initial [OF assms(1)]]
    initial_project [OF assms(1)] by simp

theorem event_log_determines_lifecycle_witness:
  "replay \<lparr>lc_queued = None, lc_active = None, lc_open = {}\<rparr> (concat (script_log demo_opening demo_start))
     = Some \<lparr>lc_queued = Some (Uuid 13, ''then test''), lc_active = Some (Uuid 11), lc_open = {Uuid 20}\<rparr>"
proof -
  have "project demo_waiting
      = \<lparr>lc_queued = Some (Uuid 13, ''then test''), lc_active = Some (Uuid 11), lc_open = {Uuid 20}\<rparr>"
    by code_simp
  with event_log_determines_lifecycle [OF demo_start_initial demo_opening_run] show ?thesis
    by simp
qed

section \<open>Idempotent submission\<close>

lemma find_command_known:
  assumes "wf_state st" and "dict_get (st_commands st) k = Some c" and "cmd_idempotency_key c = key"
  shows "find_command_by_idempotency st key = Some c"
proof -
  have "wf_commands (st_commands st)" and d: "distinct (dict_keys (st_commands st))"
    using assms(1) by (simp_all add: wf_state_def wf_tables_def)
  then have unique: "j = k" if "dict_get (st_commands st) j = Some c'" "cmd_idempotency_key c' = key" for j c'
    using assms(2,3) that unfolding wf_commands_def by metis
  have "find_command_by_idempotency st key \<noteq> None"
    using assms(2,3) dict_get_in_values [OF assms(2)]
    by (auto simp: find_command_by_idempotency_def find_None_iff_all)
  then obtain c' where c': "find_command_by_idempotency st key = Some c'" by blast
  then have "c' \<in> set (dict_values (st_commands st))" "cmd_idempotency_key c' = key"
    using find_SomeD [of _ _ c'] unfolding find_command_by_idempotency_def by blast+
  with unique assms(2) dict_values_get [OF d] c' show ?thesis
    by (metis option.inject)
qed

lemma queue_prompt_records:
  assumes "r = queue_prompt u st prompt c now"
  obtains c' where "tr_command r = Some c'" and "cmd_id c' = cmd_id c"
    and "cmd_idempotency_key c' = cmd_idempotency_key c"
    and "dict_get (st_commands (tr_state r)) (cmd_id c) = Some c'"
  using assms that
  by (cases "st_queued_turn st")
    (auto simp: queue_prompt_def case_prod_unfold Let_def dict_get_put split: option.splits if_splits)

lemma steer_with_command_cases:
  fixes u st prompt now c ok
  defines "r \<equiv> steer_with_command u st prompt now c ok"
    and "steered \<equiv> (\<lambda>t. c\<lparr>cmd_kind := STEER, cmd_target_turn_id := Some (turn_id t),
                            cmd_payload := SteerPayload prompt\<rparr>)"
  shows "r = queue_prompt u st prompt c now
    \<or> r = queue_prompt u st prompt
        (c\<lparr>cmd_kind := SUBMIT_TURN, cmd_payload := SubmitTurnPayload prompt None\<rparr>) now
    \<or> (\<exists>t. st_active_turn st = Some t \<and> r = result_of
        (append_events u (with_commands st (dict_put (st_commands st) (cmd_id c) (steered t))) now
          [TurnEvent (TurnSteering (turn_id t) (cmd_id c) prompt)]) (Some (steered t)))"
  by (cases "st_active_turn st") (simp_all add: r_def steered_def steer_with_command_def Let_def)

lemma steer_with_command_records:
  assumes "r = steer_with_command u st prompt now c ok"
  obtains c' where "tr_command r = Some c'" and "cmd_id c' = cmd_id c"
    and "cmd_idempotency_key c' = cmd_idempotency_key c"
    and "dict_get (st_commands (tr_state r)) (cmd_id c) = Some c'"
  using steer_with_command_cases [of u st prompt now c ok] unfolding assms [symmetric]
proof (elim disjE exE conjE)
  fix t
  assume "r = result_of (append_events u (with_commands st (dict_put (st_commands st) (cmd_id c)
      (c\<lparr>cmd_kind := STEER, cmd_target_turn_id := Some (turn_id t), cmd_payload := SteerPayload prompt\<rparr>)))
      now [TurnEvent (TurnSteering (turn_id t) (cmd_id c) prompt)])
    (Some (c\<lparr>cmd_kind := STEER, cmd_target_turn_id := Some (turn_id t), cmd_payload := SteerPayload prompt\<rparr>))"
  with that show thesis
    by (simp add: result_of_def with_commands_def dict_get_put)
qed (erule queue_prompt_records, use that in simp)+

lemma submit_turn_records:
  assumes wf: "wf_state st" and r: "r = submit_turn u st prompt key now model command_id"
  obtains c where "tr_command r = Some c" and "cmd_idempotency_key c = key"
    and "dict_get (st_commands (tr_state r)) (cmd_id c) = Some c"
proof (cases "find_command_by_idempotency st key")
  case (Some c)
  then have "c \<in> set (dict_values (st_commands st))" and "cmd_idempotency_key c = key"
    using find_SomeD unfolding find_command_by_idempotency_def by fast+
  moreover have "commands.keyed (st_commands st)" and d: "distinct (dict_keys (st_commands st))"
    using wf by (simp_all add: wf_state_def wf_tables_def)
  ultimately have "dict_get (st_commands st) (cmd_id c) = Some c"
    using dict_values_get [OF d] unfolding commands.keyed_def by metis
  with Some r that \<open>cmd_idempotency_key c = key\<close> show thesis
    by (simp add: submit_turn_def result_of_def)
next
  case None
  show thesis
    using submit_turn_cases [OF None, where u = u and command_id = command_id and prompt = prompt
        and model = model and now = now] unfolding r [symmetric]
    by (elim disjE; elim queue_prompt_records steer_with_command_records)
      (auto simp: accepted_command_def intro!: that)
qed

text \<open>C5: submitting is idempotent for the life of the conversation. After a prompt was submitted,
  submitting again under its idempotency key, in any later state and with any other prompt, changes
  nothing, emits nothing and returns the command of the first submission.\<close>

theorem submit_turn_idempotent:
  assumes "initial_conversation st0" and "run conversation_step st0 ess0 st"
    and "admissible u st (SubmitTurn prompt key model command_id)"
    and "r = submit_turn u st prompt key now model command_id"
    and "run conversation_step (tr_state r) ess s"
  shows "\<exists>c first. submit_turn u' s prompt' key now' model' command_id'
      = \<lparr>tr_state = s, tr_events = [], tr_command = Some c\<rparr>
    \<and> tr_command r = Some first \<and> cmd_id c = cmd_id first \<and> cmd_idempotency_key c = key"
proof -
  have wf: "wf_state st"
    by (rule conversation.inv_reachable [OF assms(1,2)])
  then have wfr: "wf_state (tr_state r)"
    using assms(3,4) sound_op [OF wf assms(3)] by (simp add: sound_step_def)
  then have wfs: "wf_state s"
    using conversation.inv_run [OF assms(5)] by simp
  obtain first where first: "tr_command r = Some first" "cmd_idempotency_key first = key"
    "dict_get (st_commands (tr_state r)) (cmd_id first) = Some first"
    using submit_turn_records [OF wf assms(4)] by blast
  then obtain c where c: "dict_get (st_commands s) (cmd_id first) = Some c" "cmd_idempotency_key c = key"
    using command_permanence.kept_run [OF assms(5) wfr] unfolding commands_kept_def by metis
  moreover have "cmd_id c = cmd_id first"
    using wfs c(1) by (auto simp: wf_state_def wf_tables_def commands.keyed_def)
  ultimately show ?thesis
    using first find_command_known [OF wfs c(1)] by (simp add: submit_turn_def result_of_def)
qed

definition demo_submitted :: transition_result where
  "demo_submitted = submit_turn (\<lambda>_. Uuid 11) demo_start ''build it'' ''k1'' 101 None None"

definition demo_later :: conversation_state where
  "demo_later = script_state (tl demo_opening @ demo_closing) (tr_state demo_submitted)"

theorem submit_turn_idempotent_witness:
  "\<exists>c. submit_turn (\<lambda>_. Uuid 99) demo_later ''something else'' ''k1'' 200 None None
     = \<lparr>tr_state = demo_later, tr_events = [], tr_command = Some c\<rparr> \<and> cmd_id c = Uuid 11"
proof -
  have "admissible_with (Uuid 11) demo_start (SubmitTurn ''build it'' ''k1'' None None)" by code_simp
  note adm = admissible_with [OF this]
  have "run conversation_step (tr_state demo_submitted)
      (script_log (tl demo_opening @ demo_closing) (tr_state demo_submitted)) demo_later"
    unfolding demo_later_def by (rule script_run) code_simp
  note submit_turn_idempotent [OF demo_start_initial run_nil adm demo_submitted_def this,
      of "\<lambda>_. Uuid 99" "''something else''" 200 None None]
  moreover have "map_option cmd_id (tr_command demo_submitted) = Some (Uuid 11)" by code_simp
  ultimately show ?thesis by auto
qed

section \<open>Answers\<close>

text \<open>C6: the first submitted answer wins for good. Once an interaction has a submitted answer, no
  run changes it, and submitting any other answer returns without an event and without a change.\<close>

theorem first_answer_wins:
  assumes "initial_conversation st0" and "run conversation_step st0 ess0 st"
    and "answered st k" and "run conversation_step st ess s"
  shows "dict_get (st_answers s) k = dict_get (st_answers st) k
    \<and> submit_interaction_answer u s (answer\<lparr>ans_interaction_id := k\<rparr>) now automatic
        = Inr \<lparr>tr_state = s, tr_events = [], tr_command = None\<rparr>"
proof -
  have wf: "wf_state st"
    by (rule conversation.inv_reachable [OF assms(1,2)])
  then have wfs: "wf_state s"
    using conversation.inv_run [OF assms(4)] by simp
  obtain a where a: "dict_get (st_answers st) k = Some a" "\<not> ans_is_draft a"
    using assms(3) by (auto simp: answered_def split: option.splits)
  then have "dict_get (st_answers s) k = Some a"
    using answer_permanence.kept_run [OF assms(4) wf] by (auto simp: answers_kept_def)
  moreover from this a have "answered s k"
    by (simp add: answered_def)
  moreover from this obtain x where "dict_get (st_interactions s) k = Some x"
    using wfs unfolding wf_state_def wf_interactions_def by blast
  ultimately show ?thesis
    using a by (simp add: submit_interaction_answer_def result_of_def)
qed

definition demo_answered :: conversation_state where
  "demo_answered = script_state (take 1 demo_closing) demo_waiting"

theorem first_answer_wins_witness:
  "submit_interaction_answer (\<lambda>_. Uuid 80) demo_final (demo_answer\<lparr>ans_decision := Some DENY\<rparr>) 150 True
     = Inr \<lparr>tr_state = demo_final, tr_events = [], tr_command = None\<rparr>"
proof -
  have "run conversation_step demo_waiting (script_log (take 1 demo_closing) demo_waiting) demo_answered"
    unfolding demo_answered_def by (rule script_run) code_simp
  note first = run_append [OF demo_opening_run this]
  have "run conversation_step demo_answered
      (script_log (drop 1 demo_closing) demo_answered) (script_state (drop 1 demo_closing) demo_answered)"
    by (rule script_run) code_simp
  moreover have "script_state (drop 1 demo_closing) demo_answered = demo_final" by code_simp
  moreover have "answered demo_answered (Uuid 20)" by code_simp
  ultimately show ?thesis
    using first_answer_wins [OF demo_start_initial first, of "Uuid 20" _ demo_final "\<lambda>_. Uuid 80"
        "demo_answer\<lparr>ans_decision := Some DENY\<rparr>" 150 True]
    by (simp add: demo_answer_def)
qed

section \<open>The end of a turn\<close>

text \<open>How an operation ends the active turn \<open>t\<close>: its terminal event and the status its command gets.\<close>

definition terminal_op :: "turn \<Rightarrow> conversation_op \<Rightarrow> (turn_payload \<times> command_status) option" where
  "terminal_op t op = (case op of
     CompleteTurn reason has_message \<Rightarrow> Some (TurnCompleted (turn_id t) reason has_message, CMD_SETTLED)
   | InterruptTurn reason \<Rightarrow> Some (TurnInterrupted (turn_id t) reason, CMD_SETTLED)
   | FailTurn code message tid \<Rightarrow>
       (if tid = None \<or> tid = Some (turn_id t) then Some (TurnFailed (turn_id t) code message, CMD_SETTLED)
        else None)
   | MarkOutcomeUnknown phase message \<Rightarrow>
       Some (TurnOutcomeUnknown (turn_id t) (turn_command_id t) phase message, CMD_OUTCOME_UNKNOWN)
   | _ \<Rightarrow> None)"

lemma terminal_op_result:
  assumes wf: "wf_state st" and t: "st_active_turn st = Some t" and op: "terminal_op t op = Some (p, status)"
  obtains f terminal where "apply_op u st now op = Inr (end_active_turn u st now f terminal)"
    and "\<And>t'. turn_id t' = turn_id t \<Longrightarrow> turn_command_id t' = turn_command_id t \<Longrightarrow> terminal t' = terminal t"
    and "terminal t = p" and "\<And>c. cmd_status (f c) = status"
proof -
  have active: "turn_status t \<in> {TURN_RUNNING, TURN_WAITING}"
    and queued: "\<And>q. st_queued_turn st = Some q \<Longrightarrow> turn_id q \<noteq> turn_id t"
    using wf t by (auto simp: wf_state_def wf_turns_def)
  show thesis
  proof (cases op)
    case (CompleteTurn reason has_message)
    with t active op show thesis
      by (intro that [of "settle_command now" "\<lambda>t. TurnCompleted (turn_id t) reason has_message"])
        (auto simp: terminal_op_def complete_turn_def settle_command_def)
  next
    case (InterruptTurn reason)
    with t active op show thesis
      by (intro that [of "settle_command now" "\<lambda>t. TurnInterrupted (turn_id t) reason"])
        (auto simp: terminal_op_def interrupt_turn_def settle_command_def)
  next
    case (FailTurn code message tid)
    with op have tid: "tid = None \<or> tid = Some (turn_id t)"
      by (auto simp: terminal_op_def split: if_splits)
    then have "fail_turn u st now code message tid = Inr (end_active_turn u st now (settle_command now)
        (\<lambda>t. TurnFailed (turn_id t) code message))"
      using t queued by (auto simp: fail_turn_def split: option.split)
    with FailTurn tid op show thesis
      by (intro that [of "settle_command now" "\<lambda>t. TurnFailed (turn_id t) code message"])
        (auto simp: terminal_op_def settle_command_def)
  next
    case (MarkOutcomeUnknown phase message)
    with t op show thesis
      by (intro that [of "\<lambda>cmd. cmd\<lparr>cmd_status := CMD_OUTCOME_UNKNOWN\<rparr>"
          "\<lambda>t. TurnOutcomeUnknown (turn_id t) (turn_command_id t) phase message"])
        (auto simp: terminal_op_def mark_outcome_unknown_def)
  qed (use op in \<open>simp_all add: terminal_op_def\<close>)
qed

text \<open>C4: ending the active turn of a reachable conversation (completing, interrupting, failing it or
  losing its outcome) always succeeds. It first cancels every open interaction, oldest first and ties
  by identifier, then emits the one terminal event; afterwards no turn is active, nothing is open,
  the queued prompt is untouched and the turn's command has its final status.\<close>

theorem turn_end_closes_interactions:
  assumes "initial_conversation st0" and "run conversation_step st0 ess st"
    and "st_active_turn st = Some t" and "terminal_op t op = Some (p, status)"
  shows "\<exists>r. apply_op u st now op = Inr r
    \<and> map ev_payload (tr_events r) = map cancel_payload (open_in_order st) @ [TurnEvent p]
    \<and> st_active_turn (tr_state r) = None \<and> open_interactions (tr_state r) = []
    \<and> st_queued_turn (tr_state r) = st_queued_turn st
    \<and> (\<forall>i c. turn_command_id t = Some i \<longrightarrow> dict_get (st_commands st) i = Some c \<longrightarrow>
         map_option cmd_status (dict_get (st_commands (tr_state r)) i) = Some status)"
proof -
  have wf: "wf_state st"
    by (rule conversation.inv_reachable [OF assms(1,2)])
  obtain f terminal where r: "apply_op u st now op = Inr (end_active_turn u st now f terminal)"
    and terminal: "\<And>t'. turn_id t' = turn_id t \<Longrightarrow> turn_command_id t' = turn_command_id t \<Longrightarrow>
      terminal t' = terminal t"
    and p: "terminal t = p" "\<And>c. cmd_status (f c) = status"
    using terminal_op_result [OF wf assms(3,4)] by metis
  note effect = end_active_turn_effect [of st t terminal u now f, OF wf assms(3) terminal]
  show ?thesis
    using r p effect update_turn_command_get [OF wf, of t]
    by (intro exI [of _ "end_active_turn u st now f terminal"])
      (simp add: open_interactions_empty)
qed

theorem turn_end_closes_interactions_witness:
  "\<exists>r. apply_op (\<lambda>_. Uuid 50) demo_waiting 110 (InterruptTurn (Some ''stop'')) = Inr r
    \<and> map ev_payload (tr_events r)
      = [NoticeEvent (InteractionResolved (Uuid 20) (Uuid 11) (Some CANCEL) None False),
         TurnEvent (TurnInterrupted (Uuid 11) (Some ''stop''))]
    \<and> st_active_turn (tr_state r) = None"
proof -
  obtain t where t: "st_active_turn demo_waiting = Some t" "turn_id t = Uuid 11"
  proof -
    have "map_option turn_id (st_active_turn demo_waiting) = Some (Uuid 11)" by code_simp
    with that show thesis by (cases "st_active_turn demo_waiting") auto
  qed
  have "map cancel_payload (open_in_order demo_waiting)
      = [NoticeEvent (InteractionResolved (Uuid 20) (Uuid 11) (Some CANCEL) None False)]"
    by code_simp
  moreover have "terminal_op t (InterruptTurn (Some ''stop''))
      = Some (TurnInterrupted (Uuid 11) (Some ''stop''), CMD_SETTLED)"
    using t by (simp add: terminal_op_def)
  ultimately show ?thesis
    using turn_end_closes_interactions [OF demo_start_initial demo_opening_run t(1),
        of _ _ _ "\<lambda>_. Uuid 50" 110] by fastforce
qed

section \<open>Reaping and deleting\<close>

lemma no_work_iff:
  assumes "wf_state st"
  shows "metadata_busy st \<longleftrightarrow>
    st_active_turn st \<noteq> None \<or> st_queued_turn st \<noteq> None \<or> running_activities st \<noteq> []"
  using assms by (auto simp: metadata_busy_def wf_state_def wf_turns_def split: option.splits)

text \<open>C27: closing an idle runtime loses nothing. When \<open>runtime_idle\<close> holds of a reachable
  conversation that is not archived there is no active turn, no queued prompt, no running activity,
  no open interaction and no switch in flight; reaping it keeps the binding, with its native session
  to resume, and the turns.\<close>

theorem idle_reap_loses_nothing:
  assumes "initial_conversation st0" and "run conversation_step st0 ess st"
    and "runtime_idle st" and "conv_status (st_conversation st) \<noteq> CONV_ARCHIVED"
    and "reap_session u st now reason = Inr r"
  shows "st_active_turn st = None \<and> st_queued_turn st = None \<and> running_activities st = []
    \<and> open_interactions st = [] \<and> \<not> switch_in_flight st
    \<and> st_binding (tr_state r) = st_binding st \<and> st_queued_turn (tr_state r) = None"
proof -
  have wf: "wf_state st"
    by (rule conversation.inv_reachable [OF assms(1,2)])
  then have idle: "st_active_turn st = None \<and> st_queued_turn st = None \<and> running_activities st = []"
    using assms(3,4) status_consistent_reap by (auto simp: runtime_idle_def wf_state_def)
  moreover have "open_interactions st = []"
  proof -
    have "distinct (dict_keys (st_interactions st))"
      using wf by (simp add: wf_state_def wf_tables_def)
    then show ?thesis
      using wf idle open_ids_iff [of "st_interactions st"]
      by (auto simp: open_interactions_empty wf_state_def wf_interactions_def)
  qed
  ultimately show ?thesis
    using assms(3,5)
    by (auto simp: runtime_idle_def reap_session_def result_simps emit_event_def result_of_def
        split: if_splits)
qed

theorem idle_reap_loses_nothing_witness:
  "\<exists>r. reap_session (\<lambda>_. Uuid 60) demo_bound 120 (Some ''idle'') = Inr r
    \<and> st_binding (tr_state r) = st_binding demo_bound \<and> open_interactions demo_bound = []"
proof -
  have "runtime_idle demo_bound" "conv_status (st_conversation demo_bound) \<noteq> CONV_ARCHIVED"
    by code_simp+
  moreover obtain r where "reap_session (\<lambda>_. Uuid 60) demo_bound 120 (Some ''idle'') = Inr r"
    by (simp add: reap_session_def demo_bound_def new_conversation_state_def demo_binding_def)
  ultimately show ?thesis
    using idle_reap_loses_nothing [OF demo_bound_initial run_nil] by blast
qed

text \<open>
  The archived case is the exception of the property above. The status of an archived conversation is
  not recomputed, so a prompt submitted to it leaves the reap flag up: the queued prompt is there and
  the runtime counts as idle.
\<close>

definition demo_archived :: conversation_state where
  "demo_archived = script_state [(Uuid 70, 130, ArchiveConversation),
     (Uuid 71, 131, SubmitTurn ''late prompt'' ''k9'' None None)] demo_bound"

theorem archived_prompt_leaves_runtime_idle:
  "\<exists>st ess. initial_conversation st \<and> run conversation_step st ess demo_archived
    \<and> st_queued_turn demo_archived \<noteq> None \<and> runtime_idle demo_archived"
proof -
  have "run conversation_step demo_bound
      (script_log [(Uuid 70, 130, ArchiveConversation),
        (Uuid 71, 131, SubmitTurn ''late prompt'' ''k9'' None None)] demo_bound) demo_archived"
    unfolding demo_archived_def by (rule script_run) code_simp
  moreover have "st_queued_turn demo_archived \<noteq> None" "runtime_idle demo_archived"
    by code_simp+
  ultimately show ?thesis
    using demo_bound_initial by blast
qed

text \<open>a reachable conversation can be deleted exactly when it is not deleted yet and has nothing
  to lose: no active turn, no queued prompt, no running activity, no switch in flight.\<close>

theorem delete_only_without_work:
  assumes "initial_conversation st0" and "run conversation_step st0 ess st"
  shows "(\<exists>r. soft_delete_conversation u st now = Inr r) \<longleftrightarrow>
    conv_deleted_at (st_conversation st) = None \<and> st_active_turn st = None \<and> st_queued_turn st = None
    \<and> running_activities st = [] \<and> \<not> switch_in_flight st"
  using no_work_iff [OF conversation.inv_reachable [OF assms]]
  by (auto simp: soft_delete_conversation_def result_simps)

theorem delete_only_without_work_witness:
  "\<not> (\<exists>r. soft_delete_conversation (\<lambda>_. Uuid 80) demo_waiting 150 = Inr r)"
proof -
  have "st_active_turn demo_waiting \<noteq> None" by code_simp
  then show ?thesis
    by (simp only: delete_only_without_work [OF demo_start_initial demo_opening_run]) simp
qed

end
