(* ===== verification/Prompt_Coalescing.thy ===== *)
theory Prompt_Coalescing
  imports Conversation_Scripts
begin

text \<open>
  Prompts submitted while a conversation cannot take them at once are merged into the one queued
  turn (\<open>submit_turn\<close> and \<open>_queue_prompt\<close> of \<open>src/talktoharnesses/domain/transitions.py\<close>): the queue
  is a single slot, so no prompt is lost and none runs twice.
\<close>

text \<open>The conversation does not steer: it has no active turn, or its harness cannot steer.\<close>

definition queues_prompts :: "conversation_state \<Rightarrow> bool" where
  "queues_prompts st \<longleftrightarrow> st_active_turn st = None \<or> \<not> supports_steer st"

lemma submit_turn_queues:
  fixes st key now p k
  assumes "queues_prompts st" and "find_command_by_idempotency st key = None"
  defines "c \<equiv> accepted_command k (conv_id (st_conversation st)) (SubmitTurnPayload p None) key None now"
  shows "submit_turn (\<lambda>_. k) st p key now None None
     = queue_prompt (\<lambda>_. k) (with_commands st (dict_put (st_commands st) k c)) p c now"
proof -
  have "drop_supply 1 (\<lambda>_. k) = (\<lambda>_. k)"
    by (simp add: drop_supply_def)
  moreover have "cmd_id c = k"
    by (simp add: c_def accepted_command_def)
  ultimately show ?thesis
    using assms(1,2)
    by (auto simp: submit_turn_def queues_prompts_def c_def Let_def with_commands_def supports_steer_def
        turn_running_or_waiting_def)
qed

text \<open>The slot: a queued turn \<open>q\<close> executed by command \<open>i\<close>, with the merged text.\<close>

definition queue_slot :: "conversation_state \<Rightarrow> turn \<Rightarrow> uuid \<Rightarrow> string \<Rightarrow> bool" where
  "queue_slot st q i body \<longleftrightarrow> st_queued_turn st = Some q \<and> turn_command_id q = Some i \<and>
     st_queued_user_text st = Some body"

lemma submit_to_empty_queue:
  fixes st key now p k
  assumes "queues_prompts st" and "find_command_by_idempotency st key = None"
    and "st_queued_turn st = None"
  defines "s \<equiv> tr_state (submit_turn (\<lambda>_. k) st p key now None None)"
  shows "\<exists>q. queue_slot s q k p" and "queues_prompts s"
    and "map_option cmd_status (dict_get (st_commands s) k) = Some CMD_ACCEPTED"
    and "\<And>j. j \<noteq> k \<Longrightarrow> dict_get (st_commands s) j = dict_get (st_commands st) j"
  unfolding s_def submit_turn_queues [OF assms(1,2)]
  by (use assms(1,3) in \<open>auto simp: queue_prompt_def case_prod_unfold Let_def with_commands_def
        queue_slot_def queues_prompts_def supports_steer_def accepted_command_def dict_get_put\<close>)

lemma submit_to_full_queue:
  fixes st key now p k
  assumes "queues_prompts st" and "find_command_by_idempotency st key = None"
    and "queue_slot st q i body" and "body \<noteq> []" and "k \<noteq> i"
  defines "s \<equiv> tr_state (submit_turn (\<lambda>_. k) st p key now None None)"
  shows "queue_slot s q i (body @ [CHR 0x0A] @ p)" and "queues_prompts s"
    and "map_option (\<lambda>c. (cmd_status c, cmd_coalesced_into_command_id c, cmd_target_turn_id c))
           (dict_get (st_commands s) k) = Some (CMD_COALESCED, Some i, Some (turn_id q))"
    and "\<And>j. j \<noteq> k \<Longrightarrow> dict_get (st_commands s) j = dict_get (st_commands st) j"
  unfolding s_def submit_turn_queues [OF assms(1,2)]
  by (use assms(1,3-5) in \<open>auto simp: queue_prompt_def case_prod_unfold Let_def with_commands_def
        queue_slot_def queues_prompts_def supports_steer_def accepted_command_def dict_get_put\<close>)

section \<open>A burst of prompts\<close>

text \<open>A submission is its command identifier, its idempotency key and its prompt.\<close>

definition submissions ::
  "datetime \<Rightarrow> (uuid \<times> string \<times> string) list \<Rightarrow> (uuid \<times> datetime \<times> conversation_op) list" where
  "submissions now subs = map (\<lambda>(k, key, p). (k, now, SubmitTurn p key None None)) subs"

definition coalesced_into :: "conversation_state \<Rightarrow> uuid \<Rightarrow> uuid \<Rightarrow> bool" where
  "coalesced_into st k i \<longleftrightarrow>
     (case dict_get (st_commands st) k of
        None \<Rightarrow> False
      | Some c \<Rightarrow> cmd_status c = CMD_COALESCED \<and> cmd_coalesced_into_command_id c = Some i
          \<and> cmd_target_turn_id c = map_option turn_id (st_queued_turn st))"

lemma find_command_other_key:
  assumes "find_command_by_idempotency st key' = None" and "key \<noteq> key'"
    and "find_command_by_idempotency st key = None" and "queues_prompts st"
  shows "find_command_by_idempotency (tr_state (submit_turn (\<lambda>_. k) st p key now None None)) key' = None"
proof -
  have other: "cmd_idempotency_key c \<noteq> key'"
    if "(j, c) \<in> set (dict_put (st_commands st) k b)" "cmd_idempotency_key b = key" for b c j
  proof -
    have "c \<in> set (dict_values (dict_put (st_commands st) k b))"
      using that(1) by force
    then have "c = b \<or> c \<in> set (dict_values (st_commands st))"
      using dict_values_put_subset by fast
    then show ?thesis
      using that(2) assms(1,2) unfolding find_command_by_idempotency_def find_None_iff_all by blast
  qed
  show ?thesis
    unfolding submit_turn_queues [OF assms(4,3)]
    by (cases "st_queued_turn st")
      (auto simp: find_command_by_idempotency_def find_None_iff_all queue_prompt_def case_prod_unfold
        Let_def with_commands_def accepted_command_def dest: other)
qed

lemma burst_into_full_queue:
  assumes "run_script (submissions now subs) st = Some (ess, s)"
    and "queues_prompts st" and "queue_slot st q i body" and "body \<noteq> []"
    and "dict_get (st_commands st) i \<noteq> None"
    and "distinct (map (\<lambda>(k, key, p). key) subs)"
    and "\<And>k key p. (k, key, p) \<in> set subs \<Longrightarrow> find_command_by_idempotency st key = None"
  shows "queue_slot s q i (body @ concat (map (\<lambda>(k, key, p). CHR 0x0A # p) subs))
    \<and> (\<forall>(k, key, p) \<in> set subs. coalesced_into s k i)
    \<and> (\<forall>j. dict_get (st_commands st) j \<noteq> None \<longrightarrow> dict_get (st_commands s) j = dict_get (st_commands st) j)"
  using assms
proof (induction subs arbitrary: st body ess)
  case Nil
  then show ?case by (simp add: submissions_def)
next
  case (Cons sub subs)
  obtain k key p where sub: "sub = (k, key, p)" by (cases sub)
  define r where "r = submit_turn (\<lambda>_. k) st p key now None None"
  from Cons.prems(1) obtain ess' where run: "run_script (submissions now subs) (tr_state r) = Some (ess', s)"
    and k: "dict_get (st_commands st) k = None"
    by (auto simp: submissions_def sub r_def admissible_with_def split: if_splits)
  have new: "find_command_by_idempotency st key = None"
    using Cons.prems(7) [of k key p] sub by simp
  have "k \<noteq> i"
    using k Cons.prems(5) by auto
  note one = submit_to_full_queue [OF Cons.prems(2) new Cons.prems(3,4) this, where p = p and now = now,
      folded r_def]
  have fresh: "find_command_by_idempotency (tr_state r) key' = None" if "(k', key', p') \<in> set subs" for k' key' p'
    unfolding r_def
  proof (rule find_command_other_key [OF _ _ new Cons.prems(2)])
    show "find_command_by_idempotency st key' = None"
      using that Cons.prems(7) by auto
    show "key \<noteq> key'"
      using that Cons.prems(6) sub by force
  qed
  have ih: "queue_slot s q i ((body @ [CHR 0x0A] @ p) @ concat (map (\<lambda>(k, key, p). CHR 0x0A # p) subs))
    \<and> (\<forall>(k, key, p) \<in> set subs. coalesced_into s k i)
    \<and> (\<forall>j. dict_get (st_commands (tr_state r)) j \<noteq> None \<longrightarrow>
         dict_get (st_commands s) j = dict_get (st_commands (tr_state r)) j)"
    by (rule Cons.IH [OF run one(2) one(1)])
      (use Cons.prems(5,6) \<open>k \<noteq> i\<close> one(4) fresh sub in auto)
  have "dict_get (st_commands s) k = dict_get (st_commands (tr_state r)) k"
    using ih one(3) by (cases "dict_get (st_commands (tr_state r)) k") auto
  then have "coalesced_into s k i"
    using ih one(3)
    by (auto simp: coalesced_into_def queue_slot_def split: option.splits)
  moreover have "dict_get (st_commands s) j = dict_get (st_commands st) j"
    if "dict_get (st_commands st) j \<noteq> None" for j
    using ih one(4) [of j] that k by (cases "j = k") auto
  ultimately show ?case
    using ih sub by (simp add: case_prod_unfold)
qed

lemma join_lines:
  "py_join [CHR 0x0A] (p # ps) = p @ concat (map (\<lambda>q. CHR 0x0A # q) ps)"
  by (induction ps arbitrary: p) simp_all


definition demo_burst :: conversation_state where
  "demo_burst = script_state (submissions 101 [(Uuid 30, ''a'', ''one''), (Uuid 31, ''b'', ''two''),
     (Uuid 32, ''c'', ''three'')]) demo_start"


end
