(* ===== verification/Event_Dispatcher.thy ===== *)
theory Event_Dispatcher
  imports Conversation_Scripts
begin

text \<open>
  The dispatcher (\<open>src/talktoharnesses/application/event_dispatcher.py\<close>) that maps the normalized
  events of a harness onto transitions: titles, interaction requests and the four terminal events have
  a transition, streaming events are appended as they are, anything else is refused. Where an event
  came from is committed with it.
\<close>

section \<open>Results and origins\<close>

record dispatch_result =
  dr_state :: conversation_state
  dr_events :: "conversation_event list"
  dr_commands :: "command list"
  dr_terminal :: bool

record event_origin =
  org_native_ids :: "string list"
  org_stream_offsets :: "string list"
  org_split_stream :: "split_stream_cursor option"

definition NO_ORIGIN :: event_origin where
  "NO_ORIGIN = \<lparr>org_native_ids = [], org_stream_offsets = [], org_split_stream = None\<rparr>"

definition remember_origin :: "conversation_state \<Rightarrow> event_origin \<Rightarrow> conversation_state" where
  "remember_origin st origin =
     (let st' = (if org_split_stream origin \<noteq> None \<and> org_split_stream origin \<noteq> st_split_stream st
                 then st\<lparr>st_split_stream := org_split_stream origin\<rparr> else st)
      in if org_native_ids origin \<noteq> [] \<or> org_stream_offsets origin \<noteq> []
         then remember_native_ids st' (org_native_ids origin) (org_stream_offsets origin)
         else st')"

text \<open>The commands a terminal transition settled, in the order of the table.\<close>

definition settled_commands :: "conversation_state \<Rightarrow> conversation_state \<Rightarrow> command list" where
  "settled_commands new_state old_state =
     map snd (filter (\<lambda>(command_id, command).
       (case dict_get (st_commands old_state) command_id of
          None \<Rightarrow> False
        | Some prev \<Rightarrow> cmd_status command \<noteq> cmd_status prev
            \<and> cmd_status command \<in> {CMD_SETTLED, CMD_OUTCOME_UNKNOWN})) (st_commands new_state))"

section \<open>Dispatching\<close>

text \<open>The name of a payload class: its wire type in camel case, then \<open>Payload\<close>.\<close>

fun camel_case :: "bool \<Rightarrow> string \<Rightarrow> string" where
  "camel_case upper [] = []"
| "camel_case upper (c # cs) =
     (if c = CHR ''_'' then camel_case True cs
      else (if upper then char_of ((of_char c :: nat) - 32) else c) # camel_case False cs)"

definition payload_class_name :: "event_payload \<Rightarrow> string" where
  "payload_class_name p = camel_case True (payload_type p) @ ''Payload''"

text \<open>The streaming events that are appended without a transition of their own.\<close>

fun streaming_event :: "event_payload \<Rightarrow> bool" where
  "streaming_event (MessageEvent _) = True"
| "streaming_event (NoticeEvent (ProviderWarning _ _)) = True"
| "streaming_event (NoticeEvent (UsageUpdated _ _ _ _ _)) = True"
| "streaming_event (NoticeEvent (CostUpdated _ _ _)) = True"
| "streaming_event (NoticeEvent (InteractionResolved _ _ _ _ _)) = True"
| "streaming_event (ToolEvent (ToolRequested _ _ _ _)) = True"
| "streaming_event (ToolEvent (ToolStarted _ _ _)) = True"
| "streaming_event (ToolEvent (ToolOutputDelta _ _ _ _)) = True"
| "streaming_event (ToolEvent (ToolCompleted _ _ _ _ _ _)) = True"
| "streaming_event (ToolEvent (ToolFailed _ _ _ _)) = True"
| "streaming_event _ = False"

definition plain_dispatch :: "transition_result \<Rightarrow> dispatch_result" where
  "plain_dispatch r = \<lparr>dr_state = tr_state r, dr_events = tr_events r, dr_commands = [], dr_terminal = False\<rparr>"

definition terminal_dispatch ::
  "conversation_state \<Rightarrow> transition_result result \<Rightarrow> dispatch_result result" where
  "terminal_dispatch st result = bind_result result (\<lambda>r. Inr
     \<lparr>dr_state = tr_state r, dr_events = tr_events r,
      dr_commands = settled_commands (tr_state r) st, dr_terminal = True\<rparr>)"

definition dispatch_remembered ::
  "uuid_supply \<Rightarrow> conversation_state \<Rightarrow> event_payload \<Rightarrow> datetime \<Rightarrow> dispatch_result result" where
  "dispatch_remembered u st event now =
     (case event of
        NoticeEvent (ConversationTitleUpdated title) \<Rightarrow>
          Inr (plain_dispatch (apply_native_title u st title now))
      | NoticeEvent (InteractionRequested t i kind request) \<Rightarrow>
          bind_result (request_interaction u st
              \<lparr>inter_id = i, inter_conversation_id = conv_id (st_conversation st), inter_turn_id = t,
               inter_kind = kind, inter_status = INT_PENDING, inter_request = request,
               inter_draft = None, inter_created_at = now\<rparr> now)
            (\<lambda>r. Inr (plain_dispatch r))
      | TurnEvent (TurnCompleted _ reason has_message) \<Rightarrow>
          terminal_dispatch st (complete_turn u st now reason has_message)
      | TurnEvent (TurnInterrupted _ reason) \<Rightarrow> terminal_dispatch st (interrupt_turn u st now reason)
      | TurnEvent (TurnFailed _ code message) \<Rightarrow>
          terminal_dispatch st (fail_turn u st now code message None)
      | TurnEvent (TurnOutcomeUnknown _ _ phase message) \<Rightarrow>
          terminal_dispatch st (mark_outcome_unknown u st now phase message)
      | _ \<Rightarrow>
          if streaming_event event then
            (let (new_state, events) = append_events u st now [event]
             in Inr \<lparr>dr_state = new_state, dr_events = events, dr_commands = [], dr_terminal = False\<rparr>)
          else raise_domain UNSUPPORTED_NATIVE_EVENT
            (''unsupported harness event type: '' @ payload_class_name event))"

definition dispatch_harness_event ::
  "uuid_supply \<Rightarrow> conversation_state \<Rightarrow> event_payload \<Rightarrow> datetime \<Rightarrow> event_origin
     \<Rightarrow> dispatch_result result" where
  "dispatch_harness_event u st event now origin = dispatch_remembered u (remember_origin st origin) event now"

section \<open>Delivery markers\<close>

definition mark_command_delivery_started ::
  "conversation_state \<Rightarrow> uuid \<Rightarrow> datetime \<Rightarrow> (conversation_state \<times> command) result" where
  "mark_command_delivery_started st command_id now =
     (case dict_get (st_commands st) command_id of
        None \<Rightarrow> raise_domain INVALID_STATE ''command not found in aggregate''
      | Some command \<Rightarrow>
          let updated = command\<lparr>cmd_status := CMD_DELIVERY_STARTED, cmd_delivery_started_at := Some now\<rparr>
          in Inr (with_commands st (dict_put (st_commands st) command_id updated), updated))"

definition mark_command_delivered ::
  "conversation_state \<Rightarrow> uuid \<Rightarrow> datetime \<Rightarrow> (conversation_state \<times> command) result" where
  "mark_command_delivered st command_id now =
     (case dict_get (st_commands st) command_id of
        None \<Rightarrow> raise_domain INVALID_STATE ''command not found in aggregate''
      | Some command \<Rightarrow>
          let updated = command\<lparr>cmd_status := CMD_DELIVERED, cmd_delivered_at := Some now\<rparr>
          in Inr (with_commands st (dict_put (st_commands st) command_id updated), updated))"

definition apply_outcome_unknown ::
  "uuid_supply \<Rightarrow> conversation_state \<Rightarrow> datetime \<Rightarrow> string option \<Rightarrow> string option
     \<Rightarrow> transition_result result" where
  "apply_outcome_unknown u st now delivery_phase message =
     mark_outcome_unknown u st now delivery_phase message"

section \<open>Dispatching keeps the aggregate sound\<close>

lemma remember_origin_fields:
  "st_active_turn (remember_origin st origin) = st_active_turn st"
  "st_commands (remember_origin st origin) = st_commands st"
  "st_queued_turn (remember_origin st origin) = st_queued_turn st"
  by (simp_all add: remember_origin_def remember_native_ids_def Let_def)

lemma sound_split_stream: "wf_state st \<Longrightarrow> sound_step st [] (st\<lparr>st_split_stream := c\<rparr>)"
proof -
  assume wf: "wf_state st"
  let ?s = "st\<lparr>st_split_stream := c\<rparr>"
  have "wf_tables ?s = wf_tables st" "wf_turns ?s = wf_turns st" "wf_interactions ?s = wf_interactions st"
    "wf_binding ?s = wf_binding st" "status_consistent ?s = status_consistent st" "project ?s = project st"
    by (rule wf_tables_cong wf_turns_cong wf_interactions_cong wf_binding_cong status_consistent_cong
        project_cong; simp)+
  with wf show ?thesis
    by (simp add: sound_step_def wf_state_def numbered_def)
qed

lemma sound_remember_origin:
  assumes "wf_state st"
  shows "sound_step st [] (remember_origin st origin)"
proof -
  define s where "s = (if org_split_stream origin \<noteq> None \<and> org_split_stream origin \<noteq> st_split_stream st
      then st\<lparr>st_split_stream := org_split_stream origin\<rparr> else st)"
  have s: "sound_step st [] s"
    using assms by (simp add: s_def sound_split_stream sound_step_refl)
  then have "sound_step s [] (remember_native_ids s (org_native_ids origin) (org_stream_offsets origin))"
    using sound_remember_native_ids sound_step_wf by blast
  then have "sound_step st [] (remember_native_ids s (org_native_ids origin) (org_stream_offsets origin))"
    using sound_step_trans [OF s] by simp
  with s show ?thesis
    unfolding remember_origin_def Let_def s_def [symmetric] by simp
qed

text \<open>What every dispatched event keeps: the invariant and the numbering.\<close>

definition keeps_log :: "conversation_state \<Rightarrow> conversation_event list \<Rightarrow> conversation_state \<Rightarrow> bool" where
  "keeps_log st es s \<longleftrightarrow> wf_state s \<and> numbered st es s"

lemma sound_keeps_log: "sound_step st es s \<Longrightarrow> keeps_log st es s"
  by (simp add: sound_step_def keeps_log_def)

lemma keeps_log_append:
  assumes "wf_state st"
  shows "keeps_log st (snd (append_events u st now ps)) (fst (append_events u st now ps))"
  using assms numbered_append [of st st u now ps] by (simp add: keeps_log_def wf_state_def)

text \<open>What one dispatch does, in terms of the transitions: a transition of the aggregate, terminal or
  not, or a streaming event appended.\<close>

definition ends_active_turn :: "uuid_supply \<Rightarrow> conversation_state \<Rightarrow> datetime \<Rightarrow> transition_result \<Rightarrow> bool" where
  "ends_active_turn u st now r \<longleftrightarrow>
     (\<exists>reason b. complete_turn u st now reason b = Inr r) \<or> (\<exists>reason. interrupt_turn u st now reason = Inr r)
     \<or> (\<exists>code message. fail_turn u st now code message None = Inr r)
     \<or> (\<exists>phase message. mark_outcome_unknown u st now phase message = Inr r)"

lemma terminal_dispatch_Inr:
  "terminal_dispatch st x = Inr d \<longleftrightarrow> (\<exists>r. x = Inr r \<and> d =
     \<lparr>dr_state = tr_state r, dr_events = tr_events r,
      dr_commands = settled_commands (tr_state r) st, dr_terminal = True\<rparr>)"
  by (auto simp: terminal_dispatch_def bind_result_eq_Inr)

lemma dispatch_remembered_cases:
  assumes "dispatch_remembered u st event now = Inr d"
  obtains (title) t where "d = plain_dispatch (apply_native_title u st t now)"
  | (request) i r where "request_interaction u st i now = Inr r" "d = plain_dispatch r"
  | (terminal) r where "ends_active_turn u st now r"
      "d = \<lparr>dr_state = tr_state r, dr_events = tr_events r,
            dr_commands = settled_commands (tr_state r) st, dr_terminal = True\<rparr>"
  | (streaming) "streaming_event event"
      "d = \<lparr>dr_state = fst (append_events u st now [event]), dr_events = snd (append_events u st now [event]),
            dr_commands = [], dr_terminal = False\<rparr>"
proof (cases event)
  case (TurnEvent p)
  show thesis
  proof (cases "\<exists>x. dispatch_remembered u st event now = terminal_dispatch st x
      \<and> (\<forall>r. x = Inr r \<longrightarrow> ends_active_turn u st now r)")
    case True
    then obtain x where "terminal_dispatch st x = Inr d" "\<forall>r. x = Inr r \<longrightarrow> ends_active_turn u st now r"
      using assms by auto
    then show thesis
      using terminal by (auto simp: terminal_dispatch_Inr)
  next
    case False
    then have "dispatch_remembered u st event now = raise_domain UNSUPPORTED_NATIVE_EVENT
        (''unsupported harness event type: '' @ payload_class_name event)"
      unfolding TurnEvent by (cases p) (auto simp: dispatch_remembered_def ends_active_turn_def)
    with assms show thesis by simp
  qed
next
  case (NoticeEvent p)
  show thesis
  proof (cases p)
    case (ConversationTitleUpdated t)
    with NoticeEvent assms show thesis
      by (intro title [of t]) (simp add: dispatch_remembered_def)
  next
    case (InteractionRequested t i kind request')
    then show thesis
      using NoticeEvent assms request by (auto simp: dispatch_remembered_def bind_result_eq_Inr)
  qed (use NoticeEvent assms streaming in
      \<open>simp_all add: dispatch_remembered_def case_prod_unfold Let_def split: if_splits\<close>)
qed (use assms streaming in \<open>auto simp: dispatch_remembered_def case_prod_unfold Let_def split: if_splits\<close>)

lemma dispatch_keeps_log:
  assumes wf: "wf_state st" and d: "dispatch_harness_event u st event now origin = Inr d"
  shows "keeps_log st (dr_events d) (dr_state d)"
proof -
  let ?s = "remember_origin st origin"
  have s: "sound_step st [] ?s"
    by (rule sound_remember_origin [OF wf])
  then have wfs: "wf_state ?s" by (rule sound_step_wf)
  have "keeps_log ?s (dr_events d) (dr_state d)"
    using d unfolding dispatch_harness_event_def
  proof (cases rule: dispatch_remembered_cases)
    case (title t)
    then show ?thesis
      using sound_apply_native_title [OF wfs] by (simp add: sound_keeps_log plain_dispatch_def)
  next
    case (request i r)
    then show ?thesis
      using sound_request_interaction [OF wfs] by (auto intro: sound_keeps_log simp: plain_dispatch_def)
  next
    case (terminal r)
    then have "sound_step ?s (tr_events r) (tr_state r)"
      unfolding ends_active_turn_def using sound_turn_end [OF wfs] sound_fail_turn [OF wfs] by blast
    with terminal(2) show ?thesis
      by (simp add: sound_keeps_log)
  next
    case streaming
    then show ?thesis
      using keeps_log_append [OF wfs] by simp
  qed
  with s show ?thesis
    using numbered_trans [of st "[]" ?s] by (auto simp: keeps_log_def sound_step_def)
qed

section \<open>Terminal events\<close>

text \<open>every harness event a well-formed conversation accepts keeps it well formed and continues its
  event numbering without a gap, wherever the event came from.\<close>

theorem dispatch_keeps_invariant:
  assumes "initial_conversation st0" and "run conversation_step st0 ess st"
    and "dispatch_harness_event u st event now origin = Inr d"
  shows "wf_state (dr_state d) \<and> numbered st (dr_events d) (dr_state d)"
  using dispatch_keeps_log [OF conversation.inv_reachable [OF assms(1,2)] assms(3)]
  by (simp add: keeps_log_def)

lemma ends_active_turn_end:
  assumes wf: "wf_state st" and r: "ends_active_turn u st now r"
  obtains t f terminal where "st_active_turn st = Some t" and "r = end_active_turn u st now f terminal"
    and "\<And>t'. turn_id t' = turn_id t \<Longrightarrow> turn_command_id t' = turn_command_id t \<Longrightarrow> terminal t' = terminal t"
    and "\<And>c. cmd_id (f c) = cmd_id c \<and> cmd_status (f c) \<in> {CMD_SETTLED, CMD_OUTCOME_UNKNOWN}"
proof -
  obtain t where t: "st_active_turn st = Some t"
    using r by (cases "st_active_turn st")
      (auto simp: ends_active_turn_def complete_turn_def interrupt_turn_def fail_turn_def
        mark_outcome_unknown_def split: option.splits)
  have "\<exists>f terminal. r = end_active_turn u st now f terminal
      \<and> (\<forall>t'. turn_id t' = turn_id t \<longrightarrow> turn_command_id t' = turn_command_id t \<longrightarrow> terminal t' = terminal t)
      \<and> (\<forall>c. cmd_id (f c) = cmd_id c \<and> cmd_status (f c) \<in> {CMD_SETTLED, CMD_OUTCOME_UNKNOWN})"
    using r unfolding ends_active_turn_def
  proof (elim disjE exE)
    fix reason b
    assume "complete_turn u st now reason b = Inr r"
    with t show ?thesis
      by (intro exI [of _ "settle_command now"] exI [of _ "\<lambda>t. TurnCompleted (turn_id t) reason b"])
        (auto simp: complete_turn_def settle_command_def split: if_splits)
  next
    fix reason
    assume "interrupt_turn u st now reason = Inr r"
    with t show ?thesis
      by (intro exI [of _ "settle_command now"] exI [of _ "\<lambda>t. TurnInterrupted (turn_id t) reason"])
        (auto simp: interrupt_turn_def settle_command_def split: if_splits)
  next
    fix code message
    assume "fail_turn u st now code message None = Inr r"
    with t show ?thesis
      by (intro exI [of _ "settle_command now"] exI [of _ "\<lambda>t. TurnFailed (turn_id t) code message"])
        (auto simp: fail_turn_def settle_command_def split: option.splits)
  next
    fix phase message
    assume "mark_outcome_unknown u st now phase message = Inr r"
    with t show ?thesis
      by (intro exI [of _ "\<lambda>cmd. cmd\<lparr>cmd_status := CMD_OUTCOME_UNKNOWN\<rparr>"]
          exI [of _ "\<lambda>t. TurnOutcomeUnknown (turn_id t) (turn_command_id t) phase message"])
        (auto simp: mark_outcome_unknown_def)
  qed
  with that t show thesis by blast
qed

lemma request_keeps_active:
  "request_interaction u st i now = Inr r \<Longrightarrow> st_active_turn (tr_state r) \<noteq> None \<and> st_active_turn st \<noteq> None"
  by (auto simp: request_interaction_def result_simps result_of_def Let_def split: if_splits option.splits)

text \<open>C24: the dispatcher says a turn is over exactly when it is. A dispatch is terminal if and only if a
  turn was active before and none is after; and the commands it then reports are commands of that
  turn, each with its final status.\<close>

theorem dispatch_terminal_exactly_when_turn_ends:
  assumes "initial_conversation st0" and "run conversation_step st0 ess st"
    and "dispatch_harness_event u st event now origin = Inr d"
  shows "(dr_terminal d \<longleftrightarrow> st_active_turn st \<noteq> None \<and> st_active_turn (dr_state d) = None)
    \<and> (\<forall>c \<in> set (dr_commands d). map_option turn_command_id (st_active_turn st) = Some (Some (cmd_id c))
         \<and> cmd_status c \<in> {CMD_SETTLED, CMD_OUTCOME_UNKNOWN})"
proof -
  let ?s = "remember_origin st origin"
  have wfs: "wf_state ?s"
    using sound_remember_origin [OF conversation.inv_reachable [OF assms(1,2)]] by (rule sound_step_wf)
  have active: "st_active_turn ?s = st_active_turn st"
    by (rule remember_origin_fields)
  show ?thesis
    using assms(3) unfolding dispatch_harness_event_def
  proof (cases rule: dispatch_remembered_cases)
    case (title t)
    then show ?thesis
      by (auto simp: plain_dispatch_def apply_native_title_def emit_event_def result_of_def active)
  next
    case (request i r)
    then show ?thesis
      using request_keeps_active [OF request(1)] by (simp add: plain_dispatch_def)
  next
    case (terminal r)
    obtain t f terminal' where t: "st_active_turn ?s = Some t"
      and r: "r = end_active_turn u ?s now f terminal'"
      and same: "\<And>t'. turn_id t' = turn_id t \<Longrightarrow> turn_command_id t' = turn_command_id t \<Longrightarrow>
        terminal' t' = terminal' t"
      and f: "\<And>c. cmd_id (f c) = cmd_id c \<and> cmd_status (f c) \<in> {CMD_SETTLED, CMD_OUTCOME_UNKNOWN}"
      using ends_active_turn_end [OF wfs terminal(1)] by metis
    note effect = end_active_turn_effect [of ?s t terminal' u now f, OF wfs t same]
    have "turn_command_id t = Some (cmd_id c) \<and> cmd_status c \<in> {CMD_SETTLED, CMD_OUTCOME_UNKNOWN}"
      if c: "c \<in> set (settled_commands (tr_state r) ?s)" for c
    proof -
      obtain k prev where k: "(k, c) \<in> set (st_commands (tr_state r))"
        "dict_get (st_commands ?s) k = Some prev" "cmd_status c \<noteq> cmd_status prev"
        "cmd_status c \<in> {CMD_SETTLED, CMD_OUTCOME_UNKNOWN}"
        using c by (auto simp: settled_commands_def split: option.splits)
      have wfr: "wf_state (tr_state r)"
        using terminal(1) sound_turn_end [OF wfs] sound_fail_turn [OF wfs] sound_step_wf
        unfolding ends_active_turn_def by metis
      then have keys: "distinct (dict_keys (st_commands (tr_state r)))" and "commands.keyed (st_commands (tr_state r))"
        by (simp_all add: wf_state_def wf_tables_def)
      then have get: "dict_get (st_commands (tr_state r)) k = Some c" and "cmd_id c = k"
        using k(1) by (auto simp: commands.keyed_def map_of_eq_Some_iff)
      moreover have "turn_command_id t = Some k"
      proof (rule ccontr)
        assume other: "turn_command_id t \<noteq> Some k"
        have keyed: "commands.keyed (st_commands ?s)"
          using wfs by (simp add: wf_state_def wf_tables_def)
        have "dict_get (update_turn_command (st_commands ?s) t f) k = dict_get (st_commands ?s) k"
          using other commands.keyed_lookup [OF keyed]
          by (auto simp: update_turn_command_def dict_get_put split: option.split)
        then have "c = prev"
          using get k(2) effect(5) r by simp
        with k(3) show False by simp
      qed
      ultimately show ?thesis using k(4) by simp
    qed
    then show ?thesis
      using terminal(2) t active effect(2) r by auto
  next
    case streaming
    then show ?thesis
      by (auto simp: active)
  qed
qed

theorem dispatch_terminal_exactly_when_turn_ends_witness:
  "\<exists>d. dispatch_harness_event (\<lambda>_. Uuid 90) demo_waiting
        (TurnEvent (TurnCompleted (Uuid 11) None True)) 140 NO_ORIGIN = Inr d
    \<and> dr_terminal d \<and> st_active_turn (dr_state d) = None \<and> map cmd_id (dr_commands d) = [Uuid 11]"
proof -
  define r where "r = dispatch_harness_event (\<lambda>_. Uuid 90) demo_waiting
        (TurnEvent (TurnCompleted (Uuid 11) None True)) 140 NO_ORIGIN"
  have "case r of Inl _ \<Rightarrow> False | Inr d \<Rightarrow> dr_terminal d \<and> map cmd_id (dr_commands d) = [Uuid 11]"
    unfolding r_def by code_simp
  then obtain d where d: "r = Inr d" "dr_terminal d" "map cmd_id (dr_commands d) = [Uuid 11]"
    by (auto split: sum.splits)
  with dispatch_terminal_exactly_when_turn_ends [OF demo_start_initial demo_opening_run d(1) [unfolded r_def]]
  show ?thesis
    unfolding r_def by auto
qed

theorem dispatch_keeps_invariant_witness:
  "\<exists>d. dispatch_harness_event (\<lambda>_. Uuid 91) demo_waiting
        (NoticeEvent (ProviderWarning ''slow'' None)) 141 NO_ORIGIN = Inr d \<and> wf_state (dr_state d)"
proof -
  define r where "r = dispatch_harness_event (\<lambda>_. Uuid 91) demo_waiting
        (NoticeEvent (ProviderWarning ''slow'' None)) 141 NO_ORIGIN"
  have "case r of Inl _ \<Rightarrow> False | Inr _ \<Rightarrow> True"
    unfolding r_def by code_simp
  then obtain d where d: "r = Inr d"
    by (auto split: sum.splits)
  with dispatch_keeps_invariant [OF demo_start_initial demo_opening_run d [unfolded r_def]]
  show ?thesis
    unfolding r_def by auto
qed

end
