(* ===== verification/Wire_Values.thy ===== *)
theory Wire_Values
  imports Enums
begin

text \<open>
  The wire strings of the enumerations that the worker writes into rows, events and error details
  (\<open>tth-types/src/tth_types/enums.py\<close>).
\<close>

fun error_code_value :: "error_code \<Rightarrow> string" where
  "error_code_value SANDBOX_POLICY_REQUIRED = ''sandbox_policy_required''"
| "error_code_value SANDBOX_POLICY_DENIED = ''sandbox_policy_denied''"
| "error_code_value CREDENTIAL_PROXY_UNSUPPORTED = ''credential_proxy_unsupported''"
| "error_code_value PERSISTENCE_REQUIRED = ''persistence_required''"
| "error_code_value CONVERSATION_BUSY = ''conversation_busy''"
| "error_code_value MODE_CHANGE_WHILE_ACTIVE = ''mode_change_while_active''"
| "error_code_value UNSUPPORTED_NATIVE_EVENT = ''unsupported_native_event''"
| "error_code_value PROTOCOL_ERROR = ''protocol_error''"
| "error_code_value PROVIDER_INCOMPATIBLE = ''provider_incompatible''"
| "error_code_value WORKING_DIRECTORY_NOT_FOUND = ''working_directory_not_found''"
| "error_code_value WORKSPACE_ROOT_NOT_FOUND = ''workspace_root_not_found''"
| "error_code_value INVALID_EXECUTABLE = ''invalid_executable''"
| "error_code_value EXECUTABLE_OWNER_MISMATCH = ''executable_owner_mismatch''"
| "error_code_value RUNTIME_TIMEOUT = ''runtime_timeout''"
| "error_code_value RUNTIME_START_FAILED = ''runtime_start_failed''"
| "error_code_value INVALID_STATE = ''invalid_state''"
| "error_code_value INTERACTION_ALREADY_RESOLVED = ''interaction_already_resolved''"
| "error_code_value QUEUED_PROMPT_NOT_EDITABLE = ''queued_prompt_not_editable''"
| "error_code_value UNKNOWN_HARNESS_KIND = ''unknown_harness_kind''"
| "error_code_value DUPLICATE_REGISTRATION = ''duplicate_registration''"
| "error_code_value HARNESS_NOT_REGISTERED = ''harness_not_registered''"
| "error_code_value SANDBOX_PREPARING = ''sandbox_preparing''"
| "error_code_value SANDBOX_UNAVAILABLE = ''sandbox_unavailable''"
| "error_code_value SANDBOX_PATH_NOT_MOUNTED = ''sandbox_path_not_mounted''"
| "error_code_value WORKSPACE_SETUP_FAILED = ''workspace_setup_failed''"
| "error_code_value NO_ACTIVE_TURN = ''no_active_turn''"
| "error_code_value NO_QUEUED_PROMPT = ''no_queued_prompt''"
| "error_code_value IDEMPOTENCY_CONFLICT = ''idempotency_conflict''"
| "error_code_value HARNESS_IN_USE = ''harness_in_use''"
| "error_code_value OPTIMISTIC_CONFLICT = ''optimistic_conflict''"
| "error_code_value STALE_OWNER = ''stale_owner''"
| "error_code_value WORKER_LEASE_UNAVAILABLE = ''worker_lease_unavailable''"
| "error_code_value WORKER_UNAVAILABLE = ''worker_unavailable''"
| "error_code_value INVALID_CURSOR = ''invalid_cursor''"
| "error_code_value INVALID_SEARCH_QUERY = ''invalid_search_query''"
| "error_code_value NOT_FOUND = ''not_found''"

fun recovery_reason_value :: "recovery_reason_code \<Rightarrow> string" where
  "recovery_reason_value RR_WORKER_LOST = ''worker_lost''"
| "recovery_reason_value RR_DELIVERY_AMBIGUOUS = ''delivery_ambiguous''"
| "recovery_reason_value RR_TURN_LOST_ON_RESTART = ''turn_lost_on_restart''"
| "recovery_reason_value RR_SESSION_REATTACHED = ''session_reattached''"
| "recovery_reason_value RR_RESUME_UNSUPPORTED = ''resume_unsupported''"
| "recovery_reason_value RR_RESUME_REJECTED = ''resume_rejected''"
| "recovery_reason_value RR_PROVIDER_INCOMPATIBLE = ''provider_incompatible''"
| "recovery_reason_value RR_EXECUTABLE_CHANGED = ''executable_changed''"
| "recovery_reason_value RR_UNCHANGED_LAUNCH = ''unchanged_launch''"
| "recovery_reason_value RR_RECOVERY_FALLBACK = ''recovery_fallback''"
| "recovery_reason_value RR_INVARIANT_FAILURE = ''invariant_failure''"
| "recovery_reason_value RR_LEGACY_UNKNOWN = ''legacy_unknown''"
| "recovery_reason_value RR_NO_ACTION = ''no_action''"

fun delivery_phase_value :: "observed_delivery_phase \<Rightarrow> string" where
  "delivery_phase_value PHASE_ACCEPTED = ''accepted''"
| "delivery_phase_value PHASE_CLAIMED = ''claimed''"
| "delivery_phase_value PHASE_DELIVERY_STARTED = ''delivery_started''"
| "delivery_phase_value PHASE_DELIVERED = ''delivered''"
| "delivery_phase_value PHASE_SETTLED = ''settled''"
| "delivery_phase_value PHASE_COALESCED = ''coalesced''"
| "delivery_phase_value PHASE_OUTCOME_UNKNOWN = ''outcome_unknown''"
| "delivery_phase_value PHASE_NONE = ''none''"

datatype (plugins only: code size) recovery_trigger = TRIGGER_STARTUP | TRIGGER_TAKEOVER | TRIGGER_SHUTDOWN | TRIGGER_LEGACY

datatype (plugins only: code size) recovery_result_code =
  RES_SUCCESS | RES_ABANDONED | RES_FAILED | RES_NO_ACTION | RES_LEGACY_UNKNOWN

fun recovery_result_value :: "recovery_result_code \<Rightarrow> string" where
  "recovery_result_value RES_SUCCESS = ''success''"
| "recovery_result_value RES_ABANDONED = ''abandoned''"
| "recovery_result_value RES_FAILED = ''failed''"
| "recovery_result_value RES_NO_ACTION = ''no_action''"
| "recovery_result_value RES_LEGACY_UNKNOWN = ''legacy_unknown''"

end
