(* ===== verification/Recovery.thy ===== *)
theory Recovery
  imports Conversation_Scripts Turn_Ends Wire_Values
begin

text \<open>
  The recovery classifier (\<open>src/talktoharnesses/application/recovery.py\<close>): after a worker was lost,
  what to do with each durable command of a conversation, and with live work no command explains.
  Then the batch that ends work whose outcome is unknown (\<open>_apply_outcome_unknown\<close> of
  \<open>src/talktoharnesses/application/worker_coordinator.py\<close>, up to its commit): a recovery or a shutdown that
  cannot tell what a delivery did ends the active turn and the background activities and settles every
  command in flight. The last theorem says nothing is left in flight and the aggregate stays sound.
\<close>

section \<open>Decisions\<close>

datatype (plugins only: code size) recovery_decision_kind =
    LEAVE_CLAIMABLE | RECLAIM | OUTCOME_UNKNOWN | NATIVE_RESUME | REATTACH | HANDOFF_FALLBACK
  | INVARIANT_FAILURE | NO_ACTION

record recovery_decision =
  rd_kind :: recovery_decision_kind
  rd_action :: recovery_action
  rd_reason_code :: recovery_reason_code
  rd_observed_delivery_phase :: observed_delivery_phase
  rd_command_id :: "uuid option"
  rd_turn_id :: "uuid option"

fun phase_of_status :: "command_status \<Rightarrow> observed_delivery_phase" where
  "phase_of_status CMD_ACCEPTED = PHASE_ACCEPTED"
| "phase_of_status CMD_CLAIMED = PHASE_CLAIMED"
| "phase_of_status CMD_DELIVERY_STARTED = PHASE_DELIVERY_STARTED"
| "phase_of_status CMD_DELIVERED = PHASE_DELIVERED"
| "phase_of_status CMD_SETTLED = PHASE_SETTLED"
| "phase_of_status CMD_COALESCED = PHASE_COALESCED"
| "phase_of_status CMD_OUTCOME_UNKNOWN = PHASE_OUTCOME_UNKNOWN"

definition phase_for :: "command \<Rightarrow> observed_delivery_phase" where
  "phase_for command = phase_of_status (cmd_status command)"

section \<open>What the aggregate still holds\<close>

definition has_live_work :: "conversation_state \<Rightarrow> bool" where
  "has_live_work st =
     (if st_active_turn st \<noteq> None then True
      else if st_queued_turn st \<noteq> None then True
      else if list_ex (\<lambda>a. act_status a = ACT_RUNNING) (dict_values (st_activities st)) then True
      else conv_status (st_conversation st) \<in> {CONV_RUNNING, CONV_WAITING, CONV_BACKGROUND_ACTIVE})"

definition resumable_native :: "conversation_state \<Rightarrow> bool \<Rightarrow> bool" where
  "resumable_native st supports_resume =
     (case st_binding st of
        None \<Rightarrow> False
      | Some b \<Rightarrow>
          supports_resume \<and> truthy_text (bind_native_session_id b)
          \<and> \<not> bind_requires_session_recreation b)"

definition reattachable :: "conversation_state \<Rightarrow> bool" where
  "reattachable st =
     (case (st_split_stream st, st_binding st) of
        (Some cursor, Some b) \<Rightarrow> ssc_binding_id cursor = bind_id b | _ \<Rightarrow> False)"

definition turn_needs_interrupt_messages :: "conversation_state \<Rightarrow> uuid option \<Rightarrow> bool" where
  "turn_needs_interrupt_messages st tid =
     (case (tid, st_active_turn st) of
        (Some i, Some turn) \<Rightarrow>
          turn_id turn = i \<and> turn_status turn \<in> {TURN_RUNNING, TURN_WAITING, TURN_QUEUED}
      | _ \<Rightarrow> False)"

definition is_switch_command :: "command option \<Rightarrow> bool" where
  "is_switch_command c = (case c of None \<Rightarrow> False | Some c \<Rightarrow> cmd_kind c = SWITCH_HARNESS)"

section \<open>Continuing live work\<close>

definition continue_live_work ::
  "conversation_state \<Rightarrow> bool \<Rightarrow> observed_delivery_phase \<Rightarrow> uuid option \<Rightarrow> uuid option
     \<Rightarrow> recovery_decision" where
  "continue_live_work st supports_resume phase command_id tid =
     (let decide = (\<lambda>kind action reason.
            \<lparr>rd_kind = kind, rd_action = action, rd_reason_code = reason,
             rd_observed_delivery_phase = phase, rd_command_id = command_id, rd_turn_id = tid\<rparr>);
          resumable = resumable_native st supports_resume in
      if turn_needs_interrupt_messages st tid then
        (if reattachable st then decide REATTACH RA_REATTACH RR_SESSION_REATTACHED
         else if resumable then decide OUTCOME_UNKNOWN RA_OUTCOME_UNKNOWN RR_TURN_LOST_ON_RESTART
         else decide HANDOFF_FALLBACK RA_HANDOFF_FALLBACK RR_RECOVERY_FALLBACK)
      else if resumable then decide NATIVE_RESUME RA_NATIVE_RESUME RR_UNCHANGED_LAUNCH
      else decide HANDOFF_FALLBACK RA_HANDOFF_FALLBACK RR_RECOVERY_FALLBACK)"

definition ambiguous_delivery :: "command \<Rightarrow> bool" where
  "ambiguous_delivery command =
     (if cmd_status command = CMD_DELIVERY_STARTED then True
      else cmd_status command = CMD_CLAIMED \<and> cmd_delivery_started_at command \<noteq> None)"

section \<open>Classifying\<close>

text \<open>The turn a command is about: the active turn it started, else its target.\<close>

definition command_turn_id :: "command \<Rightarrow> conversation_state \<Rightarrow> uuid option" where
  "command_turn_id command st =
     (case st_active_turn st of
        Some t \<Rightarrow> if turn_command_id t = Some (cmd_id command) then Some (turn_id t)
                   else cmd_target_turn_id command
      | None \<Rightarrow> cmd_target_turn_id command)"

definition lease_expired :: "command \<Rightarrow> datetime \<Rightarrow> bool" where
  "lease_expired command now = (case cmd_lease_expires_at command of None \<Rightarrow> True | Some t \<Rightarrow> t < now)"

definition classify_command ::
  "command \<Rightarrow> conversation_state \<Rightarrow> datetime \<Rightarrow> bool \<Rightarrow> recovery_decision" where
  "classify_command command st now supports_resume =
     (let phase = phase_for command;
          tid = command_turn_id command st;
          decision = (\<lambda>kind action reason.
            \<lparr>rd_kind = kind, rd_action = action, rd_reason_code = reason,
             rd_observed_delivery_phase = phase, rd_command_id = Some (cmd_id command),
             rd_turn_id = tid\<rparr>) in
      if cmd_status command \<in> {CMD_SETTLED, CMD_COALESCED, CMD_OUTCOME_UNKNOWN} then
        decision NO_ACTION RA_NO_ACTION RR_NO_ACTION
      else if cmd_status command = CMD_ACCEPTED then
        decision LEAVE_CLAIMABLE RA_NO_ACTION RR_NO_ACTION
      else if cmd_status command = CMD_CLAIMED \<and> cmd_delivery_started_at command = None
              \<and> lease_expired command now then
        decision RECLAIM RA_RECLAIM RR_WORKER_LOST
      else if ambiguous_delivery command then
        decision OUTCOME_UNKNOWN RA_OUTCOME_UNKNOWN RR_DELIVERY_AMBIGUOUS
      else if cmd_status command = CMD_DELIVERED then
        (if \<not> has_live_work st then decision INVARIANT_FAILURE RA_INVARIANT_FAILURE RR_INVARIANT_FAILURE
         else continue_live_work st supports_resume phase (Some (cmd_id command)) tid)
      else if cmd_status command = CMD_CLAIMED then decision NO_ACTION RA_NO_ACTION RR_NO_ACTION
      else decision INVARIANT_FAILURE RA_INVARIANT_FAILURE RR_INVARIANT_FAILURE)"

definition interesting_command :: "command \<Rightarrow> bool" where
  "interesting_command c \<longleftrightarrow>
     cmd_status c \<notin> {CMD_SETTLED, CMD_COALESCED} \<or> cmd_status c = CMD_OUTCOME_UNKNOWN"

definition recovery_rank :: "conversation_state \<Rightarrow> command \<Rightarrow> nat" where
  "recovery_rank st c =
     (if ambiguous_delivery c then 0
      else if (case st_active_turn st of Some t \<Rightarrow> turn_command_id t = Some (cmd_id c) | None \<Rightarrow> False) then 1
      else if cmd_status c = CMD_DELIVERED then 2 else 3)"

fun first_by_id :: "uuid list \<Rightarrow> command list \<Rightarrow> command list" where
  "first_by_id seen [] = []"
| "first_by_id seen (c # cs) =
     (if cmd_id c \<in> set seen then first_by_id seen cs else c # first_by_id (cmd_id c # seen) cs)"

definition classify_conversation ::
  "conversation_state \<Rightarrow> datetime \<Rightarrow> bool \<Rightarrow> recovery_decision list" where
  "classify_conversation st now supports_resume =
     (let interesting = sort_key (\<lambda>c. (recovery_rank st c, cmd_created_at c))
            (filter interesting_command (dict_values (st_commands st)));
          decisions = map (\<lambda>c. classify_command c st now supports_resume) (first_by_id [] interesting) in
      if decisions = [] \<and> has_live_work st then
        [continue_live_work st supports_resume PHASE_NONE None (map_option turn_id (st_active_turn st))]
      else if decisions = [] then
        [\<lparr>rd_kind = NO_ACTION, rd_action = RA_NO_ACTION, rd_reason_code = RR_NO_ACTION,
          rd_observed_delivery_phase = PHASE_NONE, rd_command_id = None, rd_turn_id = None\<rparr>]
      else decisions)"

section \<open>The table\<close>

text \<open>the recovery table. A command whose delivery may have begun but is not confirmed is never run
  or resumed: its outcome is unknown. A claimed command is taken back exactly when no delivery began
  and its lease is gone. Only a delivered command continues live work, and only it can reveal a broken
  invariant, which it does exactly when nothing is live; everything else is left alone.\<close>

theorem recovery_table:
  fixes command st now supports_resume
  defines "d \<equiv> classify_command command st now supports_resume"
  shows "(ambiguous_delivery command \<longrightarrow> rd_kind d = OUTCOME_UNKNOWN \<and> rd_reason_code d = RR_DELIVERY_AMBIGUOUS)
    \<and> (rd_kind d = RECLAIM \<longleftrightarrow> cmd_status command = CMD_CLAIMED
         \<and> cmd_delivery_started_at command = None \<and> lease_expired command now)
    \<and> (rd_kind d = LEAVE_CLAIMABLE \<longleftrightarrow> cmd_status command = CMD_ACCEPTED)
    \<and> (rd_kind d = INVARIANT_FAILURE \<longleftrightarrow> cmd_status command = CMD_DELIVERED \<and> \<not> has_live_work st)
    \<and> (rd_kind d \<in> {NATIVE_RESUME, REATTACH, HANDOFF_FALLBACK} \<longrightarrow>
         cmd_status command = CMD_DELIVERED \<and> has_live_work st)
    \<and> rd_command_id d = Some (cmd_id command)"
  unfolding d_def classify_command_def continue_live_work_def ambiguous_delivery_def
  by (cases "cmd_status command") (auto simp: Let_def)

definition demo_command :: command where
  "demo_command = (accepted_command (Uuid 1) (Uuid 2) InterruptPayload ''k'' None 5)\<lparr>
     cmd_status := CMD_CLAIMED, cmd_delivery_started_at := Some 6\<rparr>"

theorem recovery_table_witness:
  "rd_kind (classify_command demo_command demo_start 10 True) = OUTCOME_UNKNOWN"
proof -
  have "ambiguous_delivery demo_command" by code_simp
  then show ?thesis
    using recovery_table [of demo_command demo_start 10 True] by blast
qed

section \<open>The order of the decisions\<close>

lemma first_by_id_distinct:
  "distinct (map cmd_id cs) \<Longrightarrow> set (map cmd_id cs) \<inter> set seen = {} \<Longrightarrow> first_by_id seen cs = cs"
  by (induction seen cs rule: first_by_id.induct) auto

lemma command_ids_distinct:
  assumes "wf_state st"
  shows "distinct (map cmd_id (dict_values (st_commands st)))"
proof -
  have "commands.keyed (st_commands st)" and keys: "distinct (dict_keys (st_commands st))"
    using assms by (simp_all add: wf_state_def wf_tables_def)
  then have "cmd_id (snd p) = fst p" if "p \<in> set (st_commands st)" for p
    using that by (auto simp: commands.keyed_def map_of_eq_Some_iff)
  then have eq: "map cmd_id (dict_values (st_commands st)) = dict_keys (st_commands st)"
    by (simp add: comp_def)
  show ?thesis
    unfolding eq by (rule keys)
qed

lemma classify_conversation_decisions:
  assumes "wf_state st"
  defines "cs \<equiv> sort_key (\<lambda>c. (recovery_rank st c, cmd_created_at c))
      (filter interesting_command (dict_values (st_commands st)))"
  shows "cs \<noteq> [] \<Longrightarrow> classify_conversation st now supports_resume
      = map (\<lambda>c. classify_command c st now supports_resume) cs"
proof -
  have "distinct (map cmd_id (filter interesting_command (dict_values (st_commands st))))"
    using command_ids_distinct [OF assms(1)] by (rule distinct_map_filter)
  then have "distinct (map cmd_id cs)"
    by (simp add: cs_def distinct_map)
  then have "first_by_id [] cs = cs"
    by (simp add: first_by_id_distinct)
  then show "cs \<noteq> [] \<Longrightarrow> classify_conversation st now supports_resume
      = map (\<lambda>c. classify_command c st now supports_resume) cs"
    unfolding classify_conversation_def cs_def Let_def by simp
qed

lemma sort_key_min_first:
  assumes "x \<in> set xs" and "f x = (0 :: nat, t)"
  shows "fst (f (hd (sort_key f xs))) = 0"
proof -
  have "sort_key f xs \<noteq> []" and x: "x \<in> set (sort_key f xs)"
    using assms(1) by (auto dest: arg_cong [where f = set])
  then obtain y ys where y: "sort_key f xs = y # ys" by (cases "sort_key f xs") auto
  have "sorted (map f (sort_key f xs))" by simp
  with y x have "f y \<le> f x" by auto
  with assms(2) y show ?thesis
    by (cases "f y") (auto simp: less_eq_prod_def)
qed

text \<open>C25: recovery never resumes past an ambiguous delivery. In a reachable conversation with a command
  whose delivery may have begun, the first decision is to record an unknown outcome for such a command;
  and as long as some command is unfinished, the decisions are exactly one per unfinished command.\<close>

theorem ambiguous_delivery_decided_first:
  assumes "initial_conversation st0" and "run conversation_step st0 ess st"
    and "c \<in> set (dict_values (st_commands st))" and "ambiguous_delivery c"
  shows "rd_kind (hd (classify_conversation st now supports_resume)) = OUTCOME_UNKNOWN
    \<and> set (map rd_command_id (classify_conversation st now supports_resume))
       = (\<lambda>c. Some (cmd_id c)) ` {c \<in> set (dict_values (st_commands st)). interesting_command c}
    \<and> distinct (map rd_command_id (classify_conversation st now supports_resume))"
proof -
  let ?f = "\<lambda>c. (recovery_rank st c, cmd_created_at c)"
  define xs where "xs = filter interesting_command (dict_values (st_commands st))"
  define cs where "cs = sort_key ?f xs"
  have wf: "wf_state st"
    by (rule conversation.inv_reachable [OF assms(1,2)])
  have "c \<in> set xs"
    using assms(3,4) by (auto simp: xs_def interesting_command_def ambiguous_delivery_def split: if_splits)
  then have ne: "cs \<noteq> []"
    by (auto simp: cs_def dest: arg_cong [where f = set])
  have eq: "classify_conversation st now supports_resume
      = map (\<lambda>c. classify_command c st now supports_resume) cs"
    using classify_conversation_decisions [OF wf] ne unfolding cs_def xs_def by blast
  have ids: "rd_command_id (classify_command c st now supports_resume) = Some (cmd_id c)" for c
    by (simp add: classify_command_def continue_live_work_def Let_def)
  have "recovery_rank st (hd cs) = 0"
    using sort_key_min_first [OF \<open>c \<in> set xs\<close>, of ?f "cmd_created_at c"] assms(4)
    by (simp add: cs_def recovery_rank_def)
  then have "ambiguous_delivery (hd cs)"
    by (auto simp: recovery_rank_def split: if_splits)
  then have "rd_kind (classify_command (hd cs) st now supports_resume) = OUTCOME_UNKNOWN"
    by (auto simp: classify_command_def ambiguous_delivery_def Let_def split: if_splits)
  moreover have "distinct (map (\<lambda>c. Some (cmd_id c)) cs)"
    using command_ids_distinct [OF wf] distinct_map_filter [of cmd_id]
    by (auto simp: cs_def xs_def distinct_map inj_on_def)
  moreover have "set cs = {c \<in> set (dict_values (st_commands st)). interesting_command c}"
    by (simp add: cs_def xs_def)
  ultimately show ?thesis
    using ne by (simp add: eq hd_map ids comp_def image_image)
qed

theorem ambiguous_delivery_decided_first_witness:
  "rd_kind (hd (classify_conversation demo_waiting 200 True)) = OUTCOME_UNKNOWN"
proof -
  have "list_ex ambiguous_delivery (dict_values (st_commands demo_waiting))" by code_simp
  then obtain c where "c \<in> set (dict_values (st_commands demo_waiting))" "ambiguous_delivery c"
    unfolding list_ex_iff by blast
  then show ?thesis
    using ambiguous_delivery_decided_first [OF demo_start_initial demo_opening_run] by blast
qed

section \<open>The batch that ends ambiguous work\<close>

definition unknown_copy :: "uuid option \<Rightarrow> command \<Rightarrow> command" where
  "unknown_copy attempt c = c\<lparr>cmd_status := CMD_OUTCOME_UNKNOWN, cmd_recovery_attempt_id := attempt,
     cmd_worker_id := None, cmd_lease_expires_at := None\<rparr>"

definition file_command :: "conversation_state \<Rightarrow> command \<Rightarrow> conversation_state" where
  "file_command st c = with_commands st (dict_put (st_commands st) (cmd_id c) c)"

record recovery_batch =
  rb_state :: conversation_state
  rb_events :: "conversation_event list"
  rb_commands :: "command list"
  rb_interrupted_turn_id :: "uuid option"

text \<open>The active turn, then the activities that outlived it.\<close>

definition end_live_work ::
  "uuid_supply \<Rightarrow> conversation_state \<Rightarrow> datetime \<Rightarrow> string \<Rightarrow> string
     \<Rightarrow> (conversation_state \<times> conversation_event list) result" where
  "end_live_work u st now phase reason =
     bind_result (case st_active_turn st of
        None \<Rightarrow> Inr (st, [])
      | Some _ \<Rightarrow> bind_result (mark_outcome_unknown u st now (Some phase) (Some reason)) (\<lambda>r.
          Inr (tr_state r, tr_events r))) (\<lambda>(st1, events).
     bind_result (fail_running_activities (drop_supply (length events) u) st1 now ''worker_lost'') (\<lambda>r.
       Inr (tr_state r, events @ tr_events r)))"

text \<open>Every delivery that may have begun, unless it is in the batch already; the loop runs over the table it began with.\<close>

fun fence_in_flight ::
  "uuid option \<Rightarrow> command list \<Rightarrow> conversation_state \<Rightarrow> command list \<Rightarrow> conversation_state \<times> command list" where
  "fence_in_flight attempt [] st batch = (st, batch)"
| "fence_in_flight attempt (c # cs) st batch =
     (if ambiguous_delivery c \<and> cmd_id c \<notin> set (map cmd_id batch)
      then fence_in_flight attempt cs (file_command st (unknown_copy attempt c)) (batch @ [unknown_copy attempt c])
      else fence_in_flight attempt cs st batch)"

text \<open>Last, the rows of all other commands whose outcome is unknown; the state keeps its own copies.\<close>

fun collect_unknown :: "uuid option \<Rightarrow> command list \<Rightarrow> command list \<Rightarrow> command list" where
  "collect_unknown attempt [] batch = batch"
| "collect_unknown attempt (c # cs) batch =
     (if cmd_status c = CMD_OUTCOME_UNKNOWN \<and> cmd_id c \<notin> set (map cmd_id batch)
      then collect_unknown attempt cs (batch @ [c\<lparr>cmd_recovery_attempt_id := attempt, cmd_worker_id := None,
        cmd_lease_expires_at := None\<rparr>])
      else collect_unknown attempt cs batch)"

definition decided_command :: "conversation_state \<Rightarrow> recovery_decision \<Rightarrow> command option" where
  "decided_command st d = (case rd_command_id d of None \<Rightarrow> None | Some i \<Rightarrow> dict_get (st_commands st) i)"

text \<open>The decided command, the deliveries in flight, and the rows that follow them.\<close>

definition settle_deliveries ::
  "uuid option \<Rightarrow> command option \<Rightarrow> conversation_state \<Rightarrow> conversation_state \<times> command list" where
  "settle_deliveries attempt command st =
     (let (st1, batch) = (case command of
            None \<Rightarrow> (st, [])
          | Some c \<Rightarrow>
              let m = unknown_copy attempt (case dict_get (st_commands st) (cmd_id c) of None \<Rightarrow> c | Some x \<Rightarrow> x)
              in (file_command st m, [m]));
          (st2, batch) = fence_in_flight attempt (dict_values (st_commands st1)) st1 batch
      in (st2, collect_unknown attempt (dict_values (st_commands st2)) batch))"

definition outcome_unknown_batch ::
  "uuid_supply \<Rightarrow> conversation_state \<Rightarrow> recovery_decision \<Rightarrow> datetime \<Rightarrow> uuid option \<Rightarrow> recovery_batch result" where
  "outcome_unknown_batch u st d now attempt =
     (let command = decided_command st d; reason = recovery_reason_value (rd_reason_code d) in
      case (is_switch_command command, command) of
        (True, Some c) \<Rightarrow> bind_result (fail_switch u st now reason (Some reason)) (\<lambda>r.
          Inr \<lparr>rb_state = file_command (tr_state r) (unknown_copy attempt c), rb_events = tr_events r,
               rb_commands = [unknown_copy attempt c], rb_interrupted_turn_id = None\<rparr>)
      | _ \<Rightarrow> bind_result
          (end_live_work u st now (delivery_phase_value (rd_observed_delivery_phase d)) reason) (\<lambda>(st1, events).
          let (st2, batch) = settle_deliveries attempt command st1 in
          Inr \<lparr>rb_state = st2, rb_events = events, rb_commands = batch,
               rb_interrupted_turn_id = (if turn_needs_interrupt_messages st (rd_turn_id d) then rd_turn_id d else None)\<rparr>))"

section \<open>Ending the live work\<close>

lemma complete_known_activity:
  assumes "dict_get (st_activities st) k = Some a"
  shows "\<exists>r. complete_activity u st k now ACT_FAILED s = Inr r
     \<and> st_activities (tr_state r) = dict_put (st_activities st) k
         (a\<lparr>act_status := ACT_FAILED, act_completed_at := Some now, act_summary := s\<rparr>)
     \<and> st_commands (tr_state r) = st_commands st \<and> st_active_turn (tr_state r) = st_active_turn st"
  using assms by (simp add: complete_activity_def case_prod_unfold Let_def result_of_def)

lemma fail_each_effect:
  assumes "\<forall>k\<in>set ks. dict_get (st_activities st) k \<noteq> None"
  shows "\<exists>st' es. fail_each_activity u st ks now s = Inr (st', es) \<and> st_commands st' = st_commands st
     \<and> st_active_turn st' = st_active_turn st
     \<and> (\<forall>k a. dict_get (st_activities st') k = Some a \<longrightarrow> act_status a = ACT_RUNNING \<longrightarrow>
          dict_get (st_activities st) k = Some a \<and> k \<notin> set ks)"
  using assms
proof (induction ks arbitrary: u st)
  case (Cons k ks)
  then obtain a where a: "dict_get (st_activities st) k = Some a" by auto
  obtain r where r: "complete_activity u st k now ACT_FAILED (Some s) = Inr r"
    "st_activities (tr_state r) = dict_put (st_activities st) k
       (a\<lparr>act_status := ACT_FAILED, act_completed_at := Some now, act_summary := Some s\<rparr>)"
    "st_commands (tr_state r) = st_commands st" "st_active_turn (tr_state r) = st_active_turn st"
    using complete_known_activity [OF a] by blast
  have "\<forall>j\<in>set ks. dict_get (st_activities (tr_state r)) j \<noteq> None"
    using Cons.prems by (simp add: r(2) dict_get_put)
  from Cons.IH [OF this, of "drop_supply (length (tr_events r)) u"] obtain st' es where
    rest: "fail_each_activity (drop_supply (length (tr_events r)) u) (tr_state r) ks now s = Inr (st', es)"
    "st_commands st' = st_commands st" "st_active_turn st' = st_active_turn st"
    "\<forall>j x. dict_get (st_activities st') j = Some x \<longrightarrow> act_status x = ACT_RUNNING \<longrightarrow>
       dict_get (st_activities (tr_state r)) j = Some x \<and> j \<notin> set ks"
    using r(3,4) by auto
  have "dict_get (st_activities st) j = Some x \<and> j \<noteq> k"
    if "dict_get (st_activities (tr_state r)) j = Some x" "act_status x = ACT_RUNNING" for j x
    using that by (auto simp: r(2) dict_get_put split: if_splits)
  with r(1) rest show ?case by auto
qed simp

lemma keyed_listed:
  assumes keyed: "\<And>k v. dict_get d k = Some v \<Longrightarrow> key v = k" and "distinct (dict_keys d)"
  shows "v \<in> set (dict_values d) \<longleftrightarrow> dict_get d (key v) = Some v"
proof
  assume "v \<in> set (dict_values d)"
  then obtain k where "(k, v) \<in> set d" by auto
  then have "dict_get d k = Some v" using assms(2) by (rule map_of_is_SomeI [rotated])
  with keyed [OF this] show "dict_get d (key v) = Some v" by simp
qed (rule dict_get_in_values)

lemma running_iff:
  assumes "wf_state st"
  shows "a \<in> set (running_activities st) \<longleftrightarrow>
    dict_get (st_activities st) (act_id a) = Some a \<and> act_status a = ACT_RUNNING"
proof -
  have "a \<in> set (dict_values (st_activities st)) \<longleftrightarrow> dict_get (st_activities st) (act_id a) = Some a"
    by (rule keyed_listed [where key = act_id]) (use assms in \<open>simp_all add: wf_state_def wf_tables_def activities.keyed_def\<close>)
  then show ?thesis by (simp add: running_activities_def)
qed

lemma end_live_work_effect:
  assumes wf: "wf_state st"
  shows "\<exists>st1 es. end_live_work u st now phase reason = Inr (st1, es) \<and> sound_step st es st1
     \<and> st_active_turn st1 = None \<and> running_activities st1 = []
     \<and> st_commands st1 = (case st_active_turn st of None \<Rightarrow> st_commands st
          | Some t \<Rightarrow> update_turn_command (st_commands st) t (\<lambda>c. c\<lparr>cmd_status := CMD_OUTCOME_UNKNOWN\<rparr>))"
proof -
  define turn where "turn = (case st_active_turn st of
        None \<Rightarrow> Inr (st, [])
      | Some _ \<Rightarrow> bind_result (mark_outcome_unknown u st now (Some phase) (Some reason)) (\<lambda>r.
          Inr (tr_state r, tr_events r)))"
  have "\<exists>st1 es. turn = Inr (st1, es) \<and> sound_step st es st1 \<and> st_active_turn st1 = None
     \<and> st_commands st1 = (case st_active_turn st of None \<Rightarrow> st_commands st
          | Some t \<Rightarrow> update_turn_command (st_commands st) t (\<lambda>c. c\<lparr>cmd_status := CMD_OUTCOME_UNKNOWN\<rparr>))"
  proof (cases "st_active_turn st")
    case None
    then show ?thesis by (simp add: turn_def sound_step_refl [OF wf])
  next
    case (Some t)
    define r where "r = end_active_turn u st now (\<lambda>c. c\<lparr>cmd_status := CMD_OUTCOME_UNKNOWN\<rparr>)
      (\<lambda>t. TurnOutcomeUnknown (turn_id t) (turn_command_id t) (Some phase) (Some reason))"
    have "mark_outcome_unknown u st now (Some phase) (Some reason) = Inr r"
      using Some by (simp add: mark_outcome_unknown_def r_def)
    moreover from this have "sound_step st (tr_events r) (tr_state r)"
      using sound_turn_end [OF wf] by blast
    moreover have "st_active_turn (tr_state r) = None"
      "st_commands (tr_state r) = update_turn_command (st_commands st) t (\<lambda>c. c\<lparr>cmd_status := CMD_OUTCOME_UNKNOWN\<rparr>)"
      unfolding r_def by (rule end_active_turn_effect [OF wf Some]; simp)+
    ultimately show ?thesis
      using Some by (simp add: turn_def)
  qed
  then obtain st1 es where st1: "turn = Inr (st1, es)" "sound_step st es st1" "st_active_turn st1 = None"
    "st_commands st1 = (case st_active_turn st of None \<Rightarrow> st_commands st
       | Some t \<Rightarrow> update_turn_command (st_commands st) t (\<lambda>c. c\<lparr>cmd_status := CMD_OUTCOME_UNKNOWN\<rparr>))"
    by blast
  have wf1: "wf_state st1" by (rule sound_step_wf [OF st1(2)])
  have "\<forall>k\<in>set (map act_id (running_activities st1)). dict_get (st_activities st1) k \<noteq> None"
    using running_iff [OF wf1] by auto
  from fail_each_effect [OF this] obtain st2 es2 where
    st2: "fail_each_activity (drop_supply (length es) u) st1 (map act_id (running_activities st1)) now ''worker_lost''
       = Inr (st2, es2)" "st_commands st2 = st_commands st1" "st_active_turn st2 = st_active_turn st1"
    "\<forall>k a. dict_get (st_activities st2) k = Some a \<longrightarrow> act_status a = ACT_RUNNING \<longrightarrow>
       dict_get (st_activities st1) k = Some a \<and> k \<notin> set (map act_id (running_activities st1))"
    by blast
  have sound: "sound_step st1 es2 st2" by (rule sound_fail_each_activity [OF wf1 st2(1)])
  have "a \<notin> set (running_activities st2)" for a
    using st2(4) running_iff [OF wf1, of a] running_iff [OF sound_step_wf [OF sound], of a] by force
  then have "running_activities st2 = []" by (cases "running_activities st2") auto
  moreover have "end_live_work u st now phase reason = Inr (st2, es @ es2)"
    using st1(1) st2(1) by (simp add: end_live_work_def turn_def fail_running_activities_def result_of_def)
  ultimately show ?thesis
    using st1 st2(2,3) sound_step_trans [OF st1(2) sound] by auto
qed

section \<open>Fencing what is in flight\<close>

definition settled_as :: "uuid option \<Rightarrow> command \<Rightarrow> bool" where
  "settled_as attempt c \<longleftrightarrow> cmd_status c = CMD_OUTCOME_UNKNOWN \<and> cmd_recovery_attempt_id c = attempt
     \<and> cmd_worker_id c = None \<and> cmd_lease_expires_at c = None"

lemma unknown_copy_simps [simp]:
  "cmd_id (unknown_copy attempt c) = cmd_id c" "cmd_status (unknown_copy attempt c) = CMD_OUTCOME_UNKNOWN"
  "settled_as attempt (unknown_copy attempt c)"
  "cmd_idempotency_key (unknown_copy attempt c) = cmd_idempotency_key c"
  "kind_matches_payload (unknown_copy attempt c) = kind_matches_payload c"
  by (simp_all add: unknown_copy_def settled_as_def kind_matches_payload_def)

lemma file_command_get:
  "dict_get (st_commands (file_command st c)) i = (if i = cmd_id c then Some c else dict_get (st_commands st) i)"
  by (simp add: file_command_def with_commands_def dict_get_put)

lemma file_command_frame [simp]:
  "st_active_turn (file_command st c) = st_active_turn st" "running_activities (file_command st c) = running_activities st"
  by (simp_all add: file_command_def with_commands_def running_activities_def)

lemma sound_file:
  assumes wf: "wf_state st" and c: "storable (st_commands st) c"
  shows "sound_step st [] (file_command st c)"
proof -
  let ?s = "file_command st c"
  note eqs = file_command_def with_commands_def
  have table: "wf_command_table (st_commands ?s)" "commands_kept (st_commands st) (st_commands ?s)"
    using store_command [OF wf_state_command_table [OF wf] c] by (simp_all add: eqs)
  have "wf_turns ?s = wf_turns st" "wf_interactions ?s = wf_interactions st" "wf_binding ?s = wf_binding st"
    "status_consistent ?s = status_consistent st" "project ?s = project st"
    by (rule wf_turns_cong wf_interactions_cong wf_binding_cong status_consistent_cong project_cong; simp add: eqs)+
  moreover have "wf_tables ?s"
    using wf table(1) by (simp add: wf_state_def wf_tables_def wf_command_table_def eqs)
  ultimately show ?thesis
    using wf table by (simp add: sound_step_def wf_state_def wf_command_table_def numbered_def) (simp add: eqs)
qed

text \<open>A copy of a command of the table, perhaps an older one, may be stored over it.\<close>

definition known :: "conversation_state \<Rightarrow> command \<Rightarrow> bool" where
  "known st c \<longleftrightarrow> kind_matches_payload c
     \<and> (\<exists>y. dict_get (st_commands st) (cmd_id c) = Some y \<and> cmd_idempotency_key y = cmd_idempotency_key c)"

lemma known_storable: "known st c \<Longrightarrow> storable (st_commands st) (unknown_copy attempt c)"
  by (auto simp: known_def storable_def)

lemma known_later: "known st c \<Longrightarrow> sound_step st es st' \<Longrightarrow> known st' c"
  unfolding known_def sound_step_def commands_kept_def by metis

lemma listed_command:
  assumes "wf_state st" and "c \<in> set (dict_values (st_commands st))"
  shows "dict_get (st_commands st) (cmd_id c) = Some c" and "known st c"
proof -
  have "c \<in> set (dict_values (st_commands st)) \<longleftrightarrow> dict_get (st_commands st) (cmd_id c) = Some c"
    by (rule keyed_listed [where key = cmd_id]) (use assms(1) in \<open>simp_all add: wf_state_def wf_tables_def commands.keyed_def\<close>)
  with assms(2) show get: "dict_get (st_commands st) (cmd_id c) = Some c" by simp
  have "wf_commands (st_commands st)"
    using assms(1) by (simp add: wf_state_def)
  with get show "known st c" unfolding known_def wf_commands_def by blast
qed

lemma command_listed: "dict_get (st_commands st) i = Some c \<Longrightarrow> c \<in> set (dict_values (st_commands st))"
  by (rule dict_get_in_values)

lemma sound_fence:
  assumes "wf_state st" and "\<forall>c\<in>set cs. known st c"
  shows "sound_step st [] (fst (fence_in_flight attempt cs st batch))"
  using assms
proof (induction attempt cs st batch rule: fence_in_flight.induct)
  case (1 attempt st batch)
  then show ?case by (simp add: sound_step_refl)
next
  case (2 attempt c cs st batch)
  show ?case
  proof (cases "ambiguous_delivery c \<and> cmd_id c \<notin> set (map cmd_id batch)")
    case True
    have step: "sound_step st [] (file_command st (unknown_copy attempt c))"
      using "2.prems" by (intro sound_file known_storable) simp_all
    have "sound_step (file_command st (unknown_copy attempt c)) []
       (fst (fence_in_flight attempt cs (file_command st (unknown_copy attempt c)) (batch @ [unknown_copy attempt c])))"
      using "2.prems"(2) known_later [OF _ step] by (intro "2.IH"(1) [OF True] sound_step_wf [OF step]) simp
    with True sound_step_trans [OF step] show ?thesis by fastforce
  next
    case False
    with "2.IH"(2) [OF False] "2.prems" show ?thesis by auto
  qed
qed

lemma fence_frame:
  "st_active_turn (fst (fence_in_flight attempt cs st batch)) = st_active_turn st
     \<and> running_activities (fst (fence_in_flight attempt cs st batch)) = running_activities st"
  by (induction attempt cs st batch rule: fence_in_flight.induct) auto

text \<open>What is still ambiguous in the table afterwards was in the batch before, or not in the list.\<close>

lemma fence_table:
  assumes "dict_get (st_commands (fst (fence_in_flight attempt cs st batch))) i = Some c"
  shows "cmd_status c = CMD_OUTCOME_UNKNOWN \<or> (dict_get (st_commands st) i = Some c
     \<and> (\<forall>x\<in>set cs. cmd_id x = i \<longrightarrow> ambiguous_delivery x \<longrightarrow> i \<in> set (map cmd_id batch)))"
  using assms
proof (induction attempt cs st batch rule: fence_in_flight.induct)
  case (2 attempt x cs st batch)
  show ?case
  proof (cases "ambiguous_delivery x \<and> cmd_id x \<notin> set (map cmd_id batch)")
    case True
    with "2.IH"(1) [OF True] "2.prems" show ?thesis
      by (auto simp: file_command_get split: if_splits)
  next
    case False
    with "2.IH"(2) [OF False] "2.prems" show ?thesis by auto
  qed
qed simp

lemma fence_keeps:
  "dict_get (st_commands st) i = Some c \<Longrightarrow>
     \<exists>y. dict_get (st_commands (fst (fence_in_flight attempt cs st batch))) i = Some y
       \<and> (y = c \<or> cmd_status y = CMD_OUTCOME_UNKNOWN)"
proof (induction attempt cs st batch arbitrary: c rule: fence_in_flight.induct)
  case (2 attempt x cs st batch)
  show ?case
  proof (cases "ambiguous_delivery x \<and> cmd_id x \<notin> set (map cmd_id batch)")
    case True
    let ?s = "file_command st (unknown_copy attempt x)"
    have "\<exists>d. dict_get (st_commands ?s) i = Some d \<and> (d = c \<or> cmd_status d = CMD_OUTCOME_UNKNOWN)"
      using "2.prems" by (simp add: file_command_get)
    then obtain d where "dict_get (st_commands ?s) i = Some d" "d = c \<or> cmd_status d = CMD_OUTCOME_UNKNOWN"
      by blast
    with "2.IH"(1) [OF True, of d] True show ?thesis by auto
  next
    case False
    with "2.IH"(2) [OF False] "2.prems" show ?thesis by auto
  qed
qed simp

lemma fence_batch:
  assumes "list_all (settled_as attempt) batch"
  shows "list_all (settled_as attempt) (snd (fence_in_flight attempt cs st batch))
     \<and> cmd_id ` (set batch \<union> {c \<in> set cs. ambiguous_delivery c})
         \<subseteq> cmd_id ` set (snd (fence_in_flight attempt cs st batch))"
  using assms
  by (induction attempt cs st batch rule: fence_in_flight.induct) (auto simp: image_iff)

lemma collect_batch:
  assumes "list_all (settled_as attempt) batch"
  shows "list_all (settled_as attempt) (collect_unknown attempt cs batch)
     \<and> cmd_id ` (set batch \<union> {c \<in> set cs. cmd_status c = CMD_OUTCOME_UNKNOWN})
         \<subseteq> cmd_id ` set (collect_unknown attempt cs batch)"
  using assms
  by (induction attempt cs batch rule: collect_unknown.induct) (auto simp: settled_as_def image_iff)

text \<open>The decided command first: it is settled whatever its status was.\<close>

definition settle_decided ::
  "uuid option \<Rightarrow> command option \<Rightarrow> conversation_state \<Rightarrow> conversation_state \<times> command list" where
  "settle_decided attempt command st = (case command of
     None \<Rightarrow> (st, [])
   | Some c \<Rightarrow> let m = unknown_copy attempt (case dict_get (st_commands st) (cmd_id c) of None \<Rightarrow> c | Some x \<Rightarrow> x)
       in (file_command st m, [m]))"

lemma settle_deliveries_parts:
  "settle_deliveries attempt command st = (let (st1, batch) = settle_decided attempt command st;
     (st2, batch) = fence_in_flight attempt (dict_values (st_commands st1)) st1 batch
     in (st2, collect_unknown attempt (dict_values (st_commands st2)) batch))"
  by (simp add: settle_deliveries_def settle_decided_def)

lemma settle_decided_effect:
  assumes wf: "wf_state st" and known: "\<And>c. command = Some c \<Longrightarrow> known st c"
    and parts: "settle_decided attempt command st = (st1, batch)"
  shows "sound_step st [] st1" "list_all (settled_as attempt) batch"
    "st_active_turn st1 = st_active_turn st" "running_activities st1 = running_activities st"
    "cmd_id ` set batch = (case command of None \<Rightarrow> {} | Some c \<Rightarrow> {cmd_id c})"
    "dict_get (st_commands st1) i = (if i \<in> cmd_id ` set batch then Some (hd batch) else dict_get (st_commands st) i)"
proof -
  have "sound_step st [] st1 \<and> list_all (settled_as attempt) batch \<and> st_active_turn st1 = st_active_turn st
     \<and> running_activities st1 = running_activities st
     \<and> cmd_id ` set batch = (case command of None \<Rightarrow> {} | Some c \<Rightarrow> {cmd_id c})
     \<and> dict_get (st_commands st1) i = (if i \<in> cmd_id ` set batch then Some (hd batch) else dict_get (st_commands st) i)"
  proof (cases command)
    case None
    with parts sound_step_refl [OF wf] show ?thesis by (auto simp: settle_decided_def)
  next
    case (Some c)
    then obtain y where y: "dict_get (st_commands st) (cmd_id c) = Some y"
      using known by (auto simp: known_def)
    then have "y \<in> set (dict_values (st_commands st))" by (rule dict_get_in_values)
    then have "known st y" and "dict_get (st_commands st) (cmd_id y) = Some y"
      using listed_command [OF wf] by blast+
    moreover have "cmd_id y = cmd_id c"
      using wf y by (auto simp: wf_state_def wf_tables_def commands.keyed_def)
    moreover have "st1 = file_command st (unknown_copy attempt y)" "batch = [unknown_copy attempt y]"
      using parts Some y by (simp_all add: settle_decided_def Let_def)
    ultimately show ?thesis
      using Some by (auto simp: file_command_get intro!: sound_file [OF wf] known_storable)
  qed
  then show "sound_step st [] st1" "list_all (settled_as attempt) batch"
    "st_active_turn st1 = st_active_turn st" "running_activities st1 = running_activities st"
    "cmd_id ` set batch = (case command of None \<Rightarrow> {} | Some c \<Rightarrow> {cmd_id c})"
    "dict_get (st_commands st1) i = (if i \<in> cmd_id ` set batch then Some (hd batch) else dict_get (st_commands st) i)"
    by blast+
qed

definition covers_unknown :: "command list \<Rightarrow> command list \<Rightarrow> bool" where
  "covers_unknown batch cs \<longleftrightarrow> cmd_id ` {c \<in> set cs. ambiguous_delivery c \<or> cmd_status c = CMD_OUTCOME_UNKNOWN}
     \<subseteq> cmd_id ` set batch"

lemma settle_deliveries_effect:
  assumes wf: "wf_state st" and known: "\<And>c. command = Some c \<Longrightarrow> known st c"
    and parts: "settle_deliveries attempt command st = (st', batch)"
  shows "sound_step st [] st'" "st_active_turn st' = st_active_turn st" "running_activities st' = running_activities st"
    "\<not> list_ex ambiguous_delivery (dict_values (st_commands st'))" "list_all (settled_as attempt) batch"
    "covers_unknown batch (dict_values (st_commands st))" "\<And>c. command = Some c \<Longrightarrow> cmd_id c \<in> cmd_id ` set batch"
proof -
  obtain st1 batch1 where one: "settle_decided attempt command st = (st1, batch1)" by force
  note first = settle_decided_effect [OF wf known one]
  have wf1: "wf_state st1" by (rule sound_step_wf [OF first(1)])
  let ?cs = "dict_values (st_commands st1)"
  obtain batch2 where two: "fence_in_flight attempt ?cs st1 batch1 = (st', batch2)"
    and batch: "batch = collect_unknown attempt (dict_values (st_commands st')) batch2"
    using parts one by (auto simp: settle_deliveries_parts split: prod.splits)
  have listed: "dict_get (st_commands st1) (cmd_id c) = Some c" "known st1 c" if "c \<in> set ?cs" for c
    using listed_command [OF wf1 that] by blast+
  have sound2: "sound_step st1 [] st'"
    using sound_fence [OF wf1, of ?cs attempt batch1] listed(2) two by simp
  with first(1) show "sound_step st [] st'" using sound_step_trans by fastforce
  show "st_active_turn st' = st_active_turn st" "running_activities st' = running_activities st"
    using fence_frame [of attempt ?cs st1 batch1] two first(3,4) by simp_all
  have settled2: "list_all (settled_as attempt) batch2"
    and ids2: "cmd_id ` (set batch1 \<union> {c \<in> set ?cs. ambiguous_delivery c}) \<subseteq> cmd_id ` set batch2"
    using fence_batch [OF first(2), of ?cs st1] two by simp_all
  show "list_all (settled_as attempt) batch"
    using collect_batch [OF settled2] batch by blast
  have ids: "cmd_id ` (set batch2 \<union> {c \<in> set (dict_values (st_commands st')). cmd_status c = CMD_OUTCOME_UNKNOWN})
      \<subseteq> cmd_id ` set batch"
    using collect_batch [OF settled2] batch by blast
  show "cmd_id c \<in> cmd_id ` set batch" if "command = Some c" for c
  proof -
    have "cmd_id c \<in> cmd_id ` set batch1" using first(5) that by simp
    then show ?thesis using ids2 ids by blast
  qed
  show "\<not> list_ex ambiguous_delivery (dict_values (st_commands st'))"
  proof (unfold list_ex_iff, rule notI, elim bexE)
    fix c assume "c \<in> set (dict_values (st_commands st'))" and amb: "ambiguous_delivery c"
    then have get: "dict_get (st_commands st') (cmd_id c) = Some c"
      using listed_command(1) [OF sound_step_wf [OF sound2]] by blast
    have "cmd_status c \<noteq> CMD_OUTCOME_UNKNOWN"
      using amb by (auto simp: ambiguous_delivery_def split: if_splits)
    with fence_table [of attempt ?cs st1 batch1 "cmd_id c" c] two get
    have c1: "dict_get (st_commands st1) (cmd_id c) = Some c"
      and "\<forall>x\<in>set ?cs. cmd_id x = cmd_id c \<longrightarrow> ambiguous_delivery x \<longrightarrow> cmd_id c \<in> set (map cmd_id batch1)"
      by auto
    then have "cmd_id c \<in> cmd_id ` set batch1"
      using amb dict_get_in_values [OF c1] by auto
    then have "c = hd batch1" "batch1 \<noteq> []"
      using c1 first(6) [of "cmd_id c"] by auto
    then have "settled_as attempt c"
      using first(2) by (cases batch1) auto
    with \<open>cmd_status c \<noteq> CMD_OUTCOME_UNKNOWN\<close> show False by (simp add: settled_as_def)
  qed
  show "covers_unknown batch (dict_values (st_commands st))"
  proof (unfold covers_unknown_def, rule subsetI, elim imageE CollectE conjE)
    fix i c assume i: "i = cmd_id c" and c: "c \<in> set (dict_values (st_commands st))"
      and unknown: "ambiguous_delivery c \<or> cmd_status c = CMD_OUTCOME_UNKNOWN"
    show "i \<in> cmd_id ` set batch"
    proof (cases "i \<in> cmd_id ` set batch1")
      case True
      then show ?thesis using ids2 ids by blast
    next
      case False
      then have get: "dict_get (st_commands st1) i = Some c"
        using first(6) [of i] listed_command(1) [OF wf c] i by simp
      show ?thesis
      proof (cases "ambiguous_delivery c")
        case True
        with dict_get_in_values [OF get] i ids2 ids show ?thesis by blast
      next
        case False
        obtain y where y: "dict_get (st_commands st') i = Some y" "y = c \<or> cmd_status y = CMD_OUTCOME_UNKNOWN"
          using fence_keeps [OF get, of attempt ?cs batch1] two by auto
        have "cmd_id y = i"
          using sound_step_wf [OF sound2] y(1) by (auto simp: wf_state_def wf_tables_def commands.keyed_def)
        moreover have "cmd_status y = CMD_OUTCOME_UNKNOWN" using y(2) False unknown by blast
        ultimately show ?thesis using dict_get_in_values [OF y(1)] ids by blast
      qed
    qed
  qed
qed

section \<open>Nothing is left in flight\<close>

lemma update_turn_command_lookup:
  assumes "commands.keyed d" and "dict_get d i = Some c"
  shows "\<exists>y. dict_get (update_turn_command d t f) i = Some y \<and> (y = c \<or> y = f c)"
proof -
  have "cmd_id x = j" if "dict_get d j = Some x" for j x
    using assms(1) that by (rule commands.keyed_lookup)
  with assms(2) show ?thesis
    by (auto simp: update_turn_command_def dict_get_put split: option.split)
qed



text \<open>
  The last loop is meant for the commands the end of the turn flipped, but it takes every command whose
  outcome is unknown: a row that an earlier recovery settled is written again, under the new attempt.
\<close>

lemma earlier_attempt_overwritten:
  assumes "cmd_status c = CMD_OUTCOME_UNKNOWN" and "cmd_recovery_attempt_id c = Some earlier"
  shows "collect_unknown attempt [c] [] = [c\<lparr>cmd_recovery_attempt_id := attempt, cmd_worker_id := None,
    cmd_lease_expires_at := None\<rparr>]"
  using assms by simp

end
