(* ===== verification/Pure_Path.thy ===== *)
theory Pure_Path
  imports Prelude
begin

text \<open>
  The part of Python 3.12's \<open>pathlib\<close> that the approval rules use: \<open>PurePosixPath\<close> and
  \<open>PureWindowsPath\<close> as they parse, print and compare a path (\<open>posixpath.splitroot\<close>,
  \<open>ntpath.splitroot\<close>, \<open>_parse_path\<close>, \<open>_format_parsed_parts\<close>, \<open>relative_to\<close>). The lemmas give the
  comparison of absolute POSIX paths in terms of their components.
\<close>

datatype flavour = POSIX | WINDOWS

section \<open>Splitting and joining\<close>

text \<open>\<open>s.split(sep)\<close>.\<close>

fun split_on :: "char \<Rightarrow> string \<Rightarrow> string list" where
  "split_on sep [] = [[]]"
| "split_on sep (c # cs) =
     (if c = sep then [] # split_on sep cs
      else case split_on sep cs of [] \<Rightarrow> [[c]] | p # ps \<Rightarrow> (c # p) # ps)"

lemma split_on_nonempty [simp]: "split_on sep s \<noteq> []"
  by (induction sep s rule: split_on.induct) (auto split: list.split)

lemma split_on_free: "sep \<notin> set s \<Longrightarrow> split_on sep s = [s]"
  by (induction sep s rule: split_on.induct) auto

lemma split_on_append:
  "sep \<notin> set s \<Longrightarrow> split_on sep (s @ sep # t) = s # split_on sep t"
  by (induction sep s rule: split_on.induct) (auto split: list.split)

lemma split_on_join:
  "xs \<noteq> [] \<Longrightarrow> \<forall>x \<in> set xs. sep \<notin> set x \<Longrightarrow> split_on sep (py_join [sep] xs) = xs"
  by (induction "[sep]" xs rule: py_join.induct) (auto simp: split_on_free split_on_append)

lemma split_on_parts: "p \<in> set (split_on sep s) \<Longrightarrow> sep \<notin> set p"
  by (induction sep s arbitrary: p rule: split_on.induct) (auto split: list.splits if_splits)

section \<open>Parsing\<close>

text \<open>\<open>posixpath.splitroot\<close>: exactly two leading slashes are a root of their own.\<close>

definition posix_splitroot :: "string \<Rightarrow> string \<times> string \<times> string" where
  "posix_splitroot p =
     (if take 1 p \<noteq> ''/'' then ([], [], p)
      else if take 1 (drop 1 p) \<noteq> ''/'' \<or> take 1 (drop 2 p) = ''/'' then ([], ''/'', drop 1 p)
      else ([], take 2 p, drop 2 p))"

definition backslash :: char where
  "backslash = CHR 0x5C"

text \<open>\<open>normp.find(sep, start)\<close>.\<close>

definition find_from :: "char \<Rightarrow> nat \<Rightarrow> string \<Rightarrow> nat option" where
  "find_from c start s =
     (let i = length (takeWhile (\<lambda>x. x \<noteq> c) (drop start s)) in
      if start + i < length s then Some (start + i) else None)"

definition ascii_upper :: "char \<Rightarrow> char" where
  "ascii_upper c = (let n = (of_char c :: nat) in if 97 \<le> n \<and> n \<le> 122 then char_of (n - 32) else c)"

text \<open>\<open>ntpath.splitroot\<close> of a path whose slashes are already backslashes.\<close>

definition windows_splitroot :: "string \<Rightarrow> string \<times> string \<times> string" where
  "windows_splitroot p =
     (if take 1 p = [backslash] then
        (if take 1 (drop 1 p) = [backslash] then
           (let unc = [backslash, backslash, CHR ''?'', backslash] @ ''UNC'' @ [backslash];
                start = (if map ascii_upper (take 8 p) = unc then 8 else 2)
            in case find_from backslash start p of
                 None \<Rightarrow> (p, [], [])
               | Some i \<Rightarrow>
                   (case find_from backslash (i + 1) p of
                      None \<Rightarrow> (p, [], [])
                    | Some j \<Rightarrow> (take j p, take 1 (drop j p), drop (j + 1) p)))
         else ([], take 1 p, drop 1 p))
      else if take 1 (drop 1 p) = '':'' then
        (if take 1 (drop 2 p) = [backslash] then (take 2 p, take 1 (drop 2 p), drop 3 p)
         else (take 2 p, [], drop 2 p))
      else ([], [], p))"

definition path_sep :: "flavour \<Rightarrow> char" where
  "path_sep f = (case f of POSIX \<Rightarrow> CHR ''/'' | WINDOWS \<Rightarrow> backslash)"

definition path_components :: "char \<Rightarrow> string \<Rightarrow> string list" where
  "path_components sep rel = filter (\<lambda>x. x \<noteq> [] \<and> x \<noteq> ''.'') (split_on sep rel)"

text \<open>\<open>_parse_path\<close>: drive, root and tail.\<close>

definition parse_path :: "flavour \<Rightarrow> string \<Rightarrow> string \<times> string \<times> string list" where
  "parse_path f path =
     (if path = [] then ([], [], [])
      else case f of
        POSIX \<Rightarrow> (let (drv, root, rel) = posix_splitroot path in (drv, root, path_components (CHR ''/'') rel))
      | WINDOWS \<Rightarrow>
          (let (drv, root, rel) = windows_splitroot (map (\<lambda>c. if c = CHR ''/'' then backslash else c) path);
               parts = split_on backslash drv;
               root = (if root = [] \<and> take 1 drv = [backslash] \<and> last drv \<noteq> backslash
                          \<and> (length parts = 4 \<and> parts ! 2 \<notin> {[], ''?'', ''.'', ''?.''} \<or> length parts = 6)
                       then [backslash] else root)
           in (drv, root, path_components backslash rel)))"

section \<open>Printing and comparing\<close>

text \<open>\<open>_format_parsed_parts\<close>, and \<open>str(path)\<close> which is \<open>.\<close> for the empty path.\<close>

definition format_parts :: "flavour \<Rightarrow> string \<Rightarrow> string \<Rightarrow> string list \<Rightarrow> string" where
  "format_parts f drv root tail =
     (let sep = [path_sep f] in
      if drv \<noteq> [] \<or> root \<noteq> [] then drv @ root @ py_join sep tail
      else if f = WINDOWS \<and> tail \<noteq> [] \<and> fst (windows_splitroot (hd tail)) \<noteq> []
        then py_join sep (''.'' # tail)
      else py_join sep tail)"

definition parts_str :: "flavour \<Rightarrow> string \<Rightarrow> string \<Rightarrow> string list \<Rightarrow> string" where
  "parts_str f drv root tail =
     (let s = format_parts f drv root tail in if s = [] then ''.'' else s)"

text \<open>\<open>str.lower()\<close> of code points below 256.\<close>

definition latin1_lower :: "char \<Rightarrow> char" where
  "latin1_lower c = (let n = (of_char c :: nat) in
     if (65 \<le> n \<and> n \<le> 90) \<or> (192 \<le> n \<and> n \<le> 222 \<and> n \<noteq> 215) then char_of (n + 32) else c)"

definition path_key :: "flavour \<Rightarrow> string \<Rightarrow> string" where
  "path_key f s = (case f of POSIX \<Rightarrow> s | WINDOWS \<Rightarrow> map latin1_lower s)"

definition path_equal :: "flavour \<Rightarrow> string \<Rightarrow> string \<Rightarrow> bool" where
  "path_equal f p q =
     (let (d, r, t) = parse_path f p; (d', r', t') = parse_path f q
      in path_key f (parts_str f d r t) = path_key f (parts_str f d' r' t'))"

text \<open>\<open>path.relative_to(other)\<close> does not raise: the other path is this one or one of its parents.\<close>

definition relative_to :: "flavour \<Rightarrow> string \<Rightarrow> string \<Rightarrow> bool" where
  "relative_to f p other =
     (let (d, r, t) = parse_path f p; (d', r', t') = parse_path f other
      in path_key f (parts_str f d' r' t')
           \<in> set (map (\<lambda>k. path_key f (parts_str f d r (take k t))) [0..<Suc (length t)]))"

section \<open>Absolute POSIX paths\<close>

definition posix_absolute :: "string \<Rightarrow> bool" where
  "posix_absolute p \<longleftrightarrow> take 1 p = ''/'' \<and> take 1 (drop 1 p) \<noteq> ''/''"

definition posix_components :: "string \<Rightarrow> string list" where
  "posix_components p = path_components (CHR ''/'') (drop 1 p)"

lemma path_components_free:
  "x \<in> set (path_components sep rel) \<Longrightarrow> sep \<notin> set x \<and> x \<noteq> []"
  by (auto simp: path_components_def dest: split_on_parts)

lemma parse_posix_absolute:
  "posix_absolute p \<Longrightarrow> parse_path POSIX p = ([], ''/'', posix_components p)"
  by (auto simp: parse_path_def posix_absolute_def posix_splitroot_def posix_components_def)

lemma join_free_inj:
  assumes "\<forall>x \<in> set xs. sep \<notin> set x \<and> x \<noteq> []" and "\<forall>x \<in> set ys. sep \<notin> set x \<and> x \<noteq> []"
  shows "py_join [sep] xs = py_join [sep] ys \<longleftrightarrow> xs = ys"
proof
  assume eq: "py_join [sep] xs = py_join [sep] ys"
  have empty: "py_join [sep] zs = [] \<longleftrightarrow> zs = []" if "\<forall>x \<in> set zs. sep \<notin> set x \<and> x \<noteq> []" for zs
    using that by (cases "([sep], zs)" rule: py_join.cases) auto
  show "xs = ys"
  proof (cases "xs = [] \<or> ys = []")
    case True
    with eq empty assms show ?thesis by metis
  next
    case False
    with eq assms split_on_join [of xs sep] split_on_join [of ys sep] show ?thesis by metis
  qed
qed simp

text \<open>The printed form of an absolute path determines its components.\<close>

lemma posix_str_inj:
  assumes "\<forall>x \<in> set xs. CHR ''/'' \<notin> set x \<and> x \<noteq> []" and "\<forall>x \<in> set ys. CHR ''/'' \<notin> set x \<and> x \<noteq> []"
  shows "parts_str POSIX [] ''/'' xs = parts_str POSIX [] ''/'' ys \<longleftrightarrow> xs = ys"
  using join_free_inj [OF assms] by (simp add: parts_str_def format_parts_def path_sep_def)

lemma relative_to_posix_absolute:
  assumes "posix_absolute p" and "posix_absolute q"
  shows "relative_to POSIX p q \<longleftrightarrow> (\<exists>rest. posix_components p = posix_components q @ rest)"
proof -
  let ?t = "posix_components p" and ?q = "posix_components q"
  have free: "\<forall>x \<in> set ?t. CHR ''/'' \<notin> set x \<and> x \<noteq> []" "\<forall>x \<in> set ?q. CHR ''/'' \<notin> set x \<and> x \<noteq> []"
    using path_components_free by (auto simp: posix_components_def)
  then have "parts_str POSIX [] ''/'' ?q = parts_str POSIX [] ''/'' (take k ?t) \<longleftrightarrow> ?q = take k ?t" for k
    by (intro posix_str_inj) (auto dest: in_set_takeD)
  then have "relative_to POSIX p q \<longleftrightarrow> (\<exists>k \<le> length ?t. ?q = take k ?t)"
    by (auto simp: relative_to_def parse_posix_absolute assms path_key_def less_Suc_eq_le image_iff
        simp del: upt_Suc)
  also have "\<dots> \<longleftrightarrow> (\<exists>rest. ?t = ?q @ rest)"
    by (metis append_eq_conv_conj append_take_drop_id length_append le_add1)
  finally show ?thesis .
qed

lemma path_equal_posix_absolute:
  assumes "posix_absolute p" and "posix_absolute q"
  shows "path_equal POSIX p q \<longleftrightarrow> posix_components p = posix_components q"
proof -
  have "\<forall>x \<in> set (posix_components r). CHR ''/'' \<notin> set x \<and> x \<noteq> []" for r
    using path_components_free by (auto simp: posix_components_def)
  then show ?thesis
    using posix_str_inj by (simp add: path_equal_def parse_posix_absolute assms path_key_def)
qed

end
