(* ===== verification/Approval_Matching.thy ===== *)
theory Approval_Matching
  imports Pure_Path Domain_Models "HOL-Library.Multiset"
begin

text \<open>
  Approval rules (\<open>src/talktoharnesses/domain/approval_matching.py\<close>): which rule decides an
  interaction automatically. A rule applies by principal, scope and matcher; among the applicable
  rules a deny wins, and specificity only chooses which rule is recorded. The file system behind
  \<open>Path.resolve(strict=True)\<close>, \<open>Path.is_dir\<close> and the executable resolver are parameters.
\<close>

section \<open>Ranks and contexts\<close>

fun scope_rank :: "approval_rule_scope \<Rightarrow> nat" where
  "scope_rank (ConversationRuleScope _) = 0"
| "scope_rank (HarnessInstanceRuleScope _) = 1"
| "scope_rank (ExecutableRuleScope _) = 2"
| "scope_rank (UserRuleScope _) = 3"
| "scope_rank PrincipalGlobalRuleScope = 4"

fun matcher_rank :: "approval_matcher \<Rightarrow> nat" where
  "matcher_rank (ExactArgvMatcher _) = 0"
| "matcher_rank (ExactPathMatcher _ _) = 0"
| "matcher_rank (RecursiveDirectoryMatcher _ _) = 1"
| "matcher_rank BlanketNetworkMatcher = 0"

record match_context =
  ctx_principal_id :: string
  ctx_conversation_id :: uuid
  ctx_owner_id :: string
  ctx_binding :: "binding option"
  ctx_working_directory :: "string option"

record match_decision =
  md_decision :: "approval_rule_decision option"
  md_rule :: "approval_rule option"

section \<open>Normalization\<close>

text \<open>
  \<open>Path\<close> on the server is a POSIX path. \<open>resolve_strict\<close> is \<open>str(Path(p).resolve(strict=True))\<close>,
  \<open>None\<close> where it raises; \<open>is_dir\<close> is \<open>Path.is_dir\<close>; \<open>resolve_executable\<close> is the resolver of the
  runtime. A \<open>ValueError\<close> is raised with its message.
\<close>

definition path_str :: "string \<Rightarrow> string" where
  "path_str p = (let (d, r, t) = parse_path POSIX p in parts_str POSIX d r t)"

definition path_is_absolute :: "string \<Rightarrow> bool" where
  "path_is_absolute p \<longleftrightarrow> take 1 p = ''/''"

text \<open>\<open>str(Path(a) / b)\<close>: an absolute \<open>b\<close> replaces \<open>a\<close>.\<close>

definition path_join :: "string \<Rightarrow> string \<Rightarrow> string" where
  "path_join a b =
     (if path_is_absolute b then path_str b
      else if a = [] \<or> last a = CHR ''/'' then path_str (a @ b)
      else path_str (a @ ''/'' @ b))"

definition path_parent :: "string \<Rightarrow> string" where
  "path_parent p = (let (d, r, t) = parse_path POSIX p in parts_str POSIX d r (butlast t))"

definition path_name :: "string \<Rightarrow> string" where
  "path_name p = (let (d, r, t) = parse_path POSIX p in if t = [] then [] else last t)"

definition normalize_approval_path ::
  "(string \<Rightarrow> string option) \<Rightarrow> string \<Rightarrow> string option \<Rightarrow> bool \<Rightarrow> string result" where
  "normalize_approval_path resolve_strict path working_directory allow_missing_final =
     bind_result
       (if path_is_absolute path then Inr (path_str path)
        else case working_directory of
          Some w \<Rightarrow> if w \<noteq> [] then Inr (path_join w path)
                    else Inl (ValueError ''relative path requires working_directory'')
        | None \<Rightarrow> Inl (ValueError ''relative path requires working_directory''))
       (\<lambda>raw.
         if allow_missing_final then
           (case resolve_strict (path_parent raw) of
              None \<Rightarrow> Inl (ValueError (''path parent not found: '' @ path))
            | Some parent \<Rightarrow> Inr (path_join parent (path_name raw)))
         else
           (case resolve_strict raw of
              None \<Rightarrow> Inl (ValueError (''path not found: '' @ path))
            | Some p \<Rightarrow> Inr p))"

definition normalize_directory ::
  "(string \<Rightarrow> string option) \<Rightarrow> (string \<Rightarrow> bool) \<Rightarrow> string \<Rightarrow> string result" where
  "normalize_directory resolve_strict is_dir path =
     (case resolve_strict path of
        None \<Rightarrow> Inl (ValueError (''directory not found: '' @ path))
      | Some resolved \<Rightarrow>
          if \<not> is_dir resolved then Inl (ValueError (''path is not a directory: '' @ path))
          else Inr resolved)"

definition normalize_approval_action ::
  "(string \<Rightarrow> string option) \<Rightarrow> approval_action option \<Rightarrow> string option
     \<Rightarrow> approval_action option result" where
  "normalize_approval_action resolve_strict action working_directory =
     (case action of
        Some (FileApprovalAction path operation) \<Rightarrow>
          bind_result (normalize_approval_path resolve_strict path working_directory
              (operation = OP_CREATE))
            (\<lambda>p. Inr (Some (FileApprovalAction p operation)))
      | _ \<Rightarrow> Inr action)"

definition normalize_approval_rule ::
  "(string \<Rightarrow> string option) \<Rightarrow> (string \<Rightarrow> bool) \<Rightarrow> (string \<Rightarrow> string result) \<Rightarrow> approval_rule
     \<Rightarrow> string option \<Rightarrow> approval_rule result" where
  "normalize_approval_rule resolve_strict is_dir resolve_executable rule working_directory =
     bind_result
       (case rule_scope rule of
          ExecutableRuleScope e \<Rightarrow>
            bind_result (resolve_executable e) (\<lambda>x. Inr (ExecutableRuleScope x))
        | scope \<Rightarrow> Inr scope)
       (\<lambda>scope.
         bind_result
           (case rule_matcher rule of
              ExactPathMatcher path operation \<Rightarrow>
                if \<not> path_is_absolute path \<and> working_directory = None then
                  Inl (ValueError ''exact path matcher requires an absolute path'')
                else bind_result (normalize_approval_path resolve_strict path working_directory
                         (operation = OP_CREATE))
                       (\<lambda>p. Inr (ExactPathMatcher p operation))
            | RecursiveDirectoryMatcher directory operation \<Rightarrow>
                bind_result
                  (if path_is_absolute directory then Inr (path_str directory)
                   else case working_directory of
                     None \<Rightarrow> Inl (ValueError ''recursive directory matcher requires an absolute path'')
                   | Some w \<Rightarrow> Inr (path_join w directory))
                  (\<lambda>raw. bind_result (normalize_directory resolve_strict is_dir raw)
                     (\<lambda>d. Inr (RecursiveDirectoryMatcher d operation)))
            | matcher \<Rightarrow> Inr matcher)
           (\<lambda>matcher. Inr (rule\<lparr>rule_scope := scope, rule_matcher := matcher\<rparr>)))"

section \<open>Matching\<close>

text \<open>\<open>_pure\<close>: a drive letter or a path that does not start with a slash is a Windows path.\<close>

definition pure_flavour :: "string \<Rightarrow> flavour" where
  "pure_flavour path =
     (if 2 \<le> length path \<and> path ! 1 = CHR '':'' then WINDOWS
      else if take 1 path = ''/'' then POSIX else WINDOWS)"

text \<open>
  \<open>relative_to\<close> first converts the directory to the flavour of the path, which for a POSIX path
  turns the backslashes of a Windows one into slashes.
\<close>

definition path_is_under_directory :: "string \<Rightarrow> string \<Rightarrow> bool" where
  "path_is_under_directory path directory =
     (let f = pure_flavour path; g = pure_flavour directory in
      if f = g \<and> path_equal f path directory then True
      else relative_to f path
        (if f = POSIX \<and> g = WINDOWS then map (\<lambda>c. if c = backslash then CHR ''/'' else c) directory
         else directory))"

fun scope_applies :: "approval_rule_scope \<Rightarrow> match_context \<Rightarrow> bool" where
  "scope_applies (ConversationRuleScope c) ctx = (c = ctx_conversation_id ctx)"
| "scope_applies (HarnessInstanceRuleScope i) ctx =
     (case ctx_binding ctx of None \<Rightarrow> False | Some b \<Rightarrow> bind_harness_instance_id b = Some i)"
| "scope_applies (ExecutableRuleScope e) ctx =
     (case ctx_binding ctx of
        None \<Rightarrow> False
      | Some b \<Rightarrow> (case bind_launch_snapshot b of
          None \<Rightarrow> False | Some l \<Rightarrow> launch_resolved_executable l = Some e))"
| "scope_applies (UserRuleScope u) ctx = (u = ctx_owner_id ctx)"
| "scope_applies PrincipalGlobalRuleScope ctx = True"

fun matcher_matches :: "approval_matcher \<Rightarrow> approval_action option \<Rightarrow> bool" where
  "matcher_matches _ None = False"
| "matcher_matches (ExactArgvMatcher argv) (Some action) =
     (case action of CommandApprovalAction a \<Rightarrow> argv = a | _ \<Rightarrow> False)"
| "matcher_matches (ExactPathMatcher path operation) (Some action) =
     (case action of FileApprovalAction p o' \<Rightarrow> path = p \<and> operation = o' | _ \<Rightarrow> False)"
| "matcher_matches (RecursiveDirectoryMatcher directory operation) (Some action) =
     (case action of
        FileApprovalAction p o' \<Rightarrow> operation = o' \<and> path_is_under_directory p directory
      | _ \<Rightarrow> False)"
| "matcher_matches BlanketNetworkMatcher (Some action) = (action = NetworkApprovalAction)"

definition rule_matches_request ::
  "approval_rule \<Rightarrow> approval_action option \<Rightarrow> match_context \<Rightarrow> bool" where
  "rule_matches_request rule action ctx \<longleftrightarrow>
     rule_principal_id rule = ctx_principal_id ctx \<and> scope_applies (rule_scope rule) ctx
     \<and> matcher_matches (rule_matcher rule) action"

definition specificity_key :: "approval_rule \<Rightarrow> nat \<times> nat \<times> string" where
  "specificity_key rule =
     (scope_rank (rule_scope rule), matcher_rank (rule_matcher rule), uuid_str (rule_id rule))"

definition select_matching_rule ::
  "approval_rule list \<Rightarrow> approval_action option \<Rightarrow> match_context \<Rightarrow> match_decision" where
  "select_matching_rule rules action ctx =
     (let matching = filter (\<lambda>rule. rule_principal_id rule = ctx_principal_id ctx
            \<and> scope_applies (rule_scope rule) ctx
            \<and> matcher_matches (rule_matcher rule) action) rules
      in if matching = [] then \<lparr>md_decision = None, md_rule = None\<rparr>
         else let denies = filter (\<lambda>r. rule_decision r = RULE_DENY) matching in
           if denies \<noteq> [] then
             \<lparr>md_decision = Some RULE_DENY, md_rule = Some (arg_min_list specificity_key denies)\<rparr>
           else let allows = filter (\<lambda>r. rule_decision r = RULE_ALLOW) matching in
             if allows \<noteq> [] then
               \<lparr>md_decision = Some RULE_ALLOW, md_rule = Some (arg_min_list specificity_key allows)\<rparr>
             else \<lparr>md_decision = None, md_rule = None\<rparr>)"

section \<open>Containment is component-wise\<close>

lemma posix_absolute_flavour:
  "posix_absolute p \<Longrightarrow> take 1 (drop 1 p) \<noteq> '':'' \<Longrightarrow> pure_flavour p = POSIX"
  by (cases p; cases "tl p") (auto simp: posix_absolute_def pure_flavour_def)

text \<open>for absolute paths (of the usual one-slash kind) containment compares components: the path
  is the directory or continues it with further components, so a directory never contains a sibling
  whose name merely starts with its own.\<close>

theorem containment_is_component_wise:
  assumes "posix_absolute p" and "posix_absolute d"
    and "pure_flavour p = POSIX" and "pure_flavour d = POSIX"
  shows "path_is_under_directory p d \<longleftrightarrow> (\<exists>rest. posix_components p = posix_components d @ rest)"
  using assms relative_to_posix_absolute [OF assms(1,2)] path_equal_posix_absolute [OF assms(1,2)]
  by (auto simp: path_is_under_directory_def)

theorem containment_is_component_wise_witness:
  "\<not> path_is_under_directory ''/workshop/x'' ''/work'' \<and> path_is_under_directory ''/work/./a//b'' ''/work/a''"
proof -
  have facts: "posix_absolute ''/workshop/x''" "posix_absolute ''/work''" "posix_absolute ''/work/./a//b''"
    "posix_absolute ''/work/a''" "pure_flavour ''/workshop/x'' = POSIX" "pure_flavour ''/work'' = POSIX"
    "pure_flavour ''/work/./a//b'' = POSIX" "pure_flavour ''/work/a'' = POSIX"
    "posix_components ''/workshop/x'' = [''workshop'', ''x'']" "posix_components ''/work'' = [''work'']"
    "posix_components ''/work/./a//b'' = [''work'', ''a'', ''b'']"
    "posix_components ''/work/a'' = [''work'', ''a'']"
    by code_simp+
  then show ?thesis
    by (simp add: containment_is_component_wise)
qed

section \<open>Deny wins\<close>

lemma arg_min_list_in_filter:
  assumes "filter P xs \<noteq> []"
  shows "arg_min_list f (filter P xs) \<in> set xs \<and> P (arg_min_list f (filter P xs))"
  using arg_min_list_in [OF assms, of f] by auto

definition applicable ::
  "approval_rule list \<Rightarrow> approval_action option \<Rightarrow> match_context \<Rightarrow> approval_rule_decision
     \<Rightarrow> approval_rule set" where
  "applicable rules action ctx decision =
     {r \<in> set rules. rule_matches_request r action ctx \<and> rule_decision r = decision}"

text \<open>\<open>d\<close> is the decision on an action and \<open>r\<close> the rule recorded for it.\<close>

definition decides ::
  "approval_rule list \<Rightarrow> approval_action option \<Rightarrow> match_context \<Rightarrow> match_decision \<Rightarrow> bool" where
  "decides rules action ctx m \<longleftrightarrow>
     md_decision m = (if applicable rules action ctx RULE_DENY \<noteq> {} then Some RULE_DENY
       else if applicable rules action ctx RULE_ALLOW \<noteq> {} then Some RULE_ALLOW else None) \<and>
     (case md_decision m of
        None \<Rightarrow> md_rule m = None
      | Some d \<Rightarrow> (\<exists>r \<in> applicable rules action ctx d. md_rule m = Some r
          \<and> (\<forall>r' \<in> applicable rules action ctx d. specificity_key r \<le> specificity_key r')))"

lemma select_matching_rule_decides:
  fixes rules action ctx
  defines "result \<equiv> select_matching_rule rules action ctx"
  shows "decides rules action ctx result"
proof -
  let ?m = "filter (\<lambda>r. rule_matches_request r action ctx) rules"
  let ?deny = "filter (\<lambda>r. rule_decision r = RULE_DENY) ?m"
  let ?allow = "filter (\<lambda>r. rule_decision r = RULE_ALLOW) ?m"
  have sets: "set ?deny = applicable rules action ctx RULE_DENY"
    "set ?allow = applicable rules action ctx RULE_ALLOW"
    by (auto simp: applicable_def)
  have result: "result = (if ?deny \<noteq> [] then
        \<lparr>md_decision = Some RULE_DENY, md_rule = Some (arg_min_list specificity_key ?deny)\<rparr>
      else if ?allow \<noteq> [] then
        \<lparr>md_decision = Some RULE_ALLOW, md_rule = Some (arg_min_list specificity_key ?allow)\<rparr>
      else \<lparr>md_decision = None, md_rule = None\<rparr>)"
    unfolding result_def select_matching_rule_def rule_matches_request_def Let_def
    by (auto simp: filter_empty_conv)
  have least: "arg_min_list specificity_key xs \<in> set xs
      \<and> (\<forall>r' \<in> set xs. specificity_key (arg_min_list specificity_key xs) \<le> specificity_key r')"
    if "xs \<noteq> []" for xs
    using arg_min_list_in [OF that] f_arg_min_list_f [OF that, of specificity_key] by simp
  have empty: "?deny = [] \<longleftrightarrow> applicable rules action ctx RULE_DENY = {}"
    "?allow = [] \<longleftrightarrow> applicable rules action ctx RULE_ALLOW = {}"
    using sets by (metis set_empty)+
  show ?thesis
  proof (cases "?deny = []")
    case False
    with result empty least [OF False] sets show ?thesis by (auto simp: decides_def)
  next
    case deny: True
    show ?thesis
    proof (cases "?allow = []")
      case False
      with deny result empty least [OF False] sets show ?thesis by (auto simp: decides_def)
    next
      case True
      with deny result empty show ?thesis by (simp add: decides_def)
    qed
  qed
qed

text \<open>C26: the automatic decision. It is deny exactly when some rule of the principal that applies to
  the context and matches the action denies; allow exactly when one allows and none denies; otherwise
  the interaction is left to the user. The rule recorded for audit is one that applies, matches and
  has that decision, and no rule like that is more specific.\<close>

theorem deny_wins: "decides rules action ctx (select_matching_rule rules action ctx)"
  by (rule select_matching_rule_decides)

section \<open>The order of the rules does not matter\<close>

lemma hex_char_inj: "m < 16 \<Longrightarrow> n < 16 \<Longrightarrow> hex_char m = hex_char n \<longleftrightarrow> m = n"
  by (auto simp: hex_char_def of_char_eq_iff [symmetric] split: if_splits)

lemma hex_digits_length [simp]: "length (hex_digits k n) = k"
  by (induction k n rule: hex_digits.induct) simp_all

lemma hex_digits_inj:
  "m < 16 ^ k \<Longrightarrow> n < 16 ^ k \<Longrightarrow> hex_digits k m = hex_digits k n \<Longrightarrow> m = n"
proof (induction k arbitrary: m n)
  case 0
  then show ?case by simp
next
  case (Suc k)
  then have "hex_digits k (m div 16) = hex_digits k (n div 16)" "hex_char (m mod 16) = hex_char (n mod 16)"
    by auto
  moreover have "m div 16 < 16 ^ k" "n div 16 < 16 ^ k"
    using Suc.prems by (simp_all add: less_mult_imp_div_less mult.commute)
  ultimately have "m div 16 = n div 16" "m mod 16 = n mod 16"
    using Suc.IH by (auto simp: hex_char_inj)
  then show ?case
    by (metis mult_div_mod_eq)
qed

lemma uuid_str_inj: "uuid_str a = uuid_str b \<longleftrightarrow> a = b"
proof
  assume eq: "uuid_str a = uuid_str b"
  let ?h = "\<lambda>x. hex_digits 32 (unat (uuid_int x))"
  have unpack: "?h x = take 8 (uuid_str x) @ take 4 (drop 9 (uuid_str x)) @ take 4 (drop 14 (uuid_str x))
      @ take 4 (drop 19 (uuid_str x)) @ drop 24 (uuid_str x)" for x
  proof -
    have step: "drop k h = take 4 (drop k h) @ drop k' h" if "k' = 4 + k" for k k' and h :: string
      unfolding that by (metis append_take_drop_id drop_drop)
    have split: "h = take 8 h @ take 4 (drop 8 h) @ take 4 (drop 12 h) @ take 4 (drop 16 h) @ drop 20 h"
      for h :: string
    proof -
      have "drop 8 h = take 4 (drop 8 h) @ drop 12 h" "drop 12 h = take 4 (drop 12 h) @ drop 16 h"
        "drop 16 h = take 4 (drop 16 h) @ drop 20 h"
        by (rule step; simp)+
      then show ?thesis
        by (metis append_take_drop_id)
    qed
    show ?thesis
      using split [of "?h x"] by (simp add: uuid_str_def Let_def)
  qed
  have "unat (uuid_int x) < 16 ^ 32" for x
    using unsigned_less [of "uuid_int x"] by simp
  then have "unat (uuid_int a) = unat (uuid_int b)"
    using hex_digits_inj unpack [of a] unpack [of b] eq by metis
  then show "a = b"
    by (simp add: uuid.expand word_unat_eq_iff)
qed simp

lemma applicable_cong: "set rules = set rules' \<Longrightarrow> applicable rules = applicable rules'"
  by (simp add: applicable_def fun_eq_iff)

lemma decides_unique:
  assumes "decides rules action ctx m" and "decides rules action ctx m'"
    and "inj_on rule_id (set rules)"
  shows "m = m'"
proof -
  have d: "md_decision m = md_decision m'"
    using assms(1,2) by (simp add: decides_def)
  moreover have "md_rule m = md_rule m'"
  proof (cases "md_decision m")
    case None
    with d assms(1,2) show ?thesis by (simp add: decides_def)
  next
    case (Some x)
    then obtain r where r: "r \<in> applicable rules action ctx x" "md_rule m = Some r"
      "\<forall>r' \<in> applicable rules action ctx x. specificity_key r \<le> specificity_key r'"
      using assms(1) unfolding decides_def by auto
    obtain r' where r': "r' \<in> applicable rules action ctx x" "md_rule m' = Some r'"
      "\<forall>r \<in> applicable rules action ctx x. specificity_key r' \<le> specificity_key r"
      using assms(2) Some d unfolding decides_def by auto
    have "specificity_key r = specificity_key r'"
      using r r' by (intro antisym) auto
    then have "rule_id r = rule_id r'"
      by (simp add: specificity_key_def uuid_str_inj)
    then show ?thesis
      using assms(3) r r' by (auto simp: applicable_def inj_on_def)
  qed
  ultimately show ?thesis by simp
qed

text \<open>the order in which the store returns the rules is irrelevant: for rules with distinct
  identifiers, any permutation gives the same decision and records the same rule.\<close>

theorem rule_order_is_irrelevant:
  assumes "mset rules = mset rules'" and "distinct (map rule_id rules)"
  shows "select_matching_rule rules action ctx = select_matching_rule rules' action ctx"
proof -
  have same: "set rules = set rules'"
    using assms(1) by (metis set_mset_mset)
  have "decides rules action ctx (select_matching_rule rules' action ctx)"
    using select_matching_rule_decides [of rules' action ctx]
    unfolding decides_def applicable_cong [OF same] .
  then show ?thesis
    using select_matching_rule_decides [of rules action ctx] decides_unique assms(2)
    by (metis distinct_map)
qed

definition demo_rule :: "uuid \<Rightarrow> approval_rule_decision \<Rightarrow> approval_rule_scope \<Rightarrow> approval_rule" where
  "demo_rule i d s = \<lparr>rule_id = i, rule_principal_id = ''p'', rule_decision = d, rule_scope = s,
     rule_matcher = ExactArgvMatcher [''ls''], rule_created_at = 1, rule_updated_at = 1\<rparr>"

definition demo_context :: match_context where
  "demo_context = \<lparr>ctx_principal_id = ''p'', ctx_conversation_id = Uuid 1, ctx_owner_id = ''o'',
     ctx_binding = None, ctx_working_directory = None\<rparr>"

theorem rule_order_is_irrelevant_witness:
  "select_matching_rule [demo_rule (Uuid 5) RULE_ALLOW (ConversationRuleScope (Uuid 1)),
       demo_rule (Uuid 6) RULE_DENY PrincipalGlobalRuleScope]
      (Some (CommandApprovalAction [''ls''])) demo_context
    = select_matching_rule [demo_rule (Uuid 6) RULE_DENY PrincipalGlobalRuleScope,
       demo_rule (Uuid 5) RULE_ALLOW (ConversationRuleScope (Uuid 1))]
      (Some (CommandApprovalAction [''ls''])) demo_context"
  by (rule rule_order_is_irrelevant) (simp_all add: demo_rule_def)

end
