(* ===== verification/Turn_Usage.thy ===== *)
theory Turn_Usage
  imports Events
begin

text \<open>
  The turn-usage accumulator of \<open>tth_types/usage.py\<close>: providers report what each request spent, or
  the turn's own figures, or both, possibly delivering a frame twice; the accumulator turns either
  into the totals of the turn. The specification is stated over the list of frames alone: the
  first deliveries that carry a count, and per field the sum when all of them supply it.
\<close>

section \<open>The accumulator\<close>

datatype usage_field = INPUT_TOKENS | OUTPUT_TOKENS | TOTAL_TOKENS | CACHED_INPUT_TOKENS

record usage_figures =
  fig_input :: json
  fig_output :: json
  fig_total :: json
  fig_cached :: json

text \<open>\<open>_counted\<close>: the exact type \<open>int\<close>, so a boolean is not a count.\<close>

fun counted :: "json \<Rightarrow> int option" where
  "counted (JInt i) = (if i \<ge> 0 then Some i else None)"
| "counted _ = None"

definition counted_fields :: "usage_figures \<Rightarrow> (usage_field, int) dict" where
  "counted_fields fr =
     List.map_filter (\<lambda>(name, value). map_option (Pair name) (counted value))
       [(INPUT_TOKENS, fig_input fr), (OUTPUT_TOKENS, fig_output fr),
        (TOTAL_TOKENS, fig_total fr), (CACHED_INPUT_TOKENS, fig_cached fr)]"

record turn_usage =
  tu_totals :: "(usage_field, int) dict"
  tu_counts :: "(usage_field, nat) dict"
  tu_frames :: nat
  tu_frame_ids :: "string set"
  tu_final :: bool

definition usage_reset :: turn_usage where
  "usage_reset = \<lparr>tu_totals = [], tu_counts = [], tu_frames = 0, tu_frame_ids = {}, tu_final = False\<rparr>"

definition usage_reported :: "turn_usage \<Rightarrow> bool" where
  "usage_reported st \<longleftrightarrow> tu_totals st \<noteq> []"

definition usage_payloads :: "uuid option \<Rightarrow> turn_usage \<Rightarrow> notice_payload list" where
  "usage_payloads tid st =
     (let reported = filter (\<lambda>(name, _). dict_get (tu_counts st) name = Some (tu_frames st)) (tu_totals st)
      in if reported = [] then []
         else [UsageUpdated tid (dict_get reported INPUT_TOKENS) (dict_get reported OUTPUT_TOKENS)
                 (dict_get reported TOTAL_TOKENS) (dict_get reported CACHED_INPUT_TOKENS)])"

definition get_default :: "('k, 'v) dict \<Rightarrow> 'k \<Rightarrow> 'v \<Rightarrow> 'v" where
  "get_default d k v = (case dict_get d k of None \<Rightarrow> v | Some x \<Rightarrow> x)"

text \<open>The loop over the counted fields.\<close>

fun tally :: "(usage_field, int) dict \<Rightarrow> turn_usage \<Rightarrow> turn_usage" where
  "tally [] st = st"
| "tally ((name, value) # rest) st = tally rest
     (st\<lparr>tu_totals := dict_put (tu_totals st) name (get_default (tu_totals st) name 0 + value),
         tu_counts := dict_put (tu_counts st) name (get_default (tu_counts st) name 0 + 1)\<rparr>)"

definition usage_add ::
  "uuid option \<Rightarrow> string option \<Rightarrow> usage_figures \<Rightarrow> turn_usage \<Rightarrow> notice_payload list \<times> turn_usage" where
  "usage_add tid frame_id fr st =
     (if tu_final st then ([], st)
      else if frame_id \<noteq> None \<and> frame_id \<noteq> Some [] \<and> the frame_id \<in> tu_frame_ids st then ([], st)
      else
        let st1 = (if frame_id \<noteq> None \<and> frame_id \<noteq> Some []
                   then st\<lparr>tu_frame_ids := insert (the frame_id) (tu_frame_ids st)\<rparr> else st);
            figures = counted_fields fr
        in if figures = [] then ([], st1)
           else let st2 = tally figures (st1\<lparr>tu_frames := tu_frames st1 + 1\<rparr>)
                in (usage_payloads tid st2, st2))"

definition usage_replace ::
  "uuid option \<Rightarrow> bool \<Rightarrow> usage_figures \<Rightarrow> turn_usage \<Rightarrow> notice_payload list \<times> turn_usage" where
  "usage_replace tid final fr st =
     (if tu_final st \<and> \<not> final then ([], st)
      else
        let figures = counted_fields fr
        in if figures = [] then ([], st)
           else let st1 = st\<lparr>tu_totals := figures, tu_counts := map (\<lambda>(name, _). (name, 1)) figures,
                             tu_frames := 1, tu_final := final\<rparr>
                in (usage_payloads tid st1, st1))"

definition usage_report :: "uuid option \<Rightarrow> turn_usage \<Rightarrow> notice_payload list" where
  "usage_report tid st = usage_payloads tid st"

section \<open>The specification\<close>

type_synonym delivery = "string option \<times> usage_figures"

text \<open>The frames counted once each: an identified frame only at its first delivery.\<close>

fun first_deliveries :: "string set \<Rightarrow> delivery list \<Rightarrow> usage_figures list" where
  "first_deliveries seen [] = []"
| "first_deliveries seen ((frame_id, fr) # ds) =
     (if frame_id = None \<or> frame_id = Some [] then fr # first_deliveries seen ds
      else if the frame_id \<in> seen then first_deliveries seen ds
      else fr # first_deliveries (insert (the frame_id) seen) ds)"

definition supplied :: "usage_field \<Rightarrow> usage_figures list \<Rightarrow> int list" where
  "supplied f frs = List.map_filter (\<lambda>fr. dict_get (counted_fields fr) f) frs"

definition contributing :: "usage_figures list \<Rightarrow> usage_figures list" where
  "contributing frs = filter (\<lambda>fr. counted_fields fr \<noteq> []) frs"

definition turn_total :: "usage_figures list \<Rightarrow> usage_field \<Rightarrow> int option" where
  "turn_total frs f =
     (if frs \<noteq> [] \<and> (\<forall>fr \<in> set frs. dict_get (counted_fields fr) f \<noteq> None)
      then Some (sum_list (supplied f frs)) else None)"

definition usage_summary :: "uuid option \<Rightarrow> usage_figures list \<Rightarrow> notice_payload list" where
  "usage_summary tid frs =
     (if (\<exists>f \<in> {INPUT_TOKENS, OUTPUT_TOKENS, TOTAL_TOKENS, CACHED_INPUT_TOKENS}. turn_total frs f \<noteq> None)
      then [UsageUpdated tid (turn_total frs INPUT_TOKENS) (turn_total frs OUTPUT_TOKENS)
              (turn_total frs TOTAL_TOKENS) (turn_total frs CACHED_INPUT_TOKENS)]
      else [])"

fun add_all :: "uuid option \<Rightarrow> delivery list \<Rightarrow> turn_usage \<Rightarrow> turn_usage" where
  "add_all tid [] st = st"
| "add_all tid ((frame_id, fr) # ds) st = add_all tid ds (snd (usage_add tid frame_id fr st))"

section \<open>The accumulator keeps the tally of the contributing frames\<close>

lemma counted_fields_distinct: "distinct (dict_keys (counted_fields fr))"
  by (simp add: counted_fields_def map_filter_simps split: option.split)

lemma supplied_append: "supplied f (frs @ frs') = supplied f frs @ supplied f frs'"
  by (simp add: supplied_def List.map_filter_def)

lemma supplied_single:
  "supplied f [fr] = (case dict_get (counted_fields fr) f of None \<Rightarrow> [] | Some v \<Rightarrow> [v])"
  by (simp add: supplied_def map_filter_simps split: option.split)

lemma supplied_all:
  "length (supplied f frs) = length frs \<longleftrightarrow> (\<forall>fr \<in> set frs. dict_get (counted_fields fr) f \<noteq> None)"
proof (induction frs)
  case (Cons fr frs)
  have "length (supplied f frs) \<le> length frs"
    by (simp add: supplied_def List.map_filter_def)
  with Cons show ?case
    using supplied_append [of f "[fr]" frs] by (auto simp: supplied_single split: option.splits)
qed (simp add: supplied_def map_filter_simps)

lemma tally_frame [simp]:
  "tu_frames (tally d st) = tu_frames st" "tu_frame_ids (tally d st) = tu_frame_ids st"
  "tu_final (tally d st) = tu_final st"
  by (induction d st rule: tally.induct) simp_all

lemma tally_totals:
  "distinct (dict_keys d) \<Longrightarrow> dict_get (tu_totals (tally d st)) f =
     (case dict_get d f of None \<Rightarrow> dict_get (tu_totals st) f
      | Some v \<Rightarrow> Some (get_default (tu_totals st) f 0 + v))"
  by (induction d st rule: tally.induct)
    (auto simp: dict_get_put get_default_def map_of_eq_None_iff split: option.splits
      dest: map_of_SomeD intro: rev_image_eqI)

lemma tally_counts:
  "distinct (dict_keys d) \<Longrightarrow> dict_get (tu_counts (tally d st)) f =
     (case dict_get d f of None \<Rightarrow> dict_get (tu_counts st) f
      | Some v \<Rightarrow> Some (get_default (tu_counts st) f 0 + 1))"
  by (induction d st rule: tally.induct)
    (auto simp: dict_get_put get_default_def map_of_eq_None_iff split: option.splits
      dest: map_of_SomeD intro: rev_image_eqI)

definition tallies :: "usage_figures list \<Rightarrow> turn_usage \<Rightarrow> bool" where
  "tallies frs st \<longleftrightarrow> tu_frames st = length frs \<and> \<not> tu_final st \<and> distinct (dict_keys (tu_totals st)) \<and>
     (\<forall>f. dict_get (tu_totals st) f = (if supplied f frs = [] then None else Some (sum_list (supplied f frs)))
        \<and> dict_get (tu_counts st) f = (if supplied f frs = [] then None else Some (length (supplied f frs))))"

lemma tally_distinct:
  "distinct (dict_keys (tu_totals st)) \<Longrightarrow> distinct (dict_keys (tu_totals (tally d st)))"
  by (induction d st rule: tally.induct) (simp_all add: distinct_update)

lemma tallies_add:
  assumes "tallies frs st"
  shows "tallies (frs @ [fr]) (tally (counted_fields fr) (st\<lparr>tu_frames := Suc (tu_frames st)\<rparr>))"
  using assms counted_fields_distinct [of fr] unfolding tallies_def
  by (simp add: tally_totals tally_counts tally_distinct get_default_def supplied_append supplied_single
      split: option.split)

lemma tallies_add_all:
  assumes "tallies frs st"
  shows "tallies (frs @ contributing (first_deliveries (tu_frame_ids st) ds)) (add_all tid ds st)"
  using assms
proof (induction ds arbitrary: frs st)
  case Nil
  then show ?case by (simp add: contributing_def)
next
  case (Cons d ds)
  obtain frame_id fr where d: "d = (frame_id, fr)" by fastforce
  have open_turn: "\<not> tu_final st" using Cons.prems by (simp add: tallies_def)
  have ids: "tallies frs (st\<lparr>tu_frame_ids := A\<rparr>)" for A
    using Cons.prems by (simp add: tallies_def)
  show ?case
    using open_turn Cons.IH [OF Cons.prems] Cons.IH [OF ids] Cons.IH [OF tallies_add [OF Cons.prems, where fr = fr]]
      Cons.IH [OF tallies_add [OF ids, where fr = fr]]
    by (simp add: d usage_add_def Let_def contributing_def)
qed

lemma filter_dict_get:
  "distinct (dict_keys d) \<Longrightarrow>
     dict_get (filter (\<lambda>(k, _). P k) d) f = (if P f then dict_get d f else None)"
  by (induction d) (auto split: if_splits simp: map_of_eq_None_iff)

lemma tallies_payloads:
  assumes "tallies frs st"
  shows "usage_payloads tid st = usage_summary tid frs"
proof -
  define reported where
    "reported = filter (\<lambda>(name, _). dict_get (tu_counts st) name = Some (tu_frames st)) (tu_totals st)"
  have total: "dict_get reported f = turn_total frs f" for f
  proof -
    have "dict_get reported f
        = (if dict_get (tu_counts st) f = Some (tu_frames st) then dict_get (tu_totals st) f else None)"
      unfolding reported_def using assms filter_dict_get
        [of "tu_totals st" "\<lambda>name. dict_get (tu_counts st) name = Some (tu_frames st)" f]
      by (simp add: tallies_def)
    then show ?thesis
      using assms supplied_all [of f frs] by (auto simp: tallies_def turn_total_def)
  qed
  have "reported = [] \<longleftrightarrow> (\<forall>f. dict_get reported f = None)"
    by (cases reported) (auto simp: map_of_eq_None_iff intro!: exI)
  moreover have "UNIV = {INPUT_TOKENS, OUTPUT_TOKENS, TOTAL_TOKENS, CACHED_INPUT_TOKENS}"
    using usage_field.exhaust by blast
  then have "(\<forall>f. turn_total frs f = None) \<longleftrightarrow>
      (\<forall>f \<in> {INPUT_TOKENS, OUTPUT_TOKENS, TOTAL_TOKENS, CACHED_INPUT_TOKENS}. turn_total frs f = None)"
    by (metis UNIV_I)
  ultimately show ?thesis
    by (simp add: usage_payloads_def usage_summary_def Let_def reported_def [symmetric] total)
qed

text \<open>C30: Whatever frames a provider adds during a turn, in whatever order and however often it delivers an
  identified frame again, the totals reported are those of the first deliveries that carry a
  count: a field is reported exactly when every such frame supplies it, as their sum, and nothing
  is reported when no field qualifies.\<close>

theorem usage_reports_turn_totals:
  "usage_report tid (add_all tid' ds usage_reset)
     = usage_summary tid (contributing (first_deliveries {} ds))"
proof -
  have "tallies [] usage_reset"
    by (simp add: tallies_def usage_reset_def supplied_def map_filter_simps)
  from tallies_add_all [OF this] show ?thesis
    by (simp add: usage_report_def usage_reset_def tallies_payloads)
qed

section \<open>Authoritative figures\<close>

datatype usage_op = UsageAdd "string option" usage_figures | UsageRunning usage_figures

fun usage_apply :: "uuid option \<Rightarrow> usage_op list \<Rightarrow> turn_usage \<Rightarrow> notice_payload list \<times> turn_usage" where
  "usage_apply tid [] st = ([], st)"
| "usage_apply tid (op # ops) st =
     (let (out, st1) = (case op of UsageAdd frame_id fr \<Rightarrow> usage_add tid frame_id fr st
                        | UsageRunning fr \<Rightarrow> usage_replace tid False fr st);
          (outs, st2) = usage_apply tid ops st1
      in (out @ outs, st2))"

lemma final_usage_ignores: "tu_final st \<Longrightarrow> usage_apply tid ops st = ([], st)"
  by (induction ops) (simp_all add: usage_add_def usage_replace_def split: usage_op.split)

lemma dict_ones: "dict_get (map (\<lambda>(name, _). (name, Suc 0)) d) f = map_option (\<lambda>_. Suc 0) (dict_get d f)"
  by (induction d) auto

text \<open>Once a provider has reported the turn's own final figures, they are reported as they are, and no
  frame or running total that trails them publishes anything or changes what is reported.\<close>

theorem final_usage_is_authoritative:
  assumes "counted_fields fr \<noteq> []"
    and "usage_replace tid True fr st = (out, st1)"
  shows "out = [UsageUpdated tid (counted (fig_input fr)) (counted (fig_output fr))
                  (counted (fig_total fr)) (counted (fig_cached fr))]
    \<and> usage_apply tid ops st1 = ([], st1) \<and> usage_report tid st1 = out"
proof -
  have st1: "st1 = st\<lparr>tu_totals := counted_fields fr,
      tu_counts := map (\<lambda>(name, _). (name, 1)) (counted_fields fr), tu_frames := 1, tu_final := True\<rparr>"
    and out: "out = usage_payloads tid st1"
    using assms by (auto simp: usage_replace_def Let_def)
  have kept: "filter (\<lambda>(name, _). dict_get (tu_counts st1) name = Some (tu_frames st1)) (tu_totals st1)
      = counted_fields fr"
    using counted_fields_distinct [of fr] by (auto simp: st1 dict_ones filter_id_conv)
  have "out = [UsageUpdated tid (counted (fig_input fr)) (counted (fig_output fr))
                  (counted (fig_total fr)) (counted (fig_cached fr))]"
    using assms(1) unfolding out usage_payloads_def kept Let_def
    by (simp add: counted_fields_def map_filter_simps split: option.split)
  moreover have "usage_apply tid ops st1 = ([], st1)"
    by (rule final_usage_ignores) (simp add: st1)
  ultimately show ?thesis
    by (simp add: usage_report_def out)
qed

definition demo_figures :: usage_figures where
  "demo_figures = \<lparr>fig_input = JInt 10, fig_output = JInt 4, fig_total = JBool True, fig_cached = JNull\<rparr>"

theorem final_usage_is_authoritative_witness:
  "\<exists>st1. usage_replace None True demo_figures usage_reset
       = ([UsageUpdated None (Some 10) (Some 4) None None], st1)
     \<and> usage_apply None [UsageAdd None demo_figures, UsageRunning demo_figures] st1 = ([], st1)"
proof -
  obtain out st1 where r: "usage_replace None True demo_figures usage_reset = (out, st1)"
    by fastforce
  have "counted_fields demo_figures \<noteq> []" by code_simp
  note final = final_usage_is_authoritative [OF this r]
  then have "out = [UsageUpdated None (Some 10) (Some 4) None None]"
    by (simp add: demo_figures_def)
  with r final show ?thesis by blast
qed

end
