(* ===== verification/Py_Text.thy ===== *)
theory Py_Text
  imports Prelude
begin

text \<open>
  Searching in sequences, as Python's \<open>str\<close> and \<open>bytes\<close> do it: \<open>find\<close>, \<open>in\<close>, \<open>partition\<close>,
  \<open>replace\<close>. The needle is never empty where the code uses them.
\<close>

fun starts_with :: "'a list \<Rightarrow> 'a list \<Rightarrow> bool" where
  "starts_with [] s = True"
| "starts_with (p # ps) [] = False"
| "starts_with (p # ps) (c # cs) = (p = c \<and> starts_with ps cs)"

lemma starts_with_iff: "starts_with p s \<longleftrightarrow> (\<exists>t. s = p @ t)"
  by (induction p s rule: starts_with.induct) auto

lemma starts_with_append [simp]: "starts_with p (p @ t)"
  by (auto simp: starts_with_iff)

lemma starts_with_length: "starts_with p s \<Longrightarrow> length p \<le> length s"
  by (auto simp: starts_with_iff)

text \<open>\<open>s.find(needle)\<close>: the first occurrence.\<close>

fun py_find :: "'a list \<Rightarrow> 'a list \<Rightarrow> nat option" where
  "py_find needle [] = (if needle = [] then Some 0 else None)"
| "py_find needle (c # cs) =
     (if starts_with needle (c # cs) then Some 0 else map_option Suc (py_find needle cs))"

definition py_in :: "'a list \<Rightarrow> 'a list \<Rightarrow> bool" where
  "py_in needle s \<longleftrightarrow> py_find needle s \<noteq> None"

lemma py_find_SomeD:
  "py_find needle s = Some i \<Longrightarrow> i + length needle \<le> length s \<and> take (length needle) (drop i s) = needle"
proof (induction needle s arbitrary: i rule: py_find.induct)
  case (2 needle c cs)
  then show ?case
    by (auto simp: starts_with_iff split: if_splits simp del: starts_with.simps)
      (metis append_eq_conv_conj length_Cons length_append le_add1)+
qed (auto split: if_splits)

lemma py_find_NoneD: "py_find needle s = None \<Longrightarrow> s \<noteq> p @ needle @ t"
proof (induction needle s arbitrary: p rule: py_find.induct)
  case (1 needle)
  then show ?case by (auto split: if_splits)
next
  case (2 needle c cs)
  then show ?case
    by (cases p) (auto simp: starts_with_iff simp del: starts_with.simps split: if_splits)
qed

lemma py_in_iff: "py_in needle s \<longleftrightarrow> (\<exists>p t. s = p @ needle @ t)"
proof
  assume "py_in needle s"
  then obtain i where i: "py_find needle s = Some i" by (auto simp: py_in_def)
  have "s = take i s @ take (length needle) (drop i s) @ drop (length needle) (drop i s)"
    by (simp only: append_take_drop_id)
  with py_find_SomeD [OF i] show "\<exists>p t. s = p @ needle @ t" by metis
next
  assume "\<exists>p t. s = p @ needle @ t"
  then show "py_in needle s"
    unfolding py_in_def using py_find_NoneD by blast
qed

text \<open>\<open>s.partition(sep)\<close> without the separator: \<open>s.split(sep, 1)\<close> when it occurs.\<close>

definition py_split_once :: "'a list \<Rightarrow> 'a list \<Rightarrow> ('a list \<times> 'a list) option" where
  "py_split_once sep s = (case py_find sep s of None \<Rightarrow> None
     | Some i \<Rightarrow> Some (take i s, drop (i + length sep) s))"

lemma py_split_once_Some: "py_split_once sep s = Some (a, b) \<Longrightarrow> s = a @ sep @ b"
  using py_find_SomeD [of sep s]
  by (auto simp: py_split_once_def split: option.splits)
    (metis append_take_drop_id drop_drop add.commute)

text \<open>\<open>s.replace(old, new)\<close>: the occurrences from left to right that do not overlap.\<close>

function py_replace :: "'a list \<Rightarrow> 'a list \<Rightarrow> 'a list \<Rightarrow> 'a list" where
  "py_replace old new s =
     (if old = [] then s
      else if s = [] then []
      else if starts_with old s then new @ py_replace old new (drop (length old) s)
      else hd s # py_replace old new (tl s))"
  by auto
termination
  by (relation "measure (\<lambda>(old, new, s). length s)") (auto simp: neq_Nil_conv)

declare py_replace.simps [simp del]

lemma py_replace_Nil [simp]: "py_replace old new [] = []"
  by (simp add: py_replace.simps)

lemma py_replace_absent: "\<not> py_in old s \<Longrightarrow> py_replace old new s = s"
proof (induction s)
  case (Cons c cs)
  have "\<not> starts_with old (c # cs)"
    using Cons.prems by (auto simp: py_in_iff starts_with_iff) (metis append_Nil)
  moreover have "\<not> py_in old cs"
    using Cons.prems by (auto simp: py_in_iff) (metis append_Cons)
  ultimately show ?case
    using Cons.IH by (subst py_replace.simps) simp
qed simp

lemma py_replace_Cons:
  "\<not> starts_with old (c # cs) \<Longrightarrow> old \<noteq> [] \<Longrightarrow> py_replace old new (c # cs) = c # py_replace old new cs"
  by (subst py_replace.simps) simp

lemma py_replace_hit:
  "old \<noteq> [] \<Longrightarrow> py_replace old new (old @ t) = new @ py_replace old new t"
  by (subst py_replace.simps) simp

end
