(* ===== verification/Version_Compatibility.thy ===== *)
theory Version_Compatibility
  imports Wire_Models Pure_Path Py_Text
begin

text \<open>
  Compatibility floors of the harness services (\<open>shared/compatibility.py\<close>, vendored identically into
  the seven split projects): the two version comparisons, the advisory, the operation gate and the
  validation of a packaged floor document. What the gate and the advisory rely on of a comparison is
  the locale \<open>version_order\<close>, interpreted on both comparisons of the code.
\<close>

section \<open>Parsing versions\<close>

text \<open>
  \<open>str.isdigit\<close> of a code point below 256 accepts the three superscript digits, which \<open>int\<close>
  refuses; \<open>int\<close> also refuses more than 4300 digits (the interpreter's default limit).
\<close>

definition ascii_digit :: "char \<Rightarrow> bool" where
  "ascii_digit c = (let n = (of_char c :: nat) in 48 \<le> n \<and> n \<le> 57)"

definition superscript_digit :: "char \<Rightarrow> bool" where
  "superscript_digit c \<longleftrightarrow> (of_char c :: nat) \<in> {178, 179, 185}"

definition py_isdigit :: "string \<Rightarrow> bool" where
  "py_isdigit s \<longleftrightarrow> s \<noteq> [] \<and> list_all (\<lambda>c. ascii_digit c \<or> superscript_digit c) s"

definition digits_value :: "string \<Rightarrow> nat" where
  "digits_value s = foldl (\<lambda>n c. 10 * n + (of_char c - 48)) 0 s"

definition int_max_str_digits :: nat where
  "int_max_str_digits = 4300"

definition py_int_of_digits :: "string \<Rightarrow> nat result" where
  "py_int_of_digits s =
     (if list_ex superscript_digit s then Inl (ValueError ''invalid literal for int() with base 10'')
      else if length s > int_max_str_digits then Inl (ValueError ''Exceeds the limit for integer string conversion'')
      else Inr (digits_value s))"

fun int_parts :: "string list \<Rightarrow> nat list result" where
  "int_parts [] = Inr []"
| "int_parts (p # ps) = bind_result (py_int_of_digits p) (\<lambda>n.
     bind_result (int_parts ps) (\<lambda>ns. Inr (n # ns)))"

definition dotted_parts :: "string \<Rightarrow> nat list option result" where
  "dotted_parts version =
     (if version = [] \<or> list_ex py_isspace version then Inr None
      else let parts = split_on (CHR ''.'') version in
        if list_ex (\<lambda>part. \<not> py_isdigit part) parts then Inr None
        else bind_result (int_parts parts) (\<lambda>ns. Inr (Some ns)))"

definition before_hyphen :: "string \<Rightarrow> string" where
  "before_hyphen s = hd (split_on (CHR ''-'') s)"

definition cursor_date_parts :: "string \<Rightarrow> (nat \<times> nat \<times> nat) option result" where
  "cursor_date_parts v = bind_result (dotted_parts (before_hyphen v)) (\<lambda>parts.
     case parts of
       Some [year, month, day] \<Rightarrow>
         Inr (if year < 2000 \<or> \<not> (1 \<le> month \<and> month \<le> 12) \<or> \<not> (1 \<le> day \<and> day \<le> 31) then None
              else Some (year, month, day))
     | _ \<Rightarrow> Inr None)"

section \<open>Comparing versions\<close>

type_synonym version_compare = "string \<Rightarrow> string \<Rightarrow> int option result"

definition pad_zeros :: "nat \<Rightarrow> nat list \<Rightarrow> nat list" where
  "pad_zeros n ns = ns @ replicate (n - length ns) 0"

definition compare_dotted :: version_compare where
  "compare_dotted left right =
     bind_result (dotted_parts left) (\<lambda>parsed_left. bind_result (dotted_parts right) (\<lambda>parsed_right.
       case (parsed_left, parsed_right) of
         (Some l, Some r) \<Rightarrow>
           (let n = max (length l) (length r); padded_left = pad_zeros n l; padded_right = pad_zeros n r
            in if padded_left < padded_right then Inr (Some (- 1))
               else if padded_left > padded_right then Inr (Some 1) else Inr (Some 0))
       | _ \<Rightarrow> Inr None))"

definition compare_cursor_date :: version_compare where
  "compare_cursor_date left right =
     bind_result (cursor_date_parts left) (\<lambda>parsed_left.
     bind_result (cursor_date_parts right) (\<lambda>parsed_right.
       case (parsed_left, parsed_right) of
         (Some l, Some r) \<Rightarrow>
           if l < r then Inr (Some (- 1)) else if l > r then Inr (Some 1) else Inr (Some 0)
       | _ \<Rightarrow> Inr None))"

section \<open>Floors and advisories\<close>

datatype matrix_mode =
  MODE_CREATE | MODE_RESUME | MODE_STEER | MODE_INTERRUPT | MODE_MULTI_INTERACTION | MODE_NESTED_ACTIVITY

fun matrix_mode_value :: "matrix_mode \<Rightarrow> string" where
  "matrix_mode_value MODE_CREATE = ''create''"
| "matrix_mode_value MODE_RESUME = ''resume''"
| "matrix_mode_value MODE_STEER = ''steer''"
| "matrix_mode_value MODE_INTERRUPT = ''interrupt''"
| "matrix_mode_value MODE_MULTI_INTERACTION = ''multi_interaction''"
| "matrix_mode_value MODE_NESTED_ACTIVITY = ''nested_activity''"

record release_capabilities =
  rel_supports_resume :: bool
  rel_supports_interrupt :: bool
  rel_supports_steer :: bool
  rel_supports_multi_interaction :: bool
  rel_supports_nested_activity :: bool
  rel_supports_mcp_servers :: bool

text \<open>\<open>CAPABILITY_FLAG_FOR_MODE\<close> read through \<open>getattr\<close>; \<open>create\<close> has no flag.\<close>

fun capability_flag :: "matrix_mode \<Rightarrow> (release_capabilities \<Rightarrow> bool) option" where
  "capability_flag MODE_CREATE = None"
| "capability_flag MODE_RESUME = Some rel_supports_resume"
| "capability_flag MODE_STEER = Some rel_supports_steer"
| "capability_flag MODE_INTERRUPT = Some rel_supports_interrupt"
| "capability_flag MODE_MULTI_INTERACTION = Some rel_supports_multi_interaction"
| "capability_flag MODE_NESTED_ACTIVITY = Some rel_supports_nested_activity"

record latest_verified =
  lv_version :: string
  lv_identity :: "string option"
  lv_platform :: "string option"

record compatibility_floor =
  floor_version :: string
  floor_platforms :: "string list"
  floor_capabilities :: release_capabilities

record floor_document =
  doc_adapter_version :: string
  doc_floor :: compatibility_floor
  doc_latest_verified :: "latest_verified option"

definition known_platforms :: "string set" where
  "known_platforms = {''linux'', ''darwin'', ''win32''}"

definition the_advisory :: "advisory_status \<Rightarrow> string \<Rightarrow> string \<Rightarrow> string option \<Rightarrow> version_advisory" where
  "the_advisory status probed floor latest = \<lparr>adv_status = status, adv_probed_version = probed,
     adv_floor_version = floor, adv_latest_verified = latest\<rparr>"

definition advise ::
  "string \<Rightarrow> string \<Rightarrow> string option \<Rightarrow> version_compare \<Rightarrow> version_advisory result" where
  "advise probed floor latest compare =
     bind_result (compare probed floor) (\<lambda>versus_floor.
       if versus_floor = None then Inr (the_advisory ADV_UNKNOWN probed floor latest)
       else case latest of
         None \<Rightarrow> Inr (the_advisory ADV_UNKNOWN probed floor latest)
       | Some verified \<Rightarrow> bind_result (compare probed verified) (\<lambda>versus_latest.
           Inr (the_advisory
             (case versus_latest of
                None \<Rightarrow> ADV_UNKNOWN
              | Some v \<Rightarrow> if v = 0 then ADV_VERIFIED else if v < 0 then ADV_BEHIND_VERIFIED
                          else ADV_AHEAD_OF_VERIFIED) probed floor latest)))"

definition comparable_probe_version :: "harness_capabilities \<Rightarrow> string" where
  "comparable_probe_version capabilities =
     (let raw = caps_version capabilities in
      if caps_kind capabilities = GROK then (case py_split raw of [] \<Rightarrow> raw | w # _ \<Rightarrow> w)
      else if caps_kind capabilities = CURSOR then before_hyphen raw
      else if caps_kind capabilities = CLAUDE then
        (case py_split_once ''+cli-'' raw of None \<Rightarrow> raw | Some (_, cli) \<Rightarrow> cli)
      else raw)"

definition assert_supported_platform :: "string \<Rightarrow> string list \<Rightarrow> string \<Rightarrow> unit result" where
  "assert_supported_platform platform platforms harness_label =
     (if platform \<notin> known_platforms then
        Inl (DomainError PROVIDER_INCOMPATIBLE (''unsupported platform for '' @ harness_label)
          [(''harness'', JStr harness_label), (''platform'', JStr platform)])
      else if platform \<notin> set platforms then
        Inl (DomainError PROVIDER_INCOMPATIBLE
          (harness_label @ '' release not supported on this platform'')
          [(''platform'', JStr platform), (''supported_platforms'', JArr (map JStr platforms))])
      else Inr ())"

definition reject_below_floor ::
  "string \<Rightarrow> string \<Rightarrow> version_compare \<Rightarrow> string \<Rightarrow> (string, json) dict \<Rightarrow> unit result" where
  "reject_below_floor probed floor compare harness_label details =
     bind_result (compare probed floor) (\<lambda>versus. case versus of
       None \<Rightarrow> Inl (DomainError PROVIDER_INCOMPATIBLE
         (''malformed '' @ harness_label @ '' version for floor comparison'') details)
     | Some v \<Rightarrow>
         if v < 0 then Inl (DomainError PROVIDER_INCOMPATIBLE
           (harness_label @ '' release is below the compatibility floor'')
           (dict_put (dict_put details ''floor_version'' (JStr floor)) ''probed_version'' (JStr probed)))
         else Inr ())"

text \<open>The platform argument is \<open>platform or sys.platform\<close>, which the caller resolves.\<close>

definition enforce_operation ::
  "release_capabilities \<Rightarrow> matrix_mode \<Rightarrow> string list \<Rightarrow> string \<Rightarrow> string \<Rightarrow> bool \<Rightarrow> unit result" where
  "enforce_operation capabilities mode platforms harness_label platform enforce =
     (if \<not> enforce then Inr ()
      else bind_result (assert_supported_platform platform platforms harness_label) (\<lambda>_.
        if mode = MODE_CREATE then Inr ()
        else case capability_flag mode of
          None \<Rightarrow> Inr ()
        | Some flag \<Rightarrow>
            if flag capabilities then Inr ()
            else Inl (DomainError PROVIDER_INCOMPATIBLE
              (harness_label @ '' does not advertise '' @ matrix_mode_value mode)
              [(''harness'', JStr harness_label), (''mode'', JStr (matrix_mode_value mode))])))"

definition validate_floor_document ::
  "floor_document \<Rightarrow> string \<Rightarrow> version_compare \<Rightarrow> unit result" where
  "validate_floor_document doc harness_label compare =
     (let floor = doc_floor doc; version = floor_version floor; harness = (''harness'', JStr harness_label) in
      if py_strip version = [] then
        Inl (DomainError PROVIDER_INCOMPATIBLE ''compatibility floor is missing a version'' [harness])
      else bind_result (compare version version) (\<lambda>self.
        if self = None then
          Inl (DomainError PROVIDER_INCOMPATIBLE ''compatibility floor version is malformed''
            [harness, (''floor_version'', JStr version)])
        else if floor_platforms floor = [] then
          Inl (DomainError PROVIDER_INCOMPATIBLE ''compatibility floor requires at least one platform'' [harness])
        else case List.find (\<lambda>p. p \<notin> known_platforms) (floor_platforms floor) of
          Some platform \<Rightarrow> Inl (DomainError PROVIDER_INCOMPATIBLE
            ''unsupported platform in compatibility floor'' [harness, (''platform'', JStr platform)])
        | None \<Rightarrow> (case doc_latest_verified doc of
            None \<Rightarrow> Inr ()
          | Some latest \<Rightarrow> bind_result (compare (lv_version latest) version) (\<lambda>versus.
              if versus \<noteq> None \<and> the versus < 0 then
                Inl (DomainError PROVIDER_INCOMPATIBLE ''latest_verified is below the compatibility floor''
                  [harness, (''floor_version'', JStr version), (''latest_verified'', JStr (lv_version latest))])
              else if lv_platform latest \<noteq> None \<and> the (lv_platform latest) \<notin> set (floor_platforms floor) then
                Inl (DomainError PROVIDER_INCOMPATIBLE ''latest_verified platform is absent from the floor''
                  [harness, (''platform'', JStr (the (lv_platform latest))),
                   (''supported_platforms'', JArr (map JStr (floor_platforms floor)))])
              else Inr ()))))"

section \<open>What a comparison promises\<close>

text \<open>
  The interface the floor and the advisory rest on: comparing is antisymmetric and transitive, and
  which versions can be compared is an equivalence. A comparison that goes through a key in a linear
  order has these laws; both comparisons of the code do.
\<close>

locale version_order =
  fixes compare :: version_compare
  assumes compare_swap: "compare a b = Inr (Some v) \<Longrightarrow> compare b a = Inr (Some (- v))"
    and compare_total: "compare a b = Inr (Some v) \<Longrightarrow> compare b c = Inr (Some w) \<Longrightarrow>
      \<exists>x. compare a c = Inr (Some x)"
    and compare_trans: "compare a b = Inr (Some v) \<Longrightarrow> compare b c = Inr (Some w) \<Longrightarrow> 0 \<le> v \<Longrightarrow> 0 \<le> w \<Longrightarrow>
      compare a c = Inr (Some x) \<Longrightarrow> 0 \<le> x"
begin

definition at_least :: "string \<Rightarrow> string \<Rightarrow> bool" where
  "at_least a b \<longleftrightarrow> (\<exists>v \<ge> 0. compare a b = Inr (Some v))"

lemma at_least_trans: "at_least a b \<Longrightarrow> at_least b c \<Longrightarrow> at_least a c"
  unfolding at_least_def by (elim exE conjE) (metis compare_total compare_trans)

lemma reject_iff: "reject_below_floor p f compare label details = Inr () \<longleftrightarrow> at_least p f"
  by (cases "compare p f")
    (auto simp: reject_below_floor_def at_least_def not_less split: option.splits)

lemma validated_latest:
  assumes "validate_floor_document doc label compare = Inr ()"
    and "doc_latest_verified doc = Some latest"
    and "compare (lv_version latest) (floor_version (doc_floor doc)) = Inr (Some v)"
  shows "at_least (lv_version latest) (floor_version (doc_floor doc))"
  using assms
  by (auto simp: validate_floor_document_def at_least_def Let_def result_simps not_less
      split: if_splits option.splits)

lemma advised_passes:
  assumes valid: "validate_floor_document doc label compare = Inr ()"
    and advised: "advise probed (floor_version (doc_floor doc))
      (map_option lv_version (doc_latest_verified doc)) compare = Inr adv"
    and status: "adv_status adv \<in> {ADV_VERIFIED, ADV_AHEAD_OF_VERIFIED}"
  shows "at_least probed (floor_version (doc_floor doc))"
proof -
  let ?floor = "floor_version (doc_floor doc)"
  obtain latest v w where latest: "doc_latest_verified doc = Some latest"
    and floor: "compare probed ?floor = Inr (Some v)"
    and verified: "compare probed (lv_version latest) = Inr (Some w)" "0 \<le> w"
    using advised status
    by (cases "compare probed ?floor"; cases "doc_latest_verified doc";
        cases "compare probed (lv_version (the (doc_latest_verified doc)))")
      (auto simp: advise_def the_advisory_def split: option.splits if_splits)
  obtain x where "compare (lv_version latest) ?floor = Inr (Some x)"
    using compare_total [OF compare_swap [OF verified(1)] floor] by blast
  then have "at_least (lv_version latest) ?floor"
    by (rule validated_latest [OF valid latest])
  with verified show ?thesis
    using at_least_trans [of probed "lv_version latest" ?floor] by (auto simp: at_least_def)
qed

end

locale keyed_comparison =
  fixes compare :: version_compare and key :: "string \<Rightarrow> ('k :: linorder) option result"
  assumes compare_key: "compare a b = Inr (Some v) \<longleftrightarrow>
      (\<exists>x y. key a = Inr (Some x) \<and> key b = Inr (Some y) \<and> v = (if x < y then - 1 else if y < x then 1 else 0))"

sublocale keyed_comparison \<subseteq> version_order compare
  by unfold_locales (auto simp: compare_key split: if_splits)

section \<open>The comparisons of the code\<close>

lemma parsed_cases:
  obtains (raised) e where "r = Inl e" | (malformed) "r = Inr None" | (parsed) x where "r = Inr (Some x)"
  by (metis not_None_eq obj_sumE)

lemma compare_cursor_date_key:
  "compare_cursor_date a b = Inr (Some v) \<longleftrightarrow>
     (\<exists>x y. cursor_date_parts a = Inr (Some x) \<and> cursor_date_parts b = Inr (Some y)
       \<and> v = (if x < y then - 1 else if y < x then 1 else 0))"
  by (cases "cursor_date_parts a" rule: parsed_cases; cases "cursor_date_parts b" rule: parsed_cases)
    (auto simp: compare_cursor_date_def)

interpretation cursor_date: keyed_comparison compare_cursor_date cursor_date_parts
  by unfold_locales (rule compare_cursor_date_key)

text \<open>
  Padding with zeros compares the lists without their trailing zeros: \<open>1.2\<close> and \<open>1.2.0\<close> are the
  same release.
\<close>

fun drop_zeros :: "nat list \<Rightarrow> nat list" where
  "drop_zeros [] = []"
| "drop_zeros (n # ns) = (if n = 0 \<and> drop_zeros ns = [] then [] else n # drop_zeros ns)"

lemma drop_zeros_replicate [simp]: "drop_zeros (replicate k 0) = []"
  by (induction k) simp_all

lemma drop_zeros_pad [simp]: "drop_zeros (pad_zeros n ns) = drop_zeros ns"
  unfolding pad_zeros_def
proof (induction ns)
  case (Cons m ns)
  have "drop_zeros (ns @ replicate k 0) = drop_zeros ns" for k
    by (induction ns) simp_all
  then show ?case by simp
qed simp

lemma drop_zeros_less: "length xs = length ys \<Longrightarrow> xs < ys \<longleftrightarrow> drop_zeros xs < drop_zeros ys"
  by (induction xs ys rule: list_induct2) (auto simp: neq_Nil_conv)

lemma pad_zeros_length: "length (pad_zeros (max (length l) (length r)) l) = max (length l) (length r)"
  by (simp add: pad_zeros_def)

definition dotted_key :: "string \<Rightarrow> nat list option result" where
  "dotted_key version = bind_result (dotted_parts version) (\<lambda>parts. Inr (map_option drop_zeros parts))"

lemma pad_compare:
  "pad_zeros (max (length l) (length r)) l < pad_zeros (max (length l) (length r)) r
     \<longleftrightarrow> drop_zeros l < drop_zeros r"
  using drop_zeros_less [of "pad_zeros (max (length l) (length r)) l" "pad_zeros (max (length l) (length r)) r"]
    pad_zeros_length [of l r] pad_zeros_length [of r l] by (simp add: max.commute)

lemma compare_dotted_key:
  "compare_dotted a b = Inr (Some v) \<longleftrightarrow>
     (\<exists>x y. dotted_key a = Inr (Some x) \<and> dotted_key b = Inr (Some y)
       \<and> v = (if x < y then - 1 else if y < x then 1 else 0))"
proof -
  have "pad_zeros (max (length l) (length r)) r < pad_zeros (max (length l) (length r)) l
      \<longleftrightarrow> drop_zeros r < drop_zeros l" for l r
    using pad_compare [of r l] by (simp add: max.commute)
  then show ?thesis
    by (cases "dotted_parts a" rule: parsed_cases; cases "dotted_parts b" rule: parsed_cases)
      (auto simp: compare_dotted_def dotted_key_def Let_def pad_compare)
qed

interpretation dotted: keyed_comparison compare_dotted dotted_key
  by unfold_locales (rule compare_dotted_key)

text \<open>A release the advisory calls verified, or ahead of the verified one, is never below the
  compatibility floor, for a packaged floor document that passed validation and either of the two
  version comparisons.\<close>

theorem verified_release_passes_floor:
  assumes "compare \<in> {compare_dotted, compare_cursor_date}"
    and "validate_floor_document doc label compare = Inr ()"
    and "advise probed (floor_version (doc_floor doc))
      (map_option lv_version (doc_latest_verified doc)) compare = Inr adv"
    and "adv_status adv \<in> {ADV_VERIFIED, ADV_AHEAD_OF_VERIFIED}"
  shows "reject_below_floor probed (floor_version (doc_floor doc)) compare label details = Inr ()"
  using assms dotted.advised_passes dotted.reject_iff cursor_date.advised_passes cursor_date.reject_iff
  by auto

definition demo_floor :: floor_document where
  "demo_floor = \<lparr>doc_adapter_version = ''1'',
     doc_floor = \<lparr>floor_version = ''1.2'', floor_platforms = [''linux''],
       floor_capabilities = \<lparr>rel_supports_resume = True, rel_supports_interrupt = True,
         rel_supports_steer = False, rel_supports_multi_interaction = False,
         rel_supports_nested_activity = False, rel_supports_mcp_servers = False\<rparr>\<rparr>,
     doc_latest_verified = Some \<lparr>lv_version = ''1.10.0'', lv_identity = None, lv_platform = Some ''linux''\<rparr>\<rparr>"

theorem verified_release_passes_floor_witness:
  "reject_below_floor ''1.10'' ''1.2'' compare_dotted ''Codex'' [] = Inr ()"
proof -
  have "compare_dotted ''1.2'' ''1.2'' = Inr (Some 0)" "compare_dotted ''1.10.0'' ''1.2'' = Inr (Some 1)"
    by code_simp+
  moreover have "py_strip ''1.2'' \<noteq> []" by code_simp
  ultimately have valid: "validate_floor_document demo_floor ''Codex'' compare_dotted = Inr ()"
    by (simp add: validate_floor_document_def demo_floor_def known_platforms_def)
  have "floor_version (doc_floor demo_floor) = ''1.2''" by (simp add: demo_floor_def)
  moreover have "advise ''1.10'' (floor_version (doc_floor demo_floor))
      (map_option lv_version (doc_latest_verified demo_floor)) compare_dotted
    = Inr (the_advisory ADV_VERIFIED ''1.10'' ''1.2'' (Some ''1.10.0''))"
    by (simp add: demo_floor_def) code_simp
  ultimately show ?thesis
    using verified_release_passes_floor [OF _ valid, of "''1.10''" _ "[]"]
    by (simp add: the_advisory_def)
qed

text \<open>The gate of an operation, on every branch.\<close>

lemma enforce_operation_iff:
  "enforce_operation caps mode platforms label platform enforce = Inr () \<longleftrightarrow>
     \<not> enforce \<or> (platform \<in> known_platforms \<and> platform \<in> set platforms
       \<and> (\<forall>flag. capability_flag mode = Some flag \<longrightarrow> flag caps))"
  by (cases mode) (auto simp: enforce_operation_def assert_supported_platform_def)

text \<open>
  \<open>version_advisory\<close> is documented never to raise; a superscript digit passes \<open>isdigit\<close> and makes
  \<open>int\<close> raise.
\<close>

lemma advisory_raises:
  "\<exists>e. advise (''1.'' @ [char_of (178 :: nat)]) ''1.2'' None compare_dotted = Inl e"
  by (rule exI [of _ "ValueError ''invalid literal for int() with base 10''"]) code_simp

end
