(* ===== verification/Command_Progress.thy ===== *)
theory Command_Progress
  imports Conversation_State
begin

text \<open>
  The merge of command writes (\<open>application/persistence.py\<close>): several writers hold copies of a
  command row of different ages, and \<open>merge_command_progress\<close> decides what the row becomes. The
  lemmas say what no merge can undo; the durable store rests on them.
\<close>

definition terminal_command_statuses :: "command_status set" where
  "terminal_command_statuses = {CMD_SETTLED, CMD_COALESCED, CMD_OUTCOME_UNKNOWN}"

definition explicit_command_write_statuses :: "command_status set" where
  "explicit_command_write_statuses = terminal_command_statuses \<union> {CMD_ACCEPTED}"

text \<open>\<open>_INFLIGHT_COMMAND_RANK.get(status, 0)\<close>.\<close>

fun inflight_command_rank :: "command_status \<Rightarrow> nat" where
  "inflight_command_rank CMD_ACCEPTED = 0"
| "inflight_command_rank CMD_CLAIMED = 1"
| "inflight_command_rank CMD_DELIVERY_STARTED = 2"
| "inflight_command_rank CMD_DELIVERED = 3"
| "inflight_command_rank _ = 0"

text \<open>\<open>a or b\<close> and \<open>max\<close> of the leases that are set.\<close>

definition or_else :: "'a option \<Rightarrow> 'a option \<Rightarrow> 'a option" where
  "or_else a b = (case a of Some _ \<Rightarrow> a | None \<Rightarrow> b)"

definition later_lease :: "datetime option \<Rightarrow> datetime option \<Rightarrow> datetime option" where
  "later_lease a b = (case (a, b) of (Some x, Some y) \<Rightarrow> Some (max x y) | _ \<Rightarrow> or_else a b)"

text \<open>An empty worker id is falsy in \<open>incoming.worker_id or stored.worker_id\<close>.\<close>

definition or_text :: "string option \<Rightarrow> string option \<Rightarrow> string option" where
  "or_text a b = (if a = None \<or> a = Some [] then b else a)"

definition merge_command_progress :: "command \<Rightarrow> command \<Rightarrow> command" where
  "merge_command_progress stored incoming =
     (if cmd_status incoming = CMD_ACCEPTED \<and> cmd_attempts incoming < cmd_attempts stored then stored
      else if cmd_status incoming \<in> explicit_command_write_statuses then
        (if cmd_attempts incoming \<ge> cmd_attempts stored then incoming
         else incoming\<lparr>cmd_attempts := cmd_attempts stored\<rparr>)
      else if cmd_status stored \<in> terminal_command_statuses then stored
      else
        let status = (if inflight_command_rank (cmd_status stored) > inflight_command_rank (cmd_status incoming)
                      then cmd_status stored else cmd_status incoming)
        in incoming\<lparr>
             cmd_status := status,
             cmd_attempts := max (cmd_attempts stored) (cmd_attempts incoming),
             cmd_delivery_started_at := or_else (cmd_delivery_started_at incoming) (cmd_delivery_started_at stored),
             cmd_delivered_at := or_else (cmd_delivered_at incoming) (cmd_delivered_at stored),
             cmd_target_turn_id := or_else (cmd_target_turn_id incoming) (cmd_target_turn_id stored),
             cmd_lease_expires_at := later_lease (cmd_lease_expires_at stored) (cmd_lease_expires_at incoming),
             cmd_worker_id := or_text (cmd_worker_id incoming) (cmd_worker_id stored)\<rparr>)"

section \<open>What a merge keeps\<close>

text \<open>
  Delivery of a command has begun when it is past the claim, or claimed with a delivery start; it is
  then never handed out again. Only an explicit release, an accepted copy at least as fresh as the
  row, makes a command claimable again.
\<close>

definition begun :: "command \<Rightarrow> bool" where
  "begun c \<longleftrightarrow> cmd_status c \<noteq> CMD_ACCEPTED
     \<and> (cmd_status c = CMD_CLAIMED \<longrightarrow> cmd_delivery_started_at c \<noteq> None)"

definition releases :: "command \<Rightarrow> command \<Rightarrow> bool" where
  "releases stored incoming \<longleftrightarrow>
     cmd_status incoming = CMD_ACCEPTED \<and> cmd_attempts stored \<le> cmd_attempts incoming"

lemma or_else_None [simp]: "or_else a b = None \<longleftrightarrow> a = None \<and> b = None"
  by (simp add: or_else_def split: option.split)

lemma inflight_cases:
  "s \<notin> explicit_command_write_statuses \<longleftrightarrow> s \<in> {CMD_CLAIMED, CMD_DELIVERY_STARTED, CMD_DELIVERED}"
  by (cases s) (simp_all add: explicit_command_write_statuses_def terminal_command_statuses_def)

lemma merge_keeps_begun:
  assumes "begun stored" and "\<not> releases stored incoming"
  shows "begun (merge_command_progress stored incoming)"
proof (cases "cmd_status incoming \<in> explicit_command_write_statuses")
  case True
  with assms show ?thesis
    by (auto simp: merge_command_progress_def begun_def releases_def explicit_command_write_statuses_def
        terminal_command_statuses_def)
next
  case False
  with assms show ?thesis
    by (cases "cmd_status stored"; cases "cmd_status incoming")
      (auto simp: merge_command_progress_def begun_def explicit_command_write_statuses_def
        terminal_command_statuses_def Let_def)
qed

lemma merge_attempts: "cmd_attempts stored \<le> cmd_attempts (merge_command_progress stored incoming)"
  by (simp add: merge_command_progress_def Let_def)

lemma merge_delivery_start:
  "cmd_status incoming \<notin> explicit_command_write_statuses \<Longrightarrow> cmd_delivery_started_at stored \<noteq> None \<Longrightarrow>
     cmd_delivery_started_at (merge_command_progress stored incoming) \<noteq> None"
  by (auto simp: merge_command_progress_def explicit_command_write_statuses_def Let_def or_else_def
      split: option.split)

lemma merge_identity: "cmd_id incoming = cmd_id stored \<Longrightarrow> cmd_id (merge_command_progress stored incoming) = cmd_id stored"
  by (simp add: merge_command_progress_def Let_def)

lemma merge_fresh: "merge_command_progress c c = c"
  by (cases c) (simp add: merge_command_progress_def Let_def or_else_def or_text_def later_lease_def
      split: option.split)

text \<open>C23: Writing a copy of a command row, however old, never undoes delivery: a row whose delivery has begun stays
  so under every write that is not an explicit release, the attempts never fall, and repeating the
  write changes nothing.\<close>

theorem merge_never_regresses:
  "cmd_attempts stored \<le> cmd_attempts (merge_command_progress stored incoming)
   \<and> (begun stored \<and> \<not> releases stored incoming \<longrightarrow> begun (merge_command_progress stored incoming))
   \<and> (cmd_status (merge_command_progress stored incoming) \<notin> {CMD_ACCEPTED} \<union> terminal_command_statuses
      \<longrightarrow> inflight_command_rank (cmd_status stored)
            \<le> inflight_command_rank (cmd_status (merge_command_progress stored incoming)))
   \<and> merge_command_progress (merge_command_progress stored incoming) incoming
       = merge_command_progress stored incoming"
proof (intro conjI impI)
  show "merge_command_progress (merge_command_progress stored incoming) incoming
       = merge_command_progress stored incoming"
    by (cases "cmd_status stored"; cases "cmd_status incoming")
      (auto simp: merge_command_progress_def explicit_command_write_statuses_def
        terminal_command_statuses_def Let_def or_else_def or_text_def later_lease_def split: option.split)
  assume "cmd_status (merge_command_progress stored incoming) \<notin> {CMD_ACCEPTED} \<union> terminal_command_statuses"
  then show "inflight_command_rank (cmd_status stored)
      \<le> inflight_command_rank (cmd_status (merge_command_progress stored incoming))"
    by (auto simp: merge_command_progress_def explicit_command_write_statuses_def
        terminal_command_statuses_def Let_def split: if_splits)
qed (auto intro: merge_keeps_begun merge_attempts)

text \<open>A stale copy, taken right after the claim, arrives when the row is already delivered.\<close>

definition demo_delivered_row :: command where
  "demo_delivered_row = (accepted_command (Uuid 1) (Uuid 2) InterruptPayload ''k'' None 10)
     \<lparr>cmd_status := CMD_DELIVERED, cmd_attempts := 2, cmd_delivery_started_at := Some 20,
      cmd_delivered_at := Some 21, cmd_worker_id := Some ''w''\<rparr>"

definition demo_stale_copy :: command where
  "demo_stale_copy = demo_delivered_row\<lparr>cmd_status := CMD_CLAIMED, cmd_attempts := 1,
     cmd_delivery_started_at := None, cmd_delivered_at := None\<rparr>"

theorem merge_never_regresses_witness:
  "begun (merge_command_progress demo_delivered_row demo_stale_copy)"
proof -
  have "begun demo_delivered_row" "\<not> releases demo_delivered_row demo_stale_copy" by code_simp+
  then show ?thesis
    using merge_never_regresses [of demo_delivered_row demo_stale_copy] by blast
qed

end
