(* ===== verification/Durable_Store.thy ===== *)
theory Durable_Store
  imports Command_Progress Wire_Values
begin

text \<open>
  The durable store (\<open>src/talktoharnesses/django/persistence.py\<close>): the aggregate rows with their
  version and runtime ownership, the command rows, the event log, process incarnations and recovery
  attempts, and the transactions over them. A transaction is a function from the store to either an
  exception, which rolls it back, or its result and the next store. The database clock \<open>_db_now()\<close> is
  an argument. The columns of a command row that copy fields of its JSON (\<open>_command_values\<close>) and the
  columns of an aggregate row no transaction below reads are not repeated; the read-model tables
  \<open>materialize_projections\<close> fills are left out.
\<close>

section \<open>Rows\<close>

record aggregate_row =
  ag_owner_id :: string
  ag_version :: int
  ag_next_event_sequence :: int
  ag_deleted_at :: "datetime option"
  ag_status :: conversation_status
  ag_worker_id :: "string option"
  ag_fence :: int
  ag_lease_expires_at :: "datetime option"
  ag_state :: conversation_state

record command_row =
  cr_conversation_id :: uuid
  cr_idempotency_key :: string
  cr_command :: command

record event_row =
  er_event :: conversation_event
  er_turn_id :: "uuid option"

record process_row =
  pr_conversation_id :: uuid
  pr_binding_id :: "uuid option"
  pr_status :: process_status
  pr_pid :: "int option"
  pr_started_at :: "datetime option"
  pr_exited_at :: "datetime option"
  pr_orphaned_at :: "datetime option"
  pr_exit_code :: "int option"
  pr_redacted_stderr_tail :: string

record attempt_row =
  at_conversation_id :: uuid
  at_binding_id :: uuid
  at_command_id :: "uuid option"
  at_turn_id :: "uuid option"
  at_worker_id :: string
  at_fence :: int
  at_trigger :: recovery_trigger
  at_phase :: observed_delivery_phase
  at_action :: recovery_action
  at_result :: "recovery_result_code option"
  at_reason_code :: recovery_reason_code
  at_started_at :: datetime
  at_completed_at :: "datetime option"

text \<open>
  The tables of interactions: the columns of their rows that transactions write (\<open>Interaction_Store\<close>),
  the answers with what became of them, the approval rules and the audits.
\<close>

record interaction_marks =
  im_provider_correlation :: "(string, string) dict"
  im_request_event_sequence :: "int option"
  im_policy_evaluated_at :: "datetime option"

record answer_row =
  ar_conversation_id :: uuid
  ar_answer :: interaction_answer
  ar_event_sequence :: int
  ar_command_id :: "uuid option"
  ar_released_at :: "datetime option"
  ar_suppressed :: bool

record audit_row =
  au_id :: uuid
  au_principal_id :: string
  au_interaction_id :: uuid
  au_conversation_id :: uuid
  au_turn_id :: uuid
  au_kind :: interaction_kind
  au_decision :: "approval_decision option"
  au_answers :: "(string, json) dict option"
  au_automatic :: bool
  au_created_at :: datetime
  au_provider_kind :: "harness_kind option"
  au_provider_request_ids :: "(string, string) dict"
  au_rule :: "approval_rule option"
  au_request_action :: "approval_action option"

record interaction_tables =
  it_marks :: "(uuid, interaction_marks) dict"
  it_answers :: "(uuid, answer_row) dict"
  it_rules :: "(uuid, approval_rule) dict"
  it_audits :: "audit_row list"

text \<open>The lease of a worker process, one row per slot.\<close>

record worker_lease_row =
  wl_worker_id :: string
  wl_started_at :: datetime
  wl_heartbeat_at :: datetime
  wl_expires_at :: datetime
  wl_draining :: bool

record store =
  db_aggregates :: "(uuid, aggregate_row) dict"
  db_commands :: "(uuid, command_row) dict"
  db_events :: "event_row list"
  db_processes :: "(uuid, process_row) dict"
  db_launches :: "(uuid, launch_snapshot) dict"
  db_attempts :: "(uuid, attempt_row) dict"
  db_interactions :: interaction_tables
  db_workers :: "(string, worker_lease_row) dict"

type_synonym 'a transaction = "store \<Rightarrow> exn + ('a \<times> store)"

definition put_aggregate :: "store \<Rightarrow> uuid \<Rightarrow> aggregate_row \<Rightarrow> store" where
  "put_aggregate db cid row = db\<lparr>db_aggregates := dict_put (db_aggregates db) cid row\<rparr>"

definition put_command :: "store \<Rightarrow> uuid \<Rightarrow> command_row \<Rightarrow> store" where
  "put_command db i row = db\<lparr>db_commands := dict_put (db_commands db) i row\<rparr>"

section \<open>Aggregate rows\<close>

text \<open>\<open>_store_aggregate\<close>: every column of the aggregate follows the state; ownership is not touched.\<close>

definition store_aggregate :: "aggregate_row \<Rightarrow> conversation_state \<Rightarrow> aggregate_row" where
  "store_aggregate row st = row\<lparr>
     ag_owner_id := conv_owner_id (st_conversation st),
     ag_version := conv_version (st_conversation st),
     ag_next_event_sequence := conv_next_event_sequence (st_conversation st),
     ag_deleted_at := conv_deleted_at (st_conversation st),
     ag_status := conv_status (st_conversation st),
     ag_state := st\<rparr>"

text \<open>A created row takes the defaults of the model: no owner, fence 0.\<close>

definition new_aggregate_row :: "conversation_state \<Rightarrow> aggregate_row" where
  "new_aggregate_row st =
     \<lparr>ag_owner_id = conv_owner_id (st_conversation st), ag_version = conv_version (st_conversation st),
      ag_next_event_sequence = conv_next_event_sequence (st_conversation st),
      ag_deleted_at = conv_deleted_at (st_conversation st), ag_status = conv_status (st_conversation st),
      ag_worker_id = None, ag_fence = 0, ag_lease_expires_at = None, ag_state = st\<rparr>"

definition conflict :: "int \<Rightarrow> int \<Rightarrow> exn" where
  "conflict expected actual = DomainError OPTIMISTIC_CONFLICT ''optimistic concurrency conflict''
     [(''expected'', JInt expected), (''actual'', JInt actual)]"

definition stale_owner :: "uuid \<Rightarrow> exn" where
  "stale_owner cid = DomainError STALE_OWNER ''stale conversation owner''
     [(''conversation_id'', JStr (uuid_str cid))]"

definition conversation_not_found :: exn where
  "conversation_not_found = DomainError INVALID_STATE ''conversation not found'' []"

section \<open>Ownership\<close>

definition require_owner_on_row ::
  "uuid \<Rightarrow> aggregate_row \<Rightarrow> datetime \<Rightarrow> string option \<Rightarrow> int option \<Rightarrow> unit result" where
  "require_owner_on_row cid row now worker_id fence =
     (case (worker_id, fence) of
        (None, None) \<Rightarrow> Inr ()
      | (Some w, Some f) \<Rightarrow>
          if ag_worker_id row \<noteq> Some w \<or> ag_fence row \<noteq> f \<or> ag_lease_expires_at row = None
             \<or> the (ag_lease_expires_at row) < now
          then Inl (stale_owner cid) else Inr ()
      | _ \<Rightarrow> Inl (stale_owner cid))"

definition require_conversation_owner ::
  "store \<Rightarrow> uuid \<Rightarrow> datetime \<Rightarrow> string option \<Rightarrow> int option \<Rightarrow> unit result" where
  "require_conversation_owner db cid now worker_id fence =
     (case dict_get (db_aggregates db) cid of
        None \<Rightarrow> Inl conversation_not_found
      | Some row \<Rightarrow> require_owner_on_row cid row now worker_id fence)"

text \<open>\<open>mark_processes_orphaned\<close>.\<close>

definition mark_processes_orphaned :: "uuid \<Rightarrow> datetime \<Rightarrow> store \<Rightarrow> store" where
  "mark_processes_orphaned cid now db = db\<lparr>db_processes := map (\<lambda>(i, p).
     (i, if pr_conversation_id p = cid \<and> pr_status p \<in> {PROC_STARTING, PROC_RUNNING}
         then p\<lparr>pr_status := PROC_ORPHANED, pr_orphaned_at := Some now\<rparr> else p)) (db_processes db)\<rparr>"

definition lease_is_live :: "datetime option \<Rightarrow> datetime \<Rightarrow> bool" where
  "lease_is_live lease now = (case lease of None \<Rightarrow> False | Some l \<Rightarrow> l \<ge> now)"

text \<open>Acquire or renew; \<open>None\<close> when the row is missing or another owner is live.\<close>

definition acquire_conversation_owner ::
  "uuid \<Rightarrow> string \<Rightarrow> int \<Rightarrow> datetime \<Rightarrow> bool \<Rightarrow> store \<Rightarrow> int option \<times> store" where
  "acquire_conversation_owner cid worker_id lease_duration now orphan_on_takeover db =
     (case dict_get (db_aggregates db) cid of
        None \<Rightarrow> (None, db)
      | Some row \<Rightarrow>
          let other = ag_worker_id row \<noteq> None \<and> ag_worker_id row \<noteq> Some worker_id;
              live_other = other \<and> lease_is_live (ag_lease_expires_at row) now
          in if live_other then (None, db)
             else
               let taking_over = other \<and> \<not> lease_is_live (ag_lease_expires_at row) now;
                   same_worker = ag_worker_id row = Some worker_id
                     \<and> (ag_lease_expires_at row = None \<or> lease_is_live (ag_lease_expires_at row) now);
                   fence = (if same_worker then ag_fence row else ag_fence row + 1);
                   db1 = (if \<not> same_worker \<and> (taking_over \<or> orphan_on_takeover)
                          then mark_processes_orphaned cid now db else db)
               in (Some fence, put_aggregate db1 cid (row\<lparr>ag_worker_id := Some worker_id,
                     ag_fence := fence, ag_lease_expires_at := Some (now + lease_duration)\<rparr>)))"

section \<open>Reading\<close>

text \<open>\<open>{**state.commands, **overlay}\<close> with the rows of the state's own commands.\<close>

definition overlay_commands :: "store \<Rightarrow> (uuid, command) dict \<Rightarrow> (uuid, command) dict" where
  "overlay_commands db commands = map (\<lambda>(i, c).
     (i, case dict_get (db_commands db) i of None \<Rightarrow> c | Some row \<Rightarrow> cr_command row)) commands"

definition get_worker_snapshot :: "store \<Rightarrow> uuid \<Rightarrow> conversation_state result" where
  "get_worker_snapshot db cid =
     (case dict_get (db_aggregates db) cid of
        None \<Rightarrow> Inl (DomainError INVALID_STATE ''conversation not found''
          [(''conversation_id'', JStr (uuid_str cid))])
      | Some row \<Rightarrow> Inr ((ag_state row)\<lparr>st_commands := overlay_commands db (st_commands (ag_state row))\<rparr>))"

definition get_snapshot :: "store \<Rightarrow> uuid \<Rightarrow> string \<Rightarrow> conversation_state result" where
  "get_snapshot db cid owner_id =
     (case dict_get (db_aggregates db) cid of
        Some row \<Rightarrow> if ag_owner_id row = owner_id \<and> ag_deleted_at row = None then Inr (ag_state row)
          else Inl (DomainError INVALID_STATE ''conversation not found''
            [(''conversation_id'', JStr (uuid_str cid))])
      | None \<Rightarrow> Inl (DomainError INVALID_STATE ''conversation not found''
          [(''conversation_id'', JStr (uuid_str cid))]))"

text \<open>
  \<open>_replay\<close>: at most \<open>event_count_limit\<close> events after a sequence number, cut where their encodings
  exceed the byte limit. The encoding is pydantic's; its size is the parameter \<open>size_of\<close>.
\<close>

fun take_bytes :: "(conversation_event \<Rightarrow> nat) \<Rightarrow> nat \<Rightarrow> nat \<Rightarrow> bool \<Rightarrow> conversation_event list
    \<Rightarrow> conversation_event list" where
  "take_bytes size_of byte_limit used started [] = []"
| "take_bytes size_of byte_limit used started (e # es) =
     (if started \<and> used + size_of e > byte_limit then []
      else if size_of e > byte_limit then []
      else e # take_bytes size_of byte_limit (used + size_of e) True es)"

definition replay_page ::
  "(conversation_event \<Rightarrow> nat) \<Rightarrow> store \<Rightarrow> uuid \<Rightarrow> int \<Rightarrow> nat \<Rightarrow> nat \<Rightarrow> conversation_event list" where
  "replay_page size_of db cid after_sequence event_count_limit byte_limit =
     take_bytes size_of byte_limit 0 False (take event_count_limit (sort_key ev_sequence
       (filter (\<lambda>e. ev_conversation_id e = cid \<and> ev_sequence e > after_sequence)
         (map er_event (db_events db)))))"

section \<open>Writing\<close>

text \<open>The loop over the events of a commit: same conversation, consecutive numbers.\<close>

fun check_sequence :: "uuid \<Rightarrow> int \<Rightarrow> conversation_event list \<Rightarrow> int result" where
  "check_sequence cid expected [] = Inr expected"
| "check_sequence cid expected (e # es) =
     (if ev_conversation_id e \<noteq> cid \<or> ev_sequence e \<noteq> expected
      then raise_domain OPTIMISTIC_CONFLICT ''event sequence conflict''
      else check_sequence cid (expected + 1) es)"

definition check_events :: "uuid \<Rightarrow> int \<Rightarrow> conversation_state \<Rightarrow> conversation_event list \<Rightarrow> unit result" where
  "check_events cid expected st events = bind_result (check_sequence cid expected events) (\<lambda>after.
     if conv_next_event_sequence (st_conversation st) \<noteq> after
     then raise_domain OPTIMISTIC_CONFLICT ''aggregate sequence conflict'' else Inr ())"

definition lock_aggregate_for_commit ::
  "store \<Rightarrow> uuid \<Rightarrow> int \<Rightarrow> conversation_state \<Rightarrow> conversation_event list \<Rightarrow> datetime
     \<Rightarrow> string option \<Rightarrow> int option \<Rightarrow> aggregate_row result" where
  "lock_aggregate_for_commit db cid expected_version st events now worker_id fence =
     (case dict_get (db_aggregates db) cid of
        None \<Rightarrow> Inl conversation_not_found
      | Some row \<Rightarrow> bind_result (require_owner_on_row cid row now worker_id fence) (\<lambda>_.
          if ag_version row \<noteq> expected_version then Inl (conflict expected_version (ag_version row))
          else if conv_id (st_conversation st) \<noteq> cid then
            raise_domain INVALID_STATE ''aggregate belongs to another conversation''
          else bind_result (check_events cid (ag_next_event_sequence row) st events) (\<lambda>_. Inr row)))"

text \<open>\<open>_insert_events\<close> with the keys of the table: the event id, and conversation with sequence.\<close>

definition same_event_key :: "conversation_event \<Rightarrow> conversation_event \<Rightarrow> bool" where
  "same_event_key d e \<longleftrightarrow> ev_event_id d = ev_event_id e
     \<or> (ev_conversation_id d = ev_conversation_id e \<and> ev_sequence d = ev_sequence e)"

fun insert_events :: "(uuid, uuid) dict \<Rightarrow> conversation_event list \<Rightarrow> store \<Rightarrow> exn + store" where
  "insert_events interaction_turn_ids [] db = Inr db"
| "insert_events interaction_turn_ids (e # es) db =
     (if list_ex (\<lambda>r. same_event_key (er_event r) e) (db_events db)
      then Inl (IntegrityError ''talktoharnesses_event'')
      else insert_events interaction_turn_ids es (db\<lparr>db_events := db_events db @
        [\<lparr>er_event = e, er_turn_id = event_turn_id e (Some interaction_turn_ids)\<rparr>]\<rparr>))"

definition interaction_turns :: "conversation_state \<Rightarrow> (uuid, uuid) dict" where
  "interaction_turns st = map (\<lambda>(i, x). (i, inter_turn_id x)) (st_interactions st)"

text \<open>\<open>update_or_create\<close> of a command row, which bypasses the merge.\<close>

definition upsert_command :: "uuid \<Rightarrow> command \<Rightarrow> store \<Rightarrow> exn + store" where
  "upsert_command cid c db =
     (if list_ex (\<lambda>(i, row). i \<noteq> cmd_id c \<and> cr_conversation_id row = cid
            \<and> cr_idempotency_key row = cmd_idempotency_key c) (db_commands db)
      then Inl (IntegrityError ''talktoharnesses_unique_command_key'')
      else Inr (put_command db (cmd_id c) \<lparr>cr_conversation_id = cid,
             cr_idempotency_key = cmd_idempotency_key c, cr_command = c\<rparr>))"

fun for_each :: "('a \<Rightarrow> store \<Rightarrow> exn + store) \<Rightarrow> 'a list \<Rightarrow> store \<Rightarrow> exn + store" where
  "for_each f [] db = Inr db"
| "for_each f (x # xs) db = bind_result (f x db) (for_each f xs)"

text \<open>The process of a lifecycle commit is upserted; its launch is recorded once and never changes.\<close>

definition record_process ::
  "(uuid \<times> process_row) option \<Rightarrow> launch_snapshot option \<Rightarrow> store \<Rightarrow> exn + store" where
  "record_process process launch db =
     (case process of
        None \<Rightarrow> if launch \<noteq> None then raise_domain INVALID_STATE ''launch history requires a process'' else Inr db
      | Some (i, row) \<Rightarrow>
          let db1 = db\<lparr>db_processes := dict_put (db_processes db) i row\<rparr> in
          case launch of
            None \<Rightarrow> Inr db1
          | Some entry \<Rightarrow>
              (case dict_get (db_launches db1) i of
                 None \<Rightarrow> Inr (db1\<lparr>db_launches := dict_put (db_launches db1) i entry\<rparr>)
               | Some old \<Rightarrow> if old \<noteq> entry then raise_domain INVALID_STATE ''launch history is immutable''
                             else Inr db1))"

definition commit_batch ::
  "uuid \<Rightarrow> int \<Rightarrow> conversation_state \<Rightarrow> conversation_event list \<Rightarrow> command list
     \<Rightarrow> (uuid \<times> process_row) option \<Rightarrow> launch_snapshot option \<Rightarrow> datetime
     \<Rightarrow> string option \<Rightarrow> int option \<Rightarrow> store \<Rightarrow> exn + store" where
  "commit_batch cid expected_version st events commands process launch now worker_id fence db =
     bind_result (lock_aggregate_for_commit db cid expected_version st events now worker_id fence) (\<lambda>row.
     bind_result (record_process process launch (put_aggregate db cid (store_aggregate row st))) (\<lambda>db1.
     bind_result (insert_events (interaction_turns st) events db1) (\<lambda>db2.
       for_each (upsert_command cid) commands db2)))"

definition settle_command_row :: "command \<Rightarrow> store \<Rightarrow> exn + store" where
  "settle_command_row c db =
     (case dict_get (db_commands db) (cmd_id c) of
        None \<Rightarrow> Inl (DomainError INVALID_STATE ''command not found''
          [(''command_id'', JStr (uuid_str (cmd_id c)))])
      | Some row \<Rightarrow> Inr (put_command db (cmd_id c)
          (row\<lparr>cr_command := merge_command_progress (cr_command row) c\<rparr>)))"

definition commit_turn_batch ::
  "uuid \<Rightarrow> int \<Rightarrow> conversation_state \<Rightarrow> conversation_event list \<Rightarrow> command list \<Rightarrow> datetime
     \<Rightarrow> string option \<Rightarrow> int option \<Rightarrow> store \<Rightarrow> exn + store" where
  "commit_turn_batch cid expected_version st events commands now worker_id fence db =
     bind_result (commit_batch cid expected_version st events [] None None now worker_id fence db)
       (for_each settle_command_row commands)"

definition update_command ::
  "command \<Rightarrow> datetime \<Rightarrow> string option \<Rightarrow> int option \<Rightarrow> command transaction" where
  "update_command c now worker_id fence db =
     bind_result (if worker_id \<noteq> None \<or> fence \<noteq> None
                  then require_conversation_owner db (cmd_conversation_id c) now worker_id fence
                  else Inr ()) (\<lambda>_.
       case dict_get (db_commands db) (cmd_id c) of
         None \<Rightarrow> raise_domain INVALID_STATE ''command not found''
       | Some row \<Rightarrow>
           let merged = merge_command_progress (cr_command row) c
           in Inr (merged, put_command db (cmd_id c) (row\<lparr>cr_command := merged\<rparr>)))"

text \<open>\<open>save_snapshot\<close>: creation, and a retry of the same write.\<close>

definition save_snapshot :: "conversation_state \<Rightarrow> store \<Rightarrow> exn + store" where
  "save_snapshot st db =
     (let cid = conv_id (st_conversation st) in
      case dict_get (db_aggregates db) cid of
        None \<Rightarrow> Inr (put_aggregate db cid (new_aggregate_row st))
      | Some row \<Rightarrow>
          let expected = conv_version (st_conversation st) - 1 in
          if ag_version row \<noteq> expected then
            (if ag_version row = conv_version (st_conversation st) \<and> ag_state row = st then Inr db
             else Inl (conflict expected (ag_version row)))
          else Inr (put_aggregate db cid (store_aggregate row st)))"

definition accept_command :: "command \<Rightarrow> command transaction" where
  "accept_command c db =
     (case List.find (\<lambda>(i, row). cr_conversation_id row = cmd_conversation_id c
             \<and> cr_idempotency_key row = cmd_idempotency_key c) (db_commands db) of
        Some (i, row) \<Rightarrow> Inr (cr_command row, db)
      | None \<Rightarrow>
          if dict_get (db_commands db) (cmd_id c) \<noteq> None
             \<or> dict_get (db_aggregates db) (cmd_conversation_id c) = None
          then Inl (IntegrityError ''talktoharnesses_command'')
          else Inr (c, put_command db (cmd_id c) \<lparr>cr_conversation_id = cmd_conversation_id c,
             cr_idempotency_key = cmd_idempotency_key c, cr_command = c\<rparr>))"

text \<open>\<open>commit_facade_mutation\<close>: a command of the API, checked against the caller instead of a fence.\<close>

definition facade_not_found :: exn where
  "facade_not_found = DomainError NOT_FOUND ''conversation not found'' []"

definition commit_facade_mutation ::
  "uuid \<Rightarrow> string \<Rightarrow> int \<Rightarrow> conversation_state \<Rightarrow> conversation_event list \<Rightarrow> command list
     \<Rightarrow> store \<Rightarrow> exn + store" where
  "commit_facade_mutation cid owner_id expected_version st events commands db =
     (case dict_get (db_aggregates db) cid of
        None \<Rightarrow> Inl facade_not_found
      | Some row \<Rightarrow>
          if ag_owner_id row \<noteq> owner_id then Inl facade_not_found
          else if ag_deleted_at row \<noteq> None \<and> conv_deleted_at (st_conversation st) = None then Inl facade_not_found
          else if ag_version row \<noteq> expected_version then Inl (conflict expected_version (ag_version row))
          else if conv_id (st_conversation st) \<noteq> cid then
            raise_domain INVALID_STATE ''aggregate belongs to another conversation''
          else if conv_owner_id (st_conversation st) \<noteq> owner_id then Inl facade_not_found
          else bind_result (check_events cid (ag_next_event_sequence row) st events) (\<lambda>_.
            bind_result (insert_events (interaction_turns st) events
                (put_aggregate db cid (store_aggregate row st)))
              (for_each (upsert_command cid) commands)))"

section \<open>Claims and leases\<close>

definition claimable :: "datetime \<Rightarrow> command \<Rightarrow> bool" where
  "claimable now c \<longleftrightarrow> cmd_status c = CMD_ACCEPTED
     \<or> (cmd_status c = CMD_CLAIMED \<and> (case cmd_lease_expires_at c of None \<Rightarrow> False | Some l \<Rightarrow> l < now)
        \<and> cmd_delivery_started_at c = None)"

definition claimed_copy :: "string \<Rightarrow> int \<Rightarrow> datetime \<Rightarrow> command \<Rightarrow> command" where
  "claimed_copy worker_id lease_duration now c =
     c\<lparr>cmd_status := CMD_CLAIMED, cmd_worker_id := Some worker_id, cmd_attempts := cmd_attempts c + 1,
       cmd_lease_expires_at := Some (now + lease_duration)\<rparr>"

text \<open>The rows of the query are locked, so each iteration sees the row the query saw.\<close>

fun claim_rows :: "string \<Rightarrow> int \<Rightarrow> datetime \<Rightarrow> uuid list \<Rightarrow> store \<Rightarrow> (command \<times> int) list \<times> store" where
  "claim_rows worker_id lease_duration now [] db = ([], db)"
| "claim_rows worker_id lease_duration now (i # rows) db =
     (case dict_get (db_commands db) i of
        None \<Rightarrow> claim_rows worker_id lease_duration now rows db
      | Some row \<Rightarrow>
          (case acquire_conversation_owner (cr_conversation_id row) worker_id lease_duration now False db of
             (None, db1) \<Rightarrow> claim_rows worker_id lease_duration now rows db1
           | (Some fence, db1) \<Rightarrow>
               let c = claimed_copy worker_id lease_duration now (cr_command row);
                   rest = claim_rows worker_id lease_duration now rows
                     (put_command db1 i (row\<lparr>cr_command := c\<rparr>))
               in ((c, fence) # fst rest, snd rest)))"

definition claim_candidates :: "datetime \<Rightarrow> nat \<Rightarrow> store \<Rightarrow> uuid list" where
  "claim_candidates now limit db =
     take limit (sort (map fst (filter (\<lambda>(i, row). claimable now (cr_command row)) (db_commands db))))"

definition claim_commands :: "string \<Rightarrow> nat \<Rightarrow> int \<Rightarrow> datetime \<Rightarrow> store \<Rightarrow> (command \<times> int) list \<times> store" where
  "claim_commands worker_id limit lease_duration now db =
     claim_rows worker_id lease_duration now (claim_candidates now limit db) db"

definition renew_command_lease ::
  "uuid \<Rightarrow> string \<Rightarrow> int \<Rightarrow> int option \<Rightarrow> datetime \<Rightarrow> store \<Rightarrow> exn + store" where
  "renew_command_lease i worker_id lease_duration fence now db =
     (case dict_get (db_commands db) i of
        Some row \<Rightarrow>
          if cmd_worker_id (cr_command row) \<noteq> Some worker_id
             \<or> cmd_status (cr_command row) \<notin> {CMD_CLAIMED, CMD_DELIVERY_STARTED, CMD_DELIVERED}
          then raise_domain INVALID_STATE ''command lease not found for worker''
          else bind_result (case fence of None \<Rightarrow> Inr ()
              | Some f \<Rightarrow> require_conversation_owner db (cr_conversation_id row) now (Some worker_id) (Some f)) (\<lambda>_.
            Inr (put_command db i (row\<lparr>cr_command :=
              (cr_command row)\<lparr>cmd_lease_expires_at := Some (now + lease_duration)\<rparr>\<rparr>)))
      | None \<Rightarrow> raise_domain INVALID_STATE ''command lease not found for worker'')"

definition release_conversation_lease ::
  "uuid \<Rightarrow> string \<Rightarrow> int \<Rightarrow> datetime \<Rightarrow> store \<Rightarrow> exn + store" where
  "release_conversation_lease cid worker_id fence now db =
     (case dict_get (db_aggregates db) cid of
        None \<Rightarrow> Inl conversation_not_found
      | Some row \<Rightarrow> bind_result (require_owner_on_row cid row now (Some worker_id) (Some fence)) (\<lambda>_.
          Inr (put_aggregate db cid (row\<lparr>ag_worker_id := None, ag_lease_expires_at := None\<rparr>))))"

text \<open>\<open>renew_owned_conversation_leases\<close>: the lost leases with their fences, and the renewed rows.\<close>

definition renew_row :: "string \<Rightarrow> int \<Rightarrow> datetime \<Rightarrow> aggregate_row \<Rightarrow> aggregate_row" where
  "renew_row worker_id lease_duration now row =
     (if ag_worker_id row \<noteq> Some worker_id then row
      else if \<not> lease_is_live (ag_lease_expires_at row) now
      then row\<lparr>ag_worker_id := None, ag_lease_expires_at := None\<rparr>
      else row\<lparr>ag_lease_expires_at := Some (now + lease_duration)\<rparr>)"

definition renew_owned_conversation_leases ::
  "string \<Rightarrow> int \<Rightarrow> datetime \<Rightarrow> store \<Rightarrow> (uuid \<times> int) list \<times> store" where
  "renew_owned_conversation_leases worker_id lease_duration now db =
     (map (\<lambda>(cid, row). (cid, ag_fence row)) (sort_key fst (filter (\<lambda>(cid, row).
        ag_worker_id row = Some worker_id \<and> \<not> lease_is_live (ag_lease_expires_at row) now) (db_aggregates db))),
      db\<lparr>db_aggregates := map (\<lambda>(cid, row). (cid, renew_row worker_id lease_duration now row))
        (db_aggregates db)\<rparr>)"

section \<open>Takeover of expired conversations\<close>

definition lease_lapsed :: "datetime option \<Rightarrow> datetime \<Rightarrow> bool" where
  "lease_lapsed lease now = (case lease of None \<Rightarrow> False | Some l \<Rightarrow> l < now)"

definition expired_command_owner :: "store \<Rightarrow> uuid \<Rightarrow> datetime \<Rightarrow> bool" where
  "expired_command_owner db cid now \<longleftrightarrow> list_ex (\<lambda>(i, row). cr_conversation_id row = cid
     \<and> cmd_status (cr_command row) \<in> {CMD_CLAIMED, CMD_DELIVERY_STARTED, CMD_DELIVERED}
     \<and> (cmd_lease_expires_at (cr_command row) = None \<or> lease_lapsed (cmd_lease_expires_at (cr_command row)) now))
     (db_commands db)"

definition takeover_candidate :: "string \<Rightarrow> datetime \<Rightarrow> store \<Rightarrow> uuid \<times> aggregate_row \<Rightarrow> bool" where
  "takeover_candidate worker_id now db r \<longleftrightarrow> (let (cid, row) = r in
     ag_deleted_at row = None
     \<and> (lease_lapsed (ag_lease_expires_at row) now
        \<or> (ag_status row \<in> {CONV_RUNNING, CONV_WAITING, CONV_BACKGROUND_ACTIVE}
           \<and> ag_lease_expires_at row = None)
        \<or> expired_command_owner db cid now)
     \<and> \<not> (ag_worker_id row = Some worker_id \<and> lease_is_live (ag_lease_expires_at row) now))"

definition abandon_attempts :: "uuid \<Rightarrow> datetime \<Rightarrow> store \<Rightarrow> store" where
  "abandon_attempts cid now db = db\<lparr>db_attempts := map (\<lambda>(i, a).
     (i, if at_conversation_id a = cid \<and> at_result a = None
         then a\<lparr>at_result := Some RES_ABANDONED, at_reason_code := RR_WORKER_LOST, at_completed_at := Some now\<rparr>
         else a)) (db_attempts db)\<rparr>"

definition takeover_binding :: "aggregate_row \<Rightarrow> uuid option" where
  "takeover_binding row = (case st_binding (ag_state row) of
     Some b \<Rightarrow> Some (bind_id b) | None \<Rightarrow> conv_current_binding_id (st_conversation (ag_state row)))"

text \<open>The writes for one conversation taken over: its processes, the open attempts, a new attempt, the owner.\<close>

definition begin_recovery ::
  "uuid \<Rightarrow> recovery_trigger \<Rightarrow> string \<Rightarrow> int \<Rightarrow> datetime \<Rightarrow> uuid \<Rightarrow> aggregate_row \<Rightarrow> uuid \<Rightarrow> store \<Rightarrow> store" where
  "begin_recovery attempt_id trigger worker_id lease_duration now cid row binding_id db =
     (let fence = ag_fence row + 1;
          db1 = abandon_attempts cid now (mark_processes_orphaned cid now db);
          db2 = db1\<lparr>db_attempts := dict_put (db_attempts db1) attempt_id
            \<lparr>at_conversation_id = cid, at_binding_id = binding_id, at_command_id = None, at_turn_id = None,
             at_worker_id = worker_id, at_fence = fence, at_trigger = trigger, at_phase = PHASE_NONE,
             at_action = RA_NO_ACTION, at_result = None, at_reason_code = RR_WORKER_LOST,
             at_started_at = now, at_completed_at = None\<rparr>\<rparr>
      in put_aggregate db2 cid (row\<lparr>ag_worker_id := Some worker_id, ag_fence := fence,
           ag_lease_expires_at := Some (now + lease_duration)\<rparr>))"

text \<open>Each conversation taken over, with its new fence and the attempt that records its recovery.\<close>

fun take_over :: "uuid_supply \<Rightarrow> recovery_trigger \<Rightarrow> string \<Rightarrow> int \<Rightarrow> datetime \<Rightarrow> uuid list \<Rightarrow> store
    \<Rightarrow> exn + ((uuid \<times> int \<times> uuid) list \<times> store)" where
  "take_over u trigger worker_id lease_duration now [] db = Inr ([], db)"
| "take_over u trigger worker_id lease_duration now (cid # rows) db =
     (case dict_get (db_aggregates db) cid of
        None \<Rightarrow> take_over u trigger worker_id lease_duration now rows db
      | Some row \<Rightarrow>
          if ag_worker_id row \<noteq> None \<and> ag_worker_id row \<noteq> Some worker_id
             \<and> lease_is_live (ag_lease_expires_at row) now
          then take_over u trigger worker_id lease_duration now rows db
          else case takeover_binding row of
            None \<Rightarrow> Inl (DomainError INVALID_STATE ''active conversation missing binding for recovery''
              [(''conversation_id'', JStr (uuid_str cid))])
          | Some b \<Rightarrow> bind_result (take_over (drop_supply 1 u) trigger worker_id lease_duration now rows
                (begin_recovery (u 0) trigger worker_id lease_duration now cid row b db))
              (\<lambda>(claimed, db'). Inr ((cid, ag_fence row + 1, u 0) # claimed, db')))"

definition takeover_candidates :: "string \<Rightarrow> nat \<Rightarrow> datetime \<Rightarrow> store \<Rightarrow> uuid list" where
  "takeover_candidates worker_id limit now db =
     take limit (sort (map fst (filter (takeover_candidate worker_id now db) (db_aggregates db))))"

definition claim_expired_conversations ::
  "uuid_supply \<Rightarrow> string \<Rightarrow> nat \<Rightarrow> int \<Rightarrow> recovery_trigger \<Rightarrow> datetime \<Rightarrow> store
     \<Rightarrow> exn + ((uuid \<times> int \<times> uuid) list \<times> store)" where
  "claim_expired_conversations u worker_id limit lease_duration trigger now db =
     take_over u trigger worker_id lease_duration now (takeover_candidates worker_id limit now db) db"

end
