(* ===== verification/Interaction_Store.thy ===== *)
theory Interaction_Store
  imports Durable_Store Approval_Matching Interaction_Transitions
begin

text \<open>
  The transactions over interactions of \<open>src/talktoharnesses/django/persistence.py\<close>: recording a request,
  resolving it by a person or by the approval rules, releasing the answer to the harness, and the rules
  themselves. A row of the interaction table exists from the commit of the request event on, which
  \<open>materialize_projections\<close> writes in the same transaction, until retention deletes it with its turn; so
  its existence is read off the event log here, and only the columns these transactions write are kept.
  \<open>blocked_in\<close> is \<open>approval_is_blocked\<close> of \<open>django/sandbox_policies.py\<close>.
\<close>

section \<open>Rows\<close>

definition empty_marks :: interaction_marks where
  "empty_marks = \<lparr>im_provider_correlation = [], im_request_event_sequence = None, im_policy_evaluated_at = None\<rparr>"

definition requests_interaction :: "uuid \<Rightarrow> conversation_event \<Rightarrow> bool" where
  "requests_interaction i e \<longleftrightarrow> (case ev_payload e of
     NoticeEvent (InteractionRequested _ j _ _) \<Rightarrow> j = i | _ \<Rightarrow> False)"

definition resolves_interaction :: "uuid \<Rightarrow> conversation_event \<Rightarrow> bool" where
  "resolves_interaction i e \<longleftrightarrow> (case ev_payload e of
     NoticeEvent (InteractionResolved j _ _ _ _) \<Rightarrow> j = i | _ \<Rightarrow> False)"

definition interaction_row :: "store \<Rightarrow> uuid \<Rightarrow> interaction_marks option" where
  "interaction_row db i =
     (if list_ex (\<lambda>r. requests_interaction i (er_event r)) (db_events db)
      then Some (case dict_get (it_marks (db_interactions db)) i of None \<Rightarrow> empty_marks | Some m \<Rightarrow> m)
      else None)"

definition change_tables :: "(interaction_tables \<Rightarrow> interaction_tables) \<Rightarrow> store \<Rightarrow> store" where
  "change_tables f db = db\<lparr>db_interactions := f (db_interactions db)\<rparr>"

text \<open>\<open>filter(interaction_id=i).update(...)\<close>: nothing happens without a row.\<close>

definition update_marks :: "uuid \<Rightarrow> (interaction_marks \<Rightarrow> interaction_marks) \<Rightarrow> store \<Rightarrow> store" where
  "update_marks i f db = (case interaction_row db i of
     None \<Rightarrow> db
   | Some m \<Rightarrow> change_tables (\<lambda>t. t\<lparr>it_marks := dict_put (it_marks t) i (f m)\<rparr>) db)"

definition mark_policy_evaluated :: "uuid \<Rightarrow> datetime \<Rightarrow> store \<Rightarrow> store" where
  "mark_policy_evaluated i at db = update_marks i (\<lambda>m. m\<lparr>im_policy_evaluated_at := Some at\<rparr>) db"

section \<open>Requests\<close>

definition commit_interaction_request ::
  "uuid \<Rightarrow> int \<Rightarrow> conversation_state \<Rightarrow> conversation_event list \<Rightarrow> uuid \<Rightarrow> (string, string) dict \<Rightarrow> int
     \<Rightarrow> datetime \<Rightarrow> string option \<Rightarrow> int option \<Rightarrow> store \<Rightarrow> exn + store" where
  "commit_interaction_request cid expected_version st events i correlation request_sequence now worker_id fence db =
     bind_result (commit_batch cid expected_version st events [] None None now worker_id fence db) (\<lambda>db1.
       Inr (update_marks i (\<lambda>m. m\<lparr>im_provider_correlation := correlation,
         im_request_event_sequence := Some request_sequence\<rparr>) db1))"

section \<open>Resolutions\<close>

text \<open>The arguments of \<open>commit_interaction_resolution\<close> its callers pass.\<close>

record resolution =
  rs_conversation_id :: uuid
  rs_owner_id :: string
  rs_expected_version :: int
  rs_state :: conversation_state
  rs_events :: "conversation_event list"
  rs_answer :: interaction_answer
  rs_automatic :: bool
  rs_create_rule :: "approval_rule option"
  rs_deciding_rule :: "approval_rule option"
  rs_event_sequence :: int
  rs_mark_evaluated :: bool
  rs_suppress_command :: bool
  rs_worker_id :: "string option"
  rs_fence :: "int option"

definition not_found :: "string \<Rightarrow> exn" where
  "not_found what = DomainError NOT_FOUND (what @ '' not found'') []"

definition request_action :: "conversation_state \<Rightarrow> uuid \<Rightarrow> approval_action option" where
  "request_action st i = (case dict_get (st_interactions st) i of
     None \<Rightarrow> None
   | Some x \<Rightarrow> (case inter_request x of ApprovalRequest p \<Rightarrow> arp_action p | StructuredQuestion _ \<Rightarrow> None))"

definition working_directory_of :: "conversation_state \<Rightarrow> string option" where
  "working_directory_of st = (case st_binding st of
     None \<Rightarrow> None
   | Some b \<Rightarrow> (case bind_launch_snapshot b of None \<Rightarrow> None | Some l \<Rightarrow> Some (launch_working_directory l)))"

definition resolution_context :: "resolution \<Rightarrow> conversation_state \<Rightarrow> match_context" where
  "resolution_context rs st = \<lparr>ctx_principal_id = rs_owner_id rs, ctx_conversation_id = rs_conversation_id rs,
     ctx_owner_id = rs_owner_id rs, ctx_binding = st_binding st,
     ctx_working_directory = working_directory_of st\<rparr>"

definition owned_rules :: "string \<Rightarrow> store \<Rightarrow> approval_rule list" where
  "owned_rules principal_id db =
     filter (\<lambda>r. rule_principal_id r = principal_id) (map snd (it_rules (db_interactions db)))"

text \<open>The automatic decision, and the decisions the request offers.\<close>

definition immediate_decision :: "bool \<Rightarrow> match_decision \<Rightarrow> approval_decision option" where
  "immediate_decision blocked m =
     (if blocked then Some DENY
      else case md_decision m of
        Some RULE_ALLOW \<Rightarrow> Some ALLOW_ONCE
      | Some RULE_DENY \<Rightarrow> Some DENY
      | None \<Rightarrow> None)"

definition offered_decisions :: "conversation_state \<Rightarrow> uuid \<Rightarrow> approval_decision list" where
  "offered_decisions st i = (case dict_get (st_interactions st) i of
     None \<Rightarrow> []
   | Some x \<Rightarrow> (case inter_request x of ApprovalRequest p \<Rightarrow> arp_available_decisions p | StructuredQuestion _ \<Rightarrow> []))"

text \<open>What is written: the state and events with the version they replace, the answer, and the rule behind it.\<close>

record decided =
  dc_state :: conversation_state
  dc_events :: "conversation_event list"
  dc_expected_version :: int
  dc_answer :: interaction_answer
  dc_event_sequence :: int
  dc_rule :: "approval_rule option"

definition decide_automatically ::
  "uuid_supply \<Rightarrow> resolution \<Rightarrow> bool \<Rightarrow> conversation_state \<Rightarrow> store \<Rightarrow> decided option result" where
  "decide_automatically u rs blocked current db =
     (let i = ans_interaction_id (rs_answer rs);
          m = select_matching_rule (owned_rules (rs_owner_id rs) db) (request_action current i)
                (resolution_context rs current)
      in case immediate_decision blocked m of
        None \<Rightarrow> Inr None
      | Some decision \<Rightarrow>
          if decision \<notin> set (offered_decisions current i) \<or> (md_rule m = None \<and> \<not> blocked) then Inr None
          else bind_result (submit_interaction_answer u current
              \<lparr>ans_interaction_id = i, ans_decision = Some decision, ans_answers = None, ans_is_draft = False,
               ans_submitted_at = None\<rparr>
              (case ans_submitted_at (rs_answer rs) of Some t \<Rightarrow> t
                | None \<Rightarrow> conv_updated_at (st_conversation (rs_state rs))) True) (\<lambda>r.
            case (dict_get (st_answers (tr_state r)) i, tr_events r) of
              (Some answer, e # es) \<Rightarrow> Inr (Some
                \<lparr>dc_state = tr_state r, dc_events = tr_events r,
                 dc_expected_version = conv_version (st_conversation current), dc_answer = answer,
                 dc_event_sequence = ev_sequence (last (e # es)),
                 dc_rule = (if blocked then None else md_rule m)\<rparr>)
            | (None, _) \<Rightarrow> Inl (LookupError (uuid_str i))
            | (Some _, []) \<Rightarrow> Inl (LookupError ''tuple index out of range'')))"

definition decide :: "uuid_supply \<Rightarrow> resolution \<Rightarrow> bool \<Rightarrow> conversation_state \<Rightarrow> store \<Rightarrow> decided option result" where
  "decide u rs blocked current db =
     (if rs_automatic rs then decide_automatically u rs blocked current db
      else Inr (Some \<lparr>dc_state = rs_state rs, dc_events = rs_events rs,
        dc_expected_version = rs_expected_version rs, dc_answer = rs_answer rs,
        dc_event_sequence = rs_event_sequence rs, dc_rule = rs_deciding_rule rs\<rparr>))"

definition create_rule :: "approval_rule \<Rightarrow> store \<Rightarrow> exn + store" where
  "create_rule rule db =
     (if dict_get (it_rules (db_interactions db)) (rule_id rule) \<noteq> None
      then Inl (IntegrityError ''talktoharnesses_approvalrulerecord'')
      else Inr (change_tables (\<lambda>t. t\<lparr>it_rules := dict_put (it_rules t) (rule_id rule) rule\<rparr>) db))"

text \<open>The rule that is recorded: the new one, or the deciding one as it is stored now.\<close>

definition record_rule :: "resolution \<Rightarrow> decided \<Rightarrow> store \<Rightarrow> exn + (approval_rule option \<times> store)" where
  "record_rule rs d db =
     (case rs_create_rule rs of
        Some rule \<Rightarrow> bind_result (create_rule rule db) (\<lambda>db1. Inr (Some rule, db1))
      | None \<Rightarrow> (case dc_rule d of
            None \<Rightarrow> Inr (None, db)
          | Some rule \<Rightarrow> (case dict_get (it_rules (db_interactions db)) (rule_id rule) of
                Some live \<Rightarrow> if rule_principal_id live = rs_owner_id rs then Inr (Some live, db)
                  else Inl (not_found ''approval rule'')
              | None \<Rightarrow> Inl (not_found ''approval rule''))))"

definition created_rule_fits :: "resolution \<Rightarrow> decided \<Rightarrow> bool" where
  "created_rule_fits rs d \<longleftrightarrow> (case rs_create_rule rs of
     None \<Rightarrow> True
   | Some rule \<Rightarrow> rule_decision rule = RULE_ALLOW \<and> ans_decision (dc_answer d) = Some ALLOW_ONCE
       \<and> rule_matches_request rule (request_action (dc_state d) (ans_interaction_id (rs_answer rs)))
           (resolution_context rs (dc_state d)))"

text \<open>\<open>_persist_interaction_answer\<close>: the answer row and its audit.\<close>

definition new_audit ::
  "uuid_supply \<Rightarrow> resolution \<Rightarrow> decided \<Rightarrow> approval_rule option \<Rightarrow> interaction_marks \<Rightarrow> audit_row" where
  "new_audit u rs d rule marks =
     (let i = ans_interaction_id (rs_answer rs); x = dict_get (st_interactions (dc_state d)) i in
      \<lparr>au_id = u 0, au_principal_id = rs_owner_id rs, au_interaction_id = i,
       au_conversation_id = rs_conversation_id rs,
       au_turn_id = (case x of None \<Rightarrow> u 1 | Some p \<Rightarrow> inter_turn_id p),
       au_kind = (case x of None \<Rightarrow> APPROVAL | Some p \<Rightarrow> inter_kind p),
       au_decision = ans_decision (dc_answer d), au_answers = ans_answers (dc_answer d),
       au_automatic = rs_automatic rs,
       au_created_at = (case ans_submitted_at (dc_answer d) of Some t \<Rightarrow> t
         | None \<Rightarrow> conv_updated_at (st_conversation (dc_state d))),
       au_provider_kind = map_option bind_kind (st_binding (dc_state d)),
       au_provider_request_ids = im_provider_correlation marks,
       au_rule = rule, au_request_action = request_action (dc_state d) i\<rparr>)"

definition persist_interaction_answer ::
  "uuid_supply \<Rightarrow> resolution \<Rightarrow> decided \<Rightarrow> approval_rule option \<Rightarrow> interaction_marks \<Rightarrow> store \<Rightarrow> store" where
  "persist_interaction_answer u rs d rule marks db =
     change_tables (\<lambda>t. t\<lparr>
       it_answers := dict_put (it_answers t) (ans_interaction_id (rs_answer rs))
         \<lparr>ar_conversation_id = rs_conversation_id rs, ar_answer = dc_answer d,
          ar_event_sequence = dc_event_sequence d, ar_command_id = None, ar_released_at = None,
          ar_suppressed = rs_suppress_command rs\<rparr>,
       it_audits := it_audits t @ [new_audit u rs d rule marks]\<rparr>) db"

text \<open>
  \<open>write_resolution\<close>: from the version check on. Without events and with \<open>mark_policy_evaluated\<close> only the
  evaluation is recorded.
\<close>

definition write_resolution ::
  "uuid_supply \<Rightarrow> resolution \<Rightarrow> decided \<Rightarrow> aggregate_row \<Rightarrow> interaction_marks \<Rightarrow> datetime
     \<Rightarrow> (interaction_answer \<times> bool) transaction" where
  "write_resolution u rs d row marks now db =
     (let i = ans_interaction_id (rs_answer rs) in
      if ag_version row \<noteq> dc_expected_version d then Inl (conflict (dc_expected_version d) (ag_version row))
      else bind_result (record_rule rs d db) (\<lambda>(rule, db1).
        if \<not> created_rule_fits rs d
        then raise_domain INVALID_STATE ''create-and-allow rule does not match the locked interaction''
        else if dc_events d = [] \<and> rs_mark_evaluated rs
        then Inr ((dc_answer d, False),
          mark_policy_evaluated i (conv_updated_at (st_conversation (dc_state d))) db1)
        else bind_result
          (if dc_events d = [] then Inr db1
           else commit_batch (rs_conversation_id rs) (dc_expected_version d) (dc_state d) (dc_events d) []
             None None now (rs_worker_id rs) (rs_fence rs) db1) (\<lambda>db2.
          let db3 = persist_interaction_answer u rs d rule marks db2
          in Inr ((dc_answer d, True),
            if rs_mark_evaluated rs \<or> rs_automatic rs
            then mark_policy_evaluated i (case ans_submitted_at (dc_answer d) of Some t \<Rightarrow> t
              | None \<Rightarrow> conv_updated_at (st_conversation (dc_state d))) db3
            else db3))))"

definition commit_interaction_resolution ::
  "(conversation_state \<Rightarrow> uuid \<Rightarrow> bool result) \<Rightarrow> uuid_supply \<Rightarrow> resolution \<Rightarrow> datetime
     \<Rightarrow> (interaction_answer \<times> bool) transaction" where
  "commit_interaction_resolution blocked_in u rs now db =
     (let i = ans_interaction_id (rs_answer rs); cid = rs_conversation_id rs in
      case dict_get (it_answers (db_interactions db)) i of
        Some a \<Rightarrow> Inr ((ar_answer a, False), db)
      | None \<Rightarrow> (case dict_get (db_aggregates db) cid of
          None \<Rightarrow> Inl (not_found ''conversation'')
        | Some row \<Rightarrow>
            if ag_owner_id row \<noteq> rs_owner_id rs then Inl (not_found ''conversation'')
            else bind_result (require_owner_on_row cid row now (rs_worker_id rs) (rs_fence rs)) (\<lambda>_.
              case interaction_row db i of
                None \<Rightarrow> Inl (not_found ''interaction'')
              | Some marks \<Rightarrow> bind_result (blocked_in (ag_state row) i) (\<lambda>blocked.
                  if blocked \<and> \<not> rs_automatic rs \<and> ans_decision (rs_answer rs) \<notin> {None, Some DENY, Some CANCEL}
                  then raise_domain SANDBOX_POLICY_DENIED ''The project command guard denied this command.''
                  else bind_result (decide u rs blocked (ag_state row) db) (\<lambda>d. case d of
                      None \<Rightarrow> Inr ((rs_answer rs, False),
                        mark_policy_evaluated i (conv_updated_at (st_conversation (ag_state row))) db)
                    | Some d \<Rightarrow> write_resolution (drop_supply (length (dc_events d)) u) rs d row marks now db)))))"

section \<open>Releasing an answer\<close>

definition release_interaction_answer ::
  "uuid \<Rightarrow> string \<Rightarrow> uuid \<Rightarrow> command \<Rightarrow> datetime \<Rightarrow> string option \<Rightarrow> int option \<Rightarrow> command transaction" where
  "release_interaction_answer cid owner_id i c now worker_id fence db =
     (case dict_get (it_answers (db_interactions db)) i of
        None \<Rightarrow> raise_domain INVALID_STATE ''interaction answer missing for release''
      | Some a \<Rightarrow>
          (case (case ar_command_id a of None \<Rightarrow> None | Some j \<Rightarrow> dict_get (db_commands db) j) of
            Some crow \<Rightarrow> Inr (cr_command crow, db)
          | None \<Rightarrow> (case dict_get (db_aggregates db) cid of
              None \<Rightarrow> Inl (not_found ''conversation'')
            | Some row \<Rightarrow>
                if ag_owner_id row \<noteq> owner_id then Inl (not_found ''conversation'')
                else bind_result (require_owner_on_row cid row now worker_id fence) (\<lambda>_.
                  bind_result (upsert_command cid c db) (\<lambda>db1.
                    let st = ag_state row;
                        st' = st\<lparr>st_commands := dict_put (st_commands st) (cmd_id c) c\<rparr>
                    in Inr (c, put_aggregate (change_tables (\<lambda>t. t\<lparr>it_answers := dict_put (it_answers t) i
                        (a\<lparr>ar_command_id := Some (cmd_id c), ar_released_at := Some (cmd_created_at c)\<rparr>)\<rparr>) db1)
                      cid (store_aggregate row st')))))))"

definition complete_suppressed_interaction_resolution :: "uuid \<Rightarrow> datetime \<Rightarrow> bool transaction" where
  "complete_suppressed_interaction_resolution i published_at db =
     (case dict_get (it_answers (db_interactions db)) i of
        None \<Rightarrow> raise_domain INVALID_STATE ''interaction answer missing''
      | Some a \<Rightarrow>
          if \<not> ar_suppressed a then Inr (False, db)
          else Inr (True, if ar_released_at a \<noteq> None then db
            else change_tables (\<lambda>t. t\<lparr>it_answers := dict_put (it_answers t) i
              (a\<lparr>ar_released_at := Some published_at\<rparr>)\<rparr>) db))"

section \<open>Rules\<close>

definition replace_rule :: "approval_rule \<Rightarrow> store \<Rightarrow> exn + store" where
  "replace_rule rule db =
     (case dict_get (it_rules (db_interactions db)) (rule_id rule) of
        Some old \<Rightarrow> if rule_principal_id old = rule_principal_id rule
          then Inr (change_tables (\<lambda>t. t\<lparr>it_rules := dict_put (it_rules t) (rule_id rule)
            (rule\<lparr>rule_created_at := rule_created_at old\<rparr>)\<rparr>) db)
          else Inl (not_found ''approval rule'')
      | None \<Rightarrow> Inl (not_found ''approval rule''))"

definition delete_rule :: "uuid \<Rightarrow> string \<Rightarrow> store \<Rightarrow> exn + store" where
  "delete_rule i principal_id db =
     (case dict_get (it_rules (db_interactions db)) i of
        Some old \<Rightarrow> if rule_principal_id old = principal_id
          then Inr (change_tables (\<lambda>t. t\<lparr>it_rules := AList.delete i (it_rules t)\<rparr>) db)
          else Inl (not_found ''approval rule'')
      | None \<Rightarrow> Inl (not_found ''approval rule''))"

section \<open>Queries\<close>

definition interaction_resolution_event :: "uuid \<Rightarrow> uuid \<Rightarrow> store \<Rightarrow> conversation_event result" where
  "interaction_resolution_event cid i db =
     (let missing = raise_domain INVALID_STATE ''interaction resolution event missing'' in
      case dict_get (it_answers (db_interactions db)) i of
        None \<Rightarrow> missing
      | Some a \<Rightarrow>
          if ar_conversation_id a \<noteq> cid then missing
          else (case List.find (\<lambda>e. ev_conversation_id e = cid \<and> ev_sequence e = ar_event_sequence a)
                  (map er_event (db_events db)) of
              None \<Rightarrow> missing
            | Some e \<Rightarrow> if resolves_interaction i e then Inr e
                else raise_domain INVALID_STATE ''recorded resolution event mismatch''))"

definition interaction_request_event :: "uuid \<Rightarrow> uuid \<Rightarrow> store \<Rightarrow> conversation_event result" where
  "interaction_request_event cid i db =
     (let missing = raise_domain INVALID_STATE ''interaction request event missing'' in
      case (case interaction_row db i of None \<Rightarrow> None | Some m \<Rightarrow> im_request_event_sequence m) of
        None \<Rightarrow> missing
      | Some n \<Rightarrow>
          (case List.find (\<lambda>e. ev_conversation_id e = cid \<and> ev_sequence e = n) (map er_event (db_events db)) of
              None \<Rightarrow> missing
            | Some e \<Rightarrow> if requests_interaction i e then Inr e
                else raise_domain INVALID_STATE ''recorded request event mismatch''))"

definition requested_interaction :: "conversation_event \<Rightarrow> (uuid \<times> uuid) list" where
  "requested_interaction e = (case ev_payload e of
     NoticeEvent (InteractionRequested _ i _ _) \<Rightarrow> [(ev_conversation_id e, i)] | _ \<Rightarrow> [])"

text \<open>Rows still pending or in draft are those no resolution was committed for.\<close>

definition list_unevaluated :: "store \<Rightarrow> (uuid \<times> uuid) list" where
  "list_unevaluated db = filter (\<lambda>(cid, i).
       \<not> list_ex (\<lambda>r. resolves_interaction i (er_event r)) (db_events db)
       \<and> (case interaction_row db i of None \<Rightarrow> False | Some m \<Rightarrow> im_policy_evaluated_at m = None))
     (concat (map (\<lambda>r. requested_interaction (er_event r)) (db_events db)))"

definition list_unreleased :: "store \<Rightarrow> (uuid \<times> uuid) list" where
  "list_unreleased db = map (\<lambda>(i, a). (ar_conversation_id a, i))
     (filter (\<lambda>(i, a). ar_released_at a = None) (it_answers (db_interactions db)))"

section \<open>The switch of a harness\<close>

text \<open>\<open>commit_harness_switch\<close>: a lifecycle commit of the candidate's process, and its command settled.\<close>

definition commit_harness_switch ::
  "uuid \<Rightarrow> int \<Rightarrow> conversation_state \<Rightarrow> conversation_event list \<Rightarrow> command \<Rightarrow> (uuid \<times> process_row) option
     \<Rightarrow> launch_snapshot option \<Rightarrow> datetime \<Rightarrow> string option \<Rightarrow> int option \<Rightarrow> store \<Rightarrow> exn + store" where
  "commit_harness_switch cid expected_version st events c process launch now worker_id fence db =
     bind_result (commit_batch cid expected_version st events [] process launch now worker_id fence db)
       (settle_command_row c)"

section \<open>What the transactions leave alone\<close>

lemma change_tables_frame [simp]:
  "db_aggregates (change_tables f db) = db_aggregates db" "db_commands (change_tables f db) = db_commands db"
  "db_events (change_tables f db) = db_events db" "db_processes (change_tables f db) = db_processes db"
  "db_launches (change_tables f db) = db_launches db" "db_attempts (change_tables f db) = db_attempts db"
  by (simp_all add: change_tables_def)

text \<open>Only the interaction tables differ.\<close>

definition tables_only :: "store \<Rightarrow> store \<Rightarrow> bool" where
  "tables_only db db' \<longleftrightarrow> (\<exists>t. db' = db\<lparr>db_interactions := t\<rparr>)"

lemma tables_onlyD:
  "tables_only db db' \<Longrightarrow> db_aggregates db' = db_aggregates db \<and> db_commands db' = db_commands db
     \<and> db_events db' = db_events db"
  by (auto simp: tables_only_def)

lemma tables_only_refl [simp]: "tables_only db db"
  by (auto simp: tables_only_def intro: exI [of _ "db_interactions db"])

lemma tables_only_trans: "tables_only a b \<Longrightarrow> tables_only b c \<Longrightarrow> tables_only a c"
  by (auto simp: tables_only_def)

lemma tables_only_change [simp]: "tables_only db (change_tables f db)"
  by (auto simp: tables_only_def change_tables_def)

lemma tables_only_marks [simp]: "tables_only db (update_marks i f db)" "tables_only db (mark_policy_evaluated i t db)"
  by (simp_all add: update_marks_def mark_policy_evaluated_def split: option.split)

lemma tables_only_persist [simp]: "tables_only db (persist_interaction_answer u rs d r m db)"
  by (simp add: persist_interaction_answer_def)

lemma record_rule_tables: "record_rule rs d db = Inr (r, db') \<Longrightarrow> tables_only db db'"
  by (auto simp: record_rule_def create_rule_def result_simps split: option.splits if_splits)

text \<open>A resolution writes the tables only, or one checked commit and the tables.\<close>

lemma write_resolution_cases:
  assumes "write_resolution u rs d row marks now db = Inr (r, db')"
  obtains "tables_only db db'"
  | db1 db2 where "tables_only db db1" "commit_batch (rs_conversation_id rs) (dc_expected_version d) (dc_state d)
        (dc_events d) [] None None now (rs_worker_id rs) (rs_fence rs) db1 = Inr db2" "tables_only db2 db'"
proof -
  from assms obtain rule db1 where rule: "record_rule rs d db = Inr (rule, db1)"
    and rest: "db' = mark_policy_evaluated (ans_interaction_id (rs_answer rs))
          (conv_updated_at (st_conversation (dc_state d))) db1
      \<or> (\<exists>db2. (if dc_events d = [] then Inr db1
           else commit_batch (rs_conversation_id rs) (dc_expected_version d) (dc_state d) (dc_events d) []
             None None now (rs_worker_id rs) (rs_fence rs) db1) = Inr db2
          \<and> tables_only (persist_interaction_answer u rs d rule marks db2) db')"
    by (auto simp: write_resolution_def Let_def result_simps split: if_splits)
  note before = record_rule_tables [OF rule]
  from rest show thesis
  proof
    assume "db' = mark_policy_evaluated (ans_interaction_id (rs_answer rs))
        (conv_updated_at (st_conversation (dc_state d))) db1"
    with before show thesis by (intro that(1)) (auto intro: tables_only_trans)
  next
    assume "\<exists>db2. (if dc_events d = [] then Inr db1
           else commit_batch (rs_conversation_id rs) (dc_expected_version d) (dc_state d) (dc_events d) []
             None None now (rs_worker_id rs) (rs_fence rs) db1) = Inr db2
          \<and> tables_only (persist_interaction_answer u rs d rule marks db2) db'"
    then obtain db2 where db2: "(if dc_events d = [] then Inr db1
           else commit_batch (rs_conversation_id rs) (dc_expected_version d) (dc_state d) (dc_events d) []
             None None now (rs_worker_id rs) (rs_fence rs) db1) = Inr db2" "tables_only db2 db'"
      using tables_only_trans [OF tables_only_persist] by blast
    show thesis
    proof (cases "dc_events d = []")
      case True
      with db2 before show thesis by (intro that(1)) (auto intro: tables_only_trans)
    next
      case False
      with db2 show thesis by (intro that(2) [OF before]) auto
    qed
  qed
qed

lemma resolution_cases:
  assumes "commit_interaction_resolution blocked_in u rs now db = Inr (r, db')"
  obtains "tables_only db db'"
  | v st es db1 db2 where "tables_only db db1"
      "commit_batch (rs_conversation_id rs) v st es [] None None now (rs_worker_id rs) (rs_fence rs) db1 = Inr db2"
      "tables_only db2 db'"
proof -
  consider "tables_only db db'"
    | u' d row marks where "write_resolution u' rs d row marks now db = Inr (r, db')"
    using assms unfolding commit_interaction_resolution_def Let_def
    by (auto simp: result_simps split: option.splits if_splits)
  then show thesis
  proof cases
    case 2
    then show thesis by (rule write_resolution_cases) (use that in blast)+
  qed (use that in blast)
qed

end
