(* ===== verification/Recovery_Store.thy ===== *)
theory Recovery_Store
  imports Interaction_Store Session_Transitions
begin

text \<open>
  The transactions of recovery (\<open>src/talktoharnesses/django/persistence.py\<close>): the attempts, the batch that
  ends ambiguous work, the replacement of a native session, and the leases of worker processes. The
  marks the batch sets on the messages of the interrupted turn belong to the read models.
  A row that must exist and does not is Django's \<open>DoesNotExist\<close>, a lookup error.
\<close>

section \<open>Attempts\<close>

record recovery_note =
  rn_command_id :: "uuid option"
  rn_turn_id :: "uuid option"
  rn_trigger :: recovery_trigger
  rn_phase :: observed_delivery_phase
  rn_action :: recovery_action
  rn_reason_code :: recovery_reason_code

definition note_attempt :: "recovery_note \<Rightarrow> attempt_row \<Rightarrow> attempt_row" where
  "note_attempt note a = a\<lparr>at_command_id := rn_command_id note, at_turn_id := rn_turn_id note,
     at_trigger := rn_trigger note, at_phase := rn_phase note, at_action := rn_action note,
     at_reason_code := rn_reason_code note\<rparr>"

definition put_attempt :: "uuid \<Rightarrow> attempt_row \<Rightarrow> store \<Rightarrow> store" where
  "put_attempt i a db = db\<lparr>db_attempts := dict_put (db_attempts db) i a\<rparr>"

text \<open>Whether the attempt is still open and belongs to this owner of this conversation.\<close>

definition open_for :: "uuid \<Rightarrow> string \<Rightarrow> int \<Rightarrow> attempt_row \<Rightarrow> bool" where
  "open_for cid worker_id fence a \<longleftrightarrow> at_conversation_id a = cid \<and> at_worker_id a = worker_id
     \<and> at_fence a = fence \<and> at_result a = None"

definition update_recovery_attempt ::
  "uuid \<Rightarrow> recovery_note \<Rightarrow> string \<Rightarrow> int \<Rightarrow> datetime \<Rightarrow> store \<Rightarrow> exn + store" where
  "update_recovery_attempt i note worker_id fence now db = (case dict_get (db_attempts db) i of
     None \<Rightarrow> Inl (LookupError (uuid_str i))
   | Some a \<Rightarrow> (let cid = at_conversation_id a in case dict_get (db_aggregates db) cid of
       None \<Rightarrow> Inl (LookupError (uuid_str cid))
     | Some row \<Rightarrow> bind_result (require_owner_on_row cid row now (Some worker_id) (Some fence)) (\<lambda>_.
         if \<not> open_for cid worker_id fence a then Inl (stale_owner cid)
         else Inr (put_attempt i (note_attempt note a) db))))"

definition attempt_over :: "uuid \<Rightarrow> exn" where
  "attempt_over i = DomainError INVALID_STATE ''recovery attempt not found or already completed''
     [(''attempt_id'', JStr (uuid_str i))]"

definition complete_recovery_attempt ::
  "uuid \<Rightarrow> recovery_result_code \<Rightarrow> recovery_reason_code \<Rightarrow> datetime \<Rightarrow> store \<Rightarrow> exn + store" where
  "complete_recovery_attempt i outcome reason completed_at db = (case dict_get (db_attempts db) i of
     Some a \<Rightarrow> if at_result a = None
       then Inr (put_attempt i (a\<lparr>at_result := Some outcome, at_reason_code := reason,
         at_completed_at := Some completed_at\<rparr>) db)
       else Inl (attempt_over i)
   | None \<Rightarrow> Inl (attempt_over i))"

text \<open>\<open>get_open_recovery_attempt\<close>: the open attempt started last.\<close>

definition open_recovery_attempt :: "uuid \<Rightarrow> string \<Rightarrow> int \<Rightarrow> store \<Rightarrow> uuid option" where
  "open_recovery_attempt cid worker_id fence db =
     (case sort_key (\<lambda>(_, a). - at_started_at a) (filter (\<lambda>(_, a). open_for cid worker_id fence a) (db_attempts db)) of
        [] \<Rightarrow> None | (i, _) # _ \<Rightarrow> Some i)"

text \<open>What recovery reads: the owner with its lease, and whether a process of the conversation is live.\<close>

definition get_conversation_ownership :: "uuid \<Rightarrow> store \<Rightarrow> (string \<times> int \<times> datetime) option" where
  "get_conversation_ownership cid db = (case dict_get (db_aggregates db) cid of
     None \<Rightarrow> None
   | Some row \<Rightarrow> (case (ag_worker_id row, ag_lease_expires_at row) of
       (Some w, Some t) \<Rightarrow> Some (w, ag_fence row, t)
     | _ \<Rightarrow> None))"

definition has_live_process :: "uuid \<Rightarrow> store \<Rightarrow> bool" where
  "has_live_process cid db \<longleftrightarrow> (\<exists>(_, p)\<in>set (db_processes db).
     pr_conversation_id p = cid \<and> pr_status p \<in> {PROC_STARTING, PROC_RUNNING})"

section \<open>Ending ambiguous work\<close>

text \<open>
  The interactions the batch cancelled get their durable answer, whose command is suppressed: it is
  the worker, not a person, that closed them.
\<close>

definition cancelled_resolution :: "uuid \<Rightarrow> conversation_state \<Rightarrow> interaction_answer \<Rightarrow> resolution" where
  "cancelled_resolution cid st a =
     \<lparr>rs_conversation_id = cid, rs_owner_id = conv_owner_id (st_conversation st),
      rs_expected_version = conv_version (st_conversation st), rs_state = st, rs_events = [], rs_answer = a,
      rs_automatic = False, rs_create_rule = None, rs_deciding_rule = None, rs_event_sequence = 0,
      rs_mark_evaluated = False, rs_suppress_command = True, rs_worker_id = None, rs_fence = None\<rparr>"

definition newly_cancelled :: "conversation_state \<Rightarrow> conversation_state \<Rightarrow> store \<Rightarrow> uuid \<Rightarrow> bool" where
  "newly_cancelled previous st db i \<longleftrightarrow>
     (case dict_get (st_interactions st) i of None \<Rightarrow> False | Some x \<Rightarrow> inter_status x = INT_CANCELLED)
     \<and> dict_get (st_answers previous) i = None \<and> dict_get (it_answers (db_interactions db)) i = None"

fun persist_cancelled ::
  "uuid_supply \<Rightarrow> uuid \<Rightarrow> conversation_state \<Rightarrow> conversation_state \<Rightarrow> conversation_event list
     \<Rightarrow> (uuid \<times> interaction_answer) list \<Rightarrow> store \<Rightarrow> exn + store" where
  "persist_cancelled u cid previous st events [] db = Inr db"
| "persist_cancelled u cid previous st events ((i, a) # answers) db =
     (if \<not> newly_cancelled previous st db i then persist_cancelled u cid previous st events answers db
      else case (interaction_row db i, find (resolves_interaction i) events) of
        (Some marks, Some e) \<Rightarrow>
          persist_cancelled (drop_supply 1 u) cid previous st events answers
            (persist_interaction_answer u (cancelled_resolution cid st (a\<lparr>ans_interaction_id := i\<rparr>))
              \<lparr>dc_state = st, dc_events = events, dc_expected_version = conv_version (st_conversation st),
               dc_answer = a, dc_event_sequence = ev_sequence e, dc_rule = None\<rparr> None marks db)
      | _ \<Rightarrow> Inl (LookupError (uuid_str i)))"

definition finish_attempt ::
  "uuid \<Rightarrow> recovery_note \<Rightarrow> recovery_result_code \<Rightarrow> datetime \<Rightarrow> uuid \<Rightarrow> string \<Rightarrow> int \<Rightarrow> store \<Rightarrow> exn + store" where
  "finish_attempt i note outcome completed_at cid worker_id fence db = (case dict_get (db_attempts db) i of
     Some a \<Rightarrow> if open_for cid worker_id fence a
       then Inr (put_attempt i ((note_attempt note a)\<lparr>at_result := Some outcome, at_completed_at := Some completed_at\<rparr>) db)
       else Inl (stale_owner cid)
   | None \<Rightarrow> Inl (stale_owner cid))"

definition commit_recovery_batch ::
  "uuid_supply \<Rightarrow> uuid \<Rightarrow> int \<Rightarrow> conversation_state \<Rightarrow> conversation_event list \<Rightarrow> command list \<Rightarrow> uuid option
     \<Rightarrow> recovery_note \<Rightarrow> recovery_result_code \<Rightarrow> datetime \<Rightarrow> string \<Rightarrow> int \<Rightarrow> datetime \<Rightarrow> store \<Rightarrow> exn + store" where
  "commit_recovery_batch u cid expected_version st events cs attempt note outcome completed_at worker_id fence now db =
     (case dict_get (db_aggregates db) cid of
        None \<Rightarrow> Inl (LookupError (uuid_str cid))
      | Some row \<Rightarrow>
          bind_result (require_owner_on_row cid row now (Some worker_id) (Some fence)) (\<lambda>_.
          bind_result (commit_batch cid expected_version st events cs None None now (Some worker_id) (Some fence) db) (\<lambda>db1.
          bind_result (persist_cancelled u cid (ag_state row) st events (st_answers st) db1) (\<lambda>db2.
            case attempt of
              None \<Rightarrow> Inr db2
            | Some i \<Rightarrow> finish_attempt i note outcome completed_at cid worker_id fence db2))))"

section \<open>Replacing the native session\<close>

definition lock_for_binding_update ::
  "uuid \<Rightarrow> int \<Rightarrow> string option \<Rightarrow> int option \<Rightarrow> datetime \<Rightarrow> store \<Rightarrow> (aggregate_row \<times> binding) result" where
  "lock_for_binding_update cid expected_version worker_id fence now db = (case dict_get (db_aggregates db) cid of
     None \<Rightarrow> Inl (not_found ''conversation'')
   | Some row \<Rightarrow> bind_result (require_owner_on_row cid row now worker_id fence) (\<lambda>_.
       if ag_version row \<noteq> expected_version then Inl (conflict expected_version (ag_version row))
       else case st_binding (ag_state row) of
         None \<Rightarrow> raise_domain INVALID_STATE ''no binding to rotate''
       | Some b \<Rightarrow> Inr (row, b)))"

definition commit_session_rotation ::
  "uuid \<Rightarrow> int \<Rightarrow> string option \<Rightarrow> launch_snapshot option \<Rightarrow> string option \<Rightarrow> int option \<Rightarrow> datetime
     \<Rightarrow> store \<Rightarrow> exn + store" where
  "commit_session_rotation cid expected_version native_id launch worker_id fence now db =
     bind_result (lock_for_binding_update cid expected_version worker_id fence now db) (\<lambda>(row, b).
       Inr (put_aggregate db cid (store_aggregate row ((ag_state row)\<lparr>
         st_binding := Some (b\<lparr>bind_native_session_id := native_id,
           bind_launch_snapshot := (case launch of None \<Rightarrow> bind_launch_snapshot b | Some l \<Rightarrow> Some l),
           bind_requires_session_recreation := False\<rparr>),
         st_seen_native_ids := {}, st_seen_stream_offsets := {}\<rparr>))))"

definition commit_rotation_requires_recreation ::
  "uuid \<Rightarrow> int \<Rightarrow> string option \<Rightarrow> int option \<Rightarrow> datetime \<Rightarrow> datetime \<Rightarrow> store \<Rightarrow> exn + store" where
  "commit_rotation_requires_recreation cid expected_version worker_id fence utc now db =
     bind_result (lock_for_binding_update cid expected_version worker_id fence now db) (\<lambda>(row, b).
     bind_result (mark_requires_recreation (ag_state row) utc) (\<lambda>r.
       Inr (put_aggregate db cid (store_aggregate row (tr_state r)))))"

section \<open>Worker leases\<close>

definition SQLITE_SUPERVISOR_SLOT :: string where
  "SQLITE_SUPERVISOR_SLOT = ''sqlite-supervisor''"

text \<open>
  One slot for all workers on SQLite; on PostgreSQL the slot named by the caller, or one per worker.
\<close>

definition worker_lease_slot :: "bool \<Rightarrow> string \<Rightarrow> string option \<Rightarrow> string" where
  "worker_lease_slot sqlite worker_id slot = (if sqlite then SQLITE_SUPERVISOR_SLOT
     else case slot of Some (c # s) \<Rightarrow> c # s | _ \<Rightarrow> worker_id)"

definition lease_unavailable :: "string \<Rightarrow> exn" where
  "lease_unavailable slot = DomainError WORKER_LEASE_UNAVAILABLE ''worker lease unavailable'' [(''slot'', JStr slot)]"

definition put_worker :: "string \<Rightarrow> worker_lease_row \<Rightarrow> store \<Rightarrow> store" where
  "put_worker slot l db = db\<lparr>db_workers := dict_put (db_workers db) slot l\<rparr>"

definition fresh_lease :: "string \<Rightarrow> int \<Rightarrow> datetime \<Rightarrow> worker_lease_row" where
  "fresh_lease worker_id duration now = \<lparr>wl_worker_id = worker_id, wl_started_at = now, wl_heartbeat_at = now,
     wl_expires_at = now + duration, wl_draining = False\<rparr>"

definition acquire_worker_lease :: "string \<Rightarrow> string \<Rightarrow> int \<Rightarrow> datetime \<Rightarrow> store \<Rightarrow> exn + store" where
  "acquire_worker_lease slot worker_id duration now db = (case dict_get (db_workers db) slot of
     None \<Rightarrow> Inr (put_worker slot (fresh_lease worker_id duration now) db)
   | Some l \<Rightarrow>
       if wl_expires_at l \<ge> now \<and> wl_worker_id l \<noteq> worker_id then Inl (lease_unavailable slot)
       else if wl_worker_id l = worker_id \<and> wl_expires_at l \<ge> now
       then Inr (put_worker slot (l\<lparr>wl_heartbeat_at := now, wl_expires_at := now + duration, wl_draining := False\<rparr>) db)
       else Inr (put_worker slot (fresh_lease worker_id duration now) db))"

definition renew_worker_lease :: "string \<Rightarrow> string \<Rightarrow> int \<Rightarrow> datetime \<Rightarrow> store \<Rightarrow> exn + store" where
  "renew_worker_lease slot worker_id duration now db = (case dict_get (db_workers db) slot of
     None \<Rightarrow> Inl (lease_unavailable slot)
   | Some l \<Rightarrow>
       if wl_worker_id l \<noteq> worker_id \<or> wl_expires_at l < now then Inl (lease_unavailable slot)
       else Inr (put_worker slot (l\<lparr>wl_heartbeat_at := now, wl_expires_at := now + duration\<rparr>) db))"

definition mark_worker_draining :: "string \<Rightarrow> string \<Rightarrow> store \<Rightarrow> exn + store" where
  "mark_worker_draining slot worker_id db = (case dict_get (db_workers db) slot of
     None \<Rightarrow> Inl (lease_unavailable slot)
   | Some l \<Rightarrow>
       if wl_worker_id l \<noteq> worker_id then Inl (lease_unavailable slot)
       else Inr (put_worker slot (l\<lparr>wl_draining := True\<rparr>) db))"

definition release_worker_lease :: "string \<Rightarrow> string \<Rightarrow> store \<Rightarrow> store" where
  "release_worker_lease slot worker_id db = (case dict_get (db_workers db) slot of
     None \<Rightarrow> db
   | Some l \<Rightarrow> if wl_worker_id l = worker_id then db\<lparr>db_workers := AList.delete slot (db_workers db)\<rparr> else db)"

text \<open>While a worker's lease runs, nobody else takes, renews, drains or drops it.\<close>

lemma held_worker_lease:
  assumes "dict_get (db_workers db) slot = Some l" "wl_worker_id l \<noteq> w" "now \<le> wl_expires_at l"
  shows "acquire_worker_lease slot w duration now db = Inl (lease_unavailable slot)"
    "renew_worker_lease slot w duration now db = Inl (lease_unavailable slot)"
    "mark_worker_draining slot w db = Inl (lease_unavailable slot)"
    "release_worker_lease slot w db = db"
  using assms
  by (simp_all add: acquire_worker_lease_def renew_worker_lease_def mark_worker_draining_def release_worker_lease_def)

text \<open>A lease once acquired can be renewed by its worker until it runs out.\<close>

lemma acquired_lease_renews:
  assumes "acquire_worker_lease slot w duration now db = Inr db'" "now' \<le> now + duration"
  shows "\<exists>db''. renew_worker_lease slot w duration' now' db' = Inr db''"
proof -
  have "\<exists>l. dict_get (db_workers db') slot = Some l \<and> wl_worker_id l = w \<and> wl_expires_at l = now + duration"
    using assms(1)
    by (auto simp: acquire_worker_lease_def put_worker_def fresh_lease_def update_conv' split: option.splits if_splits)
  then show ?thesis
    using assms(2) by (auto simp: renew_worker_lease_def)
qed

section \<open>What they leave alone\<close>

text \<open>Only the attempts and the worker leases differ.\<close>

definition aside_only :: "store \<Rightarrow> store \<Rightarrow> bool" where
  "aside_only db db' \<longleftrightarrow> db_aggregates db' = db_aggregates db \<and> db_commands db' = db_commands db
     \<and> db_events db' = db_events db \<and> db_interactions db' = db_interactions db
     \<and> db_processes db' = db_processes db \<and> db_launches db' = db_launches db"

lemma aside_onlyD:
  "aside_only db db' \<Longrightarrow> db_aggregates db' = db_aggregates db \<and> db_commands db' = db_commands db
     \<and> db_events db' = db_events db \<and> db_interactions db' = db_interactions db"
  by (simp add: aside_only_def)

lemma aside_put [simp]: "aside_only db db" "aside_only db (put_attempt i a db)" "aside_only db (put_worker slot l db)"
  by (simp_all add: aside_only_def put_attempt_def put_worker_def)

lemma update_attempt_aside: "update_recovery_attempt i note w f now db = Inr db' \<Longrightarrow> aside_only db db'"
  by (auto simp: update_recovery_attempt_def Let_def result_simps split: option.splits if_splits)

lemma complete_attempt_aside: "complete_recovery_attempt i outcome reason t db = Inr db' \<Longrightarrow> aside_only db db'"
  by (auto simp: complete_recovery_attempt_def split: option.splits if_splits)

lemma finish_attempt_aside: "finish_attempt i note outcome t cid w f db = Inr db' \<Longrightarrow> aside_only db db'"
  by (auto simp: finish_attempt_def split: option.splits if_splits)

lemma worker_lease_aside:
  "acquire_worker_lease slot w dur now db = Inr db' \<Longrightarrow> aside_only db db'"
  "renew_worker_lease slot w dur now db = Inr db' \<Longrightarrow> aside_only db db'"
  "mark_worker_draining slot w db = Inr db' \<Longrightarrow> aside_only db db'"
  "aside_only db (release_worker_lease slot w db)"
  by (auto simp: acquire_worker_lease_def renew_worker_lease_def mark_worker_draining_def release_worker_lease_def
      split: option.splits if_splits) (auto simp: aside_only_def)

lemma persist_cancelled_tables: "persist_cancelled u cid previous st events answers db = Inr db' \<Longrightarrow> tables_only db db'"
proof (induction answers arbitrary: u db)
  case (Cons p answers)
  obtain i a where p: "p = (i, a)" by force
  show ?case
    using Cons.prems
    by (auto simp: p split: if_splits option.splits intro: tables_only_trans [OF tables_only_persist Cons.IH] Cons.IH)
qed simp

text \<open>A recovery batch is a checked commit, then the answers of what it cancelled, then its attempt.\<close>

lemma recovery_cases:
  assumes "commit_recovery_batch u cid v st es cs attempt note outcome t w f now db = Inr db'"
  obtains row db1 db2 where "dict_get (db_aggregates db) cid = Some row"
    "commit_batch cid v st es cs None None now (Some w) (Some f) db = Inr db1"
    "persist_cancelled u cid (ag_state row) st es (st_answers st) db1 = Inr db2" "aside_only db2 db'"
proof -
  from assms obtain row db1 db2 where parts: "dict_get (db_aggregates db) cid = Some row"
    "commit_batch cid v st es cs None None now (Some w) (Some f) db = Inr db1"
    "persist_cancelled u cid (ag_state row) st es (st_answers st) db1 = Inr db2"
    and last: "(case attempt of None \<Rightarrow> Inr db2 | Some i \<Rightarrow> finish_attempt i note outcome t cid w f db2) = Inr db'"
    by (auto simp: commit_recovery_batch_def result_simps split: option.splits)
  have "aside_only db2 db'"
    using last finish_attempt_aside by (cases attempt) auto
  with parts show thesis by (rule that)
qed

text \<open>A replacement of the session writes the row from its own state, with another binding.\<close>

lemma lock_binding_row:
  "lock_for_binding_update cid v w f now db = Inr (row, b) \<Longrightarrow> dict_get (db_aggregates db) cid = Some row"
  by (auto simp: lock_for_binding_update_def result_simps split: option.splits if_splits)

lemma rotation_cases:
  assumes "commit_session_rotation cid v native launch w f now db = Inr db'
    \<or> commit_rotation_requires_recreation cid v w f utc now db = Inr db'"
  obtains row st where "dict_get (db_aggregates db) cid = Some row" "db' = put_aggregate db cid (store_aggregate row st)"
    "conv_next_event_sequence (st_conversation st) = conv_next_event_sequence (st_conversation (ag_state row))"
  using assms
  by (auto simp: commit_session_rotation_def commit_rotation_requires_recreation_def result_simps
      mark_requires_recreation_def result_of_def dest!: lock_binding_row split: option.splits prod.splits)

lemma rotation_commands:
  assumes "commit_session_rotation cid v native launch w f now db = Inr db'
    \<or> commit_rotation_requires_recreation cid v w f utc now db = Inr db'"
  shows "db_commands db' = db_commands db"
  using assms by (rule rotation_cases) (simp add: put_aggregate_def)

end
