(* ===== verification/Durable_Store_Steps.thy ===== *)
theory Durable_Store_Steps
  imports Recovery_Store Machines
begin

text \<open>
  The transactions of the durable store as one step relation, and what each of them does to the two
  things every other part relies on: the numbering of the event log and the ownership of the rows.
\<close>

section \<open>Transactions\<close>

datatype (plugins only: code size) store_op =
    SaveSnapshot conversation_state
  | AcceptCommand command
  | ClaimCommands string nat int
  | RenewCommandLease uuid string int "int option"
  | UpdateCommand command "string option" "int option"
  | CommitBatch uuid int conversation_state "conversation_event list" "command list"
      "(uuid \<times> process_row) option" "launch_snapshot option" "string option" "int option"
  | CommitTurnBatch uuid int conversation_state "conversation_event list" "command list"
      "string option" "int option"
  | FacadeMutation uuid string int conversation_state "conversation_event list" "command list"
  | ReleaseConversationLease uuid string int
  | RenewOwnedLeases string int
  | ClaimExpired uuid_supply string nat int recovery_trigger
  | CommitHarnessSwitch uuid int conversation_state "conversation_event list" command "(uuid \<times> process_row) option"
      "launch_snapshot option" "string option" "int option"
  | CommitRequest uuid int conversation_state "conversation_event list" uuid "(string, string) dict" int
      "string option" "int option"
  | CommitResolution "conversation_state \<Rightarrow> uuid \<Rightarrow> bool result" uuid_supply resolution
  | ReleaseAnswer uuid string uuid command "string option" "int option"
  | CompleteSuppressed uuid datetime
  | CreateRule approval_rule
  | ReplaceRule approval_rule
  | DeleteRule uuid string
  | UpdateAttempt uuid recovery_note string int
  | CompleteAttempt uuid recovery_result_code recovery_reason_code datetime
  | CommitRecovery uuid_supply uuid int conversation_state "conversation_event list" "command list" "uuid option"
      recovery_note recovery_result_code datetime string int
  | CommitRotation uuid int "string option" "launch_snapshot option" "string option" "int option"
  | RequireRecreation uuid int "string option" "int option" datetime
  | AcquireWorkerLease string string int
  | RenewWorkerLease string string int
  | MarkWorkerDraining string string
  | ReleaseWorkerLease string string

fun apply_store_op :: "datetime \<Rightarrow> store_op \<Rightarrow> store \<Rightarrow> exn + store" where
  "apply_store_op now (SaveSnapshot st) db = save_snapshot st db"
| "apply_store_op now (AcceptCommand c) db = map_sum id snd (accept_command c db)"
| "apply_store_op now (ClaimCommands w limit dur) db = Inr (snd (claim_commands w limit dur now db))"
| "apply_store_op now (RenewCommandLease i w dur f) db = renew_command_lease i w dur f now db"
| "apply_store_op now (UpdateCommand c w f) db = map_sum id snd (update_command c now w f db)"
| "apply_store_op now (CommitBatch cid v st es cs p l w f) db = commit_batch cid v st es cs p l now w f db"
| "apply_store_op now (CommitTurnBatch cid v st es cs w f) db = commit_turn_batch cid v st es cs now w f db"
| "apply_store_op now (FacadeMutation cid owner v st es cs) db = commit_facade_mutation cid owner v st es cs db"
| "apply_store_op now (ReleaseConversationLease cid w f) db = release_conversation_lease cid w f now db"
| "apply_store_op now (RenewOwnedLeases w dur) db = Inr (snd (renew_owned_conversation_leases w dur now db))"
| "apply_store_op now (ClaimExpired u w limit dur g) db =
     map_sum id snd (claim_expired_conversations u w limit dur g now db)"
| "apply_store_op now (CommitHarnessSwitch cid v st es c p l w f) db = commit_harness_switch cid v st es c p l now w f db"
| "apply_store_op now (CommitRequest cid v st es i corr n w f) db =
     commit_interaction_request cid v st es i corr n now w f db"
| "apply_store_op now (CommitResolution g u rs) db = map_sum id snd (commit_interaction_resolution g u rs now db)"
| "apply_store_op now (ReleaseAnswer cid owner i c w f) db =
     map_sum id snd (release_interaction_answer cid owner i c now w f db)"
| "apply_store_op now (CompleteSuppressed i t) db =
     map_sum id snd (complete_suppressed_interaction_resolution i t db)"
| "apply_store_op now (CreateRule r) db = create_rule r db"
| "apply_store_op now (ReplaceRule r) db = replace_rule r db"
| "apply_store_op now (DeleteRule i p) db = delete_rule i p db"
| "apply_store_op now (UpdateAttempt i note w f) db = update_recovery_attempt i note w f now db"
| "apply_store_op now (CompleteAttempt i outcome reason t) db = complete_recovery_attempt i outcome reason t db"
| "apply_store_op now (CommitRecovery u cid v st es cs attempt note outcome t w f) db =
     commit_recovery_batch u cid v st es cs attempt note outcome t w f now db"
| "apply_store_op now (CommitRotation cid v native launch w f) db =
     commit_session_rotation cid v native launch w f now db"
| "apply_store_op now (RequireRecreation cid v w f utc) db = commit_rotation_requires_recreation cid v w f utc now db"
| "apply_store_op now (AcquireWorkerLease slot w dur) db = acquire_worker_lease slot w dur now db"
| "apply_store_op now (RenewWorkerLease slot w dur) db = renew_worker_lease slot w dur now db"
| "apply_store_op now (MarkWorkerDraining slot w) db = mark_worker_draining slot w db"
| "apply_store_op now (ReleaseWorkerLease slot w) db = Inr (release_worker_lease slot w db)"

text \<open>
  The service saves a snapshot to create a conversation, numbered from 1, and may repeat the very same
  write. The release of an answer and the replacement of a native session rewrite the row from its own
  state, whose numbering the row's column follows, as \<open>row_columns_follow_state\<close> shows of every reachable store. Every other change of an
  aggregate goes through a checked commit.
\<close>

definition numbering_follows :: "uuid \<Rightarrow> store \<Rightarrow> bool" where
  "numbering_follows cid db \<longleftrightarrow> (case dict_get (db_aggregates db) cid of
     None \<Rightarrow> True
   | Some row \<Rightarrow> ag_next_event_sequence row = conv_next_event_sequence (st_conversation (ag_state row)))"

fun admissible_store_op :: "store_op \<Rightarrow> store \<Rightarrow> bool" where
  "admissible_store_op (SaveSnapshot st) db =
     (case dict_get (db_aggregates db) (conv_id (st_conversation st)) of
        None \<Rightarrow> conv_next_event_sequence (st_conversation st) = 1
      | Some row \<Rightarrow> ag_state row = st \<and> ag_version row = conv_version (st_conversation st))"
| "admissible_store_op (ReleaseAnswer cid owner i c w f) db = numbering_follows cid db"
| "admissible_store_op (CommitRotation cid v native launch w f) db = numbering_follows cid db"
| "admissible_store_op (RequireRecreation cid v w f utc) db = numbering_follows cid db"
| "admissible_store_op _ db = True"

definition store_step :: "store \<Rightarrow> datetime \<times> store_op \<Rightarrow> store \<Rightarrow> bool" where
  "store_step db l db' \<longleftrightarrow> admissible_store_op (snd l) db \<and> apply_store_op (fst l) (snd l) db = Inr db'"

definition empty_store :: store where
  "empty_store = \<lparr>db_aggregates = [], db_commands = [], db_events = [], db_processes = [],
     db_launches = [], db_attempts = [],
     db_interactions = \<lparr>it_marks = [], it_answers = [], it_rules = [], it_audits = []\<rparr>,
     db_workers = []\<rparr>"

section \<open>The event log of a conversation\<close>

definition events_of :: "uuid \<Rightarrow> store \<Rightarrow> conversation_event list" where
  "events_of cid db = filter (\<lambda>e. ev_conversation_id e = cid) (map er_event (db_events db))"

definition next_number :: "uuid \<Rightarrow> store \<Rightarrow> int" where
  "next_number cid db = (case dict_get (db_aggregates db) cid of
     None \<Rightarrow> 1 | Some row \<Rightarrow> ag_next_event_sequence row)"

text \<open>What a transaction does to the log of one conversation: it appends the next numbers.\<close>

definition log_grows :: "uuid \<Rightarrow> store \<Rightarrow> store \<Rightarrow> bool" where
  "log_grows cid db db' \<longleftrightarrow> (\<exists>es. events_of cid db' = events_of cid db @ es
     \<and> map ev_sequence es = [next_number cid db..next_number cid db' - 1]
     \<and> next_number cid db \<le> next_number cid db')"

definition log_frame :: "store \<Rightarrow> store \<Rightarrow> bool" where
  "log_frame db db' \<longleftrightarrow> db_events db' = db_events db \<and> (\<forall>cid. next_number cid db' = next_number cid db)"

lemma log_frame_refl [simp]: "log_frame db db"
  by (simp add: log_frame_def)

lemma log_frame_trans: "log_frame a b \<Longrightarrow> log_frame b c \<Longrightarrow> log_frame a c"
  by (simp add: log_frame_def)

lemma log_frame_grows: "log_frame db db' \<Longrightarrow> log_grows cid db db'"
  by (simp add: log_frame_def log_grows_def events_of_def)

lemma log_grows_frame: "log_grows cid db db' \<Longrightarrow> log_frame db' db'' \<Longrightarrow> log_grows cid db db''"
  by (auto simp: log_frame_def log_grows_def events_of_def)

lemma log_frame_same:
  "db_events db' = db_events db \<Longrightarrow> db_aggregates db' = db_aggregates db \<Longrightarrow> log_frame db db'"
  by (simp add: log_frame_def next_number_def)

lemma put_command_frame [simp]: "log_frame db (put_command db i row)"
  by (rule log_frame_same) (simp_all add: put_command_def)

lemma put_aggregate_frame:
  "dict_get (db_aggregates db) cid = Some row \<Longrightarrow> ag_next_event_sequence row' = ag_next_event_sequence row \<Longrightarrow>
     log_frame db (put_aggregate db cid row')"
  by (simp add: log_frame_def next_number_def put_aggregate_def dict_get_put)

lemma processes_frame [simp]: "log_frame db (mark_processes_orphaned cid now db)"
  "log_frame db (abandon_attempts cid now db)"
  by (auto intro!: log_frame_same simp: mark_processes_orphaned_def abandon_attempts_def)

lemma processes_aggregates [simp]:
  "db_aggregates (mark_processes_orphaned cid now db) = db_aggregates db"
  "db_aggregates (abandon_attempts cid now db) = db_aggregates db"
  by (simp_all add: mark_processes_orphaned_def abandon_attempts_def)

lemma for_each_frame:
  assumes "\<And>x db db'. f x db = Inr db' \<Longrightarrow> log_frame db db'"
  shows "for_each f xs db = Inr db' \<Longrightarrow> log_frame db db'"
  by (induction xs arbitrary: db) (auto simp: result_simps intro: assms log_frame_trans)

lemma settle_row_frame: "settle_command_row c db = Inr db' \<Longrightarrow> log_frame db db'"
  by (auto simp: settle_command_row_def split: option.splits)

lemma upsert_command_frame: "upsert_command cid c db = Inr db' \<Longrightarrow> log_frame db db'"
  by (auto simp: upsert_command_def split: if_splits)

lemma record_process_frame:
  "record_process p l db = Inr db' \<Longrightarrow> db_events db' = db_events db \<and> db_aggregates db' = db_aggregates db"
  by (auto simp: record_process_def Let_def split: option.splits if_splits prod.splits)

lemma acquire_frame: "log_frame db (snd (acquire_conversation_owner cid w dur now orphan db))"
  by (simp add: acquire_conversation_owner_def Let_def log_frame_def next_number_def put_aggregate_def
      dict_get_put mark_processes_orphaned_def split: option.split)

section \<open>Commits append consecutive numbers\<close>

lemma check_sequence_numbers:
  "check_sequence cid n es = Inr k \<Longrightarrow>
     (\<forall>e \<in> set es. ev_conversation_id e = cid) \<and> map ev_sequence es = [n..k - 1] \<and> n \<le> k"
proof (induction es arbitrary: n)
  case (Cons e es)
  then have "ev_conversation_id e = cid" "ev_sequence e = n" "check_sequence cid (n + 1) es = Inr k"
    by (auto split: if_splits)
  with Cons.IH [of "n + 1"] show ?case
    using upto_rec1 [of n "k - 1"] by simp
qed simp

lemma insert_events_effect:
  "insert_events m es db = Inr db' \<Longrightarrow>
     map er_event (db_events db') = map er_event (db_events db) @ es \<and> db_aggregates db' = db_aggregates db
     \<and> db_commands db' = db_commands db"
  by (induction es arbitrary: db) (auto split: if_splits)

text \<open>The common shape of every checked commit.\<close>

lemma commit_log_grows:
  assumes row: "dict_get (db_aggregates db) cid = Some row"
    and checked: "check_events cid (ag_next_event_sequence row) st es = Inr ()"
    and stored: "db_events db1 = db_events db"
      "db_aggregates db1 = dict_put (db_aggregates db) cid (store_aggregate row st)"
    and inserted: "insert_events m es db1 = Inr db2"
    and frame: "log_frame db2 db'"
  shows "log_grows c db db'"
proof (rule log_grows_frame [OF _ frame])
  have numbers: "(\<forall>e \<in> set es. ev_conversation_id e = cid)"
    "map ev_sequence es = [ag_next_event_sequence row..conv_next_event_sequence (st_conversation st) - 1]"
    "ag_next_event_sequence row \<le> conv_next_event_sequence (st_conversation st)"
    using checked check_sequence_numbers [of cid "ag_next_event_sequence row" es]
    by (auto simp: check_events_def result_simps split: if_splits)
  have log: "map er_event (db_events db2) = map er_event (db_events db) @ es"
    and rows: "db_aggregates db2 = dict_put (db_aggregates db) cid (store_aggregate row st)"
    using insert_events_effect [OF inserted] stored by simp_all
  show "log_grows c db db2"
  proof (cases "c = cid")
    case True
    with numbers log rows row show ?thesis
      by (auto simp: log_grows_def events_of_def next_number_def dict_get_put store_aggregate_def
          filter_id_conv)
  next
    case False
    with numbers(1) have "filter (\<lambda>e. ev_conversation_id e = c) es = []"
      by (auto simp: filter_empty_conv)
    with False log rows show ?thesis
      by (simp add: log_grows_def events_of_def next_number_def dict_get_put)
  qed
qed

lemma lock_aggregate_Inr:
  "lock_aggregate_for_commit db cid v st es now w f = Inr row \<longleftrightarrow>
     dict_get (db_aggregates db) cid = Some row \<and> require_owner_on_row cid row now w f = Inr ()
     \<and> ag_version row = v \<and> conv_id (st_conversation st) = cid
     \<and> check_events cid (ag_next_event_sequence row) st es = Inr ()"
  by (auto simp: lock_aggregate_for_commit_def result_simps split: option.splits if_splits)

lemma commit_batch_parts:
  assumes "commit_batch cid v st es cs p l now w f db = Inr db'"
  obtains row db1 db2 where "lock_aggregate_for_commit db cid v st es now w f = Inr row"
    and "record_process p l (put_aggregate db cid (store_aggregate row st)) = Inr db1"
    and "insert_events (interaction_turns st) es db1 = Inr db2"
    and "for_each (upsert_command cid) cs db2 = Inr db'"
  using assms by (auto simp: commit_batch_def result_simps)

lemma commit_batch_log: "commit_batch cid v st es cs p l now w f db = Inr db' \<Longrightarrow> log_grows c db db'"
proof (erule commit_batch_parts)
  fix row db1 db2
  assume "lock_aggregate_for_commit db cid v st es now w f = Inr row"
    and p: "record_process p l (put_aggregate db cid (store_aggregate row st)) = Inr db1"
    and i: "insert_events (interaction_turns st) es db1 = Inr db2"
    and "for_each (upsert_command cid) cs db2 = Inr db'"
  moreover from this(4) have "log_frame db2 db'"
    by (rule for_each_frame [rotated]) (rule upsert_command_frame)
  ultimately show "log_grows c db db'"
    using record_process_frame [OF p]
    by (intro commit_log_grows [OF _ _ _ _ i])
      (auto simp: lock_aggregate_Inr put_aggregate_def)
qed

lemma commit_turn_batch_log:
  "commit_turn_batch cid v st es cs now w f db = Inr db' \<Longrightarrow> log_grows c db db'"
  by (auto simp: commit_turn_batch_def result_simps
      intro: log_grows_frame [OF commit_batch_log for_each_frame [OF settle_row_frame]])

lemma facade_mutation_log:
  assumes "commit_facade_mutation cid owner v st es cs db = Inr db'"
  shows "log_grows c db db'"
proof -
  from assms obtain row db2 where "dict_get (db_aggregates db) cid = Some row"
    and "check_events cid (ag_next_event_sequence row) st es = Inr ()"
    and i: "insert_events (interaction_turns st) es (put_aggregate db cid (store_aggregate row st)) = Inr db2"
    and "for_each (upsert_command cid) cs db2 = Inr db'"
    by (auto simp: commit_facade_mutation_def result_simps split: option.splits if_splits)
  moreover from this(4) have "log_frame db2 db'"
    by (rule for_each_frame [rotated]) (rule upsert_command_frame)
  ultimately show ?thesis
    by (intro commit_log_grows [OF _ _ _ _ i]) (auto simp: put_aggregate_def)
qed

text \<open>
  Claiming and taking over are loops; whatever relation their single steps keep, the loops keep.
\<close>

lemma acquire_commands:
  "db_commands (snd (acquire_conversation_owner cid w dur now orphan db)) = db_commands db"
  by (auto simp: acquire_conversation_owner_def Let_def put_aggregate_def mark_processes_orphaned_def
      split: option.split)

lemma claim_rows_rel:
  assumes refl: "\<And>db. R db db" and trans: "\<And>a b c. R a b \<Longrightarrow> R b c \<Longrightarrow> R a c"
    and acquire: "\<And>cid db. R db (snd (acquire_conversation_owner cid w dur now False db))"
    and claim: "\<And>i row db. dict_get (db_commands db) i = Some row \<Longrightarrow>
      R db (put_command db i (row\<lparr>cr_command := claimed_copy w dur now (cr_command row)\<rparr>))"
  shows "R db (snd (claim_rows w dur now rows db))"
proof (induction rows arbitrary: db)
  case (Cons i rows)
  show ?case
  proof (cases "dict_get (db_commands db) i")
    case (Some row)
    obtain r db1 where acq: "acquire_conversation_owner (cr_conversation_id row) w dur now False db = (r, db1)"
      by fastforce
    then have step: "R db db1" and row: "dict_get (db_commands db1) i = Some row"
      using acquire [of db "cr_conversation_id row"]
        acquire_commands [of "cr_conversation_id row" w dur now False db] Some by simp_all
    show ?thesis
      using Some acq step Cons.IH trans [OF trans [OF step claim [OF row]] Cons.IH] trans [OF step Cons.IH]
      by (cases r) (simp_all add: Let_def)
  qed (simp add: Cons.IH)
qed (simp add: refl)

lemma take_over_rel:
  assumes refl: "\<And>db. R db db" and trans: "\<And>a b c. R a b \<Longrightarrow> R b c \<Longrightarrow> R a c"
    and start: "\<And>i cid row b db. dict_get (db_aggregates db) cid = Some row \<Longrightarrow>
      ag_worker_id row = None \<or> ag_worker_id row = Some w \<or> \<not> lease_is_live (ag_lease_expires_at row) now \<Longrightarrow>
      R db (begin_recovery i g w dur now cid row b db)"
  shows "take_over u g w dur now rows db = Inr (cs, db') \<Longrightarrow> R db db'"
proof (induction rows arbitrary: u db cs)
  case (Cons cid rows)
  then show ?case
    by (auto simp: result_simps split: option.splits if_splits prod.splits
        intro: trans [OF start] Cons.IH)
qed (simp add: refl)

lemma claim_rows_frame: "log_frame db (snd (claim_rows w dur now rows db))"
  by (rule claim_rows_rel) (auto intro: log_frame_trans acquire_frame)

lemma begin_recovery_frame:
  "dict_get (db_aggregates db) cid = Some row \<Longrightarrow> log_frame db (begin_recovery i g w dur now cid row b db)"
  by (simp add: begin_recovery_def Let_def log_frame_def next_number_def put_aggregate_def dict_get_put)
    (simp add: abandon_attempts_def mark_processes_orphaned_def)

lemma take_over_frame: "take_over u g w dur now rows db = Inr (cs, db') \<Longrightarrow> log_frame db db'"
  by (rule take_over_rel [where R = log_frame]) (auto intro: log_frame_trans begin_recovery_frame)

lemma renew_owned_frame: "log_frame db (snd (renew_owned_conversation_leases w dur now db))"
  by (simp add: log_frame_def next_number_def renew_owned_conversation_leases_def map_of_map renew_row_def
      split: option.split)

lemma tables_frame: "tables_only db db' \<Longrightarrow> log_frame db db'"
  by (rule log_frame_same) (simp_all add: tables_onlyD)

lemma frame_log_grows: "log_frame db db1 \<Longrightarrow> log_grows c db1 db2 \<Longrightarrow> log_grows c db db2"
  by (simp add: log_frame_def log_grows_def events_of_def)

lemma resolution_log:
  assumes "commit_interaction_resolution g u rs now db = Inr (r, db')"
  shows "log_grows c db db'"
  using assms
proof (rule resolution_cases)
  show ?thesis if "tables_only db db'" using that by (intro log_frame_grows tables_frame)
  fix v st es db1 db2
  assume "tables_only db db1" "tables_only db2 db'"
    and commit: "commit_batch (rs_conversation_id rs) v st es [] None None now (rs_worker_id rs) (rs_fence rs) db1
      = Inr db2"
  then show ?thesis
    using log_grows_frame [OF commit_batch_log [OF commit] tables_frame] frame_log_grows [OF tables_frame] by blast
qed

text \<open>What a release writes.\<close>

lemma release_cases:
  assumes "release_interaction_answer cid owner i c now w f db = Inr (r, db')"
  obtains "db' = db"
  | row db1 t where "dict_get (db_aggregates db) cid = Some row" "upsert_command cid c db = Inr db1"
      "db' = put_aggregate (db1\<lparr>db_interactions := t\<rparr>) cid (store_aggregate row
        ((ag_state row)\<lparr>st_commands := dict_put (st_commands (ag_state row)) (cmd_id c) c\<rparr>))"
  using assms
  by (auto simp: release_interaction_answer_def Let_def result_simps change_tables_def split: option.splits if_splits)

lemma upsert_aggregates: "upsert_command cid c db = Inr db1 \<Longrightarrow> db_aggregates db1 = db_aggregates db"
  by (auto simp: upsert_command_def put_command_def split: if_splits)

lemma release_log:
  assumes run: "release_interaction_answer cid owner i c now w f db = Inr (r, db')"
    and follows: "admissible_store_op (ReleaseAnswer cid owner i c w f) db"
  shows "log_frame db db'"
  using run
proof (rule release_cases)
  fix row db1 t
  assume row: "dict_get (db_aggregates db) cid = Some row" and up: "upsert_command cid c db = Inr db1"
    and db': "db' = put_aggregate (db1\<lparr>db_interactions := t\<rparr>) cid (store_aggregate row
        ((ag_state row)\<lparr>st_commands := dict_put (st_commands (ag_state row)) (cmd_id c) c\<rparr>))"
  let ?db2 = "db1\<lparr>db_interactions := t\<rparr>"
  have "log_frame db ?db2"
    using log_frame_trans [OF upsert_command_frame [OF up] tables_frame [of db1 ?db2]]
    by (auto simp: tables_only_def)
  moreover have "log_frame ?db2 db'"
    unfolding db' using row upsert_aggregates [OF up] follows [unfolded admissible_store_op.simps numbering_follows_def]
    by (intro put_aggregate_frame [where row = row]) (simp_all add: store_aggregate_def)
  ultimately show ?thesis by (rule log_frame_trans)
qed simp

lemma aside_frame: "aside_only db db' \<Longrightarrow> log_frame db db'"
  by (auto simp: aside_only_def log_frame_def next_number_def)

lemma recovery_log:
  assumes "commit_recovery_batch u cid v st es cs attempt note outcome t w f now db = Inr db'"
  shows "log_grows c db db'"
  using assms
proof (rule recovery_cases)
  fix row db1 db2
  assume commit: "commit_batch cid v st es cs None None now (Some w) (Some f) db = Inr db1"
    and answers: "persist_cancelled u cid (ag_state row) st es (st_answers st) db1 = Inr db2" and last: "aside_only db2 db'"
  show ?thesis
    using log_grows_frame [OF log_grows_frame [OF commit_batch_log [OF commit]
        tables_frame [OF persist_cancelled_tables [OF answers]]] aside_frame [OF last]] .
qed

lemma rotation_log:
  assumes "commit_session_rotation cid v native launch w f now db = Inr db'
    \<or> commit_rotation_requires_recreation cid v w f utc now db = Inr db'" and "numbering_follows cid db"
  shows "log_frame db db'"
  using assms(1)
proof (rule rotation_cases)
  fix row st
  assume row: "dict_get (db_aggregates db) cid = Some row" and db': "db' = put_aggregate db cid (store_aggregate row st)"
    and same: "conv_next_event_sequence (st_conversation st) = conv_next_event_sequence (st_conversation (ag_state row))"
  show ?thesis
    unfolding db' using row same assms(2)
    by (intro put_aggregate_frame [where row = row]) (simp_all add: store_aggregate_def numbering_follows_def)
qed

text \<open>Every transaction extends the log of every conversation by the next numbers, if at all.\<close>

lemma store_op_log:
  assumes "admissible_store_op op db" and "apply_store_op now op db = Inr db'"
  shows "log_grows cid db db'"
proof (cases op)
  case (SaveSnapshot st)
  with assms have "log_frame db db'"
    by (auto simp: save_snapshot_def Let_def log_frame_def next_number_def put_aggregate_def dict_get_put
        new_aggregate_row_def split: option.splits if_splits)
  then show ?thesis by (rule log_frame_grows)
next
  case (CommitBatch cid v st es cs p l w f)
  with assms show ?thesis by (simp add: commit_batch_log)
next
  case (CommitTurnBatch cid v st es cs w f)
  with assms show ?thesis by (simp add: commit_turn_batch_log)
next
  case (FacadeMutation cid owner v st es cs)
  with assms show ?thesis by (simp add: facade_mutation_log)
next
  case (ClaimCommands w limit dur)
  with assms show ?thesis
    by (auto simp: claim_commands_def intro: log_frame_grows claim_rows_frame)
next
  case (RenewOwnedLeases w dur)
  with assms show ?thesis by (auto intro: log_frame_grows renew_owned_frame)
next
  case (ClaimExpired u w limit dur g)
  with assms show ?thesis
    by (auto simp: claim_expired_conversations_def map_sum_def split: sum.splits
        intro!: log_frame_grows dest!: take_over_frame)
next
  case (AcceptCommand c)
  with assms show ?thesis
    by (auto simp: accept_command_def map_sum_def intro!: log_frame_grows split: option.splits if_splits)
next
  case (RenewCommandLease i w dur f)
  with assms show ?thesis
    by (auto simp: renew_command_lease_def result_simps intro!: log_frame_grows split: option.splits if_splits)
next
  case (UpdateCommand c w f)
  with assms show ?thesis
    by (auto simp: update_command_def result_simps map_sum_def Let_def intro!: log_frame_grows
        split: option.splits if_splits sum.splits)
next
  case (ReleaseConversationLease c w f)
  with assms show ?thesis
    by (auto simp: release_conversation_lease_def result_simps intro!: log_frame_grows put_aggregate_frame
        split: option.splits)
next
  case (CommitHarnessSwitch cid v st es c p l w f)
  with assms show ?thesis
    by (auto simp: commit_harness_switch_def result_simps
        intro: log_grows_frame [OF commit_batch_log settle_row_frame])
next
  case (CommitRequest cid v st es i corr n w f)
  with assms show ?thesis
    by (auto simp: commit_interaction_request_def result_simps
        intro: log_grows_frame [OF commit_batch_log tables_frame])
next
  case (CommitResolution g u rs)
  with assms show ?thesis by (auto simp: map_sum_def resolution_log split: sum.splits)
next
  case (ReleaseAnswer cid owner i c w f)
  with assms show ?thesis
    by (auto simp: map_sum_def simp del: admissible_store_op.simps intro!: log_frame_grows release_log split: sum.splits)
next
  case (CompleteSuppressed i t)
  with assms show ?thesis
    by (auto simp: complete_suppressed_interaction_resolution_def map_sum_def
        intro!: log_frame_grows tables_frame split: option.splits if_splits sum.splits)
next
  case (CreateRule r)
  with assms show ?thesis
    by (auto simp: create_rule_def intro!: log_frame_grows tables_frame split: if_splits)
next
  case (ReplaceRule r)
  with assms show ?thesis
    by (auto simp: replace_rule_def intro!: log_frame_grows tables_frame split: option.splits if_splits)
next
  case (DeleteRule i p)
  with assms show ?thesis
    by (auto simp: delete_rule_def intro!: log_frame_grows tables_frame split: option.splits if_splits)
next
  case (CommitRecovery u c v st es cs attempt n outcome t w f)
  with assms show ?thesis by (simp add: recovery_log)
next
  case (CommitRotation c v native launch w f)
  with assms show ?thesis by (intro log_frame_grows rotation_log [OF disjI1]) simp_all
next
  case (RequireRecreation c v w f utc)
  with assms show ?thesis by (intro log_frame_grows rotation_log [OF disjI2]) simp_all
qed (use assms in \<open>auto intro!: log_frame_grows aside_frame
  intro: update_attempt_aside complete_attempt_aside worker_lease_aside\<close>)

end
