(* ===== verification/Durable_Store_Properties.thy ===== *)
theory Durable_Store_Properties
  imports Durable_Store_Steps
begin

text \<open>
  The promises of the durable store over every sequence of its transactions, whoever runs them: the
  event log of a conversation has no gap, an owner that lost a conversation can write nothing to it,
  and a command whose delivery began is never handed out again.
\<close>

section \<open>The event log\<close>

definition log_step :: "uuid \<Rightarrow> store \<Rightarrow> conversation_event list \<Rightarrow> store \<Rightarrow> bool" where
  "log_step cid db es db' \<longleftrightarrow> (\<exists>l. store_step db l db') \<and> events_of cid db' = events_of cid db @ es"

interpretation stored_log: numbered_log "\<lambda>db. db = empty_store" "log_step cid" "\<lambda>_. True" ev_sequence
  "next_number cid" for cid
proof unfold_locales
  fix db es db'
  assume "log_step cid db es db'"
  then obtain l where l: "store_step db l db'" "events_of cid db' = events_of cid db @ es"
    unfolding log_step_def by blast
  then have "log_grows cid db db'"
    unfolding store_step_def by (elim conjE) (rule store_op_log)
  with l(2) show "map ev_sequence es = [next_number cid db..next_number cid db' - 1]
      \<and> next_number cid db \<le> next_number cid db'"
    unfolding log_grows_def by auto
qed auto

lemma log_run:
  "run store_step db ls db' \<Longrightarrow>
     \<exists>ess. run (log_step cid) db ess db' \<and> events_of cid db' = events_of cid db @ concat ess"
proof (induction rule: run.induct)
  case (run_nil db)
  have "run (log_step cid) db [] db" by simp
  then show ?case by fastforce
next
  case (run_cons db l db1 ls db')
  from run_cons.IH obtain ess where ess: "run (log_step cid) db1 ess db'"
    "events_of cid db' = events_of cid db1 @ concat ess" by blast
  have "log_grows cid db db1"
    using run_cons.hyps(1) unfolding store_step_def by (elim conjE) (rule store_op_log)
  then obtain es where es: "events_of cid db1 = events_of cid db @ es" unfolding log_grows_def by blast
  with run_cons.hyps(1) have "log_step cid db es db1" unfolding log_step_def by blast
  from run.run_cons [OF this ess(1)] es ess(2) show ?case by fastforce
qed


section \<open>Ownership\<close>

text \<open>
  The fence of a conversation never falls, and while it stays the owner can only be dropped. A token is
  superseded when the fence has moved on, or the owner under it is gone.
\<close>

definition fences_advance :: "store \<Rightarrow> store \<Rightarrow> bool" where
  "fences_advance db db' \<longleftrightarrow> (\<forall>cid row. dict_get (db_aggregates db) cid = Some row \<longrightarrow>
     (\<exists>row'. dict_get (db_aggregates db') cid = Some row' \<and> ag_fence row \<le> ag_fence row'
       \<and> (ag_fence row' = ag_fence row \<longrightarrow> ag_worker_id row' \<in> {ag_worker_id row, None})))"

definition superseded :: "string \<Rightarrow> int \<Rightarrow> aggregate_row \<Rightarrow> bool" where
  "superseded w f row \<longleftrightarrow> f < ag_fence row \<or> (ag_fence row = f \<and> ag_worker_id row \<noteq> Some w)"

lemma fences_advance_refl [simp]: "fences_advance db db"
  by (simp add: fences_advance_def)

lemma fences_advance_trans:
  assumes "fences_advance a b" "fences_advance b c"
  shows "fences_advance a c"
  unfolding fences_advance_def
proof (intro allI impI)
  fix cid row
  assume "dict_get (db_aggregates a) cid = Some row"
  with assms(1) obtain row1 where 1: "dict_get (db_aggregates b) cid = Some row1" "ag_fence row \<le> ag_fence row1"
    "ag_fence row1 = ag_fence row \<longrightarrow> ag_worker_id row1 \<in> {ag_worker_id row, None}"
    unfolding fences_advance_def by blast
  with assms(2) obtain row2 where 2: "dict_get (db_aggregates c) cid = Some row2" "ag_fence row1 \<le> ag_fence row2"
    "ag_fence row2 = ag_fence row1 \<longrightarrow> ag_worker_id row2 \<in> {ag_worker_id row1, None}"
    unfolding fences_advance_def by blast
  from 1 2 show "\<exists>row'. dict_get (db_aggregates c) cid = Some row' \<and> ag_fence row \<le> ag_fence row'
      \<and> (ag_fence row' = ag_fence row \<longrightarrow> ag_worker_id row' \<in> {ag_worker_id row, None})"
    by (intro exI [of _ row2]) auto
qed

lemma fences_advance_same: "db_aggregates db' = db_aggregates db \<Longrightarrow> fences_advance db db'"
  by (simp add: fences_advance_def)

lemma fences_advance_put:
  assumes "dict_get (db_aggregates db) cid = Some row" and "ag_fence row \<le> ag_fence row'"
    and "ag_fence row' = ag_fence row \<Longrightarrow> ag_worker_id row' \<in> {ag_worker_id row, None}"
    and "db_aggregates db' = dict_put (db_aggregates db) cid row'"
  shows "fences_advance db db'"
  using assms by (auto simp: fences_advance_def dict_get_put)

lemma superseded_advance:
  assumes "fences_advance db db'" and "dict_get (db_aggregates db) cid = Some row" and "superseded w f row"
  shows "\<exists>row'. dict_get (db_aggregates db') cid = Some row' \<and> superseded w f row'"
proof -
  from assms(1,2) obtain row' where "dict_get (db_aggregates db') cid = Some row'" "ag_fence row \<le> ag_fence row'"
    "ag_fence row' = ag_fence row \<longrightarrow> ag_worker_id row' \<in> {ag_worker_id row, None}"
    unfolding fences_advance_def by blast
  with assms(3) show ?thesis
    by (intro exI [of _ row']) (auto simp: superseded_def)
qed

lemma store_aggregate_advances:
  assumes "dict_get (db_aggregates db) cid = Some row"
    and "db_aggregates db' = dict_put (db_aggregates db) cid (store_aggregate row st)"
  shows "fences_advance db db'"
  using assms by (intro fences_advance_put) (auto simp: store_aggregate_def)

text \<open>
  The transactions reach an aggregate row in few ways: a created row, a row that follows its state, and a
  change of its ownership. A relation that holds of these holds of every transaction.
\<close>

locale aggregate_relation =
  fixes R :: "store \<Rightarrow> store \<Rightarrow> bool"
  assumes same: "db_aggregates db' = db_aggregates db \<Longrightarrow> R db db'"
    and transitive: "R a b \<Longrightarrow> R b c \<Longrightarrow> R a c"
    and created: "dict_get (db_aggregates db) cid = None \<Longrightarrow>
      db_aggregates db' = dict_put (db_aggregates db) cid (new_aggregate_row st) \<Longrightarrow> R db db'"
    and stored: "dict_get (db_aggregates db) cid = Some row \<Longrightarrow>
      db_aggregates db' = dict_put (db_aggregates db) cid (store_aggregate row st) \<Longrightarrow> R db db'"
    and owned: "dict_get (db_aggregates db) cid = Some row \<Longrightarrow> ag_fence row \<le> f \<Longrightarrow>
      (f = ag_fence row \<Longrightarrow> w \<in> {ag_worker_id row, None}) \<Longrightarrow>
      db_aggregates db' = dict_put (db_aggregates db) cid
        (row\<lparr>ag_worker_id := w, ag_fence := f, ag_lease_expires_at := l\<rparr>) \<Longrightarrow> R db db'"
    and renewed: "R db (snd (renew_owned_conversation_leases w' dur now db))"
begin

lemma reflexive: "R db db"
  by (rule same) simp

lemma for_each_related:
  assumes "\<And>x db db'. f x db = Inr db' \<Longrightarrow> R db db'"
  shows "for_each f xs db = Inr db' \<Longrightarrow> R db db'"
  by (induction xs arbitrary: db) (auto simp: result_simps reflexive intro: assms transitive)

lemma put_command_related: "R db (put_command db i row)"
  by (rule same) (simp add: put_command_def)

lemma settle_row_related: "settle_command_row c db = Inr db' \<Longrightarrow> R db db'"
  by (auto simp: settle_command_row_def put_command_related split: option.splits)

lemma upsert_command_related: "upsert_command cid c db = Inr db' \<Longrightarrow> R db db'"
  by (auto simp: upsert_command_def put_command_related split: if_splits)

lemma acquire_related: "R db (snd (acquire_conversation_owner cid w dur now orphan db))"
proof (cases "dict_get (db_aggregates db) cid")
  case (Some row)
  let ?same = "ag_worker_id row = Some w
    \<and> (ag_lease_expires_at row = None \<or> lease_is_live (ag_lease_expires_at row) now)"
  show ?thesis
  proof (cases "ag_worker_id row \<noteq> None \<and> ag_worker_id row \<noteq> Some w \<and> lease_is_live (ag_lease_expires_at row) now")
    case True
    with Some show ?thesis by (simp add: acquire_conversation_owner_def Let_def reflexive)
  next
    case False
    show ?thesis
    proof (rule owned [OF Some, where f = "if ?same then ag_fence row else ag_fence row + 1"])
      show "db_aggregates (snd (acquire_conversation_owner cid w dur now orphan db)) = dict_put (db_aggregates db) cid
          (row\<lparr>ag_worker_id := Some w, ag_fence := if ?same then ag_fence row else ag_fence row + 1,
             ag_lease_expires_at := Some (now + dur)\<rparr>)"
        using Some False by (auto simp: acquire_conversation_owner_def Let_def put_aggregate_def mark_processes_orphaned_def)
    qed (auto split: if_splits)
  qed
qed (simp add: acquire_conversation_owner_def reflexive)

lemma commit_batch_related: "commit_batch cid v st es cs p l now w f db = Inr db' \<Longrightarrow> R db db'"
proof (erule commit_batch_parts)
  fix row db1 db2
  assume "lock_aggregate_for_commit db cid v st es now w f = Inr row"
    and p: "record_process p l (put_aggregate db cid (store_aggregate row st)) = Inr db1"
    and i: "insert_events (interaction_turns st) es db1 = Inr db2"
    and c: "for_each (upsert_command cid) cs db2 = Inr db'"
  then have "R db db2"
    using record_process_frame [OF p] insert_events_effect [OF i]
    by (intro stored) (auto simp: lock_aggregate_Inr put_aggregate_def)
  moreover have "R db2 db'"
    using c by (rule for_each_related [rotated]) (rule upsert_command_related)
  ultimately show "R db db'" by (rule transitive)
qed

lemma commit_turn_batch_related: "commit_turn_batch cid v st es cs now w f db = Inr db' \<Longrightarrow> R db db'"
  by (auto simp: commit_turn_batch_def result_simps
      intro: transitive [OF commit_batch_related for_each_related [OF settle_row_related]])

lemma facade_mutation_related:
  assumes "commit_facade_mutation cid owner v st es cs db = Inr db'"
  shows "R db db'"
proof -
  from assms obtain row db2 where row: "dict_get (db_aggregates db) cid = Some row"
    and i: "insert_events (interaction_turns st) es (put_aggregate db cid (store_aggregate row st)) = Inr db2"
    and c: "for_each (upsert_command cid) cs db2 = Inr db'"
    by (auto simp: commit_facade_mutation_def result_simps split: option.splits if_splits)
  have "R db db2"
    using row insert_events_effect [OF i] by (intro stored) (auto simp: put_aggregate_def)
  moreover have "R db2 db'"
    using c by (rule for_each_related [rotated]) (rule upsert_command_related)
  ultimately show ?thesis by (rule transitive)
qed

lemma begin_recovery_related:
  "dict_get (db_aggregates db) cid = Some row \<Longrightarrow> R db (begin_recovery i g w dur now cid row b db)"
  by (rule owned [where f = "ag_fence row + 1"]) (auto simp: begin_recovery_def Let_def put_aggregate_def)

lemma claim_rows_related: "R db (snd (claim_rows w dur now rows db))"
  by (rule claim_rows_rel) (auto intro: transitive reflexive acquire_related put_command_related)

lemma take_over_related: "take_over u g w dur now rows db = Inr (cs, db') \<Longrightarrow> R db db'"
  by (rule take_over_rel [where R = R]) (auto intro: transitive reflexive begin_recovery_related)

lemma tables_related: "tables_only db db' \<Longrightarrow> R db db'"
  by (rule same) (simp add: tables_onlyD)

lemma resolution_related:
  assumes "commit_interaction_resolution g u rs now db = Inr (r, db')"
  shows "R db db'"
  using assms
proof (rule resolution_cases)
  fix v st es db1 db2
  assume "tables_only db db1" "tables_only db2 db'"
    and commit: "commit_batch (rs_conversation_id rs) v st es [] None None now (rs_worker_id rs) (rs_fence rs) db1
      = Inr db2"
  then show ?thesis
    by (intro transitive [OF tables_related transitive [OF commit_batch_related [OF commit] tables_related]])
qed (rule tables_related)

lemma release_related:
  assumes "release_interaction_answer cid owner i c now w f db = Inr (r, db')"
  shows "R db db'"
  using assms
proof (rule release_cases)
  fix row db1 t
  assume row: "dict_get (db_aggregates db) cid = Some row" and up: "upsert_command cid c db = Inr db1"
    and db': "db' = put_aggregate (db1\<lparr>db_interactions := t\<rparr>) cid (store_aggregate row
        ((ag_state row)\<lparr>st_commands := dict_put (st_commands (ag_state row)) (cmd_id c) c\<rparr>))"
  then show ?thesis
    using upsert_aggregates [OF up] by (intro stored [OF row]) (simp add: put_aggregate_def)
qed (simp add: reflexive)

lemma aside_related: "aside_only db db' \<Longrightarrow> R db db'"
  by (rule same) (simp add: aside_onlyD)

lemma recovery_related:
  assumes "commit_recovery_batch u cid v st es cs attempt note outcome t w f now db = Inr db'"
  shows "R db db'"
  using assms
proof (rule recovery_cases)
  fix row db1 db2
  assume "commit_batch cid v st es cs None None now (Some w) (Some f) db = Inr db1"
    "persist_cancelled u cid (ag_state row) st es (st_answers st) db1 = Inr db2" "aside_only db2 db'"
  then show ?thesis
    by (intro transitive [OF commit_batch_related transitive [OF tables_related [OF persist_cancelled_tables] aside_related]])
qed

lemma rotation_related:
  assumes "commit_session_rotation cid v native launch w f now db = Inr db'
    \<or> commit_rotation_requires_recreation cid v w f utc now db = Inr db'"
  shows "R db db'"
  using assms by (rule rotation_cases) (rule stored, auto simp: put_aggregate_def)

lemma save_snapshot_related:
  assumes "save_snapshot st db = Inr db'"
  shows "R db db'"
proof (cases "dict_get (db_aggregates db) (conv_id (st_conversation st))")
  case None
  with assms show ?thesis
    by (intro created [OF None]) (auto simp: save_snapshot_def Let_def put_aggregate_def)
next
  case (Some row)
  with assms consider "db' = db"
    | "db_aggregates db' = dict_put (db_aggregates db) (conv_id (st_conversation st)) (store_aggregate row st)"
    by (auto simp: save_snapshot_def Let_def put_aggregate_def split: if_splits)
  then show ?thesis by cases (auto intro: reflexive stored [OF Some])
qed

lemma release_lease_related:
  assumes "release_conversation_lease cid w f now db = Inr db'"
  shows "R db db'"
proof -
  from assms obtain row where row: "dict_get (db_aggregates db) cid = Some row"
    and db': "db' = put_aggregate db cid (row\<lparr>ag_worker_id := None, ag_lease_expires_at := None\<rparr>)"
    by (auto simp: release_conversation_lease_def result_simps split: option.splits)
  show ?thesis
    by (rule owned [OF row, where f = "ag_fence row" and w = None and l = None])
      (simp_all add: db' put_aggregate_def)
qed

lemma store_op_related:
  assumes "apply_store_op now op db = Inr db'"
  shows "R db db'"
proof (cases op)
  case (ClaimExpired u w limit dur g)
  with assms show ?thesis
    by (auto simp: claim_expired_conversations_def map_sum_def split: sum.splits dest!: take_over_related)
next
  case (AcceptCommand c)
  with assms show ?thesis
    by (auto simp: accept_command_def map_sum_def reflexive put_command_related split: option.splits if_splits)
next
  case (RenewCommandLease i w dur f)
  with assms show ?thesis
    by (auto simp: renew_command_lease_def result_simps put_command_related split: option.splits if_splits)
next
  case (UpdateCommand c w f)
  with assms show ?thesis
    by (auto simp: update_command_def result_simps map_sum_def Let_def put_command_related
        split: option.splits if_splits sum.splits)
next
  case (CommitHarnessSwitch cid v st es c p l w f)
  with assms show ?thesis
    by (auto simp: commit_harness_switch_def result_simps
        intro: transitive [OF commit_batch_related settle_row_related])
next
  case (CommitRequest cid v st es i corr n w f)
  with assms show ?thesis
    by (auto simp: commit_interaction_request_def result_simps
        intro: transitive [OF commit_batch_related tables_related])
next
  case (CommitResolution g u rs)
  with assms show ?thesis by (auto simp: map_sum_def resolution_related split: sum.splits)
next
  case (ReleaseAnswer cid owner i c w f)
  with assms show ?thesis by (auto simp: map_sum_def release_related split: sum.splits)
next
  case (CompleteSuppressed i t)
  with assms show ?thesis
    by (auto simp: complete_suppressed_interaction_resolution_def map_sum_def reflexive
        intro!: tables_related split: option.splits if_splits sum.splits)
next
  case (CreateRule r)
  with assms show ?thesis by (auto simp: create_rule_def intro!: tables_related split: if_splits)
next
  case (ReplaceRule r)
  with assms show ?thesis by (auto simp: replace_rule_def intro!: tables_related split: option.splits if_splits)
next
  case (DeleteRule i p)
  with assms show ?thesis by (auto simp: delete_rule_def intro!: tables_related split: option.splits if_splits)
next
  case (CommitRecovery u c v st es cs attempt n outcome t w f)
  with assms show ?thesis by (simp add: recovery_related)
next
  case (CommitRotation c v native launch w f)
  with assms show ?thesis by (intro rotation_related [OF disjI1]) simp
next
  case (RequireRecreation c v w f utc)
  with assms show ?thesis by (intro rotation_related [OF disjI2]) simp
next
  case (UpdateAttempt i n w f)
  with assms show ?thesis by (auto intro: aside_related update_attempt_aside)
next
  case (CompleteAttempt i outcome reason t)
  with assms show ?thesis by (auto intro: aside_related complete_attempt_aside)
next
  case (AcquireWorkerLease slot w dur)
  with assms show ?thesis by (auto intro: aside_related worker_lease_aside)
next
  case (RenewWorkerLease slot w dur)
  with assms show ?thesis by (auto intro: aside_related worker_lease_aside)
next
  case (MarkWorkerDraining slot w)
  with assms show ?thesis by (auto intro: aside_related worker_lease_aside)
next
  case (ReleaseWorkerLease slot w)
  with assms show ?thesis by (auto intro: aside_related worker_lease_aside)
qed (use assms in \<open>auto simp: claim_commands_def intro: save_snapshot_related release_lease_related
  commit_batch_related commit_turn_batch_related facade_mutation_related claim_rows_related renewed\<close>)

end

lemma renew_owned_advances: "fences_advance db (snd (renew_owned_conversation_leases w dur now db))"
  by (auto simp: fences_advance_def renew_owned_conversation_leases_def map_of_map renew_row_def)

interpretation fencing: aggregate_relation fences_advance
proof unfold_locales
  show "fences_advance db db'" if "dict_get (db_aggregates db) cid = None"
    "db_aggregates db' = dict_put (db_aggregates db) cid (new_aggregate_row st)" for db db' cid st
    using that by (auto simp: fences_advance_def dict_get_put)
  show "fences_advance db db'" if row: "dict_get (db_aggregates db) cid = Some row" and "ag_fence row \<le> f"
    "f = ag_fence row \<Longrightarrow> w \<in> {ag_worker_id row, None}"
    "db_aggregates db' = dict_put (db_aggregates db) cid
        (row\<lparr>ag_worker_id := w, ag_fence := f, ag_lease_expires_at := l\<rparr>)" for db db' cid row f w l
    using that(2-) by (intro fences_advance_put [OF row]) auto
qed (auto intro: fences_advance_same fences_advance_trans store_aggregate_advances renew_owned_advances)

text \<open>The columns of an aggregate row follow its state.\<close>

definition row_follows_state :: "aggregate_row \<Rightarrow> bool" where
  "row_follows_state row \<longleftrightarrow> ag_next_event_sequence row = conv_next_event_sequence (st_conversation (ag_state row))
     \<and> ag_version row = conv_version (st_conversation (ag_state row))"

definition same_columns :: "aggregate_row \<Rightarrow> aggregate_row \<Rightarrow> bool" where
  "same_columns row' row \<longleftrightarrow> ag_state row' = ag_state row
     \<and> ag_next_event_sequence row' = ag_next_event_sequence row \<and> ag_version row' = ag_version row"

definition columns_kept :: "store \<Rightarrow> store \<Rightarrow> bool" where
  "columns_kept db db' \<longleftrightarrow> (\<forall>cid row'. dict_get (db_aggregates db') cid = Some row' \<longrightarrow>
     row_follows_state row'
     \<or> (\<exists>row. dict_get (db_aggregates db) cid = Some row \<and> same_columns row' row))"

interpretation columns: aggregate_relation columns_kept
proof unfold_locales
  show "columns_kept a c" if "columns_kept a b" "columns_kept b c" for a b c
    unfolding columns_kept_def
  proof (intro allI impI)
    fix cid row2
    assume "dict_get (db_aggregates c) cid = Some row2"
    with that(2) consider "row_follows_state row2"
      | row1 where "dict_get (db_aggregates b) cid = Some row1" "same_columns row2 row1"
      unfolding columns_kept_def by blast
    then show "row_follows_state row2 \<or> (\<exists>row. dict_get (db_aggregates a) cid = Some row \<and> same_columns row2 row)"
    proof cases
      case 2
      with that(1) have "row_follows_state row1
        \<or> (\<exists>row. dict_get (db_aggregates a) cid = Some row \<and> same_columns row1 row)"
        unfolding columns_kept_def by blast
      with 2(2) show ?thesis by (auto simp: same_columns_def row_follows_state_def)
    qed simp
  qed
  show "columns_kept db (snd (renew_owned_conversation_leases w dur now db))" for db w dur now
    by (auto simp: columns_kept_def same_columns_def renew_owned_conversation_leases_def map_of_map renew_row_def)
qed (auto simp: columns_kept_def same_columns_def row_follows_state_def dict_get_put new_aggregate_row_def store_aggregate_def)

definition columns_follow :: "store \<Rightarrow> bool" where
  "columns_follow db \<longleftrightarrow> (\<forall>cid row. dict_get (db_aggregates db) cid = Some row \<longrightarrow> row_follows_state row)"

lemma columns_kept_follow: "columns_follow db \<Longrightarrow> columns_kept db db' \<Longrightarrow> columns_follow db'"
  unfolding columns_follow_def columns_kept_def same_columns_def row_follows_state_def by fastforce

interpretation followed: invariant_system "\<lambda>db. db = empty_store" store_step columns_follow
proof unfold_locales
  show "columns_follow db" if "db = empty_store" for db
    using that by (simp add: columns_follow_def empty_store_def)
qed (auto simp: store_step_def intro: columns_kept_follow columns.store_op_related)

lemma row_columns_follow_state:
  "run store_step empty_store ls db \<Longrightarrow> dict_get (db_aggregates db) cid = Some row \<Longrightarrow> row_follows_state row"
  using followed.inv_reachable unfolding columns_follow_def by blast

interpretation ownership: permanence "\<lambda>db. db = empty_store" store_step "\<lambda>_. True" fences_advance
  by unfold_locales
    (auto simp: store_step_def intro: fences_advance_trans fencing.store_op_related)

lemma superseded_stale:
  "superseded w f row \<Longrightarrow> require_owner_on_row cid row now (Some w) (Some f) = Inl (stale_owner cid)"
  by (auto simp: require_owner_on_row_def superseded_def)

text \<open>C16: A worker that lost a conversation is fenced out for good: once the row shows another owner or none, or a
  higher fence, no later state of the store lets the old owner and fence commit an event batch, write a
  command, or release the conversation, even if the same worker owns it again under a new fence.\<close>

theorem superseded_owner_writes_nothing:
  assumes "run store_step db ls db'" and "dict_get (db_aggregates db) cid = Some row"
    and "ag_fence row > f \<or> (ag_fence row = f \<and> ag_worker_id row \<noteq> Some w)"
    and "cmd_conversation_id c = cid"
  shows "commit_batch cid v st es cs p l now (Some w) (Some f) db' = Inl (stale_owner cid)
    \<and> commit_turn_batch cid v st es cs now (Some w) (Some f) db' = Inl (stale_owner cid)
    \<and> update_command c now (Some w) (Some f) db' = Inl (stale_owner cid)
    \<and> release_conversation_lease cid w f now db' = Inl (stale_owner cid)"
proof -
  have "superseded w f row" using assms(3) by (simp add: superseded_def)
  moreover have "fences_advance db db'"
    by (rule ownership.kept_run [OF assms(1)]) simp
  ultimately obtain row' where "dict_get (db_aggregates db') cid = Some row'" "superseded w f row'"
    using superseded_advance assms(2) by blast
  then show ?thesis
    using assms(4) superseded_stale [of w f row' cid now]
    by (simp add: commit_batch_def commit_turn_batch_def update_command_def release_conversation_lease_def
        lock_aggregate_for_commit_def require_conversation_owner_def)
qed

end
