(* ===== verification/Retention.thy ===== *)
theory Retention
  imports Conversation_State
begin

text \<open>
  The rules of history retention (\<open>application/retention.py\<close>): the calendar cutoff of an owner's
  policy, and which conversations and turns it reaches. A datetime is here a UTC calendar date with the
  microsecond of its day, ordered as Python orders them; the comparisons with stored instants use the
  instant type of the other theories, the cutoff being an argument.
\<close>

section \<open>Calendar dates\<close>

datatype (plugins only: code size) civil =
  Civil (c_year: int) (c_month: int) (c_day: int) (c_micros: int)

definition civil_key :: "civil \<Rightarrow> int \<times> int \<times> int \<times> int" where
  "civil_key c = (c_year c, c_month c, c_day c, c_micros c)"

instantiation civil :: linorder
begin

definition less_eq_civil :: "civil \<Rightarrow> civil \<Rightarrow> bool" where
  "less_eq_civil a b \<longleftrightarrow> civil_key a \<le> civil_key b"

definition less_civil :: "civil \<Rightarrow> civil \<Rightarrow> bool" where
  "less_civil a b \<longleftrightarrow> civil_key a < civil_key b"

instance
proof
  fix a b c :: civil
  show "a < b \<longleftrightarrow> a \<le> b \<and> \<not> b \<le> a" unfolding less_eq_civil_def less_civil_def by auto
  show "a \<le> a" unfolding less_eq_civil_def by simp
  show "a \<le> b \<Longrightarrow> b \<le> c \<Longrightarrow> a \<le> c" unfolding less_eq_civil_def by (rule order_trans)
  show "a \<le> b \<or> b \<le> a" unfolding less_eq_civil_def by (rule linear)
  assume "a \<le> b" "b \<le> a"
  then have "civil_key a = civil_key b" unfolding less_eq_civil_def by (rule order_antisym)
  then show "a = b" by (simp add: civil_key_def civil.expand)
qed

end

definition leap_year :: "int \<Rightarrow> bool" where
  "leap_year y \<longleftrightarrow> y mod 4 = 0 \<and> (y mod 100 \<noteq> 0 \<or> y mod 400 = 0)"

text \<open>\<open>calendar.monthrange(year, month)[1]\<close>.\<close>

definition month_days :: "int \<Rightarrow> int \<Rightarrow> int" where
  "month_days y m = (if m = 2 then (if leap_year y then 29 else 28) else if m \<in> {4, 6, 9, 11} then 30 else 31)"

definition valid_civil :: "civil \<Rightarrow> bool" where
  "valid_civil c \<longleftrightarrow> 1 \<le> c_year c \<and> c_year c \<le> 9999 \<and> 1 \<le> c_month c \<and> c_month c \<le> 12
     \<and> 1 \<le> c_day c \<and> c_day c \<le> month_days (c_year c) (c_month c)
     \<and> 0 \<le> c_micros c \<and> c_micros c < 86400000000"

definition c_date :: "civil \<Rightarrow> int \<times> int \<times> int" where
  "c_date c = (c_year c, c_month c, c_day c)"

definition month_index :: "civil \<Rightarrow> int" where
  "month_index c = c_year c * 12 + (c_month c - 1)"

section \<open>The cutoff\<close>

definition DEFAULT_RETENTION_MONTHS :: int where
  "DEFAULT_RETENTION_MONTHS = 6"

text \<open>\<open>ts.replace\<close> raises when the year falls out of \<open>1..9999\<close>.\<close>

definition months_before :: "civil \<Rightarrow> int \<Rightarrow> civil result" where
  "months_before now months =
     (let total_months = c_year now * 12 + (c_month now - 1) - months;
          year = total_months div 12;
          month = total_months mod 12 + 1;
          day = min (c_day now) (month_days year month)
      in if year < 1 \<or> year > 9999 then Inl (ValueError ''year is out of range'')
         else Inr (Civil year month day (c_micros now)))"

definition six_months_before :: "civil \<Rightarrow> civil result" where
  "six_months_before now = months_before now DEFAULT_RETENTION_MONTHS"

section \<open>What a cutoff reaches\<close>

definition terminal_turn_statuses :: "turn_status set" where
  "terminal_turn_statuses = {TURN_COMPLETED, TURN_INTERRUPTED, TURN_FAILED, TURN_OUTCOME_UNKNOWN}"

definition soft_delete_purge_eligible :: "datetime option \<Rightarrow> datetime \<Rightarrow> bool" where
  "soft_delete_purge_eligible deleted_at cutoff \<longleftrightarrow>
     (case deleted_at of None \<Rightarrow> False | Some d \<Rightarrow> d \<le> cutoff)"

definition is_terminal_turn_expired :: "turn_status \<Rightarrow> datetime option \<Rightarrow> datetime \<Rightarrow> bool" where
  "is_terminal_turn_expired status completed_at cutoff \<longleftrightarrow>
     status \<in> terminal_turn_statuses \<and> (case completed_at of None \<Rightarrow> False | Some c \<Rightarrow> c \<le> cutoff)"

definition is_waiting_turn_expired :: "turn option \<Rightarrow> datetime \<Rightarrow> bool" where
  "is_waiting_turn_expired active cutoff \<longleftrightarrow>
     (case active of None \<Rightarrow> False
      | Some t \<Rightarrow> turn_status t = TURN_WAITING
          \<and> (case turn_started_at t of Some s \<Rightarrow> s | None \<Rightarrow> turn_created_at t) \<le> cutoff)"

record history_eligibility =
  he_blocked :: bool
  he_waiting_expired :: bool

definition classify_history_eligibility :: "conversation_state \<Rightarrow> datetime \<Rightarrow> history_eligibility" where
  "classify_history_eligibility st cutoff =
     (if conv_retention_exempt (st_conversation st) then \<lparr>he_blocked = True, he_waiting_expired = False\<rparr>
      else if st_binding st = None then \<lparr>he_blocked = True, he_waiting_expired = False\<rparr>
      else if list_ex (\<lambda>a. act_status a = ACT_RUNNING) (dict_values (st_activities st))
        then \<lparr>he_blocked = True, he_waiting_expired = False\<rparr>
      else
        let waiting_expired = is_waiting_turn_expired (st_active_turn st) cutoff in
        if st_active_turn st \<noteq> None \<and> \<not> waiting_expired
        then \<lparr>he_blocked = True, he_waiting_expired = False\<rparr>
        else \<lparr>he_blocked = False, he_waiting_expired = waiting_expired\<rparr>)"

section \<open>Facts about the cutoff\<close>

lemma month_days_range: "28 \<le> month_days y m \<and> month_days y m \<le> 31"
  by (simp add: month_days_def)

lemma month_index_split: "1 \<le> m \<Longrightarrow> m \<le> 12 \<Longrightarrow> (y * 12 + (m - 1)) div 12 = y \<and> (y * 12 + (m - 1)) mod 12 + 1 = m"
  for y m :: int
  by (simp add: div_mult_self3 mod_mult_self3)

lemma month_index_inj:
  assumes "valid_civil a" "valid_civil b" "month_index a = month_index b"
  shows "c_year a = c_year b \<and> c_month a = c_month b"
proof -
  have "month_index x div 12 = c_year x \<and> month_index x mod 12 + 1 = c_month x" if "valid_civil x" for x
    using that month_index_split [of "c_month x" "c_year x"] by (auto simp: month_index_def valid_civil_def)
  with assms show ?thesis by metis
qed

lemma date_le:
  assumes "valid_civil a" "valid_civil b" and "month_index a \<le> month_index b"
    and "month_index a = month_index b \<Longrightarrow> c_year a = c_year b \<Longrightarrow> c_month a = c_month b \<Longrightarrow> c_day a \<le> c_day b"
  shows "c_date a \<le> c_date b"
proof (cases "month_index a = month_index b")
  case True
  with month_index_inj [OF assms(1,2)] assms(4) show ?thesis by (simp add: c_date_def)
next
  case False
  with assms(1-3) have "c_year a < c_year b \<or> (c_year a = c_year b \<and> c_month a < c_month b)"
    by (auto simp: month_index_def valid_civil_def)
  then show ?thesis by (auto simp: c_date_def)
qed

lemma months_before_cases:
  "months_before now months =
     (let k = month_index now - months in
      if k div 12 < 1 \<or> k div 12 > 9999 then Inl (ValueError ''year is out of range'')
      else Inr (Civil (k div 12) (k mod 12 + 1) (min (c_day now) (month_days (k div 12) (k mod 12 + 1)))
        (c_micros now)))"
  by (simp add: months_before_def month_index_def Let_def)

lemma civil_le_iff:
  assumes "valid_civil a" and "valid_civil b"
  shows "a \<le> b \<longleftrightarrow> (month_index a, c_day a, c_micros a) \<le> (month_index b, c_day b, c_micros b)"
proof -
  have "c_year a < c_year b \<Longrightarrow> month_index a < month_index b"
    "c_year b < c_year a \<Longrightarrow> month_index b < month_index a"
    using assms by (auto simp: valid_civil_def month_index_def)
  then show ?thesis
    unfolding less_eq_civil_def civil_key_def
    by (cases "c_year a" "c_year b" rule: linorder_cases) (auto simp: month_index_def)
qed

lemma months_before_Inr:
  assumes "months_before now months = Inr c" and "valid_civil now"
  shows "valid_civil c" and "month_index c = month_index now - months"
    and "c_day c = min (c_day now) (month_days (c_year c) (c_month c))" and "c_micros c = c_micros now"
proof -
  let ?k = "month_index now - months"
  have c: "c = Civil (?k div 12) (?k mod 12 + 1) (min (c_day now) (month_days (?k div 12) (?k mod 12 + 1)))
      (c_micros now)" and y: "1 \<le> ?k div 12" "?k div 12 \<le> 9999"
    using assms(1) by (auto simp: months_before_cases Let_def split: if_splits)
  show "valid_civil c"
    using c y assms(2) month_days_range [of "?k div 12" "?k mod 12 + 1"] pos_mod_bound [of 12 ?k]
    by (auto simp: valid_civil_def)
  have "?k div 12 * 12 + ?k mod 12 = ?k" by (rule div_mult_mod_eq)
  then show "month_index c = ?k" by (simp add: c month_index_def)
qed (use assms in \<open>auto simp: months_before_cases Let_def split: if_splits\<close>)

text \<open>C32: The retention cutoff of a policy of 1 to 120 months exists for every date from the year 11 on and is a
  valid date: it lies exactly that many calendar months before, keeps the time of day and the day of the
  month unless the earlier month is too short, where it is its last day; it is before the date itself; the
  cutoff of a later instant never falls on an earlier day (on the same day it may be earlier, when both days
  were cut to the end of the month), and a longer policy never has a later cutoff.\<close>

theorem cutoff_shifts_calendar_months:
  assumes "valid_civil now" and "1 \<le> months" and "months \<le> 120" and "11 \<le> c_year now"
  shows "\<exists>c. months_before now months = Inr c \<and> valid_civil c \<and> c < now
    \<and> month_index c = month_index now - months
    \<and> c_day c = min (c_day now) (month_days (c_year c) (c_month c)) \<and> c_micros c = c_micros now
    \<and> (\<forall>later c'. valid_civil later \<longrightarrow> now \<le> later \<longrightarrow> months_before later months = Inr c' \<longrightarrow> c_date c \<le> c_date c')
    \<and> (\<forall>m c'. months \<le> m \<longrightarrow> months_before now m = Inr c' \<longrightarrow> c' \<le> c)"
proof -
  let ?k = "month_index now - months"
  have "12 \<le> ?k" "?k < 120000"
    using assms by (auto simp: month_index_def valid_civil_def)
  then have "1 \<le> ?k div 12" "?k div 12 \<le> 9999" by linarith+
  then obtain c where c: "months_before now months = Inr c"
    by (simp add: months_before_cases Let_def)
  note facts = months_before_Inr [OF c assms(1)]
  have "\<not> now \<le> c"
    using civil_le_iff [OF assms(1) facts(1)] facts(2) assms(2) by simp
  then have "c < now" by simp
  moreover have "c_date c \<le> c_date c'"
    if later: "valid_civil later" "now \<le> later" "months_before later months = Inr c'" for later c'
  proof -
    note facts' = months_before_Inr [OF later(3,1)]
    have "month_index now \<le> month_index later" "month_index now = month_index later \<longrightarrow> c_day now \<le> c_day later"
      using later(2) unfolding civil_le_iff [OF assms(1) later(1)] by auto
    then show ?thesis
      using facts(2,3) facts'(2,3) by (intro date_le [OF facts(1) facts'(1)]) auto
  qed
  moreover have "c' \<le> c" if longer: "months \<le> m" "months_before now m = Inr c'" for m c'
  proof -
    note facts' = months_before_Inr [OF longer(2) assms(1)]
    show ?thesis
    proof (cases "m = months")
      case True
      with longer(2) c show ?thesis by simp
    next
      case False
      with longer(1) facts(2) facts'(2) show ?thesis
        by (subst civil_le_iff [OF facts'(1) facts(1)]) simp
    qed
  qed
  ultimately show ?thesis using c facts by blast
qed

text \<open>Six months before 31 August 2024 is 29 February.\<close>

theorem cutoff_shifts_calendar_months_witness:
  "months_before (Civil 2024 8 31 500) 6 = Inr (Civil 2024 2 29 500) \<and> Civil 2024 2 29 500 < Civil 2024 8 31 500"
proof -
  have "valid_civil (Civil 2024 8 31 500)" by code_simp
  then obtain c where "months_before (Civil 2024 8 31 500) 6 = Inr c" "c < Civil 2024 8 31 500"
    using cutoff_shifts_calendar_months [of "Civil 2024 8 31 500" 6] by auto
  moreover have "months_before (Civil 2024 8 31 500) 6 = Inr (Civil 2024 2 29 500)" by code_simp
  ultimately show ?thesis by simp
qed

end
