(* ===== verification/History_Pruning.thy ===== *)
theory History_Pruning
  imports Durable_Store_Properties Retention Conversation_Scripts "HOL-Library.Sublist"
begin

text \<open>
  Pruning the expired history of a conversation (\<open>_prune_expired_history\<close> and \<open>_delete_turn_history\<close>
  of \<open>django/persistence.py\<close>), on the store and the transitions of the other theories. The turn and
  interaction tables are read models the store leaves out; what the two queries over them return is an
  argument. The handoff of the result is a read of those tables and is left out too.
\<close>

section \<open>Dropping turns\<close>

definition drop_turn_history :: "uuid set \<Rightarrow> uuid set \<Rightarrow> conversation_state \<Rightarrow> conversation_state" where
  "drop_turn_history expired interaction_rows st =
     (let removed = interaction_rows \<union> inter_id ` set (filter (\<lambda>x. inter_turn_id x \<in> expired)
            (dict_values (st_interactions st)))
      in st\<lparr>
        st_commands := filter (\<lambda>(i, c). cmd_target_turn_id c \<notin> Some ` expired) (st_commands st),
        st_interactions := filter (\<lambda>(i, x). i \<notin> removed) (st_interactions st),
        st_answers := filter (\<lambda>(i, a). i \<notin> removed) (st_answers st),
        st_activities := filter (\<lambda>(i, a). act_parent_turn_id a \<notin> expired) (st_activities st)\<rparr>)"

text \<open>The command rows the same function deletes.\<close>

definition drop_turn_commands :: "uuid \<Rightarrow> uuid set \<Rightarrow> store \<Rightarrow> store" where
  "drop_turn_commands cid expired db = db\<lparr>db_commands := filter (\<lambda>(i, row).
     \<not> (cr_conversation_id row = cid \<and> cmd_target_turn_id (cr_command row) \<in> Some ` expired)) (db_commands db)\<rparr>"

definition drop_turn_events :: "uuid \<Rightarrow> uuid set \<Rightarrow> store \<Rightarrow> store" where
  "drop_turn_events cid expired db = db\<lparr>db_events := filter (\<lambda>r.
     \<not> (ev_conversation_id (er_event r) = cid \<and> er_turn_id r \<in> Some ` expired)) (db_events db)\<rparr>"

section \<open>The transaction\<close>

record prune_result =
  prr_version :: int
  prr_events :: "conversation_event list"
  prr_pruned_turns :: nat
  prr_cancelled_waiting :: nat

text \<open>The expired turns: the terminal ones of the query, and the active one that waited too long.\<close>

definition expired_turns :: "uuid list \<Rightarrow> conversation_state \<Rightarrow> datetime \<Rightarrow> uuid set" where
  "expired_turns terminal_rows st cutoff = set terminal_rows \<union>
     (if he_waiting_expired (classify_history_eligibility st cutoff)
      then set_option (map_option turn_id (st_active_turn st)) else {})"

text \<open>A waiting turn is cancelled first, then its history and that of the others goes, then the session rotates.\<close>

definition prune_state ::
  "uuid_supply \<Rightarrow> datetime \<Rightarrow> bool \<Rightarrow> uuid set \<Rightarrow> uuid set \<Rightarrow> conversation_state
     \<Rightarrow> exn + (conversation_state \<times> conversation_event list)" where
  "prune_state u now waiting_expired expired interaction_rows st =
     bind_result
       (if waiting_expired
        then bind_result (interrupt_turn u st now (Some ''retention'')) (\<lambda>r. Inr (tr_state r, tr_events r))
        else Inr (st, [])) (\<lambda>(st1, es1).
     bind_result (rotate_session (drop_supply (length es1) u) (drop_turn_history expired interaction_rows st1)
         now None) (\<lambda>r.
     Inr (tr_state r, es1 @ tr_events r)))"

definition prune_expired_history ::
  "uuid_supply \<Rightarrow> uuid \<Rightarrow> datetime \<Rightarrow> datetime \<Rightarrow> uuid list \<Rightarrow> uuid set \<Rightarrow> prune_result option transaction" where
  "prune_expired_history u cid cutoff now terminal_rows interaction_rows db =
     (case dict_get (db_aggregates db) cid of
        None \<Rightarrow> Inr (None, db)
      | Some row \<Rightarrow>
          let st = ag_state row;
              eligibility = classify_history_eligibility st cutoff;
              expired = expired_turns terminal_rows st cutoff
          in if he_blocked eligibility then Inr (None, db)
             else if expired = {} then Inr (None, db)
             else bind_result (prune_state u now (he_waiting_expired eligibility) expired interaction_rows st) (\<lambda>(st', es).
               bind_result (insert_events (interaction_turns st') es
                   (put_aggregate (drop_turn_commands cid expired db) cid (store_aggregate row st'))) (\<lambda>db1.
               Inr (Some \<lparr>prr_version = conv_version (st_conversation st'), prr_events = es,
                      prr_pruned_turns = card expired,
                      prr_cancelled_waiting = (if he_waiting_expired eligibility then 1 else 0)\<rparr>,
                    drop_turn_events cid expired db1))))"

section \<open>Pruning keeps the aggregate well-formed\<close>

lemma map_of_filter_fst: "distinct (map fst d) \<Longrightarrow> map_of (filter P d) k = (case map_of d k of None \<Rightarrow> None
    | Some v \<Rightarrow> if P (k, v) then Some v else None)"
proof (induction d)
  case (Cons p d)
  obtain k' v where p: "p = (k', v)" by fastforce
  have "k' \<notin> fst ` set d" using Cons.prems p by simp
  then have "map_of (filter P d) k' = None" "map_of d k' = None"
    by (auto simp: map_of_eq_None_iff)
  with Cons p show ?case by auto
qed simp

lemma map_of_filter_key: "map_of (filter (\<lambda>(i, x). P i) d) k = (if P k then map_of d k else None)"
  by (induction d) auto

lemma keyed_filter:
  "distinct (map fst d) \<Longrightarrow> (\<forall>k v. map_of d k = Some v \<longrightarrow> f v = k) \<Longrightarrow>
     (\<forall>k v. map_of (filter P d) k = Some v \<longrightarrow> f v = k)"
  by (auto simp: map_of_filter_fst split: option.splits if_splits)

lemma distinct_filter: "distinct (map fst d) \<Longrightarrow> distinct (map fst (filter P d))"
  by (induction d) auto

lemma drop_keeps_wf:
  assumes wf: "wf_state st" and idle: "st_active_turn st = None" and quiet: "running_activities st = []"
  shows "wf_state (drop_turn_history expired rows st)"
proof -
  let ?s = "drop_turn_history expired rows st"
  define removed where "removed = rows \<union> inter_id ` set (filter (\<lambda>x. inter_turn_id x \<in> expired)
            (dict_values (st_interactions st)))"
  have fields: "st_commands ?s = filter (\<lambda>(i, c). cmd_target_turn_id c \<notin> Some ` expired) (st_commands st)"
    "st_interactions ?s = filter (\<lambda>(i, x). i \<notin> removed) (st_interactions st)"
    "st_answers ?s = filter (\<lambda>(i, a). i \<notin> removed) (st_answers st)"
    "st_activities ?s = filter (\<lambda>(i, a). act_parent_turn_id a \<notin> expired) (st_activities st)"
    "st_conversation ?s = st_conversation st" "st_binding ?s = st_binding st"
    "st_active_turn ?s = st_active_turn st" "st_queued_turn ?s = st_queued_turn st"
    "st_queued_user_text ?s = st_queued_user_text st" "st_idle_reap_eligible ?s = st_idle_reap_eligible st"
    by (simp_all add: drop_turn_history_def Let_def removed_def)
  have tables: "wf_tables st" and cmds: "wf_commands (st_commands st)" and inter: "wf_interactions st"
    using wf by (auto simp: wf_state_def)
  have "wf_tables ?s"
    using tables unfolding wf_tables_def fields commands.keyed_def interactions.keyed_def answers.keyed_def
      activities.keyed_def
    by (intro conjI keyed_filter distinct_filter) simp_all
  moreover have "wf_commands (st_commands ?s)"
    using cmds tables unfolding wf_commands_def fields wf_tables_def
    by (fastforce simp: map_of_filter_fst split: option.splits if_splits)
  moreover have "wf_turns ?s"
    using wf by (simp add: wf_state_def wf_turns_def fields)
  moreover have "wf_interactions ?s"
    using inter idle unfolding wf_interactions_def answered_def fields map_of_filter_key
    by (simp del: map_of_eq_Some_iff)
  moreover have "wf_binding ?s"
    using wf by (simp add: wf_state_def wf_binding_def fields)
  moreover have "running_activities ?s = []"
    using quiet by (auto simp: running_activities_def fields filter_empty_conv)
  then have "status_consistent ?s"
    using wf idle quiet by (simp add: wf_state_def status_consistent_def derived_status_def fields)
  ultimately show ?thesis
    using wf by (simp add: wf_state_def fields)
qed

lemma not_blocked:
  assumes "\<not> he_blocked (classify_history_eligibility st cutoff)"
  shows "st_binding st \<noteq> None" and "running_activities st = []"
    and "he_waiting_expired (classify_history_eligibility st cutoff) = is_waiting_turn_expired (st_active_turn st) cutoff"
    and "st_active_turn st \<noteq> None \<Longrightarrow> is_waiting_turn_expired (st_active_turn st) cutoff"
  using assms
  by (auto simp: classify_history_eligibility_def running_activities_def Let_def list_ex_iff filter_empty_conv
      split: if_splits)

lemma end_active_turn_frame:
  assumes "wf_state st"
  shows "st_binding (tr_state (end_active_turn u st now f terminal)) = st_binding st"
    and "st_activities (tr_state (end_active_turn u st now f terminal)) = st_activities st"
  using sound_cancel_open_interactions [OF assms, of u now]
  by (simp_all add: end_active_turn_def case_prod_unfold Let_def result_of_def cancels_only_def split: option.split)

text \<open>The state and the events of a prune: a sound end of the waiting turn, if any, and the rotation.\<close>

lemma prune_state_sound:
  assumes wf: "wf_state st" and idle: "\<not> he_blocked (classify_history_eligibility st cutoff)"
  shows "\<exists>st' es. prune_state u now (he_waiting_expired (classify_history_eligibility st cutoff)) expired rows st
      = Inr (st', es) \<and> wf_state st' \<and> numbered st es st' \<and> st_active_turn st' = None
      \<and> (\<exists>b. st_binding st' = Some b \<and> bind_native_session_id b = None \<and> bind_requires_session_recreation b)"
proof -
  note facts = not_blocked [OF idle]
  obtain st1 es1 where first: "(if he_waiting_expired (classify_history_eligibility st cutoff)
        then bind_result (interrupt_turn u st now (Some ''retention'')) (\<lambda>r. Inr (tr_state r, tr_events r))
        else Inr (st, [])) = Inr (st1, es1)" and wf1: "wf_state st1" and num1: "numbered st es1 st1"
    and none: "st_active_turn st1 = None" and same: "st_binding st1 = st_binding st" "running_activities st1 = []"
  proof (cases "st_active_turn st")
    case None
    with facts(2,3) wf show ?thesis
      by (intro that [of st "[]"]) (simp_all add: is_waiting_turn_expired_def numbered_def)
  next
    case (Some t)
    define r where "r = end_active_turn u st now (settle_command now) (\<lambda>turn. TurnInterrupted (turn_id turn) (Some ''retention''))"
    have "turn_status t = TURN_WAITING" and waiting: "he_waiting_expired (classify_history_eligibility st cutoff)"
      using facts(3,4) Some by (auto simp: is_waiting_turn_expired_def)
    then have r: "interrupt_turn u st now (Some ''retention'') = Inr r"
      using Some by (simp add: interrupt_turn_def r_def)
    then have sound: "sound_step st (tr_events r) (tr_state r)"
      using sound_turn_end [OF wf] by blast
    have "st_active_turn (tr_state r) = None"
      unfolding r_def by (rule end_active_turn_effect(2) [OF wf Some]) simp
    moreover have "st_binding (tr_state r) = st_binding st" "running_activities (tr_state r) = []"
      using end_active_turn_frame [OF wf] facts(2) unfolding r_def running_activities_def by simp_all
    ultimately show ?thesis
      using waiting r sound by (intro that [of "tr_state r" "tr_events r"]) (simp_all add: sound_step_def)
  qed
  let ?d = "drop_turn_history expired rows st1"
  have d: "wf_state ?d" by (rule drop_keeps_wf [OF wf1 none same(2)])
  have frame: "st_binding ?d = st_binding st1" "st_active_turn ?d = st_active_turn st1"
    "st_conversation ?d = st_conversation st1"
    by (simp_all add: drop_turn_history_def Let_def)
  obtain b where b: "st_binding st = Some b" using facts(1) by blast
  then obtain r where r: "rotate_session (drop_supply (length es1) u) ?d now None = Inr r"
    and bound: "st_binding (tr_state r) = Some (b\<lparr>bind_native_session_id := None, bind_requires_session_recreation := True\<rparr>)"
    and active: "st_active_turn (tr_state r) = None"
    using none same frame by (simp add: rotate_session_def emit_event_def result_of_def Let_def)
  have sound: "sound_step ?d (tr_events r) (tr_state r)"
    using sound_session [OF d] r by blast
  have "numbered st1 (tr_events r) (tr_state r)"
    using sound frame by (simp add: sound_step_def numbered_def)
  then have "numbered st (es1 @ tr_events r) (tr_state r)" by (rule numbered_trans [OF num1])
  with first r sound bound active show ?thesis
    by (simp add: prune_state_def sound_step_def)
qed

section \<open>The log under pruning\<close>

text \<open>
  The stored rows are states of the conversation machine: the aggregate of a row is well-formed and the
  columns agree with it.
\<close>

definition wf_row :: "uuid \<Rightarrow> aggregate_row \<Rightarrow> bool" where
  "wf_row cid row \<longleftrightarrow> wf_state (ag_state row) \<and> conv_id (st_conversation (ag_state row)) = cid
     \<and> ag_next_event_sequence row = conv_next_event_sequence (st_conversation (ag_state row))"

lemma prune_parts:
  assumes prune: "prune_expired_history u cid cutoff now trows irows db = Inr (res, db')"
    and row: "dict_get (db_aggregates db) cid = Some row" and wf: "wf_row cid row"
  obtains "db' = db" "res = None"
  | pr st' es db1 where "res = Some pr" "prr_events pr = es" "\<not> he_blocked (classify_history_eligibility (ag_state row) cutoff)"
      "wf_state st'" "numbered (ag_state row) es st'" "st_active_turn st' = None"
      "\<exists>b. st_binding st' = Some b \<and> bind_native_session_id b = None \<and> bind_requires_session_recreation b"
      "insert_events (interaction_turns st') es (put_aggregate
         (drop_turn_commands cid (expired_turns trows (ag_state row) cutoff) db) cid (store_aggregate row st')) = Inr db1"
      "db' = drop_turn_events cid (expired_turns trows (ag_state row) cutoff) db1"
proof (cases "he_blocked (classify_history_eligibility (ag_state row) cutoff)
    \<or> expired_turns trows (ag_state row) cutoff = {}")
  case True
  with prune row have "db' = db" "res = None"
    by (simp_all add: prune_expired_history_def Let_def split: if_splits)
  then show ?thesis by (rule that(1))
next
  case False
  let ?x = "expired_turns trows (ag_state row) cutoff"
  have st: "wf_state (ag_state row)" using wf by (simp add: wf_row_def)
  obtain st' es where s: "prune_state u now (he_waiting_expired (classify_history_eligibility (ag_state row) cutoff))
      ?x irows (ag_state row) = Inr (st', es)" and facts: "wf_state st'" "numbered (ag_state row) es st'"
    "st_active_turn st' = None"
    "\<exists>b. st_binding st' = Some b \<and> bind_native_session_id b = None \<and> bind_requires_session_recreation b"
    using prune_state_sound [OF st, of cutoff] False by blast
  from prune row False s obtain db1 where i: "insert_events (interaction_turns st') es
      (put_aggregate (drop_turn_commands cid ?x db) cid (store_aggregate row st')) = Inr db1"
    and db': "db' = drop_turn_events cid ?x db1" and res: "res = Some \<lparr>prr_version = conv_version (st_conversation st'),
      prr_events = es, prr_pruned_turns = card ?x, prr_cancelled_waiting =
      (if he_waiting_expired (classify_history_eligibility (ag_state row) cutoff) then 1 else 0)\<rparr>"
    by (auto simp: prune_expired_history_def Let_def result_simps)
  show ?thesis
    by (rule that(2) [OF res _ _ facts i db']) (use False in simp_all)
qed

lemma insert_events_rows:
  "insert_events m es db = Inr db' \<Longrightarrow> db_events db' = db_events db
     @ map (\<lambda>e. \<lparr>er_event = e, er_turn_id = event_turn_id e (Some m)\<rparr>) es"
  by (induction es arbitrary: db) (auto split: if_splits)

text \<open>What a prune does to the log of any conversation: its own events are numbered like every commit's.\<close>

lemma prune_log:
  assumes prune: "prune_expired_history u cid cutoff now trows irows db = Inr (res, db')"
    and row: "dict_get (db_aggregates db) cid = Some row" and wf: "wf_row cid row"
  shows "\<exists>es. subseq (events_of c db') (events_of c db @ es)
    \<and> map ev_sequence es = [next_number c db..next_number c db' - 1] \<and> next_number c db \<le> next_number c db'"
  using prune row wf
proof (cases rule: prune_parts)
  case 1
  then show ?thesis by (intro exI [of _ "[]"]) simp
next
  case (2 pr st' es db1)
  let ?x = "expired_turns trows (ag_state row) cutoff"
  have log1: "map er_event (db_events db1) = map er_event (db_events db) @ es"
    and rows1: "db_aggregates db1 = dict_put (db_aggregates db) cid (store_aggregate row st')"
    using insert_events_effect [OF 2(8)] by (simp_all add: put_aggregate_def drop_turn_commands_def)
  have numbers: "map ev_sequence es = [next_number cid db..next_number cid db' - 1]"
      "next_number cid db \<le> next_number cid db'" "\<forall>e \<in> set es. ev_conversation_id e = cid"
    using 2(5,9) wf row rows1
    by (auto simp: numbered_def next_number_def wf_row_def drop_turn_events_def dict_get_put store_aggregate_def)
  have kept: "subseq (events_of c db') (events_of c db1)"
  proof -
    have "subseq (db_events db') (db_events db1)"
      unfolding 2(9) drop_turn_events_def by simp
    then show ?thesis unfolding events_of_def by (intro subseq_filter subseq_map)
  qed
  show ?thesis
  proof (cases "c = cid")
    case True
    with numbers kept log1 show ?thesis
      by (intro exI [of _ es]) (simp add: events_of_def filter_id_conv)
  next
    case False
    with numbers(3) have "filter (\<lambda>e. ev_conversation_id e = c) es = []"
      by (auto simp: filter_empty_conv)
    with False kept log1 rows1 2(9) show ?thesis
      by (intro exI [of _ "[]"]) (simp add: events_of_def next_number_def dict_get_put drop_turn_events_def)
  qed
qed

section \<open>The log with retention at work\<close>

inductive history_step :: "store \<Rightarrow> unit \<Rightarrow> store \<Rightarrow> bool" where
  history_store: "store_step db l db' \<Longrightarrow> history_step db () db'"
| history_prune: "prune_expired_history u cid cutoff now trows irows db = Inr (res, db') \<Longrightarrow>
    dict_get (db_aggregates db) cid = Some row \<Longrightarrow> wf_row cid row \<Longrightarrow> history_step db () db'"

inductive_cases history_step_elim: "history_step db l db'"

lemma history_of_store: "run store_step db ls db' \<Longrightarrow> run history_step db (map (\<lambda>_. ()) ls) db'"
  by (induction rule: run.induct) (auto intro: run.intros history_store)

definition log_ordered :: "store \<Rightarrow> bool" where
  "log_ordered db \<longleftrightarrow> (\<forall>cid. sorted_wrt (<) (map ev_sequence (events_of cid db))
     \<and> (\<forall>e \<in> set (events_of cid db). 1 \<le> ev_sequence e \<and> ev_sequence e < next_number cid db)
     \<and> 1 \<le> next_number cid db)"

lemma set_subseq: "subseq xs ys \<Longrightarrow> set xs \<subseteq> set ys"
  by (induction rule: list_emb.induct) auto

lemma sorted_wrt_subseq: "subseq xs ys \<Longrightarrow> sorted_wrt R ys \<Longrightarrow> sorted_wrt R xs"
  by (induction rule: list_emb.induct) (auto dest: set_subseq)

lemma log_ordered_extend:
  assumes "log_ordered db"
    and "\<And>cid. \<exists>es. subseq (events_of cid db') (events_of cid db @ es)
      \<and> map ev_sequence es = [next_number cid db..next_number cid db' - 1] \<and> next_number cid db \<le> next_number cid db'"
  shows "log_ordered db'"
  unfolding log_ordered_def
proof
  fix cid
  from assms(2) obtain es where sub: "subseq (events_of cid db') (events_of cid db @ es)"
    and numbers: "map ev_sequence es = [next_number cid db..next_number cid db' - 1]"
    and grow: "next_number cid db \<le> next_number cid db'" by blast
  have old: "sorted_wrt (<) (map ev_sequence (events_of cid db))"
    "\<forall>e \<in> set (events_of cid db). 1 \<le> ev_sequence e \<and> ev_sequence e < next_number cid db" "1 \<le> next_number cid db"
    using assms(1) by (auto simp: log_ordered_def)
  have new: "next_number cid db \<le> ev_sequence e \<and> ev_sequence e < next_number cid db'" if "e \<in> set es" for e
    using that arg_cong [OF numbers, of set] by (auto simp: set_eq_iff)
  have all: "1 \<le> ev_sequence e \<and> ev_sequence e < next_number cid db'" if "e \<in> set (events_of cid db @ es)" for e
    using that old(2,3) new [of e] grow by fastforce
  have "sorted_wrt (<) (map ev_sequence (events_of cid db @ es))"
    using old(1,2) new unfolding map_append numbers sorted_wrt_append
    by (fastforce simp: sorted_wrt_upto)
  then have "sorted_wrt (<) (map ev_sequence (events_of cid db'))"
    by (rule sorted_wrt_subseq [OF subseq_map [OF sub]])
  with all set_subseq [OF sub] old(3) grow
  show "sorted_wrt (<) (map ev_sequence (events_of cid db'))
      \<and> (\<forall>e \<in> set (events_of cid db'). 1 \<le> ev_sequence e \<and> ev_sequence e < next_number cid db')
      \<and> 1 \<le> next_number cid db'"
    by fastforce
qed

lemma history_step_ordered: "log_ordered db \<Longrightarrow> history_step db l db' \<Longrightarrow> log_ordered db'"
proof (erule history_step_elim)
  fix l'
  assume ordered: "log_ordered db" and "store_step db l' db'"
  then have "log_grows cid db db'" for cid
    unfolding store_step_def by (elim conjE) (rule store_op_log)
  then show "log_ordered db'"
    unfolding log_grows_def by (intro log_ordered_extend [OF ordered]) (metis subseq_order.order_refl)
next
  fix u cid cutoff now trows irows res row
  assume "log_ordered db" and prune: "prune_expired_history u cid cutoff now trows irows db = Inr (res, db')"
    and row: "dict_get (db_aggregates db) cid = Some row" "wf_row cid row"
  show "log_ordered db'"
    by (rule log_ordered_extend [OF \<open>log_ordered db\<close>]) (rule prune_log [OF prune row])
qed

lemma log_ordered_empty: "log_ordered empty_store"
  by (simp add: log_ordered_def empty_store_def events_of_def next_number_def)

interpretation history: invariant_system "\<lambda>db. db = empty_store" history_step log_ordered
  by unfold_locales (auto intro: log_ordered_empty history_step_ordered)


section \<open>A waiting conversation that expires\<close>

definition demo_waiting_bound :: conversation_state where
  "demo_waiting_bound = script_state demo_opening demo_bound"

definition demo_prune_store :: store where
  "demo_prune_store = empty_store\<lparr>db_aggregates := [(Uuid 1, new_aggregate_row demo_waiting_bound)]\<rparr>"

definition demo_prune_ids :: uuid_supply where
  "demo_prune_ids n = (if n = 0 then Uuid 101 else if n = 1 then Uuid 102 else Uuid 103)"

definition demo_prune :: "exn + (prune_result option \<times> store)" where
  "demo_prune = prune_expired_history demo_prune_ids (Uuid 1) 500 600 [] {} demo_prune_store"


end
