(* ===== verification/Utf8.thy ===== *)
theory Utf8
  imports Prelude
begin

text \<open>
  Strict UTF-8 as \<open>str.encode("utf-8")\<close> and \<open>bytes.decode("utf-8")\<close> implement it, and the tail
  of tool output that is cut at a UTF-8 boundary (\<open>limit_tool_output_tail\<close> of
  \<open>tth-types/src/tth_types/harness.py\<close>). Here a text is a list of code points and bytes are
  natural numbers below 256. The lemmas show that decoding inverts encoding, that no text starts
  with a continuation byte, and hence where the cut of the tail ends up.
\<close>

type_synonym code_point = nat
type_synonym byte = nat

text \<open>A code point that can be encoded: surrogates make \<open>encode\<close> raise.\<close>

definition scalar_value :: "code_point \<Rightarrow> bool" where
  "scalar_value c \<longleftrightarrow> c < 1114112 \<and> \<not> (55296 \<le> c \<and> c < 57344)"

definition utf8_char :: "code_point \<Rightarrow> byte list" where
  "utf8_char c =
     (if c < 128 then [c]
      else if c < 2048 then [192 + c div 64, 128 + c mod 64]
      else if c < 65536 then [224 + c div 4096, 128 + c div 64 mod 64, 128 + c mod 64]
      else [240 + c div 262144, 128 + c div 4096 mod 64, 128 + c div 64 mod 64, 128 + c mod 64])"

definition utf8_encode :: "code_point list \<Rightarrow> byte list" where
  "utf8_encode s = concat (map utf8_char s)"

definition continuation :: "byte \<Rightarrow> bool" where
  "continuation b \<longleftrightarrow> 128 \<le> b \<and> b < 192"

text \<open>
  One character from the front of the bytes: \<open>None\<close> where \<open>decode\<close> raises (stray continuation
  byte, truncated or overlong sequence, surrogate, code point out of range).
\<close>

fun utf8_next :: "byte list \<Rightarrow> (code_point \<times> byte list) option" where
  "utf8_next [] = None"
| "utf8_next (b # bs) =
     (if b < 128 then Some (b, bs)
      else if b < 192 then None
      else if b < 224 then
        (case bs of
           c1 # r \<Rightarrow>
             (let v = (b - 192) * 64 + (c1 - 128)
              in if continuation c1 \<and> 128 \<le> v then Some (v, r) else None)
         | _ \<Rightarrow> None)
      else if b < 240 then
        (case bs of
           c1 # c2 # r \<Rightarrow>
             (let v = (b - 224) * 4096 + (c1 - 128) * 64 + (c2 - 128)
              in if continuation c1 \<and> continuation c2 \<and> 2048 \<le> v \<and> scalar_value v
                 then Some (v, r) else None)
         | _ \<Rightarrow> None)
      else if b < 245 then
        (case bs of
           c1 # c2 # c3 # r \<Rightarrow>
             (let v = (b - 240) * 262144 + (c1 - 128) * 4096 + (c2 - 128) * 64 + (c3 - 128)
              in if continuation c1 \<and> continuation c2 \<and> continuation c3
                    \<and> 65536 \<le> v \<and> scalar_value v
                 then Some (v, r) else None)
         | _ \<Rightarrow> None)
      else None)"

lemma utf8_next_shorter: "utf8_next bs = Some (c, r) \<Longrightarrow> length r < length bs"
  by (cases bs) (auto simp: Let_def split: if_splits list.splits)

function utf8_decode :: "byte list \<Rightarrow> code_point list option" where
  "utf8_decode bs =
     (if bs = [] then Some []
      else case utf8_next bs of
        None \<Rightarrow> None
      | Some (c, r) \<Rightarrow> map_option (Cons c) (utf8_decode r))"
  by pat_completeness auto
termination
  by (relation "measure length") (auto dest: utf8_next_shorter)

declare utf8_decode.simps [simp del]

section \<open>Decoding inverts encoding\<close>

lemma utf8_char_nonempty: "utf8_char c \<noteq> []"
  by (simp add: utf8_char_def)

lemma split_64: "(c::nat) div 64 * 64 + c mod 64 = c"
  by simp

lemma recombine_3: "c div 64 div 64 * 4096 + c div 64 mod 64 * 64 + c mod 64 = (c::nat)"
proof -
  have "c div 64 div 64 * 64 + c div 64 mod 64 = c div 64"
    and "c div 64 * 64 + c mod 64 = c"
    by (rule div_mult_mod_eq)+
  then show ?thesis by linarith
qed

lemma recombine_4:
  "c div 64 div 64 div 64 * 262144 + c div 64 div 64 mod 64 * 4096 + c div 64 mod 64 * 64 + c mod 64
     = (c::nat)"
proof -
  have "c div 64 div 64 div 64 * 64 + c div 64 div 64 mod 64 = c div 64 div 64"
    by (rule div_mult_mod_eq)
  then show ?thesis using recombine_3 [of c] by linarith
qed

lemma utf8_next_char:
  assumes "scalar_value c"
  shows "utf8_next (utf8_char c @ r) = Some (c, r)"
proof -
  have d: "c div 4096 = c div 64 div 64" "c div 262144 = c div 64 div 64 div 64"
    by (simp_all add: div_mult2_eq [symmetric])
  have small: "c div 64 < 32 \<longleftrightarrow> c < 2048" "c div 64 div 64 < 16 \<longleftrightarrow> c < 65536"
    "c div 64 div 64 div 64 < 5 \<longleftrightarrow> c < 1310720"
    by (simp_all add: div_less_iff_less_mult)
  have "c < 1310720"
    using assms by (simp add: scalar_value_def)
  then show ?thesis
    using assms
    by (simp add: utf8_char_def continuation_def Let_def d small recombine_3 recombine_4)
qed

lemma utf8_decode_encode: "list_all scalar_value s \<Longrightarrow> utf8_decode (utf8_encode s) = Some s"
proof (induction s)
  case Nil
  show ?case by (simp add: utf8_encode_def utf8_decode.simps)
next
  case (Cons c s)
  then show ?case
    by (subst utf8_decode.simps)
      (simp add: utf8_encode_def utf8_next_char utf8_char_nonempty)
qed

lemma utf8_decode_continuation: "continuation b \<Longrightarrow> utf8_decode (b # bs) = None"
  by (subst utf8_decode.simps) (simp add: continuation_def)

lemma utf8_char_tail_continuation: "list_all continuation (tl (utf8_char c))"
  by (auto simp: utf8_char_def continuation_def)

section \<open>The bounded tail\<close>

definition CANONICAL_TOOL_TAIL_BYTES :: nat where
  "CANONICAL_TOOL_TAIL_BYTES = 2048"

text \<open>\<open>while truncated: try decode \<dots> except: truncated = truncated[1:]\<close>, and \<open>""\<close> at the end.\<close>

fun decode_from_boundary :: "byte list \<Rightarrow> code_point list" where
  "decode_from_boundary [] = []"
| "decode_from_boundary (b # bs) =
     (case utf8_decode (b # bs) of
        Some text \<Rightarrow> text
      | None \<Rightarrow> decode_from_boundary bs)"

text \<open>\<open>None\<close> is the \<open>UnicodeEncodeError\<close> of a lone surrogate.\<close>

definition limit_tool_output_tail :: "code_point list \<Rightarrow> code_point list option" where
  "limit_tool_output_tail value =
     (if \<not> list_all scalar_value value then None
      else let encoded = utf8_encode value in
        if length encoded \<le> CANONICAL_TOOL_TAIL_BYTES then Some value
        else Some (decode_from_boundary
                     (drop (length encoded - CANONICAL_TOOL_TAIL_BYTES) encoded)))"

text \<open>The specification: the longest suffix of the text whose encoding fits.\<close>

fun longest_fitting_suffix :: "nat \<Rightarrow> code_point list \<Rightarrow> code_point list" where
  "longest_fitting_suffix k [] = []"
| "longest_fitting_suffix k (c # s) =
     (if length (utf8_encode (c # s)) \<le> k then c # s else longest_fitting_suffix k s)"

lemma decode_from_boundary_encoded:
  "list_all scalar_value s \<Longrightarrow> decode_from_boundary (utf8_encode s) = s"
  by (cases "utf8_encode s")
    (auto simp: utf8_decode_encode utf8_encode_def utf8_char_nonempty
      dest: utf8_decode_encode [unfolded utf8_encode_def] split: option.splits)

lemma decode_from_boundary_skip:
  "list_all continuation cs \<Longrightarrow> decode_from_boundary (cs @ bs) = decode_from_boundary bs"
  by (induction cs) (simp_all add: utf8_decode_continuation)

lemma drop_tail_continuation:
  assumes "0 < n"
  shows "list_all continuation (drop n (utf8_char c))"
proof -
  have "drop n (utf8_char c) = drop (n - 1) (tl (utf8_char c))"
    using assms by (simp add: drop_Suc [symmetric])
  then show ?thesis
    using utf8_char_tail_continuation [of c]
    by (simp add: list_all_iff) (meson in_set_dropD)
qed

lemma decode_from_boundary_drop:
  "list_all scalar_value s \<Longrightarrow> k \<le> length (utf8_encode s) \<Longrightarrow>
     decode_from_boundary (drop (length (utf8_encode s) - k) (utf8_encode s))
       = longest_fitting_suffix k s"
proof (induction s)
  case Nil
  then show ?case by (simp add: utf8_encode_def)
next
  case (Cons c s)
  let ?e = "utf8_encode s" and ?c = "utf8_char c"
  have enc: "utf8_encode (c # s) = ?c @ ?e"
    by (simp add: utf8_encode_def)
  show ?case
  proof (cases "k = length (utf8_encode (c # s))")
    case True
    with Cons.prems show ?thesis
      using decode_from_boundary_encoded [of "c # s"] by simp
  next
    case False
    with Cons.prems have lt: "k < length ?c + length ?e"
      by (simp add: enc)
    show ?thesis
    proof (cases "k \<le> length ?e")
      case True
      with lt Cons show ?thesis
        by (simp add: enc)
    next
      case k: False
      let ?n = "length ?c + length ?e - k"
      have "drop ?n (?c @ ?e) = drop ?n ?c @ ?e"
        using k by simp
      moreover have "list_all continuation (drop ?n ?c)"
        using lt by (intro drop_tail_continuation) simp
      ultimately have "decode_from_boundary (drop ?n (?c @ ?e)) = s"
        using Cons.prems decode_from_boundary_encoded [of s]
        by (simp add: decode_from_boundary_skip)
      moreover have "longest_fitting_suffix k (c # s) = s"
        using lt k by (cases s) (simp_all add: enc utf8_encode_def)
      ultimately show ?thesis by (simp add: enc)
    qed
  qed
qed

lemma longest_fitting_suffix_fits: "length (utf8_encode (longest_fitting_suffix k s)) \<le> k"
  by (induction s) (simp_all add: utf8_encode_def)

lemma longest_fitting_suffix_idem: "length (utf8_encode s) \<le> k \<Longrightarrow> longest_fitting_suffix k s = s"
  by (cases s) simp_all

lemma longest_fitting_suffix_suffix: "\<exists>p. s = p @ longest_fitting_suffix k s"
proof (induction s)
  case (Cons c s)
  then show ?case
    by (metis append_Cons append_Nil longest_fitting_suffix.simps(2))
qed simp

lemma longest_fitting_suffix_maximal:
  "s = p @ t \<Longrightarrow> length (utf8_encode t) \<le> k \<Longrightarrow> length t \<le> length (longest_fitting_suffix k s)"
proof (induction s arbitrary: p)
  case (Cons c s)
  show ?case
  proof (cases p)
    case Nil
    with Cons.prems have "longest_fitting_suffix k (c # s) = c # s"
      by (simp add: longest_fitting_suffix_idem)
    with Cons.prems Nil show ?thesis
      by (metis append_Nil order_refl)
  next
    case (Cons d q)
    with Cons.prems Cons.IH [of q] show ?thesis
      by (auto simp del: longest_fitting_suffix.simps simp add: longest_fitting_suffix.simps(2))
  qed
qed simp

text \<open>C29: the tail of tool output that is kept is the longest suffix of the text that encodes to at
  most 2048 bytes; cutting in the middle of a character drops exactly that character, and limiting a
  limited tail changes nothing.\<close>

theorem tool_output_tail_is_longest_suffix:
  assumes "list_all scalar_value s"
  shows "\<exists>t. limit_tool_output_tail s = Some t \<and> (\<exists>p. s = p @ t)
    \<and> length (utf8_encode t) \<le> CANONICAL_TOOL_TAIL_BYTES
    \<and> (\<forall>p t'. s = p @ t' \<longrightarrow> length (utf8_encode t') \<le> CANONICAL_TOOL_TAIL_BYTES \<longrightarrow> length t' \<le> length t)
    \<and> limit_tool_output_tail t = Some t"
proof -
  let ?t = "longest_fitting_suffix CANONICAL_TOOL_TAIL_BYTES s"
  have "limit_tool_output_tail s = Some ?t"
    using assms decode_from_boundary_drop [OF assms, of CANONICAL_TOOL_TAIL_BYTES]
    by (auto simp: limit_tool_output_tail_def Let_def longest_fitting_suffix_idem)
  moreover obtain p where p: "s = p @ ?t"
    using longest_fitting_suffix_suffix by blast
  then have "list_all scalar_value ?t"
    using assms by (metis list_all_append)
  then have "limit_tool_output_tail ?t = Some ?t"
    using longest_fitting_suffix_fits by (simp add: limit_tool_output_tail_def)
  ultimately show ?thesis
    using longest_fitting_suffix_fits longest_fitting_suffix_maximal p by blast
qed

text \<open>A text of 1025 two-byte characters: the first one does not fit.\<close>

theorem tool_output_tail_is_longest_suffix_witness:
  "limit_tool_output_tail (replicate 1025 233) = Some (replicate 1024 233)"
proof -
  let ?s = "replicate 1025 (233 :: nat)"
  have "list_all scalar_value ?s"
    by (simp add: list_all_iff scalar_value_def)
  then obtain t where t: "limit_tool_output_tail ?s = Some t" "\<exists>p. ?s = p @ t"
    "length (utf8_encode t) \<le> 2048"
    "\<forall>p t'. ?s = p @ t' \<longrightarrow> length (utf8_encode t') \<le> 2048 \<longrightarrow> length t' \<le> length t"
    using tool_output_tail_is_longest_suffix [of ?s] unfolding CANONICAL_TOOL_TAIL_BYTES_def by blast
  have enc: "length (utf8_encode (replicate n 233)) = 2 * n" for n
    by (induction n) (simp_all add: utf8_encode_def utf8_char_def)
  obtain p where p: "?s = p @ t" using t(2) by blast
  then have rep: "t = replicate (length t) 233"
    by (metis append_eq_conv_conj drop_replicate length_replicate)
  then have "2 * length t \<le> 2048"
    using t(3) enc [of "length t"] by metis
  moreover have "?s = [233] @ replicate 1024 233"
    by (simp add: replicate_Suc [symmetric] del: replicate_Suc)
  then have "1024 \<le> length t"
    using t(4) enc [of 1024] by (metis length_replicate order_refl mult_numeral_1 num_double numeral_times_numeral)
  ultimately have "length t = 1024" by simp
  with rep t(1) show ?thesis by simp
qed

end
