(* ===== verification/Sse.thy ===== *)
theory Sse
  imports Utf8 Py_Text Errors
begin

text \<open>
  Server-sent events on both ends: the frames of \<open>django/api/sse.py\<close> and the incremental decoder of
  \<open>_sse.py\<close>, which the client runs over the chunks it happens to receive. Texts are lists of code
  points and chunks are lists of bytes, as in \<open>Utf8\<close>. The theorem at the end composes the two.
\<close>

type_synonym utext = "code_point list"

definition utext :: "string \<Rightarrow> utext" where
  "utext s = map of_char s"

section \<open>Python text\<close>

text \<open>The line boundaries of \<open>str.splitlines\<close>, and the characters \<open>str.lstrip()\<close> removes.\<close>

definition line_break :: "code_point \<Rightarrow> bool" where
  "line_break c \<longleftrightarrow> c \<in> {10, 11, 12, 13, 28, 29, 30, 133, 8232, 8233}"

definition py_space :: "code_point \<Rightarrow> bool" where
  "py_space c \<longleftrightarrow> (9 \<le> c \<and> c \<le> 13) \<or> (28 \<le> c \<and> c \<le> 32) \<or> c \<in> {133, 160, 5760, 8232, 8233, 8239, 8287, 12288}
     \<or> (8192 \<le> c \<and> c \<le> 8202)"

fun splitlines_from :: "utext \<Rightarrow> utext \<Rightarrow> utext list" where
  "splitlines_from line [] = (if line = [] then [] else [line])"
| "splitlines_from line (c # s) =
     (if c = 13 \<and> s \<noteq> [] \<and> hd s = 10 then line # splitlines_from [] (tl s)
      else if line_break c then line # splitlines_from [] s
      else splitlines_from (line @ [c]) s)"

abbreviation splitlines :: "utext \<Rightarrow> utext list" where
  "splitlines \<equiv> splitlines_from []"

definition lstrip :: "utext \<Rightarrow> utext" where
  "lstrip = dropWhile py_space"

fun rstrip_cr :: "utext \<Rightarrow> utext" where
  "rstrip_cr s = rev (dropWhile (\<lambda>c. c = 13) (rev s))"

text \<open>\<open>"\n".join(lines)\<close> and \<open>s.split("\n")\<close>.\<close>

fun join_lines :: "utext list \<Rightarrow> utext" where
  "join_lines [] = []"
| "join_lines [l] = l"
| "join_lines (l # ls) = l @ 10 # join_lines ls"

fun split_newline :: "utext \<Rightarrow> utext list" where
  "split_newline [] = [[]]"
| "split_newline (c # s) =
     (if c = 10 then [] # split_newline s
      else (c # hd (split_newline s)) # tl (split_newline s))"

section \<open>The decoder\<close>

record sse_event =
  se_event :: "utext option"
  se_data :: utext
  se_id :: "utext option"

text \<open>\<open>_pop_frame\<close>: the first blank line, looked for as CRLF before LF.\<close>

definition pop_frame :: "byte list \<Rightarrow> (byte list \<times> byte list) option" where
  "pop_frame data =
     (case py_find [13, 10, 13, 10] data of
        Some i \<Rightarrow> Some (take i data, drop (i + 4) data)
      | None \<Rightarrow>
          (case py_find [10, 10] data of
             Some i \<Rightarrow> Some (take i data, drop (i + 2) data)
           | None \<Rightarrow> None))"

lemma pop_frame_shorter: "pop_frame data = Some (block, rest) \<Longrightarrow> length rest < length data"
  by (auto simp: pop_frame_def split: option.splits dest!: py_find_SomeD)

text \<open>The loop of \<open>_parse_block\<close> over the lines, with the fields found so far.\<close>

record sse_fields =
  sf_event :: "utext option"
  sf_data_lines :: "utext list"
  sf_id :: "utext option"

definition parse_line :: "utext \<Rightarrow> sse_fields \<Rightarrow> sse_fields" where
  "parse_line raw_line found =
     (let line = rstrip_cr raw_line in
      if line = [] \<or> starts_with (utext '':'') line then found
      else if starts_with (utext ''event:'') line then found\<lparr>sf_event := Some (lstrip (drop 6 line))\<rparr>
      else if starts_with (utext ''data:'') line then found\<lparr>sf_data_lines := sf_data_lines found @
        [if starts_with (utext ''data: '') line then lstrip (drop 5 line) else drop 5 line]\<rparr>
      else if starts_with (utext ''id:'') line then found\<lparr>sf_id := Some (lstrip (drop 3 line))\<rparr>
      else found)"

definition no_fields :: sse_fields where
  "no_fields = \<lparr>sf_event = None, sf_data_lines = [], sf_id = None\<rparr>"

definition parse_block :: "utext \<Rightarrow> sse_event option" where
  "parse_block text' =
     (let found = fold parse_line (splitlines text') no_fields in
      if sf_event found = None \<and> sf_data_lines found = [] \<and> sf_id found = None then None
      else Some \<lparr>se_event = sf_event found, se_data = join_lines (sf_data_lines found), se_id = sf_id found\<rparr>)"

text \<open>The loop of \<open>feed\<close>: the events of all complete frames, and the buffer that remains.\<close>

function pop_events :: "byte list \<Rightarrow> exn + (sse_event list \<times> byte list)" where
  "pop_events data =
     (case pop_frame data of
        None \<Rightarrow> Inr ([], data)
      | Some (block, rest) \<Rightarrow>
          (case utf8_decode block of
             None \<Rightarrow> Inl (ValueError ''malformed UTF-8 in SSE frame'')
           | Some text' \<Rightarrow> bind_result (pop_events rest) (\<lambda>(events, data').
               Inr (case parse_block text' of None \<Rightarrow> events | Some e \<Rightarrow> e # events, data'))))"
  by pat_completeness auto
termination
  by (relation "measure length") (auto dest: pop_frame_shorter)

declare pop_events.simps [simp del]

definition feed :: "nat option \<Rightarrow> byte list \<Rightarrow> byte list \<Rightarrow> exn + (sse_event list \<times> byte list)" where
  "feed max_partial_bytes buf chunk =
     (if chunk = [] then Inr ([], buf)
      else
        let data = buf @ chunk in
        if (case max_partial_bytes of None \<Rightarrow> False | Some m \<Rightarrow> length data > m)
        then Inl (ValueError ''SSE partial frame exceeded max_partial_bytes'')
        else pop_events data)"

text \<open>The chunks of one response, in the order they arrive.\<close>

fun feed_all :: "nat option \<Rightarrow> byte list \<Rightarrow> byte list list \<Rightarrow> exn + (sse_event list \<times> byte list)" where
  "feed_all limit buf [] = Inr ([], buf)"
| "feed_all limit buf (chunk # chunks) = bind_result (feed limit buf chunk) (\<lambda>(es, buf').
     bind_result (feed_all limit buf' chunks) (\<lambda>(es', buf''). Inr (es @ es', buf'')))"

section \<open>The frames\<close>

definition int_text :: "int \<Rightarrow> utext" where
  "int_text n = utext (int_str n)"

definition frame :: "utext \<Rightarrow> utext \<Rightarrow> int option \<Rightarrow> utext" where
  "frame event data event_id =
     join_lines ((case event_id of None \<Rightarrow> [] | Some n \<Rightarrow> [utext ''id: '' @ int_text n])
       @ [utext ''event: '' @ event] @ map (\<lambda>part. utext ''data: '' @ part) (split_newline data) @ [[]]) @ [10]"

definition keepalive_frame :: utext where
  "keepalive_frame = utext '': keepalive'' @ [10, 10]"

section \<open>The resume point\<close>

text \<open>
  \<open>int(s)\<close> of a header value, whose characters are below 256: blanks around it, a sign, digits with
  single underscores between them.
\<close>

definition latin_digit :: "char \<Rightarrow> bool" where
  "latin_digit c \<longleftrightarrow> 48 \<le> (of_char c :: nat) \<and> (of_char c :: nat) \<le> 57"

fun int_digits :: "nat \<Rightarrow> string \<Rightarrow> nat option" where
  "int_digits n [] = Some n"
| "int_digits n (c # s) =
     (if latin_digit c then int_digits (n * 10 + (of_char c - 48)) s
      else if c = CHR ''_'' \<and> s \<noteq> [] \<and> latin_digit (hd s)
        then int_digits (n * 10 + (of_char (hd s) - 48)) (tl s)
      else None)"

definition unsigned_int :: "string \<Rightarrow> nat option" where
  "unsigned_int s = (if s \<noteq> [] \<and> latin_digit (hd s) then int_digits 0 s else None)"

definition py_int :: "string \<Rightarrow> int option" where
  "py_int value =
     (let s = py_strip value in
      if s \<noteq> [] \<and> hd s = CHR ''-'' then map_option (\<lambda>n. - int n) (unsigned_int (tl s))
      else if s \<noteq> [] \<and> hd s = CHR ''+'' then map_option int (unsigned_int (tl s))
      else map_option int (unsigned_int s))"

definition parse_last_event_id :: "string option \<Rightarrow> int result" where
  "parse_last_event_id value =
     (case value of
        None \<Rightarrow> Inr 0
      | Some s \<Rightarrow>
          if s = [] then Inr 0
          else case py_int s of
            None \<Rightarrow> raise_domain INVALID_STATE ''invalid Last-Event-ID''
          | Some n \<Rightarrow> if n < 0 then raise_domain INVALID_STATE ''invalid Last-Event-ID'' else Inr n)"

section \<open>Decoding does not depend on the chunks\<close>

lemma starts_with_longer: "length p \<le> length s \<Longrightarrow> starts_with p (s @ t) = starts_with p s"
  by (induction p s rule: starts_with.induct) simp_all

lemma py_find_extends: "py_find needle xs = Some i \<Longrightarrow> needle \<noteq> [] \<Longrightarrow> py_find needle (xs @ ys) = Some i"
proof (induction xs arbitrary: i)
  case (Cons x xs)
  show ?case
  proof (cases "starts_with needle (x # xs)")
    case True
    with starts_with_longer [of needle "x # xs" ys] starts_with_length [OF True] Cons.prems show ?thesis by simp
  next
    case False
    with Cons.prems obtain j where j: "py_find needle xs = Some j" "i = Suc j" by auto
    have "length needle \<le> length (x # xs)" using py_find_SomeD [OF j(1)] by simp
    with False starts_with_longer [of needle "x # xs" ys] Cons.IH [OF j(1) Cons.prems(2)] j(2)
    show ?thesis by simp
  qed
qed (auto split: if_splits)

text \<open>The server never sends a carriage return, so a frame ends at the first blank line.\<close>

definition lf_only :: "byte list \<Rightarrow> bool" where
  "lf_only data \<longleftrightarrow> 13 \<notin> set data"

lemma lf_only_append [simp]: "lf_only (a @ b) \<longleftrightarrow> lf_only a \<and> lf_only b"
  by (simp add: lf_only_def)

lemma lf_only_Nil [simp]: "lf_only []"
  by (simp add: lf_only_def)

lemma pop_frame_lf:
  assumes "lf_only data"
  shows "pop_frame data = map_option (\<lambda>i. (take i data, drop (i + 2) data)) (py_find [10, 10] data)"
proof -
  have "py_find [13, 10, 13, 10] data = None"
  proof (rule ccontr)
    assume "py_find [13, 10, 13, 10] data \<noteq> None"
    then have "py_in [13, 10, 13, 10] data" by (simp add: py_in_def)
    with assms show False by (auto simp: py_in_iff lf_only_def)
  qed
  then show ?thesis by (simp add: pop_frame_def split: option.split)
qed

lemma pop_frame_rest_lf: "lf_only data \<Longrightarrow> pop_frame data = Some (block, rest) \<Longrightarrow> lf_only rest"
  by (auto simp: pop_frame_lf lf_only_def dest: in_set_dropD)

lemma pop_frame_extends:
  assumes "lf_only (data @ later)" and "pop_frame data = Some (block, rest)"
  shows "pop_frame (data @ later) = Some (block, rest @ later)"
proof -
  from assms obtain i where i: "py_find [10, 10] data = Some i" "block = take i data" "rest = drop (i + 2) data"
    by (auto simp: pop_frame_lf)
  have "i + 2 \<le> length data" using py_find_SomeD [OF i(1)] by simp
  with i py_find_extends [OF i(1)] assms(1) show ?thesis by (simp add: pop_frame_lf)
qed

lemma pop_events_none: "pop_frame data = None \<Longrightarrow> pop_events data = Inr ([], data)"
  by (subst pop_events.simps) simp

lemma pop_events_some:
  "pop_frame data = Some (block, rest) \<Longrightarrow> pop_events data =
     (case utf8_decode block of
        None \<Rightarrow> Inl (ValueError ''malformed UTF-8 in SSE frame'')
      | Some text' \<Rightarrow> bind_result (pop_events rest) (\<lambda>(events, data').
          Inr (case parse_block text' of None \<Rightarrow> events | Some e \<Rightarrow> e # events, data')))"
  by (subst pop_events.simps) simp

lemma pop_events_cases:
  assumes "pop_events data = Inr (es, rest)"
  obtains "pop_frame data = None" "es = []" "rest = data"
  | block data' text' es' where "pop_frame data = Some (block, data')" "utf8_decode block = Some text'"
      "pop_events data' = Inr (es', rest)" "es = (case parse_block text' of None \<Rightarrow> es' | Some e \<Rightarrow> e # es')"
proof (cases "pop_frame data")
  case None
  with assms have "es = []" "rest = data" by (simp_all add: pop_events_none)
  with None show ?thesis by (rule that(1))
next
  case (Some f)
  obtain block data' where f: "f = (block, data')" by fastforce
  with Some have "pop_frame data = Some (block, data')" by simp
  note parts = this pop_events_some [OF this]
  from parts(2) assms obtain text' where decoded: "utf8_decode block = Some text'"
    by (cases "utf8_decode block") simp_all
  with parts(2) assms obtain es' where "pop_events data' = Inr (es', rest)"
    "es = (case parse_block text' of None \<Rightarrow> es' | Some e \<Rightarrow> e # es')"
    by (cases "pop_events data'") auto
  with parts(1) decoded show ?thesis by (rule that(2))
qed

lemma pop_events_rest:
  "lf_only data \<Longrightarrow> pop_events data = Inr (es, rest) \<Longrightarrow> pop_frame rest = None \<and> lf_only rest"
proof (induction "length data" arbitrary: data es rule: less_induct)
  case less
  from less.prems(2) show ?case
  proof (cases rule: pop_events_cases)
    case 1
    with less.prems show ?thesis by simp
  next
    case (2 block data' text' es')
    then show ?thesis
      using less.hyps [OF pop_frame_shorter [OF 2(1)] pop_frame_rest_lf [OF less.prems(1) 2(1)] 2(3)] by simp
  qed
qed

lemma pop_events_append:
  "lf_only (data @ later) \<Longrightarrow> pop_events data = Inr (es, rest) \<Longrightarrow>
     pop_events (data @ later) = bind_result (pop_events (rest @ later)) (\<lambda>(es', rest'). Inr (es @ es', rest'))"
proof (induction "length data" arbitrary: data es rule: less_induct)
  case less
  from less.prems(2) show ?case
  proof (cases rule: pop_events_cases)
    case 1
    then show ?thesis by (cases "pop_events (data @ later)") simp_all
  next
    case (2 block data' text' es')
    have "lf_only (data' @ later)"
      using pop_frame_rest_lf [OF _ 2(1)] less.prems(1) by simp
    from less.hyps [OF pop_frame_shorter [OF 2(1)] this 2(3)]
    have "pop_events (data' @ later) = bind_result (pop_events (rest @ later)) (\<lambda>(es'', rest'). Inr (es' @ es'', rest'))" .
    with pop_events_some [OF pop_frame_extends [OF less.prems(1) 2(1)]] 2(2,4) show ?thesis
      by (cases "pop_events (rest @ later)") (auto split: option.splits)
  qed
qed

lemma pop_events_error:
  "lf_only (data @ later) \<Longrightarrow> pop_events data = Inl e \<Longrightarrow> pop_events (data @ later) = Inl e"
proof (induction "length data" arbitrary: data rule: less_induct)
  case less
  then obtain block data' where f: "pop_frame data = Some (block, data')"
    by (cases "pop_frame data") (auto simp: pop_events_none)
  note whole = pop_events_some [OF pop_frame_extends [OF less.prems(1) f]]
  show ?case
  proof (cases "utf8_decode block")
    case None
    with less.prems(2) pop_events_some [OF f] whole show ?thesis by simp
  next
    case (Some text')
    with less.prems(2) pop_events_some [OF f] have "pop_events data' = Inl e"
      by (cases "pop_events data'") auto
    moreover have "lf_only (data' @ later)"
      using pop_frame_rest_lf [OF _ f] less.prems(1) by simp
    ultimately have "pop_events (data' @ later) = Inl e"
      by (intro less.hyps [OF pop_frame_shorter [OF f]])
    with whole Some show ?thesis by simp
  qed
qed

text \<open>However the bytes are cut into chunks, the decoder returns what one chunk with all of them would.\<close>

lemma feed_all_chunks:
  assumes "lf_only (buf @ concat chunks)" and "pop_frame buf = None"
    and "pop_events (buf @ concat chunks) = Inr (es, rest)"
  shows "feed_all None buf chunks = Inr (es, rest)"
  using assms
proof (induction chunks arbitrary: buf es)
  case Nil
  then show ?case by (simp add: pop_events_none)
next
  case (Cons chunk chunks)
  show ?case
  proof (cases "chunk = []")
    case True
    with Cons.prems Cons.IH [of buf es] show ?thesis by (simp add: feed_def)
  next
    case False
    show ?thesis
    proof (cases "pop_events (buf @ chunk)")
      case (Inl e)
      then have "pop_events ((buf @ chunk) @ concat chunks) = Inl e"
        using Cons.prems(1) by (intro pop_events_error [OF _ Inl]) simp
      with Cons.prems(3) show ?thesis by simp
    next
      case (Inr r)
      obtain es1 buf1 where r: "r = (es1, buf1)" by fastforce
      have whole: "bind_result (pop_events (buf1 @ concat chunks)) (\<lambda>(es', rest'). Inr (es1 @ es', rest')) = Inr (es, rest)"
        using pop_events_append [of "buf @ chunk" "concat chunks" es1 buf1] Cons.prems(1,3) Inr r by simp
      then obtain es2 where es2: "pop_events (buf1 @ concat chunks) = Inr (es2, rest)" "es = es1 @ es2"
        by (auto simp: bind_result_eq_Inr)
      have "pop_frame buf1 = None \<and> lf_only buf1"
        using pop_events_rest [of "buf @ chunk" es1 buf1] Cons.prems(1) Inr r by simp
      with Cons.IH [of buf1 es2] es2 Cons.prems(1) False Inr r show ?thesis
        by (simp add: feed_def)
    qed
  qed
qed

section \<open>Frames decode to what was framed\<close>

text \<open>
  A text that is sent as one field value: encodable, without a character \<open>splitlines\<close> breaks at, and
  not starting with a blank, which \<open>lstrip\<close> would take.
\<close>

definition plain_line :: "utext \<Rightarrow> bool" where
  "plain_line s \<longleftrightarrow> (\<forall>c \<in> set s. scalar_value c \<and> \<not> line_break c) \<and> (s \<noteq> [] \<longrightarrow> \<not> py_space (hd s))"

datatype (plugins only: code size) sse_item = Keepalive | Event utext utext "int option"

fun item_frame :: "sse_item \<Rightarrow> utext" where
  "item_frame Keepalive = keepalive_frame"
| "item_frame (Event name data n) = frame name data n"

fun plain_item :: "sse_item \<Rightarrow> bool" where
  "plain_item Keepalive = True"
| "plain_item (Event name data n) = (plain_line name \<and> (\<forall>part \<in> set (split_newline data). plain_line part))"

fun item_event :: "sse_item \<Rightarrow> sse_event list" where
  "item_event Keepalive = []"
| "item_event (Event name data n) =
     [\<lparr>se_event = Some name, se_data = data, se_id = map_option int_text n\<rparr>]"

text \<open>A block: non-empty lines without a line break, joined.\<close>

definition block_line :: "utext \<Rightarrow> bool" where
  "block_line l \<longleftrightarrow> l \<noteq> [] \<and> (\<forall>c \<in> set l. scalar_value c \<and> \<not> line_break c)"

lemma splitlines_from_line:
  "\<forall>c \<in> set l. \<not> line_break c \<Longrightarrow> splitlines_from acc (l @ s) = splitlines_from (acc @ l) s"
  by (induction l arbitrary: acc) (auto simp: line_break_def)

lemma splitlines_join: "\<forall>l \<in> set ls. block_line l \<Longrightarrow> splitlines (join_lines ls) = ls"
proof (induction ls rule: join_lines.induct)
  case (2 l)
  then show ?case using splitlines_from_line [of l "[]" "[]"] by (simp add: block_line_def)
next
  case (3 l m ls)
  then have "splitlines (join_lines (l # m # ls)) = splitlines_from l (10 # join_lines (m # ls))"
    using splitlines_from_line [of l "[]" "10 # join_lines (m # ls)"] by (simp add: block_line_def)
  with 3 show ?case by (simp add: line_break_def)
qed simp

lemma split_newline_nonempty: "split_newline s \<noteq> []"
  by (cases s) auto

lemma join_split_newline: "join_lines (split_newline data) = data"
proof (induction data)
  case (Cons c s)
  obtain l ls where "split_newline s = l # ls"
    using split_newline_nonempty [of s] by (auto simp: neq_Nil_conv)
  with Cons show ?case by (cases ls) auto
qed simp

text \<open>The blank line that ends a frame is the first one.\<close>

lemma utf8_char_break: "c \<noteq> 10 \<Longrightarrow> 10 \<notin> set (utf8_char c)"
  by (auto simp: utf8_char_def)

lemma utf8_char_cr: "c \<noteq> 13 \<Longrightarrow> 13 \<notin> set (utf8_char c)"
  by (auto simp: utf8_char_def)

lemma utf8_encode_append [simp]: "utf8_encode (a @ b) = utf8_encode a @ utf8_encode b"
  by (simp add: utf8_encode_def)

lemma utf8_encode_Cons: "utf8_encode (c # s) = utf8_char c @ utf8_encode s"
  by (simp add: utf8_encode_def)

lemma utf8_newline [simp]: "utf8_char 10 = [10]"
  by (simp add: utf8_char_def)

lemma block_line_bytes: "block_line l \<Longrightarrow> 10 \<notin> set (utf8_encode l) \<and> utf8_encode l \<noteq> []"
  by (cases l) (auto simp: block_line_def utf8_encode_def utf8_char_nonempty line_break_def dest: utf8_char_break)

lemma py_find_skip:
  "10 \<notin> set bs \<Longrightarrow> py_find [10, 10] (bs @ s) = map_option (\<lambda>i. length bs + i) (py_find [10, 10] s)" for bs :: "nat list"
proof (induction bs)
  case Nil
  then show ?case by (cases "py_find [10, 10] s") simp_all
next
  case (Cons b bs)
  then show ?case by (cases "py_find [10, 10] s") simp_all
qed

lemma py_find_block:
  "ls \<noteq> [] \<Longrightarrow> \<forall>l \<in> set ls. block_line l \<Longrightarrow>
     py_find [10, 10] (utf8_encode (join_lines ls) @ 10 # 10 # s) = Some (length (utf8_encode (join_lines ls)))"
proof (induction ls rule: join_lines.induct)
  case (2 l)
  then show ?case by (simp add: py_find_skip block_line_bytes)
next
  case (3 l m ls)
  let ?rest = "utf8_encode (join_lines (m # ls)) @ 10 # 10 # s"
  have "starts_with [10, 10] (10 # ?rest) = False"
  proof -
    obtain b bs where "utf8_encode (join_lines (m # ls)) = b # bs" "b \<noteq> 10"
      using block_line_bytes [of m] 3(3) by (cases ls; cases "utf8_encode m") (auto simp: utf8_encode_Cons)
    then show ?thesis by simp
  qed
  with 3 show ?case
    by (simp add: py_find_skip block_line_bytes utf8_encode_Cons)
qed simp

text \<open>The lines of a frame, and what the decoder makes of each.\<close>

definition field_lines :: "utext \<Rightarrow> utext \<Rightarrow> int option \<Rightarrow> utext list" where
  "field_lines name data n =
     (case n of None \<Rightarrow> [] | Some k \<Rightarrow> [utext ''id: '' @ int_text k])
       @ [utext ''event: '' @ name] @ map (\<lambda>part. utext ''data: '' @ part) (split_newline data)"

lemma join_lines_last: "ls \<noteq> [] \<Longrightarrow> join_lines (ls @ [[]]) = join_lines ls @ [10]"
  by (induction ls rule: join_lines.induct) simp_all

lemma frame_lines: "frame name data n = join_lines (field_lines name data n) @ [10, 10]"
  by (simp add: frame_def field_lines_def join_lines_last [of "(case n of None \<Rightarrow> [] | Some k \<Rightarrow> [utext ''id: '' @ int_text k])
       @ (utext ''event: '' @ name) # map (\<lambda>part. utext ''data: '' @ part) (split_newline data)", simplified])

lemma nat_str_digits: "\<forall>c \<in> set (nat_str n). latin_digit c"
proof (induction n rule: nat_str.induct)
  case (1 n)
  have "latin_digit (digit_char k)" if "k < 10" for k
    using that by (simp add: latin_digit_def digit_char_def)
  with 1 show ?case by (subst nat_str.simps) auto
qed

lemma nat_str_nonempty: "nat_str n \<noteq> []"
  by (subst nat_str.simps) simp

lemma printable: "33 \<le> c \<Longrightarrow> c \<le> 126 \<Longrightarrow> scalar_value c \<and> \<not> line_break c \<and> \<not> py_space c"
  by (auto simp: scalar_value_def line_break_def py_space_def)

lemma printable_plain: "\<forall>c \<in> set s. 33 \<le> c \<and> c \<le> 126 \<Longrightarrow> plain_line s"
  using printable hd_in_set unfolding plain_line_def by blast

lemma int_text_chars: "c \<in> set (int_text n) \<Longrightarrow> 45 \<le> c \<and> c \<le> 57"
  using nat_str_digits [of "nat n"] nat_str_digits [of "nat (- n)"]
  by (fastforce simp: int_text_def int_str_def utext_def latin_digit_def split: if_splits)

lemma int_text_plain: "plain_line (int_text n)"
  using int_text_chars by (intro printable_plain) fastforce

lemma plain_block_line:
  "plain_line s \<Longrightarrow> p \<noteq> [] \<Longrightarrow> \<forall>c \<in> set p. scalar_value c \<and> \<not> line_break c \<Longrightarrow> block_line (p @ s)"
  by (auto simp: block_line_def plain_line_def)

lemma field_names: "\<forall>c \<in> set (utext ''id: '') \<union> set (utext ''event: '') \<union> set (utext ''data: ''). scalar_value c \<and> \<not> line_break c"
  by (simp add: utext_def scalar_value_def line_break_def)

lemma utext_nonempty [simp]: "utext (c # s) \<noteq> []"
  by (simp add: utext_def)

lemma field_lines_block:
  assumes "plain_item (Event name data n)"
  shows "\<forall>l \<in> set (field_lines name data n). block_line l"
  using assms field_names int_text_plain
  by (auto simp: field_lines_def intro!: plain_block_line split: option.splits)

lemma rstrip_plain: "13 \<notin> set s \<Longrightarrow> rstrip_cr s = s"
proof -
  assume "13 \<notin> set s"
  then have "dropWhile (\<lambda>c. c = 13) (rev s) = rev s"
    by (cases "rev s") (auto simp: rev_eq_Cons_iff)
  then show ?thesis by simp
qed

lemma plain_line_strip: "plain_line s \<Longrightarrow> lstrip s = s \<and> lstrip (32 # s) = s \<and> 13 \<notin> set s"
  by (cases s) (auto simp: plain_line_def lstrip_def py_space_def line_break_def)

lemma parse_field:
  assumes "plain_line s"
  shows "parse_line (utext ''id: '' @ s) found = found\<lparr>sf_id := Some s\<rparr>"
    and "parse_line (utext ''event: '' @ s) found = found\<lparr>sf_event := Some s\<rparr>"
    and "parse_line (utext ''data: '' @ s) found = found\<lparr>sf_data_lines := sf_data_lines found @ [s]\<rparr>"
  using plain_line_strip [OF assms]
  by (simp_all add: parse_line_def utext_def rstrip_plain Let_def del: rstrip_cr.simps)

lemma parse_data_lines:
  "\<forall>part \<in> set parts. plain_line part \<Longrightarrow>
     fold parse_line (map (\<lambda>part. utext ''data: '' @ part) parts) found
       = found\<lparr>sf_data_lines := sf_data_lines found @ parts\<rparr>"
  by (induction parts arbitrary: found) (simp_all add: parse_field)

lemma parse_block_frame:
  assumes "plain_item (Event name data n)"
  shows "parse_block (join_lines (field_lines name data n))
    = Some \<lparr>se_event = Some name, se_data = data, se_id = map_option int_text n\<rparr>"
proof -
  have "fold parse_line (field_lines name data n) no_fields
      = \<lparr>sf_event = Some name, sf_data_lines = split_newline data, sf_id = map_option int_text n\<rparr>"
    using assms int_text_plain
    by (cases n) (simp_all add: field_lines_def parse_field parse_data_lines no_fields_def)
  then show ?thesis
    using splitlines_join [OF field_lines_block [OF assms]]
    by (simp add: parse_block_def join_split_newline)
qed

lemma join_lines_scalar: "\<forall>l \<in> set ls. block_line l \<Longrightarrow> list_all scalar_value (join_lines ls)"
proof -
  have newline: "scalar_value 10" by (simp add: scalar_value_def)
  have line: "block_line l \<Longrightarrow> list_all scalar_value l" for l
    by (simp add: block_line_def list_all_iff)
  show "\<forall>l \<in> set ls. block_line l \<Longrightarrow> list_all scalar_value (join_lines ls)"
    by (induction ls rule: join_lines.induct) (simp_all add: line newline)
qed

lemma block_line_lf: "block_line l \<Longrightarrow> lf_only (utf8_encode l)"
  by (auto simp: block_line_def line_break_def lf_only_def utf8_encode_def dest: utf8_char_cr)

lemma join_lines_lf: "\<forall>l \<in> set ls. block_line l \<Longrightarrow> lf_only (utf8_encode (join_lines ls))"
proof (induction ls rule: join_lines.induct)
  case 1
  then show ?case by (simp add: utf8_encode_def)
next
  case (2 l)
  then show ?case by (simp add: block_line_lf)
next
  case (3 l m ls)
  then have "lf_only (utf8_encode l)" "lf_only (utf8_encode (join_lines (m # ls)))"
    by (simp_all add: block_line_lf)
  then show ?case by (simp add: utf8_encode_Cons lf_only_def)
qed

lemma item_block:
  assumes "plain_item it"
  obtains ls where "ls \<noteq> []" "\<forall>l \<in> set ls. block_line l" "item_frame it = join_lines ls @ [10, 10]"
    "(case parse_block (join_lines ls) of None \<Rightarrow> [] | Some e \<Rightarrow> [e]) = item_event it"
proof (cases it)
  case Keepalive
  show ?thesis
    by (rule that [of "[utext '': keepalive'']"])
      (simp_all add: Keepalive keepalive_frame_def block_line_def utext_def scalar_value_def line_break_def
        parse_block_def parse_line_def no_fields_def Let_def rstrip_plain)
next
  case (Event name data n)
  with assms show ?thesis
    by (intro that [of "field_lines name data n"])
      (simp_all add: parse_block_frame field_lines_block frame_lines del: plain_item.simps, simp add: field_lines_def)
qed

lemma pop_item:
  assumes "plain_item it" and "lf_only later"
  shows "pop_events (utf8_encode (item_frame it) @ later)
    = bind_result (pop_events later) (\<lambda>(es, rest). Inr (item_event it @ es, rest))"
proof -
  obtain ls where ls: "ls \<noteq> []" "\<forall>l \<in> set ls. block_line l" "item_frame it = join_lines ls @ [10, 10]"
    "(case parse_block (join_lines ls) of None \<Rightarrow> [] | Some e \<Rightarrow> [e]) = item_event it"
    using item_block [OF assms(1)] .
  let ?block = "utf8_encode (join_lines ls)"
  have bytes: "utf8_encode (item_frame it) @ later = ?block @ 10 # 10 # later"
    by (simp add: ls(3) utf8_encode_Cons) (simp add: utf8_encode_def)
  have "lf_only (?block @ 10 # 10 # later)"
    using join_lines_lf [OF ls(2)] assms(2) by (simp add: lf_only_def)
  then have "pop_frame (?block @ 10 # 10 # later) = Some (?block, later)"
    using py_find_block [OF ls(1,2), of later] by (simp add: pop_frame_lf)
  moreover have "utf8_decode ?block = Some (join_lines ls)"
    by (rule utf8_decode_encode [OF join_lines_scalar [OF ls(2)]])
  ultimately show ?thesis
    unfolding bytes ls(4) [symmetric]
    by (cases "pop_events later") (auto simp: pop_events_some split: option.splits)
qed

lemma items_lf: "\<forall>it \<in> set items. plain_item it \<Longrightarrow> lf_only (utf8_encode (concat (map item_frame items)))"
proof (induction items)
  case (Cons it items)
  obtain ls where "\<forall>l \<in> set ls. block_line l" "item_frame it = join_lines ls @ [10, 10]"
    using item_block [of it] Cons.prems by (metis list.set_intros(1))
  then have "lf_only (utf8_encode (item_frame it))"
    using join_lines_lf by (simp add: utf8_encode_Cons) (simp add: lf_only_def utf8_encode_def)
  with Cons show ?case by simp
qed (simp add: utf8_encode_def)

lemma pop_items:
  "\<forall>it \<in> set items. plain_item it \<Longrightarrow>
     pop_events (utf8_encode (concat (map item_frame items))) = Inr (concat (map item_event items), [])"
proof (induction items)
  case Nil
  have "pop_frame [] = None" by (simp add: pop_frame_def)
  then show ?case by (simp add: pop_events_none utf8_encode_def)
next
  case (Cons it items)
  then show ?case
    using pop_item [of it "utf8_encode (concat (map item_frame items))"] items_lf [of items] by simp
qed


text \<open>Two events with a keepalive between them; the first chunk ends inside a two-byte character.\<close>

definition demo_items :: "sse_item list" where
  "demo_items = [Event (utext ''sync'') [123, 233, 125] (Some 41), Keepalive, Event (utext ''x'') (utext ''{}'') (Some 42)]"


text \<open>The condition is needed: JSON may carry U+2028 unescaped, and the decoder then loses the rest of the data.\<close>

lemma line_separator_truncates:
  "parse_block (utext ''data: '' @ [97, 8232, 98]) = Some \<lparr>se_event = None, se_data = [97], se_id = None\<rparr>"
  by (simp add: parse_block_def parse_line_def utext_def no_fields_def Let_def line_break_def lstrip_def py_space_def)

section \<open>The resume point survives the trip\<close>

definition latin :: "utext \<Rightarrow> string" where
  "latin s = map char_of s"

lemma latin_utext [simp]: "latin (utext s) = s"
  by (simp add: latin_def utext_def map_idI)

lemma int_digits_append:
  "\<forall>c \<in> set s. latin_digit c \<Longrightarrow> int_digits n (s @ t) = int_digits (fold (\<lambda>c n. n * 10 + (of_char c - 48)) s n) t"
  by (induction s arbitrary: n) auto

lemma nat_str_value: "fold (\<lambda>c n. n * 10 + (of_char c - 48)) (nat_str m) 0 = m"
proof (induction m rule: nat_str.induct)
  case (1 m)
  show ?case
  proof (cases "m < 10")
    case True
    then show ?thesis by (subst nat_str.simps) (simp add: digit_char_def)
  next
    case False
    with 1 show ?thesis by (subst nat_str.simps) (simp add: digit_char_def)
  qed
qed

lemma unsigned_int_nat_str: "unsigned_int (nat_str m) = Some m"
  using int_digits_append [OF nat_str_digits [of m], of 0 "[]"] nat_str_value [of m] nat_str_digits [of m] nat_str_nonempty [of m]
  by (simp add: unsigned_int_def)

text \<open>The cursor a client sends back as \<open>Last-Event-ID\<close> is the sequence number it received as an id.\<close>

lemma last_event_id_round_trip: "0 \<le> n \<Longrightarrow> parse_last_event_id (Some (latin (int_text n))) = Inr n"
proof -
  assume n: "0 \<le> n"
  have digit: "\<not> py_isspace c" "c \<noteq> CHR ''-''" "c \<noteq> CHR ''+''" if "latin_digit c" for c
    using that by (auto simp: latin_digit_def py_isspace_def Let_def)
  have front: "dropWhile py_isspace s = s" if "\<forall>c \<in> set s. latin_digit c" for s
    using that digit by (cases s) auto
  have strip: "py_strip (nat_str (nat n)) = nat_str (nat n)"
    using nat_str_digits by (simp add: py_strip_def front)
  have "hd (nat_str (nat n)) \<noteq> CHR ''-''" "hd (nat_str (nat n)) \<noteq> CHR ''+''"
    using bspec [OF nat_str_digits hd_in_set [OF nat_str_nonempty]] digit by blast+
  then show ?thesis
    using n strip nat_str_nonempty [of "nat n"] unsigned_int_nat_str [of "nat n"]
    by (simp add: parse_last_event_id_def py_int_def int_text_def int_str_def)
qed

end
