(* ===== verification/Event_Replay.thy ===== *)
theory Event_Replay
  imports History_Pruning Sse
begin

text \<open>
  Reading the event log: paging through it, and the live stream of one conversation
  (\<open>_bounded_replay\<close> and \<open>iter_sse\<close> of \<open>django/api/sse.py\<close>), which replays what a client missed or sends
  it a snapshot, and then follows the wakeups of the broker. The log may have gaps where retention took
  events out.
\<close>

section \<open>Pages\<close>

definition events_after :: "uuid \<Rightarrow> int \<Rightarrow> store \<Rightarrow> conversation_event list" where
  "events_after cid after db = filter (\<lambda>e. ev_sequence e > after) (events_of cid db)"

lemma take_bytes_prefix: "\<exists>rest. es = take_bytes size_of limit used started es @ rest"
  by (induction size_of limit used started es rule: take_bytes.induct) auto

lemma take_bytes_progress:
  "es \<noteq> [] \<Longrightarrow> size_of (hd es) \<le> limit \<Longrightarrow> take_bytes size_of limit 0 False es \<noteq> []"
  by (cases es) auto

lemma events_after_sorted: "log_ordered db \<Longrightarrow> sorted_wrt (<) (map ev_sequence (events_after cid n db))"
  unfolding events_after_def log_ordered_def sorted_wrt_map by (simp add: sorted_wrt_filter)

lemma replay_page_events_after:
  assumes "log_ordered db"
  shows "replay_page size_of db cid n cnt limit
    = take_bytes size_of limit 0 False (take cnt (events_after cid n db))"
proof -
  have "filter (\<lambda>e. ev_conversation_id e = cid \<and> ev_sequence e > n) (map er_event (db_events db))
      = events_after cid n db"
    by (simp add: events_after_def events_of_def conj_commute)
  moreover have "sort_key ev_sequence (events_after cid n db) = events_after cid n db"
    using events_after_sorted [OF assms, of cid n]
    by (intro sort_key_id_if_sorted) (simp add: strict_sorted_iff)
  ultimately show ?thesis by (simp add: replay_page_def)
qed

lemma replay_page_prefix:
  assumes "log_ordered db"
  obtains rest where "events_after cid n db = replay_page size_of db cid n cnt limit @ rest"
proof -
  obtain tail where "take cnt (events_after cid n db) = replay_page size_of db cid n cnt limit @ tail"
    using take_bytes_prefix [of "take cnt (events_after cid n db)" size_of limit 0 False]
    by (auto simp: replay_page_events_after [OF assms])
  then have "events_after cid n db = replay_page size_of db cid n cnt limit @ tail @ drop cnt (events_after cid n db)"
    by (metis append.assoc append_take_drop_id)
  then show ?thesis by (rule that)
qed

text \<open>What lies after the last event of a prefix is the rest.\<close>

lemma events_after_prefix:
  assumes "log_ordered db" and "events_after cid n db = page @ rest" and "page \<noteq> []"
  shows "events_after cid (ev_sequence (last page)) db = rest" and "n < ev_sequence (last page)"
proof -
  let ?m = "ev_sequence (last page)"
  have sorted: "sorted_wrt (<) (map ev_sequence (page @ rest))"
    using events_after_sorted [OF assms(1), of cid n] assms(2) by simp
  have "last page \<in> set (events_after cid n db)" using assms(2,3) by simp
  then show n: "n < ?m" by (simp add: events_after_def)
  have page: "ev_sequence e \<le> ?m" if "e \<in> set page" for e
  proof -
    obtain front where "page = front @ [last page]"
      using assms(3) by (metis append_butlast_last_id)
    then have "sorted_wrt (<) (map ev_sequence (front @ [last page]))" "set page = insert (last page) (set front)"
      using sorted by (auto simp: sorted_wrt_append dest: arg_cong [where f = set])
    then show ?thesis using that by (auto simp: sorted_wrt_append intro: less_imp_le)
  qed
  have rest: "?m < ev_sequence e" if "e \<in> set rest" for e
    using sorted that assms(3) by (simp add: sorted_wrt_append)
  have "events_after cid ?m db = filter (\<lambda>e. ev_sequence e > ?m) (page @ rest)"
    unfolding assms(2) [symmetric] using n by (auto simp: events_after_def intro: filter_cong)
  also have "\<dots> = rest"
    using page rest by (auto simp: filter_empty_conv filter_id_conv not_less)
  finally show "events_after cid ?m db = rest" .
qed

text \<open>A consumer that asks for the next page after the last event it saw, until a page is empty.\<close>

fun replay_from ::
  "nat \<Rightarrow> (conversation_event \<Rightarrow> nat) \<Rightarrow> store \<Rightarrow> uuid \<Rightarrow> int \<Rightarrow> nat \<Rightarrow> nat \<Rightarrow> conversation_event list" where
  "replay_from 0 size_of db cid after cnt limit = []"
| "replay_from (Suc fuel) size_of db cid after cnt limit =
     (let page = replay_page size_of db cid after cnt limit in
      if page = [] then []
      else page @ replay_from fuel size_of db cid (ev_sequence (last page)) cnt limit)"

text \<open>C22: A consumer that replays a conversation page by page, each page limited in events and in bytes, receives
  every stored event after its starting point exactly once and in order, and its loop ends, provided each
  single event fits the byte limit. This holds for every state the store reaches, retention included.\<close>

theorem replay_pages_cover_log:
  assumes "run history_step empty_store ls db" and "0 < cnt"
    and "\<forall>e \<in> set (events_of cid db). size_of e \<le> limit"
    and "length (events_after cid n db) \<le> fuel"
  shows "replay_from fuel size_of db cid n cnt limit = events_after cid n db"
proof -
  have ordered: "log_ordered db" using history.inv_reachable assms(1) by blast
  show ?thesis
    using assms(4)
  proof (induction fuel arbitrary: n)
    case (Suc fuel)
    let ?page = "replay_page size_of db cid n cnt limit"
    obtain rest where rest: "events_after cid n db = ?page @ rest"
      using replay_page_prefix [OF ordered] .
    show ?case
    proof (cases "events_after cid n db = []")
      case True
      with rest show ?thesis by simp
    next
      case False
      have "size_of (hd (take cnt (events_after cid n db))) \<le> limit"
      proof -
        have "hd (events_after cid n db) \<in> set (events_of cid db)"
          using hd_in_set [OF False] by (simp add: events_after_def)
        then show ?thesis using \<open>0 < cnt\<close> assms(3) by (simp add: hd_take)
      qed
      with False \<open>0 < cnt\<close> have page: "?page \<noteq> []"
        unfolding replay_page_events_after [OF ordered] by (intro take_bytes_progress) simp_all
      note after = events_after_prefix [OF ordered rest page]
      have "length rest \<le> fuel" using Suc.prems page unfolding rest by (cases ?page) simp_all
      with Suc.IH [of "ev_sequence (last ?page)"] after page rest show ?thesis
        by (simp add: Let_def)
    qed
  qed simp
qed

text \<open>An event that does not fit ends the replay before it, whatever follows.\<close>

lemma replay_stuck:
  assumes "log_ordered db" and "events_after cid n db = e # rest" and "size_of e > limit"
  shows "replay_page size_of db cid n cnt limit = []"
  using assms by (cases cnt) (simp_all add: replay_page_events_after)

end
