(* ===== verification/Live_Stream.thy ===== *)
theory Live_Stream
  imports Event_Replay
begin

text \<open>
  The live stream of a conversation (\<open>django/api/sse.py\<close>): replay or snapshot, a sync mark, then one
  bounded replay per wakeup of the broker. The database is read several times while other
  transactions run; each read names the store it sees. The JSON of an event and of a snapshot is
  pydantic's and a parameter.
\<close>

section \<open>One bounded replay\<close>

datatype (plugins only: code size) stream_item =
    EventItem conversation_event
  | SnapshotItem int utext
  | SyncItem int
  | KeepaliveItem

definition EVENT_COUNT_LIMIT :: nat where
  "EVENT_COUNT_LIMIT = 5000"

definition BYTE_LIMIT :: nat where
  "BYTE_LIMIT = 5 * 1024 * 1024"

definition json_size :: "(conversation_event \<Rightarrow> utext) \<Rightarrow> conversation_event \<Rightarrow> nat" where
  "json_size dump e = length (utf8_encode (dump e))"

text \<open>\<open>get_high_water_sequence(..., include_deleted=True)\<close>.\<close>

definition get_high_water_sequence :: "store \<Rightarrow> uuid \<Rightarrow> string \<Rightarrow> int result" where
  "get_high_water_sequence db cid owner_id =
     (case dict_get (db_aggregates db) cid of
        None \<Rightarrow> Inl facade_not_found
      | Some row \<Rightarrow> if ag_owner_id row \<noteq> owner_id then Inl facade_not_found
          else Inr (max 0 (ag_next_event_sequence row - 1)))"

text \<open>\<open>replay_stream_events\<close>: the ownership check and the page.\<close>

definition replay_stream_events ::
  "(conversation_event \<Rightarrow> nat) \<Rightarrow> store \<Rightarrow> string \<Rightarrow> uuid \<Rightarrow> int \<Rightarrow> nat \<Rightarrow> nat \<Rightarrow> conversation_event list result" where
  "replay_stream_events size_of db owner_id cid after_sequence event_count_limit byte_limit =
     bind_result (get_high_water_sequence db cid owner_id) (\<lambda>_.
       Inr (replay_page size_of db cid after_sequence event_count_limit byte_limit))"

text \<open>The parts of \<open>get_stream_snapshot\<close> the stream looks at: its sequence, its JSON, whether it is deleted.\<close>

definition get_stream_snapshot ::
  "(store \<Rightarrow> uuid \<Rightarrow> utext) \<Rightarrow> store \<Rightarrow> string \<Rightarrow> uuid \<Rightarrow> (int \<times> utext \<times> bool) result" where
  "get_stream_snapshot dump_snapshot db owner_id cid =
     (case dict_get (db_aggregates db) cid of
        None \<Rightarrow> Inl facade_not_found
      | Some row \<Rightarrow> if ag_owner_id row \<noteq> owner_id then Inl facade_not_found
          else Inr (max 0 (ag_next_event_sequence row - 1), dump_snapshot db cid,
            conv_deleted_at (st_conversation (ag_state row)) \<noteq> None))"

text \<open>The loop over the encoded events: \<open>None\<close> when a size or the sum exceeds the byte cap.\<close>

fun sum_sizes :: "(conversation_event \<Rightarrow> nat) \<Rightarrow> nat \<Rightarrow> conversation_event list \<Rightarrow> nat option" where
  "sum_sizes size_of used [] = Some used"
| "sum_sizes size_of used (e # es) =
     (if size_of e > BYTE_LIMIT \<or> used + size_of e > BYTE_LIMIT then None
      else sum_sizes size_of (used + size_of e) es)"

definition last_sequence :: "int \<Rightarrow> conversation_event list \<Rightarrow> int" where
  "last_sequence after events = (if events \<noteq> [] then ev_sequence (last events) else after)"

definition exceeds_caps :: "(conversation_event \<Rightarrow> nat) \<Rightarrow> conversation_event list \<Rightarrow> int \<Rightarrow> int \<Rightarrow> bool" where
  "exceeds_caps size_of events after high_water \<longleftrightarrow>
     length events > EVENT_COUNT_LIMIT \<or> sum_sizes size_of 0 events = None
     \<or> last_sequence after events < high_water"

fun marks_deleted :: "event_payload \<Rightarrow> bool" where
  "marks_deleted (NoticeEvent (ConversationMetadataChanged _ _ _ deleted_at)) = (deleted_at \<noteq> None)"
| "marks_deleted _ = False"

text \<open>The three reads see three stores, in this order.\<close>

record stream_reads =
  rd_high_water :: store
  rd_replay :: store
  rd_snapshot :: store

definition bounded_replay ::
  "(conversation_event \<Rightarrow> utext) \<Rightarrow> (store \<Rightarrow> uuid \<Rightarrow> utext) \<Rightarrow> string \<Rightarrow> uuid \<Rightarrow> int \<Rightarrow> stream_reads
     \<Rightarrow> (stream_item list \<times> int \<times> bool) result" where
  "bounded_replay dump dump_snapshot owner_id cid after reads =
     bind_result (get_high_water_sequence (rd_high_water reads) cid owner_id) (\<lambda>high_water.
     bind_result
       (if after \<le> high_water
        then map_sum id Some (replay_stream_events (json_size dump) (rd_replay reads) owner_id cid after
          (EVENT_COUNT_LIMIT + 1) (BYTE_LIMIT + 1))
        else Inr None) (\<lambda>replayed.
     case (case replayed of None \<Rightarrow> None
           | Some events \<Rightarrow> if exceeds_caps (json_size dump) events after high_water then None else Some events) of
       Some events \<Rightarrow> Inr (map EventItem events, last_sequence after events,
         list_ex (\<lambda>e. marks_deleted (ev_payload e)) events)
     | None \<Rightarrow> bind_result (get_stream_snapshot dump_snapshot (rd_snapshot reads) owner_id cid)
         (\<lambda>(sequence, json, deleted). Inr ([SnapshotItem sequence json], sequence, deleted))))"

section \<open>The stream\<close>

text \<open>What arrives at the waiting stream: a wakeup, or the keepalive timeout.\<close>

datatype (plugins only: code size) stream_input = Wakeup int stream_reads | Timeout

record stream_output =
  so_items :: "stream_item list"
  so_last_sent :: int
  so_closed :: bool
  so_error :: "exn option"

fun stream_loop ::
  "(conversation_event \<Rightarrow> utext) \<Rightarrow> (store \<Rightarrow> uuid \<Rightarrow> utext) \<Rightarrow> string \<Rightarrow> uuid \<Rightarrow> int \<Rightarrow> stream_input list
     \<Rightarrow> stream_output" where
  "stream_loop dump dump_snapshot owner_id cid last_sent [] =
     \<lparr>so_items = [], so_last_sent = last_sent, so_closed = False, so_error = None\<rparr>"
| "stream_loop dump dump_snapshot owner_id cid last_sent (Timeout # inputs) =
     (let out = stream_loop dump dump_snapshot owner_id cid last_sent inputs
      in out\<lparr>so_items := KeepaliveItem # so_items out\<rparr>)"
| "stream_loop dump dump_snapshot owner_id cid last_sent (Wakeup sequence reads # inputs) =
     (if sequence \<le> last_sent then stream_loop dump dump_snapshot owner_id cid last_sent inputs
      else case bounded_replay dump dump_snapshot owner_id cid last_sent reads of
        Inl e \<Rightarrow> \<lparr>so_items = [], so_last_sent = last_sent, so_closed = True, so_error = Some e\<rparr>
      | Inr (frames, reached, deleted) \<Rightarrow>
          if deleted then \<lparr>so_items = frames, so_last_sent = reached, so_closed = True, so_error = None\<rparr>
          else
            let out = stream_loop dump dump_snapshot owner_id cid reached inputs
            in out\<lparr>so_items := frames @ so_items out\<rparr>)"

definition iter_sse ::
  "(conversation_event \<Rightarrow> utext) \<Rightarrow> (store \<Rightarrow> uuid \<Rightarrow> utext) \<Rightarrow> string \<Rightarrow> uuid \<Rightarrow> int \<Rightarrow> stream_reads
     \<Rightarrow> stream_input list \<Rightarrow> stream_output" where
  "iter_sse dump dump_snapshot owner_id cid last_event_id reads inputs =
     (case bounded_replay dump dump_snapshot owner_id cid last_event_id reads of
        Inl e \<Rightarrow> \<lparr>so_items = [], so_last_sent = last_event_id, so_closed = True, so_error = Some e\<rparr>
      | Inr (frames, reached, deleted) \<Rightarrow>
          if deleted then \<lparr>so_items = frames, so_last_sent = reached, so_closed = True, so_error = None\<rparr>
          else
            let out = stream_loop dump dump_snapshot owner_id cid reached inputs
            in out\<lparr>so_items := frames @ SyncItem reached # so_items out\<rparr>)"

section \<open>The store while the stream reads it\<close>

text \<open>Numbers are never given twice: an event numbered before the earlier store's end was in it.\<close>

definition log_later :: "store \<Rightarrow> store \<Rightarrow> bool" where
  "log_later db db' \<longleftrightarrow> (\<forall>cid. next_number cid db \<le> next_number cid db'
     \<and> (\<forall>e \<in> set (events_of cid db'). ev_sequence e < next_number cid db \<longrightarrow> e \<in> set (events_of cid db)))"

lemma log_later_refl [simp]: "log_later db db"
  by (simp add: log_later_def)

lemma log_later_trans:
  assumes "log_later a b" and "log_later b c"
  shows "log_later a c"
  unfolding log_later_def
proof (intro allI conjI ballI impI)
  fix cid
  show "next_number cid a \<le> next_number cid c"
    using assms by (meson log_later_def order_trans)
  fix e
  assume e: "e \<in> set (events_of cid c)" "ev_sequence e < next_number cid a"
  moreover have "next_number cid a \<le> next_number cid b" using assms(1) by (simp add: log_later_def)
  ultimately have "e \<in> set (events_of cid b)" using assms(2) unfolding log_later_def by fastforce
  with e(2) assms(1) show "e \<in> set (events_of cid a)" by (simp add: log_later_def)
qed

lemma log_later_extend:
  assumes "\<And>cid. \<exists>es. subseq (events_of cid db') (events_of cid db @ es)
      \<and> map ev_sequence es = [next_number cid db..next_number cid db' - 1] \<and> next_number cid db \<le> next_number cid db'"
  shows "log_later db db'"
  unfolding log_later_def
proof (intro allI)
  fix cid
  from assms obtain es where sub: "subseq (events_of cid db') (events_of cid db @ es)"
    and numbers: "map ev_sequence es = [next_number cid db..next_number cid db' - 1]"
    and grow: "next_number cid db \<le> next_number cid db'" by blast
  have "next_number cid db \<le> ev_sequence e" if "e \<in> set es" for e
    using that arg_cong [OF numbers, of set] by (auto simp: set_eq_iff)
  with set_subseq [OF sub] grow show "next_number cid db \<le> next_number cid db'
      \<and> (\<forall>e \<in> set (events_of cid db'). ev_sequence e < next_number cid db \<longrightarrow> e \<in> set (events_of cid db))"
    by fastforce
qed

interpretation log_numbers: permanence "\<lambda>db. db = empty_store" history_step log_ordered log_later
proof unfold_locales
  fix s l t
  assume "history_step s l t"
  then show "log_later s t"
  proof (rule history_step_elim)
    fix l'
    assume "store_step s l' t"
    then have "log_grows cid s t" for cid
      unfolding store_step_def by (elim conjE) (rule store_op_log)
    then show ?thesis
      unfolding log_grows_def by (intro log_later_extend) (metis subseq_order.order_refl)
  next
    fix u cid cutoff now trows irows res row
    assume prune: "prune_expired_history u cid cutoff now trows irows s = Inr (res, t)"
      and row: "dict_get (db_aggregates s) cid = Some row" "wf_row cid row"
    show ?thesis by (rule log_later_extend) (rule prune_log [OF prune row])
  qed
qed (auto intro: log_later_trans)

section \<open>What a client has seen\<close>

text \<open>
  A client at position \<open>pos\<close> reads the items against the log of a store: an event must be the next one
  the log holds after the position, a snapshot stands for everything up to its number.
\<close>

fun covers :: "uuid \<Rightarrow> store \<Rightarrow> int \<Rightarrow> stream_item list \<Rightarrow> bool" where
  "covers cid db pos [] \<longleftrightarrow> True"
| "covers cid db pos (EventItem e # items) \<longleftrightarrow> pos < ev_sequence e \<and> ev_sequence e < next_number cid db
     \<and> (\<forall>x \<in> set (events_of cid db). pos < ev_sequence x \<longrightarrow> ev_sequence e \<le> ev_sequence x)
     \<and> covers cid db (ev_sequence e) items"
| "covers cid db pos (SnapshotItem n json # items) \<longleftrightarrow> n < next_number cid db \<and> covers cid db n items"
| "covers cid db pos (SyncItem n # items) \<longleftrightarrow> n = pos \<and> covers cid db pos items"
| "covers cid db pos (KeepaliveItem # items) \<longleftrightarrow> covers cid db pos items"

fun position :: "int \<Rightarrow> stream_item list \<Rightarrow> int" where
  "position pos [] = pos"
| "position pos (EventItem e # items) = position (ev_sequence e) items"
| "position pos (SnapshotItem n json # items) = position n items"
| "position pos (SyncItem n # items) = position pos items"
| "position pos (KeepaliveItem # items) = position pos items"

lemma covers_append: "covers cid db pos (a @ b) \<longleftrightarrow> covers cid db pos a \<and> covers cid db (position pos a) b"
  by (induction cid db pos a rule: covers.induct) auto

lemma position_append: "position pos (a @ b) = position (position pos a) b"
  by (induction pos a rule: position.induct) auto

lemma position_events: "position pos (map EventItem es) = last_sequence pos es"
  by (induction es arbitrary: pos) (simp_all add: last_sequence_def)

lemma next_number_row:
  "get_high_water_sequence db cid owner = Inr n \<Longrightarrow> n = max 0 (next_number cid db - 1)"
  by (auto simp: get_high_water_sequence_def next_number_def split: option.splits if_splits)

lemma snapshot_number:
  "get_stream_snapshot dump db owner cid = Inr (n, json, deleted) \<Longrightarrow> n = max 0 (next_number cid db - 1)"
  by (auto simp: get_stream_snapshot_def next_number_def split: option.splits if_splits)

lemma ordered_number:
  "log_ordered db \<Longrightarrow> e \<in> set (events_of cid db) \<Longrightarrow> 1 \<le> ev_sequence e \<and> ev_sequence e < next_number cid db"
  "log_ordered db \<Longrightarrow> 1 \<le> next_number cid db"
  by (auto simp: log_ordered_def)

lemma covers_page:
  assumes "log_ordered db" and "log_later db final"
  shows "events_after cid n db = page @ rest \<Longrightarrow> covers cid final n (map EventItem page)"
proof (induction page arbitrary: n)
  case (Cons e page)
  then have head: "events_after cid n db = [e] @ (page @ rest)" by simp
  note after = events_after_prefix [OF assms(1) head]
  have "e \<in> set (events_after cid n db)" using head by simp
  then have e: "e \<in> set (events_of cid db)" by (simp add: events_after_def)
  have "ev_sequence e < next_number cid final"
    using ordered_number(1) [OF assms(1) e] assms(2) unfolding log_later_def by fastforce
  moreover have "ev_sequence e \<le> ev_sequence x" if x: "x \<in> set (events_of cid final)" "n < ev_sequence x" for x
  proof (cases "ev_sequence x < next_number cid db")
    case True
    with x assms(2) have "x \<in> set (events_after cid n db)"
      by (simp add: log_later_def events_after_def)
    then show ?thesis
      using events_after_sorted [OF assms(1), of cid n] unfolding head by (auto intro: less_imp_le)
  next
    case False
    with ordered_number(1) [OF assms(1) e] show ?thesis by simp
  qed
  moreover have "covers cid final (ev_sequence e) (map EventItem page)"
    using Cons.IH [of "ev_sequence e"] after(1) by simp
  ultimately show ?case using after(2) by simp
qed simp

text \<open>The two ways a bounded replay ends.\<close>

lemma bounded_replay_parts:
  assumes "bounded_replay dump dump_snapshot owner cid after reads = Inr (frames, reached, deleted)"
  obtains (events) events where "events = replay_page (json_size dump) (rd_replay reads) cid after
        (EVENT_COUNT_LIMIT + 1) (BYTE_LIMIT + 1)" "after \<le> max 0 (next_number cid (rd_high_water reads) - 1)"
      "\<not> exceeds_caps (json_size dump) events after (max 0 (next_number cid (rd_high_water reads) - 1))"
      "frames = map EventItem events" "reached = last_sequence after events"
      "deleted = list_ex (\<lambda>e. marks_deleted (ev_payload e)) events"
    | (snapshot) json where "frames = [SnapshotItem reached json]" "reached = max 0 (next_number cid (rd_snapshot reads) - 1)"
proof -
  let ?first = "\<lambda>hw. if after \<le> hw
        then map_sum id Some (replay_stream_events (json_size dump) (rd_replay reads) owner cid after
          (EVENT_COUNT_LIMIT + 1) (BYTE_LIMIT + 1))
        else Inr None"
  obtain hw where hw: "get_high_water_sequence (rd_high_water reads) cid owner = Inr hw"
    using assms by (cases "get_high_water_sequence (rd_high_water reads) cid owner") (simp_all add: bounded_replay_def)
  obtain replayed where first: "?first hw = Inr replayed"
    using assms hw by (cases "?first hw") (simp_all add: bounded_replay_def)
  show ?thesis
  proof (cases "case replayed of None \<Rightarrow> None
      | Some events \<Rightarrow> if exceeds_caps (json_size dump) events after hw then None else Some events")
    case None
    with assms hw first have "bind_result (get_stream_snapshot dump_snapshot (rd_snapshot reads) owner cid)
         (\<lambda>(sequence, json, deleted). Inr ([SnapshotItem sequence json], sequence, deleted)) = Inr (frames, reached, deleted)"
      by (simp only: bounded_replay_def bind_result_Inr option.case)
    then show ?thesis
      by (auto simp: bind_result_eq_Inr dest!: snapshot_number intro: that(2))
  next
    case (Some events)
    then have replayed: "replayed = Some events" and caps: "\<not> exceeds_caps (json_size dump) events after hw"
      by (auto split: option.splits if_splits)
    have out: "frames = map EventItem events" "reached = last_sequence after events"
      "deleted = list_ex (\<lambda>e. marks_deleted (ev_payload e)) events"
      using assms hw first Some by (simp_all only: bounded_replay_def bind_result_Inr option.case, auto)
    have "after \<le> hw" and "events = replay_page (json_size dump) (rd_replay reads) cid after
        (EVENT_COUNT_LIMIT + 1) (BYTE_LIMIT + 1)"
      using first replayed
      by (auto simp: replay_stream_events_def map_sum_def bind_result_def split: if_splits sum.splits)
    with caps out show ?thesis
      using next_number_row [OF hw] by (intro that(1)) simp_all
  qed
qed

text \<open>One replay or snapshot: it covers the log from where the client was and ends past the high water it read.\<close>

lemma bounded_replay_covers:
  assumes r: "bounded_replay dump dump_snapshot owner cid after reads = Inr (frames, reached, deleted)"
    and ordered: "log_ordered (rd_high_water reads)" "log_ordered (rd_replay reads)" "log_ordered (rd_snapshot reads)"
    and later: "log_later (rd_high_water reads) (rd_replay reads)" "log_later (rd_replay reads) (rd_snapshot reads)"
      "log_later (rd_snapshot reads) final"
  shows "covers cid final after frames" and "position after frames = reached"
    and "next_number cid (rd_high_water reads) - 1 \<le> reached" and "reached < next_number cid (rd_snapshot reads)"
    and "0 \<le> after \<Longrightarrow> 0 \<le> reached"
proof -
  let ?hw = "max 0 (next_number cid (rd_high_water reads) - 1)"
  have grow: "next_number cid (rd_high_water reads) \<le> next_number cid (rd_replay reads)"
    "next_number cid (rd_replay reads) \<le> next_number cid (rd_snapshot reads)"
    "next_number cid (rd_snapshot reads) \<le> next_number cid final"
    "1 \<le> next_number cid (rd_high_water reads)"
    using later ordered_number(2) [OF ordered(1)] by (simp_all add: log_later_def)
  have "covers cid final after frames \<and> position after frames = reached
    \<and> next_number cid (rd_high_water reads) - 1 \<le> reached \<and> reached < next_number cid (rd_snapshot reads)
    \<and> (0 \<le> after \<longrightarrow> 0 \<le> reached)"
    using r
  proof (cases rule: bounded_replay_parts)
    case (events events)
    obtain rest where rest: "events_after cid after (rd_replay reads) = events @ rest"
      using replay_page_prefix [OF ordered(2), of cid after "json_size dump" "EVENT_COUNT_LIMIT + 1" "BYTE_LIMIT + 1"]
      by (auto simp: events(1))
    have "log_later (rd_replay reads) final" using log_later_trans later(2,3) by blast
    with covers_page [OF ordered(2) _ rest] have "covers cid final after frames" by (simp add: events(4))
    moreover have "position after frames = reached" by (simp add: events(4,5) position_events)
    moreover have "next_number cid (rd_high_water reads) - 1 \<le> reached" "0 \<le> after \<longrightarrow> 0 \<le> reached"
      using events(3,5) by (auto simp: exceeds_caps_def not_less max_def split: if_splits)
    moreover have "reached < next_number cid (rd_snapshot reads)"
    proof (cases "events = []")
      case True
      with events(2,5) grow show ?thesis by (simp add: last_sequence_def)
    next
      case False
      then have "last events \<in> set (events_after cid after (rd_replay reads))" unfolding rest by simp
      then have "ev_sequence (last events) < next_number cid (rd_replay reads)"
        using ordered_number(1) [OF ordered(2)] by (simp add: events_after_def)
      with False events(5) grow show ?thesis by (simp add: last_sequence_def)
    qed
    ultimately show ?thesis by simp
  next
    case (snapshot json)
    with grow show ?thesis by simp
  qed
  then show "covers cid final after frames" "position after frames = reached"
    "next_number cid (rd_high_water reads) - 1 \<le> reached" "reached < next_number cid (rd_snapshot reads)"
    "0 \<le> after \<Longrightarrow> 0 \<le> reached"
    by simp_all
qed

text \<open>The stores a stream reads lie along one run.\<close>

definition leads_to :: "store \<Rightarrow> store \<Rightarrow> bool" where
  "leads_to db db' \<longleftrightarrow> (\<exists>ls. run history_step db ls db')"

definition reads_along :: "store \<Rightarrow> stream_reads \<Rightarrow> bool" where
  "reads_along db reads \<longleftrightarrow> leads_to db (rd_high_water reads) \<and> leads_to (rd_high_water reads) (rd_replay reads)
     \<and> leads_to (rd_replay reads) (rd_snapshot reads)"

fun inputs_along :: "store \<Rightarrow> stream_input list \<Rightarrow> store \<Rightarrow> bool" where
  "inputs_along db [] final \<longleftrightarrow> leads_to db final"
| "inputs_along db (Timeout # inputs) final \<longleftrightarrow> inputs_along db inputs final"
| "inputs_along db (Wakeup n reads # inputs) final \<longleftrightarrow>
     reads_along db reads \<and> inputs_along (rd_snapshot reads) inputs final"

lemma leads_to_kept: "leads_to db db' \<Longrightarrow> log_ordered db \<Longrightarrow> log_later db db' \<and> log_ordered db'"
  unfolding leads_to_def using log_numbers.kept_run history.inv_run by blast

lemma inputs_along_kept: "inputs_along db inputs final \<Longrightarrow> log_ordered db \<Longrightarrow> log_later db final"
proof (induction db inputs final rule: inputs_along.induct)
  case (3 db n reads inputs final)
  then show ?case
    using leads_to_kept log_later_trans unfolding inputs_along.simps reads_along_def by meson
qed (simp_all add: leads_to_kept)

text \<open>The publisher announces only what is committed.\<close>

definition announced :: "uuid \<Rightarrow> stream_input \<Rightarrow> bool" where
  "announced cid i = (case i of Timeout \<Rightarrow> True | Wakeup n reads \<Rightarrow> n < next_number cid (rd_high_water reads))"

fun wake_passed :: "int \<Rightarrow> stream_input \<Rightarrow> bool" where
  "wake_passed reached Timeout = True"
| "wake_passed reached (Wakeup n reads) = (n \<le> reached)"

lemma stream_loop_covers:
  assumes "log_ordered db" and "inputs_along db inputs final" and "pos < next_number cid db" and "0 \<le> pos"
  shows "let out = stream_loop dump dump_snapshot owner cid pos inputs in
    covers cid final pos (so_items out) \<and> position pos (so_items out) = so_last_sent out \<and> pos \<le> so_last_sent out
    \<and> (\<not> so_closed out \<longrightarrow> (\<forall>i \<in> set inputs. announced cid i \<longrightarrow>
          wake_passed (so_last_sent out) i))"
  using assms
proof (induction inputs arbitrary: db pos)
  case (Cons i inputs)
  show ?case
  proof (cases i)
    case Timeout
    with Cons.IH [of db pos] Cons.prems show ?thesis by (simp add: Let_def)
  next
    case (Wakeup n reads)
    have along: "reads_along db reads" "inputs_along (rd_snapshot reads) inputs final"
      using Cons.prems(2) Wakeup by simp_all
    have hw: "log_later db (rd_high_water reads)" "log_ordered (rd_high_water reads)"
      using along(1) leads_to_kept [OF _ Cons.prems(1)] by (auto simp: reads_along_def)
    have rp: "log_later (rd_high_water reads) (rd_replay reads)" "log_ordered (rd_replay reads)"
      using along(1) leads_to_kept [OF _ hw(2)] by (auto simp: reads_along_def)
    have sn: "log_later (rd_replay reads) (rd_snapshot reads)" "log_ordered (rd_snapshot reads)"
      using along(1) leads_to_kept [OF _ rp(2)] by (auto simp: reads_along_def)
    have final: "log_later (rd_snapshot reads) final" by (rule inputs_along_kept [OF along(2) sn(2)])
    have bound: "next_number cid db \<le> next_number cid (rd_high_water reads)"
      "next_number cid (rd_high_water reads) \<le> next_number cid (rd_snapshot reads)"
      using hw(1) rp(1) sn(1) unfolding log_later_def by (fastforce intro: order_trans)+
    show ?thesis
    proof (cases "n \<le> pos")
      case True
      have "pos < next_number cid (rd_snapshot reads)" using Cons.prems(3) bound by linarith
      from Cons.IH [OF sn(2) along(2) this Cons.prems(4)] True Wakeup show ?thesis
        by (auto simp: Let_def)
    next
      case False
      show ?thesis
      proof (cases "bounded_replay dump dump_snapshot owner cid pos reads")
        case (Inl e)
        with False Wakeup show ?thesis by simp
      next
        case (Inr r)
        obtain frames reached deleted where r: "bounded_replay dump dump_snapshot owner cid pos reads
            = Inr (frames, reached, deleted)" using Inr by (cases r) auto
        note facts = bounded_replay_covers [OF r hw(2) rp(2) sn(2) rp(1) sn(1) final]
        have up: "pos \<le> reached" "0 \<le> reached" using facts(3,5) Cons.prems(3,4) bound by simp_all
        have n: "announced cid (Wakeup n reads) \<Longrightarrow> n \<le> reached" using facts(3) by (simp add: announced_def)
        show ?thesis
        proof (cases deleted)
          case True
          with False Wakeup r facts(1,2) up show ?thesis by (simp add: Let_def)
        next
          case open_stream: False
          from Cons.IH [OF sn(2) along(2) facts(4) up(2)] False Wakeup r open_stream facts(1,2) up n
          show ?thesis by (auto simp: Let_def covers_append position_append)
        qed
      qed
    qed
  qed
qed simp

lemma iter_sse_covers:
  assumes "log_ordered db" and "reads_along db reads" and "inputs_along (rd_snapshot reads) inputs final"
    and "0 \<le> last_event_id"
  shows "let out = iter_sse dump dump_snapshot owner cid last_event_id reads inputs in
    covers cid final last_event_id (so_items out) \<and> position last_event_id (so_items out) = so_last_sent out
    \<and> 0 \<le> so_last_sent out
    \<and> (\<not> so_closed out \<longrightarrow> next_number cid (rd_high_water reads) - 1 \<le> so_last_sent out
        \<and> (\<exists>n. SyncItem n \<in> set (so_items out))
        \<and> (\<forall>i \<in> set inputs. announced cid i \<longrightarrow>
            wake_passed (so_last_sent out) i))"
proof (cases "bounded_replay dump dump_snapshot owner cid last_event_id reads")
  case (Inl e)
  with assms(4) show ?thesis by (simp add: iter_sse_def)
next
  case (Inr r)
  obtain frames reached deleted where r: "bounded_replay dump dump_snapshot owner cid last_event_id reads
      = Inr (frames, reached, deleted)" using Inr by (cases r) auto
  have hw: "log_ordered (rd_high_water reads)"
    using assms(2) leads_to_kept [OF _ assms(1)] by (auto simp: reads_along_def)
  have rp: "log_later (rd_high_water reads) (rd_replay reads)" "log_ordered (rd_replay reads)"
    using assms(2) leads_to_kept [OF _ hw] by (auto simp: reads_along_def)
  have sn: "log_later (rd_replay reads) (rd_snapshot reads)" "log_ordered (rd_snapshot reads)"
    using assms(2) leads_to_kept [OF _ rp(2)] by (auto simp: reads_along_def)
  note facts = bounded_replay_covers [OF r hw rp(2) sn(2) rp(1) sn(1) inputs_along_kept [OF assms(3) sn(2)]]
  show ?thesis
  proof (cases deleted)
    case True
    with r facts(1,2,5) assms(4) show ?thesis by (simp add: iter_sse_def Let_def)
  next
    case False
    have "0 \<le> reached" using facts(5) assms(4) by simp
    from stream_loop_covers [OF sn(2) assms(3) facts(4) this, of dump dump_snapshot owner] False r facts(1,2,3) this
    show ?thesis by (auto simp: iter_sse_def Let_def covers_append position_append)
  qed
qed


section \<open>The stream on the wire\<close>

text \<open>\<open>_event_frame\<close>, \<open>_snapshot_frame\<close>, \<open>_sync_frame\<close>, \<open>_keepalive_frame\<close>.\<close>

definition sync_json :: "int \<Rightarrow> utext" where
  "sync_json n = [123, 34] @ utext ''sequence'' @ [34, 58] @ int_text n @ [125]"

fun item_sse :: "(conversation_event \<Rightarrow> utext) \<Rightarrow> stream_item \<Rightarrow> sse_item" where
  "item_sse dump (EventItem e) = Event (utext (ev_type e)) (dump e) (Some (ev_sequence e))"
| "item_sse dump (SnapshotItem n json) = Event (utext ''snapshot'') json (Some n)"
| "item_sse dump (SyncItem n) = Event (utext ''sync'') (sync_json n) (Some n)"
| "item_sse dump KeepaliveItem = Keepalive"

definition decoded :: "(conversation_event \<Rightarrow> utext) \<Rightarrow> stream_item list \<Rightarrow> sse_event list" where
  "decoded dump items = concat (map item_event (map (item_sse dump) items))"

lemma decoded_Cons [simp]: "decoded dump (i # items) = item_event (item_sse dump i) @ decoded dump items"
  by (simp add: decoded_def)

lemma decoded_last_id:
  "covers cid db pos items \<Longrightarrow>
     (decoded dump items = [] \<longrightarrow> position pos items = pos)
     \<and> (decoded dump items \<noteq> [] \<longrightarrow> se_id (last (decoded dump items)) = Some (int_text (position pos items)))"
  by (induction cid db pos items rule: covers.induct) (auto simp: decoded_def)


end
