(* ===== verification/Store_Demonstration.thy ===== *)
theory Store_Demonstration
  imports Command_Delivery Live_Stream
begin

text \<open>
  A run of the durable store by two workers: the first claims the command and stalls past its lease,
  the second claims it again under the next fence, delivers it and commits the turn's events. The
  states of the run are the concrete inputs of the witnesses of the store's properties.
\<close>

fun run_store :: "(datetime \<times> store_op) list \<Rightarrow> store \<Rightarrow> store option" where
  "run_store [] db = Some db"
| "run_store ((now, op) # ops) db =
     (if \<not> admissible_store_op op db then None
      else case apply_store_op now op db of Inl _ \<Rightarrow> None | Inr db' \<Rightarrow> run_store ops db')"

lemma run_store_sound: "run_store ops db = Some db' \<Longrightarrow> run store_step db ops db'"
  by (induction ops db rule: run_store.induct)
    (auto simp: store_step_def split: if_splits sum.splits intro: run.intros)

lemma run_store_states: "run_store ops db \<noteq> None \<Longrightarrow> run store_step db ops (the (run_store ops db))"
  by (auto intro: run_store_sound)

definition demo_command :: command where
  "demo_command = accepted_command (Uuid 30) (Uuid 1) (SubmitTurnPayload ''build it'' None) ''k1'' None 100"

definition demo_other_command :: command where
  "demo_other_command = accepted_command (Uuid 31) (Uuid 1) InterruptPayload ''k2'' None 143"

definition demo_begun :: command where
  "demo_begun = demo_command\<lparr>cmd_status := CMD_DELIVERY_STARTED, cmd_attempts := 2,
     cmd_delivery_started_at := Some 141, cmd_worker_id := Some ''second''\<rparr>"

text \<open>The first worker claims, its lease of 30 lapses, and the second worker claims.\<close>

definition demo_claims :: "(datetime \<times> store_op) list" where
  "demo_claims = [(100, SaveSnapshot demo_start), (100, AcceptCommand demo_command),
     (101, ClaimCommands ''first'' 8 30), (140, ClaimCommands ''second'' 8 30)]"

text \<open>The events of the turn, under identifiers of their own.\<close>

definition demo_submit :: "(uuid \<times> datetime \<times> conversation_op) list" where
  "demo_submit = take 3 demo_opening"

definition demo_submitted :: conversation_state where
  "demo_submitted = script_state demo_submit demo_start"

definition demo_events :: "conversation_event list" where
  "demo_events = map (\<lambda>(i, e). e\<lparr>ev_event_id := i\<rparr>)
     (zip [Uuid 201, Uuid 202, Uuid 203, Uuid 204] (concat (script_log demo_submit demo_start)))"

definition demo_delivery :: "(datetime \<times> store_op) list" where
  "demo_delivery = [(141, UpdateCommand demo_begun (Some ''second'') (Some 2)),
     (142, CommitBatch (Uuid 1) (conv_version (st_conversation demo_start)) demo_submitted
        demo_events [] None None (Some ''second'') (Some 2)),
     (143, AcceptCommand demo_other_command)]"

definition demo_claimed_store :: store where
  "demo_claimed_store = the (run_store demo_claims empty_store)"

definition demo_started_store :: store where
  "demo_started_store = the (run_store (take 1 demo_delivery) demo_claimed_store)"

definition demo_delivered_store :: store where
  "demo_delivered_store = the (run_store (drop 1 demo_delivery) demo_started_store)"

lemma demo_claims_run: "run store_step empty_store demo_claims demo_claimed_store"
  unfolding demo_claimed_store_def by (rule run_store_states) code_simp

lemma demo_started_run: "run store_step demo_claimed_store (take 1 demo_delivery) demo_started_store"
  unfolding demo_started_store_def by (rule run_store_states) code_simp

lemma demo_delivered_run: "run store_step demo_started_store (drop 1 demo_delivery) demo_delivered_store"
  unfolding demo_delivered_store_def by (rule run_store_states) code_simp

lemma demo_store_run: "run store_step empty_store (demo_claims @ demo_delivery) demo_delivered_store"
  using run_append [OF demo_claims_run run_append [OF demo_started_run demo_delivered_run]] by simp


theorem replay_pages_cover_log_witness:
  "map ev_sequence (replay_from 5 (\<lambda>_. 10) demo_delivered_store (Uuid 1) 1 1 15) = [2..3]"
proof -
  have "replay_from 5 (\<lambda>_. 10) demo_delivered_store (Uuid 1) 1 1 15 = events_after (Uuid 1) 1 demo_delivered_store"
    by (rule replay_pages_cover_log [OF history_of_store [OF demo_store_run]]) code_simp+
  moreover have "map ev_sequence (events_after (Uuid 1) 1 demo_delivered_store) = [2..3]" by code_simp
  ultimately show ?thesis by simp
qed

theorem superseded_owner_writes_nothing_witness:
  "update_command demo_begun 143 (Some ''first'') (Some 1) demo_delivered_store = Inl (stale_owner (Uuid 1))"
proof -
  have "case dict_get (db_aggregates demo_claimed_store) (Uuid 1) of None \<Rightarrow> False | Some row \<Rightarrow> ag_fence row > 1"
    by code_simp
  then obtain row where row: "dict_get (db_aggregates demo_claimed_store) (Uuid 1) = Some row"
    and fence: "ag_fence row > 1" by (auto split: option.splits)
  have "cmd_conversation_id demo_begun = Uuid 1" by code_simp
  then show ?thesis
    using superseded_owner_writes_nothing [OF run_append [OF demo_started_run demo_delivered_run] row] fence by blast
qed

text \<open>The command is delivered by the second worker; long after every lease a third asks for work and gets the
  command accepted since then, not the one in delivery.\<close>

theorem started_command_never_reclaimed_witness:
  "\<exists>c f. fst (claim_commands ''third'' 8 30 1000 demo_delivered_store) = [(c, f)] \<and> cmd_id c \<noteq> Uuid 30"
proof -
  have reach: "run store_step empty_store (demo_claims @ take 1 demo_delivery) demo_started_store"
    by (rule run_append [OF demo_claims_run demo_started_run])
  have "case dict_get (db_commands demo_started_store) (Uuid 30) of None \<Rightarrow> False
      | Some row \<Rightarrow> begun (cr_command row)" by code_simp
  then obtain row where row: "dict_get (db_commands demo_started_store) (Uuid 30) = Some row"
    and begun: "begun (cr_command row)" by (auto split: option.splits)
  have "run (delivery_step (Uuid 30)) demo_started_store (drop 1 demo_delivery) demo_delivered_store"
    using demo_delivered_run by (simp add: demo_delivery_def run_cons_iff delivery_step_def)
  note never = started_command_never_reclaimed [OF reach row begun this]
  have "length (fst (claim_commands ''third'' 8 30 1000 demo_delivered_store)) = 1" by code_simp
  then obtain c f where claimed: "fst (claim_commands ''third'' 8 30 1000 demo_delivered_store) = [(c, f)]"
    by (cases "fst (claim_commands ''third'' 8 30 1000 demo_delivered_store)") auto
  then have "cmd_id c \<noteq> Uuid 30" using never [of c f "''third''" 8 30 1000] by simp
  with claimed show ?thesis by blast
qed

section \<open>A client that resumes after the first event\<close>

definition demo_dump :: "conversation_event \<Rightarrow> utext" where
  "demo_dump e = [123, 125]"

definition demo_reads :: stream_reads where
  "demo_reads = \<lparr>rd_high_water = demo_delivered_store, rd_replay = demo_delivered_store,
     rd_snapshot = demo_delivered_store\<rparr>"

definition demo_stream :: stream_output where
  "demo_stream = iter_sse demo_dump (\<lambda>_ _. [123, 125]) ''owner'' (Uuid 1) 1 demo_reads [Timeout]"

lemma demo_along: "reads_along demo_delivered_store demo_reads"
  "inputs_along (rd_snapshot demo_reads) [Timeout] demo_delivered_store"
  by (auto simp: reads_along_def demo_reads_def leads_to_def intro: run_nil)

lemma demo_stream_items:
  obtains a b where "so_items demo_stream = [EventItem a, EventItem b, SyncItem 3, KeepaliveItem]"
    "\<not> so_closed demo_stream" "plain_line (utext (ev_type a))" "plain_line (utext (ev_type b))"
proof -
  let ?es = "events_after (Uuid 1) 1 demo_delivered_store"
  have "map (\<lambda>e. (ev_sequence e, marks_deleted (ev_payload e), list_all (\<lambda>c. 97 \<le> (of_char c :: nat)
      \<and> (of_char c :: nat) \<le> 122 \<or> c = CHR ''_'') (ev_type e))) ?es = [(2, False, True), (3, False, True)]"
    by code_simp
  then obtain a b where es: "?es = [a, b]" and facts: "ev_sequence b = 3" "\<not> marks_deleted (ev_payload a)"
    "\<not> marks_deleted (ev_payload b)" and types: "list_all (\<lambda>c. 97 \<le> (of_char c :: nat)
      \<and> (of_char c :: nat) \<le> 122 \<or> c = CHR ''_'') (ev_type a)" "list_all (\<lambda>c. 97 \<le> (of_char c :: nat)
      \<and> (of_char c :: nat) \<le> 122 \<or> c = CHR ''_'') (ev_type b)"
    by (auto simp: map_eq_Cons_conv)
  have plain: "plain_line (utext t)" if "list_all (\<lambda>c. 97 \<le> (of_char c :: nat)
      \<and> (of_char c :: nat) \<le> 122 \<or> c = CHR ''_'') t" for t
    using that by (intro printable_plain) (auto simp: utext_def list_all_iff)
  have size: "json_size demo_dump e = 2" for e
    by (simp add: json_size_def demo_dump_def utf8_encode_def utf8_char_def)
  have ordered: "log_ordered demo_delivered_store"
    using history.inv_reachable history_of_store [OF demo_store_run] by blast
  have hw: "get_high_water_sequence demo_delivered_store (Uuid 1) ''owner'' = Inr 3" by code_simp
  have page: "replay_page (json_size demo_dump) demo_delivered_store (Uuid 1) 1 5001 5242881 = [a, b]"
    by (simp add: replay_page_events_after [OF ordered] es size)
  have "bounded_replay demo_dump (\<lambda>_ _. [123, 125]) ''owner'' (Uuid 1) 1 demo_reads
      = Inr ([EventItem a, EventItem b], 3, False)"
    using facts by (simp add: bounded_replay_def demo_reads_def hw replay_stream_events_def page
        exceeds_caps_def size EVENT_COUNT_LIMIT_def BYTE_LIMIT_def last_sequence_def)
  then show ?thesis
    by (intro that [of a b]) (simp_all add: demo_stream_def iter_sse_def plain types)
qed



end
