(* ===== verification/Redaction.thy ===== *)
theory Redaction
  imports Py_Text
begin

text \<open>
  The streaming redactor (\<open>src/talktoharnesses/application/redaction.py\<close>): secrets are replaced in a
  text that arrives in chunks, with a carry buffer that keeps what could still become a secret. With
  one pattern the chunks do not matter: the output is that of one replacement over the whole text.
\<close>

definition REDACTED :: string where
  "REDACTED = ''[REDACTED]''"

record redactor =
  rd_patterns :: "string list"
  rd_max_partial :: nat
  rd_carry :: string

text \<open>\<open>sorted(\<dots>, key=len, reverse=True)\<close> keeps the order of patterns of one length.\<close>

definition new_redactor :: "string list \<Rightarrow> redactor" where
  "new_redactor patterns =
     (let ps = sort_key (\<lambda>p. - int (length p)) (filter (\<lambda>p. p \<noteq> []) patterns)
      in \<lparr>rd_patterns = ps, rd_max_partial = fold max (map length ps) 0, rd_carry = []\<rparr>)"

definition redact :: "string list \<Rightarrow> string \<Rightarrow> string" where
  "redact patterns text = fold (\<lambda>p s. py_replace p REDACTED s) patterns text"

definition feed_text :: "redactor \<Rightarrow> string \<Rightarrow> string \<times> redactor" where
  "feed_text rd chunk =
     (if chunk = [] \<and> rd_carry rd = [] then ([], rd)
      else
        let combined = rd_carry rd @ chunk in
        if rd_patterns rd = [] then (combined, rd\<lparr>rd_carry := []\<rparr>)
        else
          let redacted = redact (rd_patterns rd) combined;
              hold = rd_max_partial rd - 1
          in if hold = 0 then (redacted, rd\<lparr>rd_carry := []\<rparr>)
             else if length redacted \<le> hold then ([], rd\<lparr>rd_carry := redacted\<rparr>)
             else (take (length redacted - hold) redacted,
                   rd\<lparr>rd_carry := drop (length redacted - hold) redacted\<rparr>))"

definition flush_text :: "redactor \<Rightarrow> string \<times> redactor" where
  "flush_text rd =
     (if rd_carry rd = [] then ([], rd)
      else if rd_patterns rd = [] then (rd_carry rd, rd\<lparr>rd_carry := []\<rparr>)
      else (redact (rd_patterns rd) (rd_carry rd), rd\<lparr>rd_carry := []\<rparr>))"

text \<open>What a reader of a whole stream sees: every chunk fed, then the rest flushed.\<close>

fun stream_text :: "redactor \<Rightarrow> string list \<Rightarrow> string" where
  "stream_text rd [] = fst (flush_text rd)"
| "stream_text rd (c # cs) = (let (out, rd') = feed_text rd c in out @ stream_text rd' cs)"

section \<open>Replacement by a marker the pattern cannot touch\<close>

text \<open>A separator outside the pattern splits its occurrences.\<close>

lemma py_in_Nil [simp]: "py_in p [] \<longleftrightarrow> p = []"
  by (auto simp: py_in_iff)

lemma py_in_Cons: "py_in p (c # s) \<longleftrightarrow> starts_with p (c # s) \<or> py_in p s"
  by (simp add: py_in_def del: starts_with.simps)

lemma starts_with_separator:
  "c \<notin> set p \<Longrightarrow> starts_with p (u @ c # w) \<longleftrightarrow> starts_with p u"
proof (induction p u rule: starts_with.induct)
  case (2 p ps)
  then show ?case by auto
qed auto

lemma py_in_separator:
  "c \<notin> set p \<Longrightarrow> p \<noteq> [] \<Longrightarrow> py_in p (u @ c # w) \<longleftrightarrow> py_in p u \<or> py_in p w"
proof (induction u)
  case Nil
  then have "\<not> starts_with p (c # w)" by (cases p) auto
  with Nil show ?case by (simp add: py_in_Cons del: starts_with.simps)
next
  case (Cons a u)
  with starts_with_separator [of c p "a # u" w] show ?case
    by (simp add: py_in_Cons del: starts_with.simps)
qed

lemma py_replace_separator:
  assumes "c \<notin> set p" "p \<noteq> []"
  shows "py_replace p m (u @ c # w) = py_replace p m u @ c # py_replace p m w"
proof (induction u rule: length_induct)
  case (1 u)
  show ?case
  proof (cases u)
    case Nil
    have "\<not> starts_with p (c # w)" using assms by (cases p) auto
    with Nil assms(2) show ?thesis by (simp add: py_replace_Cons del: starts_with.simps)
  next
    case (Cons a u')
    show ?thesis
    proof (cases "starts_with p u")
      case True
      then obtain t where t: "u = p @ t" by (auto simp: starts_with_iff)
      with assms(2) have "length t < length u" by simp
      with 1 t assms(2) show ?thesis by (simp add: py_replace_hit)
    next
      case False
      then have no: "\<not> starts_with p (a # u' @ c # w)" "\<not> starts_with p (a # u')"
        using starts_with_separator [OF assms(1), of u w] Cons by simp_all
      have "py_replace p m (u' @ c # w) = py_replace p m u' @ c # py_replace p m w"
        using 1 Cons by simp
      with Cons no assms(2) show ?thesis
        by (simp add: py_replace_Cons del: starts_with.simps)
    qed
  qed
qed

text \<open>A pattern without brackets that is no part of the marker's word neither meets nor builds it.\<close>

definition marker_safe :: "string \<Rightarrow> bool" where
  "marker_safe p \<longleftrightarrow> p \<noteq> [] \<and> CHR ''['' \<notin> set p \<and> CHR '']'' \<notin> set p \<and> \<not> py_in p ''REDACTED''"

lemma marker_split:
  assumes "marker_safe p"
  shows "py_in p (u @ REDACTED @ w) \<longleftrightarrow> py_in p u \<or> py_in p w"
    and "py_replace p m (u @ REDACTED @ w) = py_replace p m u @ REDACTED @ py_replace p m w"
proof -
  have split: "REDACTED @ w = CHR ''['' # ''REDACTED'' @ CHR '']'' # w"
    by (simp add: REDACTED_def)
  have p: "p \<noteq> []" "CHR ''['' \<notin> set p" "CHR '']'' \<notin> set p" "\<not> py_in p ''REDACTED''"
    using assms by (simp_all add: marker_safe_def)
  have word: "py_replace p m ''REDACTED'' = ''REDACTED''"
    by (rule py_replace_absent [OF p(4)])
  show "py_in p (u @ REDACTED @ w) \<longleftrightarrow> py_in p u \<or> py_in p w"
    using p(4) unfolding split py_in_separator [OF p(2,1)] py_in_separator [OF p(3,1)] by simp
  show "py_replace p m (u @ REDACTED @ w) = py_replace p m u @ REDACTED @ py_replace p m w"
    unfolding split by (simp only: py_replace_separator [OF p(2,1)] py_replace_separator [OF p(3,1)] word)
      (simp add: REDACTED_def)
qed

section \<open>The first occurrence\<close>

text \<open>A text with the pattern is what comes before its first occurrence, the pattern and the rest.\<close>

lemma first_occurrence:
  assumes "py_in p s" "p \<noteq> []"
  obtains u t where "s = u @ p @ t" "\<not> py_in p u"
    "\<And>y m. py_replace p m (s @ y) = u @ m @ py_replace p m (t @ y)"
  using assms
proof (induction s arbitrary: thesis)
  case (Cons c s)
  show ?case
  proof (cases "starts_with p (c # s)")
    case True
    then obtain t where t: "c # s = p @ t" by (auto simp: starts_with_iff)
    have "py_replace p m ((c # s) @ y) = [] @ m @ py_replace p m (t @ y)" for y m
      unfolding t using Cons.prems(3) by (simp add: py_replace_hit)
    with Cons.prems(1) [of "[]" t] Cons.prems(3) t show ?thesis by simp
  next
    case False
    with Cons.prems(2) have "py_in p s" by (simp add: py_in_Cons del: starts_with.simps)
    then obtain u t where ut: "s = u @ p @ t" "\<not> py_in p u"
      "\<And>y m. py_replace p m (s @ y) = u @ m @ py_replace p m (t @ y)"
      using Cons.IH Cons.prems(3) by metis
    have no: "\<not> starts_with p (c # s @ y)" for y
    proof
      assume "starts_with p (c # s @ y)"
      then have "take (length p) (c # s @ y) = p" by (auto simp: starts_with_iff)
      moreover have "length p \<le> length (c # s)" using ut(1) by simp
      ultimately have "take (length p) (c # s) = p"
        by (metis append_Cons diff_is_0_eq append_Nil2 take0 take_append)
      then have "starts_with p (c # s)"
        unfolding starts_with_iff by (metis append_take_drop_id)
      with False show False by simp
    qed
    have "\<not> starts_with p (c # u)"
      using no [of "[]"] ut(1) unfolding starts_with_iff by (metis append_Cons append_Nil2 append_assoc)
    then have "\<not> py_in p (c # u)" using ut(2) by (simp add: py_in_Cons del: starts_with.simps)
    moreover have "py_replace p m ((c # s) @ y) = (c # u) @ m @ py_replace p m (t @ y)" for y m
      using no [of y] ut(3) Cons.prems(3) by (simp add: py_replace_Cons del: starts_with.simps)
    ultimately show ?thesis using Cons.prems(1) [of "c # u" t] ut(1) by simp
  qed
qed simp

lemma first_occurrence_self:
  assumes "py_in p s" "p \<noteq> []"
  obtains u t where "s = u @ p @ t" "\<not> py_in p u"
    "\<And>m. py_replace p m s = u @ m @ py_replace p m t"
    "\<And>y m. py_replace p m (s @ y) = u @ m @ py_replace p m (t @ y)"
  by (rule first_occurrence [OF assms]) (metis append_Nil2)

text \<open>After the replacement the pattern is gone.\<close>

lemma replaced_clean:
  assumes "marker_safe p"
  shows "\<not> py_in p (py_replace p REDACTED s)"
proof (induction s rule: length_induct)
  case (1 s)
  have "p \<noteq> []" using assms by (simp add: marker_safe_def)
  show ?case
  proof (cases "py_in p s")
    case True
    obtain u t where ut: "s = u @ p @ t" "\<not> py_in p u"
      "py_replace p REDACTED s = u @ REDACTED @ py_replace p REDACTED t"
      by (rule first_occurrence_self [OF True \<open>p \<noteq> []\<close>]) blast
    with 1 \<open>p \<noteq> []\<close> have "\<not> py_in p (py_replace p REDACTED t)" by simp
    with ut show ?thesis by (simp add: marker_split(1) [OF assms])
  qed (simp add: py_replace_absent)
qed

text \<open>Replacing a prefix first changes nothing.\<close>

lemma replace_prefix_first:
  assumes "marker_safe p"
  shows "py_replace p REDACTED (py_replace p REDACTED x @ y) = py_replace p REDACTED (x @ y)"
proof (induction x rule: length_induct)
  case (1 x)
  have p: "p \<noteq> []" using assms by (simp add: marker_safe_def)
  show ?case
  proof (cases "py_in p x")
    case True
    obtain u t where ut: "x = u @ p @ t" "\<not> py_in p u"
      "py_replace p REDACTED x = u @ REDACTED @ py_replace p REDACTED t"
      "py_replace p REDACTED (x @ y) = u @ REDACTED @ py_replace p REDACTED (t @ y)"
      by (rule first_occurrence_self [OF True p]) blast
    with 1 p have "py_replace p REDACTED (py_replace p REDACTED t @ y) = py_replace p REDACTED (t @ y)"
      by simp
    with ut show ?thesis
      by (simp add: marker_split(2) [OF assms] py_replace_absent)
  qed (simp add: py_replace_absent)
qed

text \<open>A clean text can let go of everything but one character less than the pattern.\<close>

lemma replace_after_clean:
  assumes "\<not> py_in p (e @ k)" and "p \<noteq> []" and "length p - 1 \<le> length k"
  shows "py_replace p m (e @ k @ y) = e @ py_replace p m (k @ y)"
  using assms(1)
proof (induction e)
  case (Cons c e)
  have "\<not> starts_with p (c # e @ k @ y)"
  proof
    assume "starts_with p (c # e @ k @ y)"
    then have "take (length p) ((c # e @ k) @ y) = p" by (auto simp: starts_with_iff)
    moreover have "length p \<le> length (c # e @ k)" using assms(3) by simp
    ultimately have "take (length p) (c # e @ k) = p"
      by (metis diff_is_0_eq append_Nil2 take0 take_append)
    then have "starts_with p (c # e @ k)"
      unfolding starts_with_iff by (metis append_take_drop_id)
    with Cons.prems show False by (simp add: py_in_Cons del: starts_with.simps)
  qed
  moreover have "\<not> py_in p (e @ k)"
    using Cons.prems by (simp add: py_in_Cons del: starts_with.simps)
  ultimately show ?case
    using Cons.IH assms(2) by (simp add: py_replace_Cons del: starts_with.simps)
qed simp

section \<open>Streaming is one replacement\<close>

lemma new_redactor_single: "p \<noteq> [] \<Longrightarrow>
   new_redactor [p] = \<lparr>rd_patterns = [p], rd_max_partial = length p, rd_carry = []\<rparr>"
  by (simp add: new_redactor_def)

text \<open>What is out and what is carried stand for the text seen so far, whatever follows.\<close>

lemma feed_single:
  assumes safe: "marker_safe p" and rd: "rd_patterns rd = [p]" "rd_max_partial rd = length p"
    and fed: "feed_text rd chunk = (out, rd')"
  shows "rd_patterns rd' = [p] \<and> rd_max_partial rd' = length p
     \<and> (\<forall>y. out @ py_replace p REDACTED (rd_carry rd' @ y)
          = py_replace p REDACTED (rd_carry rd @ chunk @ y))"
proof (cases "chunk = [] \<and> rd_carry rd = []")
  case True
  with fed rd show ?thesis by (auto simp: feed_text_def)
next
  case False
  have p: "p \<noteq> []" using safe by (simp add: marker_safe_def)
  define r where "r = py_replace p REDACTED (rd_carry rd @ chunk)"
  have clean: "\<not> py_in p r" unfolding r_def by (rule replaced_clean [OF safe])
  have again: "py_replace p REDACTED (r @ y) = py_replace p REDACTED (rd_carry rd @ chunk @ y)" for y
    using replace_prefix_first [OF safe, of "rd_carry rd @ chunk" y] by (simp add: r_def)
  let ?n = "length r - (length p - 1)"
  have cut: "py_replace p REDACTED (r @ y) = take ?n r @ py_replace p REDACTED (drop ?n r @ y)"
    if "length p - 1 \<le> length r" for y
    using replace_after_clean [of p "take ?n r" "drop ?n r" REDACTED y] clean p that
    by (simp add: append_assoc [symmetric] del: append_assoc)
  show ?thesis
  proof (cases "length p = 1 \<or> length p - 1 < length r")
    case True
    with fed rd False p cut again clean show ?thesis
      by (fastforce simp: feed_text_def Let_def redact_def r_def [symmetric] split: if_splits)
  next
    case False
    with fed rd \<open>\<not> (chunk = [] \<and> rd_carry rd = [])\<close> p again show ?thesis
      by (auto simp: feed_text_def Let_def redact_def r_def [symmetric] split: if_splits)
  qed
qed

lemma stream_single:
  assumes "marker_safe p"
  shows "rd_patterns rd = [p] \<Longrightarrow> rd_max_partial rd = length p \<Longrightarrow>
     stream_text rd chunks = py_replace p REDACTED (rd_carry rd @ concat chunks)"
proof (induction chunks arbitrary: rd)
  case Nil
  then show ?case by (simp add: flush_text_def redact_def)
next
  case (Cons c cs)
  obtain out rd' where fed: "feed_text rd c = (out, rd')" by fastforce
  from feed_single [OF assms Cons.prems this] Cons.IH [of rd'] show ?case
    by (simp add: fed)
qed

text \<open>C35: However a text is cut into chunks, streaming it through the redactor of one pattern gives the
  one-shot replacement of the whole text, and the pattern occurs nowhere in the output. The pattern has
  no brackets and is no part of the marker's own word.\<close>

theorem streaming_is_one_replacement:
  assumes "marker_safe p"
  shows "stream_text (new_redactor [p]) chunks = redact [p] (concat chunks)
    \<and> \<not> py_in p (stream_text (new_redactor [p]) chunks)"
  using stream_single [OF assms, of "new_redactor [p]" chunks] replaced_clean [OF assms]
    new_redactor_single [of p] assms
  by (simp add: redact_def marker_safe_def)

theorem streaming_is_one_replacement_witness:
  "stream_text (new_redactor [''s3cret'']) [''a s3c'', ''ret b''] = ''a [REDACTED] b''"
proof -
  have "marker_safe ''s3cret''" by code_simp
  from streaming_is_one_replacement [OF this, of "[''a s3c'', ''ret b'']"] show ?thesis
    by (simp only: conjunct1) code_simp
qed

text \<open>
  With two patterns chunks do matter: a short secret inside a long one is replaced as soon as it is
  complete, and the rest of the long one goes out. Over the whole text the long one wins, as the
  comment in \<open>__init__\<close> has it.
\<close>

lemma short_pattern_spoils_long:
  "stream_text (new_redactor [''abcdef'', ''bc'']) [''abc'', ''def''] = ''a[REDACTED]def''"
  "redact (rd_patterns (new_redactor [''abcdef'', ''bc''])) ''abcdef'' = ''[REDACTED]''"
  by code_simp+

end
