(* ===== verification/Worker_World.thy ===== *)
theory Worker_World
  imports Durable_Store_Properties Event_Dispatcher
begin

text \<open>
  The world one worker process acts in: the durable store it shares with other processes, the clocks,
  the harness adapters it calls and the trace of what it did. A coroutine of the code is an action: a
  function from an environment and a world to a fault or a value, and the next world. The environment
  answers everything the code under \<open>src/\<close> does not decide, the \<open>n\<close>-th await of a run consulting the
  \<open>n\<close>-th answer: what the other processes did to the store before a transaction, the two clocks,
  fresh identifiers, the reply of an adapter, and whether the task is cancelled there.
\<close>

section \<open>Faults\<close>

text \<open>
  What leaves a coroutine by an exception: an exception of the model, \<open>TimeoutError\<close>,
  \<open>asyncio.CancelledError\<close>, or any other one. \<open>Stuck\<close> is no exception: it stands for a retry loop
  that is still running when the patience of the environment ends, and no handler sees it.
\<close>

datatype (plugins only: code size) fault = Raised exn | TimedOut | Cancelled | Crashed | Stuck

fun fault_code :: "fault \<Rightarrow> error_code option" where
  "fault_code (Raised (DomainError code _ _)) = Some code"
| "fault_code _ = None"

text \<open>\<open>except Exception\<close>: not a cancellation.\<close>

definition is_exception :: "fault \<Rightarrow> bool" where
  "is_exception f \<longleftrightarrow> f \<noteq> Cancelled \<and> f \<noteq> Stuck"

section \<open>Actions\<close>

type_synonym ('env, 'w, 'e, 'a) action = "'env \<Rightarrow> 'w \<Rightarrow> ('e + 'a) \<times> 'w"

definition ret :: "'a \<Rightarrow> ('env, 'w, 'e, 'a) action" where
  "ret x = (\<lambda>E w. (Inr x, w))"

definition fail :: "'e \<Rightarrow> ('env, 'w, 'e, 'a) action" where
  "fail f = (\<lambda>E w. (Inl f, w))"

definition bind_action ::
  "('env, 'w, 'e, 'a) action \<Rightarrow> ('a \<Rightarrow> ('env, 'w, 'e, 'b) action) \<Rightarrow> ('env, 'w, 'e, 'b) action" where
  "bind_action a f = (\<lambda>E w. case a E w of (Inl e, w') \<Rightarrow> (Inl e, w') | (Inr x, w') \<Rightarrow> f x E w')"

lemma bind_action_assoc: "bind_action (bind_action a f) g = bind_action a (\<lambda>x. bind_action (f x) g)"
  by (intro ext) (simp add: bind_action_def split: prod.split sum.split)

abbreviation then_do ::
  "('env, 'w, 'e, 'a) action \<Rightarrow> ('env, 'w, 'e, 'b) action \<Rightarrow> ('env, 'w, 'e, 'b) action" where
  "then_do a b \<equiv> bind_action a (\<lambda>_. b)"

definition raise_error :: "error_code \<Rightarrow> string \<Rightarrow> ('env, 'w, fault, 'a) action" where
  "raise_error code message = fail (Raised (DomainError code message []))"

definition lift_result :: "'a result \<Rightarrow> ('env, 'w, fault, 'a) action" where
  "lift_result r = (case r of Inl e \<Rightarrow> fail (Raised e) | Inr x \<Rightarrow> ret x)"

text \<open>\<open>try: a except BaseException as e: h(e)\<close>.\<close>

definition attempt ::
  "('env, 'w, fault, 'a) action \<Rightarrow> (fault \<Rightarrow> ('env, 'w, fault, 'a) action) \<Rightarrow> ('env, 'w, fault, 'a) action" where
  "attempt a h = (\<lambda>E w. case a E w of
     (Inl e, w') \<Rightarrow> if e = Stuck then (Inl Stuck, w') else h e E w'
   | (Inr x, w') \<Rightarrow> (Inr x, w'))"

text \<open>\<open>with contextlib.suppress(Exception): a\<close>, and \<open>try: a finally: b\<close>.\<close>

definition suppress_exceptions :: "('env, 'w, fault, unit) action \<Rightarrow> ('env, 'w, fault, unit) action" where
  "suppress_exceptions a = attempt a (\<lambda>e. if is_exception e then ret () else fail e)"

definition ensure ::
  "('env, 'w, fault, 'a) action \<Rightarrow> ('env, 'w, fault, unit) action \<Rightarrow> ('env, 'w, fault, 'a) action" where
  "ensure a b = bind_action (attempt a (\<lambda>e. then_do b (fail e))) (\<lambda>x. then_do b (ret x))"

text \<open>
  A block whose handler needs the local variables at the point of the fault: the fault is paired with
  them on its way out.
\<close>

definition located :: "'l \<Rightarrow> ('env, 'w, fault, 'a) action \<Rightarrow> ('env, 'w, fault \<times> 'l, 'a) action" where
  "located l a = (\<lambda>E w. case a E w of (Inl e, w') \<Rightarrow> (Inl (e, l), w') | (Inr x, w') \<Rightarrow> (Inr x, w'))"

definition attempt_located ::
  "('env, 'w, fault \<times> 'l, 'a) action \<Rightarrow> (fault \<Rightarrow> 'l \<Rightarrow> ('env, 'w, fault, 'a) action)
     \<Rightarrow> ('env, 'w, fault, 'a) action" where
  "attempt_located a h = (\<lambda>E w. case a E w of
     (Inl (e, l), w') \<Rightarrow> if e = Stuck then (Inl Stuck, w') else h e l E w'
   | (Inr x, w') \<Rightarrow> (Inr x, w'))"

definition get_world :: "('env, 'w, 'e, 'w) action" where
  "get_world = (\<lambda>E w. (Inr w, w))"

definition modify :: "('w \<Rightarrow> 'w) \<Rightarrow> ('env, 'w, 'e, unit) action" where
  "modify f = (\<lambda>E w. (Inr (), f w))"

text \<open>A \<open>for\<close> loop over a list.\<close>

fun each :: "('a \<Rightarrow> ('env, 'w, 'e, unit) action) \<Rightarrow> 'a list \<Rightarrow> ('env, 'w, 'e, unit) action" where
  "each f [] = ret ()"
| "each f (x # xs) = then_do (f x) (each f xs)"

text \<open>
  \<open>while True: try: a; return except DomainError as exc: if exc.code is OPTIMISTIC_CONFLICT: continue; raise\<close>.
\<close>

definition is_conflict :: "fault \<Rightarrow> bool" where
  "is_conflict f \<longleftrightarrow> fault_code f = Some OPTIMISTIC_CONFLICT"

fun retry_conflicts :: "nat \<Rightarrow> ('env, 'w, fault, 'a) action \<Rightarrow> ('env, 'w, fault, 'a) action" where
  "retry_conflicts 0 a = fail Stuck"
| "retry_conflicts (Suc n) a = attempt a (\<lambda>e. if is_conflict e then retry_conflicts n a else fail e)"

section \<open>Sessions, processes and adapter calls\<close>

record harness_session =
  hs_conversation_id :: uuid
  hs_binding_id :: uuid
  hs_kind :: harness_kind
  hs_native_session_id :: "string option"
  hs_model :: "string option"
  hs_mode :: "string option"
  hs_effort :: "string option"

text \<open>
  The snapshot of a supervised process that the frames of its split service carry, and the mirror of
  it (\<open>remote/handle.py\<close>): a termination asked for here counts as forced before its frame arrives.
\<close>

record process_snapshot =
  ps_pid :: "int option"
  ps_returncode :: "int option"
  ps_redacted_stderr_tail :: string
  ps_forced :: bool
  ps_forced_reason :: "string option"
  ps_stderr_truncated :: bool
  ps_retained_stderr_bytes :: int

record process_handle =
  ph_snapshot :: process_snapshot
  ph_forced_locally :: bool
  ph_forced_reason_local :: "string option"

definition handle_forced :: "process_handle \<Rightarrow> bool" where
  "handle_forced h \<longleftrightarrow> ps_forced (ph_snapshot h) \<or> ph_forced_locally h"

definition handle_forced_reason :: "process_handle \<Rightarrow> string option" where
  "handle_forced_reason h = (if truthy_text (ps_forced_reason (ph_snapshot h))
     then ps_forced_reason (ph_snapshot h) else ph_forced_reason_local h)"

definition on_frame :: "process_snapshot \<Rightarrow> process_handle \<Rightarrow> process_handle" where
  "on_frame snapshot h = h\<lparr>ph_snapshot := snapshot\<rparr>"

definition mark_forced :: "string option \<Rightarrow> process_handle \<Rightarrow> process_handle" where
  "mark_forced reason h = h\<lparr>ph_forced_locally := True,
     ph_forced_reason_local := (case ph_forced_reason_local h of None \<Rightarrow> reason | Some r \<Rightarrow> Some r)\<rparr>"

datatype (plugins only: code size) native_call =
    ImportSeen "string set" "string set"
  | Probe harness_configuration
  | PrepareWorkspace harness_configuration
  | StartNative uuid harness_configuration
  | ResumeNative uuid harness_configuration string
  | Reattach harness_session split_stream_cursor
  | Submit harness_session uuid "uuid option" string "string option"
  | Steer harness_session uuid "uuid option" string
  | Interrupt harness_session
  | AnswerNative harness_session interaction_answer
  | ReadEvents harness_session
  | CloseNative harness_session
  | ForceTerminate uuid string

datatype (plugins only: code size) world_item =
    Wrote store_op
  | Called native_call
  | Published "conversation_event list"

datatype (plugins only: code size) setup_outcome =
    NoSetup
  | SetupRan string workspace_setup_status "int option" "int option" string
  | SetupBroke string workspace_setup_status "int option" string string "(string, json) dict"

text \<open>
  What an adapter call gives back: a fault, or the parts of the reply its caller reads. The process
  snapshot is that of the last frame that arrived before the call came back, whether it failed or not.
\<close>

record native_reply =
  rp_fault :: "fault option"
  rp_session :: harness_session
  rp_launch :: launch_snapshot
  rp_process :: "process_snapshot option"
  rp_accepted :: bool
  rp_setup_started :: "(string \<times> string \<times> string) option"
  rp_setup :: setup_outcome
  rp_events :: "event_payload list"

record environment =
  en_clock :: "nat \<Rightarrow> datetime"
  en_db_now :: "nat \<Rightarrow> datetime"
  en_uuids :: "nat \<Rightarrow> uuid_supply"
  en_others :: "nat \<Rightarrow> store \<Rightarrow> store"
  en_reply :: "nat \<Rightarrow> native_reply"
  en_cancelled :: "nat \<Rightarrow> bool"
  en_registered :: "harness_kind \<Rightarrow> bool"
  en_split_stream :: "harness_kind \<Rightarrow> bool"
  en_setup_hook :: "harness_kind \<Rightarrow> bool"
  en_patience :: nat
  en_max_runtimes :: int
  en_publish_fault :: "nat \<Rightarrow> fault option"
  en_resolve_path :: "nat \<Rightarrow> string \<Rightarrow> string option"
  en_is_dir :: "nat \<Rightarrow> string \<Rightarrow> bool"
  en_resolve_executable :: "nat \<Rightarrow> string \<Rightarrow> string result"
  en_blocked :: "nat \<Rightarrow> conversation_state \<Rightarrow> uuid \<Rightarrow> bool result"
  en_seen :: "nat \<Rightarrow> string list \<times> string list \<times> split_stream_cursor option"
  en_handoff :: "nat \<Rightarrow> uuid \<Rightarrow> string"

section \<open>The world\<close>

record world =
  w_store :: store
  w_tick :: nat
  w_trace :: "world_item list"

text \<open>After an await the task may find itself cancelled; what the await did stays done.\<close>

definition awaited ::
  "environment \<Rightarrow> nat \<Rightarrow> (fault + 'a) \<Rightarrow> 'z world_scheme \<Rightarrow> (fault + 'a) \<times> 'z world_scheme" where
  "awaited E n r w = (if en_cancelled E n then Inl Cancelled else r, w)"

text \<open>\<open>asyncio.shield(a)\<close>: a cancellation does not reach the shielded action.\<close>

definition shield :: "(environment, 'w, 'e, 'a) action \<Rightarrow> (environment, 'w, 'e, 'a) action" where
  "shield a = (\<lambda>E w. a (E\<lparr>en_cancelled := \<lambda>_. False\<rparr>) w)"

text \<open>A write transaction on the store as the others left it. A failed one leaves no trace.\<close>

definition transact :: "store_op \<Rightarrow> (environment, 'z world_scheme, fault, unit) action" where
  "transact op = (\<lambda>E w.
     let n = w_tick w; db = en_others E n (w_store w) in
     case apply_store_op (en_db_now E n) op db of
       Inl e \<Rightarrow> awaited E n (Inl (Raised e)) (w\<lparr>w_store := db, w_tick := Suc n\<rparr>)
     | Inr db' \<Rightarrow> awaited E n (Inr ()) (w\<lparr>w_store := db', w_tick := Suc n, w_trace := w_trace w @ [Wrote op]\<rparr>))"

text \<open>
  The same for a transaction that returns a value: \<open>f\<close> is the transaction \<open>op\<close> stands for in the trace,
  which the uses below state operation by operation.
\<close>

definition transact_with ::
  "(datetime \<Rightarrow> 'a transaction) \<Rightarrow> store_op \<Rightarrow> (environment, 'z world_scheme, fault, 'a) action" where
  "transact_with f op = (\<lambda>E w.
     let n = w_tick w; db = en_others E n (w_store w) in
     case f (en_db_now E n) db of
       Inl e \<Rightarrow> awaited E n (Inl (Raised e)) (w\<lparr>w_store := db, w_tick := Suc n\<rparr>)
     | Inr (x, db') \<Rightarrow> awaited E n (Inr x) (w\<lparr>w_store := db', w_tick := Suc n, w_trace := w_trace w @ [Wrote op]\<rparr>))"

text \<open>A read, seeing the store as the others left it.\<close>

definition read_store :: "(store \<Rightarrow> 'a result) \<Rightarrow> (environment, 'z world_scheme, fault, 'a) action" where
  "read_store f = (\<lambda>E w.
     let n = w_tick w; db = en_others E n (w_store w) in
     awaited E n (case f db of Inl e \<Rightarrow> Inl (Raised e) | Inr x \<Rightarrow> Inr x)
       (w\<lparr>w_store := db, w_tick := Suc n\<rparr>))"

definition worker_snapshot :: "uuid \<Rightarrow> (environment, 'z world_scheme, fault, conversation_state) action" where
  "worker_snapshot cid = read_store (\<lambda>db. get_worker_snapshot db cid)"

definition owner_snapshot ::
  "uuid \<Rightarrow> string \<Rightarrow> (environment, 'z world_scheme, fault, conversation_state) action" where
  "owner_snapshot cid owner_id = read_store (\<lambda>db. get_snapshot db cid owner_id)"

text \<open>\<open>self._clock()\<close> and the supply of one operation's \<open>uuid4()\<close> calls; neither awaits.\<close>

definition read_clock :: "(environment, 'z world_scheme, 'e, datetime) action" where
  "read_clock = (\<lambda>E w. (Inr (en_clock E (w_tick w)), w))"

definition fresh_uuids :: "(environment, 'z world_scheme, 'e, uuid_supply) action" where
  "fresh_uuids = (\<lambda>E w. (Inr (en_uuids E (w_tick w)), w\<lparr>w_tick := Suc (w_tick w)\<rparr>))"

text \<open>A call of an adapter: traced, then answered.\<close>

definition call_native :: "native_call \<Rightarrow> (environment, 'z world_scheme, fault, native_reply) action" where
  "call_native c = (\<lambda>E w.
     let n = w_tick w; r = en_reply E n in
     awaited E n (case rp_fault r of Some f \<Rightarrow> Inl f | None \<Rightarrow> Inr r)
       (w\<lparr>w_tick := Suc n, w_trace := w_trace w @ [Called c]\<rparr>))"

text \<open>
  The committed events are announced, if the publisher does not fail; \<open>_safe_publish\<close> only logs that it did.
\<close>

definition publish :: "conversation_event list \<Rightarrow> (environment, 'z world_scheme, fault, unit) action" where
  "publish events = (\<lambda>E w. let n = w_tick w in
     case en_publish_fault E n of
       Some f \<Rightarrow> awaited E n (Inl f) (w\<lparr>w_tick := Suc n\<rparr>)
     | None \<Rightarrow> awaited E n (Inr ()) (w\<lparr>w_tick := Suc n, w_trace := w_trace w @ [Published events]\<rparr>))"

definition safe_publish :: "conversation_event list \<Rightarrow> (environment, 'z world_scheme, fault, unit) action" where
  "safe_publish events = (if events = [] then ret () else suppress_exceptions (publish events))"

definition patience :: "(environment, 'w, 'e, nat) action" where
  "patience = (\<lambda>E w. (Inr (en_patience E), w))"

section \<open>Steps that cannot fail\<close>

named_theorems run_simps "running the steps that cannot fail"

lemma run_get_world [run_simps]: "bind_action get_world f E w = f w E w"
  by (simp add: bind_action_def get_world_def)

lemma run_modify [run_simps]: "bind_action (modify g) f E w = f () E (g w)"
  by (simp add: bind_action_def modify_def)

lemma run_clock [run_simps]: "bind_action read_clock f E w = f (en_clock E (w_tick w)) E w"
  by (simp add: bind_action_def read_clock_def)

lemma run_uuids [run_simps]:
  "bind_action fresh_uuids f E w = f (en_uuids E (w_tick w)) E (w\<lparr>w_tick := Suc (w_tick w)\<rparr>)"
  by (simp add: bind_action_def fresh_uuids_def)

lemma run_patience [run_simps]: "bind_action patience f E w = f (en_patience E) E w"
  by (simp add: bind_action_def patience_def)

lemma run_ret [run_simps]: "bind_action (ret x) f = f x" "ret x E w = (Inr x, w)"
  by (simp_all add: bind_action_def ret_def)

lemma run_fail [run_simps]: "bind_action (fail e) f = fail e" "fail e E w = (Inl e, w)"
  by (simp_all add: bind_action_def fail_def)

lemma run_lift [run_simps]: "lift_result (Inl e) = fail (Raised e)" "lift_result (Inr x) = ret x"
  by (simp_all add: lift_result_def)

section \<open>What an action adds to the trace\<close>

text \<open>
  An action only appends to the trace; \<open>emits P a\<close> says that whatever the environment, what it
  appends satisfies \<open>P\<close>.
\<close>

named_theorems emits_rules "what actions append to the trace"

definition emits :: "(world_item list \<Rightarrow> bool) \<Rightarrow> (environment, 'z world_scheme, 'e, 'a) action \<Rightarrow> bool" where
  "emits P a \<longleftrightarrow> (\<forall>E w. \<exists>xs. w_trace (snd (a E w)) = w_trace w @ xs \<and> P xs)"

lemma emitsI: "(\<And>E w. \<exists>xs. w_trace (snd (a E w)) = w_trace w @ xs \<and> P xs) \<Longrightarrow> emits P a"
  by (simp add: emits_def)

lemma emitsD: "emits P a \<Longrightarrow> \<exists>xs. w_trace (snd (a E w)) = w_trace w @ xs \<and> P xs"
  by (simp add: emits_def)

lemma emits_mono: "emits P a \<Longrightarrow> (\<And>xs. P xs \<Longrightarrow> Q xs) \<Longrightarrow> emits Q a"
  unfolding emits_def by blast

text \<open>A class of traces that contains the empty one and is closed under concatenation.\<close>

definition closed_class :: "(world_item list \<Rightarrow> bool) \<Rightarrow> bool" where
  "closed_class P \<longleftrightarrow> P [] \<and> (\<forall>xs ys. P xs \<longrightarrow> P ys \<longrightarrow> P (xs @ ys))"

lemma closed_list_all: "closed_class (list_all p)"
  by (simp add: closed_class_def)

lemma emits_silent: "P [] \<Longrightarrow> (\<And>E w. w_trace (snd (a E w)) = w_trace w) \<Longrightarrow> emits P a"
  by (rule emitsI) auto

lemma emits_compose:
  assumes "emits P a" and "\<And>x. emits Q (f x)"
    and "\<And>xs. P xs \<Longrightarrow> R xs" and "\<And>xs ys. P xs \<Longrightarrow> Q ys \<Longrightarrow> R (xs @ ys)"
  shows "emits R (bind_action a f)"
proof (rule emitsI)
  fix E w
  obtain xs where xs: "w_trace (snd (a E w)) = w_trace w @ xs" "P xs"
    using emitsD [OF assms(1)] by blast
  show "\<exists>zs. w_trace (snd (bind_action a f E w)) = w_trace w @ zs \<and> R zs"
  proof (cases "a E w")
    case (Pair r w')
    show ?thesis
    proof (cases r)
      case (Inl e)
      with Pair xs assms(3) show ?thesis by (auto simp: bind_action_def)
    next
      case (Inr x)
      obtain ys where "w_trace (snd (f x E w')) = w_trace w' @ ys" "Q ys"
        using emitsD [OF assms(2)] by blast
      with Pair Inr xs assms(4) show ?thesis by (auto simp: bind_action_def)
    qed
  qed
qed

lemma emits_attempt_compose:
  assumes "emits P a" and "\<And>e. emits Q (h e)"
    and "\<And>xs. P xs \<Longrightarrow> R xs" and "\<And>xs ys. P xs \<Longrightarrow> Q ys \<Longrightarrow> R (xs @ ys)"
  shows "emits R (attempt a h)"
proof (rule emitsI)
  fix E w
  obtain xs where xs: "w_trace (snd (a E w)) = w_trace w @ xs" "P xs"
    using emitsD [OF assms(1)] by blast
  show "\<exists>zs. w_trace (snd (attempt a h E w)) = w_trace w @ zs \<and> R zs"
  proof (cases "a E w")
    case (Pair r w')
    show ?thesis
    proof (cases r)
      case (Inl e)
      obtain ys where "w_trace (snd (h e E w')) = w_trace w' @ ys" "Q ys"
        using emitsD [OF assms(2)] by blast
      with Pair Inl xs assms(3,4) show ?thesis by (auto simp: attempt_def)
    next
      case (Inr x)
      with Pair xs assms(3) show ?thesis by (auto simp: attempt_def)
    qed
  qed
qed

lemma emits_attempt_located_compose:
  assumes "emits P a" and "\<And>e l. emits Q (h e l)"
    and "\<And>xs. P xs \<Longrightarrow> R xs" and "\<And>xs ys. P xs \<Longrightarrow> Q ys \<Longrightarrow> R (xs @ ys)"
  shows "emits R (attempt_located a h)"
proof (rule emitsI)
  fix E w
  obtain xs where xs: "w_trace (snd (a E w)) = w_trace w @ xs" "P xs"
    using emitsD [OF assms(1)] by blast
  show "\<exists>zs. w_trace (snd (attempt_located a h E w)) = w_trace w @ zs \<and> R zs"
  proof (cases "a E w")
    case (Pair r w')
    show ?thesis
    proof (cases r)
      case (Inl el)
      obtain e l where el: "el = (e, l)" by fastforce
      obtain ys where "w_trace (snd (h e l E w')) = w_trace w' @ ys" "Q ys"
        using emitsD [OF assms(2)] by blast
      with Pair Inl el xs assms(3,4) show ?thesis by (auto simp: attempt_located_def)
    next
      case (Inr x)
      with Pair xs assms(3) show ?thesis by (auto simp: attempt_located_def)
    qed
  qed
qed

text \<open>The rules of such a class, once for all of them.\<close>

locale trace_class =
  fixes P :: "world_item list \<Rightarrow> bool"
  assumes empty_in: "P []"
    and append_in: "P xs \<Longrightarrow> P ys \<Longrightarrow> P (xs @ ys)"
begin

lemma emits_ret: "emits P (ret x)"
  by (rule emits_silent) (simp_all add: ret_def empty_in)

lemma emits_fail: "emits P (fail e)"
  by (rule emits_silent) (simp_all add: fail_def empty_in)

lemma emits_raise: "emits P (raise_error c m)"
  by (simp add: raise_error_def emits_fail)

lemma emits_lift: "emits P (lift_result r)"
  by (simp add: lift_result_def emits_fail emits_ret split: sum.split)

lemma emits_bind: "emits P a \<Longrightarrow> (\<And>x. emits P (f x)) \<Longrightarrow> emits P (bind_action a f)"
  by (rule emits_compose [where P = P and Q = P]) (simp_all add: append_in)

lemma emits_attempt: "emits P a \<Longrightarrow> (\<And>e. emits P (h e)) \<Longrightarrow> emits P (attempt a h)"
  by (rule emits_attempt_compose [where P = P and Q = P]) (simp_all add: append_in)

lemma emits_attempt_located:
  "emits P a \<Longrightarrow> (\<And>e l. emits P (h e l)) \<Longrightarrow> emits P (attempt_located a h)"
  by (rule emits_attempt_located_compose [where P = P and Q = P]) (simp_all add: append_in)

lemma emits_suppress: "emits P a \<Longrightarrow> emits P (suppress_exceptions a)"
  unfolding suppress_exceptions_def by (rule emits_attempt) (simp_all add: emits_ret emits_fail)

lemma emits_ensure: "emits P a \<Longrightarrow> emits P b \<Longrightarrow> emits P (ensure a b)"
  unfolding ensure_def by (intro emits_bind emits_attempt emits_ret emits_fail)

lemma emits_get_world: "emits P get_world"
  by (rule emits_silent) (simp_all add: get_world_def empty_in)

lemma emits_modify: "(\<And>w. w_trace (f w) = w_trace w) \<Longrightarrow> emits P (modify f)"
  by (rule emits_silent) (simp_all add: modify_def empty_in)

lemma emits_each: "(\<And>x. emits P (f x)) \<Longrightarrow> emits P (each f xs)"
  by (induction xs) (simp_all add: emits_ret emits_bind)

lemma emits_retry: "emits P a \<Longrightarrow> emits P (retry_conflicts n a)"
proof (induction n)
  case (Suc n)
  then show ?case by (auto intro!: emits_attempt simp: emits_fail)
qed (simp add: emits_fail)

lemma emits_read: "emits P (read_store f)"
  by (rule emits_silent) (simp_all add: read_store_def Let_def awaited_def empty_in)

lemma emits_snapshots: "emits P (worker_snapshot cid)" "emits P (owner_snapshot cid owner)"
  by (simp_all add: worker_snapshot_def owner_snapshot_def emits_read)

lemma emits_clock: "emits P read_clock"
  by (rule emits_silent) (simp_all add: read_clock_def empty_in)

lemma emits_uuids: "emits P fresh_uuids"
  by (rule emits_silent) (simp_all add: fresh_uuids_def empty_in)

lemma emits_patience: "emits P patience"
  by (rule emits_silent) (simp_all add: patience_def empty_in)

lemma emits_transact: "P [Wrote op] \<Longrightarrow> emits P (transact op)"
  by (rule emitsI) (auto simp: transact_def Let_def awaited_def empty_in split: sum.split)

lemma emits_call: "P [Called c] \<Longrightarrow> emits P (call_native c)"
  by (rule emitsI) (auto simp: call_native_def Let_def awaited_def)

lemma emits_transact_with: "P [Wrote op] \<Longrightarrow> emits P (transact_with f op)"
  by (rule emitsI) (auto simp: transact_with_def Let_def awaited_def empty_in split: sum.split)

lemma emits_plain_publish: "P [Published es] \<Longrightarrow> emits P (publish es)"
  by (rule emitsI) (auto simp: publish_def Let_def awaited_def empty_in split: option.split)

lemma emits_publish: "P [Published es] \<Longrightarrow> emits P (safe_publish es)"
  by (simp add: safe_publish_def emits_ret emits_suppress emits_plain_publish)

lemma emits_shield:
  assumes "emits P a"
  shows "emits P (shield a)"
proof (rule emitsI)
  show "\<exists>xs. w_trace (snd (shield a E w)) = w_trace w @ xs \<and> P xs" for E w
    unfolding shield_def by (rule emitsD [OF assms])
qed

lemma emits_located:
  assumes "emits P a"
  shows "emits P (located l a)"
proof (rule emitsI)
  fix E w
  show "\<exists>xs. w_trace (snd (located l a E w)) = w_trace w @ xs \<and> P xs"
    using emitsD [OF assms, of E w]
    by (cases "a E w") (auto simp: located_def split: sum.split)
qed

lemmas emits_all = emits_ret emits_fail emits_raise emits_lift emits_bind emits_attempt
  emits_attempt_located emits_suppress emits_ensure emits_get_world emits_each emits_retry emits_read
  emits_snapshots emits_clock emits_uuids emits_patience emits_transact emits_transact_with emits_call
  emits_plain_publish emits_publish
  emits_shield emits_located

end

text \<open>Traces all of whose items have a property.\<close>

interpretation items: trace_class "list_all p" for p
  by unfold_locales simp_all

lemmas [emits_rules] = items.emits_all items.emits_modify

section \<open>What precedes what in a trace\<close>

text \<open>Every \<open>p\<close> has a \<open>q\<close> before it.\<close>

fun preceded :: "('a \<Rightarrow> bool) \<Rightarrow> ('a \<Rightarrow> bool) \<Rightarrow> 'a list \<Rightarrow> bool" where
  "preceded p q [] = True"
| "preceded p q (x # xs) = (\<not> p x \<and> (q x \<or> preceded p q xs))"

lemma preceded_free: "list_all (\<lambda>x. \<not> p x) xs \<Longrightarrow> preceded p q xs"
  by (induction xs) auto

lemma preceded_after: "list_all (\<lambda>x. \<not> p x) xs \<Longrightarrow> preceded p q ys \<Longrightarrow> preceded p q (xs @ ys)"
  by (induction xs) auto

lemma preceded_before: "preceded p q xs \<Longrightarrow> list_all (\<lambda>x. \<not> p x) ys \<Longrightarrow> preceded p q (xs @ ys)"
  by (induction xs) (auto intro: preceded_free)

text \<open>A write that must succeed before the rest runs.\<close>

lemma emits_transact_then:
  assumes "P []" and "\<And>xs. P (Wrote op # xs)"
    and "emits (\<lambda>_. True) b"
  shows "emits P (then_do (transact op) b)"
proof (rule emitsI)
  fix E :: environment and w :: "'a world_scheme"
  let ?n = "w_tick w" and ?db = "en_others E (w_tick w) (w_store w)"
  show "\<exists>xs. w_trace (snd (then_do (transact op) b E w)) = w_trace w @ xs \<and> P xs"
  proof (cases "apply_store_op (en_db_now E ?n) op ?db")
    case (Inl e)
    then have "w_trace (snd (then_do (transact op) b E w)) = w_trace w @ []"
      by (simp add: bind_action_def transact_def Let_def awaited_def)
    with assms(1) show ?thesis by blast
  next
    case (Inr db)
    let ?w = "w\<lparr>w_store := db, w_tick := Suc ?n, w_trace := w_trace w @ [Wrote op]\<rparr>"
    obtain xs where xs: "w_trace (snd (b E ?w)) = w_trace ?w @ xs" using emitsD [OF assms(3), of E ?w] by blast
    have "w_trace (snd (then_do (transact op) b E w)) = w_trace w @ Wrote op # (if en_cancelled E ?n then [] else xs)"
      using Inr xs by (simp add: bind_action_def transact_def Let_def awaited_def)
    with assms(2) show ?thesis by blast
  qed
qed

lemma preceded_append: "preceded p q xs \<Longrightarrow> preceded p q ys \<Longrightarrow> preceded p q (xs @ ys)"
  by (induction xs) auto

interpretation recorded: trace_class "preceded p q" for p q
  by unfold_locales (simp_all add: preceded_append)

lemma emits_preceded_free: "emits (list_all (\<lambda>i. \<not> p i)) a \<Longrightarrow> emits (preceded p q) a"
  by (erule emits_mono) (rule preceded_free)

lemma emits_anything: "emits (list_all (\<lambda>_. True)) a \<Longrightarrow> emits (\<lambda>_. True) a"
  by (erule emits_mono) simp

text \<open>A value read from the store is one some store gives.\<close>

lemma emits_read_then:
  fixes g :: "'a \<Rightarrow> (environment, 'z world_scheme, fault, 'b) action"
  assumes "P []" and "\<And>x db. f db = Inr x \<Longrightarrow> emits P (g x)"
  shows "emits P (bind_action (read_store f) g)"
proof (rule emitsI)
  fix E :: environment and w :: "'z world_scheme"
  let ?n = "w_tick w" and ?db = "en_others E (w_tick w) (w_store w)"
  show "\<exists>xs. w_trace (snd (bind_action (read_store f) g E w)) = w_trace w @ xs \<and> P xs"
  proof (cases "en_cancelled E ?n \<or> (\<exists>e. f ?db = Inl e)")
    case True
    then have "w_trace (snd (bind_action (read_store f) g E w)) = w_trace w @ []"
      by (auto simp: bind_action_def read_store_def Let_def awaited_def split: sum.split)
    with assms(1) show ?thesis by blast
  next
    case False
    then obtain x where x: "f ?db = Inr x" by (cases "f ?db") auto
    from emitsD [OF assms(2) [OF x], of E "w\<lparr>w_store := ?db, w_tick := Suc ?n\<rparr>"] False x
    show ?thesis by (auto simp: bind_action_def read_store_def Let_def awaited_def)
  qed
qed

lemma emits_publish_then:
  fixes b :: "(environment, 'z world_scheme, fault, 'b) action"
  assumes "P []" and "\<And>xs. P (Published es # xs)" and "emits (\<lambda>_. True) b"
  shows "emits P (then_do (publish es) b)"
proof (rule emitsI)
  fix E :: environment and w :: "'z world_scheme"
  let ?n = "w_tick w"
  show "\<exists>xs. w_trace (snd (then_do (publish es) b E w)) = w_trace w @ xs \<and> P xs"
  proof (cases "en_publish_fault E ?n")
    case (Some f)
    then have "w_trace (snd (then_do (publish es) b E w)) = w_trace w @ []"
      by (simp add: bind_action_def publish_def Let_def awaited_def)
    with assms(1) show ?thesis by blast
  next
    case None
    let ?w = "w\<lparr>w_tick := Suc ?n, w_trace := w_trace w @ [Published es]\<rparr>"
    obtain xs where xs: "w_trace (snd (b E ?w)) = w_trace ?w @ xs" using emitsD [OF assms(3), of E ?w] by blast
    have "w_trace (snd (then_do (publish es) b E w)) = w_trace w @ Published es # (if en_cancelled E ?n then [] else xs)"
      using None xs by (simp add: bind_action_def publish_def Let_def awaited_def)
    with assms(2) show ?thesis by blast
  qed
qed

section \<open>What an action keeps\<close>

text \<open>
  \<open>keeps A I a\<close>: in every environment that satisfies \<open>A\<close>, the action leads from worlds with \<open>I\<close> to
  worlds with \<open>I\<close>, whether it returns or raises. A frame condition is an \<open>I\<close> that compares with a
  fixed earlier world.
\<close>

named_theorems keeps_rules "what actions keep"

definition keeps ::
  "(environment \<Rightarrow> bool) \<Rightarrow> ('w \<Rightarrow> bool) \<Rightarrow> (environment, 'w, 'e, 'a) action \<Rightarrow> bool" where
  "keeps A I a \<longleftrightarrow> (\<forall>E w. A E \<longrightarrow> I w \<longrightarrow> I (snd (a E w)))"

lemma keepsD: "keeps A I a \<Longrightarrow> A E \<Longrightarrow> I w \<Longrightarrow> I (snd (a E w))"
  by (simp add: keeps_def)

lemma keeps_ret [keeps_rules]: "keeps A I (ret x)"
  by (simp add: keeps_def ret_def)

lemma keeps_fail [keeps_rules]: "keeps A I (fail e)"
  by (simp add: keeps_def fail_def)

lemma keeps_raise [keeps_rules]: "keeps A I (raise_error c m)"
  by (simp add: raise_error_def keeps_fail)

lemma keeps_lift [keeps_rules]: "keeps A I (lift_result r)"
  by (simp add: lift_result_def keeps_fail keeps_ret split: sum.split)

lemma keeps_bind [keeps_rules]: "keeps A I a \<Longrightarrow> (\<And>x. keeps A I (f x)) \<Longrightarrow> keeps A I (bind_action a f)"
  unfolding keeps_def bind_action_def
  by (auto split: prod.split sum.split) (metis snd_conv)+

lemma keeps_attempt [keeps_rules]: "keeps A I a \<Longrightarrow> (\<And>e. keeps A I (h e)) \<Longrightarrow> keeps A I (attempt a h)"
  unfolding keeps_def attempt_def
  by (auto split: prod.split sum.split) (metis snd_conv)+

lemma keeps_attempt_located [keeps_rules]:
  "keeps A I a \<Longrightarrow> (\<And>e l. keeps A I (h e l)) \<Longrightarrow> keeps A I (attempt_located a h)"
  unfolding keeps_def attempt_located_def
  by (auto split: prod.split sum.split) (metis snd_conv)+

lemma keeps_located [keeps_rules]: "keeps A I a \<Longrightarrow> keeps A I (located l a)"
  unfolding keeps_def located_def
  by (auto split: prod.split sum.split) (metis snd_conv)+

lemma keeps_suppress [keeps_rules]: "keeps A I a \<Longrightarrow> keeps A I (suppress_exceptions a)"
  unfolding suppress_exceptions_def by (rule keeps_attempt) (simp_all add: keeps_ret keeps_fail)

lemma keeps_ensure [keeps_rules]: "keeps A I a \<Longrightarrow> keeps A I b \<Longrightarrow> keeps A I (ensure a b)"
  unfolding ensure_def by (intro keeps_bind keeps_attempt keeps_ret keeps_fail)

lemma keeps_get_world [keeps_rules]: "keeps A I get_world"
  by (simp add: keeps_def get_world_def)

lemma keeps_modify: "(\<And>w. I w \<Longrightarrow> I (f w)) \<Longrightarrow> keeps A I (modify f)"
  by (simp add: keeps_def modify_def)

lemma keeps_each [keeps_rules]: "(\<And>x. keeps A I (f x)) \<Longrightarrow> keeps A I (each f xs)"
  by (induction xs) (simp_all add: keeps_ret keeps_bind)

lemma keeps_retry [keeps_rules]: "keeps A I a \<Longrightarrow> keeps A I (retry_conflicts n a)"
proof (induction n)
  case (Suc n)
  then show ?case by (auto intro!: keeps_attempt simp: keeps_fail)
qed (simp add: keeps_fail)

lemma keeps_clock [keeps_rules]: "keeps A I read_clock"
  by (simp add: keeps_def read_clock_def)

lemma keeps_patience [keeps_rules]: "keeps A I patience"
  by (simp add: keeps_def patience_def)

lemma keeps_shield:
  "(\<And>E. A E \<Longrightarrow> A (E\<lparr>en_cancelled := \<lambda>_. False\<rparr>)) \<Longrightarrow> keeps A I a \<Longrightarrow> keeps A I (shield a)"
  by (simp add: keeps_def shield_def)

text \<open>A condition on the tables of the process: store, ticks and trace do not matter to it.\<close>

locale process_condition =
  fixes I :: "'z world_scheme \<Rightarrow> bool"
  assumes outside: "I w \<Longrightarrow> I (w\<lparr>w_store := s, w_tick := t, w_trace := tr\<rparr>)"
begin

lemma outside_parts: "I w \<Longrightarrow> I (w\<lparr>w_store := s, w_tick := t\<rparr>)" "I w \<Longrightarrow> I (w\<lparr>w_tick := t, w_trace := tr\<rparr>)"
  "I w \<Longrightarrow> I (w\<lparr>w_tick := t\<rparr>)" "I w \<Longrightarrow> I (w\<lparr>w_trace := tr\<rparr>)"
proof -
  show "I (w\<lparr>w_store := s, w_tick := t\<rparr>)" if "I w"
    using outside [OF that, where s = s and t = t and tr = "w_trace w"] by simp
  show "I (w\<lparr>w_tick := t, w_trace := tr\<rparr>)" if "I w"
    using outside [OF that, where s = "w_store w" and t = t and tr = tr] by simp
  show "I (w\<lparr>w_tick := t\<rparr>)" if "I w"
    using outside [OF that, where s = "w_store w" and t = t and tr = "w_trace w"] by simp
  show "I (w\<lparr>w_trace := tr\<rparr>)" if "I w"
    using outside [OF that, where s = "w_store w" and t = "w_tick w" and tr = tr] by simp
qed

lemma keeps_transact: "keeps A I (transact op)"
  by (auto simp: keeps_def transact_def Let_def awaited_def intro: outside outside_parts split: sum.split)

lemma keeps_read: "keeps A I (read_store f)"
  by (auto simp: keeps_def read_store_def Let_def awaited_def intro: outside_parts)

lemma keeps_snapshots: "keeps A I (worker_snapshot cid)" "keeps A I (owner_snapshot cid owner)"
  by (simp_all add: worker_snapshot_def owner_snapshot_def keeps_read)

lemma keeps_uuids: "keeps A I fresh_uuids"
  by (auto simp: keeps_def fresh_uuids_def intro: outside_parts)

lemma keeps_call: "keeps A I (call_native c)"
  by (auto simp: keeps_def call_native_def Let_def awaited_def intro: outside_parts)

lemma keeps_transact_with: "keeps A I (transact_with f op)"
  by (auto simp: keeps_def transact_with_def Let_def awaited_def intro: outside outside_parts
      split: sum.split prod.split)

lemma keeps_plain_publish: "keeps A I (publish es)"
  by (auto simp: keeps_def publish_def Let_def awaited_def intro: outside_parts split: option.split)

lemma keeps_publish: "keeps A I (safe_publish es)"
  by (simp add: safe_publish_def keeps_ret keeps_suppress keeps_plain_publish)

lemmas keeps_world = keeps_transact keeps_transact_with keeps_read keeps_snapshots keeps_uuids keeps_call
  keeps_plain_publish keeps_publish

end

end
