(* ===== verification/Runtime_Processes.thy ===== *)
theory Runtime_Processes
  imports Worker_World
begin

text \<open>
  The runtimes a worker keeps (\<open>src/talktoharnesses/runtime/manager.py\<close>): the live one of a
  conversation and the candidates of a switch, each with its session, its supervised process and the
  process row that records this incarnation, and what an event of the process does to the aggregate,
  the row and the log.
\<close>

section \<open>Managed runtimes\<close>

record managed_runtime =
  mr_conversation_id :: uuid
  mr_owner_id :: string
  mr_session :: harness_session
  mr_process :: "process_handle option"
  mr_process_id :: uuid
  mr_process_record :: process_row
  mr_launch :: launch_snapshot
  mr_worker_id :: "string option"
  mr_fence :: "int option"
  mr_closing :: bool
  mr_closed :: bool
  mr_terminal_persisted :: bool
  mr_stderr_truncation_persisted :: bool

text \<open>
  A \<open>ManagedRuntime\<close> is a shared mutable object: the tables hold its number, \<open>mg_objects\<close> the object.
\<close>

record managers = world +
  mg_objects :: "(nat, managed_runtime) dict"
  mg_runtimes :: "(uuid, nat) dict"
  mg_candidates :: "(uuid, nat) dict"
  mg_shutting_down :: bool

abbreviation "managed_of w tok \<equiv> the (dict_get (mg_objects w) tok)"

definition update_managed ::
  "nat \<Rightarrow> (managed_runtime \<Rightarrow> managed_runtime) \<Rightarrow> 'z managers_scheme \<Rightarrow> 'z managers_scheme" where
  "update_managed tok f w = w\<lparr>mg_objects := map (\<lambda>(i, m). (i, if i = tok then f m else m)) (mg_objects w)\<rparr>"

definition get_managed :: "nat \<Rightarrow> (environment, 'z managers_scheme, 'e, managed_runtime) action" where
  "get_managed tok = (\<lambda>E w. (Inr (managed_of w tok), w))"

definition change_managed ::
  "nat \<Rightarrow> (managed_runtime \<Rightarrow> managed_runtime) \<Rightarrow> (environment, 'z managers_scheme, 'e, unit) action" where
  "change_managed tok f = modify (update_managed tok f)"

lemma run_get_managed [run_simps]: "bind_action (get_managed tok) f E w = f (managed_of w tok) E w"
  by (simp add: bind_action_def get_managed_def)

lemma run_change [run_simps]: "bind_action (change_managed tok g) f E w = f () E (update_managed tok g w)"
  by (simp add: change_managed_def run_simps)

definition new_process_row ::
  "uuid \<Rightarrow> uuid \<Rightarrow> process_status \<Rightarrow> int option \<Rightarrow> datetime option \<Rightarrow> process_row" where
  "new_process_row cid bid status pid started_at =
     \<lparr>pr_conversation_id = cid, pr_binding_id = Some bid, pr_status = status, pr_pid = pid,
      pr_started_at = started_at, pr_exited_at = None, pr_orphaned_at = None, pr_exit_code = None,
      pr_redacted_stderr_tail = []\<rparr>"

text \<open>\<open>get_runtime\<close>: a runtime being closed is no longer handed out.\<close>

definition get_runtime :: "uuid \<Rightarrow> 'z managers_scheme \<Rightarrow> nat option" where
  "get_runtime cid w =
     (case dict_get (mg_runtimes w) cid of
        None \<Rightarrow> None
      | Some tok \<Rightarrow> if mr_closing (managed_of w tok) \<or> mr_closed (managed_of w tok) then None else Some tok)"

text \<open>An adapter call of a managed runtime: the frames that arrive meanwhile reach its handle.\<close>

definition call_managed ::
  "nat \<Rightarrow> native_call \<Rightarrow> (environment, 'z managers_scheme, fault, native_reply) action" where
  "call_managed tok c = (\<lambda>E w.
     let n = w_tick w; r = en_reply E n;
         frame = (case rp_process r of None \<Rightarrow> id
           | Some s \<Rightarrow> update_managed tok (\<lambda>m. m\<lparr>mr_process := map_option (on_frame s) (mr_process m)\<rparr>))
     in awaited E n (case rp_fault r of Some f \<Rightarrow> Inl f | None \<Rightarrow> Inr r)
       (frame (w\<lparr>w_tick := Suc n, w_trace := w_trace w @ [Called c]\<rparr>)))"

text \<open>\<open>force_terminate\<close> of the handle: the intent is recorded first, the call may fail.\<close>

definition force_terminate ::
  "nat \<Rightarrow> string \<Rightarrow> (environment, 'z managers_scheme, fault, unit) action" where
  "force_terminate tok reason =
     then_do (change_managed tok (\<lambda>m. m\<lparr>mr_process := map_option (mark_forced (Some reason)) (mr_process m)\<rparr>))
       (bind_action (get_managed tok) (\<lambda>m.
         suppress_exceptions (then_do (call_managed tok (ForceTerminate (mr_process_id m) reason)) (ret ()))))"

section \<open>Events of the process\<close>

datatype (plugins only: code size) process_event =
    ProcessStartedEvent uuid int
  | ProcessStderrTruncatedEvent uuid int
  | ProcessSilenceWarningEvent uuid
  | ProcessExitedEvent uuid "int option"
  | ProcessForcedTerminationEvent uuid "string option"

definition stderr_tail :: "managed_runtime \<Rightarrow> string" where
  "stderr_tail m = (case mr_process m of None \<Rightarrow> [] | Some h \<Rightarrow> ps_redacted_stderr_tail (ph_snapshot h))"

definition returncode :: "managed_runtime \<Rightarrow> int option" where
  "returncode m = (case mr_process m of None \<Rightarrow> None | Some h \<Rightarrow> ps_returncode (ph_snapshot h))"

text \<open>The status of an exit: a nonzero code failed, and so did a code a supervised process never gave.\<close>

definition exit_status :: "managed_runtime \<Rightarrow> int option \<Rightarrow> process_status" where
  "exit_status m exit_code =
     (if (exit_code = None \<and> mr_process m = None) \<or> exit_code = Some 0 then PROC_EXITED else PROC_FAILED)"

definition apply_process_event ::
  "uuid_supply \<Rightarrow> datetime \<Rightarrow> managed_runtime \<Rightarrow> conversation_state \<Rightarrow> process_event
     \<Rightarrow> (conversation_state \<times> process_row \<times> conversation_event list) result" where
  "apply_process_event u now m st event =
     (let process = mr_process_record m;
          append = (\<lambda>process payload. let (st', events) = append_events u st now [payload]
                     in Inr (st', process, events))
      in case event of
        ProcessStderrTruncatedEvent i retained \<Rightarrow>
          append (process\<lparr>pr_redacted_stderr_tail := stderr_tail m\<rparr>)
            (SessionEvent (ProcessStderrTruncated i retained))
      | ProcessSilenceWarningEvent i \<Rightarrow>
          append process (NoticeEvent (ProviderWarning ''no stdout activity within silence window''
            (Some ''provider_silence'')))
      | ProcessExitedEvent i exit_code \<Rightarrow>
          let process' = process\<lparr>pr_status := exit_status m exit_code, pr_exit_code := exit_code,
                pr_exited_at := Some now, pr_redacted_stderr_tail := stderr_tail m\<rparr>
          in (case exit_code of
                Some code \<Rightarrow>
                  if code \<noteq> 0 then
                    bind_result (fail_session u st now ''process_exited''
                        (''process exited with code '' @ int_str code)) (\<lambda>r.
                      let (st', more) = append_events (drop_supply 1 u) (tr_state r) now
                            [SessionEvent (ProcessExited i exit_code)]
                      in Inr (st', process', tr_events r @ more))
                  else append process' (SessionEvent (ProcessExited i exit_code))
              | None \<Rightarrow> append process' (SessionEvent (ProcessExited i exit_code)))
      | ProcessForcedTerminationEvent i reason \<Rightarrow>
          append (process\<lparr>pr_status := PROC_TERMINATED, pr_exited_at := Some now,
              pr_exit_code := returncode m, pr_redacted_stderr_tail := stderr_tail m\<rparr>)
            (SessionEvent (ProcessForcedTermination i reason))
      | ProcessStartedEvent i pid \<Rightarrow> Inr (st, process, []))"

section \<open>Persisting them\<close>

text \<open>\<open>commit_runtime_lifecycle\<close> is the shared commit with a process and its launch.\<close>

definition commit_runtime_lifecycle ::
  "uuid \<Rightarrow> int \<Rightarrow> conversation_state \<Rightarrow> (uuid \<times> process_row) option \<Rightarrow> launch_snapshot option
     \<Rightarrow> conversation_event list \<Rightarrow> string option \<Rightarrow> int option
     \<Rightarrow> (environment, 'z world_scheme, fault, unit) action" where
  "commit_runtime_lifecycle cid expected_version st process launch events worker_id fence =
     transact (CommitBatch cid expected_version st events [] process launch worker_id fence)"

text \<open>
  The round of a retry loop that reads the conversation, builds what to write from it and commits that.
\<close>

definition commit_round ::
  "uuid \<Rightarrow> string \<Rightarrow> string option \<Rightarrow> int option
     \<Rightarrow> (uuid_supply \<Rightarrow> datetime \<Rightarrow> conversation_state
          \<Rightarrow> (conversation_state \<times> (uuid \<times> process_row) option \<times> conversation_event list) result)
     \<Rightarrow> ((uuid \<times> process_row) option \<Rightarrow> (environment, 'z world_scheme, fault, unit) action)
     \<Rightarrow> (environment, 'z world_scheme, fault, unit) action" where
  "commit_round cid owner_id worker_id fence build after =
     bind_action (owner_snapshot cid owner_id) (\<lambda>st.
     bind_action read_clock (\<lambda>now.
     bind_action fresh_uuids (\<lambda>u.
     bind_action (lift_result (build u now st)) (\<lambda>(new_state, process, events).
       then_do (commit_runtime_lifecycle cid (conv_version (st_conversation st)) new_state process None
           events worker_id fence)
         (after process)))))"

definition persist_process_event ::
  "nat \<Rightarrow> process_event \<Rightarrow> (environment, 'z managers_scheme, fault, unit) action" where
  "persist_process_event tok event =
     bind_action patience (\<lambda>n. retry_conflicts n
      (bind_action (get_managed tok) (\<lambda>m.
       bind_action (owner_snapshot (mr_conversation_id m) (mr_owner_id m)) (\<lambda>st.
       bind_action read_clock (\<lambda>now.
       bind_action fresh_uuids (\<lambda>u.
       bind_action (lift_result (apply_process_event u now m st event)) (\<lambda>(new_state, process, events).
         if events = [] then ret ()
         else
           then_do (commit_runtime_lifecycle (mr_conversation_id m) (conv_version (st_conversation st))
               new_state (Some (mr_process_id m, process)) None events (mr_worker_id m) (mr_fence m))
             (change_managed tok (\<lambda>m. m\<lparr>mr_process_record := process,
                mr_stderr_truncation_persisted :=
                  (case event of ProcessStderrTruncatedEvent _ _ \<Rightarrow> True | _ \<Rightarrow> mr_stderr_truncation_persisted m)\<rparr>)))))))))"

text \<open>\<open>_persist_terminal\<close>: the last state of the process and, for a close or reap, of the session.\<close>

definition terminal_event :: "managed_runtime \<Rightarrow> string option \<Rightarrow> process_event" where
  "terminal_event m reason =
     (case mr_process m of
        Some h \<Rightarrow>
          if handle_forced h
          then ProcessForcedTerminationEvent (mr_process_id m)
                 (if truthy_text (handle_forced_reason h) then handle_forced_reason h else reason)
          else ProcessExitedEvent (mr_process_id m) (ps_returncode (ph_snapshot h))
      | None \<Rightarrow> ProcessExitedEvent (mr_process_id m) None)"

datatype (plugins only: code size) session_action = CloseAction | ReapAction

definition end_session ::
  "session_action option \<Rightarrow> uuid_supply \<Rightarrow> conversation_state \<Rightarrow> datetime \<Rightarrow> string option
     \<Rightarrow> (conversation_state \<times> conversation_event list) result" where
  "end_session action u st now reason =
     (case action of
        None \<Rightarrow> Inr (st, [])
      | Some CloseAction \<Rightarrow> bind_result (close_session u st now reason) (\<lambda>r. Inr (tr_state r, tr_events r))
      | Some ReapAction \<Rightarrow> bind_result (reap_session u st now reason) (\<lambda>r. Inr (tr_state r, tr_events r)))"

text \<open>The unsaved truncation of stderr goes first.\<close>

definition truncation_due :: "managed_runtime \<Rightarrow> int option" where
  "truncation_due m = (case mr_process m of
     Some h \<Rightarrow> if ps_stderr_truncated (ph_snapshot h) \<and> \<not> mr_stderr_truncation_persisted m
               then Some (ps_retained_stderr_bytes (ph_snapshot h)) else None
   | None \<Rightarrow> None)"

definition terminal_changes ::
  "uuid_supply \<Rightarrow> datetime \<Rightarrow> managed_runtime \<Rightarrow> process_event \<Rightarrow> session_action option \<Rightarrow> string option
     \<Rightarrow> conversation_state \<Rightarrow> (conversation_state \<times> process_row \<times> conversation_event list) result" where
  "terminal_changes u now m event action reason st =
     bind_result (case truncation_due m of
         None \<Rightarrow> Inr (st, [])
       | Some retained \<Rightarrow> bind_result (apply_process_event u now m st
             (ProcessStderrTruncatedEvent (mr_process_id m) retained)) (\<lambda>(st1, _, prior). Inr (st1, prior)))
     (\<lambda>(st1, prior).
     bind_result (apply_process_event (drop_supply 1 u) now m st1 event)
     (\<lambda>(st2, process, events).
     bind_result (end_session action (drop_supply 3 u) st2 now reason) (\<lambda>(st3, session_events).
       Inr (st3, process, prior @ events @ session_events))))"

definition terminal_round ::
  "nat \<Rightarrow> process_event \<Rightarrow> session_action option \<Rightarrow> string option
     \<Rightarrow> (environment, 'z managers_scheme, fault, unit) action" where
  "terminal_round tok event action reason =
     bind_action (get_managed tok) (\<lambda>m.
       commit_round (mr_conversation_id m) (mr_owner_id m) (mr_worker_id m) (mr_fence m)
         (\<lambda>u now st. bind_result (terminal_changes u now m event action reason st)
            (\<lambda>(new_state, process, events). Inr (new_state, Some (mr_process_id m, process), events)))
         (\<lambda>process. change_managed tok (\<lambda>m'. m'\<lparr>mr_process_record := snd (the process),
            mr_terminal_persisted := True,
            mr_stderr_truncation_persisted :=
              (mr_stderr_truncation_persisted m' \<or> truncation_due m \<noteq> None)\<rparr>)))"

definition persist_terminal ::
  "nat \<Rightarrow> session_action option \<Rightarrow> string option \<Rightarrow> (environment, 'z managers_scheme, fault, unit) action" where
  "persist_terminal tok action reason =
     bind_action (get_managed tok) (\<lambda>m.
     if mr_terminal_persisted m then ret ()
     else bind_action patience (\<lambda>n.
       retry_conflicts n (terminal_round tok (terminal_event m reason) action reason)))"

end
