(* ===== verification/Workspace_Setup.thy ===== *)
theory Workspace_Setup
  imports Runtime_Processes
begin

text \<open>
  The setup script a repository declares (\<open>src/talktoharnesses/runtime/workspace_setup.py\<close>), run
  before a session opens, and the two events that bracket a real run. The recorder's own task commits
  the start; \<open>finish\<close> waits for it, or cancels it when the run was abandoned, in which case the reply
  says whether the commit had landed by then.
\<close>

record 'z setup_recorder =
  rc_conversation_id :: uuid
  rc_binding_id :: uuid
  rc_worker_id :: "string option"
  rc_fence :: "int option"
  rc_refresh :: "(environment, 'z managers_scheme, fault, conversation_state) action"

definition commit_setup_event ::
  "'z setup_recorder \<Rightarrow> session_payload \<Rightarrow> (environment, 'z managers_scheme, fault, unit) action" where
  "commit_setup_event rc payload =
     bind_action patience (\<lambda>n. retry_conflicts n
      (bind_action (rc_refresh rc) (\<lambda>fresh.
       bind_action read_clock (\<lambda>now.
       bind_action fresh_uuids (\<lambda>u.
         let (new_state, events) = append_events u fresh now [SessionEvent payload]
         in commit_runtime_lifecycle (rc_conversation_id rc) (conv_version (st_conversation fresh))
              new_state None None events (rc_worker_id rc) (rc_fence rc))))))"

text \<open>\<open>on_started\<close> and \<open>finish\<close>: the start is committed once; its failure is only logged.\<close>

definition record_started ::
  "'z setup_recorder \<Rightarrow> native_reply \<Rightarrow> (environment, 'z managers_scheme, fault, unit) action" where
  "record_started rc r =
     (case rp_setup_started r of
        None \<Rightarrow> ret ()
      | Some (working_directory, setup_file, stamp) \<Rightarrow>
          suppress_exceptions (commit_setup_event rc
            (WorkspaceSetupStarted (rc_binding_id rc) working_directory setup_file stamp)))"

definition record_abandoned ::
  "'z setup_recorder \<Rightarrow> native_reply \<Rightarrow> (environment, 'z managers_scheme, fault, unit) action" where
  "record_abandoned rc r = (if rp_accepted r then suppress_exceptions (shield (record_started rc r)) else ret ())"

text \<open>The call of the hook with its reply, whether it failed or not.\<close>

definition call_setup ::
  "harness_configuration \<Rightarrow> (environment, 'z managers_scheme, fault, native_reply \<times> fault option) action" where
  "call_setup configuration = (\<lambda>E w.
     let n = w_tick w; r = en_reply E n;
         f = (if en_cancelled E n then Some Cancelled else rp_fault r)
     in (Inr (r, f), w\<lparr>w_tick := Suc n, w_trace := w_trace w @ [Called (PrepareWorkspace configuration)]\<rparr>))"

definition setup_failed :: "string \<Rightarrow> (string, json) dict \<Rightarrow> fault" where
  "setup_failed message details = Raised (DomainError WORKSPACE_SETUP_FAILED message details)"

definition has_setup_hook :: "harness_kind \<Rightarrow> (environment, 'w, 'e, bool) action" where
  "has_setup_hook kind = (\<lambda>E w. (Inr (en_setup_hook E kind), w))"

definition prepare_workspace ::
  "harness_configuration \<Rightarrow> 'z setup_recorder option \<Rightarrow> (environment, 'z managers_scheme, fault, unit) action" where
  "prepare_workspace configuration recorder =
     bind_action (has_setup_hook (cfg_kind configuration)) (\<lambda>hook.
     if \<not> hook then ret ()
     else bind_action (call_setup configuration) (\<lambda>(r, f).
       case recorder of
         None \<Rightarrow> (case f of
             Some e \<Rightarrow> fail e
           | None \<Rightarrow> (case rp_setup r of
               SetupBroke _ _ _ _ message details \<Rightarrow> fail (setup_failed message details)
             | _ \<Rightarrow> ret ()))
       | Some rc \<Rightarrow> (case f of
             Some e \<Rightarrow> then_do (record_abandoned rc r) (fail e)
           | None \<Rightarrow> (case rp_setup r of
               SetupBroke working_directory status exit_code output_tail message details \<Rightarrow>
                 then_do (record_started rc r) (then_do
                   (suppress_exceptions (commit_setup_event rc
                     (WorkspaceSetupCompleted (rc_binding_id rc) working_directory status exit_code None output_tail)))
                   (fail (setup_failed message details)))
             | SetupRan working_directory status exit_code duration_ms output_tail \<Rightarrow>
                 then_do (record_started rc r)
                   (if status = SETUP_SUCCEEDED
                    then commit_setup_event rc
                      (WorkspaceSetupCompleted (rc_binding_id rc) working_directory SETUP_SUCCEEDED
                         exit_code duration_ms output_tail)
                    else ret ())
             | NoSetup \<Rightarrow> record_started rc r))))"



end
