(* ===== verification/Runtime_Manager.thy ===== *)
theory Runtime_Manager
  imports Workspace_Setup Wire_Values
begin

text \<open>
  The life of a runtime (\<open>src/talktoharnesses/runtime/manager.py\<close>): starting or resuming the native
  session of a conversation, with the process rows and session events each stage commits and what a
  failure at each stage leaves; candidates for a switch; interrupts; and the closes. The
  per-conversation lock makes each of these a sequence of steps of its own conversation.
\<close>

section \<open>Capacity and installation\<close>

definition conversation_details :: "uuid \<Rightarrow> (string, json) dict" where
  "conversation_details cid = [(''conversation_id'', JStr (uuid_str cid))]"

definition require_capacity :: "(environment, 'z managers_scheme, fault, unit) action" where
  "require_capacity = (\<lambda>E w.
     if int (length (mg_runtimes w) + length (mg_candidates w)) \<ge> en_max_runtimes E
     then (Inl (Raised (DomainError CONVERSATION_BUSY ''runtime capacity reached''
       [(''max_runtimes'', JStr (int_str (en_max_runtimes E)))])), w)
     else (Inr (), w))"

definition new_object :: "managed_runtime \<Rightarrow> (environment, 'z managers_scheme, 'e, nat) action" where
  "new_object m = (\<lambda>E w. (Inr (length (mg_objects w)),
     w\<lparr>mg_objects := mg_objects w @ [(length (mg_objects w), m)]\<rparr>))"

text \<open>\<open>_install_runtime\<close>; the lifecycle pump and the idle timer it starts are steps of their own.\<close>

definition install_runtime :: "uuid \<Rightarrow> nat \<Rightarrow> (environment, 'z managers_scheme, 'e, unit) action" where
  "install_runtime cid tok = modify (\<lambda>w. w\<lparr>mg_runtimes := dict_put (mg_runtimes w) cid tok\<rparr>)"

definition remove_runtime :: "uuid \<Rightarrow> 'z managers_scheme \<Rightarrow> 'z managers_scheme" where
  "remove_runtime cid w = w\<lparr>mg_runtimes := AList.delete cid (mg_runtimes w)\<rparr>"

section \<open>Closing\<close>

text \<open>\<open>_teardown_runtime\<close>: whatever happens, a closed runtime leaves its slot.\<close>

definition teardown_process :: "nat \<Rightarrow> (environment, 'z managers_scheme, fault, unit) action" where
  "teardown_process tok =
     bind_action (get_managed tok) (\<lambda>m.
       case mr_process m of
         None \<Rightarrow> ret ()
       | Some h \<Rightarrow> if ps_returncode (ph_snapshot h) = None
           then suppress_exceptions (force_terminate tok ''teardown'') else ret ())"

definition teardown_runtime ::
  "nat \<Rightarrow> bool \<Rightarrow> (environment, 'z managers_scheme, fault, unit) action" where
  "teardown_runtime tok close_adapter =
     bind_action (get_managed tok) (\<lambda>m.
     if mr_closed m then ret ()
     else then_do (change_managed tok (\<lambda>m. m\<lparr>mr_closed := True\<rparr>))
      (bind_action get_world (\<lambda>w.
        let replaced = (dict_get (mg_runtimes w) (mr_conversation_id m) \<noteq> Some tok) in
        ensure
          (then_do
            (if close_adapter
             then suppress_exceptions (then_do (call_managed tok (CloseNative (mr_session m))) (ret ()))
             else ret ())
            (teardown_process tok))
          (if replaced then ret () else modify (remove_runtime (mr_conversation_id m))))))"

text \<open>\<open>_close_live_resources\<close>: a graceful close, else the process is forced.\<close>

definition close_live_resources :: "nat \<Rightarrow> (environment, 'z managers_scheme, fault, unit) action" where
  "close_live_resources tok =
     bind_action (get_managed tok) (\<lambda>m.
     attempt (then_do (call_managed tok (CloseNative (mr_session m))) (ret ()))
       (\<lambda>e. if \<not> is_exception e then fail e
            else if mr_process m = None then ret ()
            else force_terminate tok (if e = TimedOut then ''graceful_close_timeout'' else ''close_failed'')))"

definition close_managed ::
  "nat \<Rightarrow> session_action option \<Rightarrow> string option \<Rightarrow> (environment, 'z managers_scheme, fault, unit) action" where
  "close_managed tok action reason =
     bind_action (get_managed tok) (\<lambda>m.
     if mr_closing m \<or> mr_closed m then ret ()
     else then_do (change_managed tok (\<lambda>m. m\<lparr>mr_closing := True\<rparr>))
      (ensure
        (then_do (close_live_resources tok) (persist_terminal tok action reason))
        (teardown_runtime tok False)))"

definition close_runtime ::
  "uuid \<Rightarrow> string option \<Rightarrow> (environment, 'z managers_scheme, fault, unit) action" where
  "close_runtime cid reason =
     bind_action get_world (\<lambda>w.
       case dict_get (mg_runtimes w) cid of
         None \<Rightarrow> ret ()
       | Some tok \<Rightarrow> close_managed tok (Some CloseAction) reason)"

definition close_replaced_runtime ::
  "nat \<Rightarrow> string \<Rightarrow> (environment, 'z managers_scheme, fault, unit) action" where
  "close_replaced_runtime tok reason = close_managed tok None (Some reason)"

definition matches_binding :: "harness_session \<Rightarrow> binding option \<Rightarrow> bool" where
  "matches_binding session b = (case b of
     None \<Rightarrow> False
   | Some b \<Rightarrow> hs_binding_id session = bind_id b
       \<and> hs_native_session_id session = bind_native_session_id b
       \<and> \<not> bind_requires_session_recreation b)"

definition ensure_binding_current ::
  "uuid \<Rightarrow> conversation_state \<Rightarrow> (environment, 'z managers_scheme, fault, nat option) action" where
  "ensure_binding_current cid st =
     bind_action get_world (\<lambda>w.
       case get_runtime cid w of
         None \<Rightarrow> ret None
       | Some tok \<Rightarrow>
           if matches_binding (mr_session (managed_of w tok)) (st_binding st) then ret (Some tok)
           else then_do (close_replaced_runtime tok ''stale_binding'') (ret None))"

section \<open>Idle releases\<close>

text \<open>\<open>_state_for_release\<close>: \<open>None\<close> once the conversation is gone; then only the slot is freed.\<close>

definition state_for_release ::
  "nat \<Rightarrow> (environment, 'z managers_scheme, fault, conversation_state option) action" where
  "state_for_release tok =
     bind_action (get_managed tok) (\<lambda>m.
     attempt (bind_action (owner_snapshot (mr_conversation_id m) (mr_owner_id m)) (\<lambda>st. ret (Some st)))
       (\<lambda>e. if fault_code e = Some INVALID_STATE \<or> fault_code e = Some NOT_FOUND
            then then_do (change_managed tok (\<lambda>m. m\<lparr>mr_terminal_persisted := True\<rparr>))
              (then_do (teardown_runtime tok True) (ret None))
            else fail e))"

definition release_session ::
  "session_action \<Rightarrow> uuid_supply \<Rightarrow> conversation_state \<Rightarrow> datetime \<Rightarrow> string option \<Rightarrow> transition_result result" where
  "release_session action u st now reason =
     (case action of ReapAction \<Rightarrow> reap_session u st now reason | CloseAction \<Rightarrow> close_session u st now reason)"

definition release_idle ::
  "nat \<Rightarrow> conversation_state \<Rightarrow> session_action \<Rightarrow> string
     \<Rightarrow> (environment, 'z managers_scheme, fault, bool) action" where
  "release_idle tok st action reason =
     bind_action (get_managed tok) (\<lambda>m.
     bind_action read_clock (\<lambda>now.
     bind_action fresh_uuids (\<lambda>u.
     bind_action (lift_result (release_session action u st now (Some reason))) (\<lambda>r.
     bind_action (attempt
        (then_do (commit_runtime_lifecycle (mr_conversation_id m) (conv_version (st_conversation st))
           (tr_state r) None None (tr_events r) (mr_worker_id m) (mr_fence m)) (ret True))
        (\<lambda>e. if is_conflict e then ret False else fail e)) (\<lambda>reserved.
     if \<not> reserved then ret False
     else then_do (change_managed tok (\<lambda>m. m\<lparr>mr_closing := True\<rparr>))
      (then_do (ensure
          (then_do (close_live_resources tok) (persist_terminal tok None (Some reason)))
          (teardown_runtime tok False))
        (ret True)))))))"

definition reap_if_eligible :: "uuid \<Rightarrow> (environment, 'z managers_scheme, fault, bool) action" where
  "reap_if_eligible cid =
     bind_action get_world (\<lambda>w.
       case dict_get (mg_runtimes w) cid of
         None \<Rightarrow> ret False
       | Some tok \<Rightarrow> bind_action (state_for_release tok) (\<lambda>st.
           case st of
             None \<Rightarrow> ret True
           | Some st \<Rightarrow> if \<not> runtime_idle st then ret False
               else release_idle tok st ReapAction ''idle''))"

definition not_idle :: "uuid \<Rightarrow> fault" where
  "not_idle cid = Raised (DomainError CONVERSATION_BUSY ''conversation is not idle'' (conversation_details cid))"

definition close_idle :: "uuid \<Rightarrow> string \<Rightarrow> (environment, 'z managers_scheme, fault, bool) action" where
  "close_idle cid reason =
     bind_action get_world (\<lambda>w.
       case dict_get (mg_runtimes w) cid of
         None \<Rightarrow> ret False
       | Some tok \<Rightarrow> bind_action (state_for_release tok) (\<lambda>st.
           case st of
             None \<Rightarrow> ret True
           | Some st \<Rightarrow> if \<not> runtime_idle st then fail (not_idle cid)
               else bind_action (release_idle tok st CloseAction reason) (\<lambda>released.
                 if released then ret True else fail (not_idle cid))))"

section \<open>Process events and interrupts\<close>

definition ends_process :: "process_event \<Rightarrow> bool" where
  "ends_process event = (case event of ProcessExitedEvent _ _ \<Rightarrow> True
     | ProcessForcedTerminationEvent _ _ \<Rightarrow> True | _ \<Rightarrow> False)"

definition handle_process_event ::
  "nat \<Rightarrow> process_event \<Rightarrow> (environment, 'z managers_scheme, fault, unit) action" where
  "handle_process_event tok event =
     bind_action get_world (\<lambda>w.
       if mr_closed (managed_of w tok)
          \<or> dict_get (mg_runtimes w) (mr_conversation_id (managed_of w tok)) \<noteq> Some tok
       then ret ()
       else then_do (persist_process_event tok event)
         (if ends_process event
          then then_do (change_managed tok (\<lambda>m. m\<lparr>mr_terminal_persisted := True\<rparr>))
            (teardown_runtime tok True)
          else ret ()))"

definition interrupt_runtime :: "uuid \<Rightarrow> (environment, 'z managers_scheme, fault, unit) action" where
  "interrupt_runtime cid =
     bind_action get_world (\<lambda>w.
       case dict_get (mg_runtimes w) cid of
         None \<Rightarrow> fail (Raised (DomainError INVALID_STATE ''no active runtime for conversation''
           (conversation_details cid)))
       | Some tok \<Rightarrow>
           attempt (then_do (call_managed tok (Interrupt (mr_session (managed_of w tok)))) (ret ()))
             (\<lambda>e. if e \<noteq> TimedOut then fail e
                  else then_do
                    (if mr_process (managed_of w tok) = None then ret ()
                     else force_terminate tok ''interrupt_timeout'')
                    (then_do (ensure (persist_terminal tok None None) (teardown_runtime tok False))
                      (fail (Raised (DomainError RUNTIME_TIMEOUT ''adapter interrupt timed out''
                        (conversation_details cid)))))))"

end
