(* ===== verification/Runtime_Start.thy ===== *)
theory Runtime_Start
  imports Runtime_Manager
begin

text \<open>
  Starting and resuming a native session (\<open>start\<close>, \<open>resume\<close>, \<open>_start_or_resume\<close> of
  \<open>src/talktoharnesses/runtime/manager.py\<close>) and the transient candidates of a switch. A probe reply is
  the launch snapshot of the split service; timeouts are faults of the call they bound.
\<close>

section \<open>Stages of a startup\<close>

definition plan_launch :: "harness_kind \<Rightarrow> (environment, 'w, fault, unit) action" where
  "plan_launch kind = (\<lambda>E w. if en_registered E kind then (Inr (), w)
     else (Inl (Raised (DomainError HARNESS_NOT_REGISTERED
       (''no adapter registered for '' @ harness_kind_value kind)
       [(''kind'', JStr (harness_kind_value kind))])), w))"

definition import_seen ::
  "harness_kind \<Rightarrow> conversation_state \<Rightarrow> (environment, 'z world_scheme, fault, unit) action" where
  "import_seen kind st = (\<lambda>E w. (Inr (), if en_split_stream E kind
     then w\<lparr>w_trace := w_trace w @ [Called (ImportSeen (st_seen_native_ids st) (st_seen_stream_offsets st))]\<rparr>
     else w))"

definition probe_and_build_launch ::
  "harness_configuration \<Rightarrow> (environment, 'z world_scheme, fault, launch_snapshot) action" where
  "probe_and_build_launch configuration =
     bind_action (call_native (Probe configuration)) (\<lambda>r. ret (rp_launch r))"

definition startup_failed :: "uuid \<Rightarrow> fault" where
  "startup_failed cid = Raised (DomainError RUNTIME_START_FAILED ''runtime startup failed''
     (conversation_details cid))"

definition provisional_session :: "uuid \<Rightarrow> uuid \<Rightarrow> harness_configuration \<Rightarrow> harness_session" where
  "provisional_session cid bid configuration =
     \<lparr>hs_conversation_id = cid, hs_binding_id = bid, hs_kind = cfg_kind configuration,
      hs_native_session_id = None, hs_model = cfg_model configuration, hs_mode = cfg_mode configuration,
      hs_effort = cfg_effort configuration\<rparr>"

definition rollback_adapter_startup ::
  "uuid \<Rightarrow> uuid \<Rightarrow> harness_configuration \<Rightarrow> (environment, 'z world_scheme, fault, unit) action" where
  "rollback_adapter_startup cid bid configuration =
     suppress_exceptions (then_do
       (call_native (CloseNative (provisional_session cid bid configuration))) (ret ()))"

text \<open>Forcing the process of a runtime that was never installed: its handle is still a local variable.\<close>

definition force_local ::
  "uuid \<Rightarrow> string \<Rightarrow> process_handle option \<Rightarrow> (environment, 'z world_scheme, fault, unit) action" where
  "force_local process_id reason handle =
     (if handle = None then ret ()
      else suppress_exceptions (then_do (call_native (ForceTerminate process_id reason)) (ret ())))"

definition failed_record :: "process_row \<Rightarrow> process_handle option \<Rightarrow> datetime \<Rightarrow> process_row" where
  "failed_record row handle now = row\<lparr>pr_status := PROC_FAILED, pr_exited_at := Some now,
     pr_exit_code := (case handle of None \<Rightarrow> None | Some h \<Rightarrow> ps_returncode (ph_snapshot h)),
     pr_redacted_stderr_tail := (case handle of None \<Rightarrow> [] | Some h \<Rightarrow> ps_redacted_stderr_tail (ph_snapshot h))\<rparr>"

definition persist_failure ::
  "uuid \<Rightarrow> string \<Rightarrow> uuid \<Rightarrow> process_row \<Rightarrow> process_handle option \<Rightarrow> string \<Rightarrow> string
     \<Rightarrow> string option \<Rightarrow> int option \<Rightarrow> (environment, 'z world_scheme, fault, unit) action" where
  "persist_failure cid owner_id process_id row handle error_code message worker_id fence =
     bind_action patience (\<lambda>n. suppress_exceptions (retry_conflicts n
       (commit_round cid owner_id worker_id fence
         (\<lambda>u now st. bind_result (fail_session u st now error_code message) (\<lambda>r.
            Inr (tr_state r, Some (process_id, failed_record row handle now), tr_events r)))
         (\<lambda>_. ret ()))))"

section \<open>Start and resume\<close>

record session_start =
  ss_conversation_id :: uuid
  ss_owner_id :: string
  ss_configuration :: harness_configuration
  ss_resume_native_id :: "string option"
  ss_worker_id :: "string option"
  ss_fence :: "int option"

text \<open>The locals a failure handler reads: the process row as far as it got, and the handle.\<close>

type_synonym startup_locals = "process_row \<times> process_handle option"

definition open_native ::
  "session_start \<Rightarrow> uuid \<Rightarrow> (environment, 'z world_scheme, fault, native_reply) action" where
  "open_native req bid = call_native (case ss_resume_native_id req of
     None \<Rightarrow> StartNative bid (ss_configuration req)
   | Some native \<Rightarrow> ResumeNative bid (ss_configuration req) native)"

definition session_opened ::
  "session_start \<Rightarrow> uuid_supply \<Rightarrow> conversation_state \<Rightarrow> datetime \<Rightarrow> harness_session \<Rightarrow> launch_snapshot
     \<Rightarrow> transition_result result" where
  "session_opened req u st now session launch =
     (case ss_resume_native_id req of
        None \<Rightarrow> start_session u st now (hs_native_session_id session) launch
      | Some native \<Rightarrow> resume_session u st now
          (if truthy_text (hs_native_session_id session) then the (hs_native_session_id session) else native) launch)"

text \<open>After the process row is RUNNING: setup, the session itself, and its event.\<close>

definition new_handle :: "process_snapshot \<Rightarrow> process_handle" where
  "new_handle s = \<lparr>ph_snapshot = s, ph_forced_locally = False, ph_forced_reason_local = None\<rparr>"

definition finish_startup ::
  "session_start \<Rightarrow> uuid \<Rightarrow> conversation_state \<Rightarrow> launch_snapshot \<Rightarrow> harness_session \<Rightarrow> process_row
     \<Rightarrow> process_handle option \<Rightarrow> (environment, 'z managers_scheme, fault, harness_session) action" where
  "finish_startup req process_id st launch session row handle =
     bind_action read_clock (\<lambda>now.
     bind_action fresh_uuids (\<lambda>u.
     bind_action (lift_result (session_opened req u st now session launch)) (\<lambda>r.
     then_do (commit_runtime_lifecycle (ss_conversation_id req) (conv_version (st_conversation st))
         (tr_state r) (Some (process_id, row)) None (tr_events r) (ss_worker_id req) (ss_fence req))
     (then_do (owner_snapshot (ss_conversation_id req) (ss_owner_id req))
     (bind_action (new_object
         \<lparr>mr_conversation_id = ss_conversation_id req, mr_owner_id = ss_owner_id req, mr_session = session,
          mr_process = handle, mr_process_id = process_id, mr_process_record = row, mr_launch = launch,
          mr_worker_id = ss_worker_id req, mr_fence = ss_fence req, mr_closing = False, mr_closed = False,
          mr_terminal_persisted = False, mr_stderr_truncation_persisted = False\<rparr>) (\<lambda>tok.
     then_do (install_runtime (ss_conversation_id req) tok) (ret session)))))))"

definition startup_body ::
  "session_start \<Rightarrow> uuid \<Rightarrow> uuid \<Rightarrow> conversation_state \<Rightarrow> process_row
     \<Rightarrow> (environment, 'z managers_scheme, fault \<times> startup_locals, harness_session) action" where
  "startup_body req bid process_id st row =
     (let cid = ss_conversation_id req; owner = ss_owner_id req; configuration = ss_configuration req in
     bind_action (located (row, None) (probe_and_build_launch configuration)) (\<lambda>launch.
     bind_action read_clock (\<lambda>now.
     let running = row\<lparr>pr_status := PROC_RUNNING, pr_pid := None, pr_started_at := Some now\<rparr> in
     bind_action (located (running, None)
       (case st_binding st of
          None \<Rightarrow> fail Crashed
        | Some b \<Rightarrow>
            then_do (commit_runtime_lifecycle cid (conv_version (st_conversation st))
              (st\<lparr>st_binding := Some (b\<lparr>bind_launch_snapshot := Some launch\<rparr>)\<rparr>)
              (Some (process_id, running)) (Some launch) [] (ss_worker_id req) (ss_fence req))
            (then_do (owner_snapshot cid owner)
            (then_do (prepare_workspace configuration (Some
               \<lparr>rc_conversation_id = cid, rc_binding_id = bid, rc_worker_id = ss_worker_id req,
                rc_fence = ss_fence req, rc_refresh = owner_snapshot cid owner\<rparr>))
            (bind_action (owner_snapshot cid owner) (\<lambda>st1.
             bind_action (open_native req bid) (\<lambda>r. ret (st1, r)))))))) (\<lambda>(st1, r).
     let handle = map_option new_handle (rp_process r);
         row1 = (case handle of None \<Rightarrow> running | Some h \<Rightarrow> running\<lparr>pr_pid := ps_pid (ph_snapshot h)\<rparr>)
     in located (row1, handle) (finish_startup req process_id st1 launch (rp_session r) row1 handle)))))"

definition startup_handler ::
  "session_start \<Rightarrow> uuid \<Rightarrow> uuid \<Rightarrow> fault \<Rightarrow> startup_locals
     \<Rightarrow> (environment, 'z managers_scheme, fault, harness_session) action" where
  "startup_handler req bid process_id e l =
     (let (row, handle) = l;
          cid = ss_conversation_id req;
          rollback = rollback_adapter_startup cid bid (ss_configuration req);
          record_failure = (\<lambda>code message. persist_failure cid (ss_owner_id req) process_id row handle
            (error_code_value code) message (ss_worker_id req) (ss_fence req));
          timeout = DomainError RUNTIME_TIMEOUT ''session start/resume timed out'' (conversation_details cid)
      in case e of
        Cancelled \<Rightarrow> then_do (shield rollback)
          (then_do (shield (force_local process_id ''startup_cancelled'' handle))
          (then_do (shield (record_failure RUNTIME_TIMEOUT ''session startup cancelled during shutdown''))
            (fail Cancelled)))
      | TimedOut \<Rightarrow> then_do rollback
          (then_do (force_local process_id ''start_resume_timeout'' handle)
          (then_do (record_failure RUNTIME_TIMEOUT ''session start/resume timed out'')
            (fail (Raised timeout))))
      | Raised (DomainError code message details) \<Rightarrow> then_do rollback
          (then_do (force_local process_id ''startup_failure'' handle)
          (then_do (record_failure code (public_message code (Some details))) (fail e)))
      | _ \<Rightarrow> then_do rollback
          (then_do (force_local process_id ''startup_failure'' handle)
          (then_do (record_failure RUNTIME_START_FAILED (public_message RUNTIME_START_FAILED None))
            (fail (startup_failed cid)))))"

text \<open>
  \<open>_start_or_resume\<close>: the STARTING row is committed before anything native, so a crash leaves a record.
\<close>

definition start_or_resume ::
  "session_start \<Rightarrow> (environment, 'z managers_scheme, fault, harness_session) action" where
  "start_or_resume req =
     (let cid = ss_conversation_id req; owner = ss_owner_id req in
     bind_action (owner_snapshot cid owner) (\<lambda>st.
     case st_binding st of
       None \<Rightarrow> raise_error INVALID_STATE ''conversation has no binding''
     | Some b \<Rightarrow>
         then_do (plan_launch (cfg_kind (ss_configuration req)))
         (then_do (import_seen (cfg_kind (ss_configuration req)) st)
         (bind_action fresh_uuids (\<lambda>u.
          let row = new_process_row cid (bind_id b) PROC_STARTING None None in
          then_do (commit_runtime_lifecycle cid (conv_version (st_conversation st)) st
            (Some (u 0, row)) None [] (ss_worker_id req) (ss_fence req))
          (bind_action (owner_snapshot cid owner) (\<lambda>st1.
           attempt_located (startup_body req (bind_id b) (u 0) st1 row)
             (startup_handler req (bind_id b) (u 0)))))))))"

definition shutting_down :: fault where
  "shutting_down = Raised (DomainError INVALID_STATE ''runtime manager is shutting down'' [])"

definition start_request ::
  "session_start \<Rightarrow> (environment, 'z managers_scheme, fault, harness_session) action" where
  "start_request req =
     bind_action get_world (\<lambda>w.
     if mg_shutting_down w then fail shutting_down
     else then_do
       (if dict_get (mg_runtimes w) (ss_conversation_id req) = None then require_capacity else ret ())
       (if dict_get (mg_runtimes w) (ss_conversation_id req) \<noteq> None
        then fail (Raised (DomainError CONVERSATION_BUSY ''conversation already has an active runtime''
          (conversation_details (ss_conversation_id req))))
        else start_or_resume req))"

section \<open>Candidates\<close>

definition candidate_details :: "uuid \<Rightarrow> (string, json) dict" where
  "candidate_details bid = [(''binding_id'', JStr (uuid_str bid))]"

definition start_candidate ::
  "uuid \<Rightarrow> string \<Rightarrow> uuid \<Rightarrow> harness_configuration \<Rightarrow> string option \<Rightarrow> int option
     \<Rightarrow> (environment, 'z managers_scheme, fault, nat) action" where
  "start_candidate cid owner_id bid configuration worker_id fence =
     bind_action get_world (\<lambda>w.
     if mg_shutting_down w then fail shutting_down
     else if dict_get (mg_candidates w) bid \<noteq> None
     then fail (Raised (DomainError CONVERSATION_BUSY ''binding already has a candidate runtime'' (candidate_details bid)))
     else then_do require_capacity
      (then_do (plan_launch (cfg_kind configuration))
      (bind_action fresh_uuids (\<lambda>u.
       bind_action (attempt
         (bind_action (probe_and_build_launch configuration) (\<lambda>launch.
          then_do (prepare_workspace configuration None)
          (bind_action (call_native (StartNative bid configuration)) (\<lambda>r. ret (launch, r)))))
         (\<lambda>e. if e = TimedOut
              then then_do (rollback_adapter_startup cid bid configuration)
                (fail (Raised (DomainError RUNTIME_TIMEOUT ''candidate session start timed out''
                  (conversation_details cid))))
              else then_do (shield (rollback_adapter_startup cid bid configuration))
                (fail (if fault_code e \<noteq> None \<or> \<not> is_exception e then e else startup_failed cid))))
       (\<lambda>(launch, r).
       bind_action read_clock (\<lambda>now.
       let handle = map_option new_handle (rp_process r) in
       bind_action (new_object
         \<lparr>mr_conversation_id = cid, mr_owner_id = owner_id, mr_session = rp_session r, mr_process = handle,
          mr_process_id = u 0,
          mr_process_record = new_process_row cid bid PROC_RUNNING
            (case handle of None \<Rightarrow> None | Some h \<Rightarrow> ps_pid (ph_snapshot h)) (Some now),
          mr_launch = launch, mr_worker_id = worker_id, mr_fence = fence, mr_closing = False,
          mr_closed = False, mr_terminal_persisted = False, mr_stderr_truncation_persisted = False\<rparr>) (\<lambda>tok.
       then_do (modify (\<lambda>w. w\<lparr>mg_candidates := dict_put (mg_candidates w) bid tok\<rparr>)) (ret tok))))))))"

text \<open>
  \<open>_drain_seed\<close>: the events of a candidate while it reads the handoff. Only the completion of its own
  turn accepts it.
\<close>

definition own_turn_id :: "event_payload \<Rightarrow> uuid option" where
  "own_turn_id p = (case p of
     NoticeEvent (ActivityStarted _ _ _ _) \<Rightarrow> None
   | NoticeEvent (ActivityCompleted _ _ _ _) \<Rightarrow> None
   | _ \<Rightarrow> payload_turn_id p)"

definition seed_verdict :: "uuid \<Rightarrow> event_payload \<Rightarrow> unit result option" where
  "seed_verdict t p =
     (case p of
        NoticeEvent (InteractionRequested _ _ _ _) \<Rightarrow> Some (raise_domain PROTOCOL_ERROR
          ''candidate requested an interaction while seeding the handoff'')
      | _ \<Rightarrow>
          if own_turn_id p \<noteq> None \<and> own_turn_id p \<noteq> Some t
          then Some (raise_domain PROTOCOL_ERROR ''candidate emitted an event for an unexpected turn'')
          else if payload_type p = ''turn_completed'' then Some (Inr ())
          else if payload_type p \<in> {''turn_failed'', ''turn_interrupted'', ''turn_outcome_unknown''}
          then Some (raise_domain PROTOCOL_ERROR (''candidate handoff turn ended as '' @ payload_type p))
          else None)"

fun seed_outcome :: "uuid \<Rightarrow> event_payload list \<Rightarrow> unit result" where
  "seed_outcome t [] = raise_domain PROTOCOL_ERROR ''candidate event stream ended before the handoff turn terminated''"
| "seed_outcome t (p # ps) = (case seed_verdict t p of Some r \<Rightarrow> r | None \<Rightarrow> seed_outcome t ps)"

definition seed_candidate ::
  "nat \<Rightarrow> string \<Rightarrow> (environment, 'z managers_scheme, fault, unit) action" where
  "seed_candidate tok handoff_text =
     (if handoff_text = [] then ret ()
      else bind_action (get_managed tok) (\<lambda>m.
       bind_action fresh_uuids (\<lambda>u.
       attempt
         (then_do (call_managed tok (Submit (mr_session m) (u 0) (Some (u 1)) handoff_text None))
          (bind_action (call_managed tok (ReadEvents (mr_session m))) (\<lambda>r.
           lift_result (seed_outcome (u 0) (rp_events r)))))
         (\<lambda>e. if e = TimedOut
              then fail (Raised (DomainError RUNTIME_TIMEOUT ''candidate handoff seeding timed out''
                (conversation_details (mr_conversation_id m))))
              else fail e))))"

definition promote_candidate :: "uuid \<Rightarrow> uuid \<Rightarrow> (environment, 'z managers_scheme, fault, nat) action" where
  "promote_candidate cid bid =
     bind_action get_world (\<lambda>w.
       case dict_get (mg_candidates w) bid of
         None \<Rightarrow> fail (Raised (DomainError INVALID_STATE ''no candidate runtime for binding'' (candidate_details bid)))
       | Some tok \<Rightarrow>
           then_do (modify (\<lambda>w. w\<lparr>mg_candidates := AList.delete bid (mg_candidates w)\<rparr>))
             (then_do (install_runtime (mr_conversation_id (managed_of w tok)) tok) (ret tok)))"

definition close_candidate :: "uuid \<Rightarrow> (environment, 'z managers_scheme, fault, unit) action" where
  "close_candidate bid =
     bind_action get_world (\<lambda>w.
       case dict_get (mg_candidates w) bid of
         None \<Rightarrow> ret ()
       | Some tok \<Rightarrow>
           then_do (modify (\<lambda>w. w\<lparr>mg_candidates := AList.delete bid (mg_candidates w)\<rparr>))
           (then_do (change_managed tok (\<lambda>m. m\<lparr>mr_closed := True\<rparr>))
             (attempt (then_do (call_managed tok (CloseNative (mr_session (managed_of w tok)))) (ret ()))
               (\<lambda>e. if \<not> is_exception e then fail e
                    else if mr_process (managed_of w tok) = None then ret ()
                    else suppress_exceptions (force_terminate tok ''candidate_rejected'')))))"

end
