(* ===== verification/Runtime_Traces.thy ===== *)
theory Runtime_Traces
  imports Runtime_Start
begin

text \<open>
  What the operations of the runtime put into the trace of the worker. \<open>lifecycle_items p\<close> says that \<open>p\<close>
  holds of everything a startup, a close or a process event may leave but the opening of a session
  itself; whoever cares for other items interprets it with their complement.
\<close>

lemma emits_get_managed [emits_rules]: "emits (list_all p) (get_managed tok)"
  by (rule emits_silent) (simp_all add: get_managed_def)

lemma emits_change_managed [emits_rules]: "emits (list_all p) (change_managed tok f)"
  unfolding change_managed_def by (rule items.emits_modify) (simp add: update_managed_def)

lemma emits_call_managed: "p (Called c) \<Longrightarrow> emits (list_all p) (call_managed tok c)"
  by (rule emitsI) (auto simp: call_managed_def Let_def awaited_def update_managed_def split: option.split)

lemma emits_new_object [emits_rules]: "emits (list_all p) (new_object m)"
  by (rule emits_silent) (simp_all add: new_object_def)

lemma emits_install [emits_rules]: "emits (list_all p) (install_runtime cid tok)"
  unfolding install_runtime_def by (rule items.emits_modify) simp

lemma emits_capacity [emits_rules]: "emits (list_all p) require_capacity"
  by (rule emits_silent) (simp_all add: require_capacity_def)

lemma emits_plan [emits_rules]: "emits (list_all p) (plan_launch k)"
  by (rule emits_silent) (simp_all add: plan_launch_def)

lemma emits_hook [emits_rules]: "emits (list_all p) (has_setup_hook k)"
  by (rule emits_silent) (simp_all add: has_setup_hook_def)

lemma emits_remove [emits_rules]: "emits (list_all p) (modify (remove_runtime cid))"
  by (rule items.emits_modify) (simp add: remove_runtime_def)

lemma emits_candidates [emits_rules]: "emits (list_all p) (modify (\<lambda>w. w\<lparr>mg_candidates := f w\<rparr>))"
  by (rule items.emits_modify) simp

locale lifecycle_items =
  fixes p :: "world_item \<Rightarrow> bool"
  assumes wrote: "p (Wrote op)" and published: "p (Published es)"
    and seeds: "p (Called (ImportSeen a b))" and probes: "p (Called (Probe c))"
    and prepares: "p (Called (PrepareWorkspace c))" and closes: "p (Called (CloseNative s))"
    and forces: "p (Called (ForceTerminate i r))"
begin

lemma emits_commit: "emits (list_all p) (commit_runtime_lifecycle cid v st process launch es worker fence)"
  unfolding commit_runtime_lifecycle_def by (rule items.emits_transact) (simp add: wrote)

lemma emits_commit_round:
  "(\<And>x. emits (list_all p) (after x)) \<Longrightarrow> emits (list_all p) (commit_round cid owner worker fence build after)"
  unfolding commit_round_def
  by (intro emits_rules) (auto intro!: emits_rules emits_commit split: prod.split)

lemma emits_persist_failure: "emits (list_all p) (persist_failure cid owner i row h code msg worker fence)"
  unfolding persist_failure_def by (intro emits_rules emits_commit_round)

lemma emits_force: "emits (list_all p) (force_terminate tok reason)"
  unfolding force_terminate_def by (intro emits_rules emits_call_managed) (simp add: forces)

lemma emits_process_event: "emits (list_all p) (persist_process_event tok event)"
  unfolding persist_process_event_def
  by (intro emits_rules) (auto intro!: emits_rules emits_commit split: prod.split)

lemma emits_persist_terminal: "emits (list_all p) (persist_terminal tok action reason)"
  unfolding persist_terminal_def terminal_round_def
  by (intro emits_rules) (auto intro!: emits_rules emits_commit_round)

lemma emits_live_resources: "emits (list_all p) (close_live_resources tok)"
  unfolding close_live_resources_def
  by (intro emits_rules emits_call_managed) (auto intro!: emits_rules emits_force simp: closes)

lemma emits_teardown: "emits (list_all p) (teardown_runtime tok b)"
  unfolding teardown_runtime_def teardown_process_def Let_def
  by (intro emits_rules) (auto intro!: emits_rules emits_call_managed emits_force simp: closes split: option.split)

lemma emits_close_managed: "emits (list_all p) (close_managed tok action reason)"
  unfolding close_managed_def
  by (intro emits_rules)
    (auto intro!: emits_rules emits_live_resources emits_persist_terminal emits_teardown)

lemma emits_closes: "emits (list_all p) (close_runtime cid reason)"
  "emits (list_all p) (close_replaced_runtime tok why)"
  unfolding close_runtime_def close_replaced_runtime_def
  by (intro emits_rules emits_close_managed; simp add: items.emits_ret emits_close_managed split: option.split)+

lemma emits_binding_current: "emits (list_all p) (ensure_binding_current cid st)"
  unfolding ensure_binding_current_def
  by (intro emits_rules) (auto intro!: emits_rules emits_closes split: option.split)

lemma emits_rollback: "emits (list_all p) (rollback_adapter_startup cid bid c)"
  unfolding rollback_adapter_startup_def by (intro emits_rules) (simp add: closes)

lemma emits_force_local: "emits (list_all p) (force_local i reason h)"
  unfolding force_local_def by (auto intro!: emits_rules simp: forces)

lemma emits_import: "emits (list_all p) (import_seen k st)"
  by (rule emitsI) (simp add: import_seen_def seeds)

lemma emits_probe: "emits (list_all p) (probe_and_build_launch c)"
  unfolding probe_and_build_launch_def by (intro emits_rules) (simp add: probes)

lemma emits_setup_event: "emits (list_all p) (rc_refresh rc) \<Longrightarrow> emits (list_all p) (commit_setup_event rc payload)"
  unfolding commit_setup_event_def
  by (intro emits_rules) (auto intro!: emits_rules emits_commit simp: case_prod_unfold Let_def)

lemma emits_prepare:
  assumes "\<And>rc. recorder = Some rc \<Longrightarrow> emits (list_all p) (rc_refresh rc)"
  shows "emits (list_all p) (prepare_workspace c recorder)"
proof -
  have "emits (list_all p) (call_setup c)"
    by (rule emitsI) (simp add: call_setup_def Let_def prepares)
  moreover have "emits (list_all p) (record_started rc r)" if "recorder = Some rc" for rc r
    using assms [OF that] unfolding record_started_def
    by (auto intro!: emits_rules emits_setup_event split: option.split prod.split)
  ultimately show ?thesis using assms
    unfolding prepare_workspace_def record_abandoned_def setup_failed_def
    by (intro emits_rules)
      (auto intro!: emits_rules emits_setup_event split: option.split setup_outcome.split prod.split)
qed

lemma emits_startup_handler: "emits (list_all p) (startup_handler req bid i e l)"
  unfolding startup_handler_def Let_def startup_failed_def
  by (cases e) (auto intro!: emits_rules emits_rollback emits_force_local emits_persist_failure
      split: prod.split exn.split)

lemma emits_finish_startup: "emits (list_all p) (finish_startup req i st launch s row h)"
  unfolding finish_startup_def
  by (intro emits_rules emits_commit)

end

end
