(* ===== verification/Startup_Properties.thy ===== *)
theory Startup_Properties
  imports Runtime_Traces
begin

text \<open>
  The order of records and native work in a startup: before the first call of the harness service there
  is a STARTING row, before the session opens a RUNNING row with its launch. So a worker that dies
  anywhere in between leaves a row that the next one finds orphaned.
\<close>

section \<open>The items of a startup\<close>

definition records_status :: "uuid \<Rightarrow> process_status \<Rightarrow> bool \<Rightarrow> world_item \<Rightarrow> bool" where
  "records_status cid status with_launch i \<longleftrightarrow> (case i of
     Wrote (CommitBatch c _ _ _ _ (Some (_, row)) launch _ _) \<Rightarrow>
       c = cid \<and> pr_conversation_id row = cid \<and> pr_status row = status \<and> (with_launch \<longrightarrow> launch \<noteq> None)
   | _ \<Rightarrow> False)"

definition calls_service :: "world_item \<Rightarrow> bool" where
  "calls_service i \<longleftrightarrow> (case i of Called (ImportSeen _ _) \<Rightarrow> False | Called _ \<Rightarrow> True | _ \<Rightarrow> False)"

definition opens_session :: "world_item \<Rightarrow> bool" where
  "opens_session i \<longleftrightarrow> (case i of Called (StartNative _ _) \<Rightarrow> True | Called (ResumeNative _ _ _) \<Rightarrow> True | _ \<Rightarrow> False)"

abbreviation "no_service \<equiv> list_all (\<lambda>i. \<not> calls_service i)"
abbreviation "no_opening \<equiv> list_all (\<lambda>i. \<not> opens_session i)"

lemma item_kinds [simp]:
  "\<not> calls_service (Wrote op)" "\<not> opens_session (Wrote op)" "\<not> calls_service (Published es)"
  "\<not> opens_session (Published es)" "\<not> calls_service (Called (ImportSeen a b))"
  "\<not> opens_session (Called (ImportSeen a b))" "\<not> opens_session (Called (Probe c))"
  "\<not> opens_session (Called (PrepareWorkspace c))" "\<not> opens_session (Called (CloseNative s))"
  "\<not> opens_session (Called (ForceTerminate i r))"
  by (simp_all add: calls_service_def opens_session_def)

interpretation unopened: lifecycle_items "\<lambda>i. \<not> opens_session i"
  by unfold_locales simp_all

text \<open>Traces in which the session only opens once the process is recorded as running.\<close>

abbreviation "recorded_open cid \<equiv> preceded opens_session (records_status cid PROC_RUNNING True)"
abbreviation "recorded_work cid \<equiv> preceded calls_service (records_status cid PROC_STARTING False)"

interpretation any: lifecycle_items "\<lambda>_. True"
  by unfold_locales simp_all

lemma open_native_anything: "emits (list_all (\<lambda>_. True)) (open_native req bid)"
  unfolding open_native_def by (intro emits_rules) simp

lemma recorded_first:
  assumes "records_status cid status wl (Wrote (CommitBatch cid v st es [] process launch worker fence))"
    and "emits (list_all (\<lambda>_. True)) b" and "\<And>op. \<not> p (Wrote op)"
  shows "emits (preceded p (records_status cid status wl))
    (then_do (commit_runtime_lifecycle cid v st process launch es worker fence) b)"
  unfolding commit_runtime_lifecycle_def
  by (rule emits_transact_then) (use assms in \<open>simp_all add: emits_anything\<close>)

lemma emits_prepare_any: "emits (list_all (\<lambda>_. True)) (prepare_workspace c
   (Some \<lparr>rc_conversation_id = cid, rc_binding_id = bid, rc_worker_id = worker, rc_fence = fence,
      rc_refresh = owner_snapshot c' owner\<rparr>))"
  by (rule any.emits_prepare) (auto intro: emits_rules)

lemma startup_body_opens:
  "emits (recorded_open (ss_conversation_id req))
     (startup_body req bid i st (new_process_row (ss_conversation_id req) b PROC_STARTING None None))"
  unfolding startup_body_def Let_def
  apply (intro recorded.emits_bind recorded.emits_located recorded.emits_clock)
  subgoal by (intro emits_preceded_free unopened.emits_probe)
  subgoal
    by (auto intro!: recorded.emits_fail recorded_first emits_rules emits_prepare_any open_native_anything
        simp: records_status_def new_process_row_def split: option.split)
  subgoal by (simp split: prod.split)
      (intro allI impI recorded.emits_located emits_preceded_free unopened.emits_finish_startup)
  done

lemma startup_anything:
  "emits (list_all (\<lambda>_. True)) (attempt_located (startup_body req bid i st row) (startup_handler req bid i))"
  unfolding startup_body_def Let_def
  by (intro emits_rules any.emits_startup_handler any.emits_probe)
    (auto intro!: emits_rules any.emits_finish_startup any.emits_commit emits_prepare_any open_native_anything
      split: option.split prod.split)

lemma request_preceded:
  fixes req :: session_start
  assumes "emits (preceded p q) (start_or_resume req :: (environment, 'z managers_scheme, fault, harness_session) action)"
  shows "emits (preceded p q) (start_request req :: (environment, 'z managers_scheme, fault, harness_session) action)"
  unfolding start_request_def using assms
  by (intro recorded.emits_bind recorded.emits_get_world)
    (auto intro!: recorded.emits_bind recorded.emits_fail recorded.emits_ret emits_preceded_free [OF emits_capacity])

text \<open>C33: Whatever the environment does during a start or resume of a session, the native session is opened
  only after the process was committed as RUNNING together with its launch, and nothing else is asked
  of the harness service before the process was committed as STARTING, under the caller's fence: a worker
  that dies at any point of a startup leaves a row that the next owner finds.\<close>

theorem startup_recorded_before_native:
  "\<exists>xs. w_trace (snd (start_request req E w)) = w_trace w @ xs
     \<and> preceded opens_session (records_status (ss_conversation_id req) PROC_RUNNING True) xs
     \<and> preceded calls_service (records_status (ss_conversation_id req) PROC_STARTING False) xs"
proof -
  let ?cid = "ss_conversation_id req"
  have handler: "emits (recorded_open ?cid) (startup_handler req bid i e l)" for bid i e l
    by (intro emits_preceded_free unopened.emits_startup_handler)
  have import_seen: "emits (list_all (\<lambda>i. \<not> p i)) (import_seen k st)" if "\<And>a b. \<not> p (Called (ImportSeen a b))"
    for p k st by (rule emitsI) (simp add: import_seen_def that)
  have opens: "emits (recorded_open ?cid) (start_or_resume req)"
    unfolding start_or_resume_def Let_def commit_runtime_lifecycle_def raise_error_def
    by (intro recorded.emits_bind recorded.emits_snapshots)
      (auto intro!: recorded.emits_bind recorded.emits_fail recorded.emits_uuids recorded.emits_snapshots
        recorded.emits_transact recorded.emits_attempt_located startup_body_opens handler
        emits_preceded_free [OF import_seen] emits_preceded_free [OF emits_plan] split: option.split)
  have works: "emits (recorded_work ?cid) (start_or_resume req)"
    unfolding start_or_resume_def Let_def raise_error_def
    apply (rule recorded.emits_bind [OF recorded.emits_snapshots(2)])
    apply (split option.split, intro conjI allI impI recorded.emits_fail)
    apply (rule recorded.emits_bind [OF emits_preceded_free [OF emits_plan]])
    apply (rule recorded.emits_bind [OF emits_preceded_free [OF import_seen]], simp)
    apply (rule recorded.emits_bind [OF recorded.emits_uuids])
    apply (rule recorded_first)
    by (auto intro!: emits_rules startup_anything simp: records_status_def new_process_row_def)
  from emitsD [OF request_preceded [OF opens], of E w] emitsD [OF request_preceded [OF works], of E w]
  show ?thesis by (metis same_append_eq)
qed

end
