(* ===== verification/Retry_Termination.thy ===== *)
theory Retry_Termination
  imports Runtime_Processes Conversation_Invariant
begin

text \<open>
  When a retry loop comes back. The loops of the worker repeat a read, a transition and a commit until
  the commit meets no concurrent write; each round takes at least one await. If from some tick on the
  other writers leave the conversation alone, a round after that tick meets none, so a patience that
  lasts beyond it is enough. \<open>settles E I a\<close> says that \<open>a\<close> comes back in \<open>E\<close> from every world with \<open>I\<close>,
  and keeps \<open>I\<close>.
\<close>

section \<open>Actions that come back\<close>

named_theorems settles_rules "actions that come back"

definition settles ::
  "environment \<Rightarrow> ('z world_scheme \<Rightarrow> bool) \<Rightarrow> (environment, 'z world_scheme, fault, 'a) action \<Rightarrow> bool" where
  "settles E I a \<longleftrightarrow> (\<forall>w r w'. I w \<longrightarrow> a E w = (r, w') \<longrightarrow>
     I w' \<and> w_tick w \<le> w_tick w' \<and> r \<noteq> Inl Stuck)"

lemma settlesI:
  "(\<And>w r w'. I w \<Longrightarrow> a E w = (r, w') \<Longrightarrow> I w' \<and> w_tick w \<le> w_tick w' \<and> r \<noteq> Inl Stuck) \<Longrightarrow> settles E I a"
  by (simp add: settles_def)

lemma settlesD:
  "settles E I a \<Longrightarrow> I w \<Longrightarrow> a E w = (r, w') \<Longrightarrow> I w' \<and> w_tick w \<le> w_tick w' \<and> r \<noteq> Inl Stuck"
  by (simp add: settles_def)

lemma settles_ret [settles_rules]: "settles E I (ret x)"
  by (simp add: settles_def ret_def)

lemma settles_fail [settles_rules]: "e \<noteq> Stuck \<Longrightarrow> settles E I (fail e)"
  by (simp add: settles_def fail_def)

lemma settles_lift [settles_rules]: "settles E I (lift_result r)"
  by (simp add: lift_result_def settles_ret settles_fail split: sum.split)

lemma settles_get_world [settles_rules]: "settles E I get_world"
  by (simp add: settles_def get_world_def)

lemma settles_clock [settles_rules]: "settles E I read_clock"
  by (simp add: settles_def read_clock_def)

lemma settles_modify:
  "(\<And>w. I w \<Longrightarrow> I (f w) \<and> w_tick (f w) = w_tick w) \<Longrightarrow> settles E I (modify f)"
  by (auto simp: settles_def modify_def)

lemma settles_bind [settles_rules]:
  assumes "settles E I a" and "\<And>x. settles E I (f x)"
  shows "settles E I (bind_action a f)"
proof (rule settlesI)
  fix w r w'
  assume I: "I w" and run: "bind_action a f E w = (r, w')"
  obtain ra w1 where a: "a E w = (ra, w1)" by fastforce
  note first = settlesD [OF assms(1) I a]
  show "I w' \<and> w_tick w \<le> w_tick w' \<and> r \<noteq> Inl Stuck"
  proof (cases ra)
    case (Inl e)
    with run a first show ?thesis by (auto simp: bind_action_def)
  next
    case (Inr x)
    with run a have "f x E w1 = (r, w')" by (simp add: bind_action_def)
    from settlesD [OF assms(2) _ this] first show ?thesis by (auto intro: le_trans)
  qed
qed

lemma settles_attempt [settles_rules]:
  assumes "settles E I a" and "\<And>e. e \<noteq> Stuck \<Longrightarrow> settles E I (h e)"
  shows "settles E I (attempt a h)"
proof (rule settlesI)
  fix w r w'
  assume I: "I w" and run: "attempt a h E w = (r, w')"
  obtain ra w1 where a: "a E w = (ra, w1)" by fastforce
  note first = settlesD [OF assms(1) I a]
  show "I w' \<and> w_tick w \<le> w_tick w' \<and> r \<noteq> Inl Stuck"
  proof (cases ra)
    case (Inr x)
    with run a first show ?thesis by (auto simp: attempt_def)
  next
    case (Inl e)
    with first have e: "e \<noteq> Stuck" by simp
    with Inl run a have "h e E w1 = (r, w')" by (simp add: attempt_def)
    from settlesD [OF assms(2) [OF e] _ this] first show ?thesis by (auto intro: le_trans)
  qed
qed

lemma settles_suppress [settles_rules]: "settles E I a \<Longrightarrow> settles E I (suppress_exceptions a)"
  unfolding suppress_exceptions_def by (rule settles_attempt) (auto intro: settles_rules)

lemma settles_ensure [settles_rules]: "settles E I a \<Longrightarrow> settles E I b \<Longrightarrow> settles E I (ensure a b)"
  unfolding ensure_def by (intro settles_bind settles_attempt settles_ret settles_fail)

text \<open>A retry loop whose rounds take time and, after some tick, meet no conflict.\<close>

definition round_ends ::
  "environment \<Rightarrow> nat \<Rightarrow> ('z world_scheme \<Rightarrow> bool) \<Rightarrow> (environment, 'z world_scheme, fault, 'a) action \<Rightarrow> bool" where
  "round_ends E N I a \<longleftrightarrow> (\<forall>w r w'. I w \<longrightarrow> a E w = (r, w') \<longrightarrow>
     I w' \<and> w_tick w < w_tick w' \<and> r \<noteq> Inl Stuck
     \<and> (N \<le> w_tick w \<longrightarrow> (\<forall>e. r = Inl e \<longrightarrow> \<not> is_conflict e)))"

lemma round_endsI:
  "(\<And>w r w'. I w \<Longrightarrow> a E w = (r, w') \<Longrightarrow> I w' \<and> w_tick w < w_tick w' \<and> r \<noteq> Inl Stuck
     \<and> (N \<le> w_tick w \<longrightarrow> (\<forall>e. r = Inl e \<longrightarrow> \<not> is_conflict e))) \<Longrightarrow> round_ends E N I a"
  by (simp add: round_ends_def)

lemma retry_comes_back:
  assumes "round_ends E N I a"
  shows "I w \<Longrightarrow> N < n + w_tick w \<Longrightarrow> 0 < n \<Longrightarrow> retry_conflicts n a E w = (r, w') \<Longrightarrow>
    I w' \<and> w_tick w \<le> w_tick w' \<and> r \<noteq> Inl Stuck"
proof (induction n arbitrary: w)
  case (Suc n)
  obtain ra w1 where a: "a E w = (ra, w1)" by fastforce
  have first: "I w1" "w_tick w < w_tick w1" "ra \<noteq> Inl Stuck"
    "N \<le> w_tick w \<Longrightarrow> ra = Inl e \<Longrightarrow> \<not> is_conflict e" for e
    using assms Suc.prems(1) a unfolding round_ends_def by blast+
  show ?case
  proof (cases "\<exists>e. ra = Inl e \<and> is_conflict e")
    case True
    then obtain e where e: "ra = Inl e" "is_conflict e" by blast
    with first have early: "w_tick w < N" "e \<noteq> Stuck" by (auto simp: not_le [symmetric])
    then have run: "retry_conflicts n a E w1 = (r, w')"
      using Suc.prems(4) a e by (simp add: attempt_def)
    have "N < n + w_tick w1" "0 < n" using Suc.prems(2) early first(2) by simp_all
    from Suc.IH [OF first(1) this run] first(2) show ?thesis by simp
  next
    case False
    then show ?thesis using Suc.prems(4) a first by (auto simp: attempt_def fail_def split: sum.splits if_splits)
  qed
qed simp

lemma settles_retry:
  assumes "round_ends E N I a" and "N < n"
  shows "settles E I (retry_conflicts n a)"
  by (rule settlesI, rule retry_comes_back [OF assms(1)]) (use assms(2) in auto)

section \<open>Rounds that commit\<close>

text \<open>The columns of an aggregate row follow its state.\<close>

definition row_follows :: "uuid \<Rightarrow> store \<Rightarrow> bool" where
  "row_follows cid db \<longleftrightarrow> (case dict_get (db_aggregates db) cid of None \<Rightarrow> True | Some row \<Rightarrow>
     conv_id (st_conversation (ag_state row)) = cid
     \<and> conv_version (st_conversation (ag_state row)) = ag_version row
     \<and> conv_next_event_sequence (st_conversation (ag_state row)) = ag_next_event_sequence row
     \<and> 1 \<le> ag_next_event_sequence row)"

text \<open>Other writers that keep the rows so and leave the store alone from tick \<open>N\<close>; adapters that answer.\<close>

definition calms :: "environment \<Rightarrow> nat \<Rightarrow> uuid \<Rightarrow> bool" where
  "calms E N cid \<longleftrightarrow> (\<forall>n db. row_follows cid db \<longrightarrow> row_follows cid (en_others E n db))
     \<and> (\<forall>n \<ge> N. en_others E n = id) \<and> (\<forall>n. rp_fault (en_reply E n) \<noteq> Some Stuck)"

lemma calms_quiet: "calms E N cid \<Longrightarrow> N \<le> n \<Longrightarrow> en_others E n db = db"
  by (simp add: calms_def)

lemma calms_follow: "calms E N cid \<Longrightarrow> row_follows cid db \<Longrightarrow> row_follows cid (en_others E n db)"
  by (simp add: calms_def)

lemma calms_answer: "calms E N cid \<Longrightarrow> rp_fault (en_reply E n) \<noteq> Some Stuck"
  by (simp add: calms_def)

lemma check_numbered:
  "map ev_sequence es = [n..n + int (length es) - 1] \<Longrightarrow> \<forall>e \<in> set es. ev_conversation_id e = cid \<Longrightarrow>
     check_sequence cid n es = Inr (n + int (length es))"
proof (induction es arbitrary: n)
  case (Cons e es)
  have "[n..n + int (length (e # es)) - 1] = n # [n + 1..(n + 1) + int (length es) - 1]"
    by (subst upto.simps) (simp add: algebra_simps)
  with Cons show ?case by (simp add: algebra_simps)
qed simp

lemma numbered_checks:
  "numbered st es st' \<Longrightarrow> conv_id (st_conversation st) = cid \<Longrightarrow>
     check_events cid (conv_next_event_sequence (st_conversation st)) st' es = Inr ()"
  using check_numbered [of es "conv_next_event_sequence (st_conversation st)" cid]
  by (auto simp: numbered_def check_events_def result_simps)

lemma commit_aggregates:
  assumes "commit_batch cid v st es cs p l now w f db = Inr db'"
  obtains row where "dict_get (db_aggregates db) cid = Some row"
    "db_aggregates db' = dict_put (db_aggregates db) cid (store_aggregate row st)"
    "conv_id (st_conversation st) = cid" "check_events cid (ag_next_event_sequence row) st es = Inr ()"
proof -
  obtain row db1 db2 where lock: "lock_aggregate_for_commit db cid v st es now w f = Inr row"
    and p: "record_process p l (put_aggregate db cid (store_aggregate row st)) = Inr db1"
    and i: "insert_events (interaction_turns st) es db1 = Inr db2"
    and c: "for_each (upsert_command cid) cs db2 = Inr db'"
    by (rule commit_batch_parts [OF assms])
  have "db_aggregates db'' = db_aggregates db2" if "for_each (upsert_command cid) cs db2 = Inr db''" for db''
    using that by (induction cs arbitrary: db2)
      (fastforce simp: result_simps upsert_command_def put_command_def split: if_splits)+
  with c have "db_aggregates db' = dict_put (db_aggregates db) cid (store_aggregate row st)"
    using record_process_frame [OF p] insert_events_effect [OF i] by (simp add: put_aggregate_def)
  with lock show thesis by (intro that) (auto simp: lock_aggregate_Inr)
qed

lemma commit_follows:
  assumes "row_follows cid db" and "commit_batch cid v st es cs p l now w f db = Inr db'"
  shows "row_follows cid db'"
proof -
  obtain row where row: "dict_get (db_aggregates db) cid = Some row"
    and put: "db_aggregates db' = dict_put (db_aggregates db) cid (store_aggregate row st)"
    and st: "conv_id (st_conversation st) = cid" "check_events cid (ag_next_event_sequence row) st es = Inr ()"
    by (rule commit_aggregates [OF assms(2)])
  have "ag_next_event_sequence row \<le> conv_next_event_sequence (st_conversation st)"
    using st(2) check_sequence_numbers [of cid "ag_next_event_sequence row" es]
    by (auto simp: check_events_def result_simps split: if_splits)
  moreover have "1 \<le> ag_next_event_sequence row" using assms(1) row by (simp add: row_follows_def)
  ultimately show ?thesis using put st(1) by (simp add: row_follows_def dict_get_put store_aggregate_def)
qed

lemma bind_refused:
  "bind_result r f = Inl e \<Longrightarrow> (r = Inl e \<Longrightarrow> P) \<Longrightarrow> (\<And>x. r = Inr x \<Longrightarrow> f x = Inl e \<Longrightarrow> P) \<Longrightarrow> P"
  by (cases r) simp_all

text \<open>A commit of what a transition made of the row just read meets no conflict.\<close>

lemma fresh_commit_no_conflict:
  assumes follows: "row_follows cid db" and read: "get_snapshot db cid owner = Inr st"
    and num: "numbered st es st'"
    and run: "commit_batch cid (conv_version (st_conversation st)) st' es [] p None now w f db = Inl e"
  shows "\<not> is_conflict (Raised e)"
proof -
  obtain row where row: "dict_get (db_aggregates db) cid = Some row" "st = ag_state row"
    using read by (auto simp: get_snapshot_def split: option.splits if_splits)
  with follows have eqs: "conv_id (st_conversation st) = cid" "ag_version row = conv_version (st_conversation st)"
    "ag_next_event_sequence row = conv_next_event_sequence (st_conversation st)"
    by (simp_all add: row_follows_def)
  have checked: "check_events cid (ag_next_event_sequence row) st' es = Inr ()"
    using numbered_checks [OF num eqs(1)] eqs(3) by simp
  have inserts: "insert_events m xs d = Inl e' \<Longrightarrow> \<not> is_conflict (Raised e')" for m xs d e'
    by (induction xs arbitrary: d) (auto simp: is_conflict_def split: if_splits)
  have same: "conv_id (st_conversation st') = cid" using num eqs(1) by (simp add: numbered_def)
  have lock: "lock_aggregate_for_commit db cid (conv_version (st_conversation st)) st' es now w f
      = bind_result (require_owner_on_row cid row now w f) (\<lambda>_. Inr row)"
    using row(1) eqs(2) checked same by (simp add: lock_aggregate_for_commit_def result_simps)
  have owner: "require_owner_on_row cid row now w f \<in> {Inr (), Inl (stale_owner cid)}"
    by (simp add: require_owner_on_row_def split: option.split)
  obtain db1 where "record_process p None (put_aggregate db cid (store_aggregate row st')) = Inr db1"
    by (cases p) (auto simp: record_process_def Let_def)
  then show ?thesis using run owner inserts lock
    by (cases "insert_events (interaction_turns st') es db1")
      (auto simp: commit_batch_def result_simps stale_owner_def is_conflict_def)
qed

lemma snapshot_cases:
  assumes "bind_action (owner_snapshot cid owner) f E w = (r, w')"
  obtains e where "get_snapshot (en_others E (w_tick w) (w_store w)) cid owner = Inl e"
      "r = Inl (Raised e) \<or> r = Inl Cancelled"
      "w' = w\<lparr>w_store := en_others E (w_tick w) (w_store w), w_tick := Suc (w_tick w)\<rparr>"
  | "r = Inl Cancelled" "w' = w\<lparr>w_store := en_others E (w_tick w) (w_store w), w_tick := Suc (w_tick w)\<rparr>"
  | st where "get_snapshot (en_others E (w_tick w) (w_store w)) cid owner = Inr st"
      "f st E (w\<lparr>w_store := en_others E (w_tick w) (w_store w), w_tick := Suc (w_tick w)\<rparr>) = (r, w')"
  using assms
  by (auto simp: owner_snapshot_def read_store_def bind_action_def awaited_def Let_def
      split: sum.splits if_splits)

lemma commit_run_cases:
  assumes "then_do (transact (CommitBatch cid v st es cs p None worker fence)) f E w = (r, w')"
  obtains e where "commit_batch cid v st es cs p None (en_db_now E (w_tick w)) worker fence
        (en_others E (w_tick w) (w_store w)) = Inl e" "r = Inl (Raised e) \<or> r = Inl Cancelled"
      "w' = w\<lparr>w_store := en_others E (w_tick w) (w_store w), w_tick := Suc (w_tick w)\<rparr>"
  | w1 db where "commit_batch cid v st es cs p None (en_db_now E (w_tick w)) worker fence
        (en_others E (w_tick w) (w_store w)) = Inr db"
      "w1 = w\<lparr>w_store := db, w_tick := Suc (w_tick w),
         w_trace := w_trace w @ [Wrote (CommitBatch cid v st es cs p None worker fence)]\<rparr>"
      "(r = Inl Cancelled \<and> w' = w1) \<or> f E w1 = (r, w')"
  using assms
  by (auto simp: transact_def bind_action_def awaited_def Let_def
      split: sum.splits if_splits)

text \<open>A round of reading, building and committing, from a world whose others leave it alone in the end.\<close>

lemma snapshot_error: "get_snapshot db cid owner = Inl e \<Longrightarrow> \<not> is_conflict (Raised e)"
  by (auto simp: get_snapshot_def is_conflict_def split: option.splits if_splits)

lemma snapshot_next:
  assumes "row_follows cid db" and "get_snapshot db cid owner = Inr st"
  shows "1 \<le> conv_next_event_sequence (st_conversation st)"
  using assms by (auto simp: get_snapshot_def row_follows_def split: option.splits if_splits)

definition follows_in :: "('z world_scheme \<Rightarrow> bool) \<Rightarrow> uuid \<Rightarrow> 'z world_scheme \<Rightarrow> bool" where
  "follows_in J cid w \<longleftrightarrow> row_follows cid (w_store w) \<and> J w"

lemma commit_round_ends:
  fixes J :: "'z world_scheme \<Rightarrow> bool"
  assumes calm: "calms E N cid" and outside: "process_condition J"
    and built: "\<And>u now st st' p es. 1 \<le> conv_next_event_sequence (st_conversation st) \<Longrightarrow>
      build u now st = Inr (st', p, es) \<Longrightarrow> numbered st es st'"
    and refused: "\<And>u now st e. build u now st = Inl e \<Longrightarrow> \<not> is_conflict (Raised e)"
    and after: "\<And>p. settles E (follows_in J cid) (after p)"
    and after': "\<And>p w r w'. after p E w = (r, w') \<Longrightarrow> \<exists>x. r = Inr x"
  shows "round_ends E N (follows_in J cid) (commit_round cid owner worker fence build after)"
proof (rule round_endsI)
  fix w :: "'z world_scheme" and r w'
  assume I: "follows_in J cid w" and run: "commit_round cid owner worker fence build after E w = (r, w')"
  let ?db = "en_others E (w_tick w) (w_store w)" and ?n = "Suc (w_tick w)"
  let ?w1 = "w\<lparr>w_store := ?db, w_tick := ?n\<rparr>"
  let ?ok = "follows_in J cid w' \<and> w_tick w < w_tick w' \<and> r \<noteq> Inl Stuck
     \<and> (N \<le> w_tick w \<longrightarrow> (\<forall>e. r = Inl e \<longrightarrow> \<not> is_conflict e))"
  have follows: "row_follows cid ?db" and J: "J w"
    using I calms_follow [OF calm] by (simp_all add: follows_in_def)
  note J' = process_condition.outside [OF outside J] process_condition.outside_parts [OF outside J]
  show ?ok
  proof (rule snapshot_cases [OF run [unfolded commit_round_def]])
    fix st
    assume snap: "get_snapshot ?db cid owner = Inr st"
      and rest: "bind_action read_clock (\<lambda>now. bind_action fresh_uuids (\<lambda>u.
         bind_action (lift_result (build u now st)) (\<lambda>(new_state, process, events).
           then_do (commit_runtime_lifecycle cid (conv_version (st_conversation st)) new_state process None
               events worker fence) (after process)))) E ?w1 = (r, w')"
    let ?b = "build (en_uuids E ?n) (en_clock E ?n) st" and ?w2 = "?w1\<lparr>w_tick := Suc ?n\<rparr>"
    show ?ok
    proof (cases ?b)
      case (Inl e)
      with rest refused J' follows show ?thesis
        by (auto simp: run_simps follows_in_def)
    next
      case (Inr t)
      obtain st' p es where t: "?b = Inr (st', p, es)" using Inr by (cases t) auto
      then have commit: "then_do (transact (CommitBatch cid (conv_version (st_conversation st)) st' es []
          p None worker fence)) (after p) E ?w2 = (r, w')"
        using rest by (simp add: run_simps commit_runtime_lifecycle_def)
      have num: "numbered st es st'" using built [OF snapshot_next [OF follows snap] t] .
      let ?db2 = "en_others E (Suc ?n) ?db"
      have follows2: "row_follows cid ?db2" by (rule calms_follow [OF calm follows])
      show ?thesis
      proof (rule commit_run_cases [OF commit])
        fix e
        assume failed: "commit_batch cid (conv_version (st_conversation st)) st' es [] p None
            (en_db_now E (w_tick ?w2)) worker fence (en_others E (w_tick ?w2) (w_store ?w2)) = Inl e"
          and r: "r = Inl (Raised e) \<or> r = Inl Cancelled"
          and w': "w' = ?w2\<lparr>w_store := en_others E (w_tick ?w2) (w_store ?w2), w_tick := Suc (w_tick ?w2)\<rparr>"
        have "\<not> is_conflict (Raised e)" if "N \<le> w_tick w"
          using fresh_commit_no_conflict [OF follows snap num] failed that calms_quiet [OF calm, of "Suc ?n"]
          by simp
        with r w' J' follows2 show ?ok by (auto simp: follows_in_def is_conflict_def)
      next
        fix w1 db
        assume written: "commit_batch cid (conv_version (st_conversation st)) st' es [] p None
            (en_db_now E (w_tick ?w2)) worker fence (en_others E (w_tick ?w2) (w_store ?w2)) = Inr db"
          and w1: "w1 = ?w2\<lparr>w_store := db, w_tick := Suc (w_tick ?w2), w_trace := w_trace ?w2 @
            [Wrote (CommitBatch cid (conv_version (st_conversation st)) st' es [] p None worker fence)]\<rparr>"
          and r: "(r = Inl Cancelled \<and> w' = w1) \<or> after p E w1 = (r, w')"
        have I1: "follows_in J cid w1" and ticks: "w_tick w < w_tick w1"
          using commit_follows [OF _ written] follows2 J' w1 by (simp_all add: follows_in_def)
        show ?ok using r I1 ticks settlesD [OF after I1] after'
          by (auto simp: is_conflict_def) (use order_less_le_trans in blast)+
      qed
    qed
  qed (use follows J' snapshot_error in \<open>auto simp: follows_in_def is_conflict_def\<close>)
qed

end
