(* ===== verification/Runtime_Properties.thy ===== *)
theory Runtime_Properties
  imports Runtime_Start Retry_Termination
begin

text \<open>
  What closing a runtime guarantees: whatever the adapter, the store or a cancellation does, a close
  that comes back has freed the conversation's slot; and it comes back as soon as no other writer
  interferes with one of its attempts.
\<close>

section \<open>Slots\<close>

definition slot_view :: "'z managers_scheme \<Rightarrow> nat \<Rightarrow> (uuid \<times> bool) option" where
  "slot_view w tok = map_option (\<lambda>m. (mr_conversation_id m, mr_closed m)) (dict_get (mg_objects w) tok)"

definition same_slots :: "'z managers_scheme \<Rightarrow> 'z managers_scheme \<Rightarrow> bool" where
  "same_slots w0 w \<longleftrightarrow> mg_runtimes w = mg_runtimes w0 \<and> slot_view w = slot_view w0"

interpretation slots: process_condition "same_slots w0" for w0
  by unfold_locales (simp add: same_slots_def slot_view_def fun_eq_iff)

lemmas [keeps_rules] = slots.keeps_world

lemma map_of_update_at:
  "map_of (map (\<lambda>(i, m). (i, if i = tok then f m else m)) xs) j
     = map_option (\<lambda>m. if j = tok then f m else m) (map_of xs j)"
  by (induction xs) auto

lemma managed_update:
  "dict_get (mg_objects (update_managed tok f w)) j
     = map_option (\<lambda>m. if j = tok then f m else m) (dict_get (mg_objects w) j)"
  by (simp add: update_managed_def map_of_update_at)

lemma update_managed_frame [simp]:
  "mg_runtimes (update_managed tok f w) = mg_runtimes w"
  "mg_candidates (update_managed tok f w) = mg_candidates w"
  "w_trace (update_managed tok f w) = w_trace w"
  "w_store (update_managed tok f w) = w_store w"
  "w_tick (update_managed tok f w) = w_tick w"
  by (simp_all add: update_managed_def)

lemma same_slots_update:
  assumes "\<And>m. mr_conversation_id (f m) = mr_conversation_id m \<and> mr_closed (f m) = mr_closed m"
  shows "same_slots w0 (update_managed tok f w) \<longleftrightarrow> same_slots w0 w"
proof -
  have "slot_view (update_managed tok f w) j = slot_view w j" for j
    using assms by (cases "dict_get (mg_objects w) j") (simp_all add: slot_view_def managed_update)
  then show ?thesis by (simp add: same_slots_def fun_eq_iff)
qed

lemma keeps_change [keeps_rules]:
  "(\<And>m. mr_conversation_id (f m) = mr_conversation_id m \<and> mr_closed (f m) = mr_closed m) \<Longrightarrow>
     keeps A (same_slots w0) (change_managed tok f)"
  unfolding change_managed_def by (rule keeps_modify) (simp add: same_slots_update)

lemma keeps_get_managed [keeps_rules]: "keeps A I (get_managed tok)"
  by (simp add: keeps_def get_managed_def)

lemma keeps_call_managed [keeps_rules]: "keeps A (same_slots w0) (call_managed tok c)"
  by (auto simp: keeps_def call_managed_def Let_def awaited_def same_slots_update
      intro: slots.outside_parts split: option.split)

lemma keeps_force [keeps_rules]: "keeps A (same_slots w0) (force_terminate tok reason)"
  unfolding force_terminate_def by (intro keeps_rules) simp_all

lemma keeps_commit [keeps_rules]:
  "keeps A (same_slots w0) (commit_runtime_lifecycle cid v st p l es worker fence)"
  unfolding commit_runtime_lifecycle_def by (rule slots.keeps_transact)

lemma keeps_live_resources: "keeps A (same_slots w0) (close_live_resources tok)"
  unfolding close_live_resources_def by (intro keeps_rules) (auto intro: keeps_rules)

lemma keeps_persist_terminal: "keeps A (same_slots w0) (persist_terminal tok action reason)"
  unfolding persist_terminal_def terminal_round_def commit_round_def
  by (intro keeps_rules) (auto intro!: keeps_rules split: prod.split)

section \<open>A close frees the slot\<close>

lemma ensure_cases:
  assumes "ensure a b E w = (r, w')" and "r \<noteq> Inl Stuck"
  obtains ra w1 rb where "a E w = (ra, w1)" "b E w1 = (rb, w')" "rb \<noteq> Inl Stuck"
proof (cases "a E w")
  case (Pair ra w1)
  show ?thesis
    by (rule that [of ra w1 "fst (b E w1)"])
      (use assms Pair in \<open>auto simp: ensure_def bind_action_def attempt_def fail_def ret_def
        split: sum.splits prod.splits if_splits\<close>)
qed

lemma slot_view_present: "slot_view w tok = Some (cid, closed) \<Longrightarrow>
   mr_conversation_id (managed_of w tok) = cid \<and> mr_closed (managed_of w tok) = closed"
  by (auto simp: slot_view_def)

lemma delete_gone [simp]: "dict_get (AList.delete k d) k = None"
  by (simp add: delete_conv')

lemma teardown_frees:
  assumes view: "slot_view w tok = Some (cid, False)" and slot: "dict_get (mg_runtimes w) cid = Some tok"
    and run: "teardown_runtime tok b E w = (r, w')" and came: "r \<noteq> Inl Stuck"
  shows "dict_get (mg_runtimes w') cid = None"
proof -
  let ?w1 = "update_managed tok (\<lambda>m. m\<lparr>mr_closed := True\<rparr>) w"
  let ?body = "then_do
    (if b then suppress_exceptions (then_do (call_managed tok (CloseNative (mr_session (managed_of w tok)))) (ret ()))
     else ret ()) (teardown_process tok)"
  have here: "mr_conversation_id (managed_of w tok) = cid" "\<not> mr_closed (managed_of w tok)"
    using slot_view_present [OF view] by simp_all
  have eq: "teardown_runtime tok b E w = ensure ?body (modify (remove_runtime cid)) E ?w1"
    by (simp only: teardown_runtime_def run_simps Let_def here if_False update_managed_frame slot
        not_True_eq_False simp_thms)
  note run' = trans [OF eq [symmetric] run]
  show ?thesis
  proof (rule ensure_cases [OF run' came])
    fix ra w1 rb
    assume "modify (remove_runtime cid) E w1 = (rb, w')"
    then show ?thesis by (auto simp: modify_def remove_runtime_def)
  qed
qed

lemma close_leaves_no_slot:
  assumes slot: "dict_get (mg_runtimes w) cid = Some tok" and view: "slot_view w tok = Some (cid, False)"
    and live: "\<not> mr_closing (managed_of w tok)"
    and run: "close_runtime cid reason E w = (r, w')" and came: "r \<noteq> Inl Stuck"
  shows "dict_get (mg_runtimes w') cid = None"
proof -
  let ?w1 = "update_managed tok (\<lambda>m. m\<lparr>mr_closing := True\<rparr>) w"
  let ?body = "then_do (close_live_resources tok) (persist_terminal tok (Some CloseAction) reason)"
  have start: "same_slots w ?w1" by (simp add: same_slots_update) (simp add: same_slots_def)
  have here: "\<not> (mr_closing (managed_of w tok) \<or> mr_closed (managed_of w tok))"
    using live slot_view_present [OF view] by simp
  have eq: "close_runtime cid reason E w = ensure ?body (teardown_runtime tok False) E ?w1"
    by (simp only: close_runtime_def close_managed_def run_simps slot option.case here if_False)
  note run' = trans [OF eq [symmetric] run]
  obtain ra w2 rb where body: "?body E ?w1 = (ra, w2)"
    and tear: "teardown_runtime tok False E w2 = (rb, w')" and "rb \<noteq> Inl Stuck"
    by (rule ensure_cases [OF run' came])
  have "keeps (\<lambda>_. True) (same_slots w) ?body"
    by (intro keeps_bind keeps_live_resources keeps_persist_terminal)
  then have "same_slots w w2" using keepsD [of "\<lambda>_. True" "same_slots w" ?body E ?w1] start body by simp
  with slot view have "dict_get (mg_runtimes w2) cid = Some tok" "slot_view w2 tok = Some (cid, False)"
    by (simp_all add: same_slots_def)
  then show ?thesis using tear \<open>rb \<noteq> Inl Stuck\<close> by (intro teardown_frees)
qed

section \<open>A close comes back\<close>

definition close_inv :: "uuid \<Rightarrow> nat \<Rightarrow> 'z managers_scheme \<Rightarrow> bool" where
  "close_inv cid tok w \<longleftrightarrow> row_follows cid (w_store w) \<and> (\<exists>c. slot_view w tok = Some (cid, c))"

lemma slot_view_update:
  assumes "\<And>m. mr_conversation_id (f m) = mr_conversation_id m"
  shows "(\<exists>c. slot_view (update_managed t f w) tok = Some (cid, c)) \<longleftrightarrow> (\<exists>c. slot_view w tok = Some (cid, c))"
  using assms by (cases "dict_get (mg_objects w) tok") (simp_all add: slot_view_def managed_update)

lemma close_inv_update:
  "(\<And>m. mr_conversation_id (f m) = mr_conversation_id m) \<Longrightarrow>
     close_inv cid tok (update_managed t f w) \<longleftrightarrow> close_inv cid tok w"
  by (simp add: close_inv_def slot_view_update)

lemma close_inv_world:
  "close_inv cid tok (w\<lparr>w_tick := t, w_trace := tr\<rparr>) \<longleftrightarrow> close_inv cid tok w"
  "close_inv cid tok (w\<lparr>w_tick := t\<rparr>) \<longleftrightarrow> close_inv cid tok w"
  "close_inv cid tok (w\<lparr>w_store := s, w_tick := t\<rparr>)
     \<longleftrightarrow> row_follows cid s \<and> (\<exists>c. slot_view w tok = Some (cid, c))"
  "close_inv cid tok (w\<lparr>w_store := s, w_tick := t, w_trace := tr\<rparr>)
     \<longleftrightarrow> row_follows cid s \<and> (\<exists>c. slot_view w tok = Some (cid, c))"
  by (simp_all add: close_inv_def slot_view_def)

lemma settles_change [settles_rules]:
  "(\<And>m. mr_conversation_id (f m) = mr_conversation_id m) \<Longrightarrow> settles E (close_inv cid tok) (change_managed t f)"
  unfolding change_managed_def by (rule settles_modify) (simp add: close_inv_update)

lemma settles_get_managed [settles_rules]: "settles E I (get_managed t)"
  by (simp add: settles_def get_managed_def)

lemma settles_call_managed [settles_rules]:
  assumes "calms E N cid"
  shows "settles E (close_inv cid tok) (call_managed t c)"
  using calms_answer [OF assms]
  by (intro settlesI) (auto simp: call_managed_def Let_def awaited_def close_inv_update close_inv_world
      split: option.splits if_splits)

lemma settles_force:
  "calms E N cid \<Longrightarrow> settles E (close_inv cid tok) (force_terminate t reason)"
  unfolding force_terminate_def by (intro settles_rules) auto

lemma settles_live_resources:
  "calms E N cid \<Longrightarrow> settles E (close_inv cid tok) (close_live_resources t)"
  unfolding close_live_resources_def
  by (intro settles_rules) (auto intro!: settles_rules settles_force)

lemma numbered_emit:
  "1 \<le> conv_next_event_sequence (st_conversation st) \<Longrightarrow>
     numbered st (tr_events (emit_event u st now p)) (tr_state (emit_event u st now p))"
  using numbered_append [of st st u now "[p]"]
  by (simp add: emit_event_def result_of_def split: prod.split)

lemma numbered_refl: "numbered st [] st"
  by (simp add: numbered_def)

lemma numbered_next: "numbered st es st' \<Longrightarrow> conv_next_event_sequence (st_conversation st)
   \<le> conv_next_event_sequence (st_conversation st')"
  by (simp add: numbered_def)

lemma numbered_process_event:
  assumes "1 \<le> conv_next_event_sequence (st_conversation st)"
    and "apply_process_event u now m st event = Inr (st', process, es)"
  shows "numbered st es st'"
proof -
  have one: "numbered st (snd (append_events u st now [p])) (fst (append_events u st now [p]))" for u p
    using numbered_append [of st st] assms(1) by simp
  have failed: "numbered st (tr_events r @ snd (append_events v (tr_state r) now [p]))
      (fst (append_events v (tr_state r) now [p]))"
    if "fail_session u st now code msg = Inr r" for u v code msg r p
  proof (rule numbered_trans)
    show first: "numbered st (tr_events r) (tr_state r)"
      using that numbered_emit [OF assms(1)] by (auto simp: fail_session_def split: option.splits)
    show "numbered (tr_state r) (snd (append_events v (tr_state r) now [p])) (fst (append_events v (tr_state r) now [p]))"
      using numbered_append [of "tr_state r" "tr_state r"] numbered_next [OF first] assms(1) by simp
  qed
  show ?thesis
  proof (cases event)
    case (ProcessExitedEvent i exit_code)
    then show ?thesis using assms(2)
      by (auto simp: apply_process_event_def Let_def case_prod_unfold result_simps
          intro!: one failed split: option.splits if_splits)
  qed (use assms(2) one in \<open>auto simp: apply_process_event_def Let_def case_prod_unfold numbered_refl\<close>)
qed

lemma numbered_end_session:
  "1 \<le> conv_next_event_sequence (st_conversation st) \<Longrightarrow>
     end_session action u st now reason = Inr (st', es) \<Longrightarrow> numbered st es st'"
  using numbered_emit [of st]
  by (auto simp: end_session_def close_session_def reap_session_def result_simps numbered_refl
      split: option.splits session_action.splits if_splits)

lemma numbered_terminal:
  assumes "1 \<le> conv_next_event_sequence (st_conversation st)"
    and "terminal_changes u now m event action reason st = Inr (st', process, es)"
  shows "numbered st es st'"
proof -
  obtain st1 prior st2 es2 es3 where prior: "numbered st prior st1"
    and event: "apply_process_event (drop_supply 1 u) now m st1 event = Inr (st2, process, es2)"
    and ended: "end_session action (drop_supply 3 u) st2 now reason = Inr (st', es3)"
    and es: "es = prior @ es2 @ es3"
    using assms(2) numbered_process_event [OF assms(1)] numbered_refl [of st]
    by (fastforce simp: terminal_changes_def result_simps split: option.splits)
  note first = numbered_process_event [OF _ event]
  have one: "1 \<le> conv_next_event_sequence (st_conversation st1)" using numbered_next [OF prior] assms(1) by simp
  then have two: "1 \<le> conv_next_event_sequence (st_conversation st2)"
    using numbered_next [OF first] by simp
  show ?thesis unfolding es
    by (intro numbered_trans [OF prior] numbered_trans [OF first] numbered_end_session [OF two ended] one)
qed

text \<open>One round of the terminal write.\<close>

interpretation slot_held: process_condition "\<lambda>w. \<exists>c. slot_view w tok = Some (cid, c)" for cid tok
  by unfold_locales (auto simp: slot_view_def)

lemma close_inv_follows: "close_inv cid tok = follows_in (\<lambda>w. \<exists>c. slot_view w tok = Some (cid, c)) cid"
  by (simp add: close_inv_def follows_in_def fun_eq_iff)

text \<open>No transition of the terminal write is refused as a conflict.\<close>

lemma process_event_refused: "apply_process_event u now m st event = Inl e \<Longrightarrow> \<not> is_conflict (Raised e)"
  by (cases event) (auto simp: apply_process_event_def fail_session_def Let_def case_prod_unfold is_conflict_def
      result_simps split: option.splits if_splits)

lemma end_session_refused: "end_session action u st now reason = Inl e \<Longrightarrow> \<not> is_conflict (Raised e)"
  by (auto simp: end_session_def close_session_def reap_session_def is_conflict_def result_simps
      split: option.splits session_action.splits if_splits)

lemma terminal_refused:
  assumes "terminal_changes u now m event action reason st = Inl e"
  shows "\<not> is_conflict (Raised e)"
  using assms
  by (auto simp: terminal_changes_def elim!: bind_refused split: option.splits prod.splits
      dest: process_event_refused end_session_refused)

lemma change_returns: "change_managed tok f E w = (r, w') \<Longrightarrow> r = Inr ()"
  by (auto simp: change_managed_def modify_def)

lemma terminal_round_ends:
  assumes "calms E N cid"
  shows "round_ends E N (close_inv cid tok) (terminal_round tok event action reason)"
proof (rule round_endsI)
  fix w :: "'z managers_scheme" and r w'
  assume I: "close_inv cid tok w" and run: "terminal_round tok event action reason E w = (r, w')"
  then have id: "mr_conversation_id (managed_of w tok) = cid"
    by (auto simp: close_inv_def slot_view_def)
  let ?m = "managed_of w tok"
  let ?build = "\<lambda>u now st. bind_result (terminal_changes u now ?m event action reason st)
            (\<lambda>(new_state, process, events). Inr (new_state, Some (mr_process_id ?m, process), events))"
  let ?after = "\<lambda>process. change_managed tok (\<lambda>m'. m'\<lparr>mr_process_record := snd (the process),
            mr_terminal_persisted := True, mr_stderr_truncation_persisted :=
              (mr_stderr_truncation_persisted m' \<or> truncation_due ?m \<noteq> None)\<rparr>)"
  have "round_ends E N (close_inv cid tok)
      (commit_round cid (mr_owner_id ?m) (mr_worker_id ?m) (mr_fence ?m) ?build ?after)"
    unfolding close_inv_follows
  proof (rule commit_round_ends [OF assms slot_held.process_condition_axioms])
  qed (auto simp: close_inv_follows [symmetric] result_simps change_returns intro!: settles_change
      dest: numbered_terminal terminal_refused elim!: bind_refused)
  from this [unfolded round_ends_def, rule_format, OF I run [unfolded terminal_round_def run_get_managed id]]
  show "close_inv cid tok w' \<and> w_tick w < w_tick w' \<and> r \<noteq> Inl Stuck
      \<and> (N \<le> w_tick w \<longrightarrow> (\<forall>e. r = Inl e \<longrightarrow> \<not> is_conflict e))" by blast
qed

lemma settles_persist_terminal:
  assumes "calms E N cid" and "N < en_patience E"
  shows "settles E (close_inv cid tok) (persist_terminal tok action reason)"
proof (rule settlesI)
  fix w :: "'z managers_scheme" and r w'
  assume I: "close_inv cid tok w" and run: "persist_terminal tok action reason E w = (r, w')"
  let ?event = "terminal_event (managed_of w tok) reason"
  show "close_inv cid tok w' \<and> w_tick w \<le> w_tick w' \<and> r \<noteq> Inl Stuck"
  proof (cases "mr_terminal_persisted (managed_of w tok)")
    case False
    with run have "retry_conflicts (en_patience E) (terminal_round tok ?event action reason) E w = (r, w')"
      by (simp add: persist_terminal_def run_simps)
    from retry_comes_back [OF terminal_round_ends [OF assms(1)] I _ _ this] assms(2)
    show ?thesis by simp
  qed (use run I in \<open>auto simp: persist_terminal_def run_simps\<close>)
qed

lemma settles_teardown:
  assumes "calms E N cid"
  shows "settles E (close_inv cid tok) (teardown_runtime t b)"
proof -
  have "settles E (close_inv cid tok) (modify (remove_runtime c))" for c
    by (rule settles_modify) (simp add: remove_runtime_def close_inv_def slot_view_def)
  then show ?thesis
    unfolding teardown_runtime_def teardown_process_def Let_def
    by (intro settles_rules) (auto intro!: settles_rules settles_force [OF assms] settles_call_managed [OF assms]
        split: option.split)
qed

lemma close_comes_back:
  assumes "calms E N cid" and "N < en_patience E"
    and "slot_view w tok = Some (cid, False)" and "dict_get (mg_runtimes w) cid = Some tok"
    and "row_follows cid (w_store w)"
    and "close_runtime cid reason E w = (r, w')"
  shows "r \<noteq> Inl Stuck"
proof -
  have settled: "settles E (close_inv cid tok) (close_managed tok (Some CloseAction) reason)"
    unfolding close_managed_def
    by (intro settles_rules; (split if_split, intro conjI impI)?)
      (auto intro!: settles_rules settles_persist_terminal [OF assms(1,2)] settles_teardown [OF assms(1)]
        settles_live_resources [OF assms(1)])
  have run: "close_managed tok (Some CloseAction) reason E w = (r, w')"
    using assms(4,6) by (simp add: close_runtime_def run_simps)
  have "close_inv cid tok w" using assms(3,5) unfolding close_inv_def by blast
  from settlesD [OF settled this run] show ?thesis by simp
qed

text \<open>C34: Closing a live runtime frees the slot of its conversation, whatever the adapter, the store or a
  cancellation does meanwhile, and whether the close returns or raises; and it comes back: the retries of
  its terminal write end as soon as no other writer interferes, so a patience beyond that point
  is enough.\<close>

theorem close_frees_slot:
  assumes "dict_get (mg_runtimes w) cid = Some tok" and "slot_view w tok = Some (cid, False)"
    and "\<not> mr_closing (managed_of w tok)"
    and "calms E N cid" and "N < en_patience E" and "row_follows cid (w_store w)"
  shows "fst (close_runtime cid reason E w) \<noteq> Inl Stuck
    \<and> dict_get (mg_runtimes (snd (close_runtime cid reason E w))) cid = None"
proof -
  obtain r w' where run: "close_runtime cid reason E w = (r, w')" by fastforce
  from close_comes_back [OF assms(4,5,2,1,6) run] have "r \<noteq> Inl Stuck" .
  with close_leaves_no_slot [OF assms(1-3) run] run show ?thesis by simp
qed

end
