(* ===== verification/Runtime_Demonstration.thy ===== *)
theory Runtime_Demonstration
  imports Runtime_Properties Store_Demonstration
begin

text \<open>
  A worker with one live runtime, over the store of \<open>Store_Demonstration\<close>, in an environment whose
  other writers are at rest from tick 3 on: the concrete inputs of the witnesses about the runtime.
\<close>

definition demo_session :: harness_session where
  "demo_session = \<lparr>hs_conversation_id = Uuid 1, hs_binding_id = Uuid 2, hs_kind = CLAUDE,
     hs_native_session_id = Some ''native'', hs_model = None, hs_mode = None, hs_effort = None\<rparr>"

definition demo_capabilities :: harness_capabilities where
  "demo_capabilities = \<lparr>caps_kind = CLAUDE, caps_command_guard = GUARD_APPROVAL_ONLY, caps_version = ''2.1.0'',
     caps_supports_steer = False, caps_supports_resume = True, caps_supports_interrupt = True,
     caps_supports_multi_interaction = False, caps_supports_nested_activity = False,
     caps_supports_mcp_servers = True, caps_models = [], caps_modes = [], caps_efforts = []\<rparr>"

definition demo_launch :: launch_snapshot where
  "demo_launch = \<lparr>launch_resolved_executable = None, launch_sandbox_policy = None,
     launch_harness_version = ''2.1.0'', launch_working_directory = ''/w'', launch_workspace_roots = [],
     launch_model = None, launch_mode = None, launch_effort = None, launch_adapter_version = ''1'',
     launch_capabilities = demo_capabilities\<rparr>"

definition demo_managed :: managed_runtime where
  "demo_managed = \<lparr>mr_conversation_id = Uuid 1, mr_owner_id = ''owner'', mr_session = demo_session,
     mr_process = None, mr_process_id = Uuid 50,
     mr_process_record = new_process_row (Uuid 1) (Uuid 2) PROC_RUNNING None (Some 100),
     mr_launch = demo_launch, mr_worker_id = None, mr_fence = None, mr_closing = False,
     mr_closed = False, mr_terminal_persisted = False, mr_stderr_truncation_persisted = False\<rparr>"

text \<open>An adapter that answers every call, and clocks that tick with the awaits.\<close>

definition demo_reply :: native_reply where
  "demo_reply = \<lparr>rp_fault = None, rp_session = demo_session, rp_launch = demo_launch, rp_process = None,
     rp_accepted = True, rp_setup_started = None, rp_setup = NoSetup, rp_events = []\<rparr>"

definition demo_environment :: environment where
  "demo_environment = \<lparr>en_clock = (\<lambda>n. 200 + int n), en_db_now = (\<lambda>n. 142 + int n),
     en_uuids = (\<lambda>n k. Uuid (of_nat (1000 + 10 * n + k))), en_others = (\<lambda>n. id),
     en_reply = (\<lambda>n. demo_reply), en_cancelled = (\<lambda>n. False), en_registered = (\<lambda>k. True),
     en_split_stream = (\<lambda>k. False), en_setup_hook = (\<lambda>k. False), en_patience = 4, en_max_runtimes = 2,
     en_publish_fault = (\<lambda>n. None), en_resolve_path = (\<lambda>n. Some), en_is_dir = (\<lambda>n d. True),
     en_resolve_executable = (\<lambda>n. Inr), en_blocked = (\<lambda>n st i. Inr False),
     en_seen = (\<lambda>n. ([], [], None)), en_handoff = (\<lambda>n cid. [])\<rparr>"

definition demo_managers :: managers where
  "demo_managers = \<lparr>w_store = demo_delivered_store, w_tick = 0, w_trace = [],
     mg_objects = [(0, demo_managed)], mg_runtimes = [(Uuid 1, 0)], mg_candidates = [],
     mg_shutting_down = False\<rparr>"

lemma demo_calms: "calms demo_environment 3 (Uuid 1)"
  by (simp add: calms_def demo_environment_def demo_reply_def)

lemma demo_patience: "en_patience demo_environment = 4"
  by (simp add: demo_environment_def)

lemma demo_follows: "row_follows (Uuid 1) demo_delivered_store"
  by code_simp

theorem close_frees_slot_witness:
  "fst (close_runtime (Uuid 1) None demo_environment demo_managers) \<noteq> Inl Stuck
    \<and> dict_get (mg_runtimes (snd (close_runtime (Uuid 1) None demo_environment demo_managers))) (Uuid 1) = None"
  by (rule close_frees_slot [where tok = 0 and N = 3])
    (simp_all add: demo_calms demo_follows demo_managers_def slot_view_def demo_managed_def demo_patience)

end
