(* ===== verification/Interaction_Broker.thy ===== *)
theory Interaction_Broker
  imports Worker_World
begin

text \<open>
  The interaction broker (\<open>src/talktoharnesses/application/interaction_broker.py\<close>): it records the
  request of an adapter, lets the approval rules decide, takes the answer of a person, and releases the
  command that carries the answer to the harness, each after the event it rests on was published. The
  path and executable lookups of the file system and the project's command guard are answers of the
  environment.
\<close>

section \<open>Normalized requests\<close>

definition resolving_path ::
  "((string \<Rightarrow> string option) \<Rightarrow> (string \<Rightarrow> bool) \<Rightarrow> (string \<Rightarrow> string result) \<Rightarrow> 'a)
     \<Rightarrow> (environment, 'z world_scheme, 'e, 'a) action" where
  "resolving_path f = (\<lambda>E w. let n = w_tick w in
     (Inr (f (en_resolve_path E n) (en_is_dir E n) (en_resolve_executable E n)), w))"

text \<open>An action whose path cannot be normalized is kept as an unknown one, which no rule matches.\<close>

definition normalized_request ::
  "(string \<Rightarrow> string option) \<Rightarrow> conversation_state \<Rightarrow> pending_interaction \<Rightarrow> pending_interaction result" where
  "normalized_request resolve st x = (case inter_request x of
     ApprovalRequest p \<Rightarrow>
       (let with_action = (\<lambda>action. x\<lparr>inter_request := ApprovalRequest (p\<lparr>arp_action := action\<rparr>)\<rparr>) in
        case normalize_approval_action resolve (arp_action p) (working_directory_of st) of
          Inr action \<Rightarrow> Inr (with_action action)
        | Inl (ValueError _) \<Rightarrow> Inr (with_action None)
        | Inl e \<Rightarrow> Inl e)
   | StructuredQuestion _ \<Rightarrow> Inr x)"

definition is_interaction_request :: "conversation_event \<Rightarrow> bool" where
  "is_interaction_request e = (case ev_payload e of NoticeEvent (InteractionRequested _ _ _ _) \<Rightarrow> True | _ \<Rightarrow> False)"

definition request_sequence :: "conversation_event list \<Rightarrow> int" where
  "request_sequence es = (case List.find is_interaction_request es of
     Some e \<Rightarrow> ev_sequence e
   | None \<Rightarrow> (case es of e # _ \<Rightarrow> ev_sequence e | [] \<Rightarrow> 0))"

section \<open>Publication\<close>

definition publish_resolution :: "uuid \<Rightarrow> uuid \<Rightarrow> (environment, 'z world_scheme, fault, unit) action" where
  "publish_resolution cid i =
     bind_action (read_store (interaction_resolution_event cid i)) (\<lambda>e. publish [e])"

definition publish_request :: "uuid \<Rightarrow> uuid \<Rightarrow> (environment, 'z world_scheme, fault, unit) action" where
  "publish_request cid i = bind_action (read_store (interaction_request_event cid i)) (\<lambda>e. publish [e])"

section \<open>Releasing the answer\<close>

definition is_answer_command :: "uuid \<Rightarrow> command \<Rightarrow> bool" where
  "is_answer_command i c \<longleftrightarrow> cmd_kind c = ANSWER_INTERACTION \<and> cmd_payload c = AnswerInteractionPayload i"

definition find_answer_command :: "conversation_state \<Rightarrow> uuid \<Rightarrow> command option" where
  "find_answer_command st i = List.find (is_answer_command i) (dict_values (st_commands st))"

definition answer_key :: "string option \<Rightarrow> uuid \<Rightarrow> string" where
  "answer_key key i = (if truthy_text key then the key else ''answer-interaction:'' @ uuid_str i)"

definition release_for ::
  "uuid \<Rightarrow> string \<Rightarrow> uuid \<Rightarrow> conversation_state \<Rightarrow> string option \<Rightarrow> string option \<Rightarrow> int option
     \<Rightarrow> (environment, 'z world_scheme, fault, command) action" where
  "release_for cid owner_id i st key worker fence =
     (case find_answer_command st i of
        Some c \<Rightarrow> ret c
      | None \<Rightarrow>
          bind_action read_clock (\<lambda>now.
          bind_action fresh_uuids (\<lambda>u.
            let c = accepted_command (u 0) cid (AnswerInteractionPayload i) (answer_key key i)
                  (map_option inter_turn_id (dict_get (st_interactions st) i)) now
            in transact_with (\<lambda>now. release_interaction_answer cid owner_id i c now worker fence)
                 (ReleaseAnswer cid owner_id i c worker fence))))"

definition resolve_interaction ::
  "resolution \<Rightarrow> (environment, 'z world_scheme, fault, interaction_answer \<times> bool) action" where
  "resolve_interaction rs =
     bind_action fresh_uuids (\<lambda>u E w. let blocked = en_blocked E (w_tick w) in
       transact_with (commit_interaction_resolution blocked u rs) (CommitResolution blocked u rs) E w)"

section \<open>The rules decide\<close>

text \<open>\<open>_evaluate_policy\<close>.\<close>

definition automatic_resolution ::
  "uuid \<Rightarrow> uuid \<Rightarrow> conversation_state \<Rightarrow> datetime \<Rightarrow> string option \<Rightarrow> int option \<Rightarrow> resolution" where
  "automatic_resolution cid i st now worker fence =
     \<lparr>rs_conversation_id = cid, rs_owner_id = conv_owner_id (st_conversation st),
      rs_expected_version = conv_version (st_conversation st), rs_state = st, rs_events = [],
      rs_answer = \<lparr>ans_interaction_id = i, ans_decision = None, ans_answers = None, ans_is_draft = False,
        ans_submitted_at = Some now\<rparr>,
      rs_automatic = True, rs_create_rule = None, rs_deciding_rule = None, rs_event_sequence = 0,
      rs_mark_evaluated = True, rs_suppress_command = False, rs_worker_id = worker, rs_fence = fence\<rparr>"

definition evaluate_policy ::
  "uuid \<Rightarrow> uuid \<Rightarrow> string option \<Rightarrow> int option \<Rightarrow> (environment, 'z world_scheme, fault, unit) action" where
  "evaluate_policy cid i worker fence =
     bind_action (worker_snapshot cid) (\<lambda>st.
     if dict_get (st_interactions st) i = None \<or> answered st i then ret ()
     else
       bind_action read_clock (\<lambda>now.
       bind_action (resolve_interaction (automatic_resolution cid i st now worker fence)) (\<lambda>(answer, first).
       if \<not> first then ret ()
       else
         bind_action (worker_snapshot cid) (\<lambda>after.
         then_do (publish_resolution cid i)
           (then_do (release_for cid (conv_owner_id (st_conversation st)) i after None worker fence) (ret ()))))))"

text \<open>\<open>accept_request\<close>: record, publish, evaluate. A request that stays unpublished stays unevaluated.\<close>

definition published :: "conversation_event list \<Rightarrow> (environment, 'z world_scheme, fault, bool) action" where
  "published es = attempt (then_do (publish es) (ret True)) (\<lambda>e. if is_exception e then ret False else fail e)"

definition accept_request ::
  "uuid \<Rightarrow> pending_interaction \<Rightarrow> (string, string) dict \<Rightarrow> string option \<Rightarrow> int option
     \<Rightarrow> (environment, 'z world_scheme, fault, unit) action" where
  "accept_request cid x correlation worker fence =
     bind_action (worker_snapshot cid) (\<lambda>st.
     bind_action (resolving_path (\<lambda>resolve _ _. normalized_request resolve st x)) (\<lambda>normal.
     bind_action (lift_result normal) (\<lambda>x.
     bind_action read_clock (\<lambda>now.
     bind_action fresh_uuids (\<lambda>u.
     bind_action (lift_result (request_interaction u st x now)) (\<lambda>r.
     if tr_events r = []
     then bind_action (read_store (\<lambda>db. Inr (list_unevaluated db))) (\<lambda>unevaluated.
       if (cid, inter_id x) \<notin> set unevaluated then ret ()
       else then_do (publish_request cid (inter_id x)) (evaluate_policy cid (inter_id x) None None))
     else
       then_do (transact (CommitRequest cid (conv_version (st_conversation st)) (tr_state r) (tr_events r)
           (inter_id x) correlation (request_sequence (tr_events r)) worker fence))
       (bind_action (published (tr_events r)) (\<lambda>announced.
         if announced then evaluate_policy cid (inter_id x) worker fence else ret ()))))))))"

section \<open>A person decides\<close>

definition update_draft ::
  "string \<Rightarrow> uuid \<Rightarrow> uuid \<Rightarrow> (string, json) dict \<Rightarrow> (environment, 'z world_scheme, fault, pending_interaction) action" where
  "update_draft owner_id cid i draft =
     bind_action (owner_snapshot cid owner_id) (\<lambda>st.
     if dict_get (st_interactions st) i = None then fail (Raised (not_found ''interaction''))
     else
       bind_action read_clock (\<lambda>now.
       bind_action fresh_uuids (\<lambda>u.
       bind_action (lift_result (update_interaction_draft u st i draft now)) (\<lambda>r.
       then_do (transact (FacadeMutation cid owner_id (conv_version (st_conversation st)) (tr_state r) (tr_events r) []))
       (then_do (publish (tr_events r))
         (case dict_get (st_interactions (tr_state r)) i of
            None \<Rightarrow> fail (Raised (LookupError (uuid_str i)))
          | Some x \<Rightarrow> ret x))))))"

text \<open>\<open>_validate_create_and_allow\<close>; the caller has looked the interaction up.\<close>

definition validate_create_and_allow ::
  "conversation_state \<Rightarrow> uuid \<Rightarrow> approval_rule \<Rightarrow> approval_decision option \<Rightarrow> unit result" where
  "validate_create_and_allow st i rule decision =
     (if decision \<noteq> Some ALLOW_ONCE
      then raise_domain INVALID_STATE ''create-and-allow requires decision allow_once''
      else if \<not> rule_matches_request rule (request_action st i)
          \<lparr>ctx_principal_id = rule_principal_id rule, ctx_conversation_id = conv_id (st_conversation st),
           ctx_owner_id = conv_owner_id (st_conversation st), ctx_binding = st_binding st,
           ctx_working_directory = working_directory_of st\<rparr>
      then raise_domain INVALID_STATE ''create-and-allow rule does not match the current request''
      else if rule_decision rule \<noteq> RULE_ALLOW
      then raise_domain INVALID_STATE ''create-and-allow requires an allow rule''
      else Inr ())"

definition checked_rule ::
  "conversation_state \<Rightarrow> string \<Rightarrow> uuid \<Rightarrow> approval_rule \<Rightarrow> approval_decision option
     \<Rightarrow> (environment, 'z world_scheme, fault, approval_rule) action" where
  "checked_rule st owner_id i rule decision =
     (if rule_principal_id rule \<noteq> owner_id then raise_error INVALID_STATE ''rule principal must match caller''
      else bind_action (resolving_path (\<lambda>resolve is_dir executable.
          normalize_approval_rule resolve is_dir executable rule (working_directory_of st))) (\<lambda>normal.
        bind_action (case normal of
            Inl (ValueError message) \<Rightarrow> raise_error INVALID_STATE message
          | _ \<Rightarrow> lift_result normal) (\<lambda>rule.
        then_do (lift_result (validate_create_and_allow st i rule decision)) (ret rule))))"

definition manual_resolution ::
  "uuid \<Rightarrow> string \<Rightarrow> conversation_state \<Rightarrow> conversation_state \<Rightarrow> conversation_event list \<Rightarrow> interaction_answer
     \<Rightarrow> approval_rule option \<Rightarrow> resolution" where
  "manual_resolution cid owner_id st st' es answer rule =
     \<lparr>rs_conversation_id = cid, rs_owner_id = owner_id, rs_expected_version = conv_version (st_conversation st),
      rs_state = st', rs_events = es, rs_answer = answer, rs_automatic = False, rs_create_rule = rule,
      rs_deciding_rule = rule, rs_event_sequence = ev_sequence (last es), rs_mark_evaluated = False,
      rs_suppress_command = False, rs_worker_id = None, rs_fence = None\<rparr>"

definition the_answer :: "conversation_state \<Rightarrow> uuid \<Rightarrow> interaction_answer result" where
  "the_answer st i = (case dict_get (st_answers st) i of
     Some a \<Rightarrow> Inr a | None \<Rightarrow> Inl (LookupError (uuid_str i)))"

definition resolve_manual ::
  "string \<Rightarrow> uuid \<Rightarrow> uuid \<Rightarrow> approval_decision option \<Rightarrow> (string, json) dict option
     \<Rightarrow> approval_rule option \<Rightarrow> string option \<Rightarrow> (environment, 'z world_scheme, fault, command) action" where
  "resolve_manual owner_id cid i decision answers new_rule key =
     bind_action (owner_snapshot cid owner_id) (\<lambda>st.
     if dict_get (st_interactions st) i = None then fail (Raised (not_found ''interaction''))
     else if answered st i then
       (case find_answer_command st i of
          Some c \<Rightarrow> ret c
        | None \<Rightarrow> then_do (publish_resolution cid i)
            (bind_action (owner_snapshot cid owner_id) (\<lambda>st. release_for cid owner_id i st None None None)))
     else
       bind_action (case new_rule of
           None \<Rightarrow> ret None
         | Some rule \<Rightarrow> bind_action (checked_rule st owner_id i rule decision) (\<lambda>rule. ret (Some rule))) (\<lambda>rule.
       bind_action read_clock (\<lambda>now.
       bind_action fresh_uuids (\<lambda>u.
       bind_action (lift_result (submit_interaction_answer u st \<lparr>ans_interaction_id = i, ans_decision = decision,
           ans_answers = answers, ans_is_draft = False, ans_submitted_at = None\<rparr> now False)) (\<lambda>r.
       if tr_events r = []
       then bind_action (owner_snapshot cid owner_id) (\<lambda>st.
         case find_answer_command st i of
           Some c \<Rightarrow> ret c
         | None \<Rightarrow> raise_error INTERACTION_ALREADY_RESOLVED ''interaction already resolved'')
       else
         bind_action (lift_result (the_answer (tr_state r) i)) (\<lambda>submitted.
         then_do (resolve_interaction (manual_resolution cid owner_id st (tr_state r) (tr_events r) submitted rule))
         (then_do (publish_resolution cid i)
         (bind_action (owner_snapshot cid owner_id) (\<lambda>st.
           release_for cid owner_id i st key None None)))))))))"

section \<open>Interrupts and restarts\<close>

text \<open>\<open>cancel_open_for_interrupt\<close>: each open interaction is cancelled and published before the adapter is interrupted.\<close>

definition suppressed_resolution ::
  "uuid \<Rightarrow> string \<Rightarrow> conversation_state \<Rightarrow> conversation_state \<Rightarrow> conversation_event list \<Rightarrow> interaction_answer
     \<Rightarrow> string option \<Rightarrow> int option \<Rightarrow> resolution" where
  "suppressed_resolution cid owner_id st st' es answer worker fence =
     (manual_resolution cid owner_id st st' es answer None)
       \<lparr>rs_suppress_command := True, rs_worker_id := worker, rs_fence := fence\<rparr>"

definition complete_suppressed :: "uuid \<Rightarrow> (environment, 'z world_scheme, fault, bool) action" where
  "complete_suppressed i = bind_action read_clock (\<lambda>now.
     transact_with (\<lambda>_. complete_suppressed_interaction_resolution i now) (CompleteSuppressed i now))"

definition cancel_for_interrupt ::
  "uuid \<Rightarrow> string \<Rightarrow> string option \<Rightarrow> int option \<Rightarrow> uuid \<Rightarrow> (environment, 'z world_scheme, fault, unit) action" where
  "cancel_for_interrupt cid owner_id worker fence i =
     bind_action (worker_snapshot cid) (\<lambda>st.
     if dict_get (st_answers st) i \<noteq> None then ret ()
     else
       bind_action read_clock (\<lambda>now.
       bind_action fresh_uuids (\<lambda>u.
       let (st', es) = cancel_interaction u st i now in
       if es = [] then ret ()
       else
         bind_action (lift_result (the_answer st' i)) (\<lambda>submitted.
         bind_action (resolve_interaction (suppressed_resolution cid owner_id st st' es submitted worker fence))
           (\<lambda>(answer, first).
           if \<not> first then ret ()
           else then_do (publish_resolution cid i) (then_do (complete_suppressed i) (ret ())))))))"

definition cancel_open_for_interrupt ::
  "uuid \<Rightarrow> string option \<Rightarrow> int option \<Rightarrow> (environment, 'z world_scheme, fault, unit) action" where
  "cancel_open_for_interrupt cid worker fence =
     bind_action (worker_snapshot cid) (\<lambda>st.
       each (cancel_for_interrupt cid (conv_owner_id (st_conversation st)) worker fence)
         (map inter_id (dict_values (st_interactions st))))"

definition reconcile_unevaluated :: "uuid \<times> uuid \<Rightarrow> (environment, 'z world_scheme, fault, unit) action" where
  "reconcile_unevaluated p = (case p of (cid, i) \<Rightarrow>
     suppress_exceptions (bind_action (worker_snapshot cid) (\<lambda>st.
       if dict_get (st_interactions st) i = None then ret ()
       else then_do (publish_request cid i) (evaluate_policy cid i None None))))"

definition reconcile_unreleased :: "uuid \<times> uuid \<Rightarrow> (environment, 'z world_scheme, fault, unit) action" where
  "reconcile_unreleased p = (case p of (cid, i) \<Rightarrow>
     suppress_exceptions (bind_action (worker_snapshot cid) (\<lambda>st.
       then_do (publish_resolution cid i)
       (bind_action (complete_suppressed i) (\<lambda>suppressed.
         if suppressed then ret ()
         else bind_action (worker_snapshot cid) (\<lambda>after.
           then_do (release_for cid (conv_owner_id (st_conversation st)) i after None None None) (ret ())))))))"

definition reconcile_on_startup :: "(environment, 'z world_scheme, fault, unit) action" where
  "reconcile_on_startup =
     bind_action (read_store (\<lambda>db. Inr (list_unevaluated db))) (\<lambda>unevaluated.
     then_do (each reconcile_unevaluated unevaluated)
     (bind_action (read_store (\<lambda>db. Inr (list_unreleased db))) (\<lambda>unreleased.
       each reconcile_unreleased unreleased)))"

section \<open>No answer before its resolution is published\<close>

definition releases_answer :: "uuid \<Rightarrow> uuid \<Rightarrow> world_item \<Rightarrow> bool" where
  "releases_answer cid i x \<longleftrightarrow> (case x of Wrote (ReleaseAnswer c _ j _ _ _) \<Rightarrow> c = cid \<and> j = i | _ \<Rightarrow> False)"

definition publishes_resolution :: "uuid \<Rightarrow> uuid \<Rightarrow> world_item \<Rightarrow> bool" where
  "publishes_resolution cid i x \<longleftrightarrow> (case x of
     Published es \<Rightarrow> list_ex (\<lambda>e. ev_conversation_id e = cid \<and> resolves_interaction i e) es | _ \<Rightarrow> False)"

abbreviation "announced_first cid i \<equiv> preceded (releases_answer cid i) (publishes_resolution cid i)"

abbreviation "no_release cid i \<equiv> list_all (\<lambda>x. \<not> releases_answer cid i x)"

lemma release_items [simp]:
  "\<not> releases_answer cid i (Published es)" "\<not> releases_answer cid i (Called call)"
  "\<not> releases_answer cid i (Wrote (CommitResolution g u rs))" "\<not> releases_answer cid i (Wrote (CompleteSuppressed j t))"
  "\<not> releases_answer cid i (Wrote (CommitRequest cid' v st es j corr n w f))"
  "\<not> releases_answer cid i (Wrote (FacadeMutation cid' owner v st es cs))"
  "releases_answer cid i (Wrote (ReleaseAnswer c owner j cm w f)) \<longleftrightarrow> c = cid \<and> j = i"
  by (simp_all add: releases_answer_def)

lemma resolution_event_resolves:
  "interaction_resolution_event cid i db = Inr e \<Longrightarrow> ev_conversation_id e = cid \<and> resolves_interaction i e"
  by (auto simp: interaction_resolution_event_def Let_def split: option.splits if_splits dest: find_SomeD)

lemma emits_resolving_path [emits_rules]: "emits (list_all p) (resolving_path f)"
  by (rule emits_silent) (simp_all add: resolving_path_def Let_def)

lemma emits_release_for: "(\<And>c. p (Wrote (ReleaseAnswer cid owner i c w f))) \<Longrightarrow>
    emits (list_all p) (release_for cid owner i st key w f)"
  unfolding release_for_def Let_def
  by (auto intro!: items.emits_ret items.emits_bind items.emits_clock items.emits_uuids items.emits_transact_with
      split: option.split)

lemma emits_resolve: "(\<And>g u. p (Wrote (CommitResolution g u rs))) \<Longrightarrow> emits (list_all p) (resolve_interaction rs)"
  unfolding resolve_interaction_def
  by (intro emits_rules) (rule emitsI, auto simp: transact_with_def Let_def awaited_def split: sum.split)

lemma emits_publications:
  "(\<And>es. p (Published es)) \<Longrightarrow> emits (list_all p) (publish_request cid i)"
  "(\<And>es. p (Published es)) \<Longrightarrow> emits (list_all p) (publish_resolution cid i)"
  "(\<And>es. p (Published es)) \<Longrightarrow> emits (list_all p) (published es')"
  unfolding publish_request_def publish_resolution_def published_def by (auto intro!: emits_rules)

text \<open>What comes after the publication of the resolution is free.\<close>

lemma resolution_then:
  fixes b :: "(environment, 'z world_scheme, fault, 'b) action"
  assumes "emits (list_all (\<lambda>_. True)) b"
  shows "emits (announced_first cid i) (then_do (publish_resolution cid i) b)"
proof -
  have "then_do (publish_resolution cid i) b
      = bind_action (read_store (interaction_resolution_event cid i)) (\<lambda>e. then_do (publish [e]) b)"
    by (simp add: publish_resolution_def bind_action_assoc)
  moreover have "emits (announced_first cid i)
      (bind_action (read_store (interaction_resolution_event cid i)) (\<lambda>e. then_do (publish [e]) b))"
  proof (rule emits_read_then)
    fix e db assume "interaction_resolution_event cid i db = Inr e"
    then show "emits (announced_first cid i) (then_do (publish [e]) b)"
      using emits_anything [OF assms] resolution_event_resolves
      by (intro emits_publish_then) (auto simp: publishes_resolution_def)
  qed simp
  ultimately show ?thesis by simp
qed

text \<open>For another interaction the same code releases nothing.\<close>

lemma resolution_other:
  assumes "cid' \<noteq> cid \<or> j \<noteq> i" and "emits (no_release cid i) b"
  shows "emits (announced_first cid i) (then_do (publish_resolution cid' j) b)"
  by (intro emits_preceded_free items.emits_bind emits_publications assms) simp

lemma resolve_then_release:
  "emits (announced_first cid i) (then_do (publish_resolution cid' j)
     (then_do (release_for cid' owner j st key w f) (ret ())))"
  "emits (announced_first cid i) (then_do (publish_resolution cid' j)
     (bind_action (owner_snapshot cid' owner) (\<lambda>st. release_for cid' owner j st key w f)))"
  "emits (announced_first cid i) (then_do (publish_resolution cid' j)
     (bind_action (complete_suppressed j) (\<lambda>suppressed. if suppressed then ret ()
         else bind_action (worker_snapshot cid') (\<lambda>after. then_do (release_for cid' owner j after key w f) (ret ())))))"
proof -
  let ?other = "cid' \<noteq> cid \<or> j \<noteq> i"
  note parts = items.emits_bind items.emits_ret items.emits_snapshots items.emits_clock emits_release_for
    items.emits_transact_with
  show "emits (announced_first cid i) (then_do (publish_resolution cid' j)
     (then_do (release_for cid' owner j st key w f) (ret ())))"
    by (cases ?other) (auto intro!: resolution_other resolution_then parts)
  show "emits (announced_first cid i) (then_do (publish_resolution cid' j)
     (bind_action (owner_snapshot cid' owner) (\<lambda>st. release_for cid' owner j st key w f)))"
    by (cases ?other) (auto intro!: resolution_other resolution_then parts)
  show "emits (announced_first cid i) (then_do (publish_resolution cid' j)
     (bind_action (complete_suppressed j) (\<lambda>suppressed. if suppressed then ret ()
         else bind_action (worker_snapshot cid') (\<lambda>after. then_do (release_for cid' owner j after key w f) (ret ())))))"
    unfolding complete_suppressed_def
    by (cases ?other) (auto intro!: resolution_other resolution_then parts)
qed

lemma announced_policy: "emits (announced_first cid i) (evaluate_policy cid' j w f)"
  unfolding evaluate_policy_def
  by (auto intro!: recorded.emits_bind recorded.emits_snapshots recorded.emits_ret recorded.emits_clock
      resolve_then_release emits_preceded_free [OF emits_resolve] split: prod.split)

lemma announced_published: "emits (announced_first cid i) (published es)"
  by (intro emits_preceded_free emits_publications) simp

lemma announced_request: "emits (announced_first cid i) (publish_request cid' j)"
  by (intro emits_preceded_free emits_publications) simp

lemma announced_unevaluated: "emits (announced_first cid i) (reconcile_unevaluated p)"
  unfolding reconcile_unevaluated_def
  by (cases p) (auto intro!: recorded.emits_suppress recorded.emits_bind recorded.emits_snapshots recorded.emits_ret
      announced_request announced_policy)

lemma announced_unreleased: "emits (announced_first cid i) (reconcile_unreleased p)"
  unfolding reconcile_unreleased_def
  by (cases p) (auto intro!: recorded.emits_suppress recorded.emits_bind recorded.emits_snapshots resolve_then_release)

lemma announced_checked_rule: "emits (announced_first cid i) (checked_rule st owner j rule decision)"
  unfolding checked_rule_def
  by (auto intro!: emits_preceded_free items.emits_raise items.emits_bind emits_resolving_path items.emits_lift
      items.emits_ret split: sum.split exn.split)

lemma cancels_without_release: "emits (no_release cid i) (cancel_for_interrupt cid' owner w f j)"
  unfolding cancel_for_interrupt_def complete_suppressed_def Let_def
  by (auto intro!: items.emits_bind items.emits_snapshots items.emits_ret items.emits_clock items.emits_uuids
      items.emits_lift emits_resolve emits_publications items.emits_transact_with split: prod.split)

text \<open>C9: The command that carries an answer to the harness is released only after the event that resolved its
  interaction was published: in whatever the broker does (an adapter's request and its evaluation by the rules,
  a person's decision, the cancels before an interrupt, the reconciliation at startup), whatever the other
  workers, the publisher, the store and a cancellation do meanwhile.\<close>
theorem answer_released_after_publication:
  "emits (announced_first cid i) (accept_request cid' x correlation w f)
     \<and> emits (announced_first cid i) (resolve_manual owner cid' j decision answers rule key)
     \<and> emits (announced_first cid i) (update_draft owner cid' j draft)
     \<and> emits (announced_first cid i) (cancel_open_for_interrupt cid' w f)
     \<and> emits (announced_first cid i) reconcile_on_startup"
proof (intro conjI)
  note parts = recorded.emits_bind recorded.emits_snapshots recorded.emits_ret recorded.emits_clock
    recorded.emits_uuids recorded.emits_lift recorded.emits_read recorded.emits_raise recorded.emits_fail
    recorded.emits_each
  have path: "emits (announced_first cid i) (resolving_path g)" for g
    by (intro emits_preceded_free emits_resolving_path)
  have quiet: "emits (announced_first cid i) (transact op)" "emits (announced_first cid i) (publish es)"
    if "\<not> releases_answer cid i (Wrote op)" for op es
    using that by (auto intro!: emits_preceded_free items.emits_transact items.emits_plain_publish)
  show "emits (announced_first cid i) (accept_request cid' x correlation w f)"
    unfolding accept_request_def
    by (auto intro!: parts path quiet announced_published announced_policy announced_request)
  show "emits (announced_first cid i) (resolve_manual owner cid' j decision answers rule key)"
    unfolding resolve_manual_def
    by (auto intro!: parts resolve_then_release announced_checked_rule emits_preceded_free [OF emits_resolve]
        split: option.split)
  show "emits (announced_first cid i) (update_draft owner cid' j draft)"
    unfolding update_draft_def
    by (auto intro!: parts quiet emits_preceded_free [OF items.emits_plain_publish] split: option.split)
  show "emits (announced_first cid i) (cancel_open_for_interrupt cid' w f)"
    unfolding cancel_open_for_interrupt_def
    by (intro parts emits_preceded_free [OF cancels_without_release])
  show "emits (announced_first cid i) reconcile_on_startup"
    unfolding reconcile_on_startup_def
    by (intro parts announced_unevaluated announced_unreleased)
qed

end
