(* ===== verification/Command_Processor.thy ===== *)
theory Command_Processor
  imports Interaction_Broker Runtime_Start
begin

text \<open>
  The command processor (\<open>src/talktoharnesses/application/command_processor.py\<close> with
  \<open>application/delta_batcher.py\<close>): it claims commands, starts or resumes the runtime they need, records
  that delivery begins before the adapter is called, and pumps the events of the adapter into the
  aggregate in batches. The lock of a conversation makes each operation here a sequence of its own steps;
  the renewals of a lease while a long step runs are transactions of the environment, and a lost lease is
  a cancellation it sends. The fault callbacks of the tests are absent. The delivery itself is in
  \<open>Command_Execution\<close>.
\<close>

section \<open>State\<close>

text \<open>Where a pending event came from, numbered so that the events of one input are told apart.\<close>

record harness_input =
  hi_number :: nat
  hi_event :: event_payload
  hi_now :: datetime
  hi_origin :: event_origin

text \<open>
  A batcher with the locals of the pump whose closure flushes it: the runtime it reads, the inputs of
  the events not yet committed, and whether that runtime turned out stale. \<open>bt_locked\<close> is its lock,
  which is not reentrant.
\<close>

record batcher =
  bt_runtime :: nat
  bt_inputs :: "(uuid, harness_input) dict"
  bt_stale :: bool
  bt_base_version :: "int option"
  bt_state :: "conversation_state option"
  bt_events :: "conversation_event list"
  bt_commands :: "command list"
  bt_closed :: bool
  bt_locked :: bool

text \<open>A pump has a batcher once its task has started. Only tasks that are not done are kept.\<close>

record processors = managers +
  cp_worker_id :: "string option"
  cp_running :: bool
  cp_draining :: bool
  cp_claims_enabled :: bool
  cp_fences :: "(uuid, int) dict"
  cp_lost_fences :: "uuid set"
  cp_tasks :: "(uuid, command) dict"
  cp_pumps :: "(uuid, nat option) dict"
  cp_batcher_objects :: "(nat, batcher) dict"
  cp_batchers :: "(uuid, nat) dict"

type_synonym ('z, 'a) work = "(environment, 'z processors_scheme, fault, 'a) action"

definition LEASE_SECONDS :: int where "LEASE_SECONDS = 30 * 1000000"
definition CLAIM_LIMIT :: nat where "CLAIM_LIMIT = 8"

section \<open>Fences\<close>

definition set_fence :: "uuid \<Rightarrow> int \<Rightarrow> 'z processors_scheme \<Rightarrow> 'z processors_scheme" where
  "set_fence cid fence w = w\<lparr>cp_fences := dict_put (cp_fences w) cid fence,
     cp_lost_fences := cp_lost_fences w - {cid}\<rparr>"

definition drop_fence :: "uuid \<Rightarrow> 'z processors_scheme \<Rightarrow> 'z processors_scheme" where
  "drop_fence cid w = (if dict_get (cp_fences w) cid = None then w
     else w\<lparr>cp_fences := AList.delete cid (cp_fences w), cp_lost_fences := insert cid (cp_lost_fences w)\<rparr>)"

definition fence_lost :: "uuid \<Rightarrow> fault" where
  "fence_lost cid = Raised (DomainError STALE_OWNER ''conversation fence was lost''
     [(''conversation_id'', JStr (uuid_str cid))])"

definition fence_kwargs :: "uuid \<Rightarrow> ('z, string option \<times> int option) work" where
  "fence_kwargs cid = (\<lambda>E w. case dict_get (cp_fences w) cid of
     None \<Rightarrow> if cid \<in> cp_lost_fences w then (Inl (fence_lost cid), w) else (Inr (None, None), w)
   | Some fence \<Rightarrow> (Inr (case cp_worker_id w of None \<Rightarrow> (None, None) | Some worker \<Rightarrow> (Some worker, Some fence)), w))"

definition commit_turn ::
  "uuid \<Rightarrow> int \<Rightarrow> conversation_state \<Rightarrow> conversation_event list \<Rightarrow> command list \<Rightarrow> ('z, unit) work" where
  "commit_turn cid expected_version st es cs =
     bind_action (fence_kwargs cid) (\<lambda>(worker, fence).
       transact (CommitTurnBatch cid expected_version st es cs worker fence))"

definition put_row :: "command \<Rightarrow> ('z, unit) work" where
  "put_row c = bind_action (fence_kwargs (cmd_conversation_id c)) (\<lambda>(worker, fence).
     transact (UpdateCommand c worker fence))"

text \<open>\<open>_renew_lease\<close>; the renewal before a switch commits is the same call, not suppressed.\<close>

definition renew_lease_now :: "command \<Rightarrow> ('z, unit) work" where
  "renew_lease_now c = bind_action get_world (\<lambda>w. case cp_worker_id w of
     None \<Rightarrow> ret ()
   | Some worker \<Rightarrow> transact (RenewCommandLease (cmd_id c) worker LEASE_SECONDS
       (dict_get (cp_fences w) (cmd_conversation_id c))))"

definition renew_lease :: "command \<Rightarrow> ('z, unit) work" where
  "renew_lease c = suppress_exceptions (renew_lease_now c)"

definition is_draining :: "('z, bool) work" where
  "is_draining = bind_action get_world (\<lambda>w. ret (cp_draining w))"

section \<open>The runtime of a conversation\<close>

text \<open>\<open>_ensure_runtime\<close>.\<close>

definition ensure_runtime :: "conversation_state \<Rightarrow> ('z, unit) work" where
  "ensure_runtime st = (let cid = conv_id (st_conversation st) in
     case st_binding st of
       None \<Rightarrow> raise_error INVALID_STATE ''conversation has no binding''
     | Some b \<Rightarrow>
         bind_action (fence_kwargs cid) (\<lambda>(worker, fence).
         then_do (start_request \<lparr>ss_conversation_id = cid, ss_owner_id = conv_owner_id (st_conversation st),
             ss_configuration = bind_configuration b,
             ss_resume_native_id = (if truthy_text (bind_native_session_id b) \<and> \<not> bind_requires_session_recreation b
               then bind_native_session_id b else None),
             ss_worker_id = worker, ss_fence = fence\<rparr>) (ret ())))"

definition runtime_matches_binding :: "nat \<Rightarrow> conversation_state \<Rightarrow> ('z, bool) work" where
  "runtime_matches_binding tok st = bind_action (get_managed tok) (\<lambda>m.
     ret (matches_binding (mr_session m) (st_binding st)))"

definition close_stale_runtime :: "nat \<Rightarrow> ('z, unit) work" where
  "close_stale_runtime tok = close_replaced_runtime tok ''stale_binding''"

text \<open>\<open>_ensure_pump\<close>: the task it creates starts later.\<close>

definition ensure_pump :: "uuid \<Rightarrow> ('z, unit) work" where
  "ensure_pump cid = modify (\<lambda>w. if cp_draining w \<or> dict_get (cp_pumps w) cid \<noteq> None then w
     else w\<lparr>cp_pumps := dict_put (cp_pumps w) cid None\<rparr>)"

section \<open>Batches\<close>

abbreviation "batcher_of w b \<equiv> the (dict_get (cp_batcher_objects w) b)"

definition get_batcher :: "nat \<Rightarrow> ('z, batcher) work" where
  "get_batcher b = (\<lambda>E w. (Inr (batcher_of w b), w))"

definition change_batcher :: "nat \<Rightarrow> (batcher \<Rightarrow> batcher) \<Rightarrow> ('z, unit) work" where
  "change_batcher b f = modify (\<lambda>w. w\<lparr>cp_batcher_objects :=
     map (\<lambda>(i, x). (i, if i = b then f x else x)) (cp_batcher_objects w)\<rparr>)"

definition nothing_pending :: "batcher \<Rightarrow> batcher" where
  "nothing_pending x = x\<lparr>bt_base_version := None, bt_state := None, bt_events := [], bt_commands := []\<rparr>"

text \<open>\<open>async with self._lock\<close>: whoever asks for a lock it holds itself waits for ever.\<close>

definition with_batcher_lock :: "nat \<Rightarrow> ('z, 'a) work \<Rightarrow> ('z, 'a) work" where
  "with_batcher_lock b a = bind_action (get_batcher b) (\<lambda>x.
     if bt_locked x then fail Stuck
     else then_do (change_batcher b (\<lambda>x. x\<lparr>bt_locked := True\<rparr>))
       (ensure a (change_batcher b (\<lambda>x. x\<lparr>bt_locked := False\<rparr>))))"

text \<open>
  \<open>_on_stale_owner\<close> from within a flush, whose batcher is locked: stopping the pump flushes that batcher
  again, and closing it does, so with the batcher still in the table the flush waits for itself.
\<close>

definition cancel_conversation_commands :: "uuid \<Rightarrow> ('z, unit) work" where
  "cancel_conversation_commands cid = modify (\<lambda>w.
     w\<lparr>cp_tasks := filter (\<lambda>(i, c). cmd_conversation_id c \<noteq> cid) (cp_tasks w)\<rparr>)"

definition forsake_conversation :: "uuid \<Rightarrow> ('z, unit) work" where
  "forsake_conversation cid =
     then_do (suppress_exceptions (close_runtime cid (Some ''stale_owner'')))
     (then_do (modify (drop_fence cid)) (cancel_conversation_commands cid))"

definition stale_owner_in_flush :: "uuid \<Rightarrow> ('z, unit) work" where
  "stale_owner_in_flush cid = bind_action get_world (\<lambda>w.
     if dict_get (cp_batchers w) cid \<noteq> None then fail Stuck
     else then_do (modify (\<lambda>w. w\<lparr>cp_pumps := AList.delete cid (cp_pumps w)\<rparr>)) (forsake_conversation cid))"

text \<open>The inputs of a batch, each once, in the order of their events.\<close>

fun source_inputs :: "(uuid, harness_input) dict \<Rightarrow> nat option \<Rightarrow> conversation_event list \<Rightarrow> harness_input list result" where
  "source_inputs d previous [] = Inr []"
| "source_inputs d previous (e # es) = (case dict_get d (ev_event_id e) of
     None \<Rightarrow> Inl (LookupError (uuid_str (ev_event_id e)))
   | Some input \<Rightarrow> bind_result (source_inputs d (Some (hi_number input)) es) (\<lambda>inputs.
       Inr (if previous = Some (hi_number input) then inputs else input # inputs)))"

fun rebase ::
  "harness_input list \<Rightarrow> conversation_state \<Rightarrow> conversation_event list \<Rightarrow> command list
     \<Rightarrow> ('z, conversation_state \<times> conversation_event list \<times> command list) work" where
  "rebase [] st es cs = ret (st, es, cs)"
| "rebase (input # inputs) st es cs =
     bind_action fresh_uuids (\<lambda>u.
     bind_action (lift_result (dispatch_harness_event u st (hi_event input) (hi_now input) (hi_origin input))) (\<lambda>r.
       rebase inputs (dr_state r) (es @ dr_events r) (cs @ dr_commands r)))"

definition forget_inputs :: "nat \<Rightarrow> conversation_event list \<Rightarrow> ('z, unit) work" where
  "forget_inputs b es = change_batcher b (\<lambda>x.
     x\<lparr>bt_inputs := filter (\<lambda>(i, _). i \<notin> ev_event_id ` set es) (bt_inputs x)\<rparr>)"

definition tried :: "('z, 'a) work \<Rightarrow> ('z, fault + 'a) work" where
  "tried a = attempt (bind_action a (\<lambda>x. ret (Inr x))) (\<lambda>e. ret (Inl e))"

text \<open>
  \<open>flush\<close> of the pump: commit; on a conflict dispatch the same inputs again on the state that won.
  \<open>pending\<close> are the events as they were batched. \<open>None\<close>: the runtime was stale and the batch is dropped.
\<close>

fun flush_events ::
  "nat \<Rightarrow> uuid \<Rightarrow> nat \<Rightarrow> conversation_event list \<Rightarrow> int \<Rightarrow> conversation_state \<Rightarrow> conversation_event list
     \<Rightarrow> command list \<Rightarrow> ('z, conversation_event list option) work" where
  "flush_events 0 cid b pending base_version st es cs = fail Stuck"
| "flush_events (Suc n) cid b pending base_version st es cs =
     bind_action (tried (commit_turn cid base_version st es cs)) (\<lambda>outcome. case outcome of
       Inr _ \<Rightarrow> ret (Some es)
     | Inl e \<Rightarrow>
         if fault_code e = Some STALE_OWNER then then_do (stale_owner_in_flush cid) (fail e)
         else if \<not> is_conflict e then fail e
         else
           bind_action (get_batcher b) (\<lambda>x.
           bind_action (lift_result (source_inputs (bt_inputs x) None pending)) (\<lambda>inputs.
           bind_action (worker_snapshot cid) (\<lambda>st'.
           bind_action (runtime_matches_binding (bt_runtime x) st') (\<lambda>current.
           if \<not> current
           then then_do (change_batcher b (\<lambda>x. x\<lparr>bt_stale := True\<rparr>))
             (then_do (forget_inputs b pending) (then_do (close_stale_runtime (bt_runtime x)) (ret None)))
           else bind_action (rebase inputs st' [] []) (\<lambda>(st'', es', cs').
             flush_events n cid b pending (conv_version (st_conversation st')) st'' es' cs'))))))"

definition do_flush :: "uuid \<Rightarrow> nat \<Rightarrow> ('z, unit) work" where
  "do_flush cid b = bind_action (get_batcher b) (\<lambda>x.
     case (bt_state x, bt_base_version x) of
       (Some st, Some base_version) \<Rightarrow>
         if bt_events x = [] \<and> bt_commands x = [] then ret ()
         else
           bind_action patience (\<lambda>n.
           bind_action (flush_events n cid b (bt_events x) base_version st (bt_events x) (bt_commands x)) (\<lambda>committed.
           then_do (case committed of
               None \<Rightarrow> ret ()
             | Some es \<Rightarrow> then_do (forget_inputs b (bt_events x)) (safe_publish es))
           (change_batcher b nothing_pending)))
     | _ \<Rightarrow> ret ())"

definition flush_batcher :: "uuid \<Rightarrow> nat \<Rightarrow> ('z, unit) work" where
  "flush_batcher cid b = with_batcher_lock b (do_flush cid b)"

definition close_batcher :: "uuid \<Rightarrow> nat \<Rightarrow> ('z, unit) work" where
  "close_batcher cid b = with_batcher_lock b
     (then_do (change_batcher b (\<lambda>x. x\<lparr>bt_closed := True\<rparr>)) (do_flush cid b))"

definition discard_batcher :: "nat \<Rightarrow> ('z, unit) work" where
  "discard_batcher b = with_batcher_lock b (change_batcher b (\<lambda>x. nothing_pending (x\<lparr>bt_closed := True\<rparr>)))"

text \<open>\<open>add\<close>; without \<open>force\<close> the flush happens when the timer of 50 ms fires (\<open>delayed_flush\<close>).\<close>

definition add_to_batch ::
  "uuid \<Rightarrow> nat \<Rightarrow> int \<Rightarrow> conversation_state \<Rightarrow> conversation_event list \<Rightarrow> command list \<Rightarrow> bool \<Rightarrow> ('z, unit) work" where
  "add_to_batch cid b base_version st es cs force =
     with_batcher_lock b (bind_action (get_batcher b) (\<lambda>x.
       if bt_closed x then ret ()
       else then_do (change_batcher b (\<lambda>x. x\<lparr>
           bt_base_version := Some (case bt_base_version x of None \<Rightarrow> base_version | Some v \<Rightarrow> v),
           bt_state := Some st, bt_events := bt_events x @ es, bt_commands := bt_commands x @ cs\<rparr>))
         (if force then do_flush cid b else ret ())))"

definition delayed_flush :: "uuid \<Rightarrow> nat \<Rightarrow> ('z, unit) work" where
  "delayed_flush cid b = flush_batcher cid b"

section \<open>Turns without a runtime\<close>

text \<open>\<open>_wake_queued_submit\<close>: a submit deferred behind the turn that ended is accepted again.\<close>

definition wakes :: "command \<Rightarrow> bool" where
  "wakes c \<longleftrightarrow> cmd_kind c = SUBMIT_TURN \<and> cmd_status c = CMD_CLAIMED \<and> cmd_delivery_started_at c = None"

definition wake_queued_submit :: "uuid \<Rightarrow> ('z, unit) work" where
  "wake_queued_submit cid = bind_action (worker_snapshot cid) (\<lambda>st.
     case (st_active_turn st, st_queued_turn st) of
       (None, Some t) \<Rightarrow>
         (case (case turn_command_id t of None \<Rightarrow> None | Some i \<Rightarrow> dict_get (st_commands st) i) of
            None \<Rightarrow> ret ()
          | Some c \<Rightarrow>
              if \<not> wakes c then ret ()
              else (let released = c\<lparr>cmd_status := CMD_ACCEPTED, cmd_worker_id := None, cmd_lease_expires_at := None\<rparr> in
                commit_turn cid (conv_version (st_conversation st))
                  (with_commands st (dict_put (st_commands st) (cmd_id released) released)) [] [released]))
     | _ \<Rightarrow> ret ())"

definition mark_active_turn_outcome_unknown :: "uuid \<Rightarrow> string \<Rightarrow> string \<Rightarrow> ('z, unit) work" where
  "mark_active_turn_outcome_unknown cid phase message = bind_action (worker_snapshot cid) (\<lambda>st.
     if st_active_turn st = None then ret ()
     else
       bind_action read_clock (\<lambda>now.
       bind_action fresh_uuids (\<lambda>u.
       bind_action (lift_result (apply_outcome_unknown u st now (Some phase) (Some message))) (\<lambda>r.
       then_do (commit_turn cid (conv_version (st_conversation st)) (tr_state r) (tr_events r)
         (filter (\<lambda>c. cmd_status c = CMD_OUTCOME_UNKNOWN) (dict_values (st_commands (tr_state r)))))
       (then_do (safe_publish (tr_events r)) (wake_queued_submit cid))))))"

section \<open>Pumps\<close>

text \<open>What the end of a pump does: its \<open>finally\<close> block, with the batch dropped if its runtime is stale.\<close>

definition replace_stale_runtime :: "uuid \<Rightarrow> ('z, unit) work" where
  "replace_stale_runtime cid = suppress_exceptions (bind_action (worker_snapshot cid) (\<lambda>st.
     bind_action (ensure_binding_current cid st) (\<lambda>current.
     then_do (if current = None then ensure_runtime st else ret ()) (ensure_pump cid))))"

definition terminalize_stream :: "uuid \<Rightarrow> ('z, unit) work" where
  "terminalize_stream cid = suppress_exceptions
     (then_do (close_runtime cid (Some ''event_stream_closed''))
       (mark_active_turn_outcome_unknown cid ''event_stream'' ''provider event stream ended before the turn completed''))"

definition end_pump :: "uuid \<Rightarrow> nat \<Rightarrow> bool \<Rightarrow> ('z, unit) work" where
  "end_pump cid b stream_ended = bind_action (get_batcher b) (\<lambda>x.
     then_do (suppress_exceptions (if bt_stale x then discard_batcher b else flush_batcher cid b))
     (then_do (modify (\<lambda>w. w\<lparr>
         cp_pumps := (if dict_get (cp_pumps w) cid = Some (Some b) then AList.delete cid (cp_pumps w) else cp_pumps w),
         cp_batchers := (if dict_get (cp_batchers w) cid = Some b then AList.delete cid (cp_batchers w)
           else cp_batchers w)\<rparr>))
     (bind_action (get_batcher b) (\<lambda>x. bind_action get_world (\<lambda>w.
       if \<not> cp_running w \<or> cp_draining w then ret ()
       else if bt_stale x then replace_stale_runtime cid
       else if stream_ended then terminalize_stream cid
       else ret ())))))"

text \<open>\<open>_quiesce_pump\<close>: whatever the cancelled pump raises on its way out is dropped.\<close>

definition quiesce_pump :: "uuid \<Rightarrow> ('z, unit) work" where
  "quiesce_pump cid = bind_action get_world (\<lambda>w.
     let pump = dict_get (cp_pumps w) cid in
     then_do (modify (\<lambda>w. w\<lparr>cp_pumps := AList.delete cid (cp_pumps w)\<rparr>))
     (then_do (case pump of
         Some (Some b) \<Rightarrow> attempt (end_pump cid b False) (\<lambda>_. ret ())
       | _ \<Rightarrow> ret ())
     (bind_action get_world (\<lambda>w. case dict_get (cp_batchers w) cid of
         None \<Rightarrow> ret ()
       | Some b \<Rightarrow> then_do (modify (\<lambda>w. w\<lparr>cp_batchers := AList.delete cid (cp_batchers w)\<rparr>))
           (suppress_exceptions (close_batcher cid b))))))"

definition on_stale_owner :: "uuid \<Rightarrow> ('z, unit) work" where
  "on_stale_owner cid = then_do (quiesce_pump cid) (forsake_conversation cid)"

text \<open>The start of a pump's task: a batcher, and for a split stream the identifiers already seen.\<close>

definition new_batcher :: "nat \<Rightarrow> batcher" where
  "new_batcher tok = \<lparr>bt_runtime = tok, bt_inputs = [], bt_stale = False, bt_base_version = None,
     bt_state = None, bt_events = [], bt_commands = [], bt_closed = False, bt_locked = False\<rparr>"

definition has_split_stream :: "nat \<Rightarrow> ('z, bool) work" where
  "has_split_stream tok = (\<lambda>E w. (Inr (en_split_stream E (hs_kind (mr_session (managed_of w tok)))), w))"

definition begin_pump :: "uuid \<Rightarrow> ('z, unit) work" where
  "begin_pump cid = bind_action get_world (\<lambda>w. case get_runtime cid w of
     None \<Rightarrow> modify (\<lambda>w. w\<lparr>cp_pumps := AList.delete cid (cp_pumps w)\<rparr>)
   | Some tok \<Rightarrow>
       let b = length (cp_batcher_objects w) in
       then_do (modify (\<lambda>w. w\<lparr>cp_batcher_objects := cp_batcher_objects w @ [(b, new_batcher tok)],
         cp_batchers := dict_put (cp_batchers w) cid b, cp_pumps := dict_put (cp_pumps w) cid (Some b)\<rparr>))
       (bind_action (has_split_stream tok) (\<lambda>split.
         if split then bind_action (worker_snapshot cid) (\<lambda>st.
           import_seen (hs_kind (mr_session (managed_of w tok))) st)
         else ret ())))"

section \<open>Events of the harness\<close>

text \<open>What \<open>adapter.events\<close> yields: a normalized event, or a request with the provider's correlation.\<close>

datatype (plugins only: code size) harness_item = PlainEvent event_payload | RequestEvent event_payload "(string, string) dict"

fun item_payload :: "harness_item \<Rightarrow> event_payload" where
  "item_payload (PlainEvent p) = p"
| "item_payload (RequestEvent p correlation) = p"

definition request_of :: "harness_item \<Rightarrow> (event_payload \<times> (string, string) dict) option" where
  "request_of item = (case item of
     RequestEvent p correlation \<Rightarrow> Some (p, correlation)
   | PlainEvent p \<Rightarrow> (case p of NoticeEvent (InteractionRequested _ _ _ _) \<Rightarrow> Some (p, []) | _ \<Rightarrow> None))"

definition event_origin :: "nat \<Rightarrow> conversation_state \<Rightarrow> ('z, event_origin) work" where
  "event_origin tok st = bind_action (has_split_stream tok) (\<lambda>split E w.
     (Inr (if \<not> split then NO_ORIGIN
       else case en_seen E (w_tick w) of (native, offsets, cursor) \<Rightarrow>
         \<lparr>org_native_ids = filter (\<lambda>i. i \<notin> st_seen_native_ids st) native,
          org_stream_offsets = filter (\<lambda>i. i \<notin> st_seen_stream_offsets st) offsets,
          org_split_stream = cursor\<rparr>), w))"

text \<open>The request of an adapter, tried again on a conflict; three attempts in all.\<close>

fun accept_with_retries :: "nat \<Rightarrow> uuid \<Rightarrow> pending_interaction \<Rightarrow> (string, string) dict \<Rightarrow> ('z, unit) work" where
  "accept_with_retries n cid x correlation = attempt
     (bind_action (fence_kwargs cid) (\<lambda>(worker, fence). accept_request cid x correlation worker fence))
     (\<lambda>e. case n of
        0 \<Rightarrow> fail e
      | Suc n \<Rightarrow> if is_conflict e then accept_with_retries n cid x correlation else fail e)"

definition pending_of :: "uuid \<Rightarrow> event_payload \<Rightarrow> datetime \<Rightarrow> pending_interaction option" where
  "pending_of cid p now = (case p of
     NoticeEvent (InteractionRequested t i kind request) \<Rightarrow> Some
       \<lparr>inter_id = i, inter_conversation_id = cid, inter_turn_id = t, inter_kind = kind,
        inter_status = INT_PENDING, inter_request = request, inter_draft = None, inter_created_at = now\<rparr>
   | _ \<Rightarrow> None)"

definition dispatch_to_batch ::
  "uuid \<Rightarrow> nat \<Rightarrow> conversation_state \<Rightarrow> event_payload \<Rightarrow> ('z, unit) work" where
  "dispatch_to_batch cid b st p =
     bind_action (get_batcher b) (\<lambda>x.
     bind_action read_clock (\<lambda>now.
     bind_action (event_origin (bt_runtime x) st) (\<lambda>origin.
     bind_action fresh_uuids (\<lambda>u.
     case dispatch_harness_event u st p now origin of
       Inl (DomainError code message details) \<Rightarrow>
         then_do (mark_active_turn_outcome_unknown cid ''event_dispatch'' (public_message code None))
           (close_runtime cid (Some ''protocol_error''))
     | Inl e \<Rightarrow> fail (Raised e)
     | Inr r \<Rightarrow>
         bind_action get_world (\<lambda>w.
         let input = \<lparr>hi_number = w_tick w, hi_event = p, hi_now = now, hi_origin = origin\<rparr> in
         then_do (change_batcher b (\<lambda>x. x\<lparr>bt_inputs :=
             fold (\<lambda>e d. dict_put d (ev_event_id e) input) (dr_events r) (bt_inputs x)\<rparr>))
         (then_do (add_to_batch cid b (conv_version (st_conversation st)) (dr_state r) (dr_events r)
             (dr_commands r) (dr_terminal r))
           (if dr_terminal r then wake_queued_submit cid else ret ())))))))"

text \<open>\<open>_on_harness_event\<close>; \<open>False\<close> ends the pump.\<close>

definition on_harness_event :: "uuid \<Rightarrow> nat \<Rightarrow> harness_item \<Rightarrow> ('z, bool) work" where
  "on_harness_event cid b item =
     bind_action (get_batcher b) (\<lambda>x.
     bind_action (case bt_state x of Some st \<Rightarrow> ret st | None \<Rightarrow> worker_snapshot cid) (\<lambda>st.
     bind_action (runtime_matches_binding (bt_runtime x) st) (\<lambda>current.
     if \<not> current then then_do (close_stale_runtime (bt_runtime x)) (ret False)
     else case request_of item of
       Some (p, correlation) \<Rightarrow>
         then_do (flush_batcher cid b)
         (bind_action read_clock (\<lambda>now. case pending_of cid p now of
            None \<Rightarrow> fail Crashed
          | Some pending \<Rightarrow> then_do (accept_with_retries 2 cid pending correlation) (ret True)))
     | None \<Rightarrow> then_do (dispatch_to_batch cid b st (item_payload item)) (ret True))))"

text \<open>
  One turn of the pump's loop: the next item of the stream, or its end. A cancelled pump only runs its
  \<open>finally\<close> block; any other fault ends the stream.
\<close>

definition pump_item :: "uuid \<Rightarrow> nat \<Rightarrow> harness_item \<Rightarrow> ('z, unit) work" where
  "pump_item cid b item = bind_action (tried (on_harness_event cid b item)) (\<lambda>outcome. case outcome of
     Inr True \<Rightarrow> ret ()
   | Inr False \<Rightarrow> then_do (change_batcher b (\<lambda>x. x\<lparr>bt_stale := True\<rparr>)) (end_pump cid b True)
   | Inl e \<Rightarrow> then_do (end_pump cid b (is_exception e)) (if is_exception e then ret () else fail e))"

definition pump_end :: "uuid \<Rightarrow> nat \<Rightarrow> ('z, unit) work" where
  "pump_end cid b = end_pump cid b True"

end
