(* ===== verification/Command_Execution.thy ===== *)
theory Command_Execution
  imports Command_Processor
begin

text \<open>
  The delivery of a claimed command (\<open>_claim_loop\<close>, \<open>_handle_command\<close>, \<open>_execute_command\<close> and what it calls
  in \<open>src/talktoharnesses/application/command_processor.py\<close>): the guards on the durable row, the runtime,
  the record that delivery begins, the call of the adapter, and what each outcome makes of the command.
\<close>

section \<open>Guards\<close>

definition retryable_startup_errors :: "error_code set" where
  "retryable_startup_errors =
     {SANDBOX_PREPARING, STALE_OWNER, OPTIMISTIC_CONFLICT, WORKER_LEASE_UNAVAILABLE, CONVERSATION_BUSY}"

definition transient_startup_errors :: "error_code set" where
  "transient_startup_errors = {PROTOCOL_ERROR, RUNTIME_TIMEOUT}"

definition MAX_TRANSIENT_STARTUP_ATTEMPTS :: int where "MAX_TRANSIENT_STARTUP_ATTEMPTS = 3"

definition startup_error_is_retryable :: "fault \<Rightarrow> command \<Rightarrow> bool" where
  "startup_error_is_retryable e c \<longleftrightarrow> (case fault_code e of
     None \<Rightarrow> False
   | Some code \<Rightarrow> code \<in> retryable_startup_errors
       \<or> (code \<in> transient_startup_errors \<and> cmd_attempts c < MAX_TRANSIENT_STARTUP_ATTEMPTS))"

definition with_claimed :: "command \<Rightarrow> conversation_state \<Rightarrow> conversation_state" where
  "with_claimed c st = (if dict_get (st_commands st) (cmd_id c) \<noteq> None then st
     else with_commands st (dict_put (st_commands st) (cmd_id c) c))"

section \<open>What becomes of a command\<close>

definition unowned :: "command_status \<Rightarrow> command \<Rightarrow> command" where
  "unowned status c = c\<lparr>cmd_status := status, cmd_worker_id := None, cmd_lease_expires_at := None\<rparr>"

definition settled :: "command \<Rightarrow> datetime \<Rightarrow> command" where
  "settled c now = (unowned CMD_SETTLED c)\<lparr>cmd_delivered_at := Some (case cmd_delivered_at c of None \<Rightarrow> now | Some t \<Rightarrow> t),
     cmd_settled_at := Some now\<rparr>"

definition current_copy :: "conversation_state \<Rightarrow> command \<Rightarrow> command" where
  "current_copy st c = (case dict_get (st_commands st) (cmd_id c) of None \<Rightarrow> c | Some d \<Rightarrow> d)"

definition put_in :: "conversation_state \<Rightarrow> command \<Rightarrow> conversation_state" where
  "put_in st c = with_commands st (dict_put (st_commands st) (cmd_id c) c)"

definition release_to_accepted :: "command \<Rightarrow> conversation_state \<Rightarrow> ('z, unit) work" where
  "release_to_accepted c st = (let released = (unowned CMD_ACCEPTED c)\<lparr>cmd_delivery_started_at := None\<rparr> in
     commit_turn (cmd_conversation_id c) (conv_version (st_conversation st)) (put_in st released) [] [released])"

text \<open>
  \<open>_fail_undeliverable_command\<close>: the turns that depended on the runtime fail with it; \<open>rows\<close> are the
  commands to settle.
\<close>

fun fail_turns ::
  "uuid \<Rightarrow> datetime \<Rightarrow> string \<Rightarrow> string \<Rightarrow> turn list \<Rightarrow> conversation_state \<Rightarrow> conversation_event list
     \<Rightarrow> (uuid, command) dict \<Rightarrow> ('z, conversation_state \<times> conversation_event list \<times> (uuid, command) dict) work" where
  "fail_turns i now code message [] st es rows = ret (st, es, rows)"
| "fail_turns i now code message (t # ts) st es rows =
     bind_action fresh_uuids (\<lambda>u.
     bind_action (lift_result (fail_turn u st now code message (Some (turn_id t)))) (\<lambda>r.
       fail_turns i now code message ts (tr_state r) (es @ tr_events r)
         (case (case turn_command_id t of None \<Rightarrow> None | Some j \<Rightarrow> dict_get (st_commands (tr_state r)) j) of
            None \<Rightarrow> rows
          | Some c \<Rightarrow> if cmd_id c = i then rows else dict_put rows (cmd_id c) (settled c now))))"

definition doomed_turns :: "conversation_state \<Rightarrow> command \<Rightarrow> turn list" where
  "doomed_turns st c = (case st_active_turn st of None \<Rightarrow> [] | Some t \<Rightarrow> [t])
     @ (case st_queued_turn st of None \<Rightarrow> [] | Some t \<Rightarrow> if turn_command_id t = Some (cmd_id c) then [t] else [])"

definition fail_undeliverable_command ::
  "command \<Rightarrow> error_code \<Rightarrow> (string, json) dict \<Rightarrow> ('z, unit) work" where
  "fail_undeliverable_command c code details = (let cid = cmd_conversation_id c in
     bind_action (worker_snapshot cid) (\<lambda>st.
     bind_action read_clock (\<lambda>now.
     bind_action (fail_turns (cmd_id c) now (error_code_value code) (public_message code (Some details))
       (doomed_turns st c) st [] []) (\<lambda>(st', es, rows).
     let rows' = dict_put rows (cmd_id (current_copy st' c)) (settled (current_copy st' c) now);
         st'' = with_commands st' (fold (\<lambda>(i, d) commands. dict_put commands i d) rows' (st_commands st'))
     in then_do (commit_turn cid (conv_version (st_conversation st)) st'' es (dict_values rows'))
       (safe_publish es)))))"

section \<open>Delivery\<close>

text \<open>The runtime a delivery needs; \<open>None\<close> when the command was settled as undeliverable instead.\<close>

definition startup_error :: "fault \<Rightarrow> error_code \<times> (string, json) dict" where
  "startup_error e = (case e of
     Raised (DomainError code message details) \<Rightarrow> (code, details)
   | _ \<Rightarrow> (INVALID_STATE, []))"

definition start_for_delivery :: "command \<Rightarrow> conversation_state \<Rightarrow> ('z, conversation_state option) work" where
  "start_for_delivery c st =
     bind_action (attempt (then_do (ensure_runtime st) (ret True))
       (\<lambda>e. if \<not> is_exception e \<or> startup_error_is_retryable e c then fail e
            else case startup_error e of (code, details) \<Rightarrow>
              then_do (fail_undeliverable_command c code details) (ret False))) (\<lambda>started.
     if \<not> started then ret None
     else bind_action (worker_snapshot (cmd_conversation_id c)) (\<lambda>st. ret (Some (with_claimed c st))))"

text \<open>A queued prompt becomes the active turn; its text is what is submitted.\<close>

definition start_queued_turn ::
  "command \<Rightarrow> conversation_state \<Rightarrow> datetime \<Rightarrow> ('z, conversation_state \<times> string option) work" where
  "start_queued_turn c st now =
     (if cmd_kind c = SUBMIT_TURN \<and> st_active_turn st = None \<and> st_queued_turn st \<noteq> None
      then
        bind_action fresh_uuids (\<lambda>u.
        bind_action (lift_result (start_turn u st now)) (\<lambda>r.
        then_do (commit_turn (cmd_conversation_id c) (conv_version (st_conversation st)) (tr_state r) (tr_events r)
          (dict_values (st_commands (tr_state r))))
        (then_do (safe_publish (tr_events r))
        (bind_action (worker_snapshot (cmd_conversation_id c)) (\<lambda>st'. ret (st', st_queued_user_text st))))))
      else ret (st, None))"

definition delivered_copy :: "conversation_state \<Rightarrow> command \<Rightarrow> datetime \<Rightarrow> command result" where
  "delivered_copy st started now = (if dict_get (st_commands st) (cmd_id started) = None
     then Inr (started\<lparr>cmd_status := CMD_DELIVERED, cmd_delivered_at := Some now\<rparr>)
     else bind_result (mark_command_delivered st (cmd_id started) now) (\<lambda>(_, c). Inr c))"

definition mark_answer_outcome_unknown :: "command \<Rightarrow> ('z, unit) work" where
  "mark_answer_outcome_unknown c = (let cid = cmd_conversation_id c in
     bind_action (worker_snapshot cid) (\<lambda>st.
     let current = current_copy st c in
     if cmd_status current \<in> {CMD_SETTLED, CMD_OUTCOME_UNKNOWN} then ret ()
     else (let failed = (unowned CMD_OUTCOME_UNKNOWN current)\<lparr>cmd_recovery_attempt_id := None\<rparr> in
       commit_turn cid (conv_version (st_conversation st)) (put_in st failed) [] [failed])))"

definition answer_to_deliver :: "conversation_state \<Rightarrow> uuid \<Rightarrow> datetime \<Rightarrow> interaction_answer" where
  "answer_to_deliver st i now = (case dict_get (st_answers st) i of
     Some a \<Rightarrow> a
   | None \<Rightarrow> \<lparr>ans_interaction_id = i, ans_decision = None, ans_answers = None, ans_is_draft = False,
       ans_submitted_at = Some now\<rparr>)"

definition execute_answer_delivery :: "command \<Rightarrow> conversation_state \<Rightarrow> nat \<Rightarrow> ('z, unit) work" where
  "execute_answer_delivery c st tok = (let cid = cmd_conversation_id c in
     case cmd_payload c of
       AnswerInteractionPayload i \<Rightarrow>
         attempt
           (then_do (renew_lease c)
           (bind_action read_clock (\<lambda>now.
            bind_action (get_managed tok) (\<lambda>m.
            then_do (call_managed tok (AnswerNative (mr_session m) (answer_to_deliver st i now)))
            (bind_action is_draining (\<lambda>draining.
             if draining then ret ()
             else
               bind_action read_clock (\<lambda>now.
               bind_action (worker_snapshot cid) (\<lambda>latest.
               bind_action (lift_result (delivered_copy latest c now)) (\<lambda>delivered.
               let done = (unowned CMD_SETTLED delivered)\<lparr>cmd_settled_at := Some now\<rparr> in
               commit_turn cid (conv_version (st_conversation latest)) (put_in latest done) [] [done])))))))))
           (\<lambda>e. then_do (shield (mark_answer_outcome_unknown c)) (fail e))
     | _ \<Rightarrow> fail Crashed)"

text \<open>\<open>_fallback_failed_steer\<close>: the prompt is queued and the command accepted again, as a submit.\<close>

definition fallback_failed_steer :: "command \<Rightarrow> ('z, unit) work" where
  "fallback_failed_steer c = (let cid = cmd_conversation_id c in
     case cmd_payload c of
       SteerPayload prompt \<Rightarrow>
         bind_action (worker_snapshot cid) (\<lambda>st.
         bind_action read_clock (\<lambda>now.
         bind_action fresh_uuids (\<lambda>u.
         let current = current_copy st c;
             r = apply_steer u st prompt (cmd_idempotency_key c) now (Some current) False;
             queued = (case tr_command r of None \<Rightarrow> current | Some d \<Rightarrow> d);
             released = (unowned CMD_ACCEPTED queued)\<lparr>cmd_delivery_started_at := None\<rparr>
         in then_do (commit_turn cid (conv_version (st_conversation st)) (put_in (tr_state r) released) (tr_events r)
              [released]) (safe_publish (tr_events r)))))
     | _ \<Rightarrow> fail Crashed)"

text \<open>The turn a submit or a steer goes to.\<close>

definition target_turn :: "conversation_state \<Rightarrow> command \<Rightarrow> uuid option" where
  "target_turn st c = (case st_active_turn st of Some t \<Rightarrow> Some (turn_id t) | None \<Rightarrow> cmd_target_turn_id c)"

definition confirm_delivery :: "command \<Rightarrow> ('z, unit) work" where
  "confirm_delivery started = (let cid = cmd_conversation_id started in
     bind_action is_draining (\<lambda>draining.
     if draining then ret ()
     else
       bind_action read_clock (\<lambda>now.
       bind_action (worker_snapshot cid) (\<lambda>st.
       bind_action (lift_result (delivered_copy st started now)) (\<lambda>c.
       then_do (put_row c) (ensure_pump cid))))))"

definition flush_current_batch :: "uuid \<Rightarrow> ('z, unit) work" where
  "flush_current_batch cid = bind_action get_world (\<lambda>w. case dict_get (cp_batchers w) cid of
     None \<Rightarrow> ret () | Some b \<Rightarrow> flush_batcher cid b)"

definition interrupt_native :: "command \<Rightarrow> nat \<Rightarrow> ('z, unit) work" where
  "interrupt_native c tok = (let cid = cmd_conversation_id c in
     then_do (flush_current_batch cid)
     (bind_action (fence_kwargs cid) (\<lambda>(worker, fence).
      then_do (cancel_open_for_interrupt cid worker fence)
      (bind_action (get_managed tok) (\<lambda>m.
       then_do (call_managed tok (Interrupt (mr_session m))) (ret ()))))))"

definition submit_native ::
  "command \<Rightarrow> conversation_state \<Rightarrow> nat \<Rightarrow> string option \<Rightarrow> ('z, unit) work" where
  "submit_native c st tok queued_prompt = (case cmd_payload c of
     SubmitTurnPayload prompt model \<Rightarrow>
       (case target_turn st c of
          None \<Rightarrow> raise_error NO_ACTIVE_TURN ''submit has no target turn''
        | Some t \<Rightarrow> bind_action (get_managed tok) (\<lambda>m.
            then_do (call_managed tok (Submit (mr_session m) t (Some (cmd_id c))
              (if truthy_text queued_prompt then the queued_prompt else prompt) model)) (ret ())))
   | _ \<Rightarrow> fail Crashed)"

definition steer_native :: "command \<Rightarrow> conversation_state \<Rightarrow> nat \<Rightarrow> ('z, bool) work" where
  "steer_native c st tok = (case cmd_payload c of
     SteerPayload prompt \<Rightarrow>
       (case target_turn st c of
          None \<Rightarrow> raise_error NO_ACTIVE_TURN ''steer has no target turn''
        | Some t \<Rightarrow> bind_action (get_managed tok) (\<lambda>m.
            bind_action (call_managed tok (Steer (mr_session m) t (Some (cmd_id c)) prompt)) (\<lambda>r. ret (rp_accepted r))))
   | _ \<Rightarrow> fail Crashed)"

definition settle_unexecutable :: "command \<Rightarrow> ('z, unit) work" where
  "settle_unexecutable started = bind_action read_clock (\<lambda>now.
     put_row ((unowned CMD_SETTLED started)\<lparr>cmd_settled_at := Some now\<rparr>))"

definition call_adapter ::
  "command \<Rightarrow> command \<Rightarrow> conversation_state \<Rightarrow> nat \<Rightarrow> string option \<Rightarrow> ('z, unit) work" where
  "call_adapter c started st tok queued_prompt =
     (if cmd_kind c = ANSWER_INTERACTION
      then then_do (execute_answer_delivery started st tok) (ensure_pump (cmd_conversation_id c))
      else then_do (renew_lease started)
       (if cmd_kind c = SUBMIT_TURN
        then then_do (submit_native c st tok queued_prompt) (confirm_delivery started)
        else if cmd_kind c = STEER
        then bind_action (steer_native c st tok) (\<lambda>ok.
          if ok then confirm_delivery started else fallback_failed_steer started)
        else if cmd_kind c = INTERRUPT
        then then_do (interrupt_native c tok) (confirm_delivery started)
        else settle_unexecutable started))"

text \<open>A submit behind a running turn waits; otherwise the start of the delivery is recorded before the adapter is called.\<close>

definition deliver_on :: "command \<Rightarrow> conversation_state \<Rightarrow> nat \<Rightarrow> datetime \<Rightarrow> ('z, unit) work" where
  "deliver_on c st tok now =
     (if cmd_kind c = SUBMIT_TURN \<and> (case st_active_turn st of None \<Rightarrow> False | Some t \<Rightarrow> turn_command_id t \<noteq> Some (cmd_id c))
      then then_do (commit_turn (cmd_conversation_id c) (conv_version (st_conversation st)) st [] [c]) (renew_lease c)
      else
        bind_action (start_queued_turn c st now) (\<lambda>(st, queued_prompt).
        bind_action read_clock (\<lambda>now.
        bind_action (lift_result (mark_command_delivery_started st (cmd_id c) now)) (\<lambda>(st, started).
        then_do (put_row started)
        (bind_action is_draining (\<lambda>draining.
         if draining then ret () else call_adapter c started st tok queued_prompt))))))"

section \<open>Switching the harness\<close>

definition fail_switch_command :: "command \<Rightarrow> fault \<Rightarrow> ('z, unit) work" where
  "fail_switch_command c e = (let cid = cmd_conversation_id c;
       code = (case fault_code e of None \<Rightarrow> INVALID_STATE | Some code \<Rightarrow> code);
       details = (case e of Raised (DomainError _ _ d) \<Rightarrow> Some d | _ \<Rightarrow> None) in
     bind_action (worker_snapshot cid) (\<lambda>st.
     bind_action read_clock (\<lambda>now.
     bind_action fresh_uuids (\<lambda>u.
     bind_action (lift_result (fail_switch u st now (public_message code details) (Some (error_code_value code)))) (\<lambda>r.
     let done = settled (current_copy st c) now in
     then_do (commit_turn cid (conv_version (st_conversation st)) (put_in (tr_state r) done) (tr_events r) [done])
       (safe_publish (tr_events r)))))))"

text \<open>The candidate's binding, and the state the switch commits: with a new session nothing was seen yet.\<close>

definition switch_binding ::
  "uuid \<Rightarrow> uuid \<Rightarrow> harness_configuration \<Rightarrow> uuid option \<Rightarrow> managed_runtime \<Rightarrow> datetime \<Rightarrow> binding" where
  "switch_binding cid bid configuration instance_id m now =
     \<lparr>bind_id = bid, bind_conversation_id = cid, bind_kind = cfg_kind configuration,
      bind_configuration = configuration, bind_harness_instance_id = instance_id,
      bind_native_session_id = hs_native_session_id (mr_session m), bind_launch_snapshot = Some (mr_launch m),
      bind_requires_session_recreation = False, bind_is_active = True, bind_created_at = now, bind_closed_at = None\<rparr>"

definition finish_switch ::
  "command \<Rightarrow> conversation_state \<Rightarrow> uuid \<Rightarrow> harness_configuration \<Rightarrow> uuid option \<Rightarrow> nat
     \<Rightarrow> ('z, conversation_event list) work" where
  "finish_switch c st bid configuration instance_id tok = (let cid = cmd_conversation_id c in
     then_do (renew_lease_now c)
     (bind_action (get_managed tok) (\<lambda>m.
      bind_action read_clock (\<lambda>now.
      bind_action fresh_uuids (\<lambda>u.
      bind_action (lift_result (commit_switch u st (switch_binding cid bid configuration instance_id m now) now)) (\<lambda>r.
      let done = settled c now in
      bind_action (fence_kwargs cid) (\<lambda>(worker, fence).
      then_do (transact (CommitHarnessSwitch cid (conv_version (st_conversation st))
          ((put_in (tr_state r) done)\<lparr>st_seen_native_ids := {}, st_seen_stream_offsets := {}\<rparr>)
          (tr_events r) done (Some (mr_process_id m, mr_process_record m)) (Some (mr_launch m)) worker fence))
        (ret (tr_events r)))))))))"

definition read_handoff :: "uuid \<Rightarrow> ('z, string) work" where
  "read_handoff cid = (\<lambda>E w. (Inr (en_handoff E (w_tick w) cid), w))"

definition seeded_candidate ::
  "command \<Rightarrow> conversation_state \<Rightarrow> uuid \<Rightarrow> harness_configuration \<Rightarrow> string \<Rightarrow> ('z, nat) work" where
  "seeded_candidate c st bid configuration handoff = (let cid = cmd_conversation_id c in
     bind_action (fence_kwargs cid) (\<lambda>(worker, fence).
     bind_action (start_candidate cid (conv_owner_id (st_conversation st)) bid configuration worker fence) (\<lambda>tok.
     then_do (seed_candidate tok handoff) (ret tok))))"

text \<open>
  The body of the switch, each step paired with the copy of the command and whether the pump was already
  stopped: what the handler reads. \<open>None\<close>: the worker drains and stops here.
\<close>

definition switch_body ::
  "command \<Rightarrow> conversation_state \<Rightarrow> uuid \<Rightarrow> harness_configuration \<Rightarrow> uuid option \<Rightarrow> string
     \<Rightarrow> (environment, 'z processors_scheme, fault \<times> command \<times> bool, conversation_event list option) action" where
  "switch_body c st bid configuration instance_id handoff = (let cid = cmd_conversation_id c in
     bind_action read_clock (\<lambda>now.
     bind_action (located (c, False) (lift_result (mark_command_delivery_started st (cmd_id c) now))) (\<lambda>(st, started).
     then_do (located (c, False) (put_row started))
     (bind_action (located (started, False) is_draining) (\<lambda>draining.
      if draining then ret None
      else
        bind_action (located (started, False) (seeded_candidate c st bid configuration handoff)) (\<lambda>tok.
        bind_action (located (started, False) is_draining) (\<lambda>draining.
        if draining then located (started, False) (then_do (close_candidate bid) (ret None))
        else
          bind_action read_clock (\<lambda>now.
          bind_action (located (started, False) (lift_result (mark_command_delivered st (cmd_id c) now))) (\<lambda>(st, delivered).
          then_do (located (started, False) (put_row delivered))
          (then_do (located (delivered, False) (quiesce_pump cid))
          (located (delivered, True) (bind_action (finish_switch delivered st bid configuration instance_id tok)
            (\<lambda>es. ret (Some es))))))))))))))"

definition switch_handler ::
  "uuid \<Rightarrow> fault \<Rightarrow> command \<times> bool \<Rightarrow> ('z, conversation_event list option) work" where
  "switch_handler bid e l = (case l of (c, quiesced) \<Rightarrow>
     (let cid = cmd_conversation_id c in
      if e = Cancelled
      then then_do (shield (close_candidate bid))
        (then_do (bind_action get_world (\<lambda>w. if quiesced \<and> cp_running w then ensure_pump cid else ret ())) (fail e))
      else then_do (close_candidate bid)
        (then_do (if quiesced then ensure_pump cid else ret ())
        (then_do (fail_switch_command c e) (ret None)))))"

definition promote_switched :: "uuid \<Rightarrow> uuid \<Rightarrow> conversation_event list \<Rightarrow> ('z, unit) work" where
  "promote_switched cid bid es =
     then_do (safe_publish es)
     (bind_action get_world (\<lambda>w.
      then_do (promote_candidate cid bid)
      (then_do (case get_runtime cid w of
          None \<Rightarrow> ret ()
        | Some previous \<Rightarrow> suppress_exceptions (close_replaced_runtime previous ''harness_switch''))
       (ensure_pump cid))))"

definition busy_for_switch :: "conversation_state \<Rightarrow> bool" where
  "busy_for_switch st \<longleftrightarrow> st_active_turn st \<noteq> None \<or> st_queued_turn st \<noteq> None \<or> running_activities st \<noteq> []"

definition prepare_harness_switch :: "uuid \<Rightarrow> store \<Rightarrow> conversation_state result" where
  "prepare_harness_switch cid db = (case dict_get (db_aggregates db) cid of
     None \<Rightarrow> Inl (not_found ''conversation'') | Some row \<Rightarrow> Inr (ag_state row))"

definition execute_switch :: "command \<Rightarrow> ('z, unit) work" where
  "execute_switch c = (let cid = cmd_conversation_id c in
     case cmd_payload c of
       SwitchHarnessPayload configuration instance_id \<Rightarrow>
         bind_action (read_handoff cid) (\<lambda>handoff.
         bind_action (read_store (prepare_harness_switch cid)) (\<lambda>st.
         let st = put_in st c in
         if st_binding st = None then raise_error INVALID_STATE ''conversation has no binding''
         else if busy_for_switch st then release_to_accepted c st
         else
           bind_action fresh_uuids (\<lambda>u.
           bind_action (attempt_located (switch_body c st (u 0) configuration instance_id handoff) (switch_handler (u 0)))
             (\<lambda>outcome. case outcome of
                None \<Rightarrow> ret ()
              | Some es \<Rightarrow> promote_switched cid (u 0) es))))
     | _ \<Rightarrow> fail Crashed)"

section \<open>A command\<close>

definition deliver :: "command \<Rightarrow> conversation_state \<Rightarrow> datetime \<Rightarrow> ('z, unit) work" where
  "deliver c st now = (let cid = cmd_conversation_id c in
     if cmd_kind c = SWITCH_HARNESS then execute_switch c
     else
       bind_action (ensure_binding_current cid st) (\<lambda>current.
       bind_action (if current = None then start_for_delivery c st else ret (Some st)) (\<lambda>ready. case ready of
         None \<Rightarrow> ret ()
       | Some st \<Rightarrow> bind_action get_world (\<lambda>w. case get_runtime cid w of
           None \<Rightarrow> raise_error INVALID_STATE ''failed to obtain runtime''
         | Some tok \<Rightarrow> deliver_on c st tok now))))"

text \<open>\<open>_execute_command\<close>: the durable row decides whether the command may still be delivered.\<close>

definition execute_command :: "command \<Rightarrow> ('z, unit) work" where
  "execute_command c = (let cid = cmd_conversation_id c in
     bind_action is_draining (\<lambda>draining.
     if draining then ret ()
     else
       bind_action (worker_snapshot cid) (\<lambda>st.
       bind_action read_clock (\<lambda>now.
       case dict_get (st_commands st) (cmd_id c) of
         None \<Rightarrow> deliver c (with_claimed c st) now
       | Some d \<Rightarrow>
           if cmd_status d \<in> terminal_command_statuses then ret ()
           else if cmd_status d = CMD_DELIVERED then ensure_pump cid
           else if cmd_delivery_started_at d \<noteq> None
           then then_do (put_row (unowned CMD_OUTCOME_UNKNOWN d)) (ensure_pump cid)
           else deliver c st now))))"

text \<open>\<open>_handle_command\<close>, and the task's end, which takes it out of the table.\<close>

definition handle_command :: "command \<Rightarrow> ('z, unit) work" where
  "handle_command c = attempt (execute_command c) (\<lambda>e.
     if fault_code e = Some STALE_OWNER then on_stale_owner (cmd_conversation_id c)
     else if is_exception e then ret () else fail e)"

definition forget_command_task :: "uuid \<Rightarrow> ('z, unit) work" where
  "forget_command_task i = modify (\<lambda>w. w\<lparr>cp_tasks := AList.delete i (cp_tasks w)\<rparr>)"

definition command_task :: "command \<Rightarrow> ('z, unit) work" where
  "command_task c = ensure (handle_command c) (forget_command_task (cmd_id c))"

section \<open>Claims\<close>

text \<open>One pass of \<open>_claim_loop\<close>: a command whose task still runs is not given a second one.\<close>

definition begin_task :: "command \<times> int \<Rightarrow> ('z, unit) work" where
  "begin_task p = (case p of (c, fence) \<Rightarrow> modify (\<lambda>w.
     if dict_get (cp_tasks w) (cmd_id c) \<noteq> None then w
     else (set_fence (cmd_conversation_id c) fence w)\<lparr>cp_tasks := dict_put (cp_tasks w) (cmd_id c) c\<rparr>))"

definition claim_pass :: "('z, unit) work" where
  "claim_pass = bind_action get_world (\<lambda>w. case cp_worker_id w of
     None \<Rightarrow> fail Crashed
   | Some worker \<Rightarrow>
       if \<not> cp_running w \<or> \<not> cp_claims_enabled w then ret ()
       else suppress_exceptions
         (bind_action (transact_with (\<lambda>now db. Inr (claim_commands worker CLAIM_LIMIT LEASE_SECONDS now db))
             (ClaimCommands worker CLAIM_LIMIT LEASE_SECONDS)) (\<lambda>claimed.
           each begin_task claimed)))"

section \<open>Starting and stopping the worker\<close>

definition initialize_worker :: "string \<Rightarrow> ('z, unit) work" where
  "initialize_worker worker = bind_action get_world (\<lambda>w.
     if cp_running w \<and> cp_worker_id w \<noteq> Some worker
     then raise_error INVALID_STATE ''command worker already started''
     else modify (\<lambda>w. w\<lparr>cp_worker_id := Some worker\<rparr>))"

definition start_worker :: "string \<Rightarrow> ('z, unit) work" where
  "start_worker worker = bind_action get_world (\<lambda>w.
     if cp_running w then ret ()
     else then_do (initialize_worker worker) (modify (\<lambda>w. w\<lparr>cp_running := True, cp_draining := False\<rparr>)))"

definition begin_shutdown :: "('z, unit) work" where
  "begin_shutdown = modify (\<lambda>w. w\<lparr>cp_draining := True, cp_claims_enabled := False\<rparr>)"

text \<open>\<open>stop\<close>: every task and pump is cancelled, then what the batchers still hold is committed.\<close>

definition stop_pump :: "uuid \<times> nat option \<Rightarrow> ('z, unit) work" where
  "stop_pump p = (case p of
     (cid, Some b) \<Rightarrow> attempt (end_pump cid b False) (\<lambda>_. ret ())
   | (cid, None) \<Rightarrow> ret ())"

definition stop_worker :: "('z, unit) work" where
  "stop_worker =
     then_do (modify (\<lambda>w. w\<lparr>cp_running := False, cp_claims_enabled := False, cp_tasks := []\<rparr>))
     (bind_action get_world (\<lambda>w. then_do (each stop_pump (cp_pumps w))
     (then_do (modify (\<lambda>w. w\<lparr>cp_pumps := []\<rparr>))
     (bind_action get_world (\<lambda>w.
      then_do (each (\<lambda>(cid, b). suppress_exceptions (close_batcher cid b)) (cp_batchers w))
        (modify (\<lambda>w. w\<lparr>cp_batchers := []\<rparr>)))))))"

end
