(* ===== verification/Undelivered_Commands.thy ===== *)
theory Undelivered_Commands
  imports Command_Execution
begin

text \<open>
  What is left of a command whose runtime cannot start (\<open>_fail_undeliverable_command\<close>): one commit that
  settles it and fails the turns that needed the runtime.
\<close>

section \<open>Failing a turn\<close>

lemma cancel_interaction_turn:
  "map_option turn_id (st_active_turn (fst (cancel_interaction u st i now))) = map_option turn_id (st_active_turn st)"
  by (simp add: cancel_interaction_def maybe_resume_after_interactions_def append_events_def
      replace_conversation_def Let_def split: option.split)

lemma cancel_each_turn:
  "map_option turn_id (st_active_turn (fst (cancel_each u st is now))) = map_option turn_id (st_active_turn st)"
  by (induction "is" arbitrary: u st) (simp_all add: case_prod_unfold Let_def cancel_interaction_turn)

lemma end_active_turn_says:
  assumes "st_active_turn st = Some t" and "\<And>t'. turn_id t' = turn_id t \<Longrightarrow> terminal t' = p"
  shows "TurnEvent p \<in> ev_payload ` set (tr_events (end_active_turn u st now f terminal))"
proof -
  let ?c = "cancel_open_interactions u st now"
  have "map_option turn_id (st_active_turn (fst ?c)) = Some (turn_id t)"
    using assms(1) cancel_each_turn [of u st _ now]
    by (cases "open_interactions st = []") (simp_all add: cancel_open_interactions_def Let_def del: map_option_eq_Some)
  then obtain t' where t': "st_active_turn (fst ?c) = Some t'" "turn_id t' = turn_id t" by auto
  then show ?thesis
    by (simp add: end_active_turn_def case_prod_unfold Let_def result_of_def append_events_def assms(2) image_Un)
qed

lemma fail_turn_says:
  assumes "fail_turn u st now code message (Some i) = Inr r"
  shows "TurnEvent (TurnFailed i code message) \<in> ev_payload ` set (tr_events r)"
  using assms
  by (auto simp: fail_turn_def Let_def case_prod_unfold result_of_def append_events_def
      intro!: end_active_turn_says split: option.splits if_splits)

lemma cancel_each_commands: "st_commands (fst (cancel_each u st is now)) = st_commands st"
  by (induction "is" arbitrary: u st)
    (simp_all add: case_prod_unfold Let_def cancel_interaction_def maybe_resume_after_interactions_def
      append_events_def replace_conversation_def split: option.split)

lemma update_turn_command_keyed:
  assumes "commands.keyed d" and "\<And>c. cmd_id (f c) = cmd_id c"
  shows "commands.keyed (update_turn_command d t f)"
  using assms commands.keyed_store_own [OF assms(1)]
  by (auto simp: update_turn_command_def split: option.split) (metis assms(2))

lemma fail_turn_keyed:
  assumes "fail_turn u st now code message tid = Inr r" and "commands.keyed (st_commands st)"
  shows "commands.keyed (st_commands (tr_state r))"
proof -
  have ended: "commands.keyed (st_commands (tr_state (end_active_turn u st now (settle_command now) terminal)))" for terminal
    using assms(2)
    by (auto simp: end_active_turn_def case_prod_unfold Let_def result_of_def append_events_def replace_conversation_def
        recompute_status_def cancel_open_interactions_def cancel_each_commands settle_command_def
        intro!: update_turn_command_keyed split: option.split)
  have dropped: "commands.keyed (update_turn_command (st_commands st) t (settle_command now))" for t
    using assms(2) by (intro update_turn_command_keyed) (simp_all add: settle_command_def)
  show ?thesis
    using assms(1) ended dropped
    by (auto simp: fail_turn_def Let_def case_prod_unfold result_of_def append_events_def replace_conversation_def
        recompute_status_def split: option.splits if_splits)
qed

section \<open>The rows to settle\<close>

definition settled_row :: "datetime \<Rightarrow> command \<Rightarrow> bool" where
  "settled_row now c \<longleftrightarrow> cmd_status c = CMD_SETTLED \<and> cmd_settled_at c = Some now
     \<and> cmd_worker_id c = None \<and> cmd_lease_expires_at c = None \<and> cmd_delivered_at c \<noteq> None"

lemma settled_row_settled: "settled_row now (settled c now)"
  by (simp add: settled_row_def settled_def unowned_def)

lemma cmd_id_settled [simp]: "cmd_id (settled c now) = cmd_id c"
  by (simp add: settled_def unowned_def)

lemma returns_bind:
  assumes "bind_action a f E w = (Inr y, w')"
  obtains x w1 where "a E w = (Inr x, w1)" "f x E w1 = (Inr y, w')"
  using assms by (auto simp: bind_action_def split: prod.splits sum.splits)

lemma fail_turns_returns:
  assumes "fail_turns i now code message ts st es rows E w = (Inr (st', es', rows'), w')"
    and "list_all (settled_row now) (dict_values rows)" and "commands.keyed (st_commands st)"
  shows "w_trace w' = w_trace w \<and> commands.keyed (st_commands st') \<and> set es \<subseteq> set es' \<and> list_all (settled_row now) (dict_values rows')
    \<and> (\<forall>t \<in> set ts. TurnEvent (TurnFailed (turn_id t) code message) \<in> ev_payload ` set es')"
  using assms
proof (induction ts arbitrary: st es rows w)
  case Nil
  then show ?case by (simp add: ret_def)
next
  case (Cons t ts)
  let ?u = "en_uuids E (w_tick w)" and ?w = "w\<lparr>w_tick := Suc (w_tick w)\<rparr>"
  obtain r where r: "fail_turn ?u st now code message (Some (turn_id t)) = Inr r"
    using Cons.prems(1) by (cases "fail_turn ?u st now code message (Some (turn_id t))") (simp_all add: run_simps)
  define more where "more = (case (case turn_command_id t of None \<Rightarrow> None | Some j \<Rightarrow> dict_get (st_commands (tr_state r)) j) of
      None \<Rightarrow> rows
    | Some c \<Rightarrow> if cmd_id c = i then rows else dict_put rows (cmd_id c) (settled c now))"
  have "fail_turns i now code message ts (tr_state r) (es @ tr_events r) more E ?w = (Inr (st', es', rows'), w')"
    using Cons.prems(1) r by (simp add: run_simps more_def)
  moreover have "list_all (settled_row now) (dict_values more)"
    using Cons.prems(2) dict_values_put_subset settled_row_settled
    by (fastforce simp: more_def list_all_iff split: option.split)
  moreover have "commands.keyed (st_commands (tr_state r))"
    using fail_turn_keyed [OF r Cons.prems(3)] .
  ultimately have "w_trace w' = w_trace ?w \<and> commands.keyed (st_commands st') \<and> set (es @ tr_events r) \<subseteq> set es'
      \<and> list_all (settled_row now) (dict_values rows')
      \<and> (\<forall>t \<in> set ts. TurnEvent (TurnFailed (turn_id t) code message) \<in> ev_payload ` set es')"
    by (rule Cons.IH)
  with fail_turn_says [OF r] show ?case by auto
qed

section \<open>The commit\<close>

lemma commit_turn_returns:
  assumes "commit_turn cid v st es cs E w = (Inr (), w')"
  shows "\<exists>worker fence. w_trace w' = w_trace w @ [Wrote (CommitTurnBatch cid v st es cs worker fence)]"
  using assms unfolding commit_turn_def
  by (elim returns_bind)
    (auto simp: fence_kwargs_def transact_def awaited_def Let_def ret_def fail_def split: sum.splits if_splits option.splits
      elim!: returns_bind)

lemma safe_publish_trace:
  "\<exists>xs. w_trace (snd (safe_publish es E w)) = w_trace w @ xs \<and> xs \<in> {[], [Published es]}"
  by (auto simp: safe_publish_def suppress_exceptions_def attempt_def publish_def awaited_def Let_def ret_def fail_def
      split: option.split)

text \<open>C11: When the runtime of a command cannot start and failing the command comes back, exactly one thing was
  committed: a batch in which the command is settled, every other row too, none keeps a worker or a lease, and
  the active turn and the queued turn of this command have failed with the public message of the error. After
  it at most the batch's events were announced.\<close>
theorem undeliverable_command_settled:
  assumes snapshot: "get_worker_snapshot (en_others E (w_tick w) (w_store w)) (cmd_conversation_id c) = Inr st"
    and keyed: "commands.keyed (st_commands st)"
    and returned: "fst (fail_undeliverable_command c code details E w) = Inr ()"
  shows "\<exists>st' es rows worker fence xs now.
      w_trace (snd (fail_undeliverable_command c code details E w)) = w_trace w
        @ Wrote (CommitTurnBatch (cmd_conversation_id c) (conv_version (st_conversation st)) st' es rows worker fence) # xs
    \<and> xs \<in> {[], [Published es]}
    \<and> list_all (settled_row now) rows \<and> cmd_id c \<in> cmd_id ` set rows
    \<and> (\<forall>t \<in> set (doomed_turns st c). TurnEvent (TurnFailed (turn_id t) (error_code_value code)
        (public_message code (Some details))) \<in> ev_payload ` set es)"
proof -
  let ?cid = "cmd_conversation_id c" and ?run = "fail_undeliverable_command c code details E w"
  let ?message = "public_message code (Some details)"
  obtain w' where run: "?run = (Inr (), w')"
    using returned by (cases ?run) auto
  note unfold = fail_undeliverable_command_def Let_def run_simps
  obtain w1 where st: "worker_snapshot ?cid E w = (Inr st, w1)" and w1: "w_trace w1 = w_trace w"
    using run snapshot
    by (auto simp: unfold worker_snapshot_def read_store_def awaited_def elim!: returns_bind split: if_splits)
  define now where "now = en_clock E (w_tick w1)"
  obtain st1 es rows w2 where turns: "fail_turns (cmd_id c) now (error_code_value code) ?message (doomed_turns st c) st [] [] E w1
      = (Inr (st1, es, rows), w2)"
    using run st by (auto simp: unfold now_def read_clock_def elim!: returns_bind)
  define rows' where "rows' = dict_put rows (cmd_id (current_copy st1 c)) (settled (current_copy st1 c) now)"
  define st2 where "st2 = with_commands st1 (fold (\<lambda>(i, d) commands. dict_put commands i d) rows' (st_commands st1))"
  obtain w3 where commit: "commit_turn ?cid (conv_version (st_conversation st)) st2 es (dict_values rows') E w2 = (Inr (), w3)"
    and publish: "safe_publish es E w3 = (Inr (), w')"
    using run st turns by (auto simp: unfold now_def read_clock_def rows'_def st2_def elim!: returns_bind)
  have facts: "w_trace w2 = w_trace w1" "commands.keyed (st_commands st1)" "list_all (settled_row now) (dict_values rows)"
    "\<forall>t \<in> set (doomed_turns st c). TurnEvent (TurnFailed (turn_id t) (error_code_value code) ?message) \<in> ev_payload ` set es"
    using fail_turns_returns [OF turns _ keyed] by simp_all
  obtain worker fence where w3: "w_trace w3 = w_trace w2
      @ [Wrote (CommitTurnBatch ?cid (conv_version (st_conversation st)) st2 es (dict_values rows') worker fence)]"
    using commit_turn_returns [OF commit] by blast
  obtain xs where xs: "w_trace w' = w_trace w3 @ xs" "xs \<in> {[], [Published es]}"
    using safe_publish_trace [of es E w3] publish by auto
  have settled: "list_all (settled_row now) (dict_values rows')"
    using facts(3) dict_values_put_subset settled_row_settled unfolding rows'_def by (fastforce simp: list_all_iff)
  have "cmd_id (current_copy st1 c) = cmd_id c"
    using commands.keyed_lookup [OF facts(2)] by (simp add: current_copy_def split: option.split)
  then have mine: "cmd_id c \<in> cmd_id ` set (dict_values rows')"
    unfolding rows'_def using dict_value_in_put by (metis cmd_id_settled imageI)
  have "w_trace (snd ?run) = w_trace w @ Wrote (CommitTurnBatch ?cid (conv_version (st_conversation st)) st2 es
      (dict_values rows') worker fence) # xs"
    using run xs(1) w3 facts(1) w1 by simp
  with xs(2) settled mine facts(4) show ?thesis by blast
qed

end
