(* ===== verification/Command_Traces.thy ===== *)
theory Command_Traces
  imports Command_Execution Runtime_Traces
begin

text \<open>
  What the command processor puts into the trace of the worker, apart from the calls that deliver a
  command. \<open>quiet_items p\<close> says that \<open>p\<close> holds of everything else: transactions, publications and the
  calls that open, prepare, close or force a runtime.
\<close>

lemma emits_fence_kwargs [emits_rules]: "emits (list_all p) (fence_kwargs cid)"
  by (rule emits_silent) (auto simp: fence_kwargs_def split: option.split)

lemma emits_ensure_pump [emits_rules]: "emits (list_all p) (ensure_pump cid)"
  unfolding ensure_pump_def by (rule items.emits_modify) simp

lemma emits_draining [emits_rules]: "emits (list_all p) is_draining"
  unfolding is_draining_def by (intro emits_rules)

lemma emits_get_batcher [emits_rules]: "emits (list_all p) (get_batcher b)"
  by (rule emits_silent) (simp_all add: get_batcher_def)

lemma emits_change_batcher [emits_rules]: "emits (list_all p) (change_batcher b f)"
  unfolding change_batcher_def by (rule items.emits_modify) simp

lemma emits_lock: "emits (list_all p) a \<Longrightarrow> emits (list_all p) (with_batcher_lock b a)"
  unfolding with_batcher_lock_def by (intro emits_rules) (auto intro!: emits_rules)

lemma emits_matches [emits_rules]: "emits (list_all p) (runtime_matches_binding tok st)"
  unfolding runtime_matches_binding_def by (intro emits_rules)

lemma emits_split [emits_rules]: "emits (list_all p) (has_split_stream tok)"
  by (rule emits_silent) (simp_all add: has_split_stream_def)

lemma emits_origin [emits_rules]: "emits (list_all p) (event_origin tok st)"
  unfolding event_origin_def
  by (intro emits_rules) (rule emits_silent, simp_all split: prod.split)

lemma emits_handoff [emits_rules]: "emits (list_all p) (read_handoff cid)"
  by (rule emits_silent) (simp_all add: read_handoff_def)

lemma emits_tried: "emits (list_all p) a \<Longrightarrow> emits (list_all p) (tried a)"
  unfolding tried_def by (intro emits_rules)

lemma emits_rebase [emits_rules]: "emits (list_all p) (rebase inputs st es cs)"
  by (induction inputs arbitrary: st es cs) (auto intro!: emits_rules)

lemma emits_fail_turns [emits_rules]: "emits (list_all p) (fail_turns i now code message ts st es rows)"
  by (induction ts arbitrary: st es rows) (auto intro!: emits_rules)

lemma emits_forget [emits_rules]: "emits (list_all p) (forget_inputs b es)"
  unfolding forget_inputs_def by (intro emits_rules)

lemma emits_tables [emits_rules]:
  "emits (list_all p) (modify (drop_fence cid))" "emits (list_all p) (cancel_conversation_commands cid)"
  "emits (list_all p) (modify (\<lambda>w. w\<lparr>cp_pumps := f w\<rparr>))" "emits (list_all p) (modify (\<lambda>w. w\<lparr>cp_batchers := g w\<rparr>))"
  "emits (list_all p) (modify (\<lambda>w. w\<lparr>cp_pumps := f w, cp_batchers := g w\<rparr>))"
  unfolding cancel_conversation_commands_def
  by (rule items.emits_modify, simp add: drop_fence_def)+

locale quiet_items = lifecycle_items +
  assumes starts: "p (Called (StartNative i c))" and resumes: "p (Called (ResumeNative i c s))"
begin

lemma emits_commit_turn: "emits (list_all p) (commit_turn cid v st es cs)"
  unfolding commit_turn_def by (intro emits_rules) (auto intro!: emits_rules simp: wrote split: prod.split)

lemma emits_put_row: "emits (list_all p) (put_row c)"
  unfolding put_row_def by (intro emits_rules) (auto intro!: emits_rules simp: wrote split: prod.split)

lemma emits_renew_now: "emits (list_all p) (renew_lease_now c)"
  unfolding renew_lease_now_def by (intro emits_rules) (auto intro!: emits_rules simp: wrote split: option.split)

lemma emits_renew: "emits (list_all p) (renew_lease c)"
  unfolding renew_lease_def by (intro emits_rules emits_renew_now)

lemma emits_publishes: "emits (list_all p) (safe_publish es)" "emits (list_all p) (publish es)"
  by (auto intro!: emits_rules simp: published)

lemma emits_open: "emits (list_all p) (open_native req bid)"
  unfolding open_native_def by (intro emits_rules) (simp add: starts resumes split: option.split)

lemma emits_finish: "emits (list_all p) (finish_startup req i st launch s row h)"
  by (rule emits_finish_startup)

lemma emits_startup_body: "emits (list_all p) (startup_body req bid i st row)"
  unfolding startup_body_def Let_def
  by (auto intro!: emits_rules emits_probe emits_commit emits_prepare emits_open emits_finish_startup split: option.split)

lemma emits_start_request: "emits (list_all p) (start_request req)"
  unfolding start_request_def start_or_resume_def Let_def
  by (intro emits_rules) (auto intro!: emits_rules emits_import emits_commit emits_startup_body emits_startup_handler
      split: option.split)

lemma emits_ensure_runtime: "emits (list_all p) (ensure_runtime st)"
  unfolding ensure_runtime_def Let_def
  by (auto intro!: emits_rules emits_start_request split: option.split)

lemma emits_close_stale: "emits (list_all p) (close_stale_runtime tok)"
  unfolding close_stale_runtime_def by (rule emits_closes)

lemma emits_forsake: "emits (list_all p) (forsake_conversation cid)"
  unfolding forsake_conversation_def by (intro emits_rules emits_closes)

lemma emits_stale_in_flush: "emits (list_all p) (stale_owner_in_flush cid)"
  unfolding stale_owner_in_flush_def by (intro emits_rules) (auto intro!: emits_rules emits_forsake)

lemma emits_flush_events: "emits (list_all p) (flush_events n cid b pending v st es cs)"
proof (induction n arbitrary: v st es cs)
  case (Suc n)
  then show ?case
    by (auto intro!: emits_rules emits_tried emits_commit_turn emits_stale_in_flush emits_close_stale split: sum.split)
qed (simp add: items.emits_fail)

lemma emits_do_flush: "emits (list_all p) (do_flush cid b)"
  unfolding do_flush_def
  by (intro emits_rules) (auto intro!: emits_rules emits_flush_events emits_publishes split: option.split)

lemma emits_flush: "emits (list_all p) (flush_batcher cid b)"
  unfolding flush_batcher_def by (intro emits_lock emits_do_flush)

lemma emits_close_batcher: "emits (list_all p) (close_batcher cid b)"
  unfolding close_batcher_def by (intro emits_lock emits_rules emits_do_flush)

lemma emits_discard: "emits (list_all p) (discard_batcher b)"
  unfolding discard_batcher_def by (intro emits_lock emits_rules)

lemma emits_add: "emits (list_all p) (add_to_batch cid b v st es cs force)"
  unfolding add_to_batch_def by (intro emits_lock emits_rules) (auto intro!: emits_rules emits_do_flush)

lemma emits_wake: "emits (list_all p) (wake_queued_submit cid)"
  unfolding wake_queued_submit_def Let_def
  by (intro emits_rules) (auto intro!: emits_rules emits_commit_turn split: option.split)

lemma emits_mark_unknown: "emits (list_all p) (mark_active_turn_outcome_unknown cid phase message)"
  unfolding mark_active_turn_outcome_unknown_def
  by (intro emits_rules) (auto intro!: emits_rules emits_commit_turn emits_publishes emits_wake)

lemma emits_end_pump: "emits (list_all p) (end_pump cid b ended)"
  unfolding end_pump_def replace_stale_runtime_def terminalize_stream_def
  by (auto intro!: emits_rules emits_discard emits_flush emits_binding_current emits_ensure_runtime emits_closes
      emits_mark_unknown)

lemma emits_quiesce: "emits (list_all p) (quiesce_pump cid)"
  unfolding quiesce_pump_def Let_def
  by (intro emits_rules) (auto intro!: emits_rules emits_end_pump emits_close_batcher split: option.split)

lemma emits_on_stale_owner: "emits (list_all p) (on_stale_owner cid)"
  unfolding on_stale_owner_def by (intro emits_rules emits_quiesce emits_forsake)

lemma emits_broker:
  "emits (list_all p) (cancel_open_for_interrupt cid worker fence)"
  unfolding cancel_open_for_interrupt_def cancel_for_interrupt_def complete_suppressed_def Let_def
  by (auto intro!: emits_rules emits_resolve emits_publications simp: wrote published split: prod.split)

lemma emits_undeliverable: "emits (list_all p) (fail_undeliverable_command c code details)"
  unfolding fail_undeliverable_command_def Let_def
  by (intro emits_rules) (auto intro!: emits_rules emits_commit_turn emits_publishes split: prod.split)

lemma emits_start_for_delivery: "emits (list_all p) (start_for_delivery c st)"
  unfolding start_for_delivery_def
  by (intro emits_rules) (auto intro!: emits_rules emits_ensure_runtime emits_undeliverable split: prod.split)

lemma emits_start_queued: "emits (list_all p) (start_queued_turn c st now)"
  unfolding start_queued_turn_def by (auto intro!: emits_rules emits_commit_turn emits_publishes)

lemma emits_release: "emits (list_all p) (release_to_accepted c st)"
  unfolding release_to_accepted_def Let_def by (rule emits_commit_turn)

lemma emits_confirm: "emits (list_all p) (confirm_delivery c)"
  unfolding confirm_delivery_def Let_def by (auto intro!: emits_rules emits_put_row)

lemma emits_close_candidate: "emits (list_all p) (close_candidate bid)"
  unfolding close_candidate_def
  by (auto intro!: emits_rules emits_call_managed emits_force simp: closes split: option.split)

lemma emits_promote: "emits (list_all p) (promote_candidate cid bid)"
  unfolding promote_candidate_def by (auto intro!: emits_rules split: option.split)

lemma emits_fail_switch: "emits (list_all p) (fail_switch_command c e)"
  unfolding fail_switch_command_def Let_def
  by (auto intro!: emits_rules emits_commit_turn emits_publishes simp: published)

lemma emits_switch_handler: "emits (list_all p) (switch_handler bid e l)"
  unfolding switch_handler_def Let_def
  by (auto intro!: emits_rules emits_close_candidate emits_fail_switch split: prod.split)

lemma emits_promote_switched: "emits (list_all p) (promote_switched cid bid es)"
  unfolding promote_switched_def
  by (intro emits_rules) (auto intro!: emits_rules emits_publishes emits_promote emits_closes simp: published split: option.split)

end

end
