(* ===== verification/Interaction_Store_Properties.thy ===== *)
theory Interaction_Store_Properties
  imports Durable_Store_Properties
begin

text \<open>
  What the transactions promise about interactions: the first durable answer stays, it is audited once,
  and one command carries it to the harness. \<open>tables_step\<close> collects what a transaction may do to the
  tables of interactions.
\<close>

section \<open>Command rows are not deleted\<close>

definition rows_persist :: "store \<Rightarrow> store \<Rightarrow> bool" where
  "rows_persist db db' \<longleftrightarrow> dom (dict_get (db_commands db)) \<subseteq> dom (dict_get (db_commands db'))"

lemma rows_persist_refl [simp]: "rows_persist db db"
  by (simp add: rows_persist_def)

lemma rows_persist_trans: "rows_persist a b \<Longrightarrow> rows_persist b c \<Longrightarrow> rows_persist a c"
  by (auto simp: rows_persist_def)

lemma rows_persist_same: "db_commands db' = db_commands db \<Longrightarrow> rows_persist db db'"
  by (simp add: rows_persist_def)

lemma rows_persist_put [simp]: "rows_persist db (put_command db i row)"
  by (auto simp: rows_persist_def put_command_def dict_get_put)

lemma for_each_persist:
  assumes "\<And>x db db'. f x db = Inr db' \<Longrightarrow> rows_persist db db'"
  shows "for_each f xs db = Inr db' \<Longrightarrow> rows_persist db db'"
  by (induction xs arbitrary: db) (auto simp: result_simps intro: assms rows_persist_trans)

lemma settle_row_persist: "settle_command_row c db = Inr db' \<Longrightarrow> rows_persist db db'"
  by (auto simp: settle_command_row_def split: option.splits)

lemma upsert_command_persist: "upsert_command cid c db = Inr db' \<Longrightarrow> rows_persist db db'"
  by (auto simp: upsert_command_def split: if_splits)

lemma process_commands: "record_process p l db = Inr db' \<Longrightarrow> db_commands db' = db_commands db"
  by (auto simp: record_process_def Let_def split: option.splits if_splits prod.splits)

lemma commit_batch_persist: "commit_batch cid v st es cs p l now w f db = Inr db' \<Longrightarrow> rows_persist db db'"
proof (erule commit_batch_parts)
  fix row db1 db2
  assume p: "record_process p l (put_aggregate db cid (store_aggregate row st)) = Inr db1"
    and i: "insert_events (interaction_turns st) es db1 = Inr db2"
    and c: "for_each (upsert_command cid) cs db2 = Inr db'"
  have "rows_persist db db2"
    using process_commands [OF p] insert_events_effect [OF i] by (intro rows_persist_same) (simp add: put_aggregate_def)
  moreover have "rows_persist db2 db'"
    using c by (rule for_each_persist [rotated]) (rule upsert_command_persist)
  ultimately show ?thesis by (rule rows_persist_trans)
qed

lemma facade_persist:
  assumes "commit_facade_mutation cid owner v st es cs db = Inr db'"
  shows "rows_persist db db'"
proof -
  from assms obtain row db2 where
    i: "insert_events (interaction_turns st) es (put_aggregate db cid (store_aggregate row st)) = Inr db2"
    and c: "for_each (upsert_command cid) cs db2 = Inr db'"
    by (auto simp: commit_facade_mutation_def result_simps split: option.splits if_splits)
  have "rows_persist db db2"
    using insert_events_effect [OF i] by (intro rows_persist_same) (simp add: put_aggregate_def)
  moreover have "rows_persist db2 db'"
    using c by (rule for_each_persist [rotated]) (rule upsert_command_persist)
  ultimately show ?thesis by (rule rows_persist_trans)
qed

lemma tables_persist: "tables_only db db' \<Longrightarrow> rows_persist db db'"
  by (rule rows_persist_same) (simp add: tables_onlyD)

lemma claim_rows_persist: "rows_persist db (snd (claim_rows w dur now rows db))"
  by (rule claim_rows_rel) (auto intro: rows_persist_trans rows_persist_same acquire_commands)

lemma take_over_persist: "take_over u g w dur now rows db = Inr (cs, db') \<Longrightarrow> rows_persist db db'"
  by (rule take_over_rel [where R = rows_persist])
    (auto intro: rows_persist_trans rows_persist_same
      simp: begin_recovery_def Let_def put_aggregate_def abandon_attempts_def mark_processes_orphaned_def)

lemma resolution_persist:
  assumes "commit_interaction_resolution g u rs now db = Inr (r, db')"
  shows "rows_persist db db'"
  using assms
proof (rule resolution_cases)
  fix v st es db1 db2
  assume "tables_only db db1" "tables_only db2 db'"
    and commit: "commit_batch (rs_conversation_id rs) v st es [] None None now (rs_worker_id rs) (rs_fence rs) db1
      = Inr db2"
  then show ?thesis
    by (intro rows_persist_trans [OF tables_persist rows_persist_trans [OF commit_batch_persist [OF commit] tables_persist]])
qed (rule tables_persist)

lemma release_persist:
  assumes "release_interaction_answer cid owner i c now w f db = Inr (r, db')"
  shows "rows_persist db db'"
  using assms
proof (rule release_cases)
  fix row db1 t
  assume up: "upsert_command cid c db = Inr db1"
    and db': "db' = put_aggregate (db1\<lparr>db_interactions := t\<rparr>) cid (store_aggregate row
        ((ag_state row)\<lparr>st_commands := dict_put (st_commands (ag_state row)) (cmd_id c) c\<rparr>))"
  show ?thesis
    using upsert_command_persist [OF up] by (simp add: rows_persist_def db' put_aggregate_def)
qed simp

lemma aside_persist: "aside_only db db' \<Longrightarrow> rows_persist db db'"
  by (rule rows_persist_same) (simp add: aside_onlyD)

lemma recovery_persist:
  assumes "commit_recovery_batch u cid v st es cs attempt note outcome t w f now db = Inr db'"
  shows "rows_persist db db'"
  using assms
proof (rule recovery_cases)
  fix row db1 db2
  assume "commit_batch cid v st es cs None None now (Some w) (Some f) db = Inr db1"
    "persist_cancelled u cid (ag_state row) st es (st_answers st) db1 = Inr db2" "aside_only db2 db'"
  then show ?thesis
    by (intro rows_persist_trans [OF commit_batch_persist
        rows_persist_trans [OF tables_persist [OF persist_cancelled_tables] aside_persist]])
qed

lemma store_op_persist:
  assumes "apply_store_op now op db = Inr db'"
  shows "rows_persist db db'"
proof (cases op)
  case (SaveSnapshot st)
  with assms show ?thesis
    by (auto simp: save_snapshot_def Let_def put_aggregate_def intro!: rows_persist_same split: option.splits if_splits)
next
  case (AcceptCommand c)
  with assms show ?thesis by (auto simp: accept_command_def map_sum_def split: option.splits if_splits)
next
  case (RenewCommandLease i w dur f)
  with assms show ?thesis
    by (auto simp: renew_command_lease_def result_simps split: option.splits if_splits)
next
  case (UpdateCommand c w f)
  with assms show ?thesis
    by (auto simp: update_command_def result_simps map_sum_def Let_def split: option.splits if_splits sum.splits)
next
  case (CommitTurnBatch cid v st es cs w f)
  with assms show ?thesis
    by (auto simp: commit_turn_batch_def result_simps
        intro: rows_persist_trans [OF commit_batch_persist for_each_persist [OF settle_row_persist]])
next
  case (ReleaseConversationLease cid w f)
  with assms show ?thesis
    by (auto simp: release_conversation_lease_def result_simps put_aggregate_def intro!: rows_persist_same
        split: option.splits)
next
  case (RenewOwnedLeases w dur)
  with assms show ?thesis
    by (auto simp: renew_owned_conversation_leases_def intro!: rows_persist_same)
next
  case (ClaimExpired u w limit dur g)
  with assms show ?thesis
    by (auto simp: claim_expired_conversations_def map_sum_def split: sum.splits dest!: take_over_persist)
next
  case (CommitHarnessSwitch cid v st es c p l w f)
  with assms show ?thesis
    by (auto simp: commit_harness_switch_def result_simps
        intro: rows_persist_trans [OF commit_batch_persist settle_row_persist])
next
  case (CommitRequest cid v st es i corr n w f)
  with assms show ?thesis
    by (auto simp: commit_interaction_request_def result_simps
        intro: rows_persist_trans [OF commit_batch_persist tables_persist])
next
  case (CommitResolution g u rs)
  with assms show ?thesis by (auto simp: map_sum_def resolution_persist split: sum.splits)
next
  case (ReleaseAnswer cid owner i c w f)
  with assms show ?thesis by (auto simp: map_sum_def release_persist split: sum.splits)
next
  case (CompleteSuppressed i t)
  with assms show ?thesis
    by (auto simp: complete_suppressed_interaction_resolution_def map_sum_def
        intro!: tables_persist split: option.splits if_splits sum.splits)
next
  case (CreateRule r)
  with assms show ?thesis by (auto simp: create_rule_def intro!: tables_persist split: if_splits)
next
  case (ReplaceRule r)
  with assms show ?thesis by (auto simp: replace_rule_def intro!: tables_persist split: option.splits if_splits)
next
  case (DeleteRule i p)
  with assms show ?thesis by (auto simp: delete_rule_def intro!: tables_persist split: option.splits if_splits)
next
  case (CommitRecovery u c v st es cs attempt n outcome t w f)
  with assms show ?thesis by (simp add: recovery_persist)
next
  case (CommitRotation c v native launch w f)
  with assms show ?thesis by (intro rows_persist_same rotation_commands [OF disjI1]) simp
next
  case (RequireRecreation c v w f utc)
  with assms show ?thesis by (intro rows_persist_same rotation_commands [OF disjI2]) simp
next
  case (UpdateAttempt i n w f)
  with assms show ?thesis by (auto intro: aside_persist update_attempt_aside)
next
  case (CompleteAttempt i outcome reason t)
  with assms show ?thesis by (auto intro: aside_persist complete_attempt_aside)
next
  case (AcquireWorkerLease slot w dur)
  with assms show ?thesis by (auto intro: aside_persist worker_lease_aside)
next
  case (RenewWorkerLease slot w dur)
  with assms show ?thesis by (auto intro: aside_persist worker_lease_aside)
next
  case (MarkWorkerDraining slot w)
  with assms show ?thesis by (auto intro: aside_persist worker_lease_aside)
next
  case (ReleaseWorkerLease slot w)
  with assms show ?thesis by (auto intro: aside_persist worker_lease_aside)
qed (use assms in \<open>auto simp: claim_commands_def intro: commit_batch_persist facade_persist claim_rows_persist\<close>)

section \<open>What a transaction does to answers and audits\<close>

inductive tables_step :: "store \<Rightarrow> interaction_tables \<Rightarrow> interaction_tables \<Rightarrow> bool" for db :: store where
  untouched: "it_answers t' = it_answers t \<Longrightarrow> it_audits t' = it_audits t \<Longrightarrow> tables_step db t t'"
| answered: "dict_get (it_answers t) i = None \<Longrightarrow> it_answers t' = dict_put (it_answers t) i a \<Longrightarrow>
     it_audits t' = it_audits t @ [x] \<Longrightarrow> au_interaction_id x = i \<Longrightarrow> tables_step db t t'"
| released: "dict_get (it_answers t) i = Some a \<Longrightarrow> it_audits t' = it_audits t \<Longrightarrow>
     (\<And>j. ar_command_id a = Some j \<Longrightarrow> dict_get (db_commands db) j = None) \<Longrightarrow>
     it_answers t' = dict_put (it_answers t) i (a\<lparr>ar_command_id := c, ar_released_at := Some r\<rparr>) \<Longrightarrow> tables_step db t t'"
| completed: "dict_get (it_answers t) i = Some a \<Longrightarrow> it_audits t' = it_audits t \<Longrightarrow>
     it_answers t' = dict_put (it_answers t) i (a\<lparr>ar_released_at := Some r\<rparr>) \<Longrightarrow> tables_step db t t'"

lemma tables_step_refl [simp]: "tables_step db t t"
  by (rule untouched) simp_all

lemma mark_tables [simp]:
  "it_answers (db_interactions (update_marks i f db)) = it_answers (db_interactions db)"
  "it_audits (db_interactions (update_marks i f db)) = it_audits (db_interactions db)"
  "it_answers (db_interactions (mark_policy_evaluated i at db)) = it_answers (db_interactions db)"
  "it_audits (db_interactions (mark_policy_evaluated i at db)) = it_audits (db_interactions db)"
  by (simp_all add: update_marks_def mark_policy_evaluated_def change_tables_def split: option.split)

lemma insert_events_tables: "insert_events m es db = Inr db' \<Longrightarrow> db_interactions db' = db_interactions db"
  by (induction es arbitrary: db) (auto split: if_splits)

lemma for_each_tables:
  assumes "\<And>x db db'. f x db = Inr db' \<Longrightarrow> db_interactions db' = db_interactions db"
  shows "for_each f xs db = Inr db' \<Longrightarrow> db_interactions db' = db_interactions db"
proof (induction xs arbitrary: db)
  case (Cons x xs)
  then show ?case using assms by (auto simp: result_simps)
qed simp

lemma upsert_tables: "upsert_command cid c db = Inr db' \<Longrightarrow> db_interactions db' = db_interactions db"
  by (auto simp: upsert_command_def put_command_def split: if_splits)

lemma settle_tables: "settle_command_row c db = Inr db' \<Longrightarrow> db_interactions db' = db_interactions db"
  by (auto simp: settle_command_row_def put_command_def split: option.splits)

lemma process_tables: "record_process p l db = Inr db' \<Longrightarrow> db_interactions db' = db_interactions db"
  by (auto simp: record_process_def Let_def split: option.splits if_splits prod.splits)

lemma commit_batch_tables:
  "commit_batch cid v st es cs p l now w f db = Inr db' \<Longrightarrow> db_interactions db' = db_interactions db"
  by (erule commit_batch_parts)
    (auto dest!: process_tables insert_events_tables for_each_tables [OF upsert_tables, rotated] simp: put_aggregate_def)

lemma facade_tables:
  "commit_facade_mutation cid owner v st es cs db = Inr db' \<Longrightarrow> db_interactions db' = db_interactions db"
  by (auto simp: commit_facade_mutation_def result_simps put_aggregate_def
      dest!: insert_events_tables for_each_tables [OF upsert_tables, rotated] split: option.splits if_splits)

lemma acquire_tables: "db_interactions (snd (acquire_conversation_owner cid w dur now orphan db)) = db_interactions db"
  by (simp add: acquire_conversation_owner_def Let_def put_aggregate_def mark_processes_orphaned_def split: option.split)

lemma claim_rows_tables: "db_interactions (snd (claim_rows w dur now rows db)) = db_interactions db"
  by (rule claim_rows_rel [where R = "\<lambda>a b. db_interactions b = db_interactions a"])
    (auto simp: acquire_tables put_command_def)

lemma take_over_tables: "take_over u g w dur now rows db = Inr (cs, db') \<Longrightarrow> db_interactions db' = db_interactions db"
  by (rule take_over_rel [where R = "\<lambda>a b. db_interactions b = db_interactions a"])
    (auto simp: acquire_tables begin_recovery_def Let_def put_aggregate_def abandon_attempts_def mark_processes_orphaned_def)

section \<open>Every transaction is such a step\<close>

lemma create_rule_tables: "create_rule r db = Inr db' \<Longrightarrow> tables_step d (db_interactions db) (db_interactions db')"
  by (auto simp: create_rule_def change_tables_def intro!: untouched split: if_splits)

lemma record_rule_step:
  "record_rule rs d db = Inr (r, db') \<Longrightarrow> it_answers (db_interactions db') = it_answers (db_interactions db)
     \<and> it_audits (db_interactions db') = it_audits (db_interactions db)"
  by (auto simp: record_rule_def create_rule_def change_tables_def result_simps split: option.splits if_splits)

lemma write_resolution_step:
  assumes free: "dict_get (it_answers (db_interactions db)) (ans_interaction_id (rs_answer rs)) = None"
    and wrote: "write_resolution u rs d row marks now db = Inr (r, db')"
  shows "tables_step db (db_interactions db) (db_interactions db')"
proof -
  from wrote obtain rule db1 where rule: "record_rule rs d db = Inr (rule, db1)"
    and rest: "db' = mark_policy_evaluated (ans_interaction_id (rs_answer rs))
          (conv_updated_at (st_conversation (dc_state d))) db1
      \<or> (\<exists>db2. db_interactions db2 = db_interactions db1
          \<and> (\<exists>at. db' = mark_policy_evaluated (ans_interaction_id (rs_answer rs)) at
                (persist_interaction_answer u rs d rule marks db2)
            \<or> db' = persist_interaction_answer u rs d rule marks db2))"
    unfolding write_resolution_def Let_def
    by (auto simp: result_simps split: if_splits dest: commit_batch_tables)
  note same = record_rule_step [OF rule]
  from rest show ?thesis
  proof (elim disjE exE conjE)
    assume "db' = mark_policy_evaluated (ans_interaction_id (rs_answer rs))
        (conv_updated_at (st_conversation (dc_state d))) db1"
    with same show ?thesis by (intro untouched) simp_all
  qed (use same free in \<open>auto intro!: answered simp: persist_interaction_answer_def change_tables_def new_audit_def Let_def\<close>)
qed

lemma resolution_step:
  assumes "commit_interaction_resolution g u rs now db = Inr (r, db')"
  shows "tables_step db (db_interactions db) (db_interactions db')"
proof (cases "dict_get (it_answers (db_interactions db)) (ans_interaction_id (rs_answer rs))")
  case None
  with assms consider at where "db' = mark_policy_evaluated (ans_interaction_id (rs_answer rs)) at db"
    | u' d row marks where "write_resolution u' rs d row marks now db = Inr (r, db')"
    unfolding commit_interaction_resolution_def Let_def
    by (auto simp: result_simps split: option.splits if_splits)
  then show ?thesis
    by cases (auto intro: write_resolution_step [OF None] untouched)
qed (use assms in \<open>simp add: commit_interaction_resolution_def Let_def\<close>)

lemma release_step:
  assumes wrote: "release_interaction_answer cid owner i c now w f db = Inr (r, db')"
  shows "tables_step db (db_interactions db) (db_interactions db')"
proof -
  obtain a where a: "dict_get (it_answers (db_interactions db)) i = Some a"
    using wrote by (auto simp: release_interaction_answer_def split: option.splits)
  show ?thesis
  proof (cases "\<exists>j row. ar_command_id a = Some j \<and> dict_get (db_commands db) j = Some row")
    case True
    with wrote a show ?thesis by (auto simp: release_interaction_answer_def)
  next
    case False
    with wrote a have "it_answers (db_interactions db') = dict_put (it_answers (db_interactions db)) i
        (a\<lparr>ar_command_id := Some (cmd_id c), ar_released_at := Some (cmd_created_at c)\<rparr>)"
      "it_audits (db_interactions db') = it_audits (db_interactions db)"
      by (auto simp: release_interaction_answer_def Let_def result_simps change_tables_def put_aggregate_def
          dest!: upsert_tables split: option.splits if_splits)
    with a False show ?thesis by (intro released) auto
  qed
qed

text \<open>A recovery answers each interaction it cancelled: the one transaction that takes several steps.\<close>

lemma persist_cancelled_steps:
  "persist_cancelled u cid previous st es answers db = Inr db' \<Longrightarrow>
     rtranclp (tables_step d) (db_interactions db) (db_interactions db')"
proof (induction answers arbitrary: u db)
  case (Cons p answers)
  obtain i a where p: "p = (i, a)" by force
  show ?case
  proof (cases "newly_cancelled previous st db i")
    case True
    then obtain marks e where found: "interaction_row db i = Some marks" "find (resolves_interaction i) es = Some e"
      using Cons.prems by (auto simp: p split: option.splits)
    let ?db = "persist_interaction_answer u (cancelled_resolution cid st (a\<lparr>ans_interaction_id := i\<rparr>))
      \<lparr>dc_state = st, dc_events = es, dc_expected_version = conv_version (st_conversation st),
       dc_answer = a, dc_event_sequence = ev_sequence e, dc_rule = None\<rparr> None marks db"
    have rest: "persist_cancelled (drop_supply 1 u) cid previous st es answers ?db = Inr db'"
      using Cons.prems True found by (simp add: p)
    have "tables_step d (db_interactions db) (db_interactions ?db)"
      using True by (intro answered [where i = i])
        (auto simp: newly_cancelled_def persist_interaction_answer_def change_tables_def cancelled_resolution_def
          new_audit_def Let_def)
    with Cons.IH [OF rest] show ?thesis by (rule converse_rtranclp_into_rtranclp [rotated])
  qed (use Cons in \<open>simp add: p\<close>)
qed simp

lemma recovery_steps:
  assumes "commit_recovery_batch u cid v st es cs attempt note outcome t w f now db = Inr db'"
  shows "rtranclp (tables_step db) (db_interactions db) (db_interactions db')"
  using assms
proof (rule recovery_cases)
  fix row db1 db2
  assume commit: "commit_batch cid v st es cs None None now (Some w) (Some f) db = Inr db1"
    and answers: "persist_cancelled u cid (ag_state row) st es (st_answers st) db1 = Inr db2" and last: "aside_only db2 db'"
  show ?thesis
    using persist_cancelled_steps [OF answers] commit_batch_tables [OF commit] aside_onlyD [OF last] by simp
qed

lemma rotation_tables:
  assumes "commit_session_rotation cid v native launch w f now db = Inr db'
    \<or> commit_rotation_requires_recreation cid v w f utc now db = Inr db'"
  shows "db_interactions db' = db_interactions db"
  using assms by (rule rotation_cases) (simp add: put_aggregate_def)

lemma plain_op_tables:
  assumes "apply_store_op now op db = Inr db'" and "\<And>u cid v st es cs attempt note outcome t w f.
    op \<noteq> CommitRecovery u cid v st es cs attempt note outcome t w f"
  shows "tables_step db (db_interactions db) (db_interactions db')"
proof (cases op)
  case (SaveSnapshot st)
  with assms show ?thesis by (auto simp: save_snapshot_def Let_def put_aggregate_def split: option.splits if_splits)
next
  case (AcceptCommand c)
  with assms show ?thesis
    by (auto simp: accept_command_def put_command_def map_sum_def split: option.splits if_splits)
next
  case (RenewCommandLease i w dur f)
  with assms show ?thesis
    by (auto simp: renew_command_lease_def put_command_def result_simps split: option.splits if_splits)
next
  case (UpdateCommand c w f)
  with assms show ?thesis
    by (auto simp: update_command_def put_command_def result_simps map_sum_def Let_def
        split: option.splits if_splits sum.splits)
next
  case (CommitBatch cid v st es cs p l w f)
  with assms commit_batch_tables show ?thesis by fastforce
next
  case (CommitTurnBatch cid v st es cs w f)
  with assms have "db_interactions db' = db_interactions db"
    by (auto simp: commit_turn_batch_def result_simps
        dest!: commit_batch_tables for_each_tables [OF settle_tables, rotated])
  then show ?thesis by simp
next
  case (FacadeMutation cid owner v st es cs)
  with assms facade_tables show ?thesis by fastforce
next
  case (ReleaseConversationLease cid w f)
  with assms show ?thesis
    by (auto simp: release_conversation_lease_def result_simps put_aggregate_def split: option.splits)
next
  case (RenewOwnedLeases w dur)
  with assms show ?thesis by (auto simp: renew_owned_conversation_leases_def)
next
  case (ClaimExpired u w limit dur g)
  with assms have "db_interactions db' = db_interactions db"
    by (auto simp: claim_expired_conversations_def map_sum_def split: sum.splits dest!: take_over_tables)
  then show ?thesis by simp
next
  case (CommitHarnessSwitch cid v st es c p l w f)
  with assms have "db_interactions db' = db_interactions db"
    by (auto simp: commit_harness_switch_def result_simps dest!: commit_batch_tables settle_tables)
  then show ?thesis by simp
next
  case (CommitRequest cid v st es i corr n w f)
  with assms show ?thesis
    by (auto simp: commit_interaction_request_def result_simps dest!: commit_batch_tables intro!: untouched)
next
  case (CommitResolution g u rs)
  with assms show ?thesis by (auto simp: map_sum_def resolution_step split: sum.splits)
next
  case (ReleaseAnswer cid owner i c w f)
  with assms show ?thesis by (auto simp: map_sum_def release_step split: sum.splits)
next
  case (CompleteSuppressed i t)
  with assms show ?thesis
    by (auto simp: complete_suppressed_interaction_resolution_def map_sum_def change_tables_def
        intro!: completed [where i = i] split: option.splits if_splits sum.splits)
next
  case (CreateRule r)
  with assms show ?thesis by (simp add: create_rule_tables)
next
  case (ReplaceRule r)
  with assms show ?thesis
    by (auto simp: replace_rule_def change_tables_def intro!: untouched split: option.splits if_splits)
next
  case (DeleteRule i p)
  with assms show ?thesis
    by (auto simp: delete_rule_def change_tables_def intro!: untouched split: option.splits if_splits)
next
  case (ClaimCommands w limit dur)
  with assms show ?thesis by (auto simp: claim_commands_def claim_rows_tables)
next
  case (CommitRecovery u cid v st es cs attempt n outcome t w f)
  with assms(2) show ?thesis by blast
next
  case (CommitRotation c v native launch w f)
  with assms have "db_interactions db' = db_interactions db" by (intro rotation_tables [OF disjI1]) simp
  then show ?thesis by simp
next
  case (RequireRecreation c v w f utc)
  with assms have "db_interactions db' = db_interactions db" by (intro rotation_tables [OF disjI2]) simp
  then show ?thesis by simp
next
  case (UpdateAttempt i n w f)
  with assms show ?thesis by (simp add: aside_onlyD [OF update_attempt_aside])
next
  case (CompleteAttempt i outcome reason t)
  with assms show ?thesis by (simp add: aside_onlyD [OF complete_attempt_aside])
next
  case (AcquireWorkerLease slot w dur)
  with assms show ?thesis by (simp add: aside_onlyD [OF worker_lease_aside(1)])
next
  case (RenewWorkerLease slot w dur)
  with assms show ?thesis by (simp add: aside_onlyD [OF worker_lease_aside(2)])
next
  case (MarkWorkerDraining slot w)
  with assms show ?thesis by (simp add: aside_onlyD [OF worker_lease_aside(3)])
next
  case (ReleaseWorkerLease slot w)
  with assms have "db' = release_worker_lease slot w db" by simp
  then show ?thesis by (simp add: aside_onlyD [OF worker_lease_aside(4)])
qed

lemma store_op_tables:
  assumes "apply_store_op now op db = Inr db'"
  shows "rtranclp (tables_step db) (db_interactions db) (db_interactions db')"
proof (cases "\<exists>u cid v st es cs attempt note outcome t w f.
    op = CommitRecovery u cid v st es cs attempt note outcome t w f")
  case True
  with assms recovery_steps show ?thesis by auto
next
  case False
  then show ?thesis by (intro r_into_rtranclp plain_op_tables [OF assms]) blast
qed

section \<open>An interaction is resolved once\<close>

definition answer_follows :: "store \<Rightarrow> answer_row \<Rightarrow> answer_row \<Rightarrow> bool" where
  "answer_follows db a b \<longleftrightarrow> ar_answer b = ar_answer a \<and> ar_conversation_id b = ar_conversation_id a
     \<and> ar_event_sequence b = ar_event_sequence a \<and> ar_suppressed b = ar_suppressed a
     \<and> (ar_released_at a \<noteq> None \<longrightarrow> ar_released_at b \<noteq> None)
     \<and> (\<forall>j. ar_command_id a = Some j \<longrightarrow> dict_get (db_commands db) j \<noteq> None \<longrightarrow> ar_command_id b = Some j)"

definition resolutions_kept :: "store \<Rightarrow> store \<Rightarrow> bool" where
  "resolutions_kept db db' \<longleftrightarrow> rows_persist db db' \<and> (\<forall>i a. dict_get (it_answers (db_interactions db)) i = Some a \<longrightarrow>
     (\<exists>b. dict_get (it_answers (db_interactions db')) i = Some b \<and> answer_follows db a b))"

definition audits_match :: "store \<Rightarrow> bool" where
  "audits_match db \<longleftrightarrow> map au_interaction_id (it_audits (db_interactions db)) = map fst (it_answers (db_interactions db))
     \<and> distinct (map fst (it_answers (db_interactions db)))"

lemma answer_follows_refl [simp]: "answer_follows db a a"
  by (simp add: answer_follows_def)

lemma resolutions_kept_refl [simp]: "resolutions_kept db db"
  by (simp add: resolutions_kept_def)

lemma answer_follows_trans:
  "answer_follows db a b \<Longrightarrow> answer_follows db' b c \<Longrightarrow> rows_persist db db' \<Longrightarrow> answer_follows db a c"
  by (auto simp: answer_follows_def rows_persist_def dom_def subset_iff)

lemma resolutions_kept_trans:
  assumes ab: "resolutions_kept a b" and bc: "resolutions_kept b c"
  shows "resolutions_kept a c"
  unfolding resolutions_kept_def
proof (intro conjI allI impI)
  from ab bc show "rows_persist a c" by (auto simp: resolutions_kept_def intro: rows_persist_trans)
  fix i x assume "dict_get (it_answers (db_interactions a)) i = Some x"
  with ab obtain y where y: "dict_get (it_answers (db_interactions b)) i = Some y" "answer_follows a x y"
    by (auto simp: resolutions_kept_def)
  with bc obtain z where "dict_get (it_answers (db_interactions c)) i = Some z" "answer_follows b y z"
    by (auto simp: resolutions_kept_def)
  with y ab show "\<exists>z. dict_get (it_answers (db_interactions c)) i = Some z \<and> answer_follows a x z"
    by (auto simp: resolutions_kept_def intro: answer_follows_trans)
qed

lemma tables_step_answers:
  "tables_step db t t' \<Longrightarrow> dict_get (it_answers t) i = Some a \<Longrightarrow>
     \<exists>b. dict_get (it_answers t') i = Some b \<and> answer_follows db a b"
  by (induction rule: tables_step.induct) (auto simp: answer_follows_def dict_get_put)

lemma tables_steps_answers:
  "rtranclp (tables_step db) t t' \<Longrightarrow> dict_get (it_answers t) i = Some a \<Longrightarrow>
     \<exists>b. dict_get (it_answers t') i = Some b \<and> answer_follows db a b"
  by (induction rule: rtranclp_induct)
    (use tables_step_answers answer_follows_trans [OF _ _ rows_persist_refl] in \<open>auto, blast\<close>)

lemma resolutions_kept_step: "store_step db l db' \<Longrightarrow> resolutions_kept db db'"
  unfolding store_step_def resolutions_kept_def
  using store_op_persist store_op_tables tables_steps_answers by blast

lemma tables_step_audits:
  assumes "tables_step db t t'" and "map au_interaction_id (it_audits t) = dict_keys (it_answers t)"
    and "distinct (dict_keys (it_answers t))"
  shows "map au_interaction_id (it_audits t') = dict_keys (it_answers t') \<and> distinct (dict_keys (it_answers t'))"
  using assms
proof (induction rule: tables_step.induct)
  case (answered t i t' a x)
  then have "i \<notin> fst ` set (it_answers t)" by (simp add: map_of_eq_None_iff)
  with answered show ?case by (auto simp: dict_put_absent)
next
  case (released t i a t' r c)
  then show ?case using dict_put_present [OF dict_get_Some_key [OF released(1)]] by simp
next
  case (completed t i a t' r)
  then show ?case using dict_put_present [OF dict_get_Some_key [OF completed(1)]] by simp
qed simp

lemma tables_steps_audits:
  assumes "rtranclp (tables_step db) t t'" and "map au_interaction_id (it_audits t) = dict_keys (it_answers t)"
    and "distinct (dict_keys (it_answers t))"
  shows "map au_interaction_id (it_audits t') = dict_keys (it_answers t') \<and> distinct (dict_keys (it_answers t'))"
  using assms by (induction rule: rtranclp_induct) (auto dest: tables_step_audits)

lemma audits_match_step: "audits_match db \<Longrightarrow> store_step db l db' \<Longrightarrow> audits_match db'"
  unfolding store_step_def audits_match_def by (elim conjE) (rule tables_steps_audits [OF store_op_tables])

interpretation answering: permanence "\<lambda>db. db = empty_store" store_step "\<lambda>_. True" resolutions_kept
  by unfold_locales (auto intro: resolutions_kept_trans resolutions_kept_step)

lemma audits_match_empty: "audits_match empty_store"
  by (simp add: audits_match_def empty_store_def)

interpretation auditing: invariant_system "\<lambda>db. db = empty_store" store_step audits_match
  by unfold_locales (simp_all add: audits_match_empty audits_match_step)

lemma filter_key_once:
  "distinct (map f xs) \<Longrightarrow> y \<in> set (map f xs) \<Longrightarrow> length (filter (\<lambda>x. f x = y) xs) = 1"
  by (induction xs) (auto simp: filter_empty_conv rev_image_eqI)


end
