(* ===== verification/Delivery_Demonstration.thy ===== *)
theory Delivery_Demonstration
  imports Undelivered_Commands Delivery_Properties Interaction_Store_Properties Runtime_Demonstration
begin

text \<open>
  Concrete inputs of the witnesses about interactions and deliveries: an interaction that is requested,
  answered and released, and a worker that holds a batch of the conversation of \<open>Store_Demonstration\<close>.
\<close>

section \<open>An answered interaction\<close>

definition demo_asked_events :: "conversation_event list" where
  "demo_asked_events = map (\<lambda>(k, e). e\<lparr>ev_event_id := Uuid (300 + of_nat k)\<rparr>)
     (enumerate 0 (concat (script_log demo_opening demo_start)))"

definition demo_resolution_script :: "(uuid \<times> datetime \<times> conversation_op) list" where
  "demo_resolution_script = take 1 demo_closing"

definition demo_resolution :: resolution where
  "demo_resolution = \<lparr>rs_conversation_id = Uuid 1, rs_owner_id = ''owner'',
     rs_expected_version = conv_version (st_conversation demo_waiting),
     rs_state = script_state demo_resolution_script demo_waiting,
     rs_events = map (\<lambda>e. e\<lparr>ev_event_id := Uuid 400\<rparr>) (concat (script_log demo_resolution_script demo_waiting)),
     rs_answer = the (dict_get (st_answers (script_state demo_resolution_script demo_waiting)) (Uuid 20)), rs_automatic = False, rs_create_rule = None, rs_deciding_rule = None,
     rs_event_sequence = 6, rs_mark_evaluated = False, rs_suppress_command = False, rs_worker_id = None,
     rs_fence = None\<rparr>"

definition demo_answering :: "(datetime \<times> store_op) list" where
  "demo_answering = [(100, SaveSnapshot demo_start),
     (104, CommitRequest (Uuid 1) (conv_version (st_conversation demo_start)) demo_waiting demo_asked_events
        (ans_interaction_id demo_answer) [] 5 None None),
     (105, CommitResolution (\<lambda>_ _. Inr False) (\<lambda>k. Uuid (500 + of_nat k)) demo_resolution)]"

text \<open>Later another command is accepted.\<close>

definition demo_after_answer :: "(datetime \<times> store_op) list" where
  "demo_after_answer = [(106, AcceptCommand demo_other_command)]"

definition demo_answered_store :: store where
  "demo_answered_store = the (run_store demo_answering empty_store)"

lemma demo_answering_run: "run store_step empty_store demo_answering demo_answered_store"
  unfolding demo_answered_store_def by (rule run_store_states) code_simp

definition demo_later_store :: store where
  "demo_later_store = the (run_store demo_after_answer demo_answered_store)"

lemma demo_later_run: "run store_step demo_answered_store demo_after_answer demo_later_store"
  unfolding demo_later_store_def by (rule run_store_states) code_simp


section \<open>A worker\<close>

text \<open>A running turn and an interrupt the second worker claimed; it also holds a batch of events not committed yet.\<close>

definition demo_interrupt :: command where
  "demo_interrupt = accepted_command (Uuid 32) (Uuid 1) InterruptPayload ''k3'' None 103"

definition demo_worker_ops :: "(datetime \<times> store_op) list" where
  "demo_worker_ops = [(100, SaveSnapshot demo_start),
     (102, CommitBatch (Uuid 1) (conv_version (st_conversation demo_start)) demo_submitted demo_events
        (dict_values (st_commands demo_submitted)) None None None None),
     (103, AcceptCommand demo_interrupt), (104, ClaimCommands ''second'' 8 300)]"

definition demo_worker_store :: store where
  "demo_worker_store = the (run_store demo_worker_ops empty_store)"

definition demo_turn_command :: command where
  "demo_turn_command = the (dict_get (st_commands demo_submitted) (Uuid 11))"

definition demo_batcher :: batcher where
  "demo_batcher = (new_batcher 0)\<lparr>bt_base_version := Some 3, bt_state := Some demo_submitted, bt_events := demo_events\<rparr>"

definition demo_processors :: processors where
  "demo_processors = managers.extend (demo_managers\<lparr>w_store := demo_worker_store\<rparr>) \<lparr>cp_worker_id = Some ''second'',
     cp_running = True, cp_draining = False, cp_claims_enabled = True, cp_fences = [(Uuid 1, 1)],
     cp_lost_fences = {}, cp_tasks = [], cp_pumps = [(Uuid 1, Some 0)], cp_batcher_objects = [(0, demo_batcher)],
     cp_batchers = [(Uuid 1, 0)]\<rparr>"

lemmas demo_worker = demo_processors_def demo_managers_def managers.defs

definition demo_stored :: conversation_state where
  "demo_stored = (case get_worker_snapshot demo_worker_store (Uuid 1) of Inr st \<Rightarrow> st | Inl _ \<Rightarrow> demo_start)"

text \<open>What is read of it, evaluated once.\<close>

lemma demo_stored_facts: "case get_worker_snapshot demo_worker_store (Uuid 1) of Inl _ \<Rightarrow> False | Inr st \<Rightarrow>
    list_all (\<lambda>(i, c). cmd_id c = i) (st_commands st)
  \<and> (case dict_get (st_commands st) (cmd_id demo_turn_command) of None \<Rightarrow> False | Some d \<Rightarrow> cmd_delivery_started_at d \<noteq> None)
  \<and> Uuid 11 \<in> set (map turn_id (doomed_turns st demo_interrupt))"
  by code_simp

lemma demo_snapshot: "get_worker_snapshot (en_others demo_environment (w_tick demo_processors) (w_store demo_processors)) (Uuid 1)
    = Inr demo_stored"
  using demo_stored_facts by (simp add: demo_environment_def demo_worker demo_stored_def split: sum.splits)

lemma demo_conversation: "cmd_conversation_id demo_turn_command = Uuid 1" "cmd_conversation_id demo_interrupt = Uuid 1"
  by code_simp+

lemma demo_no_trace: "w_trace demo_processors = []"
  by (simp add: demo_worker)



theorem undeliverable_command_settled_witness:
  "\<exists>v st' es rows worker fence.
    Wrote (CommitTurnBatch (Uuid 1) v st' es rows worker fence)
      \<in> set (w_trace (snd (fail_undeliverable_command demo_interrupt SANDBOX_UNAVAILABLE [] demo_environment demo_processors)))
    \<and> TurnEvent (TurnFailed (Uuid 11) (error_code_value SANDBOX_UNAVAILABLE) (public_message SANDBOX_UNAVAILABLE (Some [])))
      \<in> ev_payload ` set es"
proof -
  have snapshot: "get_worker_snapshot (en_others demo_environment (w_tick demo_processors) (w_store demo_processors))
      (cmd_conversation_id demo_interrupt) = Inr demo_stored"
    using demo_snapshot by (simp add: demo_conversation)
  have keyed: "commands.keyed (st_commands demo_stored)"
    using demo_stored_facts
    by (auto simp: commands.keyed_def list_all_iff demo_stored_def split: sum.splits dest!: map_of_SomeD)
  have "\<not> isl (fst (fail_undeliverable_command demo_interrupt SANDBOX_UNAVAILABLE [] demo_environment demo_processors))"
    by code_simp
  then have returned: "fst (fail_undeliverable_command demo_interrupt SANDBOX_UNAVAILABLE [] demo_environment demo_processors) = Inr ()"
    by (cases "fst (fail_undeliverable_command demo_interrupt SANDBOX_UNAVAILABLE [] demo_environment demo_processors)") simp_all
  obtain t where t: "t \<in> set (doomed_turns demo_stored demo_interrupt)" "turn_id t = Uuid 11"
    using demo_stored_facts by (auto simp: demo_stored_def split: sum.splits)
  from undeliverable_command_settled [OF snapshot keyed returned] t show ?thesis
    unfolding demo_conversation demo_no_trace by (metis append_Nil list.set_intros(1))
qed

end
