(* ===== verification/Read_Models.thy ===== *)
theory Read_Models
  imports Conversation_State Utf8 "HOL-Library.Product_Lexorder"
begin

text \<open>
  The read models of a conversation (\<open>src/talktoharnesses/django/materialize.py\<close>): the rows of turns,
  messages, reasoning, plans, tools, usage, activities, interactions and bindings that each commit brings
  up to date from its events, the full synchronisation a commit without events does, and the derived
  title. The search document, built from these rows, is left out. The identifier \<open>uuid4()\<close> draws for
  the message of a prompt is named after its turn, the only thing it is ever looked up by.
\<close>

section \<open>Rows\<close>

datatype (plugins only: code size) message_key = MessageId uuid | PromptOf uuid

record turn_view =
  tv_conversation_id :: uuid
  tv_status :: turn_status
  tv_user_message_id :: "message_key option"
  tv_command_id :: "uuid option"
  tv_terminal_reason :: "string option"
  tv_created_at :: datetime
  tv_started_at :: "datetime option"
  tv_completed_at :: "datetime option"
  tv_order_index :: int

record message_view =
  mv_conversation_id :: uuid
  mv_turn_id :: uuid
  mv_role :: message_role
  mv_text :: string
  mv_sequence :: int
  mv_interrupted :: bool
  mv_completed :: bool
  mv_created_at :: datetime
  mv_order_index :: int

record reasoning_view =
  rv_conversation_id :: uuid
  rv_turn_id :: uuid
  rv_text :: string
  rv_completed :: bool

record plan_view =
  pv_conversation_id :: uuid
  pv_turn_id :: uuid
  pv_items :: "plan_item list"
  pv_order_index :: int

record tool_view =
  ov_conversation_id :: uuid
  ov_turn_id :: uuid
  ov_tool_name :: string
  ov_arguments :: "(string, json) dict"
  ov_outcome :: tool_outcome
  ov_exit_status :: "int option"
  ov_output_tail :: string
  ov_full_output :: "string option"
  ov_order_index :: int

record usage_view =
  uv_conversation_id :: uuid
  uv_input_tokens :: "int option"
  uv_output_tokens :: "int option"
  uv_total_tokens :: "int option"
  uv_cached_input_tokens :: "int option"
  uv_cost :: "string option"
  uv_currency :: "string option"

record activity_view =
  av_conversation_id :: uuid
  av_parent_turn_id :: uuid
  av_parent_activity_id :: "uuid option"
  av_status :: activity_status
  av_title :: "string option"
  av_summary :: "string option"
  av_created_at :: datetime
  av_completed_at :: "datetime option"

text \<open>An interaction row also holds what only the broker writes: correlation, request number, policy mark.\<close>

record interaction_view =
  iv_conversation_id :: uuid
  iv_turn_id :: uuid
  iv_kind :: interaction_kind
  iv_status :: interaction_status
  iv_request :: interaction_request_payload
  iv_draft :: "(string, json) dict option"
  iv_created_at :: datetime
  iv_provider_correlation :: "(string, string) dict option"
  iv_request_event_sequence :: "int option"
  iv_policy_evaluated_at :: "datetime option"

record read_models =
  rm_turns :: "(uuid, turn_view) dict"
  rm_messages :: "(message_key, message_view) dict"
  rm_reasoning :: "(uuid, reasoning_view) dict"
  rm_plans :: "(uuid, plan_view) dict"
  rm_tools :: "(uuid, tool_view) dict"
  rm_usage :: "(uuid, usage_view) dict"
  rm_activities :: "(uuid, activity_view) dict"
  rm_interactions :: "(uuid, interaction_view) dict"
  rm_bindings :: "(uuid, binding) dict"

definition no_read_models :: read_models where
  "no_read_models = \<lparr>rm_turns = [], rm_messages = [], rm_reasoning = [], rm_plans = [], rm_tools = [],
     rm_usage = [], rm_activities = [], rm_interactions = [], rm_bindings = []\<rparr>"

text \<open>\<open>filter(pk=k).update(\<dots>)\<close>: nothing happens when the row is missing.\<close>

definition update_row :: "('k, 'v) dict \<Rightarrow> 'k \<Rightarrow> ('v \<Rightarrow> 'v) \<Rightarrow> ('k, 'v) dict" where
  "update_row d k f = (case dict_get d k of None \<Rightarrow> d | Some v \<Rightarrow> dict_put d k (f v))"

lemma get_update_row [dict_simps]:
  "dict_get (update_row d k f) j = (if j = k then map_option f (dict_get d k) else dict_get d j)"
  by (simp add: update_row_def dict_simps split: option.split)

section \<open>Turns and messages\<close>

definition next_order_index :: "uuid \<Rightarrow> read_models \<Rightarrow> int" where
  "next_order_index cid rm = foldr max (map tv_order_index
     (filter (\<lambda>t. tv_conversation_id t = cid) (dict_values (rm_turns rm)))) 0 + 1"

definition upsert_turn :: "uuid \<Rightarrow> turn \<Rightarrow> read_models \<Rightarrow> read_models" where
  "upsert_turn cid t rm =
     (let existing = dict_get (rm_turns rm) (turn_id t);
          own = map_option MessageId (turn_user_message_id t)
      in rm\<lparr>rm_turns := dict_put (rm_turns rm) (turn_id t)
        \<lparr>tv_conversation_id = cid, tv_status = turn_status t,
         tv_user_message_id = (case existing of None \<Rightarrow> own
           | Some e \<Rightarrow> (case own of None \<Rightarrow> tv_user_message_id e | Some m \<Rightarrow> Some m)),
         tv_command_id = turn_command_id t, tv_terminal_reason = turn_terminal_reason t,
         tv_created_at = turn_created_at t, tv_started_at = turn_started_at t,
         tv_completed_at = turn_completed_at t,
         tv_order_index = (case existing of None \<Rightarrow> next_order_index cid rm | Some e \<Rightarrow> tv_order_index e)\<rparr>\<rparr>)"

definition ensure_turn :: "uuid \<Rightarrow> uuid \<Rightarrow> datetime \<Rightarrow> read_models \<Rightarrow> read_models" where
  "ensure_turn cid tid ts rm =
     (if dict_get (rm_turns rm) tid \<noteq> None then rm
      else rm\<lparr>rm_turns := dict_put (rm_turns rm) tid
        \<lparr>tv_conversation_id = cid, tv_status = TURN_RUNNING, tv_user_message_id = None,
         tv_command_id = None, tv_terminal_reason = None, tv_created_at = ts, tv_started_at = None,
         tv_completed_at = None, tv_order_index = next_order_index cid rm\<rparr>\<rparr>)"

definition message_order_index :: "message_key \<Rightarrow> int \<Rightarrow> read_models \<Rightarrow> int" where
  "message_order_index m event_sequence rm = (case dict_get (rm_messages rm) m of
     None \<Rightarrow> event_sequence
   | Some e \<Rightarrow> if mv_order_index e = 0 then event_sequence else mv_order_index e)"

definition update_turn :: "uuid \<Rightarrow> (turn_view \<Rightarrow> turn_view) \<Rightarrow> read_models \<Rightarrow> read_models" where
  "update_turn tid f rm = rm\<lparr>rm_turns := update_row (rm_turns rm) tid f\<rparr>"

definition put_message :: "message_key \<Rightarrow> message_view \<Rightarrow> read_models \<Rightarrow> read_models" where
  "put_message m row rm = rm\<lparr>rm_messages := dict_put (rm_messages rm) m row\<rparr>"

text \<open>The user message of a queued turn: one per turn, rewritten when the prompt grows or is edited.\<close>

definition queue_view :: "uuid \<Rightarrow> datetime \<Rightarrow> int \<Rightarrow> uuid \<Rightarrow> uuid \<Rightarrow> string \<Rightarrow> read_models \<Rightarrow> read_models" where
  "queue_view cid ts event_sequence tid command_id prompt rm =
     (let rm1 = upsert_turn cid \<lparr>turn_id = tid, turn_conversation_id = cid, turn_status = TURN_QUEUED,
            turn_user_message_id = None, turn_command_id = Some command_id, turn_terminal_reason = None,
            turn_created_at = ts, turn_started_at = None, turn_completed_at = None\<rparr> rm
      in if prompt = [] then rm1
         else
           let existing = (case dict_get (rm_turns rm1) tid of None \<Rightarrow> None | Some t \<Rightarrow> tv_user_message_id t);
               m = (case existing of None \<Rightarrow> PromptOf tid | Some m \<Rightarrow> m);
               old = dict_get (rm_messages rm1) m
           in update_turn tid (\<lambda>t. t\<lparr>tv_user_message_id := Some m\<rparr>) (put_message m
                \<lparr>mv_conversation_id = cid, mv_turn_id = tid, mv_role = ROLE_USER, mv_text = prompt,
                 mv_sequence = 0,
                 mv_interrupted = (case old of None \<Rightarrow> False | Some r \<Rightarrow> mv_interrupted r),
                 mv_completed = (case old of None \<Rightarrow> False | Some r \<Rightarrow> mv_completed r),
                 mv_created_at = ts, mv_order_index = message_order_index m event_sequence rm1\<rparr> rm1))"

fun apply_turn_event :: "uuid \<Rightarrow> datetime \<Rightarrow> int \<Rightarrow> turn_payload \<Rightarrow> read_models \<Rightarrow> read_models" where
  "apply_turn_event cid ts sequence (TurnQueued tid command_id prompt _) rm =
     queue_view cid ts sequence tid command_id prompt rm"
| "apply_turn_event cid ts sequence (TurnStarted tid command_id) rm =
     update_turn tid (\<lambda>t. t\<lparr>tv_status := TURN_RUNNING, tv_started_at := Some ts, tv_command_id := command_id\<rparr>)
       (ensure_turn cid tid ts rm)"
| "apply_turn_event cid ts sequence (TurnCompleted tid reason _) rm =
     update_turn tid (\<lambda>t. t\<lparr>tv_status := TURN_COMPLETED, tv_completed_at := Some ts, tv_terminal_reason := reason\<rparr>) rm"
| "apply_turn_event cid ts sequence (TurnInterrupted tid reason) rm =
     update_turn tid (\<lambda>t. t\<lparr>tv_status := TURN_INTERRUPTED, tv_completed_at := Some ts, tv_terminal_reason := reason\<rparr>) rm"
| "apply_turn_event cid ts sequence (TurnFailed tid _ message) rm =
     update_turn tid (\<lambda>t. t\<lparr>tv_status := TURN_FAILED, tv_completed_at := Some ts, tv_terminal_reason := Some message\<rparr>) rm"
| "apply_turn_event cid ts sequence (TurnOutcomeUnknown tid _ _ message) rm =
     update_turn tid (\<lambda>t. t\<lparr>tv_status := TURN_OUTCOME_UNKNOWN, tv_completed_at := Some ts, tv_terminal_reason := message\<rparr>) rm"
| "apply_turn_event cid ts sequence (TurnCancelled tid) rm =
     update_turn tid (\<lambda>t. t\<lparr>tv_status := TURN_INTERRUPTED, tv_completed_at := Some ts,
       tv_terminal_reason := Some ''cancelled''\<rparr>) rm"
| "apply_turn_event cid ts sequence (TurnSteering _ _ _) rm = rm"
| "apply_turn_event cid ts sequence (TurnWaiting _ _) rm = rm"

section \<open>Messages, reasoning and plans\<close>

definition put_plan :: "uuid \<Rightarrow> datetime \<Rightarrow> int \<Rightarrow> uuid \<Rightarrow> uuid \<Rightarrow> plan_item list \<Rightarrow> read_models \<Rightarrow> read_models" where
  "put_plan cid ts sequence tid plan items rm =
     (let rm1 = ensure_turn cid tid ts rm
      in rm1\<lparr>rm_plans := dict_put (rm_plans rm1) plan
        \<lparr>pv_conversation_id = cid, pv_turn_id = tid, pv_items = items,
         pv_order_index = (case dict_get (rm_plans rm1) plan of None \<Rightarrow> sequence | Some p \<Rightarrow> pv_order_index p)\<rparr>\<rparr>)"

fun apply_message_event :: "uuid \<Rightarrow> datetime \<Rightarrow> int \<Rightarrow> message_payload \<Rightarrow> read_models \<Rightarrow> read_models" where
  "apply_message_event cid ts sequence (AssistantMessageStarted tid m) rm =
     (let rm1 = ensure_turn cid tid ts rm; old = dict_get (rm_messages rm1) (MessageId m)
      in put_message (MessageId m)
        \<lparr>mv_conversation_id = cid, mv_turn_id = tid, mv_role = ROLE_ASSISTANT, mv_text = [], mv_sequence = 0,
         mv_interrupted = (case old of None \<Rightarrow> False | Some r \<Rightarrow> mv_interrupted r), mv_completed = False,
         mv_created_at = ts, mv_order_index = message_order_index (MessageId m) sequence rm1\<rparr> rm1)"
| "apply_message_event cid ts sequence (AssistantMessageDelta _ m n text) rm =
     rm\<lparr>rm_messages := update_row (rm_messages rm) (MessageId m)
       (\<lambda>r. r\<lparr>mv_text := mv_text r @ text, mv_sequence := n\<rparr>)\<rparr>"
| "apply_message_event cid ts sequence (AssistantMessageCompleted _ m text) rm =
     rm\<lparr>rm_messages := update_row (rm_messages rm) (MessageId m)
       (\<lambda>r. r\<lparr>mv_text := text, mv_completed := True\<rparr>)\<rparr>"
| "apply_message_event cid ts sequence (ReasoningStarted tid i) rm =
     (let rm1 = ensure_turn cid tid ts rm
      in rm1\<lparr>rm_reasoning := dict_put (rm_reasoning rm1) i
        \<lparr>rv_conversation_id = cid, rv_turn_id = tid, rv_text = [], rv_completed = False\<rparr>\<rparr>)"
| "apply_message_event cid ts sequence (ReasoningDelta _ i text) rm =
     rm\<lparr>rm_reasoning := update_row (rm_reasoning rm) i (\<lambda>r. r\<lparr>rv_text := rv_text r @ text\<rparr>)\<rparr>"
| "apply_message_event cid ts sequence (ReasoningCompleted _ i text) rm =
     rm\<lparr>rm_reasoning := update_row (rm_reasoning rm) i (\<lambda>r. r\<lparr>rv_text := text, rv_completed := True\<rparr>)\<rparr>"
| "apply_message_event cid ts sequence (PlanCreated tid plan items) rm = put_plan cid ts sequence tid plan items rm"
| "apply_message_event cid ts sequence (PlanUpdated tid plan items) rm = put_plan cid ts sequence tid plan items rm"

section \<open>Tools\<close>

text \<open>\<open>limit_tool_output_tail\<close> of a text of code points below 256, none of which is a surrogate.\<close>

definition tail_text :: "string \<Rightarrow> string" where
  "tail_text s = (case limit_tool_output_tail (map of_char s) of None \<Rightarrow> [] | Some t \<Rightarrow> map char_of t)"

definition update_tool :: "uuid \<Rightarrow> (tool_view \<Rightarrow> tool_view) \<Rightarrow> read_models \<Rightarrow> read_models" where
  "update_tool i f rm = rm\<lparr>rm_tools := update_row (rm_tools rm) i f\<rparr>"

definition request_tool ::
  "uuid \<Rightarrow> datetime \<Rightarrow> int \<Rightarrow> uuid \<Rightarrow> uuid \<Rightarrow> string \<Rightarrow> (string, json) dict \<Rightarrow> read_models \<Rightarrow> read_models" where
  "request_tool cid ts sequence tid i name arguments rm =
     (let rm1 = ensure_turn cid tid ts rm; old = dict_get (rm_tools rm1) i
      in rm1\<lparr>rm_tools := dict_put (rm_tools rm1) i
        \<lparr>ov_conversation_id = cid, ov_turn_id = tid, ov_tool_name = name, ov_arguments = arguments,
         ov_outcome = OUT_UNKNOWN,
         ov_exit_status = (case old of None \<Rightarrow> None | Some r \<Rightarrow> ov_exit_status r),
         ov_output_tail = (case old of None \<Rightarrow> [] | Some r \<Rightarrow> ov_output_tail r),
         ov_full_output = (case old of None \<Rightarrow> None | Some r \<Rightarrow> ov_full_output r),
         ov_order_index = (case old of None \<Rightarrow> sequence | Some r \<Rightarrow> ov_order_index r)\<rparr>\<rparr>)"

fun apply_tool_event :: "uuid \<Rightarrow> datetime \<Rightarrow> int \<Rightarrow> tool_payload \<Rightarrow> read_models \<Rightarrow> read_models" where
  "apply_tool_event cid ts sequence (ToolRequested tid i name arguments) rm =
     request_tool cid ts sequence tid i name arguments rm"
| "apply_tool_event cid ts sequence (ToolStarted _ i name) rm = update_tool i (\<lambda>r. r\<lparr>ov_tool_name := name\<rparr>) rm"
| "apply_tool_event cid ts sequence (ToolOutputDelta _ i _ text) rm = update_tool i (\<lambda>r.
     let full = (case ov_full_output r of None \<Rightarrow> [] | Some t \<Rightarrow> t) @ text
     in r\<lparr>ov_full_output := Some full, ov_output_tail := tail_text full\<rparr>) rm"
| "apply_tool_event cid ts sequence (ToolCompleted _ i name outcome exit_status tail) rm = update_tool i (\<lambda>r.
     r\<lparr>ov_tool_name := name, ov_outcome := outcome, ov_exit_status := exit_status, ov_output_tail := tail\<rparr>) rm"
| "apply_tool_event cid ts sequence (ToolFailed _ i name message) rm = update_tool i (\<lambda>r.
     r\<lparr>ov_tool_name := name, ov_outcome := OUT_FAILURE, ov_output_tail := message\<rparr>) rm"
| "apply_tool_event cid ts sequence _ rm = rm"

section \<open>Interactions, activities, usage\<close>

definition put_interaction ::
  "uuid \<Rightarrow> uuid \<Rightarrow> uuid \<Rightarrow> interaction_kind \<Rightarrow> interaction_status \<Rightarrow> interaction_request_payload
     \<Rightarrow> (string, json) dict option \<Rightarrow> datetime \<Rightarrow> read_models \<Rightarrow> read_models" where
  "put_interaction cid i tid kind status request draft created_at rm =
     (let old = dict_get (rm_interactions rm) i
      in rm\<lparr>rm_interactions := dict_put (rm_interactions rm) i
        \<lparr>iv_conversation_id = cid, iv_turn_id = tid, iv_kind = kind, iv_status = status,
         iv_request = request, iv_draft = draft, iv_created_at = created_at,
         iv_provider_correlation = (case old of None \<Rightarrow> None | Some r \<Rightarrow> iv_provider_correlation r),
         iv_request_event_sequence = (case old of None \<Rightarrow> None | Some r \<Rightarrow> iv_request_event_sequence r),
         iv_policy_evaluated_at = (case old of None \<Rightarrow> None | Some r \<Rightarrow> iv_policy_evaluated_at r)\<rparr>\<rparr>)"

definition put_activity :: "uuid \<Rightarrow> uuid \<Rightarrow> activity_view \<Rightarrow> read_models \<Rightarrow> read_models" where
  "put_activity cid i row rm = rm\<lparr>rm_activities := dict_put (rm_activities rm) i row\<rparr>"

definition resolved_status :: "approval_decision option \<Rightarrow> interaction_status" where
  "resolved_status decision = (if decision = Some CANCEL then INT_CANCELLED else INT_RESOLVED)"

definition empty_usage :: "uuid \<Rightarrow> usage_view" where
  "empty_usage cid = \<lparr>uv_conversation_id = cid, uv_input_tokens = None, uv_output_tokens = None,
     uv_total_tokens = None, uv_cached_input_tokens = None, uv_cost = None, uv_currency = None\<rparr>"

definition put_usage :: "uuid \<Rightarrow> uuid \<Rightarrow> (usage_view \<Rightarrow> usage_view) \<Rightarrow> read_models \<Rightarrow> read_models" where
  "put_usage cid tid f rm = rm\<lparr>rm_usage := dict_put (rm_usage rm) tid
     ((f (case dict_get (rm_usage rm) tid of None \<Rightarrow> empty_usage cid | Some r \<Rightarrow> r))\<lparr>uv_conversation_id := cid\<rparr>)\<rparr>"

fun apply_notice_event :: "uuid \<Rightarrow> datetime \<Rightarrow> notice_payload \<Rightarrow> read_models \<Rightarrow> read_models" where
  "apply_notice_event cid ts (InteractionRequested tid i kind request) rm =
     put_interaction cid i tid kind INT_PENDING request None ts rm"
| "apply_notice_event cid ts (InteractionDraftUpdated i draft) rm =
     rm\<lparr>rm_interactions := update_row (rm_interactions rm) i (\<lambda>r. r\<lparr>iv_status := INT_DRAFT, iv_draft := Some draft\<rparr>)\<rparr>"
| "apply_notice_event cid ts (InteractionResolved i _ decision _ _) rm =
     rm\<lparr>rm_interactions := update_row (rm_interactions rm) i (\<lambda>r. r\<lparr>iv_status := resolved_status decision\<rparr>)\<rparr>"
| "apply_notice_event cid ts (ActivityStarted i parent parent_activity title) rm =
     put_activity cid i \<lparr>av_conversation_id = cid, av_parent_turn_id = parent,
       av_parent_activity_id = parent_activity, av_status = ACT_RUNNING, av_title = title,
       av_summary = None, av_created_at = ts, av_completed_at = None\<rparr> rm"
| "apply_notice_event cid ts (ActivityCompleted i _ status summary) rm =
     rm\<lparr>rm_activities := update_row (rm_activities rm) i (\<lambda>r.
       r\<lparr>av_status := status, av_summary := summary, av_completed_at := Some ts\<rparr>)\<rparr>"
| "apply_notice_event cid ts (UsageUpdated t inp out tot cached) rm = (case t of None \<Rightarrow> rm
   | Some tid \<Rightarrow> put_usage cid tid (\<lambda>r. r\<lparr>uv_input_tokens := inp, uv_output_tokens := out,
       uv_total_tokens := tot, uv_cached_input_tokens := cached\<rparr>) (ensure_turn cid tid ts rm))"
| "apply_notice_event cid ts (CostUpdated t cost currency) rm = (case t of None \<Rightarrow> rm
   | Some tid \<Rightarrow> put_usage cid tid (\<lambda>r. r\<lparr>uv_cost := Some cost, uv_currency := currency\<rparr>) rm)"
| "apply_notice_event cid ts _ rm = rm"

definition apply_event :: "uuid \<Rightarrow> conversation_event \<Rightarrow> read_models \<Rightarrow> read_models" where
  "apply_event cid e rm = (case ev_payload e of
     SessionEvent _ \<Rightarrow> rm
   | TurnEvent p \<Rightarrow> apply_turn_event cid (ev_timestamp e) (ev_sequence e) p rm
   | MessageEvent p \<Rightarrow> apply_message_event cid (ev_timestamp e) (ev_sequence e) p rm
   | ToolEvent p \<Rightarrow> apply_tool_event cid (ev_timestamp e) (ev_sequence e) p rm
   | NoticeEvent p \<Rightarrow> apply_notice_event cid (ev_timestamp e) p rm)"

section \<open>Full synchronisation, bindings, title\<close>

definition sync_interaction :: "uuid \<Rightarrow> pending_interaction \<Rightarrow> read_models \<Rightarrow> read_models" where
  "sync_interaction cid x = put_interaction cid (inter_id x) (inter_turn_id x) (inter_kind x) (inter_status x)
     (inter_request x) (inter_draft x) (inter_created_at x)"

definition sync_activity :: "uuid \<Rightarrow> background_activity \<Rightarrow> read_models \<Rightarrow> read_models" where
  "sync_activity cid a = put_activity cid (act_id a)
     \<lparr>av_conversation_id = cid, av_parent_turn_id = act_parent_turn_id a,
      av_parent_activity_id = act_parent_activity_id a, av_status = act_status a, av_title = act_title a,
      av_summary = act_summary a, av_created_at = act_created_at a, av_completed_at = act_completed_at a\<rparr>"

definition sync_interactions_and_activities :: "conversation_state \<Rightarrow> read_models \<Rightarrow> read_models" where
  "sync_interactions_and_activities st rm = (let cid = conv_id (st_conversation st)
     in fold (sync_activity cid) (dict_values (st_activities st))
          (fold (sync_interaction cid) (dict_values (st_interactions st)) rm))"

definition sync_active_binding :: "conversation_state \<Rightarrow> read_models \<Rightarrow> read_models" where
  "sync_active_binding st rm =
     (case st_binding st of
        None \<Rightarrow> rm
      | Some b \<Rightarrow>
          let cid = conv_id (st_conversation st);
              closed = map (\<lambda>(i, r). (i, if bind_conversation_id r = cid \<and> bind_is_active r \<and> i \<noteq> bind_id b
                then r\<lparr>bind_is_active := False, bind_closed_at := Some (conv_updated_at (st_conversation st))\<rparr> else r))
                (rm_bindings rm)
          in rm\<lparr>rm_bindings := dict_put closed (bind_id b) (b\<lparr>bind_conversation_id := cid\<rparr>)\<rparr>)"

definition derive_title_from_user_message :: "string \<Rightarrow> string option" where
  "derive_title_from_user_message text =
     (let words = py_split text in if words = [] then None else Some (py_join '' '' (take 8 words)))"

text \<open>The earliest user message by the order of its turn and its own; no two of them tie.\<close>

definition message_rank :: "read_models \<Rightarrow> message_view \<Rightarrow> int \<times> int" where
  "message_rank rm m = ((case dict_get (rm_turns rm) (mv_turn_id m) of None \<Rightarrow> 0 | Some t \<Rightarrow> tv_order_index t),
     mv_order_index m)"

definition earliest_user_message :: "uuid \<Rightarrow> read_models \<Rightarrow> message_view option" where
  "earliest_user_message cid rm =
     (case sort_key (message_rank rm) (filter (\<lambda>m. mv_conversation_id m = cid \<and> mv_role m = ROLE_USER)
         (dict_values (rm_messages rm))) of [] \<Rightarrow> None | m # _ \<Rightarrow> Some m)"

definition recompute_derived_title :: "read_models \<Rightarrow> conversation_state \<Rightarrow> conversation_state" where
  "recompute_derived_title rm st = st\<lparr>st_conversation := (st_conversation st)\<lparr>conv_title_derived :=
     (case earliest_user_message (conv_id (st_conversation st)) rm of
        None \<Rightarrow> None | Some m \<Rightarrow> derive_title_from_user_message (mv_text m))\<rparr>\<rparr>"

definition search_neutral :: "event_payload \<Rightarrow> bool" where
  "search_neutral p \<longleftrightarrow> payload_type p \<in> {''assistant_message_started'', ''assistant_message_delta'',
     ''reasoning_started'', ''reasoning_delta'', ''reasoning_completed'', ''plan_created'', ''plan_updated'',
     ''tool_started'', ''tool_output_delta'', ''activity_started'', ''activity_completed'', ''usage_updated'',
     ''cost_updated'', ''interaction_requested'', ''interaction_draft_updated'', ''interaction_resolved'',
     ''turn_started''}"

definition touches_search_text :: "conversation_event list \<Rightarrow> bool" where
  "touches_search_text events \<longleftrightarrow> events = [] \<or> list_ex (\<lambda>e. \<not> search_neutral (ev_payload e)) events"

text \<open>The rows after a commit, and the state whose derived title follows them.\<close>

definition materialize_rows :: "conversation_state \<Rightarrow> conversation_event list \<Rightarrow> read_models \<Rightarrow> read_models" where
  "materialize_rows st events rm =
     (let cid = conv_id (st_conversation st);
          with_turn = (\<lambda>t rm. case t of None \<Rightarrow> rm | Some t \<Rightarrow> upsert_turn cid t rm);
          rm1 = with_turn (st_queued_turn st) (with_turn (st_active_turn st) rm);
          rm2 = (if events = [] then sync_interactions_and_activities st rm1 else fold (apply_event cid) events rm1)
      in sync_active_binding st rm2)"

definition materialize_projections ::
  "conversation_state \<Rightarrow> conversation_event list \<Rightarrow> read_models \<Rightarrow> conversation_state \<times> read_models" where
  "materialize_projections st events rm =
     (let rm' = materialize_rows st events rm
      in (if touches_search_text events then recompute_derived_title rm' st else st, rm'))"

end
