(* ===== verification/Transcripts.thy ===== *)
theory Transcripts
  imports Redaction Read_Models "HOL-Library.Multiset" "HOL-Library.List_Lexorder" "HOL-Library.Char_ord"
begin

text \<open>
  Retained history that leaves the process (\<open>src/talktoharnesses/application/handoff.py\<close>,
  \<open>application/transcripts.py\<close>, \<open>domain/transcripts.py\<close> and the rows \<open>django/persistence.py\<close> keeps of it):
  the handoff another harness is primed with, and the transcript document an owner exports and imports.
  \<open>dumps\<close> is \<open>json.dumps\<close> of the arguments of a tool call.
\<close>

section \<open>Handoff entries\<close>

record handoff_message =
  hm_id :: uuid
  hm_turn_id :: uuid
  hm_role :: message_role
  hm_text :: string
  hm_interrupted :: bool
  hm_turn_order_index :: int
  hm_order_index :: int

record handoff_tool =
  ht_id :: uuid
  ht_turn_id :: uuid
  ht_tool_name :: string
  ht_arguments :: "(string \<times> json) list"
  ht_outcome :: tool_outcome
  ht_exit_status :: "int option"
  ht_paths :: "string list"
  ht_output_tail :: string
  ht_turn_order_index :: int
  ht_order_index :: int

datatype handoff_entry = MessageEntry handoff_message | ToolEntry handoff_tool

fun entry_turn :: "handoff_entry \<Rightarrow> uuid" where
  "entry_turn (MessageEntry m) = hm_turn_id m"
| "entry_turn (ToolEntry t) = ht_turn_id t"

fun entry_turn_order :: "handoff_entry \<Rightarrow> int" where
  "entry_turn_order (MessageEntry m) = hm_turn_order_index m"
| "entry_turn_order (ToolEntry t) = ht_turn_order_index t"

fun handoff_sort_key :: "handoff_entry \<Rightarrow> int \<times> int \<times> string" where
  "handoff_sort_key (MessageEntry m) = (hm_turn_order_index m, hm_order_index m, uuid_str (hm_id m))"
| "handoff_sort_key (ToolEntry t) = (ht_turn_order_index t, ht_order_index t, uuid_str (ht_id t))"

definition render_message :: "handoff_message \<Rightarrow> string" where
  "render_message m = ''['' @ message_role_value (hm_role m) @ '']''
     @ (if hm_interrupted m then '' (interrupted)'' else []) @ '': '' @ hm_text m"

definition render_tool :: "((string \<times> json) list \<Rightarrow> string) \<Rightarrow> handoff_tool \<Rightarrow> string" where
  "render_tool dumps t = py_join '' ''
     ([''[tool:'' @ ht_tool_name t @ '']'', ''outcome='' @ tool_outcome_value (ht_outcome t)]
      @ (case ht_exit_status t of None \<Rightarrow> [] | Some n \<Rightarrow> [''exit_status='' @ int_str n])
      @ (if ht_arguments t = [] then [] else [''arguments='' @ dumps (ht_arguments t)])
      @ (if ht_paths t = [] then [] else [''paths='' @ py_join '','' (ht_paths t)])
      @ (if ht_output_tail t = [] then [] else [''output='' @ ht_output_tail t]))"

definition render_handoff :: "((string \<times> json) list \<Rightarrow> string) \<Rightarrow> handoff_entry list \<Rightarrow> string" where
  "render_handoff dumps entries = py_join [CHR 0x0A]
     (map (\<lambda>e. case e of MessageEntry m \<Rightarrow> render_message m | ToolEntry t \<Rightarrow> render_tool dumps t)
       (sort_key handoff_sort_key entries))"

section \<open>Transcript documents\<close>

datatype transcript_role = AsUser | AsAssistant

record transcript_tool =
  tt_tool_name :: string
  tt_arguments :: "(string \<times> json) list"
  tt_outcome :: tool_outcome
  tt_exit_status :: "int option"
  tt_paths :: "string list"
  tt_output_tail :: string

datatype transcript_entry = TranscriptMessage transcript_role string bool | TranscriptTool transcript_tool

type_synonym transcript_turn = "transcript_entry list"

record transcript =
  td_title :: string
  td_turns :: "transcript_turn list"

definition MAX_TITLE_CHARS :: nat where "MAX_TITLE_CHARS = 512"
definition MAX_TOOL_NAME_CHARS :: nat where "MAX_TOOL_NAME_CHARS = 255"
definition MAX_ENTRIES :: nat where "MAX_ENTRIES = 5000"

text \<open>\<open>json.dumps(value, allow_nan=False)\<close> succeeds: no number is infinite or not a number.\<close>

fun json_finite :: "json \<Rightarrow> bool" where
  "json_finite (JFloat s) = (s \<noteq> ''nan'' \<and> s \<noteq> ''inf'' \<and> s \<noteq> ''-inf'')"
| "json_finite (JArr xs) = list_all json_finite xs"
| "json_finite (JObj d) = list_all (\<lambda>(k, v). json_finite v) d"
| "json_finite _ = True"

definition make_tool :: "transcript_tool \<Rightarrow> transcript_entry result" where
  "make_tool t =
     (if length (tt_tool_name t) > MAX_TOOL_NAME_CHARS then Inl (ValueError ''String should have at most 255 characters'')
      else if \<not> json_finite (JObj (tt_arguments t)) then Inl (ValueError ''tool arguments must be JSON-serializable'')
      else if tail_text (tt_output_tail t) \<noteq> tt_output_tail t then Inl (ValueError ''tool output_tail exceeds 2 KiB'')
      else Inr (TranscriptTool t))"

fun is_user_message :: "transcript_entry \<Rightarrow> bool" where
  "is_user_message (TranscriptMessage r _ _) = (r = AsUser)"
| "is_user_message (TranscriptTool _) = False"

fun make_turn :: "transcript_entry list \<Rightarrow> transcript_turn result" where
  "make_turn [] = Inl (ValueError ''turn must contain at least one entry'')"
| "make_turn (e # es) =
     (if \<not> is_user_message e then Inl (ValueError ''each turn must start with a user message'')
      else if list_ex is_user_message es then Inl (ValueError ''each turn must contain exactly one user message'')
      else Inr (e # es))"

definition make_document :: "string \<Rightarrow> transcript_turn list \<Rightarrow> transcript result" where
  "make_document title turns =
     (if length title > MAX_TITLE_CHARS then Inl (ValueError ''String should have at most 512 characters'')
      else if sum_list (map length turns) > MAX_ENTRIES then Inl (ValueError ''transcript exceeds 5000 entries'')
      else Inr \<lparr>td_title = title, td_turns = turns\<rparr>)"

text \<open>The documents validation accepts.\<close>

definition valid_transcript :: "transcript \<Rightarrow> bool" where
  "valid_transcript d \<longleftrightarrow>
     list_all (\<lambda>es. list_all (\<lambda>e. case e of TranscriptTool t \<Rightarrow> make_tool t = Inr e | TranscriptMessage _ _ _ \<Rightarrow> True) es
       \<and> make_turn es = Inr es) (td_turns d)
     \<and> make_document (td_title d) (td_turns d) = Inr d"

section \<open>Converters\<close>

fun transcript_entry_of :: "handoff_entry \<Rightarrow> transcript_entry list result" where
  "transcript_entry_of (MessageEntry m) =
     (if hm_role m = ROLE_SYSTEM then Inr []
      else Inr [TranscriptMessage (if hm_role m = ROLE_USER then AsUser else AsAssistant) (hm_text m) (hm_interrupted m)])"
| "transcript_entry_of (ToolEntry t) =
     bind_result (make_tool \<lparr>tt_tool_name = ht_tool_name t, tt_arguments = ht_arguments t, tt_outcome = ht_outcome t,
       tt_exit_status = ht_exit_status t, tt_paths = ht_paths t, tt_output_tail = ht_output_tail t\<rparr>) (\<lambda>e. Inr [e])"

definition flush_turn :: "transcript_entry list \<Rightarrow> transcript_turn list result" where
  "flush_turn es = (if es = [] then Inr [] else bind_result (make_turn es) (\<lambda>t. Inr [t]))"

fun collect_turns ::
  "uuid option \<Rightarrow> transcript_entry list \<Rightarrow> handoff_entry list \<Rightarrow> transcript_turn list result" where
  "collect_turns current es [] = flush_turn es"
| "collect_turns current es (e # rest) =
     (if current = None \<or> current = Some (entry_turn e)
      then bind_result (transcript_entry_of e) (\<lambda>new. collect_turns (Some (entry_turn e)) (es @ new) rest)
      else bind_result (flush_turn es) (\<lambda>done.
        bind_result (transcript_entry_of e) (\<lambda>new.
        bind_result (collect_turns (Some (entry_turn e)) new rest) (\<lambda>others. Inr (done @ others)))))"

definition handoff_to_transcript :: "handoff_entry list \<Rightarrow> string \<Rightarrow> transcript result" where
  "handoff_to_transcript entries title =
     bind_result (collect_turns None [] (sort_key handoff_sort_key entries)) (make_document title)"

fun handoff_entry_of :: "uuid \<Rightarrow> uuid \<Rightarrow> int \<Rightarrow> int \<Rightarrow> transcript_entry \<Rightarrow> handoff_entry" where
  "handoff_entry_of i turn turn_order order (TranscriptMessage r text interrupted) =
     MessageEntry \<lparr>hm_id = i, hm_turn_id = turn, hm_role = (if r = AsUser then ROLE_USER else ROLE_ASSISTANT),
       hm_text = text, hm_interrupted = interrupted, hm_turn_order_index = turn_order, hm_order_index = order\<rparr>"
| "handoff_entry_of i turn turn_order order (TranscriptTool t) =
     ToolEntry \<lparr>ht_id = i, ht_turn_id = turn, ht_tool_name = tt_tool_name t, ht_arguments = tt_arguments t,
       ht_outcome = tt_outcome t, ht_exit_status = tt_exit_status t, ht_paths = tt_paths t,
       ht_output_tail = tt_output_tail t, ht_turn_order_index = turn_order, ht_order_index = order\<rparr>"

fun flatten_turn :: "uuid_supply \<Rightarrow> uuid \<Rightarrow> int \<Rightarrow> int \<Rightarrow> transcript_turn \<Rightarrow> handoff_entry list" where
  "flatten_turn u turn turn_order order [] = []"
| "flatten_turn u turn turn_order order (e # es) =
     handoff_entry_of (u 0) turn turn_order order e # flatten_turn (drop_supply 1 u) turn turn_order (order + 1) es"

fun flatten_turns :: "uuid_supply \<Rightarrow> int \<Rightarrow> transcript_turn list \<Rightarrow> handoff_entry list" where
  "flatten_turns u turn_order [] = []"
| "flatten_turns u turn_order (es # rest) =
     flatten_turn (drop_supply 1 u) (u 0) turn_order 1 es
     @ flatten_turns (drop_supply (Suc (length es)) u) (turn_order + 1) rest"

definition transcript_to_handoff :: "uuid_supply \<Rightarrow> transcript \<Rightarrow> handoff_entry list" where
  "transcript_to_handoff u d = flatten_turns u 1 (td_turns d)"

section \<open>Redaction of an imported document\<close>

definition redact_text :: "string list \<Rightarrow> string \<Rightarrow> string" where
  "redact_text patterns text =
     (let (out, rd) = feed_text (new_redactor patterns) text in out @ fst (flush_text rd))"

text \<open>Two keys that redact to the same text leave one entry, with the value of the later.\<close>

fun redact_json :: "string list \<Rightarrow> json \<Rightarrow> json" where
  "redact_json ps (JStr s) = JStr (redact_text ps s)"
| "redact_json ps (JArr xs) = JArr (map (redact_json ps) xs)"
| "redact_json ps (JObj d) =
     JObj (fold (\<lambda>(k, v) acc. dict_put acc (redact_text ps k) v) (map (\<lambda>(k, v). (k, redact_json ps v)) d) [])"
| "redact_json ps v = v"

fun redact_arguments :: "string list \<Rightarrow> (string \<times> json) list \<Rightarrow> (string \<times> json) list" where
  "redact_arguments ps d = (case redact_json ps (JObj d) of JObj d' \<Rightarrow> d' | _ \<Rightarrow> d)"

fun redact_entry :: "string list \<Rightarrow> transcript_entry \<Rightarrow> transcript_entry" where
  "redact_entry ps (TranscriptMessage r text i) = TranscriptMessage r (redact_text ps text) i"
| "redact_entry ps (TranscriptTool t) = TranscriptTool (t\<lparr>tt_tool_name := redact_text ps (tt_tool_name t),
     tt_arguments := redact_arguments ps (tt_arguments t), tt_paths := map (redact_text ps) (tt_paths t),
     tt_output_tail := redact_text ps (tt_output_tail t)\<rparr>)"

definition redact_transcript :: "string list \<Rightarrow> transcript \<Rightarrow> transcript" where
  "redact_transcript ps d = (if ps = [] then d
     else d\<lparr>td_title := redact_text ps (td_title d), td_turns := map (map (redact_entry ps)) (td_turns d)\<rparr>)"

section \<open>The rows of the projection tables\<close>

record retained_rows =
  rr_turns :: "(uuid \<times> int) list"
  rr_messages :: "handoff_message list"
  rr_tools :: "handoff_tool list"

text \<open>
  \<open>_materialize_imported_handoff\<close>: a turn row has the order of the first entry of its turn; a message or
  tool row has the identity of its turn and its own order, not the turn's.
\<close>

fun entries_by_turn :: "handoff_entry list \<Rightarrow> (uuid, handoff_entry list) dict \<Rightarrow> (uuid, handoff_entry list) dict" where
  "entries_by_turn [] d = d"
| "entries_by_turn (e # es) d = entries_by_turn es (dict_put d (entry_turn e)
     ((case dict_get d (entry_turn e) of None \<Rightarrow> [] | Some xs \<Rightarrow> xs) @ [e]))"

fun messages_of :: "handoff_entry list \<Rightarrow> handoff_message list" where
  "messages_of [] = []"
| "messages_of (MessageEntry m # es) = m # messages_of es"
| "messages_of (ToolEntry t # es) = messages_of es"

fun tools_of :: "handoff_entry list \<Rightarrow> handoff_tool list" where
  "tools_of [] = []"
| "tools_of (MessageEntry m # es) = tools_of es"
| "tools_of (ToolEntry t # es) = t # tools_of es"

definition materialize_imported_handoff :: "handoff_entry list \<Rightarrow> retained_rows" where
  "materialize_imported_handoff entries =
     (let turns = entries_by_turn (sort_key handoff_sort_key entries) [] in
      \<lparr>rr_turns = map (\<lambda>(t, es). (t, case es of [] \<Rightarrow> 0 | e # _ \<Rightarrow> entry_turn_order e)) turns,
       rr_messages = concat (map (\<lambda>(t, es). messages_of es) turns),
       rr_tools = concat (map (\<lambda>(t, es). tools_of es) turns)\<rparr>)"

text \<open>\<open>_read_retained_handoff\<close>; the rows of a turn that is gone are gone with it.\<close>

definition turn_order_of :: "retained_rows \<Rightarrow> uuid \<Rightarrow> int" where
  "turn_order_of rows t = (case dict_get (rr_turns rows) t of None \<Rightarrow> 0 | Some n \<Rightarrow> n)"

definition read_retained_handoff :: "retained_rows \<Rightarrow> handoff_entry list" where
  "read_retained_handoff rows = sort_key handoff_sort_key
     (map (\<lambda>m. MessageEntry (m\<lparr>hm_turn_order_index := turn_order_of rows (hm_turn_id m)\<rparr>)) (rr_messages rows)
      @ map (\<lambda>t. ToolEntry (t\<lparr>ht_turn_order_index := turn_order_of rows (ht_turn_id t),
          ht_output_tail := tail_text (ht_output_tail t)\<rparr>)) (rr_tools rows))"

section \<open>Sorting by a key no two entries share\<close>

lemma sort_key_unique:
  assumes same: "mset ys = mset xs" and keys: "distinct (map f xs)"
  shows "sort_key f ys = sort_key f xs"
proof (rule sort_key_inj_key_eq)
  show "mset ys = mset (sort_key f xs)" using same by simp
  show "inj_on f (set ys)" using keys mset_eq_setD [OF same] by (simp add: distinct_map)
qed simp

section \<open>A document survives its import and export\<close>

lemma flatten_turn_entries:
  "e \<in> set (flatten_turn u t n k es) \<Longrightarrow>
     entry_turn e = t \<and> entry_turn_order e = n \<and> fst (handoff_sort_key e) = n \<and> k \<le> fst (snd (handoff_sort_key e))"
proof (induction u t n k es rule: flatten_turn.induct)
  case (2 u t n k x xs)
  then show ?case by (cases x) auto
qed simp

lemma flatten_turn_sorted: "sorted_wrt (<) (map handoff_sort_key (flatten_turn u t n k es))"
proof (induction u t n k es rule: flatten_turn.induct)
  case (2 u t n k x xs)
  have "handoff_sort_key (handoff_entry_of (u 0) t n k x) < handoff_sort_key e"
    if "e \<in> set (flatten_turn (drop_supply 1 u) t n (k + 1) xs)" for e
    using flatten_turn_entries [OF that] by (cases x) (auto simp: less_prod_def)
  with 2 show ?case by simp
qed simp

lemma flatten_turns_order: "e \<in> set (flatten_turns u n turns) \<Longrightarrow> n \<le> fst (handoff_sort_key e)"
  by (induction u n turns rule: flatten_turns.induct) (auto dest: flatten_turn_entries)

lemma flatten_turns_sorted: "sorted_wrt (<) (map handoff_sort_key (flatten_turns u n turns))"
proof (induction u n turns rule: flatten_turns.induct)
  case (2 u n es rest)
  have "handoff_sort_key e < handoff_sort_key e'"
    if "e \<in> set (flatten_turn (drop_supply 1 u) (u 0) n 1 es)"
      and "e' \<in> set (flatten_turns (drop_supply (Suc (length es)) u) (n + 1) rest)" for e e'
    using flatten_turn_entries [OF that(1)] flatten_turns_order [OF that(2)] by (auto simp: less_prod_def)
  with 2 show ?case by (auto simp: sorted_wrt_append flatten_turn_sorted)
qed simp

lemma handoff_sorted:
  "sort_key handoff_sort_key (transcript_to_handoff u d) = transcript_to_handoff u d"
  "distinct (map handoff_sort_key (transcript_to_handoff u d))"
  using flatten_turns_sorted [of u 1 "td_turns d"]
  by (auto simp: transcript_to_handoff_def strict_sorted_iff intro: sort_key_id_if_sorted)

abbreviation entry_ok :: "transcript_entry \<Rightarrow> bool" where
  "entry_ok e \<equiv> (case e of TranscriptTool t \<Rightarrow> make_tool t = Inr e | TranscriptMessage _ _ _ \<Rightarrow> True)"

lemma tool_eta:
  "\<lparr>tt_tool_name = tt_tool_name t, tt_arguments = tt_arguments t, tt_outcome = tt_outcome t,
     tt_exit_status = tt_exit_status t, tt_paths = tt_paths t, tt_output_tail = tt_output_tail t\<rparr> = t"
  by (cases t) simp

text \<open>A document takes an identifier per turn and per entry.\<close>

definition identifiers_used :: "transcript_turn list \<Rightarrow> nat" where
  "identifiers_used turns = sum_list (map (\<lambda>es. Suc (length es)) turns)"

lemma identifiers_used_simps [simp]:
  "identifiers_used [] = 0" "identifiers_used (es # rest) = Suc (length es) + identifiers_used rest"
  by (simp_all add: identifiers_used_def)

lemma supply_rest:
  assumes "inj_on u {..<Suc k + n}"
  shows "inj_on (drop_supply (Suc k) u) {..<n}" and "u 0 \<notin> drop_supply (Suc k) u ` {..<n}"
  using assms by (auto simp: drop_supply_def intro!: inj_onI dest: inj_onD)

lemma transcript_entry_of_handoff: "entry_ok e \<Longrightarrow> transcript_entry_of (handoff_entry_of i t n k e) = Inr [e]"
proof (cases e)
  case (TranscriptMessage r words i)
  then show ?thesis by (cases r) simp_all
qed (simp add: tool_eta)

lemma entry_turn_handoff [simp]: "entry_turn (handoff_entry_of i t n k e) = t"
  by (cases e) simp_all

lemma collect_turn:
  "list_all entry_ok es \<Longrightarrow>
     collect_turns (Some t) acc (flatten_turn u t n k es @ rest) = collect_turns (Some t) (acc @ es) rest"
  by (induction es arbitrary: u k acc) (auto simp: transcript_entry_of_handoff)

lemma make_turn_nonempty: "make_turn es = Inr es \<Longrightarrow> \<exists>e es'. es = e # es'"
  by (cases es) auto

lemma make_turn_cases:
  assumes "make_turn es = Inr es"
  obtains e es' where "es = e # es'"
  using make_turn_nonempty [OF assms] by blast

lemma flush_valid: "make_turn es = Inr es \<Longrightarrow> flush_turn es = Inr [es]"
  by (auto simp: flush_turn_def dest: make_turn_nonempty)

lemma collect_flattened:
  assumes "list_all (\<lambda>es. list_all entry_ok es \<and> make_turn es = Inr es) turns"
    and "inj_on u {..<identifiers_used turns}"
    and "make_turn acc = Inr acc" and "t \<notin> u ` {..<identifiers_used turns}"
  shows "collect_turns (Some t) acc (flatten_turns u n turns) = Inr (acc # turns)"
  using assms
proof (induction turns arbitrary: u n t acc)
  case (Cons es rest)
  then have "make_turn es = Inr es" by simp
  then obtain e es' where es: "es = e # es'" by (rule make_turn_cases)
  have "inj_on u {..<Suc (length es) + identifiers_used rest}" using Cons.prems by simp
  note rest = supply_rest [OF this]
  then have "collect_turns (Some (u 0)) es (flatten_turns (drop_supply (Suc (length es)) u) (n + 1) rest) = Inr (es # rest)"
    using Cons.prems by (intro Cons.IH) auto
  moreover have "t \<noteq> u 0" using Cons.prems by auto
  moreover have "entry_ok e" "list_all entry_ok es'" using Cons.prems es by auto
  ultimately show ?case
    using Cons.prems flush_valid [of acc]
    by (simp add: es transcript_entry_of_handoff collect_turn)
qed (simp add: flush_valid)

lemma collect_all:
  assumes "list_all (\<lambda>es. list_all entry_ok es \<and> make_turn es = Inr es) turns"
    and "inj_on u {..<identifiers_used turns}"
  shows "collect_turns None [] (flatten_turns u n turns) = Inr turns"
proof (cases turns)
  case (Cons es rest)
  with assms have "make_turn es = Inr es" by simp
  then obtain e es' where es: "es = e # es'" by (rule make_turn_cases)
  have "inj_on u {..<Suc (length es) + identifiers_used rest}" using assms Cons by simp
  note rest = supply_rest [OF this]
  then have "collect_turns (Some (u 0)) es (flatten_turns (drop_supply (Suc (length es)) u) (n + 1) rest) = Inr (es # rest)"
    using assms Cons by (intro collect_flattened) auto
  with assms Cons show ?thesis by (simp add: es transcript_entry_of_handoff collect_turn)
qed (simp add: flush_turn_def)

section \<open>The rows keep the entries\<close>

lemma mset_put:
  "distinct (dict_keys d) \<Longrightarrow> mset (concat (dict_values (dict_put d t (xs @ [e]))))
     + mset (case dict_get d t of None \<Rightarrow> [] | Some ys \<Rightarrow> ys)
     = mset (concat (dict_values d)) + mset (xs @ [e])"
  by (induction d) (auto simp: map_of_eq_None_iff split: option.split)

definition grouped :: "(uuid, handoff_entry list) dict \<Rightarrow> bool" where
  "grouped d \<longleftrightarrow> distinct (dict_keys d) \<and> (\<forall>(t, xs) \<in> set d. xs \<noteq> [] \<and> (\<forall>e \<in> set xs. entry_turn e = t))"

lemma grouped_put:
  assumes "grouped d" and "xs = (case dict_get d (entry_turn e) of None \<Rightarrow> [] | Some ys \<Rightarrow> ys)"
  shows "grouped (dict_put d (entry_turn e) (xs @ [e]))"
proof -
  have xs: "\<forall>y \<in> set xs. entry_turn y = entry_turn e"
    using assms map_of_SomeD [of d "entry_turn e"] by (fastforce simp: grouped_def split: option.splits)
  have "distinct (dict_keys (dict_put d (entry_turn e) (xs @ [e])))"
    using assms(1) by (simp add: grouped_def distinct_update)
  moreover have "ys \<noteq> [] \<and> (\<forall>y \<in> set ys. entry_turn y = t)"
    if "(t, ys) \<in> set (dict_put d (entry_turn e) (xs @ [e]))" for t ys
  proof -
    from that have "(t, ys) \<in> set d \<or> t = entry_turn e \<and> ys = xs @ [e]"
      by (induction d) (auto split: if_splits)
    with assms(1) xs show ?thesis by (auto simp: grouped_def)
  qed
  ultimately show ?thesis by (auto simp: grouped_def)
qed

lemma entries_by_turn_groups:
  "grouped d \<Longrightarrow> grouped (entries_by_turn es d)
     \<and> mset (concat (dict_values (entries_by_turn es d))) = mset (concat (dict_values d)) + mset es"
proof (induction es arbitrary: d)
  case (Cons e es)
  define xs where "xs = (case dict_get d (entry_turn e) of None \<Rightarrow> [] | Some ys \<Rightarrow> ys)"
  have g: "grouped (dict_put d (entry_turn e) (xs @ [e]))"
    using grouped_put [OF Cons.prems xs_def] .
  have "mset (concat (dict_values (dict_put d (entry_turn e) (xs @ [e])))) = mset (concat (dict_values d)) + {#e#}"
    using mset_put [of d "entry_turn e" xs e] Cons.prems by (simp add: xs_def grouped_def)
  with Cons.IH [OF g] show ?case by (simp add: xs_def)
qed simp

lemma mset_split: "mset (map MessageEntry (messages_of es) @ map ToolEntry (tools_of es)) = mset es"
  by (induction es rule: messages_of.induct) auto

lemma messages_concat: "messages_of (concat xss) = concat (map messages_of xss)"
proof -
  have app: "messages_of (xs @ ys) = messages_of xs @ messages_of ys" for xs ys
    by (induction xs rule: messages_of.induct) auto
  show ?thesis by (induction xss) (simp_all add: app)
qed

lemma tools_concat: "tools_of (concat xss) = concat (map tools_of xss)"
proof -
  have app: "tools_of (xs @ ys) = tools_of xs @ tools_of ys" for xs ys
    by (induction xs rule: tools_of.induct) auto
  show ?thesis by (induction xss) (simp_all add: app)
qed

lemma messages_in: "m \<in> set (messages_of es) \<longleftrightarrow> MessageEntry m \<in> set es"
  by (induction es rule: messages_of.induct) auto

lemma tools_in: "t \<in> set (tools_of es) \<longleftrightarrow> ToolEntry t \<in> set es"
  by (induction es rule: tools_of.induct) auto

text \<open>The entries of one turn agree on its place, and no output was cut.\<close>

definition coherent_entries :: "handoff_entry list \<Rightarrow> bool" where
  "coherent_entries es \<longleftrightarrow> distinct (map handoff_sort_key es)
     \<and> (\<forall>e \<in> set es. \<forall>e' \<in> set es. entry_turn e = entry_turn e' \<longrightarrow> entry_turn_order e = entry_turn_order e')
     \<and> (\<forall>e \<in> set es. case e of ToolEntry t \<Rightarrow> tail_text (ht_output_tail t) = ht_output_tail t | MessageEntry _ \<Rightarrow> True)"

lemma rows_keep_entries:
  assumes coherent: "coherent_entries es"
  shows "read_retained_handoff (materialize_imported_handoff es) = sort_key handoff_sort_key es"
proof -
  define turns where "turns = entries_by_turn (sort_key handoff_sort_key es) []"
  define rows where "rows = materialize_imported_handoff es"
  define all where "all = concat (dict_values turns)"
  have g: "grouped turns" and m: "mset all = mset es"
    using entries_by_turn_groups [of "[]" "sort_key handoff_sort_key es"]
    by (auto simp: turns_def all_def grouped_def)
  have members: "set all = set es" using m by (rule mset_eq_setD)
  have rows: "rr_messages rows = messages_of all" "rr_tools rows = tools_of all"
    by (simp_all add: rows_def materialize_imported_handoff_def turns_def all_def Let_def messages_concat tools_concat
        case_prod_unfold comp_def)
  have order: "turn_order_of rows (entry_turn e) = entry_turn_order e" if e: "e \<in> set es" for e
  proof -
    from e members have "e \<in> set all" by simp
    then obtain xs where "xs \<in> set (dict_values turns)" "e \<in> set xs" by (auto simp: all_def)
    then obtain t where txs: "(t, xs) \<in> set turns" "e \<in> set xs" by auto
    with g have t: "t = entry_turn e" and "xs \<noteq> []" and same: "\<forall>y \<in> set xs. entry_turn y = t"
      by (auto simp: grouped_def)
    then obtain y ys where xs: "xs = y # ys" by (cases xs) auto
    have get: "dict_get turns t = Some xs" using g txs(1) by (simp add: grouped_def)
    have "y \<in> set es" using txs(1) members by (force simp: all_def xs)
    moreover have "entry_turn y = entry_turn e" using same t xs by simp
    moreover note e
    ultimately have "entry_turn_order y = entry_turn_order e"
      using coherent unfolding coherent_entries_def by blast
    moreover have "dict_get (rr_turns rows) t = Some (entry_turn_order y)"
      using get by (simp add: rows_def materialize_imported_handoff_def turns_def [symmetric] Let_def map_of_map xs)
    ultimately show ?thesis by (simp add: turn_order_of_def t)
  qed
  have msgs: "map (\<lambda>m. MessageEntry (m\<lparr>hm_turn_order_index := turn_order_of rows (hm_turn_id m)\<rparr>)) (messages_of all)
      = map MessageEntry (messages_of all)"
    using order [of "MessageEntry _"] members by (auto simp: messages_in)
  have tools: "map (\<lambda>t. ToolEntry (t\<lparr>ht_turn_order_index := turn_order_of rows (ht_turn_id t),
        ht_output_tail := tail_text (ht_output_tail t)\<rparr>)) (tools_of all) = map ToolEntry (tools_of all)"
  proof (rule map_cong [OF refl])
    fix t assume "t \<in> set (tools_of all)"
    then have "ToolEntry t \<in> set es" using members by (simp add: tools_in)
    with order [OF this] coherent show "ToolEntry (t\<lparr>ht_turn_order_index := turn_order_of rows (ht_turn_id t),
        ht_output_tail := tail_text (ht_output_tail t)\<rparr>) = ToolEntry t"
      by (fastforce simp: coherent_entries_def)
  qed
  have "read_retained_handoff rows
      = sort_key handoff_sort_key (map MessageEntry (messages_of all) @ map ToolEntry (tools_of all))"
    unfolding read_retained_handoff_def rows msgs tools ..
  also have "\<dots> = sort_key handoff_sort_key es"
    using coherent m mset_split [of all] by (intro sort_key_unique) (simp_all add: coherent_entries_def)
  finally show ?thesis by (simp add: rows_def)
qed

lemma flatten_turns_tail:
  assumes "ToolEntry t \<in> set (flatten_turns u n turns)" and "list_all (\<lambda>es. list_all entry_ok es \<and> make_turn es = Inr es) turns"
  shows "tail_text (ht_output_tail t) = ht_output_tail t"
proof -
  have one: "tail_text (ht_output_tail t) = ht_output_tail t"
    if "ToolEntry t \<in> set (flatten_turn u i n k es)" "list_all entry_ok es" for u i n k es
    using that
  proof (induction u i n k es rule: flatten_turn.induct)
    case (2 u i n k e es)
    show ?case
    proof (cases "ToolEntry t = handoff_entry_of (u 0) i n k e")
      case True
      with 2 show ?thesis by (cases e) (auto simp: make_tool_def split: if_splits)
    qed (use 2 in auto)
  qed simp
  from assms show ?thesis by (induction u n turns rule: flatten_turns.induct) (auto dest: one)
qed

lemma flatten_turns_identifiers:
  "e \<in> set (flatten_turns u n turns) \<Longrightarrow> entry_turn e \<in> u ` {..<identifiers_used turns}"
proof (induction u n turns rule: flatten_turns.induct)
  case (2 u n es rest)
  show ?case
  proof (cases "e \<in> set (flatten_turn (drop_supply 1 u) (u 0) n 1 es)")
    case True
    then show ?thesis by (auto dest: flatten_turn_entries)
  next
    case False
    with 2 have "entry_turn e \<in> drop_supply (Suc (length es)) u ` {..<identifiers_used rest}" by simp
    then show ?thesis by (auto simp: drop_supply_def)
  qed
qed simp

lemma flatten_turns_coherent:
  assumes "e \<in> set (flatten_turns u n turns)" "e' \<in> set (flatten_turns u n turns)" "entry_turn e = entry_turn e'"
    and "inj_on u {..<identifiers_used turns}"
  shows "entry_turn_order e = entry_turn_order e'"
  using assms
proof (induction u n turns rule: flatten_turns.induct)
  case (2 u n es rest)
  then have "inj_on u {..<Suc (length es) + identifiers_used rest}" by simp
  note fresh = supply_rest [OF this]
  have later: "entry_turn x \<noteq> u 0" if "x \<in> set (flatten_turns (drop_supply (Suc (length es)) u) (n + 1) rest)" for x
    using flatten_turns_identifiers [OF that] fresh(2) by metis
  have now: "entry_turn x = u 0 \<and> entry_turn_order x = n"
    if "x \<in> set (flatten_turn (drop_supply 1 u) (u 0) n 1 es)" for x
    using flatten_turn_entries [OF that] by simp
  from 2(2,3) consider
      "e \<in> set (flatten_turn (drop_supply 1 u) (u 0) n 1 es)" "e' \<in> set (flatten_turn (drop_supply 1 u) (u 0) n 1 es)"
    | "e \<in> set (flatten_turn (drop_supply 1 u) (u 0) n 1 es)"
      "e' \<in> set (flatten_turns (drop_supply (Suc (length es)) u) (n + 1) rest)"
    | "e \<in> set (flatten_turns (drop_supply (Suc (length es)) u) (n + 1) rest)"
      "e' \<in> set (flatten_turn (drop_supply 1 u) (u 0) n 1 es)"
    | "e \<in> set (flatten_turns (drop_supply (Suc (length es)) u) (n + 1) rest)"
      "e' \<in> set (flatten_turns (drop_supply (Suc (length es)) u) (n + 1) rest)"
    by auto
  then show ?case
  proof cases
    case 1
    then show ?thesis using now by metis
  next
    case 2
    then show ?thesis using now later \<open>entry_turn e = entry_turn e'\<close> by metis
  next
    case 3
    then show ?thesis using now later \<open>entry_turn e = entry_turn e'\<close> by metis
  next
    case 4
    then show ?thesis using "2.IH" fresh(1) \<open>entry_turn e = entry_turn e'\<close> by blast
  qed
qed simp


definition demo_transcript :: transcript where
  "demo_transcript = \<lparr>td_title = ''notes'', td_turns =
     [[TranscriptMessage AsUser ''list it'' False,
       TranscriptTool \<lparr>tt_tool_name = ''ls'', tt_arguments = [], tt_outcome = OUT_SUCCESS, tt_exit_status = Some 0,
         tt_paths = [], tt_output_tail = []\<rparr>,
       TranscriptMessage AsAssistant ''done'' False],
      [TranscriptMessage AsUser ''thanks'' True]]\<rparr>"


text \<open>A conversation of more entries than a document may hold has no export.\<close>

lemma long_history_not_exported:
  "collect_turns None [] (sort_key handoff_sort_key es) = Inr turns \<Longrightarrow> sum_list (map length turns) > MAX_ENTRIES \<Longrightarrow>
     \<exists>msg. handoff_to_transcript es title = Inl (ValueError msg)"
  by (auto simp: handoff_to_transcript_def make_document_def)

end
