(* ===== verification/Command_Guard.thy ===== *)
theory Command_Guard
  imports Approval_Matching Py_Text
begin

text \<open>
  The project command guard (\<open>src/talktoharnesses/command_policy.py\<close>): a shell request is parsed by the
  third-party \<open>bashlex\<close> and every command of the tree is checked, a script handed to a shell too. The
  parser is the parameter \<open>parse\<close>, \<open>None\<close> where it raises. A node has its kind, its word, and the nodes
  among its attributes in the order of \<open>vars(node)\<close>, each with the name of its attribute. The script of
  a shell is shorter than the command that holds it, which bounds the recursion; fuel stands for that.
\<close>

datatype (plugins only: code size) bash_node =
  Node (nd_kind: string) (nd_word: string) (nd_children: "(string \<times> bash_node) list")

record command_rule =
  crule_argv :: "string list"

record command_decision =
  cd_allowed :: bool
  cd_reason :: "string option"

section \<open>Literal wrappers\<close>

definition plain_wrappers :: "string list" where
  "plain_wrappers = [''command'', ''exec'', ''builtin'', ''nohup'', ''rtk'']"

definition env_word :: "string \<Rightarrow> bool" where
  "env_word w \<longleftrightarrow> CHR ''='' \<in> set w \<or> w \<in> {''--'', ''-i'', ''--ignore-environment''}"

function unwrap :: "string list \<Rightarrow> string list" where
  "unwrap [] = []"
| "unwrap (w # ws) =
     (let name = path_name w in
      if name \<in> set plain_wrappers then
        (case ws of [] \<Rightarrow> [] | v # rest \<Rightarrow> if v = ''--'' then unwrap rest else unwrap ws)
      else if name = ''env'' then unwrap (dropWhile env_word ws)
      else name # ws)"
  by pat_completeness auto
termination
  by (relation "measure length") (auto simp: le_imp_less_Suc length_dropWhile_le)

definition git_value_options :: "string list" where
  "git_value_options = [''-C'', ''-c'', ''--git-dir'', ''--work-tree'', ''--namespace'']"

fun skip_git_options :: "string list \<Rightarrow> string list" where
  "skip_git_options [] = []"
| "skip_git_options [w] = (if starts_with ''-'' w then [] else [w])"
| "skip_git_options (w # v # ws) =
     (if \<not> starts_with ''-'' w then w # v # ws
      else if w \<in> set git_value_options then skip_git_options ws else skip_git_options (v # ws))"

definition literal_argv :: "string list \<Rightarrow> string list" where
  "literal_argv words = (case unwrap words of [] \<Rightarrow> []
     | w # ws \<Rightarrow> if w = ''git'' then ''git'' # skip_git_options ws else w # ws)"

section \<open>Blocked commands\<close>

text \<open>\<open>os.path.normpath\<close> of a POSIX path.\<close>

fun normal_components :: "bool \<Rightarrow> string list \<Rightarrow> string list \<Rightarrow> string list" where
  "normal_components rooted acc [] = rev acc"
| "normal_components rooted acc (c # cs) =
     (if c = [] \<or> c = ''.'' then normal_components rooted acc cs
      else if c \<noteq> ''..'' \<or> \<not> rooted \<and> acc = [] \<or> acc \<noteq> [] \<and> hd acc = ''..''
      then normal_components rooted (c # acc) cs
      else normal_components rooted (tl acc) cs)"

definition posix_normpath :: "string \<Rightarrow> string" where
  "posix_normpath p =
     (if p = [] then ''.''
      else let (_, root, rest) = posix_splitroot p;
               s = root @ py_join ''/'' (normal_components (root \<noteq> []) [] (split_on (CHR ''/'') rest))
           in if s = [] then ''.'' else s)"

definition rstrip_chars :: "char list \<Rightarrow> string \<Rightarrow> string" where
  "rstrip_chars cs s = rev (dropWhile (\<lambda>c. c \<in> set cs) (rev s))"

definition short_flag :: "string \<Rightarrow> bool" where
  "short_flag a \<longleftrightarrow> starts_with ''-'' a \<and> \<not> starts_with ''--'' a"

definition expand_home :: "string \<Rightarrow> string" where
  "expand_home a =
     (let a1 = py_replace ''$HOME'' ''/home/agent'' (py_replace (''$'' @ [CHR 0x7B] @ ''HOME'' @ [CHR 0x7D]) ''/home/agent'' a)
      in if a1 = ''~'' \<or> starts_with ''~/'' a1 then ''/home/agent'' @ drop 1 a1 else a1)"

definition deletes_home :: "string \<Rightarrow> string \<Rightarrow> bool" where
  "deletes_home cwd a \<longleftrightarrow> \<not> starts_with ''-'' a \<and>
     (let e = expand_home a;
          target = posix_normpath (if starts_with ''/'' e then e else cwd @ ''/'' @ e)
      in rstrip_chars ''/*'' target \<in> {[], ''/home'', ''/home/agent''})"

definition denied_programs :: "string list" where
  "denied_programs = [''sudo'', ''su'', ''doas'', ''mount'', ''umount'', ''nsenter'', ''unshare'', ''chroot'']"

definition publish_prefixes :: "string list list" where
  "publish_prefixes = [[''git'', ''push''], [''git'', ''send-pack''], [''gh'', ''pr'', ''create''],
     [''gh'', ''pr'', ''merge''], [''gh'', ''release'', ''create''], [''glab'', ''mr'', ''create''],
     [''glab'', ''mr'', ''merge''], [''npm'', ''publish''], [''uv'', ''publish''], [''twine'', ''upload'']]"

definition blocked_reason :: "command_rule list \<Rightarrow> string \<Rightarrow> string list \<Rightarrow> string option" where
  "blocked_reason rules cwd argv =
     (if hd argv \<in> set denied_programs then Some ''Privilege and mount commands are blocked.''
      else if list_ex (\<lambda>p. starts_with p argv) publish_prefixes
      then Some ''Publication must run through Agentbahn's host publication step.''
      else if take 2 argv = [''git'', ''reset''] \<and> ''--hard'' \<in> set (drop 2 argv)
      then Some ''git reset --hard is blocked.''
      else if take 2 argv = [''git'', ''clean'']
        \<and> list_ex (\<lambda>a. a = ''--force'' \<or> short_flag a \<and> CHR ''f'' \<in> set a) (drop 2 argv)
      then Some ''Forced git clean is blocked.''
      else if hd argv = ''rm''
        \<and> list_ex (\<lambda>a. a = ''--recursive'' \<or> short_flag a \<and> (CHR ''r'' \<in> set a \<or> CHR ''R'' \<in> set a)) (tl argv)
        \<and> list_ex (deletes_home cwd) (tl argv)
      then Some ''Recursive deletion of root or home is blocked.''
      else if list_ex (\<lambda>r. starts_with (crule_argv r) argv) rules
      then Some ''This command is blocked by the project's command rules.''
      else None)"

text \<open>The script of a shell: the argument after the first one that starts with \<open>-\<close> and has a \<open>c\<close>.\<close>

fun shell_script :: "string list \<Rightarrow> string option" where
  "shell_script (a # b # rest) =
     (if starts_with ''-'' a \<and> CHR ''c'' \<in> set a then Some b else shell_script (b # rest))"
| "shell_script _ = None"

definition script_of :: "string list \<Rightarrow> string option" where
  "script_of argv = (if hd argv \<in> {''sh'', ''bash'', ''dash'', ''zsh''} then shell_script (tl argv) else None)"

section \<open>The check\<close>

definition unparsed_reason :: string where
  "unparsed_reason = ''The command could not be parsed for the project command guard.''"

definition MAX_COMMAND :: int where
  "MAX_COMMAND = 131072"

text \<open>
  A reason, or none; the outer \<open>None\<close> is fuel that ran out. A script beyond the limit of
  \<open>CommandCheck\<close> raises a validation error, a \<open>ValueError\<close> the enclosing check turns into a denial.
\<close>

definition command_reason ::
  "(string \<Rightarrow> string option option) \<Rightarrow> command_rule list \<Rightarrow> string \<Rightarrow> string list \<Rightarrow> string option option" where
  "command_reason nested rules cwd words =
     (let argv = literal_argv words in
      if argv = [] then Some None
      else case blocked_reason rules cwd argv of
        Some r \<Rightarrow> Some (Some r)
      | None \<Rightarrow> (case script_of argv of
          None \<Rightarrow> Some None
        | Some script \<Rightarrow> if int (length script) > MAX_COMMAND then Some (Some unparsed_reason) else nested script))"

fun first_reason :: "string option option list \<Rightarrow> string option option" where
  "first_reason [] = Some None"
| "first_reason (Some None # rs) = first_reason rs"
| "first_reason (r # _) = r"

definition node_words :: "(string \<times> bash_node) list \<Rightarrow> string list" where
  "node_words children = map (nd_word \<circ> snd)
     (filter (\<lambda>(a, n). a = ''parts'' \<and> nd_kind n = ''word'') children)"

fun walk_node :: "(string list \<Rightarrow> string option option) \<Rightarrow> bash_node \<Rightarrow> string option option" where
  "walk_node reason_of (Node kind word children) =
     first_reason ((if kind = ''command'' then reason_of (node_words children) else Some None)
       # map (\<lambda>(a, n). walk_node reason_of n) children)"

fun check_command ::
  "(string \<Rightarrow> bash_node list option) \<Rightarrow> nat \<Rightarrow> command_rule list \<Rightarrow> string \<Rightarrow> string \<Rightarrow> command_decision option" where
  "check_command parse 0 rules cwd command = None"
| "check_command parse (Suc fuel) rules cwd command =
     map_option (\<lambda>reason. \<lparr>cd_allowed = (reason = None), cd_reason = reason\<rparr>)
       (case parse command of
          None \<Rightarrow> Some (Some unparsed_reason)
        | Some nodes \<Rightarrow> first_reason (map (walk_node (command_reason
            (\<lambda>script. map_option cd_reason (check_command parse fuel rules cwd script)) rules cwd)) nodes))"

text \<open>\<open>shlex.join\<close> and the check of an argument vector; a joined command beyond the limit raises.\<close>

definition shell_safe_char :: "char \<Rightarrow> bool" where
  "shell_safe_char c \<longleftrightarrow> (let n = (of_char c :: nat) in 48 \<le> n \<and> n \<le> 57 \<or> 65 \<le> n \<and> n \<le> 90 \<or> 97 \<le> n \<and> n \<le> 122)
     \<or> c \<in> set ''_@%+=:,./-''"

definition shell_quote :: "string \<Rightarrow> string" where
  "shell_quote s =
     (let q = [CHR 0x27]; dq = [CHR 0x22] in
      if s = [] then q @ q
      else if list_all shell_safe_char s then s
      else q @ py_replace q (q @ dq @ q @ dq @ q) s @ q)"

definition check_argv ::
  "(string \<Rightarrow> bash_node list option) \<Rightarrow> nat \<Rightarrow> command_rule list \<Rightarrow> string \<Rightarrow> string list
     \<Rightarrow> command_decision option result" where
  "check_argv parse fuel rules cwd argv =
     (let command = py_join '' '' (map shell_quote argv) in
      if int (length command) > MAX_COMMAND then Inl (ValueError ''String should have at most 131072 characters'')
      else Inr (check_command parse fuel rules cwd command))"

section \<open>What the guard allows\<close>

fun commands_of :: "bash_node \<Rightarrow> string list list" where
  "commands_of (Node kind word children) =
     (if kind = ''command'' then [node_words children] else [])
       @ concat (map (\<lambda>(a, n). commands_of n) children)"

text \<open>
  The specification: a command is safe when it parses and none of the commands anywhere in its tree is
  blocked behind its wrappers, the scripts handed to shells included.
\<close>

inductive safe_command :: "(string \<Rightarrow> bash_node list option) \<Rightarrow> command_rule list \<Rightarrow> string \<Rightarrow> string \<Rightarrow> bool"
  for parse rules cwd where
  safe: "parse command = Some nodes \<Longrightarrow>
     \<forall>words \<in> set (concat (map commands_of nodes)). literal_argv words \<noteq> [] \<longrightarrow>
       blocked_reason rules cwd (literal_argv words) = None
       \<and> (\<forall>script. script_of (literal_argv words) = Some script \<longrightarrow>
            int (length script) \<le> MAX_COMMAND \<and> safe_command parse rules cwd script) \<Longrightarrow>
   safe_command parse rules cwd command"

inductive_simps safe_command_iff: "safe_command parse rules cwd command"

section \<open>Scripts are shorter\<close>

definition words_are_pieces :: "(string \<Rightarrow> bash_node list option) \<Rightarrow> bool" where
  "words_are_pieces parse \<longleftrightarrow> (\<forall>command nodes words. parse command = Some nodes \<longrightarrow>
     words \<in> set (concat (map commands_of nodes)) \<longrightarrow>
     sum_list (map length words) + length words \<le> length command + 1)"

lemma suffix_of_dropWhile: "dropWhile P ws = pre @ r \<Longrightarrow> \<exists>pre'. ws = pre' @ r"
  by (metis append.assoc takeWhile_dropWhile_id)

lemma unwrap_suffix: "unwrap words = h # rest \<Longrightarrow> \<exists>pre w. words = pre @ w # rest"
proof (induction words rule: unwrap.induct)
  case (2 w ws)
  consider (wrapper) "path_name w \<in> set plain_wrappers" | (env) "path_name w \<notin> set plain_wrappers" "path_name w = ''env''"
    | (plain) "path_name w \<notin> set plain_wrappers" "path_name w \<noteq> ''env''" by blast
  then show ?case
  proof cases
    case wrapper
    with "2.prems" obtain v us where ws: "ws = v # us" by (cases ws) (simp_all add: Let_def)
    show ?thesis
    proof (cases "v = ''--''")
      case True
      with wrapper ws "2.prems" have "unwrap us = h # rest" by (simp add: Let_def)
      from "2.IH" (1) [OF refl wrapper ws True this] obtain pre x where "us = pre @ x # rest" by blast
      then have "w # ws = (w # v # pre) @ x # rest" using ws by simp
      then show ?thesis by blast
    next
      case False
      with wrapper ws "2.prems" have "unwrap ws = h # rest" by (simp add: Let_def)
      from "2.IH" (2) [OF refl wrapper ws False this] obtain pre x where "ws = pre @ x # rest" by blast
      then have "w # ws = (w # pre) @ x # rest" by simp
      then show ?thesis by blast
    qed
  next
    case env
    with "2.prems" have "unwrap (dropWhile env_word ws) = h # rest" by (simp add: Let_def)
    from "2.IH" (3) [OF refl env this] obtain pre x where "dropWhile env_word ws = pre @ x # rest" by blast
    then obtain pre' where "ws = pre' @ x # rest" using suffix_of_dropWhile by blast
    then have "w # ws = (w # pre') @ x # rest" by simp
    then show ?thesis by blast
  next
    case plain
    with "2.prems" have "rest = ws" by (simp add: Let_def)
    then show ?thesis by (metis append_Nil)
  qed
qed simp

lemma shell_script_split:
  "shell_script args = Some t \<Longrightarrow> \<exists>p a q. args = p @ a # t # q \<and> a \<noteq> []"
proof (induction args rule: shell_script.induct)
  case (1 a b rest)
  show ?case
  proof (cases "starts_with ''-'' a \<and> CHR ''c'' \<in> set a")
    case True
    with "1.prems" have "a # b # rest = [] @ a # t # rest \<and> a \<noteq> []" by auto
    then show ?thesis by blast
  next
    case False
    with "1.prems" "1.IH" obtain p c q where "b # rest = p @ c # t # q" "c \<noteq> []" by fastforce
    then have "a # b # rest = (a # p) @ c # t # q \<and> c \<noteq> []" by simp
    then show ?thesis by blast
  qed
qed auto

lemma script_shorter:
  assumes "words_are_pieces parse" "parse command = Some nodes"
    and "words \<in> set (concat (map commands_of nodes))"
    and script: "script_of (literal_argv words) = Some t"
  shows "length t < length command"
proof -
  from script obtain h rest where argv: "unwrap words = h # rest" "shell_script rest = Some t"
    by (cases "unwrap words"; cases "hd (unwrap words) = ''git''")
      (simp_all add: script_of_def literal_argv_def split: if_splits)
  then obtain pre w p a q where "words = pre @ w # p @ a # t # q" "a \<noteq> []"
    by (metis unwrap_suffix shell_script_split)
  then have "length t + 3 < sum_list (map length words) + length words" by (cases a) auto
  moreover have "sum_list (map length words) + length words \<le> length command + 1"
    using assms(1-3) unfolding words_are_pieces_def by blast
  ultimately show ?thesis by linarith
qed

section \<open>The check decides the specification\<close>

text \<open>A walk finds no reason exactly when no command of the tree has one, and ends when each check of a command does.\<close>

lemma first_reason_ends: "\<forall>r \<in> set rs. r \<noteq> None \<Longrightarrow> first_reason rs \<noteq> None"
  by (induction rs rule: first_reason.induct) auto

lemma first_reason_none: "first_reason rs = Some None \<longleftrightarrow> (\<forall>r \<in> set rs. r = Some None)"
  by (induction rs rule: first_reason.induct) auto

lemma walk_node_ends:
  "\<forall>words \<in> set (commands_of n). reason_of words \<noteq> None \<Longrightarrow> walk_node reason_of n \<noteq> None"
proof (induction reason_of n rule: walk_node.induct)
  case (1 reason_of kind word children)
  show ?case
    unfolding walk_node.simps
  proof (intro first_reason_ends ballI)
    fix r
    assume "r \<in> set ((if kind = ''command'' then reason_of (node_words children) else Some None)
      # map (\<lambda>(a, n). walk_node reason_of n) children)"
    then consider "r = (if kind = ''command'' then reason_of (node_words children) else Some None)"
      | a n where "(a, n) \<in> set children" "r = walk_node reason_of n" by auto
    then show "r \<noteq> None"
    proof cases
      case 1
      with "1.prems" show ?thesis by auto
    next
      case (2 a n)
      with "1.prems" have "\<forall>words \<in> set (commands_of n). reason_of words \<noteq> None" by fastforce
      with 2 "1.IH" [OF 2(1) refl] show ?thesis by simp
    qed
  qed
qed

lemma walk_node_none:
  "walk_node reason_of n = Some None \<longleftrightarrow> (\<forall>words \<in> set (commands_of n). reason_of words = Some None)"
proof (induction reason_of n rule: walk_node.induct)
  case (1 reason_of kind word children)
  have "(\<forall>c \<in> set children. walk_node reason_of (snd c) = Some None)
      \<longleftrightarrow> (\<forall>c \<in> set children. \<forall>words \<in> set (commands_of (snd c)). reason_of words = Some None)"
    using 1 by (intro ball_cong) (auto simp: case_prod_beta)
  then show ?case
    by (auto simp: first_reason_none case_prod_beta simp del: first_reason.simps)
qed

lemma check_command_decides:
  assumes pieces: "words_are_pieces parse" and "length command < fuel"
  shows "\<exists>d. check_command parse fuel rules cwd command = Some d
    \<and> (cd_reason d = None \<longleftrightarrow> safe_command parse rules cwd command)
    \<and> (cd_allowed d \<longleftrightarrow> cd_reason d = None)"
  using assms(2)
proof (induction fuel arbitrary: command)
  case (Suc fuel)
  show ?case
  proof (cases "parse command")
    case None
    then have "\<not> safe_command parse rules cwd command" by (subst safe_command_iff) simp
    with None show ?thesis by simp
  next
    case (Some nodes)
    let ?nested = "\<lambda>script. map_option cd_reason (check_command parse fuel rules cwd script)"
    let ?reason = "command_reason ?nested rules cwd"
    let ?words = "set (concat (map commands_of nodes))"
    have nested: "\<exists>r. ?nested t = Some r \<and> (r = None \<longleftrightarrow> safe_command parse rules cwd t)"
      if "words \<in> ?words" "script_of (literal_argv words) = Some t" for words t
      using Suc.IH [of t] script_shorter [OF pieces Some that] Suc.prems by fastforce
    have ends: "?reason words \<noteq> None" if "words \<in> ?words" for words
      using nested [OF that] by (auto simp: command_reason_def Let_def split: option.split)
    have none: "?reason words = Some None \<longleftrightarrow> (literal_argv words \<noteq> [] \<longrightarrow>
        blocked_reason rules cwd (literal_argv words) = None
        \<and> (\<forall>script. script_of (literal_argv words) = Some script \<longrightarrow>
             int (length script) \<le> MAX_COMMAND \<and> safe_command parse rules cwd script))"
      if "words \<in> ?words" for words
      using nested [OF that] by (auto simp: command_reason_def Let_def split: option.split)
    have "first_reason (map (walk_node ?reason) nodes) \<noteq> None"
      using ends by (intro first_reason_ends) (auto intro!: walk_node_ends [THEN not_None_eq [THEN iffD1]] simp del: not_None_eq)
    then obtain r where r: "first_reason (map (walk_node ?reason) nodes) = Some r" by blast
    have "r = None \<longleftrightarrow> (\<forall>words \<in> ?words. ?reason words = Some None)"
      using r first_reason_none [of "map (walk_node ?reason) nodes"] by (auto simp: walk_node_none)
    also have "\<dots> \<longleftrightarrow> safe_command parse rules cwd command"
      using none Some by (subst safe_command_iff) simp
    finally show ?thesis using Some r by simp
  qed
qed simp


text \<open>A parser of commands of plain words, for the concrete inputs.\<close>

definition word_node :: "string \<Rightarrow> string \<times> bash_node" where
  "word_node w = (''parts'', Node ''word'' w [])"

definition plain_parse :: "string \<Rightarrow> bash_node list option" where
  "plain_parse s = (if filter (\<lambda>c. c \<in> set [CHR 0x22, CHR 0x27]) s \<noteq> [] then None
     else Some [Node ''command'' [] (map word_node (filter (\<lambda>w. w \<noteq> []) (split_on (CHR '' '') s)))])"

lemma split_on_total: "sum_list (map length (split_on sep s)) + length (split_on sep s) = length s + 1"
  by (induction sep s rule: split_on.induct) (auto split: list.split)

lemma plain_parse_pieces: "words_are_pieces plain_parse"
proof -
  have kept: "sum_list (map length (filter (\<lambda>w. w \<noteq> []) ws)) + length (filter (\<lambda>w. w \<noteq> []) ws)
      \<le> sum_list (map length ws) + length ws" for ws :: "string list"
    by (induction ws) auto
  have words: "node_words (map word_node ws) = ws" for ws
    by (induction ws) (auto simp: node_words_def word_node_def)
  show ?thesis
    unfolding words_are_pieces_def
  proof (intro allI impI)
    fix command nodes ws
    let ?ws = "filter (\<lambda>w. w \<noteq> []) (split_on (CHR '' '') command)"
    assume "plain_parse command = Some nodes"
    then have nodes: "nodes = [Node ''command'' [] (map word_node ?ws)]"
      by (simp add: plain_parse_def split: if_splits)
    have leaf: "concat (map (\<lambda>(a, n). commands_of n) (map word_node us)) = []" for us
      by (induction us) (simp_all add: word_node_def)
    assume "ws \<in> set (concat (map commands_of nodes))"
    then have "ws = ?ws" using leaf [of ?ws] words [of ?ws] by (simp add: nodes del: map_map)
    then show "sum_list (map length ws) + length ws \<le> length command + 1"
      using kept [of "split_on (CHR '' '') command"] split_on_total [of "CHR '' ''" command] by simp
  qed
qed


text \<open>
  The first option of a shell with a \<open>c\<close> in it is taken for \<open>-c\<close>, a long option too: the guard then
  checks the word \<open>-c\<close> instead of the script that follows it, and the blocked program runs.
\<close>

definition quoted_script :: string where
  "quoted_script = ''bash --norc -c 'sudo ls' ''"

definition quoting_parse :: "string \<Rightarrow> bash_node list option" where
  "quoting_parse s = (if s = quoted_script
     then Some [Node ''command'' [] (map word_node [''bash'', ''--norc'', ''-c'', ''sudo ls''])]
     else plain_parse s)"

lemma long_option_hides_script:
  "check_command quoting_parse 3 [] ''/w'' quoted_script = Some \<lparr>cd_allowed = True, cd_reason = None\<rparr>"
  by code_simp

lemma short_option_shows_script:
  "map_option cd_allowed (check_command (\<lambda>s. if s = ''x'' then Some [Node ''command'' []
     (map word_node [''bash'', ''-c'', ''sudo ls''])] else plain_parse s) 3 [] ''/w'' ''x'') = Some False"
  by code_simp

end
