(* ===== verification/Image_Instructions.thy ===== *)
theory Image_Instructions
  imports Pure_Path Py_Text Errors
begin

text \<open>
  The Dockerfile text a sandbox policy adds on top of a harness image
  (\<open>tth-types/src/tth_types/image_instructions.py\<close>): comments, continuations, options, JSON exec forms and
  heredocs. The text is a list of code points below 256; an exec form can hold any code point, because a
  JSON string can escape it. Regular expressions are written out as the recognisers they are.
\<close>

record heredoc =
  hd_word :: string
  hd_name :: string
  hd_chomp :: bool
  hd_lines :: "string list"
  hd_end :: string

record image_instruction =
  ii_keyword :: string
  ii_arguments :: string
  ii_options :: "string list"
  ii_exec_form :: "nat list list option"
  ii_heredocs :: "heredoc list"

definition image_instructions :: "string list" where
  "image_instructions = [''RUN'', ''ENV'', ''ARG'', ''USER'', ''WORKDIR'', ''COPY'', ''ADD'', ''LABEL'']"

definition allowed_options :: "string \<Rightarrow> string list" where
  "allowed_options keyword =
     (if keyword = ''COPY'' then [''from'', ''chown'', ''chmod'', ''link'', ''parents'', ''exclude'']
      else if keyword = ''ADD''
      then [''chown'', ''chmod'', ''link'', ''checksum'', ''keep-git-dir'', ''exclude'', ''unpack''] else [])"

section \<open>Blanks and characters\<close>

definition is_blank :: "char \<Rightarrow> bool" where
  "is_blank c \<longleftrightarrow> c = CHR '' '' \<or> c = CHR 0x09"

definition strip_blanks :: "string \<Rightarrow> string" where
  "strip_blanks s = rev (dropWhile is_blank (rev (dropWhile is_blank s)))"

text \<open>\<open>_BLANKS.split(s)\<close>, and with \<open>maxsplit=1\<close> the first word and the rest.\<close>

lemma dropWhile_head: "dropWhile P s = c # t \<Longrightarrow> \<not> P c"
  by (metis list.distinct(1) hd_dropWhile list.sel(1))

lemma dropWhile_shrinks: "s \<noteq> [] \<Longrightarrow> P (hd s) \<Longrightarrow> length (dropWhile P s) < length s"
  by (cases s) (simp_all add: length_dropWhile_le le_imp_less_Suc)

function blank_split :: "string \<Rightarrow> string list" where
  "blank_split s =
     (let rest = dropWhile (\<lambda>c. \<not> is_blank c) s
      in takeWhile (\<lambda>c. \<not> is_blank c) s # (if rest = [] then [] else blank_split (dropWhile is_blank rest)))"
  by pat_completeness auto
termination
proof (relation "measure length", goal_cases)
  case (2 s rest)
  then obtain c t where "rest = c # t" "is_blank c" using dropWhile_head by (metis neq_Nil_conv)
  then have "length (dropWhile is_blank rest) < length rest" by (intro dropWhile_shrinks) simp_all
  also have "\<dots> \<le> length s" using 2 by (simp add: length_dropWhile_le)
  finally show ?case by simp
qed simp

declare blank_split.simps [simp del]

definition first_word :: "string \<Rightarrow> string" where
  "first_word s = takeWhile (\<lambda>c. \<not> is_blank c) s"

definition after_first_word :: "string \<Rightarrow> string" where
  "after_first_word s = dropWhile is_blank (dropWhile (\<lambda>c. \<not> is_blank c) s)"

definition char_nat :: "char \<Rightarrow> nat" where
  "char_nat c = of_char c"

definition is_lower :: "char \<Rightarrow> bool" where
  "is_lower c \<longleftrightarrow> 97 \<le> char_nat c \<and> char_nat c \<le> 122"

definition is_upper :: "char \<Rightarrow> bool" where
  "is_upper c \<longleftrightarrow> 65 \<le> char_nat c \<and> char_nat c \<le> 90"

definition is_digit :: "char \<Rightarrow> bool" where
  "is_digit c \<longleftrightarrow> 48 \<le> char_nat c \<and> char_nat c \<le> 57"

definition is_alnum :: "char \<Rightarrow> bool" where
  "is_alnum c \<longleftrightarrow> is_lower c \<or> is_upper c \<or> is_digit c"

definition is_control :: "char \<Rightarrow> bool" where
  "is_control c \<longleftrightarrow> char_nat c < 32 \<or> 127 \<le> char_nat c \<and> char_nat c < 160"

section \<open>Options\<close>

definition option_value_char :: "char \<Rightarrow> bool" where
  "option_value_char c \<longleftrightarrow> is_alnum c \<or> c \<in> set ''._/:@%+=,~^*?![]$-'' \<or> c = CHR 0x7B \<or> c = CHR 0x7D"

text \<open>\<open>_OPTION.fullmatch(token)\<close>.\<close>

definition option_token :: "string \<Rightarrow> bool" where
  "option_token t \<longleftrightarrow> starts_with ''--'' t \<and>
     (let name = takeWhile (\<lambda>c. c \<noteq> CHR ''='') (drop 2 t);
          value = dropWhile (\<lambda>c. c \<noteq> CHR ''='') (drop 2 t)
      in name \<noteq> [] \<and> is_lower (hd name) \<and> list_all (\<lambda>c. is_lower c \<or> c = CHR ''-'') name
         \<and> list_all option_value_char (drop 1 value))"

function parse_options :: "string \<Rightarrow> string \<Rightarrow> (string list \<times> string) result" where
  "parse_options keyword arguments =
     (if \<not> starts_with ''--'' arguments then Inr ([], arguments)
      else
        let token = first_word arguments;
            name = takeWhile (\<lambda>c. c \<noteq> CHR ''='') token
        in if drop 2 name \<notin> set (allowed_options keyword)
           then Inl (ValueError (keyword @ '' '' @ name @ '' is not allowed.''))
           else if \<not> option_token token
           then Inl (ValueError (''Write '' @ keyword @ '' '' @ name @ '' as '' @ name
             @ ''=value, without quotes, spaces or backslashes.''))
           else (case parse_options keyword (after_first_word arguments) of
             Inl e \<Rightarrow> Inl e
           | Inr (options, rest) \<Rightarrow> Inr (token # options, rest)))"
  by pat_completeness auto
termination
proof (relation "measure (\<lambda>(k, a). length a)", goal_cases)
  case (2 keyword arguments token name)
  then obtain t where "arguments = CHR ''-'' # t"
    by (cases arguments) (auto split: if_splits)
  then have "length (dropWhile (\<lambda>c. \<not> is_blank c) arguments) < length arguments"
    by (simp add: is_blank_def length_dropWhile_le le_imp_less_Suc)
  with length_dropWhile_le [of is_blank "dropWhile (\<lambda>c. \<not> is_blank c) arguments"]
  have "length (after_first_word arguments) < length arguments"
    unfolding after_first_word_def by linarith
  then show ?case by simp
qed simp

declare parse_options.simps [simp del]

section \<open>The JSON exec form\<close>

text \<open>
  \<open>json.loads\<close> as far as \<open>_json_array\<close> tells its results apart: anything but an array of strings is
  \<open>None\<close> there, whether the JSON is valid or not.
\<close>

definition json_space :: "char \<Rightarrow> bool" where
  "json_space c \<longleftrightarrow> char_nat c \<in> {32, 9, 10, 13}"

definition hex_value :: "char \<Rightarrow> nat option" where
  "hex_value c = (if is_digit c then Some (char_nat c - 48)
     else if 97 \<le> char_nat c \<and> char_nat c \<le> 102 then Some (char_nat c - 87)
     else if 65 \<le> char_nat c \<and> char_nat c \<le> 70 then Some (char_nat c - 55) else None)"

definition hex4 :: "string \<Rightarrow> (nat \<times> string) option" where
  "hex4 s = (if length s < 4 then None
     else case (hex_value (s ! 0), hex_value (s ! 1), hex_value (s ! 2), hex_value (s ! 3)) of
       (Some a, Some b, Some c, Some d) \<Rightarrow> Some (((a * 16 + b) * 16 + c) * 16 + d, drop 4 s)
     | _ \<Rightarrow> None)"

lemma hex4_length: "hex4 s = Some (n, t) \<Longrightarrow> length t + 4 = length s"
  by (auto simp: hex4_def split: if_splits option.splits)

definition is_high :: "nat \<Rightarrow> bool" where
  "is_high n \<longleftrightarrow> 0xD800 \<le> n \<and> n \<le> 0xDBFF"

definition is_low :: "nat \<Rightarrow> bool" where
  "is_low n \<longleftrightarrow> 0xDC00 \<le> n \<and> n \<le> 0xDFFF"

text \<open>After \<open>\u\<close>: a pair of surrogates is one code point, a lone one stays.\<close>

definition unicode_escape :: "string \<Rightarrow> (nat \<times> string) option" where
  "unicode_escape s = (case hex4 s of
     None \<Rightarrow> None
   | Some (n, t) \<Rightarrow>
       if is_high n \<and> take 2 t = [CHR 0x5C, CHR ''u''] then
         (case hex4 (drop 2 t) of
            None \<Rightarrow> None
          | Some (m, t') \<Rightarrow> if is_low m then Some (0x10000 + (n - 0xD800) * 0x400 + (m - 0xDC00), t')
                            else Some (n, t))
       else Some (n, t))"

lemma unicode_escape_length: "unicode_escape s = Some (n, t) \<Longrightarrow> length t < length s"
  by (auto simp: unicode_escape_def split: option.splits if_splits dest!: hex4_length)

definition simple_escape :: "char \<Rightarrow> nat option" where
  "simple_escape c = (if c = CHR 0x22 \<or> c = CHR 0x5C \<or> c = CHR ''/'' then Some (char_nat c)
     else if c = CHR ''b'' then Some 8 else if c = CHR ''f'' then Some 12 else if c = CHR ''n'' then Some 10
     else if c = CHR ''r'' then Some 13 else if c = CHR ''t'' then Some 9 else None)"

text \<open>The rest of a string after its opening quote.\<close>

function json_string :: "string \<Rightarrow> (nat list \<times> string) option" where
  "json_string [] = None"
| "json_string (c # s) =
     (if c = CHR 0x22 then Some ([], s)
      else if c = CHR 0x5C then
        (if s = [] then None
         else if hd s = CHR ''u'' then
           (case unicode_escape (tl s) of
              None \<Rightarrow> None
            | Some (n, t) \<Rightarrow> map_option (\<lambda>(ns, u). (n # ns, u)) (json_string t))
         else (case simple_escape (hd s) of
             None \<Rightarrow> None
           | Some n \<Rightarrow> map_option (\<lambda>(ns, u). (n # ns, u)) (json_string (tl s))))
      else if char_nat c < 32 then None
      else map_option (\<lambda>(ns, u). (char_nat c # ns, u)) (json_string s))"
  by pat_completeness auto
termination
  by (relation "measure length") (auto dest!: unicode_escape_length)

declare json_string.simps (2) [simp del]

lemma json_string_length: "json_string s = Some (ns, t) \<Longrightarrow> length t < length s"
proof (induction s arbitrary: ns t rule: json_string.induct)
  case (2 c s)
  have tail: "length (tl s) \<le> length s" by simp
  from 2 show ?case
    by (fastforce simp: json_string.simps(2) [of c s] split: if_splits option.splits dest!: unicode_escape_length)
qed simp

function json_items :: "string \<Rightarrow> (nat list list \<times> string) option" where
  "json_items s =
     (let s1 = dropWhile json_space s in
      if s1 = [] \<or> hd s1 \<noteq> CHR 0x22 then None
      else case json_string (tl s1) of
        None \<Rightarrow> None
      | Some (item, t) \<Rightarrow>
          let t1 = dropWhile json_space t in
          if t1 = [] then None
          else if hd t1 = CHR '']'' then Some ([item], tl t1)
          else if hd t1 = CHR '','' then map_option (\<lambda>(items, u). (item # items, u)) (json_items (tl t1))
          else None)"
  by pat_completeness auto
termination
proof (relation "measure length", goal_cases)
  case (2 s s1 p item t t1)
  have "length t1 \<le> length t" using 2 by (simp add: length_dropWhile_le)
  moreover have "length t < length (tl s1)" using 2 json_string_length by metis
  moreover have "length s1 \<le> length s" using 2 by (simp add: length_dropWhile_le)
  ultimately show ?case by simp
qed simp

declare json_items.simps [simp del]

definition json_array :: "string \<Rightarrow> nat list list option" where
  "json_array arguments =
     (if take 1 arguments \<noteq> ''['' then None
      else case json_items (tl arguments) of
        None \<Rightarrow> None
      | Some (items, rest) \<Rightarrow> if list_all json_space rest then Some items else None)"

section \<open>Words and heredocs\<close>

text \<open>The rest of a double-quoted word: its value, how it is written, and what follows.\<close>

fun double_quoted :: "string \<Rightarrow> (string \<times> string \<times> string) option" where
  "double_quoted [] = None"
| "double_quoted [c] = (if c = CHR 0x22 then Some ([], [], []) else None)"
| "double_quoted (c # d # s) =
     (if c = CHR 0x22 then Some ([], [], d # s)
      else if c = CHR 0x5C \<and> d \<in> set [CHR 0x22, CHR ''$'', CHR 0x5C]
      then map_option (\<lambda>(v, w, r). (d # v, c # d # w, r)) (double_quoted s)
      else map_option (\<lambda>(v, w, r). (c # v, c # w, r)) (double_quoted (d # s)))"

lemma double_quoted_length: "double_quoted s = Some (v, w, r) \<Longrightarrow> length r < length s"
  by (induction s arbitrary: v w r rule: double_quoted.induct) (fastforce split: if_splits)+

function words_from :: "string \<Rightarrow> string \<Rightarrow> string \<Rightarrow> (string \<times> string) list option" where
  "words_from raw val [] = Some (if raw = [] then [] else [(raw, val)])"
| "words_from raw val (c # s) =
     (if is_blank c then
        (if raw = [] then words_from raw val s else map_option (\<lambda>ws. (raw, val) # ws) (words_from [] [] s))
      else if c = CHR 0x27 then
        (case dropWhile (\<lambda>x. x \<noteq> CHR 0x27) s of
           [] \<Rightarrow> None
         | _ # rest \<Rightarrow>
             let body = takeWhile (\<lambda>x. x \<noteq> CHR 0x27) s
             in words_from (raw @ c # body @ [c]) (val @ body) rest)
      else if c = CHR 0x22 then
        (case double_quoted s of
           None \<Rightarrow> None
         | Some (v, w, rest) \<Rightarrow> words_from (raw @ c # w @ [c]) (val @ v) rest)
      else if c = CHR 0x5C \<and> s \<noteq> [] then words_from (raw @ [c, hd s]) (val @ [hd s]) (tl s)
      else words_from (raw @ [c]) (val @ [c]) s)"
  by pat_completeness auto
termination
proof (relation "measure (\<lambda>(r, v, s). length s)", goal_cases)
  case (4 raw val c s x rest body)
  have "length (x # rest) \<le> length s" using 4 by (metis length_dropWhile_le)
  then show ?case by simp
qed (auto dest: double_quoted_length)

definition shell_words :: "string \<Rightarrow> (string \<times> string) list option" where
  "shell_words s = words_from [] [] s"

text \<open>\<open>_HEREDOC.fullmatch(raw)\<close> and \<open>_COPY_HEREDOC.fullmatch(word)\<close>: whether tabs go, and the rest.\<close>

definition heredoc_match :: "string \<Rightarrow> (bool \<times> string) option" where
  "heredoc_match raw =
     (let s = dropWhile is_digit raw; r = drop 2 s in
      if take 2 s \<noteq> ''<<'' \<or> r = [] \<or> CHR ''<'' \<in> set r then None
      else if hd r = CHR ''-'' \<and> tl r \<noteq> [] then Some (True, tl r) else Some (False, r))"

definition name_char :: "char \<Rightarrow> bool" where
  "name_char c \<longleftrightarrow> is_alnum c \<or> c \<in> set ''_.-''"

definition copy_name :: "string \<Rightarrow> string option" where
  "copy_name s =
     (if s \<noteq> [] \<and> list_all name_char s then Some s
      else if length s \<ge> 3 \<and> hd s \<in> set [CHR 0x27, CHR 0x22] \<and> last s = hd s
        \<and> list_all name_char (butlast (tl s)) then Some (butlast (tl s))
      else None)"

definition copy_heredoc_match :: "string \<Rightarrow> (bool \<times> string) option" where
  "copy_heredoc_match word =
     (let r = drop 2 word in
      if take 2 word \<noteq> ''<<'' then None
      else case (if take 1 r = ''-'' then copy_name (tl r) else None) of
        Some name \<Rightarrow> Some (True, name)
      | None \<Rightarrow> map_option (\<lambda>name. (False, name)) (copy_name r))"

definition plain_word :: "string \<Rightarrow> bool" where
  "plain_word w \<longleftrightarrow> w \<noteq> [] \<and> list_all (\<lambda>c. is_alnum c \<or> c \<in> set ''._/:@%+=,~^*?![]-''
     \<or> c = CHR 0x7B \<or> c = CHR 0x7D) w"

text \<open>The lines up to the terminator, and the lines after it.\<close>

fun find_heredoc :: "string \<Rightarrow> string \<Rightarrow> bool \<Rightarrow> string list \<Rightarrow> string list \<Rightarrow> (heredoc \<times> string list) result" where
  "find_heredoc word name chomp body [] = Inl (ValueError (''The heredoc '' @ name @ '' is never closed.''))"
| "find_heredoc word name chomp body (line # lines) =
     (if (if chomp then dropWhile (\<lambda>c. c = CHR 0x09) line else line) = name
      then Inr (\<lparr>hd_word = word, hd_name = name, hd_chomp = chomp, hd_lines = body, hd_end = line\<rparr>, lines)
      else find_heredoc word name chomp (body @ [line]) lines)"

fun run_heredocs :: "(string \<times> string) list \<Rightarrow> string list \<Rightarrow> (heredoc list \<times> string list) result" where
  "run_heredocs [] lines = Inr ([], lines)"
| "run_heredocs ((raw, v) # ws) lines =
     (case heredoc_match raw of
        Some (chomp, quoted) \<Rightarrow>
          (case shell_words quoted of
             Some [(_, name)] \<Rightarrow>
               if name = [] then run_heredocs ws lines
               else bind_result (find_heredoc raw name chomp [] lines) (\<lambda>(h, rest).
                 bind_result (run_heredocs ws rest) (\<lambda>(hs, rest'). Inr (h # hs, rest')))
           | _ \<Rightarrow> run_heredocs ws lines)
      | None \<Rightarrow> run_heredocs ws lines)"

fun copy_heredoc_words :: "string \<Rightarrow> string list \<Rightarrow> string list \<Rightarrow> (heredoc list \<times> string list) result" where
  "copy_heredoc_words keyword [] lines = Inr ([], lines)"
| "copy_heredoc_words keyword (w # ws) lines =
     (if \<not> py_in ''<<'' w then
        (if \<not> plain_word w then Inl (ValueError (keyword
           @ '' with a heredoc takes plain paths, without quotes, backslashes or variables.''))
         else copy_heredoc_words keyword ws lines)
      else case copy_heredoc_match w of
        None \<Rightarrow> Inl (ValueError (''Write a '' @ keyword @ '' heredoc as <<NAME, <<'NAME' or <<'' @ [CHR 0x22]
          @ ''NAME'' @ [CHR 0x22] @ ''.''))
      | Some (chomp, name) \<Rightarrow> bind_result (find_heredoc w name chomp [] lines) (\<lambda>(h, rest).
          bind_result (copy_heredoc_words keyword ws rest) (\<lambda>(hs, rest'). Inr (h # hs, rest'))))"

definition copy_heredocs ::
  "string \<Rightarrow> string list \<Rightarrow> string \<Rightarrow> string list \<Rightarrow> (heredoc list \<times> string list) result" where
  "copy_heredocs keyword options arguments lines =
     bind_result (copy_heredoc_words keyword (blank_split arguments) lines) (\<lambda>r.
       if list_ex (\<lambda>o1. CHR ''$'' \<in> set o1) options
       then Inl (ValueError (keyword @ '' with a heredoc takes options without variables.'')) else Inr r)"

section \<open>Instructions\<close>

definition is_ascii :: "string \<Rightarrow> bool" where
  "is_ascii s = list_all (\<lambda>c. char_nat c < 128) s"

definition image_instruction_of :: "string \<Rightarrow> string list \<Rightarrow> (image_instruction \<times> string list) result" where
  "image_instruction_of logical lines =
     (let word = first_word logical;
          keyword = (if is_ascii word then map ascii_upper word else word)
      in if keyword = ''FROM''
         then Inl (ValueError ''Leave out FROM: the instructions are applied to each harness image.'')
         else if keyword \<notin> set image_instructions
         then Inl (ValueError (word @ '' is not allowed in image instructions.''))
         else bind_result (parse_options keyword (after_first_word logical)) (\<lambda>(options, arguments).
           if arguments = [] then Inl (ValueError (keyword @ '' needs arguments.''))
           else
             let exec_form = (if keyword \<in> {''RUN'', ''COPY'', ''ADD''} then json_array arguments else None)
             in bind_result
               (if exec_form \<noteq> None \<or> \<not> py_in ''<<'' arguments then Inr ([], lines)
                else if keyword = ''RUN''
                then run_heredocs (case shell_words arguments of None \<Rightarrow> [] | Some ws \<Rightarrow> ws) lines
                else if keyword \<in> {''COPY'', ''ADD''} then copy_heredocs keyword options arguments lines
                else Inr ([], lines))
               (\<lambda>(heredocs, rest).
                 if keyword \<in> {''COPY'', ''ADD''}
                   \<and> (case exec_form of None \<Rightarrow> length (blank_split arguments) | Some items \<Rightarrow> length items) < 2
                 then Inl (ValueError (keyword @ '' needs a source and a destination.''))
                 else Inr (\<lparr>ii_keyword = keyword, ii_arguments = arguments, ii_options = options,
                   ii_exec_form = exec_form, ii_heredocs = heredocs\<rparr>, rest))))"

section \<open>Lines\<close>

text \<open>\<open>_continuation\<close>: the line without a final backslash, and whether there was one.\<close>

definition line_continuation :: "string \<Rightarrow> string \<times> bool" where
  "line_continuation line =
     (let t = rev (dropWhile is_blank (rev line)) in
      if t \<noteq> [] \<and> last t = CHR 0x5C then (butlast t, True) else (line, False))"

fun join_continued :: "string \<Rightarrow> string list \<Rightarrow> (string \<times> string list) result" where
  "join_continued logical [] = Inl (ValueError ''The last image instruction ends with a line continuation.'')"
| "join_continued logical (line # lines) =
     (let bare = dropWhile is_blank line in
      if bare = [] \<or> hd bare = CHR ''#'' then join_continued logical lines
      else let (piece, continued) = line_continuation line in
        if continued then join_continued (logical @ piece) lines else Inr (logical @ piece, lines))"

definition logical_line :: "string \<Rightarrow> string list \<Rightarrow> (string \<times> string list) result" where
  "logical_line first lines =
     (let (piece, continued) = line_continuation first in
      if continued then join_continued piece lines else Inr (piece, lines))"

lemma bind_result_cong [fundef_cong]:
  "r = r' \<Longrightarrow> (\<And>x. r' = Inr x \<Longrightarrow> f x = g x) \<Longrightarrow> bind_result r f = bind_result r' g"
  by (cases r) (auto simp: bind_result_def)

lemma join_lines_length: "join_continued logical ls = Inr (l, rest) \<Longrightarrow> length rest \<le> length ls"
  by (induction ls arbitrary: logical)
    (fastforce simp: Let_def split: if_splits prod.splits simp del: dropWhile_eq_Nil_conv)+

lemma logical_line_length: "logical_line first ls = Inr (l, rest) \<Longrightarrow> length rest \<le> length ls"
  by (auto simp: logical_line_def join_lines_length split: prod.splits if_splits)

lemma find_heredoc_length: "find_heredoc w n c body ls = Inr (h, rest) \<Longrightarrow> length rest < length ls"
  by (induction w n c body ls rule: find_heredoc.induct) (auto split: if_splits)

lemma run_heredocs_length: "run_heredocs ws ls = Inr (hs, rest) \<Longrightarrow> length rest \<le> length ls"
proof (induction ws ls arbitrary: hs rest rule: run_heredocs.induct)
  case (2 raw v ws lines)
  then show ?case
    by (auto simp: result_simps split: option.splits list.splits prod.splits if_splits
        dest!: find_heredoc_length) (metis le_trans less_imp_le_nat)+
qed simp

lemma copy_heredoc_words_length:
  "copy_heredoc_words k ws ls = Inr (hs, rest) \<Longrightarrow> length rest \<le> length ls"
proof (induction k ws ls arbitrary: hs rest rule: copy_heredoc_words.induct)
  case (2 keyword w ws lines)
  then show ?case
    by (auto simp: result_simps split: option.splits prod.splits if_splits
        dest!: find_heredoc_length) (metis le_trans less_imp_le_nat)+
qed simp

lemma image_instruction_length:
  "image_instruction_of logical ls = Inr (i, rest) \<Longrightarrow> length rest \<le> length ls"
  by (auto simp: image_instruction_of_def copy_heredocs_def result_simps Let_def run_heredocs_length
      copy_heredoc_words_length split: if_splits prod.splits)

function parse_lines :: "string list \<Rightarrow> image_instruction list result" where
  "parse_lines [] = Inr []"
| "parse_lines (line # lines) =
     (let first = dropWhile is_blank line in
      if first = [] \<or> hd first = CHR ''#'' then parse_lines lines
      else bind_result (logical_line first lines) (\<lambda>(logical, rest).
        bind_result (image_instruction_of (strip_blanks logical) rest) (\<lambda>(instruction, rest').
          bind_result (parse_lines rest') (\<lambda>instructions. Inr (instruction # instructions)))))"
  by pat_completeness auto
termination
  by (relation "measure length")
    (auto dest!: logical_line_length image_instruction_length)

definition parse_image_instructions :: "string \<Rightarrow> image_instruction list result" where
  "parse_image_instructions text =
     (if list_ex (\<lambda>c. is_control c \<and> c \<notin> set [CHR 0x09, CHR 0x0A]) text
      then Inl (ValueError ''Image instructions must not contain control characters.'')
      else parse_lines (split_on (CHR 0x0A) text))"

end
