(* ===== verification/Sandbox_Policies.thy ===== *)
theory Sandbox_Policies
  imports Command_Guard Image_Instructions Wire_Models
begin

text \<open>
  Sandbox policies (\<open>tth-types/src/tth_types/sandbox.py\<close>): the validators of the public contract, and the
  owner-scoped store of immutable revisions (\<open>src/talktoharnesses/django/sandbox_policies.py\<close>). The
  validators take the fields as they were sent and give them as they are kept; of several errors pydantic
  collects the first one is given. A validation error is a \<open>ValueError\<close>.
\<close>

section \<open>Rules\<close>

datatype (plugins only: code size) http_method = METHOD_GET | METHOD_HEAD | METHOD_POST

fun http_method_value :: "http_method \<Rightarrow> string" where
  "http_method_value METHOD_GET = ''GET''"
| "http_method_value METHOD_HEAD = ''HEAD''"
| "http_method_value METHOD_POST = ''POST''"

record egress_rule =
  egr_host :: string
  egr_path :: string
  egr_methods :: "http_method list"

record sandbox_policy =
  spo_project_root :: string
  spo_read_only_roots :: "string list"
  spo_egress :: "egress_rule list"
  spo_providers :: "harness_kind list"
  spo_command_rules :: "command_rule list"
  spo_image_dockerfile :: "string option"

record sandbox_policy_revision =
  spv_ref :: sandbox_policy_ref
  spv_policy :: sandbox_policy
  spv_repository_directory :: "string option"

definition ends_with :: "'a list \<Rightarrow> 'a list \<Rightarrow> bool" where
  "ends_with suffix s = starts_with (rev suffix) (rev s)"

definition host_char :: "char \<Rightarrow> bool" where
  "host_char c \<longleftrightarrow> is_lower c \<or> is_digit c"

text \<open>\<open>[a-z0-9](?:[a-z0-9.-]*[a-z0-9])?\<close>, matched in full.\<close>

definition host_name :: "string \<Rightarrow> bool" where
  "host_name s \<longleftrightarrow> s \<noteq> [] \<and> host_char (hd s) \<and> host_char (last s)
     \<and> list_all (\<lambda>c. host_char c \<or> c = CHR ''.'' \<or> c = CHR ''-'') s"

text \<open>
  \<open>ipaddress.ip_address\<close> accepts a host of these characters exactly when it is a dotted quad; an IPv6
  address has a colon.
\<close>

definition octet :: "string \<Rightarrow> bool" where
  "octet s \<longleftrightarrow> s \<noteq> [] \<and> length s \<le> 3 \<and> list_all is_digit s \<and> (s = ''0'' \<or> hd s \<noteq> CHR ''0'')
     \<and> foldl (\<lambda>n c. n * 10 + (char_nat c - 48)) 0 s \<le> 255"

definition dotted_quad :: "string \<Rightarrow> bool" where
  "dotted_quad s \<longleftrightarrow> (let parts = split_on (CHR ''.'') s in length parts = 4 \<and> list_all octet parts)"

definition public_hostname :: "string \<Rightarrow> string result" where
  "public_hostname value =
     (let v = rstrip_chars ''.'' (map latin1_lower value) in
      if \<not> host_name v then Inl (ValueError ''Use an exact hostname, without wildcards, ports, or URLs.'')
      else if CHR ''.'' \<notin> set v \<or> list_ex (\<lambda>p. p = [] \<or> length p > 63) (split_on (CHR ''.'') v)
      then Inl (ValueError ''Use a public fully qualified hostname.'')
      else if dotted_quad v then Inl (ValueError ''IP literals are not permitted in egress rules.'')
      else if list_ex (\<lambda>e. ends_with e v) [''.localhost'', ''.local'', ''.internal'', ''.invalid'']
      then Inl (ValueError ''Local hostnames are not permitted in egress rules.'')
      else Inr v)"

text \<open>
  \<open>urlsplit\<close> of a path of one leading slash, which has neither scheme nor network location: tabs and line
  ends are removed, the fragment starts at the first \<open>#\<close>, the query at the first \<open>?\<close> before it.
\<close>

definition url_clean :: "string \<Rightarrow> string" where
  "url_clean s = filter (\<lambda>c. c \<notin> set [CHR 0x09, CHR 0x0A, CHR 0x0D]) s"

definition before_char :: "char \<Rightarrow> string \<Rightarrow> string" where
  "before_char c s = takeWhile (\<lambda>x. x \<noteq> c) s"

definition after_char :: "char \<Rightarrow> string \<Rightarrow> string" where
  "after_char c s = drop 1 (dropWhile (\<lambda>x. x \<noteq> c) s)"

definition egress_path :: "string \<Rightarrow> string result" where
  "egress_path value =
     (let u = url_clean value; fragment = after_char (CHR ''#'') u;
          query = after_char (CHR ''?'') (before_char (CHR ''#'') u)
      in if \<not> starts_with ''/'' value \<or> starts_with ''//'' value \<or> query \<noteq> [] \<or> fragment \<noteq> []
           \<or> CHR ''%'' \<in> set value \<or> CHR 0x5C \<in> set value \<or> ''..'' \<in> set (split_on (CHR ''/'') value)
         then Inl (ValueError ''Use an absolute URL path without encoding, query, or traversal.'')
         else Inr value)"

definition validate_egress_rule :: "egress_rule \<Rightarrow> egress_rule result" where
  "validate_egress_rule r =
     bind_result (public_hostname (egr_host r)) (\<lambda>host.
     bind_result (egress_path (egr_path r)) (\<lambda>path.
       if egr_methods r = [] \<or> \<not> distinct (egr_methods r)
       then Inl (ValueError ''Choose at least one method, without duplicates.'')
       else Inr \<lparr>egr_host = host, egr_path = path, egr_methods = egr_methods r\<rparr>))"

definition validate_command_rule :: "command_rule \<Rightarrow> command_rule result" where
  "validate_command_rule r =
     (if crule_argv r = [] then Inl (ValueError ''Tuple should have at least 1 item after validation, not 0'')
      else if list_ex (\<lambda>a. a = [] \<or> CHR 0x00 \<in> set a) (crule_argv r)
      then Inl (ValueError ''Command arguments must be nonempty and contain no NUL.'')
      else Inr r)"

definition workspace_path :: "string \<Rightarrow> string result" where
  "workspace_path value =
     (let (_, _, parts) = parse_path POSIX value in
      if \<not> path_is_absolute value \<or> path_str value = ''/'' \<or> ''..'' \<in> set parts
      then Inl (ValueError ''Project root must be an absolute directory below root.'')
      else Inr (path_str value))"

definition IMAGE_DOCKERFILE_MAX_CHARS :: int where
  "IMAGE_DOCKERFILE_MAX_CHARS = 16384"

definition normalized_dockerfile :: "string \<Rightarrow> string option" where
  "normalized_dockerfile value =
     (let text = py_strip (py_replace [CHR 0x0D] [CHR 0x0A] (py_replace [CHR 0x0D, CHR 0x0A] [CHR 0x0A] value))
      in if text = [] then None else Some text)"

definition image_dockerfile :: "string option \<Rightarrow> string option result" where
  "image_dockerfile value =
     (case (case value of None \<Rightarrow> None | Some v \<Rightarrow> normalized_dockerfile v) of
        None \<Rightarrow> Inr None
      | Some text \<Rightarrow>
          if int (length text) > IMAGE_DOCKERFILE_MAX_CHARS
          then Inl (ValueError ''String should have at most 16384 characters'')
          else bind_result (parse_image_instructions text) (\<lambda>_. Inr (Some text)))"

fun map_result :: "('a \<Rightarrow> 'b result) \<Rightarrow> 'a list \<Rightarrow> 'b list result" where
  "map_result f [] = Inr []"
| "map_result f (x # xs) = bind_result (f x) (\<lambda>y. bind_result (map_result f xs) (\<lambda>ys. Inr (y # ys)))"

text \<open>\<open>SandboxPolicy.model_validate\<close>.\<close>

definition validate_policy :: "sandbox_policy \<Rightarrow> sandbox_policy result" where
  "validate_policy p =
     bind_result (workspace_path (spo_project_root p)) (\<lambda>root.
     bind_result (map_result workspace_path (spo_read_only_roots p)) (\<lambda>reads.
     bind_result (map_result validate_egress_rule (spo_egress p)) (\<lambda>egress.
     bind_result (map_result validate_command_rule (spo_command_rules p)) (\<lambda>rules.
     bind_result (image_dockerfile (spo_image_dockerfile p)) (\<lambda>image.
       Inr \<lparr>spo_project_root = root, spo_read_only_roots = reads, spo_egress = egress,
            spo_providers = spo_providers p, spo_command_rules = rules, spo_image_dockerfile = image\<rparr>)))))"

section \<open>The store\<close>

record policy_row =
  por_owner_id :: string
  por_latest_revision :: int

record revision_row =
  rev_rules :: sandbox_policy
  rev_repository_directory :: "string option"

record policy_store =
  pst_policies :: "(uuid, policy_row) dict"
  pst_revisions :: "(uuid \<times> int, revision_row) dict"

definition resolve_policy :: "policy_store \<Rightarrow> uuid \<Rightarrow> int \<Rightarrow> sandbox_policy_revision result" where
  "resolve_policy db policy_id revision =
     (case dict_get (pst_revisions db) (policy_id, revision) of
        None \<Rightarrow> raise_domain NOT_FOUND ''Sandbox policy revision not found.''
      | Some row \<Rightarrow> bind_result (validate_policy (rev_rules row)) (\<lambda>policy.
          Inr \<lparr>spv_ref = \<lparr>spr_id = policy_id, spr_revision = revision\<rparr>, spv_policy = policy,
               spv_repository_directory = rev_repository_directory row\<rparr>))"

definition get_policy :: "policy_store \<Rightarrow> string \<Rightarrow> uuid \<Rightarrow> int option \<Rightarrow> sandbox_policy_revision result" where
  "get_policy db owner_id policy_id revision =
     (case dict_get (pst_policies db) policy_id of
        None \<Rightarrow> raise_domain NOT_FOUND ''Sandbox policy not found.''
      | Some policy \<Rightarrow>
          if por_owner_id policy \<noteq> owner_id then raise_domain NOT_FOUND ''Sandbox policy not found.''
          else resolve_policy db policy_id
            (case revision of None \<Rightarrow> por_latest_revision policy
             | Some r \<Rightarrow> if r = 0 then por_latest_revision policy else r))"

text \<open>
  \<open>_save\<close>: the row is locked by its update, so a revision number is used once. \<open>resolve_strict\<close> and
  \<open>is_dir\<close> are the file system's, \<open>repository_directory\<close> the answer of \<open>git\<close>.
\<close>

definition save_policy ::
  "(string \<Rightarrow> string option) \<Rightarrow> (string \<Rightarrow> bool) \<Rightarrow> (string \<Rightarrow> string option) \<Rightarrow> string \<Rightarrow> uuid
     \<Rightarrow> int \<Rightarrow> sandbox_policy \<Rightarrow> policy_store \<Rightarrow> (sandbox_policy_revision \<times> policy_store) result" where
  "save_policy resolve_strict is_dir repository_directory owner_id policy_id expected_revision policy db =
     (let row = (case dict_get (pst_policies db) policy_id of
            None \<Rightarrow> \<lparr>por_owner_id = owner_id, por_latest_revision = 0\<rparr> | Some r \<Rightarrow> r);
          revision = expected_revision + 1
      in if por_owner_id row \<noteq> owner_id then raise_domain NOT_FOUND ''Sandbox policy not found.''
         else if por_latest_revision row \<noteq> expected_revision
         then raise_domain OPTIMISTIC_CONFLICT ''Sandbox policy changed; reload it.''
         else (case (resolve_strict (spo_project_root policy), those (map resolve_strict (spo_read_only_roots policy))) of
             (Some root, Some reads) \<Rightarrow>
               if \<not> is_dir root then raise_domain SANDBOX_POLICY_DENIED ''Project root is not a directory.''
               else
                 let normalized = policy\<lparr>spo_project_root := root, spo_read_only_roots := reads\<rparr>;
                     repository = repository_directory root
                 in if dict_get (pst_revisions db) (policy_id, revision) \<noteq> None
                    then Inl (IntegrityError ''talktoharnesses_sandboxpolicyrevision'')
                    else Inr (\<lparr>spv_ref = \<lparr>spr_id = policy_id, spr_revision = revision\<rparr>, spv_policy = normalized,
                         spv_repository_directory = repository\<rparr>,
                       db\<lparr>pst_policies := dict_put (pst_policies db) policy_id (row\<lparr>por_latest_revision := revision\<rparr>),
                          pst_revisions := dict_put (pst_revisions db) (policy_id, revision)
                            \<lparr>rev_rules = normalized, rev_repository_directory = repository\<rparr>\<rparr>)
           | _ \<Rightarrow> raise_domain SANDBOX_POLICY_DENIED ''A sandbox mount path does not exist.''))"

end
