(* ===== verification/Approval_Guard.thy ===== *)
theory Approval_Guard
  imports Sandbox_Policies Conversation_State
begin

text \<open>
  The command guard of an approval (\<open>approval_is_blocked\<close> of \<open>django/sandbox_policies.py\<close>): when the
  conversation runs under a sandbox policy, an approval of a command the policy's guard denies is not
  given, whoever gives it.
\<close>

definition requested_argv :: "approval_request_payload \<Rightarrow> string list option" where
  "requested_argv p = (case arp_action p of
     Some (CommandApprovalAction argv) \<Rightarrow> Some argv
   | _ \<Rightarrow> arp_command_args p)"

definition guard_fuel :: "string list \<Rightarrow> nat" where
  "guard_fuel argv = Suc (length (py_join '' '' (map shell_quote argv)))"

definition approval_is_blocked ::
  "(string \<Rightarrow> bash_node list option) \<Rightarrow> policy_store \<Rightarrow> conversation_state \<Rightarrow> uuid \<Rightarrow> bool result" where
  "approval_is_blocked parse db st i =
     (case (st_binding st, dict_get (st_interactions st) i) of
        (Some b, Some x) \<Rightarrow>
          (case (cfg_sandbox_policy (bind_configuration b), inter_request x) of
             (Some ref, ApprovalRequest p) \<Rightarrow>
               (case requested_argv p of
                  None \<Rightarrow> Inr False
                | Some argv \<Rightarrow>
                    bind_result (resolve_policy db (spr_id ref) (spr_revision ref)) (\<lambda>revision.
                    bind_result (check_argv parse (guard_fuel argv) (spo_command_rules (spv_policy revision))
                        (cfg_working_directory (bind_configuration b)) argv) (\<lambda>d.
                      Inr (case d of None \<Rightarrow> True | Some d \<Rightarrow> \<not> cd_allowed d))))
           | _ \<Rightarrow> Inr False)
      | _ \<Rightarrow> Inr False)"

text \<open>
  A command approval the guard blocks is exactly one whose joined command line is not safe.
\<close>

theorem blocked_approval_is_unsafe:
  assumes pieces: "words_are_pieces parse"
    and binding: "st_binding st = Some b" "cfg_sandbox_policy (bind_configuration b) = Some ref"
    and request: "dict_get (st_interactions st) i = Some x" "inter_request x = ApprovalRequest p"
      "requested_argv p = Some argv"
    and revision: "resolve_policy db (spr_id ref) (spr_revision ref) = Inr revision"
    and answer: "approval_is_blocked parse db st i = Inr blocked"
  shows "blocked \<longleftrightarrow> \<not> safe_command parse (spo_command_rules (spv_policy revision))
    (cfg_working_directory (bind_configuration b)) (py_join '' '' (map shell_quote argv))"
proof -
  obtain d where "check_command parse (guard_fuel argv) (spo_command_rules (spv_policy revision))
        (cfg_working_directory (bind_configuration b)) (py_join '' '' (map shell_quote argv)) = Some d"
      "cd_allowed d \<longleftrightarrow> safe_command parse (spo_command_rules (spv_policy revision))
        (cfg_working_directory (bind_configuration b)) (py_join '' '' (map shell_quote argv))"
    using check_command_decides [OF pieces lessI, of "py_join '' '' (map shell_quote argv)"
        "spo_command_rules (spv_policy revision)" "cfg_working_directory (bind_configuration b)"]
    unfolding guard_fuel_def by fastforce
  moreover from binding request revision have "approval_is_blocked parse db st i =
      bind_result (check_argv parse (guard_fuel argv) (spo_command_rules (spv_policy revision))
        (cfg_working_directory (bind_configuration b)) argv) (\<lambda>d. Inr (case d of None \<Rightarrow> True | Some d \<Rightarrow> \<not> cd_allowed d))"
    by (simp add: approval_is_blocked_def)
  with answer have "bind_result (check_argv parse (guard_fuel argv) (spo_command_rules (spv_policy revision))
        (cfg_working_directory (bind_configuration b)) argv)
      (\<lambda>d. Inr (case d of None \<Rightarrow> True | Some d \<Rightarrow> \<not> cd_allowed d)) = Inr blocked" by simp
  then obtain dd where checked: "check_argv parse (guard_fuel argv) (spo_command_rules (spv_policy revision))
        (cfg_working_directory (bind_configuration b)) argv = Inr dd"
      "blocked = (case dd of None \<Rightarrow> True | Some d \<Rightarrow> \<not> cd_allowed d)"
    by (auto simp: bind_result_eq_Inr)
  moreover from checked(1) have "dd = check_command parse (guard_fuel argv) (spo_command_rules (spv_policy revision))
        (cfg_working_directory (bind_configuration b)) (py_join '' '' (map shell_quote argv))"
    unfolding check_argv_def Let_def if_Inl_eq_Inr by (elim conjE) simp
  ultimately show ?thesis by simp
qed

end
