(* ===== verification/Sandbox_Policy_Properties.thy ===== *)
theory Sandbox_Policy_Properties
  imports Sandbox_Policies
begin

text \<open>
  A validated policy validates to itself, so what the store saved can be read back; a revision never
  changes once it is saved. The exception is a project root that resolves to the root directory: the
  validator ran before the path was resolved, the revision is stored, and no read accepts it.
\<close>

section \<open>Accepted hosts\<close>

lemma latin1_lower_host: "host_char c \<or> c = CHR ''.'' \<or> c = CHR ''-'' \<Longrightarrow> latin1_lower c = c"
  by (auto simp: latin1_lower_def host_char_def is_lower_def is_digit_def char_nat_def Let_def)

lemma host_char_dot: "host_char c \<Longrightarrow> c \<noteq> CHR ''.''"
  by (auto simp: host_char_def is_lower_def is_digit_def char_nat_def)

lemma rstrip_id: "s \<noteq> [] \<Longrightarrow> last s \<notin> set cs \<Longrightarrow> rstrip_chars cs s = s"
  by (cases s rule: rev_cases) (simp_all add: rstrip_chars_def)

lemma public_hostname_kept:
  assumes "public_hostname value = Inr h"
  shows "public_hostname h = Inr h"
proof -
  from assms have host: "host_name h" by (auto simp: public_hostname_def Let_def split: if_splits)
  then have "map latin1_lower h = h"
    by (intro map_idI latin1_lower_host) (auto simp: host_name_def list_all_iff)
  moreover have "rstrip_chars ''.'' h = h"
    using host host_char_dot by (intro rstrip_id) (auto simp: host_name_def)
  ultimately show ?thesis using assms by (auto simp: public_hostname_def Let_def split: if_splits)
qed

lemma egress_path_kept: "egress_path value = Inr p \<Longrightarrow> egress_path p = Inr p"
  by (auto simp: egress_path_def Let_def split: if_splits)

lemma egress_rule_kept: "validate_egress_rule r = Inr q \<Longrightarrow> validate_egress_rule q = Inr q"
  unfolding validate_egress_rule_def
  by (auto simp: result_simps public_hostname_kept egress_path_kept split: if_splits)

lemma command_rule_kept: "validate_command_rule r = Inr q \<Longrightarrow> validate_command_rule q = Inr q"
  by (auto simp: validate_command_rule_def split: if_splits)

section \<open>Accepted images\<close>

lemma py_strip_idem: "py_strip (py_strip s) = py_strip s"
proof (cases "py_strip s = []")
  case False
  let ?t = "dropWhile py_isspace s"
  have "rev (py_strip s) = dropWhile py_isspace (rev ?t)" by (simp add: py_strip_def)
  then have last: "dropWhile py_isspace (rev (py_strip s)) = rev (py_strip s)"
    by (metis dropWhile_idem comp_apply)
  have "hd (py_strip s) = hd ?t"
    using False unfolding py_strip_def
    by (metis dropWhile_eq_Nil_conv hd_append2 rev_append rev_is_Nil_conv rev_rev_ident takeWhile_dropWhile_id)
  moreover have "?t \<noteq> []"
  proof
    assume "?t = []"
    then have "py_strip s = []" unfolding py_strip_def by (simp only: rev.simps dropWhile.simps)
    with False show False ..
  qed
  ultimately have "\<not> py_isspace (hd (py_strip s))" using hd_dropWhile by metis
  with False have "dropWhile py_isspace (py_strip s) = py_strip s" by (cases "py_strip s") auto
  with last show ?thesis by (simp add: py_strip_def [of "py_strip s"])
next
  case True
  then show ?thesis by (simp only: True) (simp add: py_strip_def)
qed

lemma py_strip_subset: "set (py_strip s) \<subseteq> set s"
proof
  fix c assume "c \<in> set (py_strip s)"
  then have "c \<in> set (rev (dropWhile py_isspace s))" unfolding py_strip_def using set_dropWhileD by fastforce
  then show "c \<in> set s" using set_dropWhileD by fastforce
qed

lemma py_replace_char: "c \<noteq> d \<Longrightarrow> c \<notin> set (py_replace [c] [d] s)"
proof (induction s)
  case (Cons x s)
  then show ?case by (subst py_replace.simps) auto
qed simp

lemma py_replace_no_char:
  assumes "c \<notin> set s"
  shows "py_replace (c # p) new s = s"
  by (rule py_replace_absent) (use assms in \<open>auto simp: py_in_iff\<close>)

lemma dockerfile_kept:
  assumes "normalized_dockerfile v = Some t"
  shows "normalized_dockerfile t = Some t"
proof -
  let ?u = "py_replace [CHR 0x0D] [CHR 0x0A] (py_replace [CHR 0x0D, CHR 0x0A] [CHR 0x0A] v)"
  from assms have t: "t = py_strip ?u" "t \<noteq> []"
    by (auto simp: normalized_dockerfile_def Let_def split: if_splits)
  have "CHR 0x0D \<notin> set ?u" by (intro py_replace_char) simp
  then have "CHR 0x0D \<notin> set t" using py_strip_subset t by blast
  then show ?thesis
    using t by (simp add: normalized_dockerfile_def py_replace_no_char py_strip_idem)
qed

lemma image_kept: "image_dockerfile v = Inr q \<Longrightarrow> image_dockerfile q = Inr q"
  by (auto simp: image_dockerfile_def result_simps dockerfile_kept split: option.splits if_splits)

section \<open>Reading back\<close>

text \<open>What \<open>Path.resolve(strict=True)\<close> documents: an absolute path, printed as it is, without \<open>..\<close>.\<close>

definition resolves_absolute :: "(string \<Rightarrow> string option) \<Rightarrow> bool" where
  "resolves_absolute resolve_strict \<longleftrightarrow> (\<forall>p r. resolve_strict p = Some r \<longrightarrow>
     path_is_absolute r \<and> path_str r = r \<and> ''..'' \<notin> set (snd (snd (parse_path POSIX r))))"

lemma resolved_workspace:
  "resolves_absolute resolve \<Longrightarrow> resolve p = Some r \<Longrightarrow> r \<noteq> ''/'' \<Longrightarrow> workspace_path r = Inr r"
  unfolding resolves_absolute_def workspace_path_def by (auto simp: case_prod_beta)

lemma map_result_kept:
  "map_result f xs = Inr ys \<Longrightarrow> (\<And>x y. f x = Inr y \<Longrightarrow> f y = Inr y) \<Longrightarrow> map_result f ys = Inr ys"
  by (induction xs arbitrary: ys) (auto simp: result_simps)

lemma map_result_fixed: "\<forall>x \<in> set xs. f x = Inr x \<Longrightarrow> map_result f xs = Inr xs"
  by (induction xs) auto

lemma those_map_resolved: "those (map f xs) = Some ys \<Longrightarrow> y \<in> set ys \<Longrightarrow> \<exists>x. f x = Some y"
  by (induction xs arbitrary: ys) (auto split: option.splits)

lemma validate_policy_parts:
  assumes "validate_policy raw = Inr policy"
  shows "map_result validate_egress_rule (spo_egress raw) = Inr (spo_egress policy)"
    and "map_result validate_command_rule (spo_command_rules raw) = Inr (spo_command_rules policy)"
    and "image_dockerfile (spo_image_dockerfile raw) = Inr (spo_image_dockerfile policy)"
proof -
  from assms obtain root reads egress rules image where
    "map_result validate_egress_rule (spo_egress raw) = Inr egress"
    "map_result validate_command_rule (spo_command_rules raw) = Inr rules"
    "image_dockerfile (spo_image_dockerfile raw) = Inr image"
    "policy = \<lparr>spo_project_root = root, spo_read_only_roots = reads, spo_egress = egress,
       spo_providers = spo_providers raw, spo_command_rules = rules, spo_image_dockerfile = image\<rparr>"
    unfolding validate_policy_def bind_result_eq_Inr by blast
  then show "map_result validate_egress_rule (spo_egress raw) = Inr (spo_egress policy)"
    "map_result validate_command_rule (spo_command_rules raw) = Inr (spo_command_rules policy)"
    "image_dockerfile (spo_image_dockerfile raw) = Inr (spo_image_dockerfile policy)" by simp_all
qed

lemma resolved_policy_kept:
  assumes "validate_policy raw = Inr policy" "resolves_absolute resolve"
    and "resolve (spo_project_root policy) = Some root" "root \<noteq> ''/''"
    and "those (map resolve (spo_read_only_roots policy)) = Some reads" "''/'' \<notin> set reads"
  shows "validate_policy (policy\<lparr>spo_project_root := root, spo_read_only_roots := reads\<rparr>)
    = Inr (policy\<lparr>spo_project_root := root, spo_read_only_roots := reads\<rparr>)"
proof -
  have "map_result workspace_path reads = Inr reads"
  proof (intro map_result_fixed ballI)
    fix r assume r: "r \<in> set reads"
    from those_map_resolved [OF assms(5) r] obtain x where x: "resolve x = Some r" ..
    from r assms(6) have "r \<noteq> ''/''" by metis
    with resolved_workspace [OF assms(2) x] show "workspace_path r = Inr r" .
  qed
  moreover have "workspace_path root = Inr root" by (rule resolved_workspace [OF assms(2-4)])
  moreover have "map_result validate_egress_rule (spo_egress policy) = Inr (spo_egress policy)"
    by (rule map_result_kept [OF validate_policy_parts(1) [OF assms(1)]]) (rule egress_rule_kept)
  moreover have "map_result validate_command_rule (spo_command_rules policy) = Inr (spo_command_rules policy)"
    by (rule map_result_kept [OF validate_policy_parts(2) [OF assms(1)]]) (rule command_rule_kept)
  moreover have "image_dockerfile (spo_image_dockerfile policy) = Inr (spo_image_dockerfile policy)"
    by (rule image_kept [OF validate_policy_parts(3) [OF assms(1)]])
  ultimately show ?thesis by (simp add: validate_policy_def)
qed

section \<open>Later saves\<close>

text \<open>The store after any number of further saves by anyone.\<close>

inductive saves_after :: "policy_store \<Rightarrow> policy_store \<Rightarrow> bool" where
  none: "saves_after db db"
| save: "saves_after db db1 \<Longrightarrow> save_policy resolve_strict is_dir git owner_id i n p db1 = Inr (r, db2)
    \<Longrightarrow> saves_after db db2"

lemma save_frame:
  assumes "save_policy resolve_strict is_dir git owner_id i n p db = Inr (r, db')"
  shows "dict_get (pst_revisions db) k = Some row \<Longrightarrow> dict_get (pst_revisions db') k = Some row"
    and "dict_get (pst_policies db) j = Some q \<Longrightarrow>
      \<exists>q'. dict_get (pst_policies db') j = Some q' \<and> por_owner_id q' = por_owner_id q"
  using assms by (auto simp: save_policy_def Let_def dict_simps split: if_splits option.splits)

lemma saves_after_frame:
  assumes "saves_after db db'" "dict_get (pst_revisions db) k = Some row" "dict_get (pst_policies db) j = Some q"
  shows "dict_get (pst_revisions db') k = Some row
    \<and> (\<exists>q'. dict_get (pst_policies db') j = Some q' \<and> por_owner_id q' = por_owner_id q)"
  using assms
proof (induction rule: saves_after.induct)
  case (save db db1 resolve_strict is_dir git owner_id i n p r db2)
  then show ?case using save_frame [OF save.hyps(2)] by metis
qed auto

lemma save_row:
  assumes "save_policy resolve_strict is_dir git owner_id i n p db = Inr (sv, db')"
  obtains root reads row where
    "resolve_strict (spo_project_root p) = Some root"
    "those (map resolve_strict (spo_read_only_roots p)) = Some reads"
    "spv_policy sv = p\<lparr>spo_project_root := root, spo_read_only_roots := reads\<rparr>"
    "spv_ref sv = \<lparr>spr_id = i, spr_revision = n + 1\<rparr>"
    "dict_get (pst_revisions db') (i, n + 1)
       = Some \<lparr>rev_rules = spv_policy sv, rev_repository_directory = spv_repository_directory sv\<rparr>"
    "dict_get (pst_policies db') i = Some row" "por_owner_id row = owner_id" "por_latest_revision row = n + 1"
proof -
  from assms obtain root reads where
    "resolve_strict (spo_project_root p) = Some root"
    "those (map resolve_strict (spo_read_only_roots p)) = Some reads"
    by (auto simp: save_policy_def Let_def split: if_splits option.splits)
  moreover from this assms have
    "spv_policy sv = p\<lparr>spo_project_root := root, spo_read_only_roots := reads\<rparr>"
    "spv_ref sv = \<lparr>spr_id = i, spr_revision = n + 1\<rparr>"
    "dict_get (pst_revisions db') (i, n + 1)
       = Some \<lparr>rev_rules = spv_policy sv, rev_repository_directory = spv_repository_directory sv\<rparr>"
    "\<exists>row. dict_get (pst_policies db') i = Some row \<and> por_owner_id row = owner_id \<and> por_latest_revision row = n + 1"
    by (auto simp: save_policy_def Let_def dict_simps split: if_splits option.splits)
  ultimately show ?thesis using that by blast
qed

text \<open>C39: Whatever is saved later, by anyone, the owner reads a saved revision back exactly as the save
  returned it, as long as no mounted path resolved to the root directory; right after the save it is also
  the latest one. Paths are assumed to resolve as \<open>Path.resolve\<close> documents.\<close>

theorem saved_policy_reads_back:
  assumes "validate_policy raw = Inr policy" and "0 \<le> expected" and "resolves_absolute resolve_strict"
    and saved: "save_policy resolve_strict is_dir git owner_id i expected policy db = Inr (sv, db')"
    and "spo_project_root (spv_policy sv) \<noteq> ''/''" and "''/'' \<notin> set (spo_read_only_roots (spv_policy sv))"
    and later: "saves_after db' db''"
  shows "get_policy db'' owner_id i (Some (spr_revision (spv_ref sv))) = Inr sv
    \<and> get_policy db' owner_id i None = Inr sv"
proof -
  from saved obtain root reads row where sv:
    "resolve_strict (spo_project_root policy) = Some root"
    "those (map resolve_strict (spo_read_only_roots policy)) = Some reads"
    "spv_policy sv = policy\<lparr>spo_project_root := root, spo_read_only_roots := reads\<rparr>"
    "spv_ref sv = \<lparr>spr_id = i, spr_revision = expected + 1\<rparr>"
    and stored: "dict_get (pst_revisions db') (i, expected + 1)
       = Some \<lparr>rev_rules = spv_policy sv, rev_repository_directory = spv_repository_directory sv\<rparr>"
      "dict_get (pst_policies db') i = Some row" "por_owner_id row = owner_id" "por_latest_revision row = expected + 1"
    by (rule save_row)
  have kept: "validate_policy (spv_policy sv) = Inr (spv_policy sv)"
    using resolved_policy_kept [OF assms(1,3) sv(1) _ sv(2)] assms(5,6) sv(3) by simp
  have resolved: "resolve_policy d i (expected + 1) = Inr sv"
    if "dict_get (pst_revisions d) (i, expected + 1)
      = Some \<lparr>rev_rules = spv_policy sv, rev_repository_directory = spv_repository_directory sv\<rparr>" for d
    using that kept sv(4) by (simp add: resolve_policy_def)
  from saves_after_frame [OF later stored(1,2)] stored(3) resolved
  have "get_policy db'' owner_id i (Some (expected + 1)) = Inr sv"
    using assms(2) by (auto simp: get_policy_def)
  moreover have "get_policy db' owner_id i None = Inr sv"
    using stored resolved [OF stored(1)] by (simp add: get_policy_def)
  ultimately show ?thesis using sv(4) by simp
qed

section \<open>Concrete policies\<close>

definition plain_policy :: "string \<Rightarrow> sandbox_policy" where
  "plain_policy root = \<lparr>spo_project_root = root, spo_read_only_roots = [], spo_egress = [],
     spo_providers = [CLAUDE], spo_command_rules = [], spo_image_dockerfile = None\<rparr>"

definition one_directory :: "string \<Rightarrow> string \<Rightarrow> string \<Rightarrow> string option" where
  "one_directory written resolved p = (if p = written then Some resolved else None)"

definition empty_policies :: policy_store where
  "empty_policies = \<lparr>pst_policies = [], pst_revisions = []\<rparr>"

lemma plain_policy_valid: "workspace_path root = Inr root \<Longrightarrow> validate_policy (plain_policy root) = Inr (plain_policy root)"
  by (simp add: validate_policy_def plain_policy_def image_dockerfile_def)

lemma save_plain_policy:
  "save_policy (one_directory root resolved) (\<lambda>_. True) (\<lambda>_. None) ''owner'' (Uuid 1) 0 (plain_policy root) empty_policies
     = Inr (\<lparr>spv_ref = \<lparr>spr_id = Uuid 1, spr_revision = 1\<rparr>, spv_policy = plain_policy resolved,
          spv_repository_directory = None\<rparr>,
        \<lparr>pst_policies = [(Uuid 1, \<lparr>por_owner_id = ''owner'', por_latest_revision = 1\<rparr>)],
         pst_revisions = [((Uuid 1, 1), \<lparr>rev_rules = plain_policy resolved, rev_repository_directory = None\<rparr>)]\<rparr>)"
  by (simp add: save_policy_def plain_policy_def one_directory_def empty_policies_def Let_def)

theorem saved_policy_reads_back_witness:
  "\<exists>sv db. get_policy db ''owner'' (Uuid 1) (Some (spr_revision (spv_ref sv))) = Inr sv
    \<and> get_policy db ''owner'' (Uuid 1) None = Inr sv"
proof -
  have path: "workspace_path ''/repo'' = Inr ''/repo''" by code_simp
  have "path_is_absolute ''/repo'' \<and> path_str ''/repo'' = ''/repo'' \<and> ''..'' \<notin> set (snd (snd (parse_path POSIX ''/repo'')))"
    by code_simp
  then have resolves: "resolves_absolute (one_directory ''/repo'' ''/repo'')"
    by (auto simp: resolves_absolute_def one_directory_def)
  note reads = saved_policy_reads_back [OF plain_policy_valid [OF path] order_refl resolves save_plain_policy _ _ saves_after.none]
  show ?thesis by (intro exI) (rule reads; simp add: plain_policy_def)
qed

text \<open>
  The validator refuses the root directory but not \<open>//\<close>, which resolves to it (as a link to it does):
  the revision is saved, becomes the latest, and cannot be read.
\<close>

lemma double_slash_root_unreadable:
  "workspace_path ''//'' = Inr ''//''"
  "\<exists>sv db. save_policy (one_directory ''//'' ''/'') (\<lambda>_. True) (\<lambda>_. None) ''owner'' (Uuid 1) 0
       (plain_policy ''//'') empty_policies = Inr (sv, db)
     \<and> get_policy db ''owner'' (Uuid 1) None
       = Inl (ValueError ''Project root must be an absolute directory below root.'')"
proof -
  show "workspace_path ''//'' = Inr ''//''" by code_simp
  have "workspace_path ''/'' = Inl (ValueError ''Project root must be an absolute directory below root.'')"
    by code_simp
  then have "validate_policy (plain_policy ''/'')
      = Inl (ValueError ''Project root must be an absolute directory below root.'')"
    by (simp add: validate_policy_def plain_policy_def)
  then show "\<exists>sv db. save_policy (one_directory ''//'' ''/'') (\<lambda>_. True) (\<lambda>_. None) ''owner'' (Uuid 1) 0
       (plain_policy ''//'') empty_policies = Inr (sv, db)
     \<and> get_policy db ''owner'' (Uuid 1) None
       = Inl (ValueError ''Project root must be an absolute directory below root.'')"
    unfolding save_plain_policy by (simp add: get_policy_def resolve_policy_def)
qed

end
