(* ===== verification/Gateway_Routes.thy ===== *)
theory Gateway_Routes
  imports Sandbox_Policies Sse
begin

text \<open>
  Request routing of the sandbox gateway (\<open>src/talktoharnesses/gateway/routes.py\<close>): the decoded path of a
  request, the provider routes with their table, and the egress rules of a policy. A request path is a
  text of code points, because its percent escapes are decoded as UTF-8. \<open>netloc_valid\<close> stands for the
  checks \<open>urlsplit\<close> makes of a bracketed or non-ASCII network location.
\<close>

section \<open>\<open>urllib.parse\<close>\<close>

text \<open>\<open>bytes.decode("utf-8", "replace")\<close>: each maximal ill-formed part becomes U+FFFD.\<close>

definition second_byte :: "byte \<Rightarrow> byte \<Rightarrow> bool" where
  "second_byte b c \<longleftrightarrow> continuation c \<and> (b = 224 \<longrightarrow> 160 \<le> c) \<and> (b = 237 \<longrightarrow> c < 160)
     \<and> (b = 240 \<longrightarrow> 144 \<le> c) \<and> (b = 244 \<longrightarrow> c < 144)"

definition ill_formed_length :: "byte list \<Rightarrow> nat" where
  "ill_formed_length bs = (case bs of
     b # c # rest \<Rightarrow>
       if 224 \<le> b \<and> b < 245 \<and> second_byte b c then
         (if 240 \<le> b then (case rest of d # _ \<Rightarrow> if continuation d then 3 else 2 | [] \<Rightarrow> 2) else 2)
       else 1
   | _ \<Rightarrow> 1)"

lemma ill_formed_length_pos [simp]: "0 < ill_formed_length bs"
  by (simp add: ill_formed_length_def split: list.split)

function utf8_replace :: "byte list \<Rightarrow> utext" where
  "utf8_replace bs =
     (if bs = [] then []
      else case utf8_next bs of
        Some (c, r) \<Rightarrow> c # utf8_replace r
      | None \<Rightarrow> 65533 # utf8_replace (drop (ill_formed_length bs) bs))"
  by pat_completeness auto
termination
  by (relation "measure length") (auto dest: utf8_next_shorter)

declare utf8_replace.simps [simp del]

definition hex_code :: "code_point \<Rightarrow> nat option" where
  "hex_code c = (if c < 128 then hex_value (char_of c) else None)"

text \<open>\<open>unquote_to_bytes\<close> of an ASCII text.\<close>

function percent_bytes :: "utext \<Rightarrow> byte list" where
  "percent_bytes [] = []"
| "percent_bytes (c # s) =
     (if c = 37 \<and> 2 \<le> length s then
        (case (hex_code (s ! 0), hex_code (s ! 1)) of
           (Some a, Some b) \<Rightarrow> (a * 16 + b) # percent_bytes (drop 2 s)
         | _ \<Rightarrow> c # percent_bytes s)
      else c # percent_bytes s)"
  by pat_completeness auto
termination
  by (relation "measure length") auto

function unquote :: "utext \<Rightarrow> utext" where
  "unquote [] = []"
| "unquote (c # s) =
     (if c \<ge> 128 then c # unquote s
      else utf8_replace (percent_bytes (takeWhile (\<lambda>x. x < 128) (c # s))) @ unquote (dropWhile (\<lambda>x. x < 128) (c # s)))"
  by pat_completeness auto
termination
  by (relation "measure length") (auto simp: length_dropWhile_le le_imp_less_Suc)

fun usplit :: "code_point \<Rightarrow> utext \<Rightarrow> utext list" where
  "usplit sep [] = [[]]"
| "usplit sep (c # s) = (if c = sep then [] # usplit sep s else (c # hd (usplit sep s)) # tl (usplit sep s))"

definition ascii_alpha :: "code_point \<Rightarrow> bool" where
  "ascii_alpha c \<longleftrightarrow> 65 \<le> c \<and> c \<le> 90 \<or> 97 \<le> c \<and> c \<le> 122"

definition scheme_char :: "code_point \<Rightarrow> bool" where
  "scheme_char c \<longleftrightarrow> ascii_alpha c \<or> 48 \<le> c \<and> c \<le> 57 \<or> c \<in> {43, 45, 46}"

text \<open>\<open>urlsplit(raw).path\<close>.\<close>

definition without_scheme :: "utext \<Rightarrow> utext" where
  "without_scheme url =
     (let scheme = takeWhile (\<lambda>c. c \<noteq> 58) url; rest = dropWhile (\<lambda>c. c \<noteq> 58) url in
      if rest \<noteq> [] \<and> scheme \<noteq> [] \<and> ascii_alpha (hd scheme) \<and> list_all scheme_char scheme
      then tl rest else url)"

definition urlsplit_path :: "(utext \<Rightarrow> bool) \<Rightarrow> utext \<Rightarrow> utext result" where
  "urlsplit_path netloc_valid raw =
     (let url = without_scheme (filter (\<lambda>c. c \<notin> {9, 10, 13}) (dropWhile (\<lambda>c. c \<le> 32) raw));
          path_of = (\<lambda>s. takeWhile (\<lambda>c. c \<noteq> 63) (takeWhile (\<lambda>c. c \<noteq> 35) s))
      in if take 2 url = [47, 47] then
           (let netloc = takeWhile (\<lambda>c. c \<notin> {47, 63, 35}) (drop 2 url) in
            if (91 \<in> set netloc) \<noteq> (93 \<in> set netloc) then Inl (ValueError ''Invalid IPv6 URL'')
            else if \<not> netloc_valid netloc then Inl (ValueError ''netloc'')
            else Inr (path_of (dropWhile (\<lambda>c. c \<notin> {47, 63, 35}) (drop 2 url))))
         else Inr (path_of url))"

section \<open>Paths and hosts\<close>

definition normalized_path :: "(utext \<Rightarrow> bool) \<Rightarrow> utext \<Rightarrow> utext option result" where
  "normalized_path netloc_valid raw = bind_result (urlsplit_path netloc_valid raw) (\<lambda>path.
     let decoded = unquote path in
     if 37 \<in> set decoded \<or> 92 \<in> set decoded \<or> [46, 46] \<in> set (usplit 47 decoded) \<or> 0 \<in> set decoded
     then Inr None
     else if take 1 decoded \<noteq> [47] \<or> take 2 decoded = [47, 47] then Inr None
     else Inr (Some decoded))"

definition plain_host :: "string \<Rightarrow> string" where
  "plain_host host = rstrip_chars ''.'' (map latin1_lower host)"

definition remove_suffix :: "string \<Rightarrow> string \<Rightarrow> string" where
  "remove_suffix suffix s = (if ends_with suffix s then take (length s - length suffix) s else s)"

definition same_host :: "string \<Rightarrow> string \<Rightarrow> bool" where
  "same_host authority host \<longleftrightarrow> is_ascii authority
     \<and> rstrip_chars ''.'' (remove_suffix '':443'' (map latin1_lower authority)) = plain_host host"

definition matches :: "egress_rule \<Rightarrow> string \<Rightarrow> utext \<Rightarrow> string \<Rightarrow> bool" where
  "matches rule host path http_verb \<longleftrightarrow>
     (let prefix = utext (rstrip_chars ''/'' (egr_path rule)) in
      plain_host host = egr_host rule \<and> http_verb \<in> set (map http_method_value (egr_methods rule))
      \<and> (path = prefix \<or> starts_with (prefix @ [47]) path))"

section \<open>Provider routes\<close>

datatype (plugins only: code size) token_exchange = EXCHANGE_REFRESH | EXCHANGE_CURSOR_LOGIN

record provider_route =
  pvr_provider :: string
  pvr_rule :: egress_rule
  pvr_exchange :: "token_exchange option"

definition provider_paths :: "string \<Rightarrow> string \<Rightarrow> string list \<Rightarrow> provider_route list" where
  "provider_paths provider host paths = map (\<lambda>path. \<lparr>pvr_provider = provider,
     pvr_rule = \<lparr>egr_host = host, egr_path = path, egr_methods = [METHOD_GET, METHOD_HEAD, METHOD_POST]\<rparr>,
     pvr_exchange = None\<rparr>) paths"

definition read_route :: "string \<Rightarrow> string \<Rightarrow> string \<Rightarrow> provider_route" where
  "read_route provider host path = \<lparr>pvr_provider = provider,
     pvr_rule = \<lparr>egr_host = host, egr_path = path, egr_methods = [METHOD_GET, METHOD_HEAD]\<rparr>, pvr_exchange = None\<rparr>"

definition exchange_route :: "string \<Rightarrow> string \<Rightarrow> string \<Rightarrow> token_exchange \<Rightarrow> provider_route" where
  "exchange_route provider host path exchange = \<lparr>pvr_provider = provider,
     pvr_rule = \<lparr>egr_host = host, egr_path = path, egr_methods = [METHOD_POST]\<rparr>, pvr_exchange = Some exchange\<rparr>"

definition GATEWAY_HOST :: string where "GATEWAY_HOST = ''tth-gateway.invalid''"
definition GATEWAY_PORT :: int where "GATEWAY_PORT = 8080"
definition META_API_HOST :: string where "META_API_HOST = ''api.meta.ai''"
definition META_GATEWAY_BASE :: string where
  "META_GATEWAY_BASE = ''http://'' @ GATEWAY_HOST @ '':'' @ int_str GATEWAY_PORT @ ''/v1''"
definition MCP_ROUTE_PREFIX :: string where "MCP_ROUTE_PREFIX = ''/__tth/mcp/''"
definition MCP_RELAY_PORT :: int where "MCP_RELAY_PORT = 8081"

definition cursor_paths :: "string list" where
  "cursor_paths = [''/aiserver.v1.AiService/GetUsableModels'', ''/aiserver.v1.AiService/AvailableModels'',
     ''/aiserver.v1.AiService/GetDefaultModelForCli'', ''/aiserver.v1.AiService/StreamChat'',
     ''/aiserver.v1.AiService/StreamChatComposer'', ''/aiserver.v1.ServerConfigService/GetServerConfig'',
     ''/aiserver.v1.DashboardService/GetUserPrivacyMode'', ''/aiserver.v1.DashboardService/GetMe'',
     ''/aiserver.v1.DashboardService/GetManagedSkills'', ''/aiserver.v1.DashboardService/GetGlobalCommands'',
     ''/aiserver.v1.AnalyticsService/BootstrapStatsig'', ''/agent.v1.AgentService/Run'',
     ''/agent.v1.AgentService/RunSSE'', ''/auth/full_stripe_profile'']"

definition provider_routes :: "provider_route list" where
  "provider_routes =
     provider_paths ''openai'' ''api.openai.com'' [''/v1/responses'', ''/v1/chat/completions'', ''/v1/models'']
     @ provider_paths ''openai'' ''chatgpt.com'' [''/backend-api/codex/responses'', ''/backend-api/codex/models'',
         ''/backend-api/wham/usage'', ''/backend-api/wham/accounts/check'']
     @ [read_route ''openai'' ''chatgpt.com'' ''/backend-api/wham/settings/user'',
        exchange_route ''openai'' ''auth.openai.com'' ''/oauth/token'' EXCHANGE_REFRESH]
     @ provider_paths ''anthropic'' ''api.anthropic.com'' [''/v1/messages'', ''/v1/models'', ''/api/oauth/profile'',
         ''/api/oauth/usage'']
     @ map (\<lambda>(host, path). exchange_route ''anthropic'' host path EXCHANGE_REFRESH)
         [(''console.anthropic.com'', ''/v1/oauth/token''), (''platform.claude.com'', ''/v1/oauth/token''),
          (''claude.ai'', ''/api/oauth/token'')]
     @ provider_paths ''xai'' ''api.x.ai'' [''/v1/chat/completions'', ''/v1/responses'', ''/v1/models'']
     @ provider_paths ''xai'' ''cli-chat-proxy.grok.com'' [''/v1/chat/completions'', ''/v1/responses'', ''/v1/models'',
         ''/settings'']
     @ [exchange_route ''xai'' ''auth.x.ai'' ''/oauth2/token'' EXCHANGE_REFRESH]
     @ provider_paths ''xai'' ''auth.x.ai'' [''/.well-known/openid-configuration'']
     @ provider_paths ''cursor'' ''api2.cursor.sh'' cursor_paths
     @ provider_paths ''cursor'' ''api2direct.cursor.sh'' cursor_paths
     @ [exchange_route ''cursor'' ''api2.cursor.sh'' ''/auth/exchange_user_api_key'' EXCHANGE_CURSOR_LOGIN]
     @ provider_paths ''cursor'' ''agentn.global.api5.cursor.sh'' [''/agent.v1.AgentService/Run'',
         ''/agent.v1.AgentService/RunSSE'']
     @ provider_paths ''prime'' ''api.pinference.ai''
         (concat (map (\<lambda>prefix. map (\<lambda>path. prefix @ path) [''/chat/completions'', ''/responses'', ''/models''])
           [''/api/v1'', ''/v1'']))
     @ provider_paths ''opencode'' ''opencode.ai'' [''/zen/v1/chat/completions'', ''/zen/v1/responses'',
         ''/zen/v1/messages'', ''/zen/v1/models'']
     @ [read_route ''opencode'' ''models.opencode.ai'' ''/api.json'']
     @ provider_paths ''meta'' META_API_HOST [''/v1/responses'', ''/v1/chat/completions'', ''/v1/models'']
     @ [read_route ''meta'' META_API_HOST ''/muse-code/models'']
     @ provider_paths ''meta'' ''api.llama.com'' [''/v1/chat/completions'', ''/v1/models'']"

fun kind_providers :: "harness_kind \<Rightarrow> string list" where
  "kind_providers CODEX = [''openai'']"
| "kind_providers CLAUDE = [''anthropic'']"
| "kind_providers CURSOR = [''cursor'']"
| "kind_providers GROK = [''xai'']"
| "kind_providers MUSE = [''meta'']"
| "kind_providers OPENCODE = [''opencode'', ''openai'', ''anthropic'', ''xai'', ''prime'', ''meta'']"
| "kind_providers PRIME_AGENT = [''openai'', ''anthropic'', ''xai'', ''prime'']"

definition provider_route_of :: "harness_kind \<Rightarrow> string \<Rightarrow> utext \<Rightarrow> string \<Rightarrow> provider_route option" where
  "provider_route_of kind host path http_verb = List.find (\<lambda>route.
     pvr_provider route \<in> set (kind_providers kind) \<and> matches (pvr_rule route) host path http_verb) provider_routes"

definition ulower :: "utext \<Rightarrow> utext" where
  "ulower s = map (\<lambda>c. if 65 \<le> c \<and> c \<le> 90 then c + 32 else if c = 8490 then 107 else c) s"

definition permitted_request ::
  "(utext \<Rightarrow> bool) \<Rightarrow> sandbox_policy \<Rightarrow> string \<Rightarrow> utext \<Rightarrow> string \<Rightarrow> bool result" where
  "permitted_request netloc_valid policy host raw_path http_verb =
     bind_result (normalized_path netloc_valid raw_path) (\<lambda>path. case path of
       None \<Rightarrow> Inr False
     | Some path \<Rightarrow>
         if py_in (utext ''git-receive-pack'') (ulower (unquote raw_path)) then Inr False
         else Inr (list_ex (\<lambda>rule. matches rule host path http_verb) (spo_egress policy)))"

end
