(* ===== verification/Gateway_Credentials.thy ===== *)
theory Gateway_Credentials
  imports Gateway_Routes
begin

text \<open>
  Host credentials behind handles (\<open>src/talktoharnesses/gateway/credentials.py\<close>). The sandbox sees the
  virtualized credential document, in which every secret is a handle; the gateway puts the secret back into
  the authentication field of an admitted request. \<open>sign\<close> is the keyed digest of a path and a JWT prefix
  (\<open>_signature\<close> with the seed of the scope), \<open>readable_claims\<close> whether a JWT part decodes to JSON. The
  credential files are what their readers return. What is not modelled is the persistence of rotated tokens.
\<close>

definition secret_keys :: "string list" where
  "secret_keys = [''token'', ''access'', ''refresh'', ''accesstoken'', ''refreshtoken'', ''idtoken'', ''apikey'',
     ''key'', ''openaiapikey'', ''anthropicapikey'', ''clientsecret'', ''secret'', ''cookie'', ''authorization'']"

definition metadata_keys :: "string list" where
  "metadata_keys = [''type'', ''authtype'', ''authmode'', ''tokentype'', ''scope'', ''scopes'', ''email'', ''name'',
     ''accountid'', ''userid'', ''organizationid'', ''orgid'', ''id'', ''provider'', ''providerid'', ''expiresat'',
     ''expires'', ''expiry'', ''expiration'', ''expiresin'', ''lastrefresh'', ''updatedat'', ''createdat'',
     ''endpoint'', ''baseurl'', ''apiurl'', ''url'', ''clientid'', ''audience'', ''region'', ''subscriptiontype'',
     ''subscription'', ''ratelimittier'', ''billingtype'', ''plan'', ''version'', ''apibaseurl'', ''mechanism'',
     ''obtainedvia'', ''useremail'', ''userfullname'', ''createtime'', ''firstname'', ''profileimageassetid'',
     ''principaltype'', ''principalid'', ''teamid'', ''teamname'', ''teamrole'', ''oidcissuer'', ''oidcclientid'',
     ''frontendurl'', ''inferenceurl'', ''sshkeypath'', ''currentenvironment'']"

definition key_name :: "string \<Rightarrow> string" where
  "key_name value = filter (\<lambda>c. c \<noteq> CHR ''_'' \<and> c \<noteq> CHR ''-'') (map latin1_lower value)"

text \<open>\<open>str.isdigit\<close>, which the superscript digits pass too.\<close>

definition py_isdigit :: "string \<Rightarrow> bool" where
  "py_isdigit s \<longleftrightarrow> s \<noteq> [] \<and> list_all (\<lambda>c. is_digit c \<or> char_nat c \<in> {178, 179, 185}) s"

definition path_secret_key :: "string list \<Rightarrow> string" where
  "path_secret_key path = key_name (case List.find (\<lambda>p. \<not> py_isdigit p) (rev path) of None \<Rightarrow> [] | Some p \<Rightarrow> p)"

section \<open>The vault\<close>

type_synonym handles = "(string, string \<times> string \<times> string list) dict"

record vault =
  vt_kind :: harness_kind
  vt_auth_file :: "json result option"
  vt_api_keys :: "(string, string) dict"
  vt_cursor_login :: "(string \<times> string) result option"
  vt_handles :: handles

definition provider_alias :: "string \<Rightarrow> string" where
  "provider_alias part = (if part = ''codex'' then ''openai'' else if part = ''claude'' then ''anthropic''
     else if part = ''grok'' then ''xai'' else if part = ''prime-inference'' then ''prime'' else part)"

fun path_provider :: "string list \<Rightarrow> string list \<Rightarrow> string option" where
  "path_provider providers [] = None"
| "path_provider providers (part # path) =
     (let p = provider_alias (remove_suffix ''_api_key'' (map latin1_lower part))
      in if p \<in> set providers then Some p else path_provider providers path)"

definition credential_provider :: "harness_kind \<Rightarrow> string list \<Rightarrow> string result" where
  "credential_provider kind path =
     (if kind \<in> {OPENCODE, PRIME_AGENT} then
        (case path_provider (kind_providers kind) path of
           Some p \<Rightarrow> Inr p
         | None \<Rightarrow> if kind = OPENCODE
             then Inl (ValueError ''The OpenCode credential provider is not supported.'') else Inr ''prime'')
      else Inr (hd (kind_providers kind)))"

definition jwt_prefix :: "(string \<Rightarrow> bool) \<Rightarrow> string \<Rightarrow> string option" where
  "jwt_prefix readable_claims value = (case split_on (CHR ''.'') value of
     [head, claims, _] \<Rightarrow> if readable_claims claims then Some (head @ ''.'' @ claims) else None
   | _ \<Rightarrow> None)"

definition identifier_of :: "(string list \<Rightarrow> string \<Rightarrow> string) \<Rightarrow> string list \<Rightarrow> string option \<Rightarrow> string" where
  "identifier_of sign path prefix = (case prefix of
     None \<Rightarrow> sign path [] | Some p \<Rightarrow> p @ ''.'' @ sign path p)"

definition make_handle ::
  "(string list \<Rightarrow> string \<Rightarrow> string) \<Rightarrow> (string \<Rightarrow> bool) \<Rightarrow> harness_kind \<Rightarrow> string \<Rightarrow> string list \<Rightarrow> handles
     \<Rightarrow> (string \<times> handles) result" where
  "make_handle sign readable_claims kind value path handles =
     bind_result (credential_provider kind path) (\<lambda>provider.
       let identifier = identifier_of sign path (jwt_prefix readable_claims value)
       in Inr (identifier, dict_put handles identifier (value, provider, path)))"

definition virtual_text ::
  "(string list \<Rightarrow> string \<Rightarrow> string) \<Rightarrow> (string \<Rightarrow> bool) \<Rightarrow> harness_kind \<Rightarrow> string list \<Rightarrow> string \<Rightarrow> handles
     \<Rightarrow> (json \<times> handles) result" where
  "virtual_text sign readable_claims kind path value handles =
     (let key = path_secret_key path in
      if value = [] then Inr (JStr value, handles)
      else if key \<in> set secret_keys
      then bind_result (make_handle sign readable_claims kind value path handles) (\<lambda>(h, hs). Inr (JStr h, hs))
      else if kind = MUSE \<and> key = ''apibaseurl'' then
        (if rstrip_chars ''/'' value \<noteq> ''https://'' @ META_API_HOST @ ''/v1''
         then Inl (ValueError ''The Muse API origin is not supported.'') else Inr (JStr META_GATEWAY_BASE, handles))
      else if key \<notin> set metadata_keys
      then Inl (ValueError ''The native credential file contains an unsupported field.'')
      else Inr (JStr value, handles))"

text \<open>A computation over a list that threads the handles.\<close>

fun thread :: "('a \<Rightarrow> handles \<Rightarrow> ('b \<times> handles) result) \<Rightarrow> 'a list \<Rightarrow> handles \<Rightarrow> ('b list \<times> handles) result" where
  "thread f [] hs = Inr ([], hs)"
| "thread f (x # xs) hs = bind_result (f x hs) (\<lambda>(y, hs1). bind_result (thread f xs hs1) (\<lambda>(ys, hs2). Inr (y # ys, hs2)))"

lemma thread_cong [fundef_cong]:
  "xs = ys \<Longrightarrow> hs = hs' \<Longrightarrow> (\<And>x h. x \<in> set ys \<Longrightarrow> f x h = g x h) \<Longrightarrow> thread f xs hs = thread g ys hs'"
  by (induction xs arbitrary: ys hs hs') (auto intro!: arg_cong2 [where f = bind_result])

definition tagged :: "'k \<Rightarrow> ('b \<times> handles) result \<Rightarrow> (('k \<times> 'b) \<times> handles) result" where
  "tagged k r = bind_result r (\<lambda>(v, hs). Inr ((k, v), hs))"

text \<open>The members of an object and the items of an array, each with its part of the path.\<close>

definition numbered :: "json list \<Rightarrow> (string \<times> json) list" where
  "numbered items = map (\<lambda>(i, c). (nat_str i, c)) (enumerate 0 items)"

lemma numbered_member: "(k, c) \<in> set (numbered items) \<Longrightarrow> c \<in> set items"
  by (auto simp: numbered_def in_set_enumerate_eq)

lemma json_member_size: "(k, c) \<in> set ms \<Longrightarrow> size c < size (JObj ms)"
  by (induction ms) auto

lemma json_item_size: "c \<in> set xs \<Longrightarrow> size c < size (JArr xs)"
  by (induction xs) auto

lemma numbered_size: "(k, c) \<in> set (numbered xs) \<Longrightarrow> size c < size (JArr xs)"
  using json_item_size numbered_member by blast

function virtualize ::
    "(string list \<Rightarrow> string \<Rightarrow> string) \<Rightarrow> (string \<Rightarrow> bool) \<Rightarrow> harness_kind \<Rightarrow> string list \<Rightarrow> json \<Rightarrow> handles
       \<Rightarrow> (json \<times> handles) result" where
  "virtualize sign rc kind path value hs = (case value of
     JObj members \<Rightarrow> bind_result (thread (\<lambda>(key, child) h. tagged key (virtualize sign rc kind (path @ [key]) child h))
         members hs) (\<lambda>(ms, hs'). Inr (JObj ms, hs'))
   | JArr items \<Rightarrow> bind_result (thread (\<lambda>(key, child) h. tagged key (virtualize sign rc kind (path @ [key]) child h))
         (numbered items) hs) (\<lambda>(xs, hs'). Inr (JArr (map snd xs), hs'))
   | JStr s \<Rightarrow> virtual_text sign rc kind path s hs
   | _ \<Rightarrow> Inr (value, hs))"
  by pat_completeness auto
termination
  by (relation "measure (\<lambda>(sign, rc, kind, path, value, hs). size value)")
    (auto dest: numbered_size json_member_size)

declare virtualize.simps [simp del]

definition handle_each ::
  "(string list \<Rightarrow> string \<Rightarrow> string) \<Rightarrow> (string \<Rightarrow> bool) \<Rightarrow> harness_kind \<Rightarrow> (string \<times> string) list \<Rightarrow> handles
     \<Rightarrow> ((string, string) dict \<times> handles) result" where
  "handle_each sign rc kind keys hs =
     thread (\<lambda>(name, value) h. tagged name (make_handle sign rc kind value [name] h)) keys hs"

definition muse_document :: "string \<Rightarrow> json" where
  "muse_document api_key = JObj [(''schema_version'', JInt 1), (''providers'', JObj [(''meta'', JObj
     [(''mechanism'', JStr ''api_key''), (''api_key'', JStr api_key), (''api_base_url'', JStr META_GATEWAY_BASE)])])]"

text \<open>The base URL of the Muse document always names the gateway.\<close>

definition muse_gateway :: "json \<Rightarrow> json result" where
  "muse_gateway document = (case document of
     JObj members \<Rightarrow> (case dict_get members ''providers'' of
       Some (JObj providers) \<Rightarrow> (case dict_get providers ''meta'' of
         Some (JObj meta) \<Rightarrow> Inr (JObj (dict_put members ''providers''
           (JObj (dict_put providers ''meta'' (JObj (dict_put meta ''api_base_url'' (JStr META_GATEWAY_BASE)))))))
       | _ \<Rightarrow> Inl (ValueError ''The Muse credential file is not supported.''))
     | _ \<Rightarrow> Inl (ValueError ''The Muse credential file is not supported.''))
   | _ \<Rightarrow> Inl (ValueError ''The Muse credential file is not supported.''))"

definition login_document :: "string \<times> string \<Rightarrow> json" where
  "login_document login = JObj [(''accessToken'', JStr (fst login)), (''refreshToken'', JStr (snd login))]"

definition read_document ::
  "(string list \<Rightarrow> string \<Rightarrow> string) \<Rightarrow> (string \<Rightarrow> bool) \<Rightarrow> vault \<Rightarrow> handles \<Rightarrow> (json option \<times> handles) result" where
  "read_document sign rc v hs = (case vt_auth_file v of
     None \<Rightarrow> Inr (None, hs)
   | Some file \<Rightarrow> bind_result file (\<lambda>d. bind_result (virtualize sign rc (vt_kind v) [] d hs)
       (\<lambda>(d', hs'). Inr (Some d', hs'))))"

definition read_login ::
  "(string list \<Rightarrow> string \<Rightarrow> string) \<Rightarrow> (string \<Rightarrow> bool) \<Rightarrow> vault \<Rightarrow> handles \<Rightarrow> handles result" where
  "read_login sign rc v hs = (case vt_cursor_login v of
     None \<Rightarrow> Inr hs
   | Some file \<Rightarrow> bind_result file (\<lambda>login. bind_result
       (virtualize sign rc (vt_kind v) [''cursor_login''] (login_document login) hs) (\<lambda>(_, hs'). Inr hs')))"

definition muse_result :: "vault \<Rightarrow> (string, string) dict \<Rightarrow> json option \<Rightarrow> json option result" where
  "muse_result v env document =
     (if vt_kind v \<noteq> MUSE then Inr document
      else case (case document of Some d \<Rightarrow> Some d
          | None \<Rightarrow> map_option muse_document (dict_get env ''META_API_KEY'')) of
        None \<Rightarrow> Inr None
      | Some d \<Rightarrow> bind_result (muse_gateway d) (\<lambda>d'. Inr (Some d')))"

definition vault_snapshot ::
  "(string list \<Rightarrow> string \<Rightarrow> string) \<Rightarrow> (string \<Rightarrow> bool) \<Rightarrow> vault
     \<Rightarrow> (((string, string) dict \<times> json option) \<times> vault) result" where
  "vault_snapshot sign rc v =
     bind_result (handle_each sign rc (vt_kind v) (vt_api_keys v) []) (\<lambda>(env, hs1).
     bind_result (read_document sign rc v hs1) (\<lambda>(document, hs2).
     bind_result (read_login sign rc v hs2) (\<lambda>hs3.
     bind_result (muse_result v env document) (\<lambda>document'.
       if hs3 = [] then Inl (ValueError ''No supported host credential was configured.'')
       else Inr ((env, document'), v\<lparr>vt_handles := hs3\<rparr>)))))"

section \<open>Substitution\<close>

definition substitute :: "(string list \<Rightarrow> string \<Rightarrow> string) \<Rightarrow> vault \<Rightarrow> string \<Rightarrow> string \<Rightarrow> string result" where
  "substitute sign v value provider =
     (let parts = split_on (CHR ''.'') value;
          found = (case dict_get (vt_handles v) value of
            Some r \<Rightarrow> Some r
          | None \<Rightarrow> if length parts = 3 then
              List.find (\<lambda>(secret, audience, path). audience = provider
                \<and> last parts = sign path (parts ! 0 @ ''.'' @ parts ! 1)) (dict_values (vt_handles v))
            else None)
      in case found of
        None \<Rightarrow> Inl (ValueError ''The credential handle does not belong to this provider.'')
      | Some (secret, audience, _) \<Rightarrow> if audience \<noteq> provider
          then Inl (ValueError ''The credential handle does not belong to this provider.'') else Inr secret)"

text \<open>The coding of Basic credentials is the parameter pair \<open>b64decode\<close> (strict, then UTF-8) and \<open>b64encode\<close>.\<close>

definition authentication_header ::
  "(string list \<Rightarrow> string \<Rightarrow> string) \<Rightarrow> (string \<Rightarrow> string result) \<Rightarrow> (string \<Rightarrow> string) \<Rightarrow> vault \<Rightarrow> string \<Rightarrow> string
     \<Rightarrow> string result" where
  "authentication_header sign b64decode b64encode v value provider =
     (let lower = map latin1_lower value in
      if starts_with ''bearer '' lower
      then bind_result (substitute sign v (drop 7 value) provider) (\<lambda>s. Inr (''Bearer '' @ s))
      else if starts_with ''basic '' lower then
        bind_result (b64decode (drop 6 value)) (\<lambda>decoded.
          if CHR '':'' \<notin> set decoded then Inl (ValueError ''Invalid Basic authentication.'')
          else bind_result (substitute sign v (after_char (CHR '':'') decoded) provider) (\<lambda>s.
            Inr (''Basic '' @ b64encode (before_char (CHR '':'') decoded @ '':'' @ s))))
      else substitute sign v value provider)"

fun refresh_members ::
  "(string list \<Rightarrow> string \<Rightarrow> string) \<Rightarrow> vault \<Rightarrow> string \<Rightarrow> (string \<times> json) list \<Rightarrow> (string \<times> json) list result" where
  "refresh_members sign v provider [] = Inr []"
| "refresh_members sign v provider ((key, value) # members) =
     bind_result (case value of
         JStr s \<Rightarrow> if key_name key \<in> set secret_keys
           then bind_result (substitute sign v s provider) (\<lambda>t. Inr (JStr t)) else Inr value
       | _ \<Rightarrow> Inr value) (\<lambda>value'.
     bind_result (refresh_members sign v provider members) (\<lambda>ms. Inr ((key, value') # ms)))"

definition refresh_request ::
  "(string list \<Rightarrow> string \<Rightarrow> string) \<Rightarrow> vault \<Rightarrow> json \<Rightarrow> string \<Rightarrow> json result" where
  "refresh_request sign v document provider = (case document of
     JObj members \<Rightarrow> bind_result (refresh_members sign v provider members) (\<lambda>ms. Inr (JObj ms))
   | _ \<Rightarrow> Inl (ValueError ''Unsupported token exchange format.''))"

section \<open>Secrets do not show\<close>

text \<open>
  Two credential documents look alike when they differ at most in the texts of secret fields: in what
  follows the readable claims of a token, and altogether where there are none.
\<close>

definition texts_alike :: "(string \<Rightarrow> bool) \<Rightarrow> string list \<Rightarrow> string \<Rightarrow> string \<Rightarrow> bool" where
  "texts_alike rc path s t \<longleftrightarrow> s = t \<or> (path_secret_key path \<in> set secret_keys \<and> s \<noteq> [] \<and> t \<noteq> []
     \<and> jwt_prefix rc s = jwt_prefix rc t)"

function documents_alike :: "(string \<Rightarrow> bool) \<Rightarrow> string list \<Rightarrow> json \<Rightarrow> json \<Rightarrow> bool" where
  "documents_alike rc path c d = (case (c, d) of
     (JObj ms, JObj ns) \<Rightarrow> list_all2 (\<lambda>(k, a) (l, b). k = l \<and> documents_alike rc (path @ [k]) a b) ms ns
   | (JArr xs, JArr ys) \<Rightarrow>
       list_all2 (\<lambda>(k, a) (l, b). k = l \<and> documents_alike rc (path @ [k]) a b) (numbered xs) (numbered ys)
   | (JStr s, JStr t) \<Rightarrow> texts_alike rc path s t
   | _ \<Rightarrow> c = d)"
  by pat_completeness auto
termination
  by (relation "measure (\<lambda>(rc, path, c, d). size c)")
    (auto dest: numbered_size json_member_size)

declare documents_alike.simps [simp del]

text \<open>Two results agree when they fail alike, or give the same value with handles of the same names.\<close>

fun same_view :: "('a \<times> handles) result \<Rightarrow> ('a \<times> handles) result \<Rightarrow> bool" where
  "same_view (Inl e) (Inl e') = (e = e')"
| "same_view (Inr (x, hs)) (Inr (y, hs')) = (x = y \<and> map fst hs = map fst hs')"
| "same_view _ _ = False"

lemma update_keys: "map fst hs = map fst hs' \<Longrightarrow> map fst (dict_put hs k v) = map fst (dict_put hs' k w)"
proof (induction hs arbitrary: hs')
  case (Cons x hs)
  then obtain y hs'' where "hs' = y # hs''" "fst x = fst y" "map fst hs = map fst hs''" by (cases hs') auto
  with Cons.IH [of hs''] show ?case by (cases x; cases y) auto
qed simp

lemma same_view_bind:
  assumes "same_view r r'"
    and "\<And>x hs hs'. r = Inr (x, hs) \<Longrightarrow> r' = Inr (x, hs') \<Longrightarrow> map fst hs = map fst hs' \<Longrightarrow> same_view (f (x, hs)) (f (x, hs'))"
  shows "same_view (bind_result r f) (bind_result r' f)"
  using assms by (cases "(r, r')" rule: same_view.cases) auto

lemma same_view_return: "same_view r r' \<Longrightarrow>
    same_view (bind_result r (\<lambda>(x, hs). Inr (g x, hs))) (bind_result r' (\<lambda>(x, hs). Inr (g x, hs)))"
  by (cases "(r, r')" rule: same_view.cases) auto

lemma make_handle_alike:
  assumes "jwt_prefix rc s = jwt_prefix rc t" "map fst hs = map fst hs'"
  shows "same_view (make_handle sign rc kind s path hs) (make_handle sign rc kind t path hs')"
  using assms update_keys [OF assms(2)]
  by (cases "credential_provider kind path") (simp_all add: make_handle_def Let_def)

lemma virtual_text_alike:
  assumes "texts_alike rc path s t" "map fst hs = map fst hs'"
  shows "same_view (virtual_text sign rc kind path s hs) (virtual_text sign rc kind path t hs')"
proof (cases "s = [] \<or> path_secret_key path \<notin> set secret_keys")
  case True
  with assms have "s = t" by (auto simp: texts_alike_def)
  with True assms(2) show ?thesis by (auto simp: virtual_text_def Let_def)
next
  case False
  with assms have "t \<noteq> []" "jwt_prefix rc s = jwt_prefix rc t" by (auto simp: texts_alike_def)
  with False show ?thesis
    using make_handle_alike [OF _ assms(2)] by (simp add: virtual_text_def Let_def same_view_return)
qed

lemma same_view_cases:
  assumes "same_view r r'"
  obtains (fails) e where "r = Inl e" "r' = Inl e"
    | (returns) x hs hs' where "r = Inr (x, hs)" "r' = Inr (x, hs')" "map fst hs = map fst hs'"
  using assms by (cases "(r, r')" rule: same_view.cases) auto

lemma tagged_alike: "same_view r r' \<Longrightarrow> same_view (tagged k r) (tagged k r')"
  by (simp add: tagged_def same_view_return)

lemma thread_alike:
  assumes "list_all2 R xs ys" and "map fst hs = map fst hs'"
    and "\<And>x y h h'. x \<in> set xs \<Longrightarrow> y \<in> set ys \<Longrightarrow> R x y \<Longrightarrow> map fst h = map fst h' \<Longrightarrow> same_view (f x h) (g y h')"
  shows "same_view (thread f xs hs) (thread g ys hs')"
  using assms
proof (induction xs ys arbitrary: hs hs' rule: list_all2_induct)
  case (Cons x xs y ys)
  have "same_view (f x hs) (g y hs')" using Cons by simp
  moreover have "same_view (thread f xs h) (thread g ys h')" if "map fst h = map fst h'" for h h'
    using Cons that by simp
  ultimately show ?case
    by (cases "(f x hs, g y hs')" rule: same_view.cases) (auto intro!: same_view_return)
qed simp

lemma documents_alike_cases:
  assumes "documents_alike rc path c d"
  obtains (obj) ms ns where "c = JObj ms" "d = JObj ns"
      "list_all2 (\<lambda>(k, a) (l, b). k = l \<and> documents_alike rc (path @ [k]) a b) ms ns"
    | (arr) xs ys where "c = JArr xs" "d = JArr ys"
      "list_all2 (\<lambda>(k, a) (l, b). k = l \<and> documents_alike rc (path @ [k]) a b) (numbered xs) (numbered ys)"
    | (str) s t where "c = JStr s" "d = JStr t" "texts_alike rc path s t"
    | (other) "c = d" "\<forall>ms. c \<noteq> JObj ms" "\<forall>xs. c \<noteq> JArr xs" "\<forall>s. c \<noteq> JStr s"
proof -
  have "case (c, d) of
     (JObj ms, JObj ns) \<Rightarrow> list_all2 (\<lambda>(k, a) (l, b). k = l \<and> documents_alike rc (path @ [k]) a b) ms ns
   | (JArr xs, JArr ys) \<Rightarrow>
       list_all2 (\<lambda>(k, a) (l, b). k = l \<and> documents_alike rc (path @ [k]) a b) (numbered xs) (numbered ys)
   | (JStr s, JStr t) \<Rightarrow> texts_alike rc path s t
   | _ \<Rightarrow> c = d"
    using assms by (subst (asm) documents_alike.simps)
  then show thesis
    using obj arr str other by (cases c; cases d) simp_all
qed

lemma virtualize_alike:
  "documents_alike rc path d e \<Longrightarrow> map fst hs = map fst hs' \<Longrightarrow>
     same_view (virtualize sign rc kind path d hs) (virtualize sign rc kind path e hs')"
proof (induction rc path d e arbitrary: hs hs' rule: documents_alike.induct)
  case (1 rc path c d)
  let ?like = "\<lambda>(k, a) (l, b). k = l \<and> documents_alike rc (path @ [k]) a b"
  let ?step = "\<lambda>(k, a) h. tagged k (virtualize sign rc kind (path @ [k]) a h)"
  from 1(3) show ?case
  proof (cases rule: documents_alike_cases)
    case (obj ms ns)
    have "same_view (thread ?step ms hs) (thread ?step ns hs')"
    proof (rule thread_alike [OF obj(3) 1(4)])
      fix x y and h h' :: handles
      assume x: "x \<in> set ms" and y: "y \<in> set ns" and like: "?like x y" and h: "map fst h = map fst h'"
      from like obtain k a b where ab: "x = (k, a)" "y = (k, b)" "documents_alike rc (path @ [k]) a b"
        by (cases x; cases y) auto
      have "same_view (virtualize sign rc kind (path @ [k]) a h) (virtualize sign rc kind (path @ [k]) b h')"
        by (rule 1(2) [OF refl obj(1,2) x y]) (use ab h in simp_all)
      then show "same_view (?step x h) (?step y h')" by (simp add: ab tagged_alike)
    qed
    with obj(1,2) show ?thesis by (simp add: virtualize.simps [of _ _ _ path] same_view_return)
  next
    case (arr xs ys)
    have "same_view (thread ?step (numbered xs) hs) (thread ?step (numbered ys) hs')"
    proof (rule thread_alike [OF arr(3) 1(4)])
      fix x y and h h' :: handles
      assume x: "x \<in> set (numbered xs)" and y: "y \<in> set (numbered ys)" and like: "?like x y" and h: "map fst h = map fst h'"
      from like obtain k a b where ab: "x = (k, a)" "y = (k, b)" "documents_alike rc (path @ [k]) a b"
        by (cases x; cases y) auto
      have "same_view (virtualize sign rc kind (path @ [k]) a h) (virtualize sign rc kind (path @ [k]) b h')"
        by (rule 1(1) [OF refl arr(1,2) x y]) (use ab h in simp_all)
      then show "same_view (?step x h) (?step y h')" by (simp add: ab tagged_alike)
    qed
    with arr(1,2) show ?thesis by (simp add: virtualize.simps [of _ _ _ path] same_view_return)
  next
    case (str s t)
    with virtual_text_alike [OF str(3) 1(4)] show ?thesis by (simp add: virtualize.simps)
  next
    case other
    with 1(4) show ?thesis by (cases d) (auto simp: virtualize.simps)
  qed
qed

definition keys_alike :: "(string \<Rightarrow> bool) \<Rightarrow> (string \<times> string) list \<Rightarrow> (string \<times> string) list \<Rightarrow> bool" where
  "keys_alike rc = list_all2 (\<lambda>(name, s) (name', t). name = name' \<and> jwt_prefix rc s = jwt_prefix rc t)"

definition files_alike :: "('a \<Rightarrow> 'a \<Rightarrow> bool) \<Rightarrow> 'a result option \<Rightarrow> 'a result option \<Rightarrow> bool" where
  "files_alike like f g = (case (f, g) of
     (None, None) \<Rightarrow> True
   | (Some (Inl e), Some (Inl e')) \<Rightarrow> e = e'
   | (Some (Inr d), Some (Inr d')) \<Rightarrow> like d d'
   | _ \<Rightarrow> False)"

text \<open>Two hosts whose credentials look alike: same keys, files and logins up to the secrets in them.\<close>

definition vaults_alike :: "(string \<Rightarrow> bool) \<Rightarrow> vault \<Rightarrow> vault \<Rightarrow> bool" where
  "vaults_alike rc v w \<longleftrightarrow> vt_kind v = vt_kind w \<and> keys_alike rc (vt_api_keys v) (vt_api_keys w)
     \<and> files_alike (documents_alike rc []) (vt_auth_file v) (vt_auth_file w)
     \<and> files_alike (\<lambda>l m. documents_alike rc [''cursor_login''] (login_document l) (login_document m))
         (vt_cursor_login v) (vt_cursor_login w)"

lemma handle_each_alike:
  "keys_alike rc js ks \<Longrightarrow> map fst hs = map fst hs' \<Longrightarrow>
     same_view (handle_each sign rc kind js hs) (handle_each sign rc kind ks hs')"
  unfolding handle_each_def keys_alike_def
  by (erule thread_alike) (auto intro!: tagged_alike make_handle_alike)

lemma files_alike_cases:
  assumes "files_alike like f g"
  obtains (absent) "f = None" "g = None" | (bad) e where "f = Some (Inl e)" "g = Some (Inl e)"
    | (read) d d' where "f = Some (Inr d)" "g = Some (Inr d')" "like d d'"
  using assms unfolding files_alike_def by (cases f; cases g) (auto split: sum.splits)

lemma read_document_alike:
  assumes "files_alike (documents_alike rc []) (vt_auth_file v) (vt_auth_file w)" "vt_kind w = vt_kind v"
    and "map fst hs = map fst hs'"
  shows "same_view (read_document sign rc v hs) (read_document sign rc w hs')"
  using assms(1)
  by (cases rule: files_alike_cases)
    (simp_all add: read_document_def assms(2,3) same_view_return virtualize_alike)

lemma read_login_alike:
  assumes "files_alike (\<lambda>l m. documents_alike rc [''cursor_login''] (login_document l) (login_document m))
      (vt_cursor_login v) (vt_cursor_login w)" "vt_kind w = vt_kind v" and keys: "map fst hs = map fst hs'"
  obtains e where "read_login sign rc v hs = Inl e" "read_login sign rc w hs' = Inl e"
    | k k' where "read_login sign rc v hs = Inr k" "read_login sign rc w hs' = Inr k'" "map fst k = map fst k'"
  using assms(1)
proof (cases rule: files_alike_cases)
  case (read d d')
  from virtualize_alike [OF read(3) keys, of sign "vt_kind v"] show ?thesis
    using that by (cases rule: same_view_cases) (simp_all add: read_login_def read assms(2))
qed (use that keys in \<open>simp_all add: read_login_def\<close>)


definition demo_vault :: "string \<Rightarrow> vault" where
  "demo_vault secret = \<lparr>vt_kind = CLAUDE, vt_auth_file = None, vt_api_keys = [(''ANTHROPIC_API_KEY'', secret)],
     vt_cursor_login = None, vt_handles = []\<rparr>"


end
