(* ===== verification/Gateway_Server.thy ===== *)
theory Gateway_Server
  imports Gateway_Credentials
begin

text \<open>
  The policy proxy (\<open>src/talktoharnesses/gateway/server.py\<close>): what \<open>PolicyGateway\<close> does with a request
  whose headers have arrived (\<open>requestheaders\<close>), with a complete request (\<open>request\<close>), and with an upstream
  connection (\<open>http_connect\<close>, \<open>server_connect\<close>). The proxy library calls these hooks; it logs an exception
  of a hook and goes on with the flow, so an exception is a result of its own. Header fields are kept under
  their lower-case names, each with its values; several values of one field read as one joined by commas.
\<close>

record gateway_config =
  gc_revision :: sandbox_policy_revision
  gc_kind :: harness_kind
  gc_control_token :: string
  gc_split_token :: string
  gc_split_address :: string

record flow =
  fl_scheme :: string
  fl_host :: string
  fl_port :: int
  fl_authority :: string
  fl_path :: utext
  fl_verb :: string
  fl_headers :: "(string, string list) dict"
  fl_streamed :: bool
  fl_control :: bool
  fl_route :: "provider_route option"
  fl_refresh_lock :: bool
  fl_denied :: "string option"
  fl_decision :: "command_decision option"

text \<open>What the hooks ask of their surroundings.\<close>

record gateway_world =
  gw_sign :: "string list \<Rightarrow> string \<Rightarrow> string"
  gw_readable_claims :: "string \<Rightarrow> bool"
  gw_b64decode :: "string \<Rightarrow> string result"
  gw_b64encode :: "string \<Rightarrow> string"
  gw_netloc_valid :: "utext \<Rightarrow> bool"
  gw_refresh_lock :: "unit result"
  gw_vault :: vault

definition admitted_hosts :: "gateway_config \<Rightarrow> string list" where
  "admitted_hosts cfg = map egr_host (spo_egress (spv_policy (gc_revision cfg)))
     @ map (egr_host \<circ> pvr_rule) (filter (\<lambda>r. pvr_provider r \<in> set (kind_providers (gc_kind cfg))) provider_routes)"

definition deny :: "string \<Rightarrow> flow \<Rightarrow> flow" where
  "deny reason flow = flow\<lparr>fl_denied := Some reason\<rparr>"

definition header_values :: "flow \<Rightarrow> string \<Rightarrow> string list" where
  "header_values flow name = (case dict_get (fl_headers flow) name of None \<Rightarrow> [] | Some vs \<Rightarrow> vs)"

definition set_header :: "string \<Rightarrow> string \<Rightarrow> flow \<Rightarrow> flow" where
  "set_header name value flow = flow\<lparr>fl_headers := dict_put (fl_headers flow) name [value]\<rparr>"

definition pop_headers :: "string list \<Rightarrow> flow \<Rightarrow> flow" where
  "pop_headers names flow = flow\<lparr>fl_headers := filter (\<lambda>(n, _). n \<notin> set names) (fl_headers flow)\<rparr>"

definition http_connect :: "gateway_config \<Rightarrow> flow \<Rightarrow> flow" where
  "http_connect cfg flow =
     (if plain_host (fl_host flow) \<notin> set (admitted_hosts cfg) then deny ''egress_denied'' flow
      else if fl_port flow \<noteq> 443 then deny ''port_denied'' flow else flow)"

text \<open>The Muse transport reaches its API through a fixed reverse proxy on the gateway.\<close>

definition muse_origin :: "gateway_config \<Rightarrow> utext \<Rightarrow> flow \<Rightarrow> flow" where
  "muse_origin cfg path flow =
     (if gc_kind cfg = MUSE \<and> fl_host flow = GATEWAY_HOST \<and> fl_port flow = GATEWAY_PORT
         \<and> provider_route_of (gc_kind cfg) META_API_HOST path (fl_verb flow) \<noteq> None
      then set_header ''host'' META_API_HOST (flow\<lparr>fl_scheme := ''https'', fl_host := META_API_HOST, fl_port := 443\<rparr>)
      else flow)"

definition split_request :: "gateway_config \<Rightarrow> utext \<Rightarrow> flow \<Rightarrow> flow" where
  "split_request cfg path flow =
     (let health = path = utext ''/split/v1/health'' \<and> fl_verb flow = ''GET'';
          token = py_join '', '' (header_values flow ''x-tth-split-token'');
          bare = pop_headers [''x-tth-split-token''] flow
      in if \<not> health \<and> token \<noteq> gc_control_token cfg then deny ''control_access_denied'' bare
         else set_header ''x-tth-split-token'' (gc_split_token cfg) (set_header ''host'' (gc_split_address cfg @ '':8010'')
           (bare\<lparr>fl_scheme := ''http'', fl_host := gc_split_address cfg, fl_port := 8010,
             fl_path := (if starts_with (utext ''/split'') (fl_path flow) then drop 6 (fl_path flow) else fl_path flow),
             fl_control := True\<rparr>)))"

definition relay_request :: "flow \<Rightarrow> flow" where
  "relay_request flow = (set_header ''host'' (''127.0.0.1:'' @ int_str MCP_RELAY_PORT)
     (pop_headers [''authorization'', ''cookie'', ''x-api-key'', ''api-key'', ''proxy-authorization''] flow))
       \<lparr>fl_scheme := ''http'', fl_host := ''127.0.0.1'', fl_port := MCP_RELAY_PORT, fl_streamed := True\<rparr>"

section \<open>Credentials of an admitted request\<close>

fun put_secrets :: "(string \<Rightarrow> string result) \<Rightarrow> string list \<Rightarrow> flow \<Rightarrow> flow result" where
  "put_secrets secret_of [] flow = Inr flow"
| "put_secrets secret_of (name # names) flow =
     (if dict_get (fl_headers flow) name = None then put_secrets secret_of names flow
      else bind_result (secret_of (py_join '', '' (header_values flow name)))
        (\<lambda>s. put_secrets secret_of names (set_header name s flow)))"

definition exchange_file :: "vault \<Rightarrow> token_exchange \<Rightarrow> unit result" where
  "exchange_file v exchange =
     (if (exchange = EXCHANGE_CURSOR_LOGIN \<and> vt_kind v = CURSOR) \<or> (exchange = EXCHANGE_REFRESH \<and> vt_auth_file v \<noteq> None)
      then Inr () else Inl (ValueError ''Host credential storage is required for this exchange.''))"

definition provider_request :: "gateway_world \<Rightarrow> provider_route \<Rightarrow> flow \<Rightarrow> flow result" where
  "provider_request w route flow =
     bind_result (case pvr_exchange route of None \<Rightarrow> Inr ()
       | Some x \<Rightarrow> bind_result (exchange_file (gw_vault w) x) (\<lambda>_. gw_refresh_lock w)) (\<lambda>_.
     bind_result (vault_snapshot (gw_sign w) (gw_readable_claims w) (gw_vault w)) (\<lambda>(_, v).
     bind_result (put_secrets (\<lambda>value. authentication_header (gw_sign w) (gw_b64decode w) (gw_b64encode w) v value
         (pvr_provider route)) [''authorization'', ''x-api-key'', ''api-key'', ''x-goog-api-key''] flow) (\<lambda>flow1.
     bind_result (put_secrets (\<lambda>value. substitute (gw_sign w) v value (pvr_provider route)) [''cookie''] flow1) (\<lambda>flow2.
       Inr (flow2\<lparr>fl_refresh_lock := (pvr_exchange route \<noteq> None), fl_streamed := (pvr_exchange route = None)\<rparr>)))))"

definition egress_request :: "gateway_world \<Rightarrow> gateway_config \<Rightarrow> utext \<Rightarrow> flow \<Rightarrow> flow result" where
  "egress_request w cfg path flow =
     (if fl_scheme flow \<noteq> ''https'' \<or> fl_port flow \<noteq> 443
      then Inr (deny (if plain_host (fl_host flow) \<in> set (admitted_hosts cfg) then ''port_denied'' else ''egress_denied'') flow)
      else if \<not> list_all (\<lambda>name. same_host name (fl_host flow))
          (header_values flow ''host'' @ (if fl_authority flow = [] then [] else [fl_authority flow]))
      then Inr (deny ''egress_denied'' flow)
      else case provider_route_of (gc_kind cfg) (fl_host flow) path (fl_verb flow) of
        Some route \<Rightarrow> (case provider_request w route flow of
            Inl _ \<Rightarrow> Inr (deny ''credential_or_gateway_unavailable'' (flow\<lparr>fl_route := Some route\<rparr>))
          | Inr flow' \<Rightarrow> Inr (pop_headers [''proxy-authorization''] (flow'\<lparr>fl_route := Some route\<rparr>)))
      | None \<Rightarrow> bind_result (permitted_request (gw_netloc_valid w) (spv_policy (gc_revision cfg)) (fl_host flow)
            (fl_path flow) (fl_verb flow)) (\<lambda>permitted.
          if \<not> permitted then Inr (deny ''egress_denied'' flow)
          else if list_ex (\<lambda>name. dict_get (fl_headers flow) name \<noteq> None)
              [''authorization'', ''cookie'', ''x-api-key'', ''api-key'']
          then Inr (deny ''service_credentials_unsupported'' flow)
          else Inr (pop_headers [''proxy-authorization''] flow)))"

definition requestheaders :: "gateway_world \<Rightarrow> gateway_config \<Rightarrow> flow \<Rightarrow> flow result" where
  "requestheaders w cfg flow =
     bind_result (normalized_path (gw_netloc_valid w) (fl_path flow)) (\<lambda>normal. case normal of
       None \<Rightarrow> Inr (deny ''egress_denied'' flow)
     | Some path \<Rightarrow>
         let request = muse_origin cfg path flow in
         if starts_with (utext ''/split/'') path then Inr (split_request cfg path request)
         else if fl_host request = GATEWAY_HOST \<and> path = utext ''/__tth/command-check'' \<and> fl_verb request = ''POST''
         then Inr request
         else if fl_host request = GATEWAY_HOST \<and> fl_port request = GATEWAY_PORT
           \<and> starts_with (utext MCP_ROUTE_PREFIX) path
         then Inr (relay_request request)
         else egress_request w cfg path request)"

text \<open>
  \<open>request\<close> answers a command check itself; \<open>check\<close> is the validated body, \<open>None\<close> when it is not one. The
  rewriting of a buffered token exchange is left out.
\<close>

definition request_complete ::
  "(string \<Rightarrow> bash_node list option) \<Rightarrow> nat \<Rightarrow> gateway_config \<Rightarrow> (string \<times> string) option \<Rightarrow> flow \<Rightarrow> flow" where
  "request_complete parse fuel cfg check flow =
     (if fl_denied flow \<noteq> None \<or> fl_control flow then flow
      else if fl_host flow = GATEWAY_HOST \<and> fl_path flow = utext ''/__tth/command-check'' \<and> fl_verb flow = ''POST''
      then (case check of
          None \<Rightarrow> deny ''invalid_command_check'' flow
        | Some (command, cwd) \<Rightarrow> flow\<lparr>fl_decision :=
            check_command parse fuel (spo_command_rules (spv_policy (gc_revision cfg))) cwd command\<rparr>)
      else flow)"

section \<open>Upstream connections\<close>

record upstream =
  up_address :: "(string \<times> int) option"
  up_protocol :: string
  up_error :: bool

definition server_connect :: "gateway_config \<Rightarrow> bool \<Rightarrow> upstream \<Rightarrow> upstream" where
  "server_connect cfg gateway_loop data =
     (case up_address data of
        Some (host, port) \<Rightarrow>
          if (host, port) \<in> {(gc_split_address cfg, 8010), (''127.0.0.1'', MCP_RELAY_PORT)} then data
          else if plain_host host \<notin> set (admitted_hosts cfg) \<or> port \<noteq> 443 \<or> up_protocol data \<noteq> ''tcp''
            \<or> \<not> gateway_loop
          then data\<lparr>up_error := True\<rparr> else data
      | None \<Rightarrow> data\<lparr>up_error := True\<rparr>)"

text \<open>\<open>responseheaders\<close>: credentials a response sets never reach the sandbox.\<close>

definition responseheaders :: "int \<Rightarrow> flow \<Rightarrow> (string, string list) dict \<Rightarrow> (string, string list) dict \<times> bool" where
  "responseheaders status flow headers =
     (if fl_control flow then (headers, True)
      else (filter (\<lambda>(n, _). n \<notin> {''set-cookie'', ''authorization'', ''x-api-key''}) headers,
        status < 400 \<and> (case fl_route flow of None \<Rightarrow> True | Some r \<Rightarrow> pvr_exchange r = None)))"

end
