(* ===== verification/Gateway_Properties.thy ===== *)
theory Gateway_Properties
  imports Gateway_Server
begin

text \<open>
  What the gateway lets through. For a request target in the usual form, one slash and then visible
  characters, the path that is checked is the path that is sent, so an admitted request stays under the
  rule that admitted it. A target of two slashes is checked without its first component, and one whose
  network location has a lone bracket raises before anything is checked.
\<close>

section \<open>The path that is checked\<close>

definition plain_target :: "utext \<Rightarrow> bool" where
  "plain_target raw \<longleftrightarrow> take 1 raw = [47] \<and> take 2 raw \<noteq> [47, 47] \<and> list_all (\<lambda>c. 32 < c) raw"

definition target_path :: "utext \<Rightarrow> utext" where
  "target_path raw = takeWhile (\<lambda>c. c \<noteq> 63) (takeWhile (\<lambda>c. c \<noteq> 35) raw)"

lemma urlsplit_plain:
  assumes "plain_target raw"
  shows "urlsplit_path valid raw = Inr (target_path raw)"
proof -
  from assms obtain rest where raw: "raw = 47 # rest" by (cases raw) (auto simp: plain_target_def)
  have "dropWhile (\<lambda>c. c \<le> 32) raw = raw" by (simp add: raw)
  moreover have "filter (\<lambda>c. c \<notin> {9, 10, 13}) raw = raw"
    using assms by (intro filter_True) (auto simp: plain_target_def list_all_iff)
  moreover have "without_scheme raw = raw" by (simp add: raw without_scheme_def Let_def ascii_alpha_def)
  ultimately show ?thesis
    using assms by (simp add: urlsplit_path_def target_path_def plain_target_def Let_def)
qed

definition traversal_free :: "utext \<Rightarrow> bool" where
  "traversal_free path \<longleftrightarrow> [46, 46] \<notin> set (usplit 47 path) \<and> 37 \<notin> set path \<and> 92 \<notin> set path \<and> 0 \<notin> set path"

lemma normalized_plain:
  assumes "plain_target raw" "normalized_path valid raw = Inr (Some path)"
  shows "path = unquote (target_path raw) \<and> traversal_free path"
  using assms by (auto simp: normalized_path_def urlsplit_plain traversal_free_def Let_def split: if_splits)

text \<open>A rule's path is a list of leading components of the path it matches.\<close>

lemma usplit_nonempty [simp]: "usplit sep s \<noteq> []"
  by (cases s) auto

lemma usplit_append: "usplit sep (p @ sep # s) = usplit sep p @ usplit sep s"
  by (induction p) (auto simp: hd_append tl_append split: list.split)

definition under_rule :: "egress_rule \<Rightarrow> string \<Rightarrow> utext \<Rightarrow> string \<Rightarrow> bool" where
  "under_rule rule host path http_verb \<longleftrightarrow> plain_host host = egr_host rule
     \<and> http_verb \<in> set (map http_method_value (egr_methods rule))
     \<and> (\<exists>rest. usplit 47 path = usplit 47 (utext (rstrip_chars ''/'' (egr_path rule))) @ rest)"

lemma matches_under: "matches rule host path http_verb \<Longrightarrow> under_rule rule host path http_verb"
  by (auto simp: matches_def under_rule_def Let_def starts_with_iff usplit_append)

section \<open>Headers\<close>

lemma header_simps [simp]:
  "fl_denied (pop_headers ns f) = fl_denied f" "fl_host (pop_headers ns f) = fl_host f"
  "fl_port (pop_headers ns f) = fl_port f" "fl_scheme (pop_headers ns f) = fl_scheme f"
  "fl_control (pop_headers ns f) = fl_control f" "fl_route (pop_headers ns f) = fl_route f"
  "fl_path (pop_headers ns f) = fl_path f" "fl_verb (pop_headers ns f) = fl_verb f"
  "fl_authority (pop_headers ns f) = fl_authority f"
  "fl_denied (set_header n v f) = fl_denied f" "fl_host (set_header n v f) = fl_host f"
  "fl_port (set_header n v f) = fl_port f" "fl_scheme (set_header n v f) = fl_scheme f"
  "fl_control (set_header n v f) = fl_control f" "fl_route (set_header n v f) = fl_route f"
  "fl_path (set_header n v f) = fl_path f" "fl_verb (set_header n v f) = fl_verb f"
  "fl_authority (set_header n v f) = fl_authority f"
  by (simp_all add: pop_headers_def set_header_def)

lemma dict_get_filter_key: "dict_get (filter (\<lambda>(n, _). P n) d) k = (if P k then dict_get d k else None)"
  by (induction d) auto

lemma header_values_pop: "header_values (pop_headers ns f) n = (if n \<in> set ns then [] else header_values f n)"
  by (simp add: header_values_def pop_headers_def dict_get_filter_key)

lemma header_values_set: "header_values (set_header m v f) n = (if n = m then [v] else header_values f n)"
  by (simp add: header_values_def set_header_def dict_simps)

text \<open>The request line and the other headers stay.\<close>

definition keeps_request :: "string list \<Rightarrow> flow \<Rightarrow> flow \<Rightarrow> bool" where
  "keeps_request ns f f' \<longleftrightarrow> fl_denied f' = fl_denied f \<and> fl_host f' = fl_host f \<and> fl_port f' = fl_port f
     \<and> fl_scheme f' = fl_scheme f \<and> fl_control f' = fl_control f \<and> fl_path f' = fl_path f
     \<and> fl_verb f' = fl_verb f \<and> fl_authority f' = fl_authority f
     \<and> (\<forall>n. n \<notin> set ns \<longrightarrow> header_values f' n = header_values f n)"

lemma keeps_request_trans:
  "keeps_request ns f g \<Longrightarrow> keeps_request ms g h \<Longrightarrow> set ns \<subseteq> set ks \<Longrightarrow> set ms \<subseteq> set ks \<Longrightarrow> keeps_request ks f h"
  unfolding keeps_request_def by (metis subsetD)

lemma put_secrets_frame: "put_secrets secret_of ns f = Inr f' \<Longrightarrow> keeps_request ns f f'"
proof (induction ns arbitrary: f)
  case (Cons n ns)
  show ?case
  proof (cases "dict_get (fl_headers f) n")
    case None
    with Cons.prems have "put_secrets secret_of ns f = Inr f'" by simp
    from Cons.IH [OF this] show ?thesis by (auto simp: keeps_request_def)
  next
    case (Some vs)
    with Cons.prems obtain x where "put_secrets secret_of ns (set_header n x f) = Inr f'"
      by (auto simp: result_simps)
    moreover have "keeps_request [n] f (set_header n x f)"
      by (simp add: keeps_request_def header_values_set)
    ultimately show ?thesis using Cons.IH keeps_request_trans [of "[n]" f _ ns f' "n # ns"] by auto
  qed
qed (simp add: keeps_request_def)

text \<open>The headers the gateway puts credentials into.\<close>

definition credential_headers :: "string list" where
  "credential_headers = [''authorization'', ''x-api-key'', ''api-key'', ''x-goog-api-key'', ''cookie'']"

lemma provider_request_frame:
  assumes "provider_request w route f = Inr f'"
  shows "keeps_request credential_headers f f'"
proof -
  from assms obtain s1 s2 g h where
    "put_secrets s1 [''authorization'', ''x-api-key'', ''api-key'', ''x-goog-api-key''] f = Inr g"
    "put_secrets s2 [''cookie''] g = Inr h"
    "f' = h\<lparr>fl_refresh_lock := (pvr_exchange route \<noteq> None), fl_streamed := (pvr_exchange route = None)\<rparr>"
    unfolding provider_request_def by (auto simp: result_simps simp del: put_secrets.simps split: prod.splits)
  from put_secrets_frame [OF this(1)] put_secrets_frame [OF this(2)] this(3)
  have "keeps_request credential_headers f h" "keeps_request [] h f'"
    by (auto intro: keeps_request_trans simp: credential_headers_def)
      (simp add: keeps_request_def header_values_def)
  then show ?thesis by (auto intro: keeps_request_trans)
qed

section \<open>Admitted requests\<close>

text \<open>The ways through: the control interface, the command check, the MCP relay, a provider, a project rule.\<close>

definition to_split :: "gateway_config \<Rightarrow> utext \<Rightarrow> flow \<Rightarrow> flow \<Rightarrow> bool" where
  "to_split cfg path flow flow' \<longleftrightarrow> fl_host flow' = gc_split_address cfg \<and> fl_port flow' = 8010 \<and> fl_control flow'
     \<and> (path = utext ''/split/v1/health'' \<and> fl_verb flow = ''GET''
        \<or> py_join '', '' (header_values flow ''x-tth-split-token'') = gc_control_token cfg)"

definition to_check :: "utext \<Rightarrow> flow \<Rightarrow> bool" where
  "to_check path flow' \<longleftrightarrow> fl_host flow' = GATEWAY_HOST \<and> path = utext ''/__tth/command-check'' \<and> fl_verb flow' = ''POST''"

definition to_relay :: "utext \<Rightarrow> flow \<Rightarrow> bool" where
  "to_relay path flow' \<longleftrightarrow> fl_host flow' = ''127.0.0.1'' \<and> fl_port flow' = MCP_RELAY_PORT
     \<and> starts_with (utext MCP_ROUTE_PREFIX) path
     \<and> (\<forall>n \<in> {''authorization'', ''cookie'', ''x-api-key'', ''api-key''}. header_values flow' n = [])"

definition to_upstream :: "gateway_config \<Rightarrow> utext \<Rightarrow> flow \<Rightarrow> bool" where
  "to_upstream cfg path flow' \<longleftrightarrow> fl_scheme flow' = ''https'' \<and> fl_port flow' = 443
     \<and> (\<forall>name \<in> set (header_values flow' ''host''). same_host name (fl_host flow'))
     \<and> (fl_authority flow' = [] \<or> same_host (fl_authority flow') (fl_host flow'))
     \<and> ((\<exists>route \<in> set provider_routes. fl_route flow' = Some route
            \<and> pvr_provider route \<in> set (kind_providers (gc_kind cfg))
            \<and> under_rule (pvr_rule route) (fl_host flow') path (fl_verb flow'))
        \<or> (\<exists>rule \<in> set (spo_egress (spv_policy (gc_revision cfg))).
            under_rule rule (fl_host flow') path (fl_verb flow')
            \<and> (\<forall>n \<in> {''authorization'', ''cookie'', ''x-api-key'', ''api-key''}. header_values flow' n = [])))"

lemma provider_route_ofD:
  "provider_route_of kind host path verb = Some route \<Longrightarrow>
     route \<in> set provider_routes \<and> pvr_provider route \<in> set (kind_providers kind)
     \<and> under_rule (pvr_rule route) host path verb"
  unfolding provider_route_of_def using matches_under by (fastforce dest: find_SomeD)

lemma permitted_under:
  assumes "normalized_path valid raw = Inr (Some path)" "permitted_request valid policy host raw verb = Inr True"
  shows "\<exists>rule \<in> set (spo_egress policy). under_rule rule host path verb"
  using assms by (auto simp: permitted_request_def list_ex_iff split: if_splits dest: matches_under)

lemma egress_request_admits:
  assumes "egress_request w cfg path flow = Inr flow'" "fl_denied flow' = None"
    and normal: "normalized_path (gw_netloc_valid w) (fl_path flow) = Inr (Some path)"
  shows "to_upstream cfg path flow'"
proof -
  from assms(1,2) have direct: "fl_scheme flow = ''https''" "fl_port flow = 443"
    and names: "list_all (\<lambda>name. same_host name (fl_host flow))
      (header_values flow ''host'' @ (if fl_authority flow = [] then [] else [fl_authority flow]))"
    by (auto simp: egress_request_def deny_def split: if_splits)
  show ?thesis
  proof (cases "provider_route_of (gc_kind cfg) (fl_host flow) path (fl_verb flow)")
    case (Some route)
    with assms(1,2) direct names obtain f where f: "provider_request w route flow = Inr f"
      "flow' = pop_headers [''proxy-authorization''] (f\<lparr>fl_route := Some route\<rparr>)"
      by (auto simp: egress_request_def deny_def split: sum.splits)
    have "header_values flow' ''host'' = header_values flow ''host''"
      using provider_request_frame [OF f(1)]
      by (simp add: f(2) header_values_pop credential_headers_def keeps_request_def) (simp add: header_values_def)
    moreover have "fl_host f = fl_host flow" "fl_port f = fl_port flow" "fl_scheme f = fl_scheme flow"
      "fl_verb f = fl_verb flow" "fl_authority f = fl_authority flow"
      using provider_request_frame [OF f(1)] by (simp_all add: keeps_request_def)
    moreover have "\<forall>name \<in> set (header_values flow ''host''). same_host name (fl_host flow)"
      "fl_authority flow = [] \<or> same_host (fl_authority flow) (fl_host flow)"
      using names by (auto simp: list_all_iff split: if_splits)
    ultimately show ?thesis
      using provider_route_ofD [OF Some] direct by (simp add: to_upstream_def f(2))
  next
    case None
    with assms(1,2) direct names have permitted:
      "permitted_request (gw_netloc_valid w) (spv_policy (gc_revision cfg)) (fl_host flow) (fl_path flow) (fl_verb flow) = Inr True"
      and bare: "\<forall>n \<in> {''authorization'', ''cookie'', ''x-api-key'', ''api-key''}. dict_get (fl_headers flow) n = None"
      and flow': "flow' = pop_headers [''proxy-authorization''] flow"
      by (auto simp: egress_request_def deny_def result_simps split: if_splits)
    have "\<forall>n \<in> {''authorization'', ''cookie'', ''x-api-key'', ''api-key''}. header_values flow' n = []"
      using bare by (simp add: flow' header_values_pop) (simp add: header_values_def)
    moreover have "\<forall>name \<in> set (header_values flow' ''host''). same_host name (fl_host flow)"
      "fl_authority flow = [] \<or> same_host (fl_authority flow) (fl_host flow)"
      using names by (auto simp: list_all_iff flow' header_values_pop split: if_splits)
    ultimately show ?thesis
      using permitted_under [OF normal permitted] direct by (simp add: to_upstream_def flow')
  qed
qed


section \<open>Concrete requests\<close>

definition demo_policy :: sandbox_policy where
  "demo_policy = \<lparr>spo_project_root = ''/repo'', spo_read_only_roots = [],
     spo_egress = [\<lparr>egr_host = ''github.com'', egr_path = ''/org/repo'', egr_methods = [METHOD_GET, METHOD_HEAD]\<rparr>],
     spo_providers = [CLAUDE], spo_command_rules = [], spo_image_dockerfile = None\<rparr>"

definition demo_gateway :: gateway_config where
  "demo_gateway = \<lparr>gc_revision = \<lparr>spv_ref = \<lparr>spr_id = Uuid 1, spr_revision = 1\<rparr>, spv_policy = demo_policy,
       spv_repository_directory = None\<rparr>,
     gc_kind = CLAUDE, gc_control_token = ''control'', gc_split_token = ''split'', gc_split_address = ''10.0.0.2''\<rparr>"

definition demo_world :: gateway_world where
  "demo_world = \<lparr>gw_sign = \<lambda>path prefix. ''tth_'' @ concat path, gw_readable_claims = \<lambda>_. False,
     gw_b64decode = Inr, gw_b64encode = id, gw_netloc_valid = \<lambda>_. True, gw_refresh_lock = Inr (),
     gw_vault = \<lparr>vt_kind = CLAUDE, vt_auth_file = None, vt_api_keys = [], vt_cursor_login = None, vt_handles = []\<rparr>\<rparr>"

definition demo_request :: "utext \<Rightarrow> flow" where
  "demo_request path = \<lparr>fl_scheme = ''https'', fl_host = ''github.com'', fl_port = 443, fl_authority = [],
     fl_path = path, fl_verb = ''GET'', fl_headers = [(''host'', [''github.com''])], fl_streamed = False,
     fl_control = False, fl_route = None, fl_refresh_lock = False, fl_denied = None, fl_decision = None\<rparr>"

lemma demo_no_route: "provider_route_of CLAUDE ''github.com'' path verb = None"
proof -
  have "plain_host ''github.com'' \<notin> set (map (egr_host \<circ> pvr_rule) provider_routes)" by code_simp
  moreover have "plain_host ''github.com'' \<in> set (map (egr_host \<circ> pvr_rule) provider_routes)"
    if "provider_route_of CLAUDE ''github.com'' path verb = Some route" for route
    using provider_route_ofD [OF that] by (auto simp: under_rule_def)
  ultimately show ?thesis by fastforce
qed

lemma demo_request_passes:
  assumes "normalized_path (\<lambda>_. True) raw = Inr (Some (utext ''/org/repo''))"
    and "permitted_request (\<lambda>_. True) demo_policy ''github.com'' raw ''GET'' = Inr True"
  shows "requestheaders demo_world demo_gateway (demo_request raw) = Inr (demo_request raw)"
proof -
  have "\<not> starts_with (utext ''/split/'') (utext ''/org/repo'')" "\<not> starts_with (utext MCP_ROUTE_PREFIX) (utext ''/org/repo'')"
    "utext ''/org/repo'' \<noteq> utext ''/__tth/command-check''" "same_host ''github.com'' ''github.com''" by code_simp+
  with assms show ?thesis
    by (simp add: requestheaders_def muse_origin_def egress_request_def demo_no_route demo_request_def
        demo_gateway_def demo_world_def header_values_def pop_headers_def Let_def)
qed

lemma demo_rule_matches: "matches \<lparr>egr_host = ''github.com'', egr_path = ''/org/repo'', egr_methods = [METHOD_GET, METHOD_HEAD]\<rparr>
    ''github.com'' (utext ''/org/repo'') ''GET''"
  by (simp add: matches_def plain_host_def rstrip_chars_def latin1_lower_def)

lemmas url_evaluation = normalized_path_def urlsplit_path_def without_scheme_def ascii_alpha_def utf8_replace.simps
  utext_def hex_code_def

lemma demo_request_admitted:
  "requestheaders demo_world demo_gateway (demo_request (utext ''/org/repo'')) = Inr (demo_request (utext ''/org/repo''))"
proof (rule demo_request_passes)
  show normal: "normalized_path (\<lambda>_. True) (utext ''/org/repo'') = Inr (Some (utext ''/org/repo''))"
    by (simp add: url_evaluation)
  have "\<not> py_in (utext ''git-receive-pack'') (ulower (unquote (utext ''/org/repo'')))"
    by (simp add: url_evaluation ulower_def py_in_def)
  with normal demo_rule_matches show "permitted_request (\<lambda>_. True) demo_policy ''github.com'' (utext ''/org/repo'') ''GET'' = Inr True"
    by (simp add: permitted_request_def demo_policy_def)
qed


text \<open>
  A target of two slashes: \<open>urlsplit\<close> takes its first component for a network location, the rest passes the
  rule, and the target is sent as it is, outside the path of the rule.
\<close>

lemma double_slash_passes_rule:
  "requestheaders demo_world demo_gateway (demo_request (utext ''//evil/org/repo''))
     = Inr (demo_request (utext ''//evil/org/repo''))"
proof (rule demo_request_passes)
  show normal: "normalized_path (\<lambda>_. True) (utext ''//evil/org/repo'') = Inr (Some (utext ''/org/repo''))"
    by (simp add: url_evaluation)
  have "\<not> py_in (utext ''git-receive-pack'') (ulower (unquote (utext ''//evil/org/repo'')))"
    by (simp add: url_evaluation ulower_def py_in_def)
  with normal demo_rule_matches show "permitted_request (\<lambda>_. True) demo_policy ''github.com'' (utext ''//evil/org/repo'') ''GET'' = Inr True"
    by (simp add: permitted_request_def demo_policy_def)
qed

text \<open>A lone bracket in that place raises out of the hook before the host, the method or the path is checked.\<close>

lemma lone_bracket_escapes_checks:
  "requestheaders demo_world demo_gateway (demo_request (utext ''//[/../evil''))
     = Inl (ValueError ''Invalid IPv6 URL'')"
  by (simp add: requestheaders_def demo_world_def demo_request_def url_evaluation)

section \<open>Connections\<close>

text \<open>The gateway opens connections to the agent's split service, to its own relay and, on a loop that
  resolves public addresses only, over TCP to port 443 of an admitted host.\<close>

lemma connects_to_admitted_only:
  assumes "\<not> up_error data" "\<not> up_error (server_connect cfg gateway_loop data)"
  shows "\<exists>host port. up_address data = Some (host, port)
    \<and> ((host, port) \<in> {(gc_split_address cfg, 8010), (''127.0.0.1'', MCP_RELAY_PORT)}
       \<or> plain_host host \<in> set (admitted_hosts cfg) \<and> port = 443 \<and> up_protocol data = ''tcp'' \<and> gateway_loop)"
  using assms by (auto simp: server_connect_def split: option.splits if_splits)

end
