(* ===== verification/Sandbox_Scopes.thy ===== *)
theory Sandbox_Scopes
  imports Sandbox_Policies "HOL-Library.List_Lexorder" "HOL-Library.Char_ord"
begin

text \<open>
  Sandbox scopes: which directories a configuration may mount and which scope that makes
  (\<open>src/talktoharnesses/remote/scoped_sandboxes.py\<close>), the names a scope owns (\<open>scope_layout.py\<close>) and when
  the reaper takes them back (\<open>scope_reaper.py\<close>). The file system's answers are parameters, and so is the
  digest that names a scope; seconds are integers. Docker itself is outside.
\<close>

section \<open>Names\<close>

definition SCOPE_PREFIX :: string where "SCOPE_PREFIX = ''tth-scope-''"

definition hex_lower :: "char \<Rightarrow> bool" where
  "hex_lower c \<longleftrightarrow> is_digit c \<or> 97 \<le> char_nat c \<and> char_nat c \<le> 102"

text \<open>\<open>SCOPE_NAME.fullmatch\<close>.\<close>

definition scope_name :: "string \<Rightarrow> bool" where
  "scope_name s \<longleftrightarrow> starts_with SCOPE_PREFIX s \<and> length s = length SCOPE_PREFIX + 24
     \<and> list_all hex_lower (drop (length SCOPE_PREFIX) s)"

definition scope_gateway :: "string \<Rightarrow> string" where "scope_gateway name = name @ ''-gateway''"
definition scope_network :: "string \<Rightarrow> string" where "scope_network name = name @ ''-network''"
definition scope_home_volume :: "string \<Rightarrow> string" where "scope_home_volume name = name @ ''-home''"
definition scope_data_volume :: "string \<Rightarrow> string" where "scope_data_volume name = name @ ''-data''"

section \<open>Resolving a configuration\<close>

record scope_world =
  sw_resolve_strict :: "string \<Rightarrow> string option"
  sw_resolve :: "string \<Rightarrow> string"
  sw_repository :: "string \<Rightarrow> string option"
  sw_digest :: "sandbox_policy_ref \<Rightarrow> harness_kind \<Rightarrow> string list \<Rightarrow> string"
  sw_state_root :: string
  sw_mount_roots :: "string list"
  sw_auth_files :: "string list"

record scope =
  sc_name :: string
  sc_roots :: "string list"
  sc_revision :: sandbox_policy_revision

abbreviation is_under :: "string \<Rightarrow> string \<Rightarrow> bool" where
  "is_under p q \<equiv> relative_to POSIX p q"

text \<open>The workspace paths outside the project: read-only ones are skipped, others must share its repository.\<close>

fun linked_worktrees ::
  "scope_world \<Rightarrow> sandbox_policy_revision \<Rightarrow> string \<Rightarrow> string list \<Rightarrow> string list result" where
  "linked_worktrees w revision first [] = Inr []"
| "linked_worktrees w revision first (raw # paths) =
     (if is_under raw (spo_project_root (spv_policy revision)) then linked_worktrees w revision first paths
      else if raw \<noteq> first \<and> list_ex (is_under raw) (spo_read_only_roots (spv_policy revision))
      then linked_worktrees w revision first paths
      else if spv_repository_directory revision = None \<or> sw_repository w raw \<noteq> spv_repository_directory revision
      then raise_domain SANDBOX_PATH_NOT_MOUNTED ''Workspace is not in this project or a linked worktree.''
      else bind_result (linked_worktrees w revision first paths) (\<lambda>ps. Inr (raw # ps)))"

definition writable_roots :: "sandbox_policy_revision \<Rightarrow> string list \<Rightarrow> string list" where
  "writable_roots revision linked =
     (let root = spo_project_root (spv_policy revision);
          repository = (case spv_repository_directory revision of None \<Rightarrow> []
            | Some r \<Rightarrow> if r \<noteq> [] \<and> \<not> is_under r root then [r] else [])
      in sort (remdups (root # linked @ repository)))"

fun check_mounts :: "scope_world \<Rightarrow> string list \<Rightarrow> unit result" where
  "check_mounts w [] = Inr ()"
| "check_mounts w (raw # mounts) =
     (if \<not> list_ex (\<lambda>parent. is_under raw (sw_resolve w parent)) (sw_mount_roots w)
      then raise_domain SANDBOX_PATH_NOT_MOUNTED ''Mount is outside operator-approved host roots.''
      else if is_under (sw_state_root w) raw \<or> is_under raw (sw_state_root w)
      then raise_domain SANDBOX_POLICY_DENIED ''Gateway state cannot be mounted.''
      else if list_ex (\<lambda>source. is_under (sw_resolve w source) raw) (sw_auth_files w)
      then raise_domain SANDBOX_POLICY_DENIED ''Host credentials cannot be mounted.''
      else check_mounts w mounts)"

definition scope_for_configuration ::
  "scope_world \<Rightarrow> policy_store \<Rightarrow> harness_configuration \<Rightarrow> scope result" where
  "scope_for_configuration w db cfg = (case cfg_sandbox_policy cfg of
     None \<Rightarrow> raise_domain SANDBOX_POLICY_REQUIRED ''Select a sandbox policy.''
   | Some ref \<Rightarrow> bind_result (resolve_policy db (spr_id ref) (spr_revision ref)) (\<lambda>revision.
       if cfg_kind cfg \<notin> set (spo_providers (spv_policy revision))
       then raise_domain SANDBOX_POLICY_DENIED ''Provider is not permitted.''
       else (case those (map (sw_resolve_strict w) (cfg_working_directory cfg # cfg_workspace_roots cfg)) of
           None \<Rightarrow> raise_domain SANDBOX_PATH_NOT_MOUNTED ''A workspace path does not exist.''
         | Some resolved \<Rightarrow>
             let paths = rev (remdups (rev resolved)) in
             bind_result (linked_worktrees w revision (hd paths) paths) (\<lambda>linked.
               let roots = writable_roots revision linked; reads = spo_read_only_roots (spv_policy revision) in
               if list_ex (\<lambda>read. list_ex (\<lambda>write. is_under read write \<or> is_under write read) roots) reads
               then raise_domain SANDBOX_POLICY_DENIED
                 ''Read-only dependencies must be outside the writable project roots.''
               else bind_result (check_mounts w (roots @ reads)) (\<lambda>_.
                 Inr \<lparr>sc_name = SCOPE_PREFIX @ sw_digest w ref (cfg_kind cfg) roots,
                      sc_roots = roots, sc_revision = revision\<rparr>)))))"

section \<open>Reclaiming\<close>

text \<open>The instances of a manager with whether they are in use, and the scopes being retired.\<close>

record scope_manager =
  sm_instances :: "(string, bool) dict"
  sm_retiring :: "string list"

text \<open>The check and the hand-off of \<open>reclaim\<close> happen without yielding; the removal ends later.\<close>

definition begin_reclaim :: "string \<Rightarrow> scope_manager \<Rightarrow> scope_manager option" where
  "begin_reclaim name m =
     (if dict_get (sm_instances m) name = Some True \<or> name \<in> set (sm_retiring m) then None
      else Some (m\<lparr>sm_instances := filter (\<lambda>(n, _). n \<noteq> name) (sm_instances m),
             sm_retiring := name # sm_retiring m\<rparr>))"

definition end_reclaim :: "string \<Rightarrow> scope_manager \<Rightarrow> scope_manager" where
  "end_reclaim name m = m\<lparr>sm_retiring := filter (\<lambda>n. n \<noteq> name) (sm_retiring m)\<rparr>"

text \<open>A caller resolving a scope waits while it is retired, and then finds or makes its instance.\<close>

definition resolve_instance :: "string \<Rightarrow> scope_manager \<Rightarrow> scope_manager option" where
  "resolve_instance name m =
     (if name \<in> set (sm_retiring m) then None
      else if dict_get (sm_instances m) name \<noteq> None then Some m
      else Some (m\<lparr>sm_instances := dict_put (sm_instances m) name False\<rparr>))"

section \<open>The reaper\<close>

record reaper_policy =
  rp_enabled :: bool
  rp_interval :: int
  rp_startup_delay :: int
  rp_container_idle :: int
  rp_purge_idle :: int

definition validate_reaper_policy :: "reaper_policy \<Rightarrow> reaper_policy result" where
  "validate_reaper_policy p =
     (if rp_interval p \<le> 0 then Inl (ValueError ''Input should be greater than 0'')
      else if rp_startup_delay p < 0 then Inl (ValueError ''Input should be greater than or equal to 0'')
      else if rp_container_idle p \<le> 0 then Inl (ValueError ''Input should be greater than 0'')
      else if rp_purge_idle p < 0 then Inl (ValueError ''Input should be greater than or equal to 0'')
      else if rp_interval p \<ge> rp_container_idle p
      then Inl (ValueError ''the reap interval must be shorter than the container idle period'')
      else Inr p)"

record scope_facts =
  sf_name :: string
  sf_last_used :: int
  sf_missing_mount :: bool
  sf_stoppable :: bool
  sf_dead :: bool

datatype (plugins only: code size) reap_action = REAP_STOP | REAP_PURGE

definition reap_decision :: "scope_facts \<Rightarrow> int \<Rightarrow> reaper_policy \<Rightarrow> reap_action option" where
  "reap_decision scope now p =
     (let idle = now - sf_last_used scope in
      if sf_missing_mount scope then Some REAP_PURGE
      else if rp_purge_idle p \<noteq> 0 \<and> idle \<ge> rp_purge_idle p then Some REAP_PURGE
      else if sf_stoppable scope \<and> (sf_dead scope \<or> idle \<ge> rp_container_idle p) then Some REAP_STOP
      else None)"

record reap_report =
  rr_stopped :: "string list"
  rr_purged :: "string list"

text \<open>
  One pass over the surveyed scopes. \<open>reclaimed name purge\<close> is what the removal answers: \<open>False\<close> when this
  process uses the scope, an exception when Docker fails, which is logged.
\<close>

fun reap_scopes ::
  "(string \<Rightarrow> bool \<Rightarrow> bool result) \<Rightarrow> int \<Rightarrow> reaper_policy \<Rightarrow> scope_facts list \<Rightarrow> reap_report \<Rightarrow> reap_report" where
  "reap_scopes reclaimed now p [] report = report"
| "reap_scopes reclaimed now p (scope # scopes) report =
     reap_scopes reclaimed now p scopes
       (case reap_decision scope now p of
          None \<Rightarrow> report
        | Some action \<Rightarrow> (case reclaimed (sf_name scope) (action = REAP_PURGE) of
            Inl _ \<Rightarrow> report
          | Inr False \<Rightarrow> report
          | Inr True \<Rightarrow> if action = REAP_PURGE then report\<lparr>rr_purged := rr_purged report @ [sf_name scope]\<rparr>
              else report\<lparr>rr_stopped := rr_stopped report @ [sf_name scope]\<rparr>))"

definition container_alive :: "string option \<Rightarrow> bool" where
  "container_alive status \<longleftrightarrow> status \<in> {Some ''running'', Some ''restarting''}"

definition survey_scope ::
  "(string, string) dict \<Rightarrow> string list \<Rightarrow> (string \<Rightarrow> int list) \<Rightarrow> (string \<Rightarrow> bool) \<Rightarrow> string \<Rightarrow> scope_facts" where
  "survey_scope statuses networks use_times missing_mount name =
     (let containers = (dict_get statuses name, dict_get statuses (scope_gateway name)) in
      \<lparr>sf_name = name, sf_last_used = fold max (use_times name) 0, sf_missing_mount = missing_mount name,
       sf_stoppable = (scope_network name \<in> set networks \<or> containers \<noteq> (None, None)),
       sf_dead = (\<not> container_alive (fst containers) \<or> \<not> container_alive (snd containers))\<rparr>)"

section \<open>What a scope mounts\<close>

lemma check_mounts_ok:
  "check_mounts w mounts = Inr () \<Longrightarrow> raw \<in> set mounts \<Longrightarrow>
     (\<exists>parent \<in> set (sw_mount_roots w). is_under raw (sw_resolve w parent))
     \<and> \<not> is_under (sw_state_root w) raw \<and> \<not> is_under raw (sw_state_root w)
     \<and> (\<forall>source \<in> set (sw_auth_files w). \<not> is_under (sw_resolve w source) raw)"
  by (induction mounts) (auto simp: list_ex_iff split: if_splits)

lemma linked_worktrees_repository:
  "linked_worktrees w revision first paths = Inr linked \<Longrightarrow> raw \<in> set linked \<Longrightarrow>
     sw_repository w raw = spv_repository_directory revision \<and> spv_repository_directory revision \<noteq> None"
  by (induction paths arbitrary: linked) (auto simp: result_simps split: if_splits)

text \<open>
  Everything a scope mounts lies under an approved root and shares nothing with the gateway's state; no
  host credential lies below it; and what it mounts writable is the project, its repository, or a worktree
  of that repository.
\<close>

theorem scope_mounts_confined:
  assumes "scope_for_configuration w db cfg = Inr s" and "raw \<in> set (sc_roots s) \<union> set (spo_read_only_roots (spv_policy (sc_revision s)))"
  shows "(\<exists>parent \<in> set (sw_mount_roots w). is_under raw (sw_resolve w parent))
     \<and> \<not> is_under (sw_state_root w) raw \<and> \<not> is_under raw (sw_state_root w)
     \<and> (\<forall>source \<in> set (sw_auth_files w). \<not> is_under (sw_resolve w source) raw)
     \<and> (raw \<in> set (sc_roots s) \<longrightarrow> raw = spo_project_root (spv_policy (sc_revision s))
          \<or> Some raw = spv_repository_directory (sc_revision s)
          \<or> sw_repository w raw = spv_repository_directory (sc_revision s) \<and> spv_repository_directory (sc_revision s) \<noteq> None)"
proof -
  from assms(1) obtain first paths linked where
    linked: "linked_worktrees w (sc_revision s) first paths = Inr linked"
    and roots: "sc_roots s = writable_roots (sc_revision s) linked"
    and checked: "check_mounts w (sc_roots s @ spo_read_only_roots (spv_policy (sc_revision s))) = Inr ()"
    by (auto simp: scope_for_configuration_def result_simps Let_def split: option.splits if_splits)
  have "raw = spo_project_root (spv_policy (sc_revision s)) \<or> Some raw = spv_repository_directory (sc_revision s)
      \<or> raw \<in> set linked" if "raw \<in> set (sc_roots s)"
    using that by (auto simp: roots writable_roots_def Let_def split: option.splits if_splits)
  with linked_worktrees_repository [OF linked] check_mounts_ok [OF checked] assms(2) show ?thesis by auto
qed

text \<open>A scope that was used within the idle period and whose mounts and containers are there is left alone.\<close>

lemma live_scope_kept:
  "\<not> sf_missing_mount s \<Longrightarrow> \<not> sf_dead s \<Longrightarrow> now - sf_last_used s < rp_container_idle p \<Longrightarrow>
     rp_purge_idle p = 0 \<or> now - sf_last_used s < rp_purge_idle p \<Longrightarrow> reap_decision s now p = None"
  by (auto simp: reap_decision_def Let_def)

text \<open>A scope in use is never taken, and one that is taken is not resolved until its removal has ended.\<close>

lemma reclaim_excludes_use:
  "dict_get (sm_instances m) name = Some True \<Longrightarrow> begin_reclaim name m = None"
  "begin_reclaim name m = Some m' \<Longrightarrow> resolve_instance name m' = None \<and> begin_reclaim name m' = None"
  by (auto simp: begin_reclaim_def resolve_instance_def split: if_splits)

end
