(* ===== verification/Custom_Images.thy ===== *)
theory Custom_Images
  imports Image_Instructions "HOL-Library.Sublist"
begin

text \<open>
  Derived sandbox images (\<open>src/talktoharnesses/remote/custom_images.py\<close>): the canonical Dockerfile that is
  built instead of the policy's text, the contract a built image must keep with its harness image, the
  choice of what to build and what garbage collection may remove. The Docker daemon's answers are
  parameters, and so are the digests that name tags.
\<close>

section \<open>Rendering\<close>

text \<open>\<open>json.dumps\<close> of a string: ASCII, with the short escapes and surrogate pairs.\<close>

definition json_escape :: "nat \<Rightarrow> string" where
  "json_escape n = [CHR 0x5C, CHR ''u''] @ hex_digits 4 n"

definition json_char :: "nat \<Rightarrow> string" where
  "json_char n = (if n = 34 then [CHR 0x5C, CHR 0x22] else if n = 92 then [CHR 0x5C, CHR 0x5C]
     else if n = 10 then [CHR 0x5C, CHR ''n''] else if n = 13 then [CHR 0x5C, CHR ''r'']
     else if n = 9 then [CHR 0x5C, CHR ''t''] else if n = 12 then [CHR 0x5C, CHR ''f'']
     else if n = 8 then [CHR 0x5C, CHR ''b'']
     else if 32 \<le> n \<and> n < 127 then [char_of n]
     else if n < 0x10000 then json_escape n
     else json_escape (0xD800 + (n - 0x10000) div 0x400) @ json_escape (0xDC00 + (n - 0x10000) mod 0x400))"

definition json_quote :: "nat list \<Rightarrow> string" where
  "json_quote s = [CHR 0x22] @ concat (map json_char s) @ [CHR 0x22]"

text \<open>\<open>_json\<close>: no \<open><\<close> is left for a heredoc.\<close>

definition json_argv :: "nat list list \<Rightarrow> string" where
  "json_argv argv = py_replace ''<'' (json_escape 60) (''['' @ py_join '', '' (map json_quote argv) @ '']'')"

definition codes :: "string \<Rightarrow> nat list" where
  "codes s = map char_nat s"

definition heredoc_content :: "heredoc \<Rightarrow> string" where
  "heredoc_content h = concat (map (\<lambda>l. (if hd_chomp h then dropWhile (\<lambda>c. c = CHR 0x09) l else l) @ [CHR 0x0A])
     (hd_lines h))"

text \<open>The loop that lengthens the terminator until no line of the content is it, by fuel: one line fewer each time.\<close>

fun script_end :: "nat \<Rightarrow> string list \<Rightarrow> string \<Rightarrow> string" where
  "script_end 0 lines e = e"
| "script_end (Suc n) lines e = (if e \<in> set lines then script_end n lines (e @ ''_'') else e)"

definition executable_script :: "string \<Rightarrow> string" where
  "executable_script content =
     (let lines = split_on (CHR 0x0A) content; e = script_end (Suc (length lines)) lines ''TTH_SCRIPT'';
          nl = [CHR 0x0A]; q = [CHR 0x22]
      in ''tth_script='' @ q @ ''$(mktemp)'' @ q @ '' || exit 1'' @ nl
         @ ''cat > '' @ q @ ''$tth_script'' @ q @ '' <<'' @ [CHR 0x27] @ e @ [CHR 0x27] @ nl @ content @ e @ nl
         @ ''chmod +x '' @ q @ ''$tth_script'' @ q @ '' && '' @ q @ ''$tth_script'' @ q @ nl
         @ ''tth_status=$?'' @ nl @ ''rm -f '' @ q @ ''$tth_script'' @ q @ nl
         @ ''exit '' @ q @ ''$tth_status'' @ q @ nl)"

definition heredoc_bodies :: "heredoc list \<Rightarrow> string list" where
  "heredoc_bodies hs = concat (map (\<lambda>h. hd_lines h @ [hd_end h]) hs)"

definition run_script :: "image_instruction \<Rightarrow> string" where
  "run_script i = (case ii_heredocs i of
     [] \<Rightarrow> ii_arguments i
   | first # others \<Rightarrow>
       if others = [] \<and> ii_arguments i = hd_word first then
         (if starts_with ''#!'' (heredoc_content first) then executable_script (heredoc_content first)
          else heredoc_content first)
       else py_join [CHR 0x0A] (ii_arguments i # heredoc_bodies (ii_heredocs i)) @ [CHR 0x0A])"

definition render_instruction :: "string list \<Rightarrow> image_instruction \<Rightarrow> string" where
  "render_instruction shell i =
     (let words = blank_split (ii_arguments i) in
      if ii_keyword i = ''RUN''
      then ''RUN '' @ json_argv (case ii_exec_form i of Some argv \<Rightarrow> argv | None \<Rightarrow> map codes (shell @ [run_script i]))
      else if ii_keyword i \<in> {''COPY'', ''ADD''} then
        (let head = py_join '' '' (ii_keyword i # ii_options i) in
         if ii_heredocs i \<noteq> []
         then py_join [CHR 0x0A] ((head @ '' '' @ py_join '' '' words) # heredoc_bodies (ii_heredocs i))
         else head @ '' '' @ json_argv (case ii_exec_form i of Some argv \<Rightarrow> argv | None \<Rightarrow> map codes words))
      else ii_keyword i @ '' '' @ ii_arguments i)"

record image_config =
  ic_settings :: "(string, string) dict"
  ic_shell :: "string list"
  ic_env :: "(string, string) dict"
  ic_labels :: "(string, string) dict"
  ic_layers :: "string list"

definition setting_or :: "image_config \<Rightarrow> string \<Rightarrow> string \<Rightarrow> string" where
  "setting_or c key usual = (case dict_get (ic_settings c) key of None \<Rightarrow> usual | Some v \<Rightarrow> if v = [] then usual else v)"

definition assignment :: "string \<times> string \<Rightarrow> string" where
  "assignment kv = fst kv @ ''='' @ json_quote (codes (snd kv))"

definition render_dockerfile ::
  "string \<Rightarrow> image_config \<Rightarrow> image_instruction list \<Rightarrow> (string, string) dict \<Rightarrow> string" where
  "render_dockerfile base_tag base instructions labels =
     (let shell = (if ic_shell base = [] then [''/bin/sh'', ''-c''] else ic_shell base);
          restored = concat (map (\<lambda>k. case dict_get (ic_env base) k of None \<Rightarrow> [] | Some v \<Rightarrow> [(k, v)])
            [''HOME'', ''DJANGO_SETTINGS_MODULE''])
      in py_join [CHR 0x0A] ([''FROM '' @ base_tag] @ map (render_instruction shell) instructions
           @ [''WORKDIR '' @ setting_or base ''WorkingDir'' ''/'']
           @ (if restored = [] then [] else [''ENV '' @ py_join '' '' (map assignment restored)])
           @ [''USER '' @ setting_or base ''User'' ''root'', ''LABEL '' @ py_join '' '' (map assignment labels)])
         @ [CHR 0x0A])"

section \<open>The contract of a built image\<close>

definition contract_settings :: "string list" where
  "contract_settings = [''User'', ''WorkingDir'', ''Entrypoint'', ''Cmd'', ''Healthcheck'', ''ExposedPorts'', ''Volumes'',
     ''StopSignal'', ''Shell'', ''OnBuild'']"

definition setting_default :: "string \<Rightarrow> string" where
  "setting_default key = (if key = ''User'' then ''root'' else if key = ''WorkingDir'' then ''/'' else [])"

definition service_variable :: "string \<Rightarrow> bool" where
  "service_variable key \<longleftrightarrow> key \<in> {''HOME'', ''VIRTUAL_ENV''}
     \<or> list_ex (\<lambda>p. starts_with p key) [''UV_'', ''PYTHON'', ''DJANGO_'', ''TALKTOHARNESSES_'', ''TTH_'']"

text \<open>\<open>all(entry in remaining \<dots>)\<close> over one iterator: each search goes on where the last one stopped.\<close>

fun keeps_from :: "string list \<Rightarrow> string list \<Rightarrow> bool" where
  "keeps_from [] remaining = True"
| "keeps_from (e # es) [] = False"
| "keeps_from (e # es) (r # rs) = (if e = r then keeps_from es rs else keeps_from (e # es) rs)"

definition keeps_entries :: "string option \<Rightarrow> string option \<Rightarrow> bool" where
  "keeps_entries base_path derived_path = (case base_path of
     None \<Rightarrow> True
   | Some b \<Rightarrow> keeps_from (split_on (CHR '':'') b) (split_on (CHR '':'') (case derived_path of None \<Rightarrow> [] | Some d \<Rightarrow> d)))"

definition labelled :: "image_config \<Rightarrow> (string, string) dict \<Rightarrow> bool" where
  "labelled img labels = list_all (\<lambda>(k, v). dict_get (ic_labels img) k = Some v) labels"

definition contract_problem :: "image_config \<Rightarrow> image_config \<Rightarrow> (string, string) dict \<Rightarrow> string option" where
  "contract_problem derived base labels =
     (case List.find (\<lambda>k. setting_or derived k (setting_default k) \<noteq> setting_or base k (setting_default k)) contract_settings of
        Some k \<Rightarrow> Some (''changes '' @ k @ '' of the harness image'')
      | None \<Rightarrow>
          (case List.find (\<lambda>k. service_variable k \<and> dict_get (ic_env derived) k \<noteq> dict_get (ic_env base) k)
              (sort (remdups (map fst (ic_env derived) @ map fst (ic_env base)))) of
             Some k \<Rightarrow> Some ((if dict_get (ic_env base) k \<noteq> None then ''changes'' else ''sets'') @ '' '' @ k
               @ '', which the split service reads'')
           | None \<Rightarrow>
               if \<not> keeps_entries (dict_get (ic_env base) ''PATH'') (dict_get (ic_env derived) ''PATH'')
               then Some ''removes directories from PATH''
               else if take (length (ic_layers base)) (ic_layers derived) \<noteq> ic_layers base
               then Some ''is not built on the harness image''
               else if \<not> labelled derived labels then Some ''is missing its labels''
               else None))"

section \<open>Building\<close>

text \<open>
  \<open>ensure_derived_image\<close>: at most two attempts, because a base image rebuilt during a build makes the
  build worthless. \<open>base_ids\<close> is what the daemon answers for the base before and after each attempt,
  \<open>built\<close> whether the tag of a base exists with its labels, \<open>build_image\<close> the image a build gives.
\<close>

definition build_failed :: "string \<Rightarrow> string \<Rightarrow> exn" where
  "build_failed kind message = DomainError SANDBOX_UNAVAILABLE message
     [(''kind'', JStr kind), (''reason'', JStr ''custom_image_build_failed'')]"

fun ensure_derived ::
  "string \<Rightarrow> string \<Rightarrow> (string \<Rightarrow> string) \<Rightarrow> (string \<Rightarrow> (string, string) dict) \<Rightarrow> (string \<Rightarrow> bool)
     \<Rightarrow> (string \<Rightarrow> image_config result) \<Rightarrow> (string \<Rightarrow> image_config) \<Rightarrow> (string \<times> string) list \<Rightarrow> string result" where
  "ensure_derived kind base_tag tag_of labels_of built build_image base_of [] =
     Inl (build_failed kind (base_tag @ '' changed during every build of its derived image''))"
| "ensure_derived kind base_tag tag_of labels_of built build_image base_of ((before, after) # attempts) =
     (if built before then Inr (tag_of before)
      else bind_result (build_image before) (\<lambda>img.
        if after \<noteq> before
        then ensure_derived kind base_tag tag_of labels_of built build_image base_of attempts
        else (case contract_problem img (base_of before) (labels_of before) of
            None \<Rightarrow> Inr (tag_of before)
          | Some problem \<Rightarrow> Inl (build_failed kind (''sandbox image '' @ tag_of before @ '' '' @ problem)))))"

definition BASE_ATTEMPTS :: nat where "BASE_ATTEMPTS = 2"

definition ensure_derived_image ::
  "string \<Rightarrow> string \<Rightarrow> (string \<Rightarrow> string) \<Rightarrow> (string \<Rightarrow> (string, string) dict) \<Rightarrow> (string \<Rightarrow> bool)
     \<Rightarrow> (string \<Rightarrow> image_config result) \<Rightarrow> (string \<Rightarrow> image_config) \<Rightarrow> (string \<times> string) list \<Rightarrow> string result" where
  "ensure_derived_image kind base_tag tag_of labels_of built build_image base_of base_ids =
     ensure_derived kind base_tag tag_of labels_of built build_image base_of (take BASE_ATTEMPTS base_ids)"

section \<open>Garbage collection\<close>

record derived_image =
  di_id :: string
  di_tags :: "string list"

text \<open>The derived images to remove: unused, unwanted, and not held by a preparation.\<close>

definition collectable :: "string list \<Rightarrow> string list \<Rightarrow> (string \<Rightarrow> bool) \<Rightarrow> derived_image \<Rightarrow> bool" where
  "collectable used wanted lock_free img \<longleftrightarrow> di_id img \<notin> set used
     \<and> \<not> list_ex (\<lambda>t. t \<in> set (di_tags img)) wanted
     \<and> (di_tags img = [] \<or> lock_free (hd (di_tags img)))"

definition collect_derived ::
  "string list \<Rightarrow> string list \<Rightarrow> (string \<Rightarrow> bool) \<Rightarrow> (string \<Rightarrow> bool) \<Rightarrow> derived_image list \<Rightarrow> string list" where
  "collect_derived used wanted lock_free removable images =
     map (\<lambda>i. if di_tags i = [] then di_id i else hd (di_tags i))
       (filter (\<lambda>i. collectable used wanted lock_free i \<and> removable (di_id i)) images)"

record image_evidence =
  ie_kind :: string
  ie_base_image :: string
  ie_dockerfile_sha256 :: string
  ie_contract :: int

definition CONTRACT_VERSION :: int where "CONTRACT_VERSION = 2"

text \<open>The tags the scopes under a state root would use on today's base images.\<close>

definition wanted_tags ::
  "(string \<Rightarrow> string \<Rightarrow> string \<Rightarrow> string) \<Rightarrow> (string \<Rightarrow> string option) \<Rightarrow> image_evidence option list \<Rightarrow> string list" where
  "wanted_tags tag base_id scopes = concat (map (\<lambda>e. case e of
     None \<Rightarrow> []
   | Some r \<Rightarrow> if ie_contract r \<noteq> CONTRACT_VERSION then []
       else (case base_id (ie_base_image r) of None \<Rightarrow> [] | Some i \<Rightarrow> [tag (ie_kind r) i (ie_dockerfile_sha256 r)])) scopes)"

section \<open>What the contract keeps\<close>

lemma keeps_from_subseq: "keeps_from es rs \<longleftrightarrow> subseq es rs"
  by (induction es rs rule: keeps_from.induct) auto

text \<open>
  An image that passes runs as the harness image runs: the same settings, the same service environment,
  its search path among the directories in order, its layers at the bottom.
\<close>

theorem contract_keeps_service:
  assumes "contract_problem derived base labels = None"
  shows "(\<forall>k \<in> set contract_settings. setting_or derived k (setting_default k) = setting_or base k (setting_default k))
    \<and> (\<forall>k. service_variable k \<longrightarrow> dict_get (ic_env derived) k = dict_get (ic_env base) k)
    \<and> (\<forall>p. dict_get (ic_env base) ''PATH'' = Some p \<longrightarrow> subseq (split_on (CHR '':'') p)
         (split_on (CHR '':'') (case dict_get (ic_env derived) ''PATH'' of None \<Rightarrow> [] | Some d \<Rightarrow> d)))
    \<and> (\<exists>own. ic_layers derived = ic_layers base @ own)
    \<and> (\<forall>(k, v) \<in> set labels. dict_get (ic_labels derived) k = Some v)"
proof -
  let ?env = "sort (remdups (map fst (ic_env derived) @ map fst (ic_env base)))"
  from assms have settings: "List.find (\<lambda>k. setting_or derived k (setting_default k) \<noteq> setting_or base k (setting_default k)) contract_settings = None"
    and env: "List.find (\<lambda>k. service_variable k \<and> dict_get (ic_env derived) k \<noteq> dict_get (ic_env base) k) ?env = None"
    and path: "keeps_entries (dict_get (ic_env base) ''PATH'') (dict_get (ic_env derived) ''PATH'')"
    and layers: "take (length (ic_layers base)) (ic_layers derived) = ic_layers base"
    and "labelled derived labels"
    by (auto simp: contract_problem_def split: option.splits if_splits)
  moreover have "dict_get (ic_env derived) k = dict_get (ic_env base) k" if "service_variable k" for k
  proof (cases "k \<in> set ?env")
    case True
    with env that show ?thesis by (auto simp: find_None_iff_all)
  next
    case False
    then show ?thesis by (simp add: map_of_eq_None_iff [THEN iffD2])
  qed
  moreover have "ic_layers derived = ic_layers base @ drop (length (ic_layers base)) (ic_layers derived)"
    using layers by (metis append_take_drop_id)
  ultimately show ?thesis
    by (auto simp: find_None_iff_all keeps_entries_def keeps_from_subseq labelled_def list_all_iff)
qed

text \<open>Whatever happens to the base image, the tag that is used was checked against the base it names.\<close>

lemma ensured_image_kept_contract:
  "ensure_derived kind base_tag tag_of labels_of built build_image base_of attempts = Inr tag \<Longrightarrow>
     \<exists>before. tag = tag_of before \<and> (built before
       \<or> (\<exists>img. build_image before = Inr img \<and> contract_problem img (base_of before) (labels_of before) = None))"
  by (induction attempts) (fastforce simp: result_simps split: if_splits option.splits)+

end
