(* ===== verification/Runtime_Recovery.thy ===== *)
theory Runtime_Recovery
  imports Runtime_Start
begin

text \<open>
  The runtimes of recovery (\<open>resume_for_recovery\<close>, \<open>reattach_for_recovery\<close> and \<open>recovery_handoff_fallback\<close> of
  \<open>src/talktoharnesses/runtime/manager.py\<close>): a worker that took a conversation over resumes its native
  session, continues the split session that outlived the previous worker, or seeds a new one with the
  handoff. Each commits its process rows under the fence before the runtime is installed.
\<close>

record recovery_request =
  rq_conversation_id :: uuid
  rq_owner_id :: string
  rq_configuration :: harness_configuration
  rq_expected_kind :: harness_kind
  rq_worker_id :: string
  rq_fence :: int

text \<open>\<open>_recovery_slot\<close>: what is refused before the conversation's lock is held.\<close>

definition recovery_slot ::
  "recovery_request \<Rightarrow> (environment, 'z managers_scheme, fault, 'a) action
     \<Rightarrow> (environment, 'z managers_scheme, fault, 'a) action" where
  "recovery_slot req body = (let cid = rq_conversation_id req in
     bind_action get_world (\<lambda>w.
     if mg_shutting_down w then fail shutting_down
     else then_do (if dict_get (mg_runtimes w) cid = None then require_capacity else ret ())
       (if dict_get (mg_runtimes w) cid \<noteq> None
        then fail (Raised (DomainError CONVERSATION_BUSY ''conversation already has an active runtime''
          (conversation_details cid)))
        else if cfg_kind (rq_configuration req) \<noteq> rq_expected_kind req
        then fail (Raised (DomainError INVALID_STATE (recovery_reason_value RR_INVARIANT_FAILURE)
          (conversation_details cid)))
        else body)))"

definition recovered_runtime ::
  "recovery_request \<Rightarrow> harness_session \<Rightarrow> process_handle option \<Rightarrow> uuid \<Rightarrow> process_row \<Rightarrow> launch_snapshot
     \<Rightarrow> managed_runtime" where
  "recovered_runtime req session handle process_id row launch =
     \<lparr>mr_conversation_id = rq_conversation_id req, mr_owner_id = rq_owner_id req, mr_session = session,
      mr_process = handle, mr_process_id = process_id, mr_process_record = row, mr_launch = launch,
      mr_worker_id = Some (rq_worker_id req), mr_fence = Some (rq_fence req), mr_closing = False, mr_closed = False,
      mr_terminal_persisted = False, mr_stderr_truncation_persisted = False\<rparr>"

definition commit_recovered ::
  "recovery_request \<Rightarrow> conversation_state \<Rightarrow> conversation_state \<Rightarrow> uuid \<Rightarrow> process_row \<Rightarrow> launch_snapshot option
     \<Rightarrow> conversation_event list \<Rightarrow> (environment, 'z managers_scheme, fault, unit) action" where
  "commit_recovered req before st process_id row launch events =
     commit_runtime_lifecycle (rq_conversation_id req) (conv_version (st_conversation before)) st
       (Some (process_id, row)) launch events (Some (rq_worker_id req)) (Some (rq_fence req))"

definition invalid_for :: "uuid \<Rightarrow> string \<Rightarrow> fault" where
  "invalid_for cid message = Raised (DomainError INVALID_STATE message (conversation_details cid))"

section \<open>Reattaching\<close>

text \<open>The split session goes on where the committed cursor points; a failure closes it.\<close>

definition reattach_body ::
  "recovery_request \<Rightarrow> split_stream_cursor \<Rightarrow> conversation_state \<Rightarrow> binding \<Rightarrow> launch_snapshot
     \<Rightarrow> (environment, 'z managers_scheme, fault, nat) action" where
  "reattach_body req cursor st b launch =
     (let session = \<lparr>hs_conversation_id = rq_conversation_id req, hs_binding_id = bind_id b, hs_kind = bind_kind b,
            hs_native_session_id = bind_native_session_id b, hs_model = cfg_model (rq_configuration req),
            hs_mode = cfg_mode (rq_configuration req), hs_effort = cfg_effort (rq_configuration req)\<rparr> in
      then_do (call_native (Reattach session cursor))
      (bind_action read_clock (\<lambda>now.
       bind_action fresh_uuids (\<lambda>u.
       let row = new_process_row (rq_conversation_id req) (bind_id b) PROC_RUNNING None (Some now) in
       then_do (commit_recovered req st st (u 0) row (Some launch) [])
       (bind_action (new_object (recovered_runtime req session None (u 0) row launch)) (\<lambda>tok.
        then_do (install_runtime (rq_conversation_id req) tok) (ret tok)))))))"

definition can_reattach :: "uuid \<Rightarrow> harness_kind \<Rightarrow> (environment, 'z managers_scheme, fault, unit) action" where
  "can_reattach cid kind = (\<lambda>E w. (if en_split_stream E kind then Inr ()
     else Inl (invalid_for cid ''adapter cannot reattach a split session''), w))"

definition reattach_for_recovery ::
  "recovery_request \<Rightarrow> split_stream_cursor \<Rightarrow> (environment, 'z managers_scheme, fault, nat) action" where
  "reattach_for_recovery req cursor = recovery_slot req (let cid = rq_conversation_id req;
       kind = cfg_kind (rq_configuration req) in
     bind_action (worker_snapshot cid) (\<lambda>st. case st_binding st of
       None \<Rightarrow> fail (invalid_for cid ''split cursor belongs to another binding'')
     | Some b \<Rightarrow>
         if bind_id b \<noteq> ssc_binding_id cursor then fail (invalid_for cid ''split cursor belongs to another binding'')
         else case bind_launch_snapshot b of
           None \<Rightarrow> fail (invalid_for cid ''binding has no launch snapshot'')
         | Some launch \<Rightarrow>
             then_do (plan_launch kind)
             (then_do (can_reattach cid kind)
             (then_do (import_seen kind st)
             (attempt (reattach_body req cursor st b launch) (\<lambda>e.
               then_do (rollback_adapter_startup cid (bind_id b) (rq_configuration req)) (fail e)))))))"

section \<open>Resuming\<close>

definition map_resume_reason :: "error_code \<Rightarrow> string \<Rightarrow> recovery_reason_code" where
  "map_resume_reason code message =
     (if code = PROVIDER_INCOMPATIBLE
      then (if message = recovery_reason_value RR_RESUME_UNSUPPORTED then RR_RESUME_UNSUPPORTED
            else RR_PROVIDER_INCOMPATIBLE)
      else RR_RESUME_REJECTED)"

text \<open>Errors of the probe and of the native resume reach the caller as recovery reasons.\<close>

definition probe_for_recovery ::
  "recovery_request \<Rightarrow> (environment, 'z managers_scheme, fault, launch_snapshot) action" where
  "probe_for_recovery req = attempt (probe_and_build_launch (rq_configuration req)) (\<lambda>e. case e of
     Raised (DomainError _ _ _) \<Rightarrow> fail (Raised (DomainError PROVIDER_INCOMPATIBLE
       (recovery_reason_value RR_PROVIDER_INCOMPATIBLE) (conversation_details (rq_conversation_id req))))
   | _ \<Rightarrow> fail e)"

definition resume_native_for_recovery ::
  "recovery_request \<Rightarrow> uuid \<Rightarrow> string \<Rightarrow> (environment, 'z managers_scheme, fault, native_reply) action" where
  "resume_native_for_recovery req bid native = (let details = conversation_details (rq_conversation_id req) in
     attempt (call_native (ResumeNative bid (rq_configuration req) native)) (\<lambda>e. case e of
       TimedOut \<Rightarrow> fail (Raised (DomainError RUNTIME_TIMEOUT (recovery_reason_value RR_RESUME_REJECTED) details))
     | Raised (DomainError code message _) \<Rightarrow>
         fail (Raised (DomainError code (recovery_reason_value (map_resume_reason code message)) details))
     | _ \<Rightarrow> fail e))"

definition launch_reason :: "launch_snapshot option \<Rightarrow> launch_snapshot \<Rightarrow> recovery_reason_code" where
  "launch_reason previous launch = (case previous of
     Some p \<Rightarrow> if launch_resolved_executable p = launch_resolved_executable launch
         \<and> launch_harness_version p = launch_harness_version launch \<and> launch_adapter_version p = launch_adapter_version launch
       then RR_UNCHANGED_LAUNCH else RR_EXECUTABLE_CHANGED
   | None \<Rightarrow> RR_EXECUTABLE_CHANGED)"

text \<open>
  From the RUNNING row on; the handler needs the handle, which exists once the session is resumed. The
  binding may be gone by then, which the code asserts it is not.
\<close>

definition resume_body ::
  "recovery_request \<Rightarrow> string \<Rightarrow> uuid \<Rightarrow> conversation_state \<Rightarrow> uuid \<Rightarrow> process_row \<Rightarrow> launch_snapshot
     \<Rightarrow> (environment, 'z managers_scheme, fault \<times> process_handle option, nat) action" where
  "resume_body req native bid st process_id row launch = (let cid = rq_conversation_id req in
     bind_action (located None (bind_action read_clock (\<lambda>now.
       let running = row\<lparr>pr_status := PROC_RUNNING, pr_pid := None, pr_started_at := Some now\<rparr> in
       case st_binding st of
         None \<Rightarrow> fail Crashed
       | Some b \<Rightarrow>
           then_do (commit_recovered req st (st\<lparr>st_binding := Some (b\<lparr>bind_launch_snapshot := Some launch\<rparr>)\<rparr>)
             process_id running (Some launch) [])
           (then_do (worker_snapshot cid)
           (then_do (prepare_workspace (rq_configuration req) (Some
              \<lparr>rc_conversation_id = cid, rc_binding_id = bid, rc_worker_id = Some (rq_worker_id req),
               rc_fence = Some (rq_fence req), rc_refresh = worker_snapshot cid\<rparr>))
           (bind_action (worker_snapshot cid) (\<lambda>st1.
            bind_action (resume_native_for_recovery req bid native) (\<lambda>r. ret (running, st1, r))))))))) (\<lambda>(running, st1, r).
     let handle = map_option new_handle (rp_process r); session = rp_session r;
         row1 = (case handle of None \<Rightarrow> running | Some h \<Rightarrow> running\<lparr>pr_pid := ps_pid (ph_snapshot h)\<rparr>)
     in located handle
       (bind_action read_clock (\<lambda>now.
        bind_action fresh_uuids (\<lambda>u.
        bind_action (lift_result (resume_session u st1 now
          (if truthy_text (hs_native_session_id session) then the (hs_native_session_id session) else native) launch)) (\<lambda>t.
        then_do (commit_recovered req st1 (tr_state t) process_id row1 None (tr_events t))
        (bind_action (new_object (recovered_runtime req session handle process_id row1 launch)) (\<lambda>tok.
         then_do (install_runtime cid tok) (ret tok)))))))))"

definition resume_for_recovery ::
  "recovery_request \<Rightarrow> string \<Rightarrow> launch_snapshot option
     \<Rightarrow> (environment, 'z managers_scheme, fault, nat \<times> recovery_reason_code) action" where
  "resume_for_recovery req native previous_launch = recovery_slot req (let cid = rq_conversation_id req;
       kind = cfg_kind (rq_configuration req) in
     bind_action (worker_snapshot cid) (\<lambda>st. case st_binding st of
       None \<Rightarrow> raise_error INVALID_STATE ''conversation has no binding''
     | Some b \<Rightarrow>
         then_do (plan_launch kind)
         (then_do (import_seen kind st)
         (bind_action (probe_for_recovery req) (\<lambda>launch.
          if \<not> caps_supports_resume (launch_capabilities launch)
          then fail (Raised (DomainError PROVIDER_INCOMPATIBLE (recovery_reason_value RR_RESUME_UNSUPPORTED)
            (conversation_details cid)))
          else bind_action fresh_uuids (\<lambda>u.
            let row = new_process_row cid (bind_id b) PROC_STARTING None None in
            then_do (commit_recovered req st st (u 0) row None [])
            (bind_action (worker_snapshot cid) (\<lambda>st1.
             bind_action (attempt_located (resume_body req native (bind_id b) st1 (u 0) row launch) (\<lambda>e handle.
               then_do (force_local (u 0) ''recovery_resume_failure'' handle)
               (then_do (rollback_adapter_startup cid (bind_id b) (rq_configuration req)) (fail e)))) (\<lambda>tok.
             ret (tok, launch_reason previous_launch launch))))))))))"

section \<open>Starting over with a handoff\<close>

text \<open>A candidate that is rejected is closed and the binding marked; \<open>None\<close> tells the caller.\<close>

definition recovery_handoff_fallback ::
  "recovery_request \<Rightarrow> uuid \<Rightarrow> string \<Rightarrow> (environment, 'z managers_scheme, fault, nat option) action" where
  "recovery_handoff_fallback req bid handoff_text = (let cid = rq_conversation_id req in
     attempt
       (bind_action (start_candidate cid (rq_owner_id req) bid (rq_configuration req) (Some (rq_worker_id req))
           (Some (rq_fence req))) (\<lambda>tok.
        then_do (seed_candidate tok handoff_text) (ret (Some tok))))
       (\<lambda>e. if \<not> is_exception e then fail e
         else then_do (suppress_exceptions (close_candidate bid))
           (then_do (suppress_exceptions (bind_action (worker_snapshot cid) (\<lambda>st.
              bind_action read_clock (\<lambda>now.
              transact (RequireRecreation cid (conv_version (st_conversation st)) (Some (rq_worker_id req))
                (Some (rq_fence req)) now)))))
            (ret None))))"

end
