(* ===== verification/Worker_Coordinator.thy ===== *)
theory Worker_Coordinator
  imports Delivery_Properties Runtime_Recovery Recovery
begin

text \<open>
  The worker coordinator (\<open>src/talktoharnesses/application/worker_coordinator.py\<close>): it claims expired
  conversations, decides what to do with each and applies the decision under its fence; at shutdown it
  gives back what was not delivered and settles what was. Its heartbeat, which renews the leases beside
  all this, and the reaction to a lost worker lease are left out, as are metrics and fault callbacks.
  The lemmas name what an operation may leave in the trace, as for the command processor; the theorem says
  that recovering a conversation delivers no command: the only thing it submits to a harness is the
  handoff that primes a session it opened itself, and a shutdown submits nothing at all.
\<close>

section \<open>State\<close>

datatype (plugins only: code size) worker_phase = WORKER_STARTING | WORKER_RUNNING | WORKER_LEASE_LOST

record coordinators = processors +
  co_worker_id :: "string option"
  co_fences :: "(uuid, int) dict"
  co_attempt_ids :: "(uuid, uuid) dict"
  co_initial_recovery_complete :: bool
  co_draining :: bool
  co_heartbeat_healthy :: bool
  co_lease_healthy :: bool
  co_phase :: worker_phase

type_synonym ('z, 'a) coordination = "(environment, 'z coordinators_scheme, fault, 'a) action"

text \<open>\<open>loop_alive\<close>: the claim loop is a task that has not ended.\<close>

definition claims_healthy :: "bool \<Rightarrow> 'z coordinators_scheme \<Rightarrow> bool" where
  "claims_healthy loop_alive w \<longleftrightarrow> co_phase w \<noteq> WORKER_LEASE_LOST \<and> cp_running w \<and> loop_alive"

definition ready_for_work :: "bool \<Rightarrow> 'z coordinators_scheme \<Rightarrow> bool" where
  "ready_for_work loop_alive w \<longleftrightarrow> co_initial_recovery_complete w \<and> \<not> co_draining w \<and> co_lease_healthy w
     \<and> co_heartbeat_healthy w \<and> claims_healthy loop_alive w"

text \<open>\<open>assert self._worker_id is not None\<close>.\<close>

definition this_worker :: "('z, string) coordination" where
  "this_worker = bind_action get_world (\<lambda>w. case co_worker_id w of None \<Rightarrow> fail Crashed | Some worker \<Rightarrow> ret worker)"

section \<open>Leases\<close>

definition on_lost_lease :: "uuid \<Rightarrow> ('z, unit) coordination" where
  "on_lost_lease cid =
     then_do (modify (\<lambda>w. drop_fence cid (w\<lparr>co_fences := AList.delete cid (co_fences w),
       co_attempt_ids := AList.delete cid (co_attempt_ids w)\<rparr>)))
     (then_do (suppress_exceptions (quiesce_pump cid))
       (suppress_exceptions (close_runtime cid (Some ''lease_lost''))))"

definition remember_ownership :: "uuid \<Rightarrow> int \<Rightarrow> uuid option \<Rightarrow> 'z coordinators_scheme \<Rightarrow> 'z coordinators_scheme" where
  "remember_ownership cid fence attempt_id w = (let w = set_fence cid fence (w\<lparr>co_fences := dict_put (co_fences w) cid fence\<rparr>)
     in case attempt_id of None \<Rightarrow> w | Some i \<Rightarrow> w\<lparr>co_attempt_ids := dict_put (co_attempt_ids w) cid i\<rparr>)"

section \<open>Applying a decision\<close>

definition complete_attempt ::
  "uuid option \<Rightarrow> recovery_result_code \<Rightarrow> recovery_reason_code \<Rightarrow> ('z, unit) coordination" where
  "complete_attempt attempt_id outcome reason = (case attempt_id of
     None \<Rightarrow> ret ()
   | Some i \<Rightarrow> suppress_exceptions (bind_action read_clock (\<lambda>now. transact (CompleteAttempt i outcome reason now))))"

definition note_of :: "recovery_trigger \<Rightarrow> recovery_decision \<Rightarrow> recovery_note" where
  "note_of trigger d = \<lparr>rn_command_id = rd_command_id d, rn_turn_id = rd_turn_id d, rn_trigger = trigger,
     rn_phase = rd_observed_delivery_phase d, rn_action = rd_action d, rn_reason_code = rd_reason_code d\<rparr>"

text \<open>\<open>_apply_outcome_unknown\<close>.\<close>

definition record_outcome_unknown ::
  "conversation_state \<Rightarrow> recovery_decision \<Rightarrow> int \<Rightarrow> uuid option \<Rightarrow> recovery_trigger \<Rightarrow> ('z, unit) coordination" where
  "record_outcome_unknown st d fence attempt_id trigger =
     bind_action this_worker (\<lambda>worker.
     bind_action read_clock (\<lambda>now.
     bind_action fresh_uuids (\<lambda>u.
     bind_action (lift_result (outcome_unknown_batch u st d now attempt_id)) (\<lambda>b.
     bind_action fresh_uuids (\<lambda>u'.
     then_do (transact (CommitRecovery u' (conv_id (st_conversation st)) (conv_version (st_conversation st))
         (rb_state b) (rb_events b) (rb_commands b) attempt_id (note_of trigger d) RES_SUCCESS now worker fence))
       (safe_publish (rb_events b)))))))"

text \<open>
  \<open>_adopt_recovered_runtime\<close>: the runtime is pumped and the attempt ends; \<open>False\<close> lets the caller fall
  back, while a lost lease hands the conversation over.
\<close>

definition adopt_recovered_runtime ::
  "uuid \<Rightarrow> ('z, recovery_reason_code) coordination \<Rightarrow> int \<Rightarrow> uuid option \<Rightarrow> ('z, bool) coordination" where
  "adopt_recovered_runtime cid begin_runtime fence attempt_id =
     bind_action (attempt (bind_action begin_runtime (\<lambda>reason. ret (Inr reason)))
       (\<lambda>e. if fault_code e = Some STALE_OWNER then then_do (on_lost_lease cid) (ret (Inl True))
            else if is_exception e then ret (Inl False) else fail e)) (\<lambda>outcome. case outcome of
     Inl handled \<Rightarrow> ret handled
   | Inr reason \<Rightarrow>
       then_do (modify (set_fence cid fence))
       (then_do (ensure_pump cid)
       (then_do (complete_attempt attempt_id RES_SUCCESS reason) (ret True))))"

definition request_for :: "conversation_state \<Rightarrow> binding \<Rightarrow> string \<Rightarrow> int \<Rightarrow> recovery_request" where
  "request_for st b worker fence =
     \<lparr>rq_conversation_id = conv_id (st_conversation st), rq_owner_id = conv_owner_id (st_conversation st),
      rq_configuration = bind_configuration b, rq_expected_kind = bind_kind b, rq_worker_id = worker, rq_fence = fence\<rparr>"

definition apply_native_resume :: "conversation_state \<Rightarrow> int \<Rightarrow> uuid option \<Rightarrow> ('z, bool) coordination" where
  "apply_native_resume st fence attempt_id = bind_action this_worker (\<lambda>worker.
     case st_binding st of
       None \<Rightarrow> ret False
     | Some b \<Rightarrow>
         if \<not> truthy_text (bind_native_session_id b) then ret False
         else adopt_recovered_runtime (conv_id (st_conversation st))
           (bind_action (resume_for_recovery (request_for st b worker fence) (the (bind_native_session_id b))
              (bind_launch_snapshot b)) (\<lambda>(tok, reason). ret reason)) fence attempt_id)"

definition apply_reattach ::
  "conversation_state \<Rightarrow> recovery_decision \<Rightarrow> int \<Rightarrow> uuid option \<Rightarrow> ('z, bool) coordination" where
  "apply_reattach st d fence attempt_id = bind_action this_worker (\<lambda>worker.
     case (st_binding st, st_split_stream st) of
       (Some b, Some cursor) \<Rightarrow> adopt_recovered_runtime (conv_id (st_conversation st))
         (bind_action (reattach_for_recovery (request_for st b worker fence) cursor) (\<lambda>tok. ret (rd_reason_code d)))
         fence attempt_id
     | _ \<Rightarrow> fail Crashed)"

definition needs_observation :: "conversation_state \<Rightarrow> bool" where
  "needs_observation st \<longleftrightarrow> st_active_turn st \<noteq> None \<or> running_activities st \<noteq> []
     \<or> conv_status (st_conversation st) \<in> {CONV_RUNNING, CONV_WAITING, CONV_BACKGROUND_ACTIVE}"

text \<open>Once the handoff was accepted: the session is replaced under the fence, then watched or closed.\<close>

definition rotate_to_candidate :: "uuid \<Rightarrow> uuid \<Rightarrow> nat \<Rightarrow> string \<Rightarrow> int \<Rightarrow> ('z, unit) coordination" where
  "rotate_to_candidate cid bid tok worker fence =
     bind_action (worker_snapshot cid) (\<lambda>st.
     bind_action (get_managed tok) (\<lambda>m.
     then_do (transact (CommitRotation cid (conv_version (st_conversation st))
         (hs_native_session_id (mr_session m)) (Some (mr_launch m)) (Some worker) (Some fence)))
       (if needs_observation st
        then then_do (promote_candidate cid bid) (then_do (modify (set_fence cid fence)) (ensure_pump cid))
        else close_candidate bid)))"

definition apply_handoff_fallback ::
  "conversation_state \<Rightarrow> recovery_decision \<Rightarrow> int \<Rightarrow> uuid option \<Rightarrow> recovery_trigger \<Rightarrow> ('z, unit) coordination" where
  "apply_handoff_fallback st d fence attempt_id trigger = (let cid = conv_id (st_conversation st) in
     bind_action this_worker (\<lambda>worker.
     bind_action
       (if st_active_turn st \<noteq> None \<or> running_activities st \<noteq> []
        then then_do (record_outcome_unknown st (d\<lparr>rd_kind := OUTCOME_UNKNOWN, rd_action := RA_OUTCOME_UNKNOWN,
              rd_reason_code := RR_RECOVERY_FALLBACK\<rparr>) fence None trigger)
          (worker_snapshot cid)
        else ret st) (\<lambda>st.
     case st_binding st of
       None \<Rightarrow> complete_attempt attempt_id RES_FAILED RR_RECOVERY_FALLBACK
     | Some b \<Rightarrow>
         bind_action (read_handoff cid) (\<lambda>handoff.
         bind_action (recovery_handoff_fallback (request_for st b worker fence) (bind_id b) handoff) (\<lambda>candidate.
         case candidate of
           None \<Rightarrow> complete_attempt attempt_id RES_FAILED RR_RECOVERY_FALLBACK
         | Some tok \<Rightarrow> then_do (rotate_to_candidate cid (bind_id b) tok worker fence)
             (complete_attempt attempt_id RES_SUCCESS RR_RECOVERY_FALLBACK))))))"

text \<open>\<open>_classify\<close>: the harness is only probed when its answer can change the decision.\<close>

definition probe_supports_resume :: "conversation_state \<Rightarrow> ('z, bool) coordination" where
  "probe_supports_resume st = (case st_binding st of
     None \<Rightarrow> ret False
   | Some b \<Rightarrow> attempt
       (then_do (plan_launch (cfg_kind (bind_configuration b)))
         (bind_action (probe_and_build_launch (bind_configuration b)) (\<lambda>launch.
           ret (caps_supports_resume (launch_capabilities launch)))))
       (\<lambda>e. if is_exception e then ret False else fail e))"

definition first_decision :: "conversation_state \<Rightarrow> datetime \<Rightarrow> bool \<Rightarrow> recovery_decision" where
  "first_decision st now supports_resume = hd (classify_conversation st now supports_resume)"

definition classify_work :: "conversation_state \<Rightarrow> ('z, recovery_decision) coordination" where
  "classify_work st = bind_action read_clock (\<lambda>now.
     if first_decision st now False = first_decision st now True then ret (first_decision st now True)
     else bind_action (probe_supports_resume st) (\<lambda>resumes. ret (first_decision st now resumes)))"

text \<open>
  \<open>_apply_decision\<close>. A reattach that failed decides again without the cursor; the second decision is
  never a reattach, so a fuel of two is enough.
\<close>

fun apply_decision ::
  "nat \<Rightarrow> conversation_state \<Rightarrow> recovery_decision \<Rightarrow> int \<Rightarrow> uuid option \<Rightarrow> recovery_trigger \<Rightarrow> ('z, unit) coordination" where
  "apply_decision 0 st d fence attempt_id trigger = fail Stuck"
| "apply_decision (Suc n) st d fence attempt_id trigger = (let cid = conv_id (st_conversation st) in
     bind_action this_worker (\<lambda>worker.
     then_do (case attempt_id of None \<Rightarrow> ret ()
       | Some i \<Rightarrow> transact (UpdateAttempt i (note_of trigger d) worker fence))
     (case rd_kind d of
        LEAVE_CLAIMABLE \<Rightarrow> complete_attempt attempt_id RES_NO_ACTION (rd_reason_code d)
      | RECLAIM \<Rightarrow> complete_attempt attempt_id RES_SUCCESS (rd_reason_code d)
      | NO_ACTION \<Rightarrow> complete_attempt attempt_id RES_NO_ACTION (rd_reason_code d)
      | OUTCOME_UNKNOWN \<Rightarrow> record_outcome_unknown st d fence attempt_id trigger
      | INVARIANT_FAILURE \<Rightarrow> record_outcome_unknown st d fence attempt_id trigger
      | REATTACH \<Rightarrow> bind_action (apply_reattach st d fence attempt_id) (\<lambda>ok.
          if ok then ret ()
          else bind_action (worker_snapshot cid) (\<lambda>st.
            let st = st\<lparr>st_split_stream := None\<rparr> in
            bind_action (classify_work st) (\<lambda>d. apply_decision n st d fence attempt_id trigger)))
      | NATIVE_RESUME \<Rightarrow> bind_action (apply_native_resume st fence attempt_id) (\<lambda>ok.
          if ok then ret ()
          else bind_action (worker_snapshot cid) (\<lambda>st. apply_handoff_fallback st d fence attempt_id trigger))
      | HANDOFF_FALLBACK \<Rightarrow> apply_handoff_fallback st d fence attempt_id trigger)))"

section \<open>Recovering\<close>

definition recover_owned ::
  "uuid \<Rightarrow> int \<Rightarrow> uuid option \<Rightarrow> recovery_trigger \<Rightarrow> ('z, unit) coordination" where
  "recover_owned cid fence attempt_id trigger = then_do this_worker
     (attempt
       (bind_action (worker_snapshot cid) (\<lambda>st.
        bind_action (classify_work st) (\<lambda>d.
        bind_action (worker_snapshot cid) (\<lambda>st. apply_decision 2 st d fence attempt_id trigger))))
       (\<lambda>e. if \<not> is_exception e then fail e
         else then_do (complete_attempt attempt_id RES_FAILED RR_WORKER_LOST)
           (then_do (suppress_exceptions (close_runtime cid (Some ''recovery_failed'')))
             (modify (\<lambda>w. w\<lparr>co_attempt_ids := AList.delete cid (co_attempt_ids w)\<rparr>)))))"

definition capacity_remaining :: "('z, nat) coordination" where
  "capacity_remaining = (\<lambda>E w.
     (Inr (nat (en_max_runtimes E - int (length (mg_runtimes w) + length (mg_candidates w)))), w))"

definition recover_claimed ::
  "recovery_trigger \<Rightarrow> uuid \<times> int \<times> uuid \<Rightarrow> ('z, unit) coordination" where
  "recover_claimed trigger owned = (case owned of (cid, fence, attempt_id) \<Rightarrow>
     then_do (modify (remember_ownership cid fence (Some attempt_id)))
       (recover_owned cid fence (Some attempt_id) trigger))"

text \<open>\<open>_recover_batch\<close>: how many expired conversations it claimed.\<close>

definition recover_batch :: "int \<Rightarrow> recovery_trigger \<Rightarrow> ('z, nat) coordination" where
  "recover_batch lease trigger = bind_action this_worker (\<lambda>worker.
     bind_action capacity_remaining (\<lambda>n.
     if n = 0 then ret 0
     else bind_action fresh_uuids (\<lambda>u.
       bind_action (transact_with (\<lambda>now. claim_expired_conversations u worker n lease trigger now)
         (ClaimExpired u worker n lease trigger)) (\<lambda>owned.
       then_do (each (recover_claimed trigger) owned) (ret (length owned))))))"

text \<open>\<open>_recover_until_empty\<close>: the loop runs as long as other conversations expire; \<open>n\<close> rounds are let run.\<close>

fun recover_until_empty :: "nat \<Rightarrow> int \<Rightarrow> recovery_trigger \<Rightarrow> ('z, unit) coordination" where
  "recover_until_empty 0 lease trigger = fail Stuck"
| "recover_until_empty (Suc n) lease trigger =
     bind_action get_world (\<lambda>w.
     bind_action capacity_remaining (\<lambda>free.
     if co_draining w \<or> free = 0 then ret ()
     else bind_action (recover_batch lease trigger) (\<lambda>claimed.
       if claimed = 0 then modify (\<lambda>w. w\<lparr>co_initial_recovery_complete := True\<rparr>)
       else recover_until_empty n lease trigger)))"

text \<open>Conversations this worker owned already are recovered too, unless the scan has met them.\<close>

definition open_attempt :: "uuid \<Rightarrow> string \<Rightarrow> int \<Rightarrow> ('z, uuid option) coordination" where
  "open_attempt cid worker fence = read_store (\<lambda>db. Inr (open_recovery_attempt cid worker fence db))"

definition recover_known :: "uuid \<times> int \<Rightarrow> ('z, unit) coordination" where
  "recover_known p = (case p of (cid, fence) \<Rightarrow>
     bind_action get_world (\<lambda>w.
     if dict_get (co_attempt_ids w) cid \<noteq> None then ret ()
     else bind_action this_worker (\<lambda>worker.
       bind_action (open_attempt cid worker fence) (\<lambda>attempt_id.
       then_do (case attempt_id of None \<Rightarrow> ret ()
         | Some i \<Rightarrow> modify (\<lambda>w. w\<lparr>co_attempt_ids := dict_put (co_attempt_ids w) cid i\<rparr>))
         (recover_owned cid fence attempt_id TRIGGER_STARTUP)))))"

definition run_initial_recovery :: "nat \<Rightarrow> int \<Rightarrow> ('z, unit) coordination" where
  "run_initial_recovery n lease = then_do this_worker
     (then_do (recover_until_empty n lease TRIGGER_STARTUP)
     (bind_action get_world (\<lambda>w. then_do (each recover_known (co_fences w))
       (modify (\<lambda>w. if co_phase w = WORKER_STARTING then w\<lparr>co_phase := WORKER_RUNNING\<rparr> else w)))))"

section \<open>Shutting down\<close>

definition held_undelivered :: "string \<Rightarrow> command \<Rightarrow> bool" where
  "held_undelivered worker c \<longleftrightarrow> cmd_status c = CMD_CLAIMED \<and> cmd_worker_id c = Some worker
     \<and> cmd_delivery_started_at c = None"

definition released_copy :: "command \<Rightarrow> command" where
  "released_copy c = c\<lparr>cmd_status := CMD_ACCEPTED, cmd_worker_id := None, cmd_lease_expires_at := None\<rparr>"

definition release_claims_of :: "string \<Rightarrow> uuid \<times> int \<Rightarrow> ('z, unit) coordination" where
  "release_claims_of worker p = (case p of (cid, fence) \<Rightarrow>
     bind_action (attempt (bind_action (worker_snapshot cid) (\<lambda>st. ret (Some st)))
       (\<lambda>e. if is_exception e then ret None else fail e)) (\<lambda>known. case known of
     None \<Rightarrow> ret ()
   | Some st \<Rightarrow> (let released = map released_copy (filter (held_undelivered worker) (dict_values (st_commands st))) in
       if released = [] then ret ()
       else suppress_exceptions (transact (CommitTurnBatch cid (conv_version (st_conversation st))
         (fold (\<lambda>c s. file_command s c) released st) [] released (Some worker) (Some fence))))))"

text \<open>The first delivery in flight of a conversation decides for all: undelivered ones first, then by age.\<close>

definition may_have_begun :: "command \<Rightarrow> bool" where
  "may_have_begun c \<longleftrightarrow> cmd_status c \<in> {CMD_DELIVERY_STARTED, CMD_DELIVERED}
     \<or> (cmd_status c = CMD_CLAIMED \<and> cmd_delivery_started_at c \<noteq> None)"

definition shutdown_rank :: "command \<Rightarrow> nat \<times> datetime" where
  "shutdown_rank c = (if cmd_status c \<noteq> CMD_DELIVERED then 0 else 1, cmd_created_at c)"

definition shutdown_decision :: "conversation_state \<Rightarrow> command \<Rightarrow> recovery_decision" where
  "shutdown_decision st c = \<lparr>rd_kind = OUTCOME_UNKNOWN, rd_action = RA_OUTCOME_UNKNOWN,
     rd_reason_code = RR_DELIVERY_AMBIGUOUS,
     rd_observed_delivery_phase = (if cmd_status c = CMD_DELIVERED then PHASE_DELIVERED else PHASE_DELIVERY_STARTED),
     rd_command_id = Some (cmd_id c), rd_turn_id = command_turn_id c st\<rparr>"

definition terminalize_delivery :: "uuid \<times> int \<Rightarrow> ('z, unit) coordination" where
  "terminalize_delivery p = (case p of (cid, fence) \<Rightarrow>
     attempt
       (bind_action (worker_snapshot cid) (\<lambda>st.
        case sort_key shutdown_rank (filter may_have_begun (dict_values (st_commands st))) of
          [] \<Rightarrow> ret ()
        | c # _ \<Rightarrow> record_outcome_unknown st (shutdown_decision st c) fence None TRIGGER_SHUTDOWN))
       (\<lambda>e. if fault_code e = Some STALE_OWNER then on_lost_lease cid
         else if is_exception e then ret () else fail e))"

text \<open>\<open>begin_shutdown\<close>; the lease slot of the worker is the one its database has for it.\<close>

definition begin_coordinator_shutdown :: "bool \<Rightarrow> ('z, unit) coordination" where
  "begin_coordinator_shutdown sqlite =
     then_do (modify (\<lambda>w. w\<lparr>co_draining := True\<rparr>))
     (then_do begin_shutdown
     (bind_action get_world (\<lambda>w. case co_worker_id w of
        None \<Rightarrow> ret ()
      | Some worker \<Rightarrow>
          then_do (suppress_exceptions (transact (MarkWorkerDraining (worker_lease_slot sqlite worker None) worker)))
          (bind_action get_world (\<lambda>w. then_do (each (release_claims_of worker) (co_fences w))
          (bind_action get_world (\<lambda>w. each terminalize_delivery (co_fences w))))))))"

section \<open>A second decision\<close>

lemma no_reattach_without_cursor:
  assumes "st_split_stream st = None"
  shows "rd_kind (first_decision st now supports_resume) \<noteq> REATTACH"
proof -
  have no_cursor: "\<not> reattachable st" using assms by (simp add: reattachable_def)
  then have live: "rd_kind (continue_live_work st supports_resume phase i t) \<noteq> REATTACH" for phase i t
    by (simp add: continue_live_work_def Let_def)
  then have one: "rd_kind (classify_command c st now supports_resume) \<noteq> REATTACH" for c
    by (simp add: classify_command_def Let_def)
  show ?thesis
    using live one unfolding first_decision_def classify_conversation_def Let_def
    by (auto simp: hd_map split: list.split)
qed

lemma bind_action_cong:
  assumes "\<And>E w x w'. a E w = (Inr x, w') \<Longrightarrow> f x = g x"
  shows "bind_action a f = bind_action a g"
proof (intro ext)
  fix E w show "bind_action a f E w = bind_action a g E w"
  proof (cases "a E w")
    case (Pair r w')
    with assms [of E w] show ?thesis by (cases r) (simp_all add: bind_action_def)
  qed
qed

lemma classify_work_result:
  assumes "classify_work st E w = (Inr d, w')"
  shows "\<exists>now resumes. d = first_decision st now resumes"
  using assms
  by (auto simp: classify_work_def run_simps bind_action_def ret_def split: prod.splits sum.splits if_splits)

lemma one_decision: "rd_kind d \<noteq> REATTACH \<Longrightarrow> apply_decision (Suc n) st d fence i trigger = apply_decision (Suc 0) st d fence i trigger"
  by (cases "rd_kind d") simp_all

text \<open>However much fuel there is beyond two, the decisions are the same.\<close>

lemma two_decisions_suffice: "apply_decision (Suc (Suc n)) st d fence i trigger = apply_decision 2 st d fence i trigger"
proof -
  have "bind_action (classify_work (st'\<lparr>st_split_stream := None\<rparr>)) (\<lambda>d. apply_decision (Suc n) (st'\<lparr>st_split_stream := None\<rparr>) d fence i trigger)
      = bind_action (classify_work (st'\<lparr>st_split_stream := None\<rparr>)) (\<lambda>d. apply_decision (Suc 0) (st'\<lparr>st_split_stream := None\<rparr>) d fence i trigger)" for st'
    by (rule bind_action_cong, drule classify_work_result, elim exE, hypsubst, rule one_decision,
        rule no_reattach_without_cursor) simp
  note later = this
  show ?thesis
    by (simp only: numeral_2_eq_2 apply_decision.simps(2) [of "Suc n" st d fence i trigger]
        apply_decision.simps(2) [of "Suc 0" st d fence i trigger] Let_def later)
qed

section \<open>What the operations leave in the trace\<close>

lemma emits_this_worker [emits_rules]: "emits (list_all p) this_worker"
  unfolding this_worker_def by (intro emits_rules) (auto intro!: emits_rules split: option.split)

lemma emits_capacity_remaining [emits_rules]: "emits (list_all p) capacity_remaining"
  by (rule emits_silent) (simp_all add: capacity_remaining_def)

lemma emits_can_reattach [emits_rules]: "emits (list_all p) (can_reattach cid kind)"
  by (rule emits_silent) (simp_all add: can_reattach_def)

lemma emits_coordinator_tables [emits_rules]:
  "emits (list_all p) (modify (set_fence cid fence))" "emits (list_all p) (modify (remember_ownership cid fence i))"
  "emits (list_all p) (modify (\<lambda>w. drop_fence cid (w\<lparr>co_fences := f w, co_attempt_ids := g w\<rparr>)))"
  "emits (list_all p) (modify (\<lambda>w. w\<lparr>co_attempt_ids := g w\<rparr>))"
  "emits (list_all p) (modify (\<lambda>w. w\<lparr>co_draining := True\<rparr>))" "emits (list_all p) begin_shutdown"
  unfolding begin_shutdown_def
  by (rule items.emits_modify, simp add: set_fence_def drop_fence_def remember_ownership_def Let_def split: option.split)+

locale recovery_items = quiet_items +
  assumes reattaches: "p (Called (Reattach s cursor))"
begin

lemma emits_slot: "emits (list_all p) body \<Longrightarrow> emits (list_all p) (recovery_slot req body)"
  unfolding recovery_slot_def Let_def by (auto intro!: emits_rules)

lemma emits_commit_recovered: "emits (list_all p) (commit_recovered req st st' i row launch es)"
  unfolding commit_recovered_def by (rule emits_commit)

lemma emits_reattach: "emits (list_all p) (reattach_for_recovery req cursor)"
  unfolding reattach_for_recovery_def reattach_body_def Let_def
  by (intro emits_slot)
    (auto intro!: emits_rules emits_commit_recovered emits_import emits_rollback simp: reattaches split: option.split)

lemma emits_resume_native: "emits (list_all p) (resume_native_for_recovery req bid native)"
  unfolding resume_native_for_recovery_def Let_def
  by (auto intro!: emits_rules simp: resumes split: fault.split exn.split)

lemma emits_probe_recovery: "emits (list_all p) (probe_for_recovery req)"
  unfolding probe_for_recovery_def by (auto intro!: emits_rules emits_probe split: fault.split exn.split)

lemma emits_resume_body: "emits (list_all p) (resume_body req native bid st i row launch)"
  unfolding resume_body_def Let_def
  by (auto intro!: emits_rules emits_commit_recovered emits_prepare emits_resume_native split: option.split)

lemma emits_resume: "emits (list_all p) (resume_for_recovery req native previous)"
  unfolding resume_for_recovery_def Let_def
  by (intro emits_slot)
    (auto intro!: emits_rules emits_commit_recovered emits_import emits_rollback emits_force_local emits_probe_recovery
      emits_resume_body split: option.split)

lemma emits_lost_lease: "emits (list_all p) (on_lost_lease cid)"
  unfolding on_lost_lease_def by (intro emits_rules emits_quiesce emits_closes)

lemma emits_complete: "emits (list_all p) (complete_attempt i outcome reason)"
  unfolding complete_attempt_def by (auto intro!: emits_rules simp: wrote split: option.split)

lemma emits_unknown: "emits (list_all p) (record_outcome_unknown st d fence i trigger)"
  unfolding record_outcome_unknown_def by (intro emits_rules emits_publishes) (simp_all add: wrote)

lemma emits_adopt:
  "emits (list_all p) begin_runtime \<Longrightarrow> emits (list_all p) (adopt_recovered_runtime cid begin_runtime fence i)"
  unfolding adopt_recovered_runtime_def
  by (intro emits_rules) (auto intro!: emits_rules emits_lost_lease emits_complete split: sum.split)

lemma emits_adoptions:
  "emits (list_all p) (apply_native_resume st fence i)" "emits (list_all p) (apply_reattach st d fence i)"
  unfolding apply_native_resume_def apply_reattach_def
  by (auto intro!: emits_rules emits_adopt emits_resume emits_reattach split: option.split prod.split)

lemma emits_rotate: "emits (list_all p) (rotate_to_candidate cid bid tok worker fence)"
  unfolding rotate_to_candidate_def
  by (intro emits_rules) (auto intro!: emits_rules emits_promote emits_close_candidate simp: wrote)

lemma emits_classify: "emits (list_all p) (classify_work st)"
  unfolding classify_work_def probe_supports_resume_def
  by (auto intro!: emits_rules emits_probe split: option.split)

lemma emits_note: "emits (list_all p) (transact op)"
  by (intro emits_rules) (simp add: wrote)

lemma emits_recovery_closes: "emits (list_all p) (close_runtime cid reason)"
  by (rule emits_closes)

lemma emits_begin_shutdown: "emits (list_all p) (begin_coordinator_shutdown sqlite)"
  unfolding begin_coordinator_shutdown_def release_claims_of_def terminalize_delivery_def Let_def
  by (auto intro!: emits_rules emits_note emits_unknown emits_lost_lease split: option.split prod.split list.split)

end

section \<open>Opening a session before submitting to it\<close>

definition opens_fresh :: "world_item \<Rightarrow> bool" where
  "opens_fresh x \<longleftrightarrow> (case x of Called (StartNative _ _) \<Rightarrow> True | _ \<Rightarrow> False)"

definition only_seeds :: "world_item \<Rightarrow> bool" where
  "only_seeds x \<longleftrightarrow> (case x of Called (Submit _ _ _ _ _) \<Rightarrow> True | _ \<Rightarrow> \<not> delivers x)"

interpretation undelivering: recovery_items "\<lambda>x. \<not> delivers x"
  by unfold_locales (simp_all add: delivers_def)

interpretation seeding: recovery_items only_seeds
  by unfold_locales (simp_all add: only_seeds_def delivers_def)

lemma marks_fail: "marks p q (fail e)"
  by (auto simp: marks_def fail_def)

lemma marks_call: "\<not> p (Called c) \<Longrightarrow> q (Called c) \<Longrightarrow> marks p q (call_native c)"
  unfolding marks_def by (auto simp: call_native_def Let_def awaited_def split: option.split)

lemma marks_attempt:
  fixes a :: "(environment, 'z world_scheme, fault, 'a) action"
  assumes a: "marks p q a" and h: "\<And>e. marks p q (h e)"
  shows "marks p q (attempt a h)"
  unfolding marks_def
proof (intro allI)
  fix E and w :: "'z world_scheme"
  obtain xs where xs: "w_trace (snd (a E w)) = w_trace w @ xs" "list_all (\<lambda>x. \<not> p x) xs"
    "case fst (a E w) of Inl _ \<Rightarrow> True | Inr _ \<Rightarrow> list_ex q xs"
    using a unfolding marks_def by blast
  show "\<exists>zs. w_trace (snd (attempt a h E w)) = w_trace w @ zs \<and> list_all (\<lambda>x. \<not> p x) zs
     \<and> (case fst (attempt a h E w) of Inl _ \<Rightarrow> True | Inr _ \<Rightarrow> list_ex q zs)"
  proof (cases "\<exists>e w'. a E w = (Inl e, w') \<and> e \<noteq> Stuck")
    case True
    then obtain e w' where e: "a E w = (Inl e, w')" "e \<noteq> Stuck" by blast
    obtain ys where ys: "w_trace (snd (h e E w')) = w_trace w' @ ys" "list_all (\<lambda>x. \<not> p x) ys"
      "case fst (h e E w') of Inl _ \<Rightarrow> True | Inr _ \<Rightarrow> list_ex q ys"
      using h unfolding marks_def by blast
    from ys(3) have "case fst (h e E w') of Inl _ \<Rightarrow> True | Inr _ \<Rightarrow> list_ex q (xs @ ys)"
      by (auto split: sum.splits)
    with e xs ys show ?thesis by (intro exI [of _ "xs @ ys"]) (simp add: attempt_def)
  next
    case False
    then have "attempt a h E w = a E w"
      by (cases "a E w") (auto simp: attempt_def split: sum.split)
    with xs show ?thesis by auto
  qed
qed

lemma marks_then_free:
  fixes f :: "'a \<Rightarrow> (environment, 'z world_scheme, 'e, 'b) action"
  assumes a: "marks p q a" and f: "\<And>x. emits (list_all (\<lambda>x. \<not> p x)) (f x)"
  shows "marks p q (bind_action a f)"
  unfolding marks_def
proof (intro allI)
  fix E and w :: "'z world_scheme"
  obtain xs where xs: "w_trace (snd (a E w)) = w_trace w @ xs" "list_all (\<lambda>x. \<not> p x) xs"
    "case fst (a E w) of Inl _ \<Rightarrow> True | Inr _ \<Rightarrow> list_ex q xs"
    using a unfolding marks_def by blast
  show "\<exists>zs. w_trace (snd (bind_action a f E w)) = w_trace w @ zs \<and> list_all (\<lambda>x. \<not> p x) zs
     \<and> (case fst (bind_action a f E w) of Inl _ \<Rightarrow> True | Inr _ \<Rightarrow> list_ex q zs)"
  proof (cases "a E w")
    case (Pair r w')
    show ?thesis
    proof (cases r)
      case (Inl e)
      with Pair xs show ?thesis by (auto simp: bind_action_def)
    next
      case (Inr x)
      obtain ys where "w_trace (snd (f x E w')) = w_trace w' @ ys" "list_all (\<lambda>x. \<not> p x) ys"
        using emitsD [OF f] by blast
      with Pair Inr xs show ?thesis
        by (intro exI [of _ "xs @ ys"]) (auto simp: bind_action_def split: sum.split)
    qed
  qed
qed

text \<open>A candidate exists only once its session was opened.\<close>

lemma start_candidate_opens: "marks delivers opens_fresh (start_candidate cid owner bid configuration worker fence)"
proof -
  have opened: "marks delivers opens_fresh (bind_action (call_native (StartNative bid configuration)) (\<lambda>r. ret (launch, r)))"
    for launch :: launch_snapshot
    by (intro marks_then_free marks_call) (auto simp: delivers_def opens_fresh_def intro!: emits_rules)
  have handled: "marks delivers opens_fresh (if e = TimedOut
      then then_do (rollback_adapter_startup cid bid configuration) (fail x)
      else then_do (shield (rollback_adapter_startup cid bid configuration)) (fail y))" for e x y
    by (auto intro!: marks_bind marks_fail emits_rules undelivered.emits_rollback)
  have started: "marks delivers opens_fresh (attempt
      (bind_action (probe_and_build_launch configuration) (\<lambda>launch.
       then_do (prepare_workspace configuration None)
       (bind_action (call_native (StartNative bid configuration)) (\<lambda>r. ret (launch, r)))))
      (\<lambda>e. if e = TimedOut
         then then_do (rollback_adapter_startup cid bid configuration) (fail (x e))
         else then_do (shield (rollback_adapter_startup cid bid configuration)) (fail (y e))))" for x y
    by (intro marks_attempt marks_bind opened handled undelivered.emits_probe undelivered.emits_prepare) simp
  show ?thesis
    unfolding start_candidate_def Let_def
    apply (rule marks_bind [OF items.emits_get_world])
    apply (split if_split, intro conjI impI, rule marks_fail)
    apply (split if_split, intro conjI impI, rule marks_fail)
    apply (rule marks_bind [OF emits_capacity])
    apply (rule marks_bind [OF emits_plan])
    apply (rule marks_bind [OF items.emits_uuids])
    apply (rule marks_then_free [OF started])
    apply (auto intro!: emits_rules split: prod.split)
    done
qed

lemma fallback_rejected:
  "emits (list_all (\<lambda>x. \<not> delivers x)) (if \<not> is_exception e then fail e
     else then_do (suppress_exceptions (close_candidate bid))
       (then_do (suppress_exceptions (bind_action (worker_snapshot cid) (\<lambda>st. bind_action read_clock (\<lambda>now.
          transact (RequireRecreation cid (conv_version (st_conversation st)) worker fence now)))))
        (ret None)))"
  by (auto intro!: emits_rules undelivered.emits_close_candidate undelivering.emits_note)

lemma fallback_opens_first:
  "emits (preceded delivers opens_fresh) (recovery_handoff_fallback req bid handoff)"
proof -
  have "emits (\<lambda>_. True) (then_do (seed_candidate tok handoff) (ret (Some tok)))" for tok
    unfolding seed_candidate_def by (intro emits_anything) (auto intro!: emits_rules emits_call_any)
  then show ?thesis
    unfolding recovery_handoff_fallback_def Let_def
    by (intro recorded.emits_attempt marks_then [OF start_candidate_opens] emits_preceded_free [OF fallback_rejected])
qed

lemma undelivering_only_seeds: "emits (list_all (\<lambda>x. \<not> delivers x)) a \<Longrightarrow> emits (list_all only_seeds) a"
  by (erule emits_mono)
    (auto simp: only_seeds_def list_all_iff split: world_item.splits native_call.splits)

lemma fallback_only_seeds: "emits (list_all only_seeds) (recovery_handoff_fallback req bid handoff)"
proof -
  have "emits (list_all only_seeds) (start_candidate cid owner bid configuration worker fence)"
    for cid owner configuration worker fence
    unfolding start_candidate_def Let_def
    by (auto intro!: emits_rules seeding.emits_probe seeding.emits_prepare seeding.emits_rollback
        simp: seeding.starts split: prod.split)
  moreover have "emits (list_all only_seeds) (seed_candidate tok handoff)" for tok
    unfolding seed_candidate_def
    by (auto intro!: emits_rules emits_call_managed simp: only_seeds_def delivers_def)
  ultimately show ?thesis
    unfolding recovery_handoff_fallback_def Let_def
    by (intro items.emits_attempt items.emits_bind items.emits_ret undelivering_only_seeds [OF fallback_rejected])
qed

text \<open>
  The rest of a recovery delivers nothing, so any class of traces that has the undelivering ones and those
  of a fallback has those of a recovery.
\<close>

locale recovery_traces = trace_class +
  assumes quiet: "list_all (\<lambda>x. \<not> delivers x) xs \<Longrightarrow> P xs"
    and fallback: "emits P (recovery_handoff_fallback req bid handoff :: (environment, 'z coordinators_scheme, fault, nat option) action)"
begin

lemma emits_quiet: "emits (list_all (\<lambda>x. \<not> delivers x)) a \<Longrightarrow> emits P a"
  by (erule emits_mono) (rule quiet)

lemma emits_handoff_fallback:
  "emits P (apply_handoff_fallback st d fence i trigger :: ('z, unit) coordination)"
  unfolding apply_handoff_fallback_def Let_def
  by (auto intro!: emits_bind emits_ret emits_snapshots fallback emits_quiet [OF emits_this_worker] emits_quiet [OF emits_handoff]
      emits_quiet [OF undelivering.emits_unknown] emits_quiet [OF undelivering.emits_complete]
      emits_quiet [OF undelivering.emits_rotate] split: option.split)

lemma emits_decision: "emits P (apply_decision n st d fence i trigger :: ('z, unit) coordination)"
proof (induction n st d fence i trigger rule: apply_decision.induct)
  case (2 n st d fence i trigger)
  then show ?case
    by (auto intro!: emits_bind emits_ret emits_snapshots emits_handoff_fallback emits_quiet [OF emits_this_worker]
      emits_quiet [OF undelivering.emits_note] emits_quiet [OF undelivering.emits_unknown]
      emits_quiet [OF undelivering.emits_complete] emits_quiet [OF undelivering.emits_classify]
      emits_quiet [OF undelivering.emits_adoptions(1)] emits_quiet [OF undelivering.emits_adoptions(2)]
      simp: Let_def split: option.split recovery_decision_kind.split)
qed (simp add: emits_fail)

lemma emits_recovery: "emits P (recover_owned cid fence i trigger :: ('z, unit) coordination)"
  unfolding recover_owned_def
  by (auto intro!: emits_bind emits_attempt emits_fail emits_snapshots emits_suppress emits_decision
      emits_quiet [OF emits_this_worker] emits_quiet [OF undelivering.emits_classify]
      emits_quiet [OF undelivering.emits_complete] emits_quiet [OF undelivering.emits_recovery_closes]
      emits_quiet [OF emits_coordinator_tables(4)])

end

interpretation session_first: recovery_traces "preceded delivers opens_fresh"
  by unfold_locales (simp_all add: preceded_free fallback_opens_first)

interpretation seeded: recovery_traces "list_all only_seeds"
  by unfold_locales
    (auto simp: fallback_only_seeds only_seeds_def list_all_iff split: world_item.splits native_call.splits)

lemma emits_conj: "emits P a \<Longrightarrow> emits Q a \<Longrightarrow> emits (\<lambda>xs. P xs \<and> Q xs) a"
  unfolding emits_def by (metis append_eq_append_conv)


text \<open>A shutdown delivers nothing either.\<close>

lemma shutdown_delivers_nothing: "emits (list_all (\<lambda>x. \<not> delivers x)) (begin_coordinator_shutdown sqlite)"
  by (rule undelivering.emits_begin_shutdown)

end
