(* ===== verification/Spec2Isabelle.thy ===== *)
theory Spec2Isabelle
  imports
    Conversation_Properties Prompt_Coalescing Event_Dispatcher Recovery
    Approval_Matching Turn_Usage Version_Compatibility Store_Demonstration
    Redaction Startup_Properties Runtime_Demonstration Delivery_Demonstration Transcripts Approval_Guard
    Read_Models Sandbox_Policy_Properties Gateway_Properties Sandbox_Scopes Image_Properties Worker_Coordinator
begin

text \<open>
  TalkToHarnesses lets people talk to coding agents ("harnesses": Claude, Codex, Cursor and others)
  through one conversation model. This library models its core and proves what makes it correct.

  \<^bold>\<open>The program.\<close> A service process turns requests of people into transitions of a conversation
  aggregate (\<open>domain/\<close>) and commits the next state with its events, command rows and read models in one
  database transaction (\<open>django/persistence.py\<close>). Workers claim command rows under a lease and a fence,
  start the harness runtime a command needs (\<open>runtime/manager.py\<close>), deliver the command
  (\<open>application/command_processor.py\<close>) and pump the harness's events back through the event dispatcher
  into the aggregate. Questions and approvals of a harness go through the interaction broker and the
  approval rules. When a lease runs out another worker takes the conversation over under the next fence
  and the recovery classifier decides what becomes of the commands in flight. Clients follow a
  conversation as server-sent events replayed from the event log. Harnesses may run in sandboxes whose
  policies, images, credentials and gateway are the rest of the code. Paths below are relative to
  \<open>src/src/talktoharnesses/\<close>, or to \<open>src/tth-types/src/tth_types/\<close> for the shared types.

  \<^bold>\<open>Foundations.\<close> \<open>Prelude\<close>: results, dictionaries, strings, identifiers. \<open>Py_Text\<close>, \<open>Pure_Path\<close>, \<open>Utf8\<close>: the
  standard library the code uses, written out. \<open>Machines\<close>: the interfaces of step relations (invariant,
  numbered log, event sourcing, permanence) every system property is an instance of. \<open>Worker_World\<close>: the
  actions of a worker, that is coroutines over the store, the runtimes and a trace, with faults,
  cancellation and conflicts as answers of an environment.

  \<^bold>\<open>Types\<close> (\<open>enums.py\<close>, \<open>errors.py\<close>, \<open>harness.py\<close>, \<open>events.py\<close>, \<open>usage.py\<close>, \<open>sandbox.py\<close>,
  \<open>image_instructions.py\<close>). \<open>Enums\<close>, \<open>Wire_Values\<close>, \<open>Errors\<close>, \<open>Wire_Models\<close>, \<open>Events\<close>, \<open>Turn_Usage\<close>
  (totals equal the first deliveries, however frames repeat).

  \<^bold>\<open>Conversation aggregate\<close> (\<open>domain/transitions.py\<close>, \<open>models.py\<close>, \<open>questions.py\<close>). \<open>Domain_Models\<close> and
  \<open>Conversation_State\<close> hold the data and the numbering of events; \<open>Turn_Transitions\<close>,
  \<open>Interaction_Transitions\<close>, \<open>Metadata_Transitions\<close> and \<open>Session_Transitions\<close> one function per transition.
  \<open>Conversation_Invariant\<close> states the invariant and the abstract lifecycle machine; \<open>Conversation_Steps\<close>,
  \<open>Interaction_Steps\<close>, \<open>Turn_Steps\<close> and \<open>Turn_Ends\<close> show every transition is a sound step;
  \<open>Conversation_Machine\<close> collects them in one relation and interprets the interfaces;
  \<open>Conversation_Properties\<close> and \<open>Prompt_Coalescing\<close> draw the conclusions over all runs, with the scripts of
  \<open>Conversation_Scripts\<close> as their witnesses. \<open>Questions\<close> and \<open>Approval_Matching\<close> are self-contained rules.

  \<^bold>\<open>Application rules.\<close> \<open>Event_Dispatcher\<close>, \<open>Command_Progress\<close>, \<open>Retention\<close>, \<open>Redaction\<close>,
  \<open>Transcripts\<close> model the files of \<open>application/\<close> of the same names (\<open>Command_Progress\<close>:
  \<open>persistence.py\<close>; \<open>Transcripts\<close>: also \<open>handoff.py\<close>).

  \<^bold>\<open>Durable store\<close> (\<open>django/persistence.py\<close>). \<open>Durable_Store\<close>: aggregate rows, commits, claims, fences and
  takeover; \<open>Interaction_Store\<close>: requests, answers, rules and audits; \<open>Recovery_Store\<close>: attempts, the batch
  that ends ambiguous work, session rotation, worker leases. \<open>Durable_Store_Steps\<close> makes every transaction
  a step with its guards; \<open>Durable_Store_Properties\<close> (contiguous log, fencing), \<open>Command_Delivery\<close> (no
  second delivery), \<open>Interaction_Store_Properties\<close> (one answer, one audit) and \<open>History_Pruning\<close> prove what
  holds whoever runs the steps; \<open>Store_Demonstration\<close> runs two workers. \<open>Read_Models\<close>
  (\<open>django/materialize.py\<close>) is the projection each commit writes; the store does not depend on it.

  \<^bold>\<open>Streams\<close> (\<open>django/api/sse.py\<close>, \<open>_sse.py\<close>). \<open>Sse\<close>: framing and decoding; \<open>Event_Replay\<close>: paging;
  \<open>Live_Stream\<close>: the stream of one conversation while other transactions run.

  \<^bold>\<open>Worker\<close> (\<open>runtime/manager.py\<close>, \<open>runtime/workspace_setup.py\<close>, \<open>application/command_processor.py\<close>,
  \<open>interaction_broker.py\<close>, \<open>delta_batcher.py\<close>). \<open>Runtime_Processes\<close>, \<open>Workspace_Setup\<close>, \<open>Runtime_Manager\<close>,
  \<open>Runtime_Start\<close>: the life of a runtime; \<open>Runtime_Traces\<close>, \<open>Startup_Properties\<close>, \<open>Retry_Termination\<close>,
  \<open>Runtime_Properties\<close>: records precede native work, closes come back and free their slot.
  \<open>Interaction_Broker\<close>, \<open>Command_Processor\<close>, \<open>Command_Execution\<close>, \<open>Undelivered_Commands\<close>: the broker and
  the delivery of commands; \<open>Command_Traces\<close> and \<open>Delivery_Properties\<close>: the order of records, publications
  and calls. \<open>Runtime_Demonstration\<close> and \<open>Delivery_Demonstration\<close> hold the concrete inputs.

  \<^bold>\<open>Recovery\<close> (\<open>application/recovery.py\<close>, \<open>application/worker_coordinator.py\<close>, \<open>runtime/manager.py\<close>). \<open>Recovery\<close>
  classifies and builds the batch that settles what may have been delivered, leaving nothing in flight;
  \<open>Runtime_Recovery\<close> resumes, reattaches or starts over; \<open>Worker_Coordinator\<close> applies the decisions at
  startup, takeover and shutdown, and its properties show that none of it delivers a
  command again.

  \<^bold>\<open>Sandboxes\<close> (\<open>command_policy.py\<close>, \<open>django/sandbox_policies.py\<close>, \<open>gateway/\<close>, \<open>remote/\<close>). \<open>Command_Guard\<close>
  and \<open>Approval_Guard\<close>, \<open>Sandbox_Policies\<close> with \<open>Sandbox_Policy_Properties\<close>, \<open>Gateway_Routes\<close>,
  \<open>Gateway_Credentials\<close>, \<open>Gateway_Server\<close> with \<open>Gateway_Properties\<close>, \<open>Sandbox_Scopes\<close>, \<open>Image_Instructions\<close>,
  \<open>Custom_Images\<close> with \<open>Image_Properties\<close>. \<open>Version_Compatibility\<close> is the floor check the split services
  share (\<open>src/tth-cursor/src/tth_cursor/shared/compatibility.py\<close>).
\<close>

text \<open>
  \<^bold>\<open>Conventions of the models.\<close> A raised exception is \<open>Inl\<close>, a transaction that raises leaves the store as
  it was. Frozen classes are records and \<open>model_copy\<close> is a record update. Identifiers come from a supply
  that stands for \<open>uuid4()\<close>; where freshness matters it is an admissibility condition of the step. The
  clock is an argument of a transaction and a part of the world of an action; it does not move between
  two awaits. A transaction is one step, because the code runs it under \<open>transaction.atomic\<close> with its
  rows locked. The lock of a conversation makes each operation of a processor or of the runtime manager
  a sequence of its own steps; between them the environment may run any transaction of another worker.
  The delayed flush of a batch is a step of its own, and the renewal of leases appears as transactions of
  the environment. \<open>Stuck\<close> stands for a call that does not come back, be it of an adapter or of a task that
  waits for a lock it holds.

  \<^bold>\<open>Parameters.\<close> Code outside the repository is an argument: the tree of \<open>bashlex\<close> (one property assumes
  \<open>words_are_pieces\<close>, that the words of a node are pieces of the command), the JSON printer and the sizes it
  gives, the keyed digest and base64, the checks of \<open>urlsplit\<close> on a network location, the answers of the
  file system, git and Docker, the path and executable lookups, the verdict of a service or an adapter,
  including every fault of it. A property that assumes something of such a parameter has a witness with a
  concrete function.

  \<^bold>\<open>Bounds and fuel.\<close> The retry loops of the worker repeat while a commit meets a concurrent write; they
  carry a patience, and \<open>Retry_Termination\<close> shows a patience that outlasts the other writers is enough. The
  guard recurses into scripts that are strictly shorter than the command that holds them, so a fuel of the
  length of the command and one is enough. Accepting a request tries three times and building an image
  twice, as the code does. Replay pages by the limits of the code, and the termination of paging is proved. A
  recovery decides at most twice (\<open>two_decisions_suffice\<close>); the scan for expired conversations runs as long
  as others expire, so its rounds are a number of the caller's.

  \<^bold>\<open>Not modelled.\<close> The search documents and page queries, the service facade, the heartbeat of the worker
  coordinator with its reaction to a lost worker lease, the shutdown of the runtime manager (tasks cancelled
  under deadlines), the mechanics of Docker, the proxy library, the
  address check of DNS answers, the persistence of refreshed tokens, the services that wrap the native
  harnesses, the HTTP client, and observability (logging, fault callbacks, metrics).
\<close>

end
